(* ===== verification/Mulch_Prelude.thy ===== *)
theory Mulch_Prelude
  imports Main "HOL-Library.AList"
begin

text \<open>
  Shared vocabulary of the development: the result types of Go functions that return an
  \<open>error\<close>, loops with early return, the outcome of writing a database file, and time.

  \<^item> A Go function \<open>func f(...) (T, error)\<close> is a function into \<open>'e + 'a\<close>: \<open>Inl\<close> is the
    error return, \<open>Inr\<close> the value.
  \<^item> A method that changes its receiver and may fail returns the new receiver together with
    its result, \<open>'s \<times> 'e option\<close> or \<open>'s \<times> ('e + 'a)\<close>, because in Go the changes made
    before an error return stay.
  \<^item> \<open>foldE\<close> is \<open>for _, x := range xs { ...; if err != nil { return err } }\<close>.
\<close>

named_theorems go_simps "equations of the shared Go-level operations"
named_theorems db_simps "lookup equations of the databases"

subsection \<open>Loops with early return\<close>

fun foldE :: "('a \<Rightarrow> 's \<Rightarrow> 'e + 's) \<Rightarrow> 'a list \<Rightarrow> 's \<Rightarrow> 'e + 's" where
  "foldE f [] s = Inr s"
| "foldE f (x # xs) s = (case f x s of Inl e \<Rightarrow> Inl e | Inr s' \<Rightarrow> foldE f xs s')"

lemma foldE_append:
  "foldE f (xs @ ys) s = (case foldE f xs s of Inl e \<Rightarrow> Inl e | Inr s' \<Rightarrow> foldE f ys s')"
  by (induction xs arbitrary: s) (auto split: sum.splits)

text \<open>The loop rule: what every iteration keeps, the loop keeps.\<close>

lemma foldE_invariant:
  assumes "foldE f xs s = Inr t" and "P s"
    and "\<And>x s s'. x \<in> set xs \<Longrightarrow> P s \<Longrightarrow> f x s = Inr s' \<Longrightarrow> P s'"
  shows "P t"
  using assms
proof (induction xs arbitrary: s)
  case Nil
  then show ?case by simp
next
  case (Cons x xs)
  from Cons.prems(1) obtain s' where "f x s = Inr s'" and "foldE f xs s' = Inr t"
    by (auto split: sum.splits)
  with Cons.prems show ?case by (auto intro: Cons.IH)
qed

lemma foldE_total:
  assumes "P s" and "\<And>x s. x \<in> set xs \<Longrightarrow> P s \<Longrightarrow> \<exists>s'. f x s = Inr s' \<and> P s'"
  shows "\<exists>t. foldE f xs s = Inr t \<and> P t"
  using assms
proof (induction xs arbitrary: s)
  case Nil
  then show ?case by simp
next
  case (Cons x xs)
  from Cons.prems obtain s' where "f x s = Inr s'" and "P s'" by auto
  moreover from Cons.IH [OF \<open>P s'\<close>] Cons.prems(2)
  obtain t where "foldE f xs s' = Inr t" and "P t" by auto
  ultimately show ?case by auto
qed

fun mapE :: "('a \<Rightarrow> 'e + 'b) \<Rightarrow> 'a list \<Rightarrow> 'e + 'b list" where
  "mapE f [] = Inr []"
| "mapE f (x # xs) =
     (case f x of Inl e \<Rightarrow> Inl e
      | Inr y \<Rightarrow> (case mapE f xs of Inl e \<Rightarrow> Inl e | Inr ys \<Rightarrow> Inr (y # ys)))"

lemma mapE_Inr: "mapE f xs = Inr ys \<longleftrightarrow> list_all2 (\<lambda>x y. f x = Inr y) xs ys"
proof (induction xs arbitrary: ys)
  case Nil
  show ?case by auto
next
  case (Cons x xs)
  have "mapE f (x # xs) = Inr ys \<longleftrightarrow> (\<exists>z zs. ys = z # zs \<and> f x = Inr z \<and> mapE f xs = Inr zs)"
    by (auto split: sum.splits)
  then show ?case by (auto simp: Cons.IH list_all2_Cons1)
qed

lemma mapE_length: "mapE f xs = Inr ys \<Longrightarrow> length ys = length xs"
  by (auto simp: mapE_Inr dest: list_all2_lengthD)

text \<open>The first element for which a test holds, as a Go search loop with \<open>return\<close>.\<close>

lemma find_None_all: "find P xs = None \<longleftrightarrow> (\<forall>x\<in>set xs. \<not> P x)"
  by (auto simp: find_None_iff)

lemma find_Some_hit: "find P xs = Some x \<Longrightarrow> P x \<and> x \<in> set xs"
  by (induction xs) (auto split: if_splits)

lemma find_append: "find P (xs @ ys) = (case find P xs of None \<Rightarrow> find P ys | Some x \<Rightarrow> Some x)"
  by (induction xs) auto

lemma find_first_error:
  "(case find (\<lambda>x. f x \<noteq> None) xs of Some x \<Rightarrow> f x | None \<Rightarrow> None) = None \<longleftrightarrow> (\<forall>x\<in>set xs. f x = None)"
proof (cases "find (\<lambda>x. f x \<noteq> None) xs")
  case None
  then have "\<forall>x\<in>set xs. \<not> (f x \<noteq> None)" by (simp only: find_None_all)
  then show ?thesis unfolding None by simp
next
  case (Some x)
  from find_Some_hit [OF this] show ?thesis unfolding Some by auto
qed

lemma find_unique:
  assumes "x \<in> set xs" and "P x" and "\<And>y. y \<in> set xs \<Longrightarrow> P y \<Longrightarrow> y = x"
  shows "find P xs = Some x"
proof -
  from assms(1,2) have "find P xs \<noteq> None" by (auto simp: find_None_all)
  then obtain y where "find P xs = Some y" by auto
  moreover from find_Some_hit [OF this] assms(3) have "y = x" by blast
  ultimately show ?thesis by simp
qed

subsection \<open>Writing a database file\<close>

text \<open>
  Every database of the server is saved by opening its file with \<open>O_TRUNC\<close> and encoding
  the whole map into it. What the operating system answers is an input of the model:
  the open can fail (the old file is untouched) or the encoder can fail after the
  truncation (the content of the file is then lost).
\<close>

datatype io_write = WriteOk | OpenFails string | EncodeFails string

datatype 'a dbfile = NoFile | Damaged | Holds 'a

fun write_file :: "io_write \<Rightarrow> 'a \<Rightarrow> 'a dbfile \<Rightarrow> 'a dbfile \<times> string option" where
  "write_file WriteOk x f = (Holds x, None)"
| "write_file (OpenFails e) x f = (f, Some e)"
| "write_file (EncodeFails e) x f = (Damaged, Some e)"

lemma write_file_ok_iff: "snd (write_file w x f) = None \<longleftrightarrow> w = WriteOk"
  by (cases w) auto

lemma write_file_None [dest]: "write_file w x f = (f', None) \<Longrightarrow> w = WriteOk \<and> f' = Holds x"
  by (cases w) auto

subsection \<open>Time\<close>

text \<open>
  A \<open>time.Time\<close> is the number of nanoseconds since Go's zero time, so \<open>IsZero\<close> is equality
  with 0; \<open>time.Now()\<close> is an argument of the operations that read the clock. A
  \<open>time.Duration\<close> is an \<open>int64\<close> of nanoseconds and \<open>Sub\<close> (and \<open>Since\<close>) saturates.
\<close>

type_synonym time = int
type_synonym duration = int

definition zero_time :: time where "zero_time = 0"

definition max_duration :: duration where "max_duration = 2 ^ 63 - 1"
definition min_duration :: duration where "min_duration = - (2 ^ 63)"

definition time_sub :: "time \<Rightarrow> time \<Rightarrow> duration" where
  "time_sub t u = max min_duration (min max_duration (t - u))"

definition seconds :: "int \<Rightarrow> duration" where "seconds n = n * 1000000000"
definition hours :: "int \<Rightarrow> duration" where "hours n = seconds (3600 * n)"

lemma time_sub_gt_iff: "d < max_duration \<Longrightarrow> min_duration \<le> d \<Longrightarrow> d < time_sub t u \<longleftrightarrow> d < t - u"
  by (auto simp: time_sub_def min_def max_def)

end
