(* ===== verification/Go_Strings.thy ===== *)
theory Go_Strings
  imports Mulch_Prelude "HOL-Library.Sublist" "HOL-Library.Word"
begin

text \<open>
  The part of Go's \<open>strings\<close>, \<open>strconv\<close> and \<open>path\<close> packages the server uses, on \<open>string\<close>
  (a list of bytes). White space and letter case are those of ASCII; Go also knows the
  Unicode ones, which no name, port or domain the server accepts can contain.
\<close>

subsection \<open>Characters\<close>

definition is_digit :: "char \<Rightarrow> bool" where
  "is_digit c \<longleftrightarrow> c \<in> set ''0123456789''"

abbreviation "uppers \<equiv> ''ABCDEFGHIJKLMNOPQRSTUVWXYZ''"
abbreviation "lowers \<equiv> ''abcdefghijklmnopqrstuvwxyz''"

definition is_upper :: "char \<Rightarrow> bool" where "is_upper c \<longleftrightarrow> c \<in> set uppers"
definition is_lower :: "char \<Rightarrow> bool" where "is_lower c \<longleftrightarrow> c \<in> set lowers"

definition is_space :: "char \<Rightarrow> bool" where
  "is_space c \<longleftrightarrow> c = CHR '' '' \<or> c \<in> {CHR 0x09, CHR 0x0A, CHR 0x0B, CHR 0x0C, CHR 0x0D}"

definition upper_char :: "char \<Rightarrow> char" where
  "upper_char c = (case map_of (zip lowers uppers) c of None \<Rightarrow> c | Some d \<Rightarrow> d)"

definition lower_char :: "char \<Rightarrow> char" where
  "lower_char c = (case map_of (zip uppers lowers) c of None \<Rightarrow> c | Some d \<Rightarrow> d)"

definition to_upper :: "string \<Rightarrow> string" where "to_upper = map upper_char"
definition to_lower :: "string \<Rightarrow> string" where "to_lower = map lower_char"

lemma uppers_not_lower: "c \<in> set uppers \<Longrightarrow> c \<notin> set lowers"
  by (simp, elim disjE) simp_all

lemma not_upper_lower_char [simp]: "\<not> is_upper (lower_char c)"
proof (cases "map_of (zip uppers lowers) c")
  case None
  then have "c \<notin> set uppers" by (subst (asm) map_of_zip_is_None) simp_all
  with None show ?thesis by (simp only: lower_char_def is_upper_def option.case not_False_eq_True)
next
  case (Some d)
  then have "(c, d) \<in> set (zip uppers lowers)" by (rule map_of_SomeD)
  then have "d \<in> set lowers" by (rule set_zip_rightD)
  then have "d \<notin> set uppers" using uppers_not_lower by blast
  with Some show ?thesis by (simp only: lower_char_def is_upper_def option.case not_False_eq_True)
qed

subsection \<open>Trimming, splitting, joining\<close>

definition trim_left :: "(char \<Rightarrow> bool) \<Rightarrow> string \<Rightarrow> string" where
  "trim_left P s = dropWhile P s"

definition trim_right :: "(char \<Rightarrow> bool) \<Rightarrow> string \<Rightarrow> string" where
  "trim_right P s = rev (dropWhile P (rev s))"

definition trim_space :: "string \<Rightarrow> string" where
  "trim_space s = trim_right is_space (trim_left is_space s)"

definition has_prefix :: "string \<Rightarrow> string \<Rightarrow> bool" where
  "has_prefix p s \<longleftrightarrow> take (length p) s = p"

fun go_contains :: "string \<Rightarrow> string \<Rightarrow> bool" where
  "go_contains p [] = (p = [])"
| "go_contains p (c # s) = (has_prefix p (c # s) \<or> go_contains p s)"

text \<open>\<open>strings.Split(s, sep)\<close> for a separator that is not empty, the only ones the code uses.\<close>

fun go_split :: "string \<Rightarrow> string \<Rightarrow> string list" where
  "go_split sep [] = [[]]"
| "go_split sep (c # s) =
     (if has_prefix sep (c # s) then [] # go_split sep (drop (length sep - 1) s)
      else (case go_split sep s of [] \<Rightarrow> [[c]] | p # ps \<Rightarrow> (c # p) # ps))"

fun go_join :: "string \<Rightarrow> string list \<Rightarrow> string" where
  "go_join sep [] = []"
| "go_join sep [p] = p"
| "go_join sep (p # q # ps) = p @ sep @ go_join sep (q # ps)"

lemma go_split_not_Nil [simp]: "go_split sep s \<noteq> []"
  by (cases s) (auto split: list.splits)

lemma has_prefix_iff: "has_prefix p s \<longleftrightarrow> (\<exists>t. s = p @ t)"
  by (auto simp: has_prefix_def append_eq_conv_conj) (metis append_take_drop_id)

lemma has_prefix_append [simp]: "has_prefix p (p @ s)"
  by (simp add: has_prefix_def)

lemma go_join_Cons: "ps \<noteq> [] \<Longrightarrow> go_join sep (p # ps) = p @ sep @ go_join sep ps"
  by (cases ps) auto

text \<open>Joining the parts of a split gives the string back.\<close>

lemma go_join_split: "sep \<noteq> [] \<Longrightarrow> go_join sep (go_split sep s) = s"
proof (induction sep s rule: go_split.induct)
  case (1 sep)
  then show ?case by simp
next
  case (2 sep c s)
  show ?case
  proof (cases "has_prefix sep (c # s)")
    case True
    then obtain t where t: "c # s = sep @ t" by (auto simp: has_prefix_iff)
    with 2(3) have "drop (length sep - 1) s = t" by (cases sep) auto
    with True have "go_split sep (c # s) = [] # go_split sep t" by simp
    moreover from True 2 \<open>drop (length sep - 1) s = t\<close>
    have "go_join sep (go_split sep t) = t" by simp
    ultimately show ?thesis using t by (simp add: go_join_Cons)
  next
    case False
    obtain p ps where ps: "go_split sep s = p # ps" by (cases "go_split sep s") auto
    with 2 False have "go_join sep (p # ps) = s" by simp
    then have "go_join sep ((c # p) # ps) = c # s" by (cases ps) auto
    with False ps show ?thesis by simp
  qed
qed

text \<open>A string without the separator's first character is its own only part.\<close>

lemma go_split_none:
  assumes "sep \<noteq> []" and "hd sep \<notin> set s"
  shows "go_split sep s = [s]"
  using assms(2)
proof (induction s)
  case Nil
  then show ?case by simp
next
  case (Cons c s)
  with assms(1) have "\<not> has_prefix sep (c # s)"
    by (cases sep) (auto simp: has_prefix_def)
  with Cons show ?case by simp
qed

lemma go_split_append:
  assumes "sep \<noteq> []" and "hd sep \<notin> set p"
  shows "go_split sep (p @ sep @ s) = p # go_split sep s"
  using assms(2)
proof (induction p)
  case Nil
  from assms(1) obtain c sep' where sep: "sep = c # sep'" by (cases sep) auto
  have "has_prefix (c # sep') (c # sep' @ s)" by (simp add: has_prefix_def)
  with sep show ?case by simp
next
  case (Cons c p)
  with assms(1) have "\<not> has_prefix sep (c # p @ sep @ s)"
    by (cases sep) (auto simp: has_prefix_def)
  with Cons show ?case by simp
qed

lemma trim_space_id:
  assumes "s = [] \<or> \<not> is_space (hd s) \<and> \<not> is_space (last s)"
  shows "trim_space s = s"
proof (cases "s = []")
  case False
  with assms have 1: "dropWhile is_space s = s" by (cases s) auto
  from False assms have 2: "dropWhile is_space (rev s) = rev s"
    by (cases s rule: rev_cases) auto
  from 1 2 show ?thesis by (simp add: trim_space_def trim_left_def trim_right_def)
qed (simp add: trim_space_def trim_left_def trim_right_def)

lemma trim_space_no_spaces: "\<forall>c\<in>set s. \<not> is_space c \<Longrightarrow> trim_space s = s"
  by (rule trim_space_id) (cases s, auto)

subsection \<open>Decimal numbers\<close>

definition digit :: "nat \<Rightarrow> char" where "digit d = ''0123456789'' ! d"

definition digit_val :: "char \<Rightarrow> nat" where "digit_val c = of_char c - 48"

fun itoa_nat :: "nat \<Rightarrow> string" where
  "itoa_nat n = (if n < 10 then [digit n] else itoa_nat (n div 10) @ [digit (n mod 10)])"

declare itoa_nat.simps [simp del]

definition itoa :: "int \<Rightarrow> string" where
  "itoa n = (if n < 0 then CHR ''-'' # itoa_nat (nat (- n)) else itoa_nat (nat n))"

definition digits_val :: "string \<Rightarrow> nat" where
  "digits_val s = foldl (\<lambda>a c. 10 * a + digit_val c) 0 s"

definition max_int :: int where "max_int = 2 ^ 63 - 1"

text \<open>
  \<open>strconv.Atoi\<close>: an optional sign, at least one digit, a value that fits an \<open>int\<close>
  (64 bits); \<open>None\<close> is the error return (syntax or range).
\<close>

definition atoi_digits :: "string \<Rightarrow> nat option" where
  "atoi_digits s = (if s \<noteq> [] \<and> list_all is_digit s then Some (digits_val s) else None)"

definition atoi :: "string \<Rightarrow> int option" where
  "atoi s =
     (let neg = (s \<noteq> [] \<and> hd s = CHR ''-'');
          body = (if s \<noteq> [] \<and> (hd s = CHR ''-'' \<or> hd s = CHR ''+'') then tl s else s)
      in case atoi_digits body of
           None \<Rightarrow> None
         | Some v \<Rightarrow>
             (if neg then (if int v \<le> max_int + 1 then Some (- int v) else None)
              else (if int v \<le> max_int then Some (int v) else None)))"

lemma less_10_cases: "(d::nat) < 10 \<Longrightarrow> d \<in> {0,1,2,3,4,5,6,7,8,9}"
  by auto

lemma digit_is_digit [simp]: "d < 10 \<Longrightarrow> is_digit (digit d)"
  using less_10_cases [of d] by (auto simp: digit_def is_digit_def)

lemma digit_val_digit [simp]: "d < 10 \<Longrightarrow> digit_val (digit d) = d"
  using less_10_cases [of d] by (auto simp: digit_def digit_val_def)

lemma digit_val_bound: "is_digit c \<Longrightarrow> digit_val c < 10"
  by (auto simp: is_digit_def digit_val_def)

lemma digits_val_snoc [simp]: "digits_val (s @ [c]) = 10 * digits_val s + digit_val c"
  by (simp add: digits_val_def)

lemma itoa_nat_not_Nil [simp]: "itoa_nat n \<noteq> []"
  by (subst itoa_nat.simps) simp

lemma itoa_nat_digits: "list_all is_digit (itoa_nat n)"
proof (induction n rule: itoa_nat.induct)
  case (1 n)
  then show ?case by (subst itoa_nat.simps) (auto simp: list_all_append)
qed

lemma digits_val_itoa_nat [simp]: "digits_val (itoa_nat n) = n"
proof (induction n rule: itoa_nat.induct)
  case (1 n)
  show ?case
  proof (cases "n < 10")
    case True
    then show ?thesis
      by (subst itoa_nat.simps) (simp add: digits_val_def)
  next
    case False
    with 1 have "digits_val (itoa_nat (n div 10)) = n div 10" by simp
    with False show ?thesis
      by (subst itoa_nat.simps) simp
  qed
qed

lemma itoa_nat_inject [simp]: "itoa_nat m = itoa_nat n \<longleftrightarrow> m = n"
  by (metis digits_val_itoa_nat)

lemma itoa_nat_chars: "c \<in> set (itoa_nat n) \<Longrightarrow> is_digit c"
  using itoa_nat_digits [of n] by (simp add: list_all_iff)

lemma is_digit_minus [simp]: "\<not> is_digit (CHR ''-'')" "\<not> is_digit (CHR ''+'')"
  by (auto simp: is_digit_def)

lemma hd_itoa_nat: "hd (itoa_nat n) \<noteq> CHR ''-''" "hd (itoa_nat n) \<noteq> CHR ''+''"
  using itoa_nat_chars [of "hd (itoa_nat n)" n] by auto

lemma itoa_inject [simp]: "itoa m = itoa n \<longleftrightarrow> m = n"
  using hd_itoa_nat(1) [of "nat m"] hd_itoa_nat(1) [of "nat n"]
  by (auto simp: itoa_def dest: arg_cong [where f = hd])

text \<open>Printing then parsing a number in the range of \<open>int\<close> gives it back.\<close>

lemma atoi_itoa_nat: "int n \<le> max_int \<Longrightarrow> atoi (itoa_nat n) = Some (int n)"
  using hd_itoa_nat [of n]
  by (auto simp: atoi_def atoi_digits_def itoa_nat_digits Let_def)

lemma atoi_itoa: "- max_int - 1 \<le> n \<Longrightarrow> n \<le> max_int \<Longrightarrow> atoi (itoa n) = Some n"
  by (auto simp: itoa_def atoi_itoa_nat)
     (simp add: atoi_def atoi_digits_def itoa_nat_digits Let_def)

lemma atoi_digit_string:
  assumes "s \<noteq> []" and "list_all is_digit s"
  shows "atoi s = (if int (digits_val s) \<le> max_int then Some (int (digits_val s)) else None)"
proof -
  from assms have "is_digit (hd s)" by (cases s) auto
  then have "hd s \<noteq> CHR ''-''" and "hd s \<noteq> CHR ''+''" by auto
  with assms show ?thesis by (auto simp: atoi_def atoi_digits_def Let_def)
qed

lemma atoi_bounds: "atoi s = Some n \<Longrightarrow> - max_int - 1 \<le> n \<and> n \<le> max_int"
  by (auto simp: atoi_def Let_def max_int_def split: option.splits if_splits)

text \<open>Equations that evaluate the string functions on literals.\<close>

lemma itoa_nat_0: "itoa_nat 0 = ''0''"
  by (subst itoa_nat.simps) (simp add: digit_def)

lemma itoa_nat_1: "itoa_nat (Suc 0) = ''1''"
  by (subst itoa_nat.simps) (simp add: digit_def)

lemmas itoa_nat_numeral = itoa_nat.simps [of "numeral k" for k]

lemmas go_eval =
  itoa_nat_0 itoa_nat_1 itoa_nat_numeral
  is_digit_def is_upper_def is_lower_def is_space_def upper_char_def lower_char_def
  to_upper_def to_lower_def trim_left_def trim_right_def trim_space_def has_prefix_def
  digit_def digit_val_def digits_val_def atoi_digits_def atoi_def max_int_def Let_def

end
