(* ===== verification/Names.thy ===== *)
theory Names
  imports Go_Strings
begin

text \<open>
  Names: the validity checks of \<open>cmd/mulchd/server/tools.go\<close> and the name of a VM with its
  revision, \<open>cmd/mulchd/server/vm_name.go\<close>. The regular expressions are anchored and
  have no overlapping alternatives, so each is written as the scan it describes.
\<close>

definition name_char :: "char \<Rightarrow> bool" where
  "name_char c \<longleftrightarrow> is_upper c \<or> is_lower c \<or> is_digit c \<or> c = CHR ''_''"

definition IsValidName :: "string \<Rightarrow> bool" where
  "IsValidName token = list_all name_char token"

definition IsValidGroupName :: "string \<Rightarrow> bool" where
  "IsValidGroupName token =
     (case token of [] \<Rightarrow> False | c # cs \<Rightarrow> c = CHR ''@'' \<and> list_all name_char cs)"

definition IsValidWord :: "string \<Rightarrow> bool" where
  "IsValidWord token = list_all (\<lambda>c. name_char c \<or> c = CHR ''-'') token"

record vm_name =
  vn_name :: string
  vn_rev :: int

definition NewVMName :: "string \<Rightarrow> int \<Rightarrow> vm_name" where
  "NewVMName name revision = \<lparr>vn_name = name, vn_rev = revision\<rparr>"

datatype name_error = InvalidVMName string | InvalidRevision string

text \<open>\<open>^([A-Za-z0-9_]+)(-r([0-9]+))?$\<close>: the name, then either the end or \<open>-r\<close> and digits.\<close>

definition ParseVMName :: "string \<Rightarrow> name_error + vm_name" where
  "ParseVMName nameID =
     (let name = takeWhile name_char nameID; rest = dropWhile name_char nameID
      in if name = [] then Inl (InvalidVMName nameID)
         else if rest = [] then Inr (NewVMName name 0)
         else if has_prefix ''-r'' rest \<and> drop 2 rest \<noteq> [] \<and> list_all is_digit (drop 2 rest)
         then (case atoi (drop 2 rest) of
                 None \<Rightarrow> Inl (InvalidRevision (drop 2 rest))
               | Some revision \<Rightarrow> Inr (NewVMName name revision))
         else Inl (InvalidVMName nameID))"

definition vn_ID :: "vm_name \<Rightarrow> string" where
  "vn_ID name = (if vn_rev name = 0 then vn_name name
                 else vn_name name @ ''-r'' @ itoa (vn_rev name))"

definition LibvirtDomainName :: "string \<Rightarrow> vm_name \<Rightarrow> string" where
  "LibvirtDomainName vm_prefix name = vm_prefix @ vn_ID name"

text \<open>The names the server gives to its VMs: a valid name and a revision counted from 0.\<close>

definition valid_vm_name :: "vm_name \<Rightarrow> bool" where
  "valid_vm_name n \<longleftrightarrow>
     vn_name n \<noteq> [] \<and> IsValidName (vn_name n) \<and> 0 \<le> vn_rev n \<and> vn_rev n \<le> max_int"

lemma minus_not_name_char [simp]: "\<not> name_char (CHR ''-'')"
  by (simp add: name_char_def is_upper_def is_lower_def is_digit_def)

lemma name_chars_split:
  assumes "list_all name_char s" and "t = [] \<or> \<not> name_char (hd t)"
  shows "takeWhile name_char (s @ t) = s" and "dropWhile name_char (s @ t) = t"
proof -
  from assms(1) have *: "\<forall>c\<in>set s. name_char c" by (simp add: list_all_iff)
  with assms(2) show "takeWhile name_char (s @ t) = s"
    by (cases t) (auto simp: takeWhile_append2)
  from * assms(2) show "dropWhile name_char (s @ t) = t"
    by (cases t) (auto simp: dropWhile_append2)
qed

lemma vn_ID_parts:
  assumes "IsValidName (vn_name n)"
  shows "takeWhile name_char (vn_ID n) = vn_name n"
    and "dropWhile name_char (vn_ID n) = (if vn_rev n = 0 then [] else ''-r'' @ itoa (vn_rev n))"
  using assms name_chars_split [of "vn_name n" "[]"]
    name_chars_split [of "vn_name n" "''-r'' @ itoa (vn_rev n)"]
  by (auto simp: vn_ID_def IsValidName_def)

text \<open>The identifier of a VM determines its name and its revision.\<close>

lemma vn_ID_inject:
  assumes "IsValidName (vn_name m)" and "IsValidName (vn_name n)" and "vn_ID m = vn_ID n"
  shows "m = n"
proof -
  from vn_ID_parts(1) [OF assms(1)] vn_ID_parts(1) [OF assms(2)] assms(3)
  have 1: "vn_name m = vn_name n" by simp
  from vn_ID_parts(2) [OF assms(1)] vn_ID_parts(2) [OF assms(2)] assms(3)
  have "vn_rev m = vn_rev n" by (auto split: if_splits)
  with 1 show ?thesis by (cases m; cases n) simp
qed

lemma parse_ID:
  assumes "valid_vm_name n"
  shows "ParseVMName (vn_ID n) = Inr n"
proof -
  from assms have v: "IsValidName (vn_name n)" and ne: "vn_name n \<noteq> []"
    and r: "0 \<le> vn_rev n" "vn_rev n \<le> max_int" by (auto simp: valid_vm_name_def)
  note parts = vn_ID_parts [OF v]
  show ?thesis
  proof (cases "vn_rev n = 0")
    case True
    with parts ne show ?thesis by (cases n) (simp add: ParseVMName_def NewVMName_def)
  next
    case False
    with r(1) have i: "itoa (vn_rev n) = itoa_nat (nat (vn_rev n))" by (simp add: itoa_def)
    from r have "atoi (itoa_nat (nat (vn_rev n))) = Some (vn_rev n)" by (simp add: atoi_itoa_nat)
    with False parts ne i show ?thesis
      by (cases n) (simp add: ParseVMName_def NewVMName_def has_prefix_def itoa_nat_digits)
  qed
qed

text \<open>What the parser accepts has a valid name and a revision in range.\<close>

lemma parse_valid: "ParseVMName s = Inr n \<Longrightarrow> valid_vm_name n"
proof -
  assume p: "ParseVMName s = Inr n"
  then have name: "vn_name n = takeWhile name_char s" and ne: "vn_name n \<noteq> []"
    by (auto simp: ParseVMName_def NewVMName_def Let_def split: if_splits option.splits)
  from p have "0 \<le> vn_rev n \<and> vn_rev n \<le> max_int"
    by (auto simp: ParseVMName_def NewVMName_def Let_def atoi_digit_string max_int_def
        split: if_splits option.splits)
  moreover have "list_all name_char (takeWhile name_char s)"
    by (auto simp: list_all_iff dest: set_takeWhileD)
  ultimately show ?thesis using name ne by (simp add: valid_vm_name_def IsValidName_def)
qed

end
