(* ===== verification/Go_Maps.thy ===== *)
theory Go_Maps
  imports Mulch_Prelude
begin

text \<open>
  Go's \<open>map[K]V\<close>. Its iteration order is not specified, so a map is an association list:
  the list is the order in which \<open>range\<close> visits the entries, and what is proved for every
  list holds for every order. \<open>go_map\<close> is the interface the databases rely on;
  \<open>keyed_db\<close> is the contract their \<open>Add\<close> and \<open>Delete\<close> methods share.
\<close>

type_synonym ('k, 'v) gomap = "('k \<times> 'v) list"

definition gm_get :: "('k, 'v) gomap \<Rightarrow> 'k \<Rightarrow> 'v option" where
  "gm_get m k = map_of m k"

definition gm_put :: "'k \<Rightarrow> 'v \<Rightarrow> ('k, 'v) gomap \<Rightarrow> ('k, 'v) gomap" where
  "gm_put k v m = AList.update k v m"

definition gm_del :: "'k \<Rightarrow> ('k, 'v) gomap \<Rightarrow> ('k, 'v) gomap" where
  "gm_del k m = AList.delete k m"

definition gm_ok :: "('k, 'v) gomap \<Rightarrow> bool" where
  "gm_ok m \<longleftrightarrow> distinct (map fst m)"

definition gm_keys :: "('k, 'v) gomap \<Rightarrow> 'k list" where "gm_keys m = map fst m"
definition gm_vals :: "('k, 'v) gomap \<Rightarrow> 'v list" where "gm_vals m = map snd m"

subsection \<open>The map interface\<close>

locale go_map =
  fixes get :: "'m \<Rightarrow> 'k \<Rightarrow> 'v option"
    and put :: "'k \<Rightarrow> 'v \<Rightarrow> 'm \<Rightarrow> 'm"
    and del :: "'k \<Rightarrow> 'm \<Rightarrow> 'm"
    and entries :: "'m \<Rightarrow> ('k \<times> 'v) list"
    and ok :: "'m \<Rightarrow> bool"
  assumes get_put: "get (put k v m) k' = (if k' = k then Some v else get m k')"
    and get_del: "get (del k m) k' = (if k' = k then None else get m k')"
    and ok_put: "ok m \<Longrightarrow> ok (put k v m)"
    and ok_del: "ok m \<Longrightarrow> ok (del k m)"
    and entries_get: "ok m \<Longrightarrow> (k, v) \<in> set (entries m) \<longleftrightarrow> get m k = Some v"
begin

lemma get_put_fun: "get (put k v m) = (get m)(k \<mapsto> v)"
  by (auto simp: get_put)

lemma get_del_fun: "get (del k m) = (get m)(k := None)"
  by (auto simp: get_del)

lemma del_put_get: "get (del k (put k v m)) = (get m)(k := None)"
  by (auto simp: get_del get_put)

lemma put_put_get: "get (put k v (put k u m)) = get (put k v m)"
  by (auto simp: get_put)

lemma ok_fold_put: "ok m \<Longrightarrow> ok (fold (\<lambda>x. put (f x) (g x)) xs m)"
  by (induction xs arbitrary: m) (auto simp: ok_put)

lemma get_fold_put:
  "get (fold (\<lambda>x. put (f x) (g x)) xs m) = get m ++ map_of (rev (map (\<lambda>x. (f x, g x)) xs))"
  by (induction xs arbitrary: m) (auto simp: get_put_fun map_add_upd_left fun_eq_iff map_add_def split: option.splits)

lemma ok_fold_del: "ok m \<Longrightarrow> ok (fold del ks m)"
  by (induction ks arbitrary: m) (auto simp: ok_del)

lemma get_fold_del: "get (fold del ks m) k = (if k \<in> set ks then None else get m k)"
  by (induction ks arbitrary: m) (auto simp: get_del)

lemma entries_put: "ok m \<Longrightarrow> set (entries (put k v m)) = insert (k, v) {(k', v'). (k', v') \<in> set (entries m) \<and> k' \<noteq> k}"
  by (auto simp: entries_get ok_put get_put split: if_splits)

lemma entries_del: "ok m \<Longrightarrow> set (entries (del k m)) = {(k', v'). (k', v') \<in> set (entries m) \<and> k' \<noteq> k}"
  by (auto simp: entries_get ok_del get_del split: if_splits)

end

interpretation gm: go_map gm_get gm_put gm_del "\<lambda>m. m" gm_ok
proof
  fix m :: "('k, 'v) gomap" and k k' :: 'k and v :: 'v
  show "gm_get (gm_put k v m) k' = (if k' = k then Some v else gm_get m k')"
    by (simp add: gm_get_def gm_put_def update_conv')
  show "gm_get (gm_del k m) k' = (if k' = k then None else gm_get m k')"
    by (simp add: gm_get_def gm_del_def delete_conv')
  show "gm_ok m \<Longrightarrow> gm_ok (gm_put k v m)"
    by (simp add: gm_ok_def gm_put_def distinct_update)
  show "gm_ok m \<Longrightarrow> gm_ok (gm_del k m)"
    by (simp add: gm_ok_def gm_del_def distinct_delete)
  show "gm_ok m \<Longrightarrow> (k, v) \<in> set m \<longleftrightarrow> gm_get m k = Some v"
    by (auto simp: gm_ok_def gm_get_def)
qed

lemmas gm_simps [simp] = gm.get_put gm.get_del gm.ok_put gm.ok_del

lemma gm_ok_Nil [simp]: "gm_ok []" by (simp add: gm_ok_def)
lemma gm_get_Nil [simp]: "gm_get [] k = None" by (simp add: gm_get_def)

lemma gm_ok_Cons: "gm_ok ((k, v) # m) \<longleftrightarrow> gm_get m k = None \<and> gm_ok m"
  by (auto simp: gm_ok_def gm_get_def map_of_eq_None_iff)

lemma gm_keys_get: "k \<in> set (gm_keys m) \<longleftrightarrow> gm_get m k \<noteq> None"
  by (auto simp: gm_keys_def gm_get_def map_of_eq_None_iff)

lemma gm_get_in: "gm_get m k = Some v \<Longrightarrow> (k, v) \<in> set m"
  by (simp add: gm_get_def map_of_SomeD)

lemma gm_vals_get: "gm_ok m \<Longrightarrow> v \<in> set (gm_vals m) \<longleftrightarrow> (\<exists>k. gm_get m k = Some v)"
  by (force simp: gm_vals_def gm.entries_get [symmetric])

text \<open>Updating every value in place, as a \<open>range\<close> loop over a map of pointers does.\<close>

definition gm_map :: "('v \<Rightarrow> 'v) \<Rightarrow> ('k, 'v) gomap \<Rightarrow> ('k, 'v) gomap" where
  "gm_map f m = map (\<lambda>(k, v). (k, f v)) m"

lemma gm_get_map [simp]: "gm_get (gm_map f m) k = map_option f (gm_get m k)"
  by (simp add: gm_get_def gm_map_def map_of_map)

lemma gm_ok_map [simp]: "gm_ok (gm_map f m) = gm_ok m"
  by (simp add: gm_ok_def gm_map_def comp_def case_prod_unfold)

text \<open>Putting a list of entries, as a loop over a map or a decoder does.\<close>

definition put_all :: "('k \<times> 'v) list \<Rightarrow> ('k, 'v) gomap \<Rightarrow> ('k, 'v) gomap" where
  "put_all kvs m = fold (\<lambda>kv. gm_put (fst kv) (snd kv)) kvs m"

lemma put_all_get: "gm_get (put_all kvs m) k = (case map_of (rev kvs) k of None \<Rightarrow> gm_get m k | Some v \<Rightarrow> Some v)"
  unfolding put_all_def by (induction kvs arbitrary: m) (auto simp: map_add_def split: option.splits)

lemma put_all_None: "gm_get (put_all kvs []) k = None \<longleftrightarrow> k \<notin> fst ` set kvs"
proof -
  have "gm_get (put_all kvs []) k = map_of (rev kvs) k" by (simp add: put_all_get split: option.splits)
  then show ?thesis by (simp add: map_of_eq_None_iff)
qed

lemma put_all_ok: "gm_ok m \<Longrightarrow> gm_ok (put_all kvs m)"
  unfolding put_all_def by (rule gm.ok_fold_put)

lemma put_all_Cons: "put_all ((k, v) # kvs) m = put_all kvs (gm_put k v m)"
  by (simp add: put_all_def)

lemma put_all_append: "put_all (xs @ ys) m = put_all ys (put_all xs m)"
  by (simp add: put_all_def)

lemma put_all_other: "k \<notin> fst ` set kvs \<Longrightarrow> gm_get (put_all kvs m) k = gm_get m k"
  by (induction kvs arbitrary: m) (auto simp: put_all_def)

lemma put_all_distinct:
  assumes "distinct (map fst kvs)"
  shows "gm_get (put_all kvs []) k = Some v \<longleftrightarrow> (k, v) \<in> set kvs"
proof -
  have "distinct (map fst (rev kvs))" using assms by (simp add: rev_map [symmetric])
  then have "map_of (rev kvs) k = Some v \<longleftrightarrow> (k, v) \<in> set (rev kvs)" by (rule map_of_eq_Some_iff)
  then show ?thesis by (cases "map_of (rev kvs) k") (simp_all add: put_all_get)
qed

lemma put_all_copy: "gm_ok m \<Longrightarrow> gm_get (put_all m []) = gm_get m"
proof
  fix k
  assume ok: "gm_ok m"
  then have "gm_get (put_all m []) k = Some v \<longleftrightarrow> gm_get m k = Some v" for v
    by (subst put_all_distinct) (simp_all add: gm_ok_def gm_get_def)
  then show "gm_get (put_all m []) k = gm_get m k" by (cases "gm_get m k") auto
qed

subsection \<open>The contract of a database keyed by name\<close>

datatype ('k, 'v) db_op = DbAdd 'k 'v | DbRemove 'k

fun spec_op :: "('k, 'v) db_op \<Rightarrow> ('k \<Rightarrow> 'v option) \<Rightarrow> ('k \<Rightarrow> 'v option) \<times> bool" where
  "spec_op (DbAdd k v) m = (if m k = None then (m(k \<mapsto> v), True) else (m, False))"
| "spec_op (DbRemove k) m = (if m k \<noteq> None then (m(k := None), True) else (m, False))"

fun spec_run :: "('k, 'v) db_op list \<Rightarrow> ('k \<Rightarrow> 'v option) \<Rightarrow> ('k \<Rightarrow> 'v option) \<times> bool list" where
  "spec_run [] m = (m, [])"
| "spec_run (p # ps) m =
     (let (m1, b) = spec_op p m; (m2, bs) = spec_run ps m1 in (m2, b # bs))"

fun db_apply ::
  "('k \<Rightarrow> 'v \<Rightarrow> 'db \<Rightarrow> 'db \<times> 'e option) \<Rightarrow> ('k \<Rightarrow> 'db \<Rightarrow> 'db \<times> 'e option)
    \<Rightarrow> ('k, 'v) db_op \<Rightarrow> 'db \<Rightarrow> 'db \<times> 'e option" where
  "db_apply add rem (DbAdd k v) db = add k v db"
| "db_apply add rem (DbRemove k) db = rem k db"

fun db_run ::
  "('k \<Rightarrow> 'v \<Rightarrow> 'db \<Rightarrow> 'db \<times> 'e option) \<Rightarrow> ('k \<Rightarrow> 'db \<Rightarrow> 'db \<times> 'e option)
    \<Rightarrow> ('k, 'v) db_op list \<Rightarrow> 'db \<Rightarrow> 'db \<times> bool list" where
  "db_run add rem [] db = (db, [])"
| "db_run add rem (p # ps) db =
     (let (db1, e) = db_apply add rem p db; (db2, bs) = db_run add rem ps db1
      in (db2, (e = None) # bs))"

locale keyed_db =
  fixes look :: "'db \<Rightarrow> 'k \<Rightarrow> 'v option"
    and add :: "'k \<Rightarrow> 'v \<Rightarrow> 'db \<Rightarrow> 'db \<times> 'e option"
    and rem :: "'k \<Rightarrow> 'db \<Rightarrow> 'db \<times> 'e option"
    and ok :: "'db \<Rightarrow> bool"
  assumes add_fresh: "ok db \<Longrightarrow> look db k = None \<Longrightarrow>
      look (fst (add k v db)) = (look db)(k \<mapsto> v) \<and> snd (add k v db) = None"
    and add_dup: "ok db \<Longrightarrow> look db k \<noteq> None \<Longrightarrow>
      fst (add k v db) = db \<and> snd (add k v db) \<noteq> None"
    and rem_found: "ok db \<Longrightarrow> look db k \<noteq> None \<Longrightarrow>
      look (fst (rem k db)) = (look db)(k := None) \<and> snd (rem k db) = None"
    and rem_missing: "ok db \<Longrightarrow> look db k = None \<Longrightarrow>
      fst (rem k db) = db \<and> snd (rem k db) \<noteq> None"
    and ok_add: "ok db \<Longrightarrow> ok (fst (add k v db))"
    and ok_rem: "ok db \<Longrightarrow> ok (fst (rem k db))"
begin

lemma add_then_rem:
  assumes "ok db" and "look db k = None"
  shows "look (fst (rem k (fst (add k v db)))) = look db"
  using assms by (auto simp: add_fresh ok_add rem_found fun_eq_iff)

lemma add_twice:
  assumes "ok db" and "look db k = None"
  shows "snd (add k u (fst (add k v db))) \<noteq> None"
  using assms by (simp add: add_fresh ok_add add_dup)

lemma rem_twice:
  assumes "ok db"
  shows "snd (rem k (fst (rem k db))) \<noteq> None"
  by (cases "look db k") (use assms rem_missing [OF assms] in \<open>auto simp: rem_found ok_rem rem_missing\<close>)

lemma apply_refines:
  assumes "ok db"
  shows "ok (fst (db_apply add rem p db))"
    and "spec_op p (look db) = (look (fst (db_apply add rem p db)), snd (db_apply add rem p db) = None)"
  using assms by (cases p; auto simp: add_fresh add_dup rem_found rem_missing ok_add ok_rem)+

text \<open>Any sequence of additions and removals answers as a partial function would.\<close>

lemma run_refines:
  assumes "ok db"
  shows "spec_run ps (look db) = (look (fst (db_run add rem ps db)), snd (db_run add rem ps db))
    \<and> ok (fst (db_run add rem ps db))"
  using assms
proof (induction ps arbitrary: db)
  case Nil
  then show ?case by simp
next
  case (Cons p ps)
  obtain db1 e where 1: "db_apply add rem p db = (db1, e)" by fastforce
  obtain db2 bs where 2: "db_run add rem ps db1 = (db2, bs)" by fastforce
  from apply_refines [OF Cons.prems, of p] 1
  have "ok db1" and "spec_op p (look db) = (look db1, e = None)" by auto
  with Cons.IH [of db1] 1 2 show ?case by simp
qed

end

end
