(* ===== verification/Vm_Types.thy ===== *)
theory Vm_Types
  imports Names Go_Maps
begin

text \<open>
  The data the server keeps: a port and its direction (\<open>vm_port.go\<close>), a domain
  (\<open>common/domain.go\<close>), a VM configuration (\<open>vm_config.go\<close>), a VM (\<open>vm.go\<close>) and a
  database entry (\<open>vm_database.go\<close>). Machine integers keep their width. The field
  \<open>ReverseProxy\<close> of a domain and the \<open>App\<close> pointer of a VM are run-time links with no
  counterpart here; neither is stored in the databases (\<open>json:"-"\<close>).
\<close>

type_synonym u16 = "16 word"
type_synonym u64 = "64 word"

datatype direction = Export | Import | InvalidDirection
datatype protocol = TCP | OtherProtocol

record vm_port =
  Port :: u16
  Protocol :: protocol
  Direction :: direction
  Index :: int
  Group :: string
  PublicPort :: u16
  ProxyPort :: u16

record domain =
  dom_Name :: string
  dom_VMName :: string
  RedirectTo :: string
  RedirectCode :: int
  DestinationHost :: string
  DestinationPort :: int
  RedirectToHTTPS :: bool
  RateProfile :: string
  TargetURL :: string
  Chained :: bool

record vm_script =
  ScriptURL :: string
  ScriptAs :: string

record do_action =
  da_Name :: string
  da_ScriptURL :: string
  da_User :: string
  da_Description :: string
  da_FromConfig :: bool

record vm_config =
  cfg_FileContent :: string
  cfg_Name :: string
  cfg_Hostname :: string
  cfg_Timezone :: string
  cfg_AppUser :: string
  cfg_Seed :: string
  cfg_InitUpgrade :: bool
  cfg_DiskSize :: u64
  cfg_RAMSize :: u64
  cfg_CPUCount :: int
  cfg_Domains :: "domain list"
  cfg_Env :: "(string, string) gomap"
  cfg_Secrets :: "string list"
  cfg_Ports :: "vm_port list"
  cfg_BackupDiskSize :: u64
  cfg_BackupCompress :: bool
  cfg_RestoreBackup :: string
  cfg_AutoRebuild :: string
  cfg_BuildTimeout :: duration
  cfg_Prepare :: "vm_script list"
  cfg_Install :: "vm_script list"
  cfg_Backup :: "vm_script list"
  cfg_Restore :: "vm_script list"
  cfg_DoActions :: "(string, do_action) gomap"
  cfg_Tags :: "(string, bool) gomap"

definition empty_config :: vm_config where
  "empty_config =
     \<lparr>cfg_FileContent = [], cfg_Name = [], cfg_Hostname = [], cfg_Timezone = [], cfg_AppUser = [],
      cfg_Seed = [], cfg_InitUpgrade = False, cfg_DiskSize = 0, cfg_RAMSize = 0, cfg_CPUCount = 0,
      cfg_Domains = [], cfg_Env = [], cfg_Secrets = [], cfg_Ports = [], cfg_BackupDiskSize = 0,
      cfg_BackupCompress = False, cfg_RestoreBackup = [], cfg_AutoRebuild = [], cfg_BuildTimeout = 0,
      cfg_Prepare = [], cfg_Install = [], cfg_Backup = [], cfg_Restore = [], cfg_DoActions = [],
      cfg_Tags = []\<rparr>"

datatype vm_operation = OpNone | OpBackup | OpRestore

record vm =
  LibvirtUUID :: string
  SecretUUID :: string
  Config :: vm_config
  AuthorKey :: string
  MulchSuperUserSSHKey :: string
  InitDate :: time
  LastIP :: string
  Locked :: bool
  WIP :: vm_operation
  LastRebuildDuration :: duration
  LastRebuildDowntime :: duration
  AssignedMAC :: string
  AssignedIPv4 :: string

definition empty_vm :: vm where
  "empty_vm =
     \<lparr>LibvirtUUID = [], SecretUUID = [], Config = empty_config, AuthorKey = [],
      MulchSuperUserSSHKey = [], InitDate = zero_time, LastIP = [], Locked = False, WIP = OpNone,
      LastRebuildDuration = 0, LastRebuildDowntime = 0, AssignedMAC = [], AssignedIPv4 = []\<rparr>"

record vm_entry =
  Name :: vm_name
  VM :: vm
  Active :: bool

end
