(* ===== verification/Ports.thy ===== *)
theory Ports
  imports Vm_Types
begin

text \<open>
  The ports of a VM, \<open>cmd/mulchd/server/vm_port.go\<close>: how the lines of the \<open>ports\<close> setting
  are exploded and parsed, and the two string forms the server uses as map keys.
\<close>

definition VMPortPublic :: string where "VMPortPublic = ''@PUBLIC''"
definition VMPortBaseForward :: u16 where "VMPortBaseForward = 9001"
definition VMPortMaxRangeSize :: int where "VMPortMaxRangeSize = 20"
definition VMPortProxyProtocoDefault :: u16 where "VMPortProxyProtocoDefault = 8443"

datatype port_error =
    InvalidSourceRange string string
  | InvalidDestinationRange string string
  | RangeSizesDiffer string
  | RangeTooBig string
  | RangeTooSmall string
  | NoDirection string
  | InvalidPortString string
  | InvalidPort string
  | NotAnInteger string
  | OutOfBound int
  | OnlyTCP string
  | InvalidGroup string
  | PublicImport
  | InvalidPublicGroup string
  | DuplicatePort string

subsection \<open>String forms\<close>

definition port_String :: "vm_port \<Rightarrow> string" where
  "port_String p =
     (let arrow = (if Direction p = Import then ''<-'' else ''->'');
          proto = (if Protocol p = TCP then ''tcp'' else ''???'');
          publicPort = (if PublicPort p \<noteq> 0 then '':'' @ itoa_nat (unat (PublicPort p)) else [])
      in itoa_nat (unat (Port p)) @ ''/'' @ proto @ arrow @ Group p @ publicPort)"

definition GlobalID :: "vm_port \<Rightarrow> string" where
  "GlobalID p =
     (if PublicPort p \<noteq> 0 then ''...->'' @ Group p @ '':'' @ itoa_nat (unat (PublicPort p))
      else port_String p)"

subsection \<open>Comments\<close>

text \<open>
  \<open>^(.*) (\((.*)\))?$\<close>: \<open>.*\<close> is greedy, so the last space counts after which the line is
  empty or one parenthesised text; \<open>.\<close> does not match a newline.
\<close>

definition comment_text :: "string \<Rightarrow> string option" where
  "comment_text s =
     (if s = [] then Some []
      else if 2 \<le> length s \<and> hd s = CHR ''('' \<and> last s = CHR '')'' then Some (butlast (tl s))
      else None)"

fun last_comment :: "string \<Rightarrow> (string \<times> string) option" where
  "last_comment [] = None"
| "last_comment (c # s) =
     (case last_comment s of
        Some (l, m) \<Rightarrow> Some (c # l, m)
      | None \<Rightarrow> if c = CHR '' '' then map_option (\<lambda>m. ([], m)) (comment_text s) else None)"

definition portExtractComment :: "string \<Rightarrow> string \<times> string" where
  "portExtractComment line =
     (if CHR 0x0A \<in> set line then (line, [])
      else case last_comment line of None \<Rightarrow> (line, []) | Some lm \<Rightarrow> lm)"

subsection \<open>Exploding port ranges\<close>

text \<open>\<open>^(\d+)-(\d+)/(tcp) *(<-|->) *(@[A-Za-z0-9_]+)(:(\d+)(-(\d+))?)?$\<close>\<close>

definition match_range ::
  "string \<Rightarrow> (string \<times> string \<times> string \<times> string \<times> string \<times> string) option" where
  "match_range line =
     (let d1 = takeWhile is_digit line; r1 = dropWhile is_digit line in
      if d1 = [] \<or> \<not> has_prefix ''-'' r1 then None else
      let d2 = takeWhile is_digit (tl r1); r2 = dropWhile is_digit (tl r1) in
      if d2 = [] \<or> \<not> has_prefix ''/tcp'' r2 then None else
      let r3 = dropWhile (\<lambda>c. c = CHR '' '') (drop 4 r2) in
      if \<not> (has_prefix ''<-'' r3 \<or> has_prefix ''->'' r3) then None else
      let arrow = take 2 r3; r4 = dropWhile (\<lambda>c. c = CHR '' '') (drop 2 r3) in
      if \<not> has_prefix ''@'' r4 then None else
      let g = takeWhile name_char (tl r4); r5 = dropWhile name_char (tl r4) in
      if g = [] then None else
      if r5 = [] then Some (d1, d2, arrow, ''@'' @ g, [], []) else
      if \<not> has_prefix '':'' r5 then None else
      let d3 = takeWhile is_digit (tl r5); r6 = dropWhile is_digit (tl r5) in
      if d3 = [] then None else
      if r6 = [] then Some (d1, d2, arrow, ''@'' @ g, d3, []) else
      if \<not> has_prefix ''-'' r6 then None else
      let d4 = takeWhile is_digit (tl r6); r7 = dropWhile is_digit (tl r6) in
      if d4 = [] \<or> r7 \<noteq> [] then None else Some (d1, d2, arrow, ''@'' @ g, d3, d4))"

definition wrap_int :: "int \<Rightarrow> int" where
  "wrap_int n = (n + 2 ^ 63) mod 2 ^ 64 - 2 ^ 63"

definition range_line :: "int \<Rightarrow> int \<Rightarrow> string \<Rightarrow> string \<Rightarrow> string \<Rightarrow> int \<Rightarrow> string" where
  "range_line srcStart dstStart direction grp comment i =
     itoa (wrap_int (srcStart + i)) @ ''/tcp '' @ direction @ '' '' @ grp
     @ (if srcStart = dstStart then [] else '':'' @ itoa (wrap_int (dstStart + i)))
     @ (if comment \<noteq> [] then '' ('' @ comment @ '')'' else [])"

definition explode_range ::
  "string \<Rightarrow> string \<Rightarrow> (string \<times> string \<times> string \<times> string \<times> string \<times> string)
    \<Rightarrow> port_error + string list" where
  "explode_range line comment items =
     (case items of (i1, i2, direction, grp, i7, i9) \<Rightarrow>
      case atoi i1 of None \<Rightarrow> Inl (InvalidSourceRange i1 line) | Some srcStart \<Rightarrow>
      case atoi i2 of None \<Rightarrow> Inl (InvalidSourceRange i2 line) | Some srcEnd \<Rightarrow>
      case (if i7 = [] then Inr (srcStart, srcEnd)
            else case atoi i7 of None \<Rightarrow> Inl (InvalidDestinationRange i7 line) | Some dstStart \<Rightarrow>
              if i9 = [] then Inr (dstStart, wrap_int (dstStart + (srcEnd - srcStart)))
              else case atoi i9 of None \<Rightarrow> Inl (InvalidDestinationRange i9 line)
                   | Some dstEnd \<Rightarrow> Inr (dstStart, dstEnd)) of
        Inl e \<Rightarrow> Inl e
      | Inr (dstStart, dstEnd) \<Rightarrow>
          if wrap_int (srcEnd - srcStart) \<noteq> wrap_int (dstEnd - dstStart) then Inl (RangeSizesDiffer line)
          else let rangeSize = wrap_int (srcEnd - srcStart + 1) in
            if VMPortMaxRangeSize < rangeSize then Inl (RangeTooBig line)
            else if rangeSize < 2 then Inl (RangeTooSmall line)
            else Inr (map (\<lambda>i. range_line srcStart dstStart direction grp comment (int i))
                        [0..<nat rangeSize]))"

definition explode_line :: "string \<Rightarrow> port_error + string list" where
  "explode_line lineOrg =
     (let (line0, comment) = portExtractComment lineOrg; line = trim_space line0
      in case match_range line of
           None \<Rightarrow> Inr [lineOrg]
         | Some items \<Rightarrow> explode_range line comment items)"

definition explode_ports :: "string list \<Rightarrow> port_error + string list" where
  "explode_ports strPorts =
     (case mapE explode_line strPorts of Inl e \<Rightarrow> Inl e | Inr ls \<Rightarrow> Inr (concat ls))"

subsection \<open>Parsing one line\<close>

text \<open>\<open>strings.Contains\<close> of the arrows; a line with both counts as an export.\<close>

definition line_direction :: "string \<Rightarrow> (string \<times> direction) option" where
  "line_direction line =
     (if go_contains ''->'' line then Some (''->'', Export)
      else if go_contains ''<-'' line then Some (''<-'', Import) else None)"

definition parse_proxy :: "string \<Rightarrow> port_error + u16" where
  "parse_proxy comment =
     (let parts = go_split '':'' comment in
      if hd parts = ''PROXY'' then
        (if length parts = 2 then
           (case atoi (parts ! 1) of None \<Rightarrow> Inl (NotAnInteger (parts ! 1))
            | Some p \<Rightarrow> Inr (word_of_int p))
         else Inr VMPortProxyProtocoDefault)
      else Inr 0)"

definition parse_public :: "string \<Rightarrow> u16 \<Rightarrow> port_error + u16" where
  "parse_public grp port =
     (let groupParts = go_split '':'' grp in
      if hd groupParts \<noteq> VMPortPublic then Inl (InvalidPublicGroup grp)
      else if length groupParts = 1 then Inr port
      else if length groupParts = 2 then
        (case atoi (groupParts ! 1) of None \<Rightarrow> Inl (NotAnInteger (groupParts ! 1))
         | Some n \<Rightarrow> if n < 1 \<or> 65535 < n then Inl (OutOfBound n) else Inr (word_of_int n))
      else Inl (InvalidPublicGroup grp))"

definition parse_number :: "string \<Rightarrow> string \<Rightarrow> port_error + u16" where
  "parse_number line part =
     (let strPort = trim_space (to_lower part); portParts = go_split ''/'' strPort in
      if length portParts \<noteq> 2 then Inl (InvalidPort strPort)
      else case atoi (portParts ! 0) of None \<Rightarrow> Inl (NotAnInteger line)
      | Some portNum \<Rightarrow>
          if portNum < 1 \<or> 65535 < portNum then Inl (OutOfBound portNum)
          else if portParts ! 1 \<noteq> ''tcp'' then Inl (OnlyTCP line)
          else Inr (word_of_int portNum))"

definition parse_line :: "string \<Rightarrow> int \<Rightarrow> int \<Rightarrow> port_error + vm_port" where
  "parse_line orgLine exportIndex importIndex =
     (let (line, comment) = portExtractComment orgLine in
      case line_direction line of None \<Rightarrow> Inl (NoDirection line) | Some (sep, dir) \<Rightarrow>
      let lineParts = go_split sep line in
      if length lineParts \<noteq> 2 then Inl (InvalidPortString line) else
      case parse_number line (lineParts ! 0) of Inl e \<Rightarrow> Inl e | Inr port \<Rightarrow>
      let grp = trim_space (lineParts ! 1);
          base = \<lparr>Port = port, Protocol = TCP, Direction = dir,
                  Index = (if dir = Export then exportIndex else importIndex),
                  Group = [], PublicPort = 0, ProxyPort = 0\<rparr> in
      if \<not> has_prefix VMPortPublic grp then
        (let lgroup = to_lower grp in
         if IsValidGroupName lgroup then Inr (base\<lparr>Group := lgroup\<rparr>) else Inl (InvalidGroup lgroup))
      else if dir \<noteq> Export then Inl PublicImport
      else case parse_public grp port of Inl e \<Rightarrow> Inl e | Inr public \<Rightarrow>
      case parse_proxy comment of Inl e \<Rightarrow> Inl e | Inr proxy \<Rightarrow>
      Inr (base\<lparr>Group := VMPortPublic, PublicPort := public, ProxyPort := proxy\<rparr>))"

subsection \<open>The array of ports\<close>

definition port_key :: "vm_port \<Rightarrow> u16 \<times> direction \<times> protocol \<times> string \<times> u16" where
  "port_key p = (Port p, Direction p, Protocol p, Group p, PublicPort p)"

record port_scan =
  scanned :: "vm_port list"
  exportIndex :: int
  importIndex :: int

definition scan_line :: "string \<Rightarrow> port_scan \<Rightarrow> port_error + port_scan" where
  "scan_line orgLine st =
     (case parse_line orgLine (exportIndex st) (importIndex st) of
        Inl e \<Rightarrow> Inl e
      | Inr port \<Rightarrow>
          if list_ex (\<lambda>p. port_key port = port_key p) (scanned st) then Inl (DuplicatePort (fst (portExtractComment orgLine)))
          else Inr \<lparr>scanned = scanned st @ [port],
                    exportIndex = exportIndex st + (if Direction port = Export then 1 else 0),
                    importIndex = importIndex st + (if Direction port = Import then 1 else 0)\<rparr>)"

definition NewVMPortArray :: "string list \<Rightarrow> port_error + vm_port list" where
  "NewVMPortArray strPorts =
     (case explode_ports strPorts of Inl e \<Rightarrow> Inl e
      | Inr strPortsAll \<Rightarrow>
          (case foldE scan_line strPortsAll \<lparr>scanned = [], exportIndex = 0, importIndex = 0\<rparr> of
             Inl e \<Rightarrow> Inl e
           | Inr st \<Rightarrow> Inr (scanned st)))"

subsection \<open>What the parser guarantees\<close>

definition wf_port :: "vm_port \<Rightarrow> bool" where
  "wf_port p \<longleftrightarrow>
     Port p \<noteq> 0 \<and> Protocol p = TCP \<and> Direction p \<noteq> InvalidDirection \<and>
     (if PublicPort p \<noteq> 0 then Direction p = Export \<and> Group p = VMPortPublic
      else IsValidGroupName (Group p) \<and> list_all (\<lambda>c. \<not> is_upper c) (Group p) \<and> ProxyPort p = 0)"

lemma no_upper_to_lower: "list_all (\<lambda>c. \<not> is_upper c) (to_lower s)"
  by (simp add: to_lower_def list_all_iff)


lemma word16_not_0:
  assumes "1 \<le> n" and "n \<le> 65535"
  shows "(word_of_int n :: u16) \<noteq> 0"
proof
  assume "(word_of_int n :: u16) = 0"
  then have "uint (word_of_int n :: u16) = 0" by simp
  with assms show False by (simp add: uint_word_of_int)
qed

lemma parse_number_nonzero: "parse_number line part = Inr w \<Longrightarrow> w \<noteq> 0"
  by (auto simp: parse_number_def Let_def word16_not_0 split: if_splits option.splits)

lemma parse_public_nonzero: "parse_public grp w = Inr v \<Longrightarrow> w \<noteq> 0 \<Longrightarrow> v \<noteq> 0"
  by (auto simp: parse_public_def Let_def word16_not_0 split: if_splits option.splits)

lemma line_direction_valid: "line_direction line = Some (sep, dir) \<Longrightarrow> dir = Export \<or> dir = Import"
  by (auto simp: line_direction_def split: if_splits)

lemma parse_line_wf: "parse_line l e i = Inr p \<Longrightarrow> wf_port p"
  by (auto simp: parse_line_def Let_def wf_port_def no_upper_to_lower
      dest: parse_number_nonzero parse_public_nonzero line_direction_valid
      split: prod.splits option.splits if_splits sum.splits)

lemma parse_line_index:
  "parse_line l e i = Inr p \<Longrightarrow> Index p = (if Direction p = Export then e else i)"
  by (auto simp: parse_line_def Let_def split: prod.splits option.splits if_splits sum.splits)

abbreviation exported :: "vm_port list \<Rightarrow> vm_port list" where
  "exported ps \<equiv> filter (\<lambda>p. Direction p = Export) ps"

abbreviation imported :: "vm_port list \<Rightarrow> vm_port list" where
  "imported ps \<equiv> filter (\<lambda>p. Direction p = Import) ps"

definition ports_ok :: "vm_port list \<Rightarrow> bool" where
  "ports_ok ps \<longleftrightarrow>
     list_all wf_port ps \<and> distinct (map port_key ps) \<and>
     map Index (exported ps) = map int [0..<length (exported ps)] \<and>
     map Index (imported ps) = map int [0..<length (imported ps)]"

definition scan_ok :: "port_scan \<Rightarrow> bool" where
  "scan_ok st \<longleftrightarrow> ports_ok (scanned st) \<and>
     exportIndex st = int (length (exported (scanned st))) \<and>
     importIndex st = int (length (imported (scanned st)))"

lemma scan_line_ok: "scan_ok st \<Longrightarrow> scan_line l st = Inr st' \<Longrightarrow> scan_ok st'"
  by (auto simp: scan_line_def scan_ok_def ports_ok_def list_ex_iff image_iff
      dest: parse_line_wf parse_line_index split: sum.splits if_splits)

lemma array_ports_ok:
  assumes "NewVMPortArray ls = Inr ps"
  shows "ports_ok ps"
proof -
  from assms obtain all st where
    f: "foldE scan_line all \<lparr>scanned = [], exportIndex = 0, importIndex = 0\<rparr> = Inr st"
    and ps: "ps = scanned st"
    by (auto simp: NewVMPortArray_def split: sum.splits)
  have "scan_ok st"
  proof (rule foldE_invariant [OF f])
    show "scan_ok \<lparr>scanned = [], exportIndex = 0, importIndex = 0\<rparr>"
      by (simp add: scan_ok_def ports_ok_def)
  qed (rule scan_line_ok)
  with ps show ?thesis by (simp add: scan_ok_def)
qed

subsection \<open>The string form identifies a port\<close>

lemma name_char_not_colon: "name_char c \<Longrightarrow> c \<noteq> CHR '':''"
  by (auto simp: name_char_def is_upper_def is_lower_def is_digit_def)

lemma wf_port_group_colon: "wf_port p \<Longrightarrow> CHR '':'' \<notin> set (Group p)"
  by (auto simp: wf_port_def VMPortPublic_def IsValidGroupName_def list_all_iff
      dest: name_char_not_colon split: list.splits if_splits)

lemma digits_then:
  assumes "\<not> is_digit c"
  shows "takeWhile is_digit (itoa_nat n @ c # s) = itoa_nat n"
    and "dropWhile is_digit (itoa_nat n @ c # s) = c # s"
  using assms by (simp_all add: takeWhile_append2 dropWhile_append2 itoa_nat_chars)

lemma slash_not_digit [simp]: "\<not> is_digit (CHR ''/'')"
  by (simp add: is_digit_def)

lemma colon_split:
  assumes "CHR '':'' \<notin> set g" and "t = [] \<or> hd t = CHR '':''"
  shows "takeWhile (\<lambda>c. c \<noteq> CHR '':'') (g @ t) = g" and "dropWhile (\<lambda>c. c \<noteq> CHR '':'') (g @ t) = t"
proof -
  from assms(1) have *: "\<forall>c\<in>set g. c \<noteq> CHR '':''" by auto
  with assms(2) show "takeWhile (\<lambda>c. c \<noteq> CHR '':'') (g @ t) = g"
    by (cases t) (auto simp: takeWhile_append2)
  from * assms(2) show "dropWhile (\<lambda>c. c \<noteq> CHR '':'') (g @ t) = t"
    by (cases t) (auto simp: dropWhile_append2)
qed

definition public_suffix :: "vm_port \<Rightarrow> string" where
  "public_suffix p = (if PublicPort p \<noteq> 0 then '':'' @ itoa_nat (unat (PublicPort p)) else [])"

lemma public_suffix_inject: "public_suffix p = public_suffix q \<Longrightarrow> PublicPort p = PublicPort q"
  by (auto simp: public_suffix_def word_unat_eq_iff split: if_splits)

lemma group_suffix_inject:
  assumes "wf_port p" and "wf_port q" and "Group p @ public_suffix p = Group q @ public_suffix q"
  shows "Group p = Group q \<and> PublicPort p = PublicPort q"
proof -
  have s: "public_suffix r = [] \<or> hd (public_suffix r) = CHR '':''" for r
    by (simp add: public_suffix_def)
  note p = colon_split [OF wf_port_group_colon [OF assms(1)] s [of p]]
    and q = colon_split [OF wf_port_group_colon [OF assms(2)] s [of q]]
  from p(1) q(1) have "Group p = Group q" by (simp only: assms(3))
  moreover from p(2) q(2) have "public_suffix p = public_suffix q" by (simp only: assms(3))
  ultimately show ?thesis using public_suffix_inject by blast
qed

lemma port_String_eq:
  "wf_port p \<Longrightarrow> port_String p =
     itoa_nat (unat (Port p)) @ CHR ''/'' # ''tcp'' @
     (if Direction p = Import then ''<-'' else ''->'') @ Group p @ public_suffix p"
  by (simp add: port_String_def public_suffix_def wf_port_def)

lemma port_String_inject:
  assumes "wf_port p" and "wf_port q" and "port_String p = port_String q"
  shows "port_key p = port_key q"
proof -
  let ?rest = "\<lambda>r. ''tcp'' @ (if Direction r = Import then ''<-'' else ''->'') @ Group r @ public_suffix r"
  from assms(3) have e: "itoa_nat (unat (Port p)) @ CHR ''/'' # ?rest p = itoa_nat (unat (Port q)) @ CHR ''/'' # ?rest q"
    by (simp only: port_String_eq [OF assms(1)] port_String_eq [OF assms(2)])
  from arg_cong [OF e, of "takeWhile is_digit"] have 1: "Port p = Port q"
    by (simp only: digits_then [OF slash_not_digit] itoa_nat_inject word_unat_eq_iff)
  from arg_cong [OF e, of "dropWhile is_digit"] have r: "?rest p = ?rest q"
    by (simp only: digits_then [OF slash_not_digit] list.inject)
  from r assms(1,2) have 2: "Direction p = Direction q"
    by (cases "Direction p"; cases "Direction q") (auto simp: wf_port_def)
  from r 2 have "Group p @ public_suffix p = Group q @ public_suffix q" by (auto split: if_splits)
  with assms(1,2) have "Group p = Group q \<and> PublicPort p = PublicPort q" by (rule group_suffix_inject)
  with 1 2 assms(1,2) show ?thesis by (simp add: port_key_def wf_port_def)
qed

subsection \<open>Printing then parsing\<close>

lemma last_comment_none: "CHR '' '' \<notin> set s \<Longrightarrow> last_comment s = None"
  by (induction s) auto

lemma extract_no_space:
  "CHR '' '' \<notin> set s \<Longrightarrow> portExtractComment s = (s, [])"
  by (simp add: portExtractComment_def last_comment_none)

definition port_char :: "char \<Rightarrow> bool" where
  "port_char c \<longleftrightarrow> name_char c \<or> c = CHR ''@'' \<or> c = CHR '':''"

lemma port_char_special [simp]:
  "\<not> port_char (CHR ''-'')" "\<not> port_char (CHR ''<'')" "\<not> port_char (CHR ''>'')"
  "\<not> port_char (CHR '' '')" "\<not> port_char (CHR ''/'')"
  by (auto simp: port_char_def name_char_def is_upper_def is_lower_def is_digit_def)

lemma port_char_not_space: "port_char c \<Longrightarrow> \<not> is_space c"
  by (auto simp: is_space_def port_char_def name_char_def is_upper_def is_lower_def is_digit_def)

lemma digit_port_char: "is_digit c \<Longrightarrow> port_char c"
  by (simp add: port_char_def name_char_def)

lemma itoa_port_chars: "c \<in> set (itoa_nat n) \<Longrightarrow> port_char c"
  by (simp add: digit_port_char itoa_nat_chars)

lemma wf_port_group_chars: "wf_port p \<Longrightarrow> c \<in> set (Group p @ public_suffix p) \<Longrightarrow> port_char c"
  by (auto simp: wf_port_def VMPortPublic_def IsValidGroupName_def list_all_iff public_suffix_def
      port_char_def is_upper_def name_char_def
      dest: itoa_nat_chars split: list.splits if_splits)

lemma contains_char: "p \<noteq> [] \<Longrightarrow> c \<in> set p \<Longrightarrow> c \<notin> set s \<Longrightarrow> \<not> go_contains p s"
proof (induction s)
  case (Cons a s)
  then have "c \<notin> set (take (length p) (a # s))" by (meson in_set_takeD)
  with Cons show ?case by (auto simp: has_prefix_def)
qed auto

lemma contains_append: "go_contains p (s @ p @ t)"
proof (induction s)
  case Nil
  have "has_prefix p (p @ t)" by simp
  then show ?case by (cases "p @ t") auto
qed simp

lemma lower_char_digit: "is_digit c \<Longrightarrow> lower_char c = c"
  unfolding is_digit_def
  by (simp only: list.set insert_iff empty_iff simp_thms, elim disjE) (simp_all add: lower_char_def)

lemma to_lower_number: "to_lower (itoa_nat n @ ''/tcp'') = itoa_nat n @ ''/tcp''"
proof -
  have "map lower_char (itoa_nat n) = itoa_nat n"
    by (rule map_idI) (simp add: lower_char_digit itoa_nat_chars)
  then show ?thesis by (simp add: to_lower_def) (simp add: lower_char_def)
qed

lemma u16_bound: "unat (w :: u16) < 65536"
  using unsigned_less [of w, where ?'a = nat] by simp

lemma atoi_u16: "atoi (itoa_nat (unat (w :: u16))) = Some (int (unat w))"
proof (rule atoi_itoa_nat)
  have "int (unat w) < 65536" using u16_bound [of w] by linarith
  moreover have "(65536 :: int) \<le> max_int" by (simp add: max_int_def)
  ultimately show "int (unat w) \<le> max_int" by linarith
qed

lemma u16_in_bounds:
  assumes "w \<noteq> 0"
  shows "\<not> (int (unat (w :: u16)) < 1 \<or> 65535 < int (unat w))"
proof -
  from assms have "0 < unat w" by (simp add: unat_gt_0)
  with u16_bound [of w] show ?thesis by linarith
qed

lemma parse_number_print:
  assumes "w \<noteq> 0"
  shows "parse_number line (itoa_nat (unat w) @ ''/tcp'') = Inr (w :: u16)"
proof -
  let ?s = "itoa_nat (unat w) @ ''/tcp''"
  have "\<forall>c\<in>set ?s. \<not> is_space c"
    by (auto dest!: itoa_port_chars simp: port_char_not_space) (auto simp: is_space_def)
  then have 1: "trim_space (to_lower ?s) = ?s" by (simp only: to_lower_number trim_space_no_spaces)
  have 2: "go_split ''/'' ?s = [itoa_nat (unat w), ''tcp'']"
  proof -
    have "CHR ''/'' \<notin> set (itoa_nat (unat w))" using itoa_port_chars by fastforce
    then have "go_split ''/'' (itoa_nat (unat w) @ ''/'' @ ''tcp'') = itoa_nat (unat w) # go_split ''/'' ''tcp''"
      by (intro go_split_append) simp_all
    then show ?thesis by (simp add: has_prefix_def)
  qed
  have 3: "[itoa_nat (unat w), ''tcp''] ! 0 = itoa_nat (unat w)" by simp
  show ?thesis
    unfolding parse_number_def Let_def 1 2 3 atoi_u16 option.case if_not_P [OF u16_in_bounds [OF assms]]
    by simp
qed

lemma parse_public_print:
  assumes "w \<noteq> 0"
  shows "parse_public (VMPortPublic @ '':'' @ itoa_nat (unat w)) port = Inr (w :: u16)"
proof -
  have "CHR '':'' \<notin> set (itoa_nat (unat w))"
    using itoa_nat_chars [of "CHR '':''" "unat w"] by (auto simp: is_digit_def)
  then have 1: "go_split '':'' (VMPortPublic @ '':'' @ itoa_nat (unat w)) = [VMPortPublic, itoa_nat (unat w)]"
    by (subst go_split_append) (auto simp: VMPortPublic_def go_split_none)
  have 2: "[VMPortPublic, itoa_nat (unat w)] ! 1 = itoa_nat (unat w)" by simp
  show ?thesis
    unfolding parse_public_def Let_def 1 2 atoi_u16 option.case if_not_P [OF u16_in_bounds [OF assms]]
    by simp
qed

text \<open>The second half of a printed port, \<open>group:public\<close>.\<close>

lemma lower_char_not_upper: "\<not> is_upper c \<Longrightarrow> lower_char c = c"
proof -
  assume "\<not> is_upper c"
  then have "map_of (zip uppers lowers) c = None" by (subst map_of_zip_is_None) (simp_all add: is_upper_def)
  then show ?thesis by (simp add: lower_char_def)
qed

lemma to_lower_id: "list_all (\<lambda>c. \<not> is_upper c) s \<Longrightarrow> to_lower s = s"
  unfolding to_lower_def by (rule map_idI) (simp add: list_all_iff lower_char_not_upper)

definition arrow_of :: "vm_port \<Rightarrow> string" where
  "arrow_of p = (if Direction p = Import then ''<-'' else ''->'')"

lemma port_String_parts:
  "wf_port p \<Longrightarrow> port_String p = (itoa_nat (unat (Port p)) @ ''/tcp'') @ arrow_of p @ (Group p @ public_suffix p)"
  by (simp add: port_String_eq arrow_of_def)

lemma parts_chars:
  assumes "wf_port p"
  shows "c \<in> set (Group p) \<Longrightarrow> port_char c" and "c \<in> set (public_suffix p) \<Longrightarrow> port_char c"
  using wf_port_group_chars [OF assms] by auto

lemma port_String_chars:
  assumes "wf_port p" and "c \<in> set (port_String p)"
  shows "port_char c \<or> c \<in> set ''/<->''" and "c = CHR ''>'' \<Longrightarrow> Direction p = Export"
    and "c = CHR ''<'' \<Longrightarrow> Direction p = Import"
proof -
  have tcp: "\<forall>c\<in>set ''/tcp''. port_char c \<or> c = CHR ''/''"
    by (simp add: port_char_def name_char_def is_lower_def)
  from assms consider "c \<in> set (itoa_nat (unat (Port p)))" | "c \<in> set ''/tcp''" | "c \<in> set (arrow_of p)"
    | "c \<in> set (Group p @ public_suffix p)"
    unfolding port_String_parts [OF assms(1)] by auto
  note cases = this
  show "port_char c \<or> c \<in> set ''/<->''"
    by (rule cases) (use tcp in \<open>auto simp: arrow_of_def itoa_port_chars split: if_splits
        dest: parts_chars [OF assms(1)]\<close>)
  from assms(1) have d: "Direction p = Import \<or> Direction p = Export"
    by (cases "Direction p") (auto simp: wf_port_def)
  show "c = CHR ''>'' \<Longrightarrow> Direction p = Export" 
    by (rule cases) (use d tcp in \<open>auto simp: arrow_of_def split: if_splits
        dest: parts_chars [OF assms(1)] itoa_port_chars\<close>)
  show "c = CHR ''<'' \<Longrightarrow> Direction p = Import"
    by (rule cases) (use d tcp in \<open>auto simp: arrow_of_def split: if_splits
        dest: parts_chars [OF assms(1)] itoa_port_chars\<close>)
qed

lemma direction_print:
  assumes "wf_port p"
  shows "line_direction (port_String p) = Some (arrow_of p, Direction p)"
proof -
  have c: "go_contains (arrow_of p) (port_String p)"
    unfolding port_String_parts [OF assms] by (rule contains_append)
  show ?thesis
  proof (cases "Direction p = Import")
    case True
    with port_String_chars(2) [OF assms] have "CHR ''>'' \<notin> set (port_String p)" by auto
    then have "\<not> go_contains ''->'' (port_String p)" by (intro contains_char [of _ "CHR ''>''"]) auto
    with True c show ?thesis by (simp add: line_direction_def arrow_of_def)
  next
    case False
    with assms have "Direction p = Export" by (cases "Direction p") (auto simp: wf_port_def)
    with c show ?thesis by (simp add: line_direction_def arrow_of_def)
  qed
qed

lemma split_print:
  assumes "wf_port p"
  shows "go_split (arrow_of p) (port_String p) =
    [itoa_nat (unat (Port p)) @ ''/tcp'', Group p @ public_suffix p]"
proof -
  have tcp: "\<forall>c\<in>set ''/tcp''. c \<noteq> CHR ''<'' \<and> c \<noteq> CHR ''-''" by simp
  have h: "hd (arrow_of p) = CHR ''<'' \<or> hd (arrow_of p) = CHR ''-''" and ne: "arrow_of p \<noteq> []"
    by (simp_all add: arrow_of_def)
  then have 1: "hd (arrow_of p) \<notin> set (itoa_nat (unat (Port p)) @ ''/tcp'')"
    using tcp by (auto dest: itoa_port_chars)
  from h have 2: "hd (arrow_of p) \<notin> set (Group p @ public_suffix p)"
    by (auto dest: wf_port_group_chars [OF assms] simp del: set_append)
  show ?thesis
    unfolding port_String_parts [OF assms] go_split_append [OF ne 1] go_split_none [OF ne 2] ..
qed

lemma parse_line_print:
  assumes "wf_port p"
  shows "parse_line (port_String p) e i =
    Inr (p\<lparr>Index := (if Direction p = Export then e else i), ProxyPort := 0\<rparr>)"
proof -
  have sp: "\<not> is_space c" if "c \<in> set (Group p @ public_suffix p)" for c
    using wf_port_group_chars [OF assms that] by (rule port_char_not_space)
  then have trim: "trim_space (Group p @ public_suffix p) = Group p @ public_suffix p"
    by (intro trim_space_no_spaces) blast
  have "CHR '' '' \<notin> set (port_String p)" using port_String_chars(1) [OF assms, of "CHR '' ''"] by auto
  note ex = extract_no_space [OF this]
  have num: "parse_number l (itoa_nat (unat (Port p)) @ ''/tcp'') = Inr (Port p)" for l
    using assms by (intro parse_number_print) (simp add: wf_port_def)
  have nth: "[a, b] ! 0 = a" "[a, b] ! 1 = b" "length [a, b] = 2" for a b :: string by simp_all
  note line = parse_line_def ex direction_print [OF assms] split_print [OF assms] nth Let_def
    prod.case option.case sum.case num trim
  have wf: "Protocol p = TCP" using assms by (simp add: wf_port_def)
  show ?thesis
  proof (cases "PublicPort p = 0")
    case True
    with assms have g: "IsValidGroupName (Group p)" "list_all (\<lambda>c. \<not> is_upper c) (Group p)"
      by (auto simp: wf_port_def)
    have "\<not> has_prefix VMPortPublic (Group p)"
    proof
      assume "has_prefix VMPortPublic (Group p)"
      then obtain t where "Group p = VMPortPublic @ t" by (auto simp: has_prefix_iff)
      with g(2) show False by (simp add: VMPortPublic_def is_upper_def)
    qed
    with True g wf assms show ?thesis
      unfolding line by (cases p) (auto simp: public_suffix_def to_lower_id wf_port_def)
  next
    case False
    with assms have g: "Group p = VMPortPublic" "Direction p = Export" by (auto simp: wf_port_def)
    from False have s: "public_suffix p = '':'' @ itoa_nat (unat (PublicPort p))" by (simp add: public_suffix_def)
    have "parse_proxy [] = Inr 0" by (simp add: parse_proxy_def)
    with g s wf parse_public_print [OF False] show ?thesis
      unfolding line by (cases p) (simp del: append.simps)
  qed
qed

lemma match_range_print:
  assumes "wf_port p"
  shows "match_range (trim_space (port_String p)) = None"
proof -
  have "\<not> is_space c" if "c \<in> set (port_String p)" for c
    using port_String_chars(1) [OF assms that]
    by (elim disjE port_char_not_space) (auto simp: is_space_def)
  then have "\<forall>c\<in>set (port_String p). \<not> is_space c" ..
  then have 1: "trim_space (port_String p) = port_String p" by (rule trim_space_no_spaces)
  have "dropWhile is_digit (port_String p) = CHR ''/'' # ''tcp'' @ arrow_of p @ Group p @ public_suffix p"
    unfolding port_String_eq [OF assms] arrow_of_def [symmetric] digits_then(2) [OF slash_not_digit] ..
  then show ?thesis unfolding 1 match_range_def by (simp add: Let_def has_prefix_def)
qed

lemma explode_line_print:
  assumes "wf_port p"
  shows "explode_line (port_String p) = Inr [port_String p]"
proof -
  have "CHR '' '' \<notin> set (port_String p)" using port_String_chars(1) [OF assms, of "CHR '' ''"] by auto
  note ex = extract_no_space [OF this]
  show ?thesis by (simp add: explode_line_def ex match_range_print [OF assms])
qed

lemma explode_print: "list_all wf_port ps \<Longrightarrow> explode_ports (map port_String ps) = Inr (map port_String ps)"
proof -
  assume "list_all wf_port ps"
  then have "mapE explode_line (map port_String ps) = Inr (map (\<lambda>s. [s]) (map port_String ps))"
    by (induction ps) (simp_all add: explode_line_print)
  moreover have "concat (map (\<lambda>s. [s]) xs) = xs" for xs :: "string list" by (induction xs) simp_all
  ultimately show ?thesis by (simp only: explode_ports_def sum.case)
qed

lemma ports_ok_snoc:
  assumes "ports_ok (ps @ [p])"
  shows "ports_ok ps" and "wf_port p" and "port_key p \<notin> port_key ` set ps"
    and "Index p = int (length (if Direction p = Export then exported ps else imported ps))"
proof -
  have p: "Direction p = Export \<or> Direction p = Import"
    using assms by (cases "Direction p") (auto simp: ports_ok_def wf_port_def)
  with assms show "ports_ok ps" by (auto simp: ports_ok_def)
  from assms show "wf_port p" and "port_key p \<notin> port_key ` set ps" by (auto simp: ports_ok_def)
  from p assms show "Index p = int (length (if Direction p = Export then exported ps else imported ps))"
    by (auto simp: ports_ok_def)
qed

lemma scan_print:
  assumes "ports_ok ps" and "list_all (\<lambda>p. ProxyPort p = 0) ps"
  shows "foldE scan_line (map port_String ps) \<lparr>scanned = [], exportIndex = 0, importIndex = 0\<rparr> =
    Inr \<lparr>scanned = ps, exportIndex = int (length (exported ps)), importIndex = int (length (imported ps))\<rparr>"
  using assms
proof (induction ps rule: rev_induct)
  case Nil
  then show ?case by simp
next
  case (snoc p ps)
  note p = ports_ok_snoc [OF snoc.prems(1)]
  have "p\<lparr>Index := Index p, ProxyPort := 0\<rparr> = p" using snoc.prems(2) by (cases p) simp
  then have "parse_line (port_String p) (int (length (exported ps))) (int (length (imported ps))) = Inr p"
    using p(4) by (cases "Direction p = Export") (simp_all add: parse_line_print [OF p(2)])
  moreover have "\<not> list_ex (\<lambda>q. port_key p = port_key q) ps" using p(3) by (auto simp: list_ex_iff)
  ultimately show ?case
    using snoc p(1) by (simp add: foldE_append scan_line_def)
qed

lemma array_print:
  assumes "ports_ok ps" and "list_all (\<lambda>p. ProxyPort p = 0) ps"
  shows "NewVMPortArray (map port_String ps) = Inr ps"
proof -
  from assms(1) have "list_all wf_port ps" by (simp add: ports_ok_def)
  then show ?thesis
    unfolding NewVMPortArray_def explode_print [OF \<open>list_all wf_port ps\<close>] sum.case scan_print [OF assms]
    by simp
qed

end
