(* ===== verification/Vm_Database.thy ===== *)
theory Vm_Database
  imports Ports
begin

text \<open>
  The VM database, \<open>cmd/mulchd/server/vm_database.go\<close>, with the conflict checks it uses
  (\<open>domains.go\<close> and \<open>CheckPortsConflicts\<close> of \<open>vm_port.go\<close>) and the two files derived from
  it for the reverse proxy. An entry holds its VM by value; the pointers of the Go code
  are the keys of the map. Methods take the mutex for their whole body, so each is one step.
  The answers of the operating system, of the resolver and of the parent proxy are inputs.
\<close>

subsection \<open>State and environment\<close>

record tcp_addr =
  ta_IP :: string
  ta_Port :: u16

record tcp_forwarder =
  Dest :: tcp_addr
  PROXYProtoPort :: u16

record tcp_listener =
  ListenAddr :: tcp_addr
  Forwards :: "(string, tcp_forwarder) gomap"

record vmdb =
  db :: "(string, vm_entry) gomap"
  greenhouseDB :: "(string, vm_entry) gomap"
  vmdb_file :: "(string, vm_entry) gomap dbfile"
  domain_file :: "(string, domain) gomap dbfile"
  port_file :: "(u16, tcp_listener) gomap dbfile"
  updates :: nat

datatype chain_mode = ChainNone | ChainChild | ChainParent

record chain_conflict =
  cc_Domain :: string
  cc_Owner :: string

datatype chain_answer =
    NoAnswer string
  | AnswerCode int
  | AnswerGarbage string
  | AnswerConflicts "chain_conflict list"

record vmdb_env =
  env_ProxyChainMode :: chain_mode
  env_ChildURL :: string
  env_parent :: "string list \<Rightarrow> string \<Rightarrow> chain_answer"
  env_gateway :: string
  env_resolves :: "string \<Rightarrow> bool"
  env_write_db :: io_write
  env_write_domains :: io_write
  env_write_ports :: io_write

datatype vmdb_error =
    VmNotInDB string
  | VmExists string
  | NotInGreenhouse string
  | ExistsInGreenhouse string
  | NoVmNamed string
  | NoActiveVm string
  | UuidNotFound
  | DomainRegistered string string
  | PortExported string string
  | ImportsOwnPort string
  | ParentUnreachable string
  | ParentCode int
  | ParentGarbage string
  | ParentConflicts "chain_conflict list"
  | DomainDuplicated string string string
  | UnsupportedProtocol string
  | CannotResolve string
  | PublicPortDuplicated u16
  | DbIO string

definition RevisionNone :: int where "RevisionNone = -1"

subsection \<open>Lookups\<close>

definition GetNames :: "vmdb \<Rightarrow> vm_name list" where
  "GetNames st = map Name (gm_vals (db st))"

definition GetGreenhouseNames :: "vmdb \<Rightarrow> vm_name list" where
  "GetGreenhouseNames st = map Name (gm_vals (greenhouseDB st))"

definition getEntryByID :: "vmdb \<Rightarrow> string \<Rightarrow> vmdb_error + vm_entry" where
  "getEntryByID st key =
     (case gm_get (db st) key of None \<Rightarrow> Inl (VmNotInDB key) | Some entry \<Rightarrow> Inr entry)"

definition GetEntryByName :: "vmdb \<Rightarrow> vm_name \<Rightarrow> vmdb_error + vm_entry" where
  "GetEntryByName st name = getEntryByID st (vn_ID name)"

definition GetByName :: "vmdb \<Rightarrow> vm_name \<Rightarrow> vmdb_error + vm" where
  "GetByName st name =
     (case GetEntryByName st name of Inl e \<Rightarrow> Inl e | Inr entry \<Rightarrow> Inr (VM entry))"

definition GetByNameID :: "vmdb \<Rightarrow> string \<Rightarrow> vmdb_error + vm" where
  "GetByNameID st key =
     (case gm_get (db st) key of None \<Rightarrow> Inl (VmNotInDB key) | Some entry \<Rightarrow> Inr (VM entry))"

text \<open>The loop \<open>maxRevision := -1; for ... { if ... > maxRevision { maxRevision = ... } }\<close>.\<close>

definition raise_revision :: "(vm_entry \<Rightarrow> bool) \<Rightarrow> vm_entry \<Rightarrow> int \<Rightarrow> int" where
  "raise_revision P e m = (if P e \<and> m < vn_rev (Name e) then vn_rev (Name e) else m)"

definition max_revision :: "(vm_entry \<Rightarrow> bool) \<Rightarrow> vm_entry list \<Rightarrow> int" where
  "max_revision P es = fold (raise_revision P) es (-1)"

definition GetActiveEntryByName :: "vmdb \<Rightarrow> string \<Rightarrow> vmdb_error + vm_entry option" where
  "GetActiveEntryByName st name =
     (let maxRevision = max_revision (\<lambda>e. vn_name (Name e) = name \<and> Active e) (gm_vals (db st))
      in if maxRevision = -1 then Inl (NoActiveVm name)
         else Inr (gm_get (db st) (vn_ID (NewVMName name maxRevision))))"

definition GetNextRevisionForName :: "vmdb \<Rightarrow> string \<Rightarrow> int" where
  "GetNextRevisionForName st name =
     max_revision (\<lambda>e. vn_name (Name e) = name) (gm_vals (db st)) + 1"

definition GetGreenhouseEntryByName :: "vmdb \<Rightarrow> vm_name \<Rightarrow> vmdb_error + vm_entry" where
  "GetGreenhouseEntryByName st name =
     (case gm_get (greenhouseDB st) (vn_ID name) of
        None \<Rightarrow> Inl (NotInGreenhouse (vn_ID name)) | Some entry \<Rightarrow> Inr entry)"

definition SearchGreenhouseEntries :: "vmdb \<Rightarrow> string \<Rightarrow> vm_entry list" where
  "SearchGreenhouseEntries st name =
     filter (\<lambda>e. vn_name (Name e) = name) (gm_vals (greenhouseDB st))"

definition GetEntryBySecretUUID :: "vmdb \<Rightarrow> string \<Rightarrow> vmdb_error + vm_entry" where
  "GetEntryBySecretUUID st uuid =
     (case find (\<lambda>e. SecretUUID (VM e) = uuid) (gm_vals (db st)) of
        Some entry \<Rightarrow> Inr entry
      | None \<Rightarrow>
          (case find (\<lambda>e. SecretUUID (VM e) = uuid) (gm_vals (greenhouseDB st)) of
             Some entry \<Rightarrow> Inr entry | None \<Rightarrow> Inl UuidNotFound))"

definition Count :: "vmdb \<Rightarrow> nat" where "Count st = length (db st)"

definition IsVMActive :: "vmdb \<Rightarrow> vm_name \<Rightarrow> vmdb_error + bool" where
  "IsVMActive st name =
     (case gm_get (db st) (vn_ID name) of
        None \<Rightarrow> Inl (VmNotInDB (vn_ID name)) | Some entry \<Rightarrow> Inr (Active entry))"

definition GetCountForName :: "vmdb \<Rightarrow> string \<Rightarrow> nat" where
  "GetCountForName st name = length (filter (\<lambda>e. vn_name (Name e) = name) (gm_vals (db st)))"

subsection \<open>Conflicts\<close>

text \<open>The active entries both checks look at, in the order they are visited.\<close>

definition excluded :: "string \<Rightarrow> vm_name \<Rightarrow> bool" where
  "excluded excludeVM vmName \<longleftrightarrow> excludeVM \<noteq> [] \<and> vn_name vmName = excludeVM"

definition visit_active ::
  "vmdb \<Rightarrow> string \<Rightarrow> vm_name \<Rightarrow> vm_entry list \<Rightarrow> vmdb_error + vm_entry list" where
  "visit_active st excludeVM vmName found =
     (if excluded excludeVM vmName then Inr found
      else case GetEntryByName st vmName of
          Inl e \<Rightarrow> Inl e
        | Inr entry \<Rightarrow> Inr (if Active entry then found @ [entry] else found))"

definition other_active :: "vmdb \<Rightarrow> string \<Rightarrow> vmdb_error + vm_entry list" where
  "other_active st excludeVM = foldE (visit_active st excludeVM) (GetNames st) []"

definition entry_domains :: "vm_entry \<Rightarrow> (string \<times> string) list" where
  "entry_domains e = map (\<lambda>d. (dom_Name d, cfg_Name (Config (VM e)))) (cfg_Domains (Config (VM e)))"

definition CheckDomainsConflictsOnParent :: "vmdb_env \<Rightarrow> domain list \<Rightarrow> vmdb_error option" where
  "CheckDomainsConflictsOnParent env domains =
     (case env_parent env (map dom_Name domains) (env_ChildURL env) of
        NoAnswer e \<Rightarrow> Some (ParentUnreachable e)
      | AnswerCode code \<Rightarrow> Some (ParentCode code)
      | AnswerGarbage e \<Rightarrow> Some (ParentGarbage e)
      | AnswerConflicts cs \<Rightarrow> if cs = [] then None else Some (ParentConflicts cs))"

definition CheckDomainsConflicts ::
  "vmdb_env \<Rightarrow> vmdb \<Rightarrow> domain list \<Rightarrow> string \<Rightarrow> vmdb_error option" where
  "CheckDomainsConflicts env st domains excludeVM =
     (case other_active st excludeVM of Inl e \<Rightarrow> Some e
      | Inr entries \<Rightarrow>
          let domainMap = put_all (concat (map entry_domains entries)) [] in
          case find (\<lambda>d. gm_get domainMap (dom_Name d) \<noteq> None) domains of
            Some d \<Rightarrow> Some (DomainRegistered (the (gm_get domainMap (dom_Name d))) (dom_Name d))
          | None \<Rightarrow> if env_ProxyChainMode env = ChainChild
                    then CheckDomainsConflictsOnParent env domains else None)"

definition entry_exports :: "vm_entry \<Rightarrow> (string \<times> string) list" where
  "entry_exports e = map (\<lambda>p. (GlobalID p, cfg_Name (Config (VM e)))) (exported (cfg_Ports (Config (VM e))))"

definition check_port ::
  "(string, string) gomap \<Rightarrow> vm_port list \<Rightarrow> vm_port \<Rightarrow> vmdb_error option" where
  "check_port exportPortMap ports port =
     (if Direction port = Export then
        (case gm_get exportPortMap (GlobalID port) of
           Some vm \<Rightarrow> Some (PortExported vm (GlobalID port)) | None \<Rightarrow> None)
      else if Direction port = Import \<and>
          list_ex (\<lambda>p. GlobalID p = GlobalID (port\<lparr>Direction := Export\<rparr>)) ports
      then Some (ImportsOwnPort (GlobalID port)) else None)"

definition CheckPortsConflicts :: "vmdb \<Rightarrow> vm_port list \<Rightarrow> string \<Rightarrow> vmdb_error option" where
  "CheckPortsConflicts st ports excludeVM =
     (case other_active st excludeVM of Inl e \<Rightarrow> Some e
      | Inr entries \<Rightarrow>
          let exportPortMap = put_all (concat (map entry_exports entries)) [] in
          case find (\<lambda>p. check_port exportPortMap ports p \<noteq> None) ports of
            Some p \<Rightarrow> check_port exportPortMap ports p | None \<Rightarrow> None)"

subsection \<open>The domain file\<close>

text \<open>
  The loop writes the VM name and the address into the domain of the configuration before
  it looks for a duplicate, so it returns the entries as well, changed up to where it stopped.
\<close>

definition bind_domain :: "vm_entry \<Rightarrow> domain \<Rightarrow> domain" where
  "bind_domain entry d =
     (let d1 = d\<lparr>dom_VMName := vn_ID (Name entry)\<rparr>
      in if RedirectTo d1 = [] then d1\<lparr>DestinationHost := LastIP (VM entry)\<rparr> else d1)"

fun reg_domains ::
  "vm_entry \<Rightarrow> domain list \<Rightarrow> (string, domain) gomap
    \<Rightarrow> domain list \<times> (vmdb_error + (string, domain) gomap)" where
  "reg_domains entry [] m = ([], Inr m)"
| "reg_domains entry (d # ds) m =
     (let d1 = bind_domain entry d in
      case gm_get m (dom_Name d1) of
        Some other \<Rightarrow> (d1 # ds, Inl (DomainDuplicated (dom_Name d1) (dom_VMName other) (dom_VMName d1)))
      | None \<Rightarrow> (let (ds1, r) = reg_domains entry ds (gm_put (dom_Name d1) d1 m) in (d1 # ds1, r)))"

definition set_domains :: "domain list \<Rightarrow> vm_entry \<Rightarrow> vm_entry" where
  "set_domains ds entry =
     entry\<lparr>VM := (VM entry)\<lparr>Config := (Config (VM entry))\<lparr>cfg_Domains := ds\<rparr>\<rparr>\<rparr>"

fun gen_domains ::
  "(string, vm_entry) gomap \<Rightarrow> (string, domain) gomap
    \<Rightarrow> (string, vm_entry) gomap \<times> (vmdb_error + (string, domain) gomap)" where
  "gen_domains [] m = ([], Inr m)"
| "gen_domains ((k, entry) # es) m =
     (if \<not> Active entry then (let (es1, r) = gen_domains es m in ((k, entry) # es1, r))
      else case reg_domains entry (cfg_Domains (Config (VM entry))) m of
          (ds, Inl e) \<Rightarrow> ((k, set_domains ds entry) # es, Inl e)
        | (ds, Inr m1) \<Rightarrow>
            (let (es1, r) = gen_domains es m1 in ((k, set_domains ds entry) # es1, r)))"

definition genDomainsDB :: "vmdb_env \<Rightarrow> vmdb \<Rightarrow> vmdb \<times> vmdb_error option" where
  "genDomainsDB env st =
     (case gen_domains (db st) [] of
        (es, Inl e) \<Rightarrow> (st\<lparr>db := es\<rparr>, Some e)
      | (es, Inr domains) \<Rightarrow>
          (let (f, e) = write_file (env_write_domains env) domains (domain_file st)
           in (st\<lparr>db := es, domain_file := f\<rparr>, map_option DbIO e)))"

subsection \<open>The port file\<close>

definition ResolveTCPAddr :: "vmdb_env \<Rightarrow> string \<Rightarrow> u16 \<Rightarrow> vmdb_error + tcp_addr" where
  "ResolveTCPAddr env host port =
     (if env_resolves env host then Inr \<lparr>ta_IP = host, ta_Port = port\<rparr> else Inl (CannotResolve host))"

definition vm_entries :: "vmdb \<Rightarrow> vm_entry list" where
  "vm_entries st = gm_vals (greenhouseDB st) @ gm_vals (db st)"

definition exported_port_map :: "vm_entry list \<Rightarrow> (string, vm) gomap" where
  "exported_port_map entries =
     put_all (concat (map (\<lambda>e. map (\<lambda>p. (port_String p, VM e))
                (filter (\<lambda>p. Direction p = Export \<and> PublicPort p = 0) (cfg_Ports (Config (VM e)))))
              (filter Active entries))) []"

definition import_port ::
  "vmdb_env \<Rightarrow> (string, vm) gomap \<Rightarrow> vm_entry \<Rightarrow> vm_port \<Rightarrow> (u16, tcp_listener) gomap
    \<Rightarrow> vmdb_error + (u16, tcp_listener) gomap" where
  "import_port env exportedPortMap entry p listeners =
     (if Protocol p \<noteq> TCP then Inl (UnsupportedProtocol (port_String p))
      else if Direction p \<noteq> Import then Inr listeners
      else case gm_get exportedPortMap (port_String (p\<lparr>Direction := Export\<rparr>)) of
          None \<Rightarrow> Inr listeners
        | Some exportingVM \<Rightarrow>
            let listenPort = VMPortBaseForward + word_of_int (Index p) in
            case (case gm_get listeners listenPort of
                    Some l \<Rightarrow> Inr l
                  | None \<Rightarrow> (case ResolveTCPAddr env (env_gateway env) listenPort of
                        Inl e \<Rightarrow> Inl e
                      | Inr a \<Rightarrow> Inr \<lparr>ListenAddr = a, Forwards = []\<rparr>)) of
              Inl e \<Rightarrow> Inl e
            | Inr listener \<Rightarrow>
                (case ResolveTCPAddr env (AssignedIPv4 exportingVM) (Port p) of
                   Inl e \<Rightarrow> Inl e
                 | Inr forwardAddr \<Rightarrow>
                     Inr (gm_put listenPort
                       (listener\<lparr>Forwards := gm_put (AssignedIPv4 (VM entry))
                          \<lparr>Dest = forwardAddr, PROXYProtoPort = 0\<rparr> (Forwards listener)\<rparr>) listeners)))"

definition import_ports ::
  "vmdb_env \<Rightarrow> (string, vm) gomap \<Rightarrow> vm_entry \<Rightarrow> (u16, tcp_listener) gomap
    \<Rightarrow> vmdb_error + (u16, tcp_listener) gomap" where
  "import_ports env m entry = foldE (import_port env m entry) (cfg_Ports (Config (VM entry)))"

definition public_port ::
  "vmdb_env \<Rightarrow> vm_entry \<Rightarrow> vm_port \<Rightarrow> (u16, tcp_listener) gomap
    \<Rightarrow> vmdb_error + (u16, tcp_listener) gomap" where
  "public_port env entry p listeners =
     (if PublicPort p = 0 then Inr listeners
      else case ResolveTCPAddr env [] (PublicPort p) of Inl e \<Rightarrow> Inl e
      | Inr listenAddr \<Rightarrow>
          if gm_get listeners (PublicPort p) \<noteq> None then Inl (PublicPortDuplicated (PublicPort p))
          else case ResolveTCPAddr env (AssignedIPv4 (VM entry)) (Port p) of Inl e \<Rightarrow> Inl e
          | Inr forwardAddr \<Rightarrow>
              Inr (gm_put (PublicPort p)
                \<lparr>ListenAddr = listenAddr,
                 Forwards = [(''*'', \<lparr>Dest = forwardAddr, PROXYProtoPort = ProxyPort p\<rparr>)]\<rparr> listeners))"

definition public_ports ::
  "vmdb_env \<Rightarrow> vm_entry \<Rightarrow> (u16, tcp_listener) gomap \<Rightarrow> vmdb_error + (u16, tcp_listener) gomap" where
  "public_ports env entry = foldE (public_port env entry) (cfg_Ports (Config (VM entry)))"

definition port_listeners :: "vmdb_env \<Rightarrow> vmdb \<Rightarrow> vmdb_error + (u16, tcp_listener) gomap" where
  "port_listeners env st =
     (let vmEntries = vm_entries st in
      case foldE (import_ports env (exported_port_map vmEntries)) vmEntries [] of Inl e \<Rightarrow> Inl e
      | Inr listeners \<Rightarrow> foldE (public_ports env) (filter Active vmEntries) listeners)"

definition genPortsDB :: "vmdb_env \<Rightarrow> vmdb \<Rightarrow> vmdb \<times> vmdb_error option" where
  "genPortsDB env st =
     (case port_listeners env st of Inl e \<Rightarrow> (st, Some e)
      | Inr listeners \<Rightarrow>
          (let (f, e) = write_file (env_write_ports env) listeners (port_file st)
           in (st\<lparr>port_file := f\<rparr>, map_option DbIO e)))"

subsection \<open>Saving and loading\<close>

definition vmdb_save :: "vmdb_env \<Rightarrow> vmdb \<Rightarrow> vmdb \<times> vmdb_error option" where
  "vmdb_save env st =
     (let (f, e) = write_file (env_write_db env) (db st) (vmdb_file st);
          st1 = st\<lparr>vmdb_file := f\<rparr> in
      case e of Some x \<Rightarrow> (st1, Some (DbIO x))
      | None \<Rightarrow>
        (case genDomainsDB env st1 of (st2, Some x) \<Rightarrow> (st2, Some x)
         | (st2, None) \<Rightarrow>
           (case genPortsDB env st2 of (st3, Some x) \<Rightarrow> (st3, Some x)
            | (st3, None) \<Rightarrow> (st3\<lparr>updates := updates st3 + 1\<rparr>, None))))"

datatype vmdb_load_error = CannotOpen | WrongMode int | CannotDecode

text \<open>Reading back: what was encoded is decoded; a file that holds no database is an error.\<close>

definition vmdb_load :: "int \<Rightarrow> vmdb \<Rightarrow> vmdb \<times> vmdb_load_error option" where
  "vmdb_load mode st =
     (case vmdb_file st of
        NoFile \<Rightarrow> (st, Some CannotOpen)
      | Damaged \<Rightarrow> if mode \<noteq> 384 then (st, Some (WrongMode mode)) else (st, Some CannotDecode)
      | Holds es \<Rightarrow> if mode \<noteq> 384 then (st, Some (WrongMode mode))
                    else (st\<lparr>db := put_all es (db st)\<rparr>, None))"

definition NewVMDatabase ::
  "vmdb_env \<Rightarrow> int \<Rightarrow> (string, vm_entry) gomap dbfile \<Rightarrow> (vmdb_load_error + vmdb_error) + vmdb" where
  "NewVMDatabase env mode on_disk =
     (let st = \<lparr>db = [], greenhouseDB = [], vmdb_file = on_disk, domain_file = NoFile,
                port_file = NoFile, updates = 0\<rparr> in
      case (if on_disk = NoFile then (st, None) else vmdb_load mode st) of
        (st1, Some e) \<Rightarrow> Inl (Inl e)
      | (st1, None) \<Rightarrow>
          (case vmdb_save env st1 of (st2, Some e) \<Rightarrow> Inl (Inr e) | (st2, None) \<Rightarrow> Inr st2))"

definition vmdb_Update :: "vmdb_env \<Rightarrow> vmdb \<Rightarrow> vmdb \<times> vmdb_error option" where
  "vmdb_Update env st = vmdb_save env st"

subsection \<open>Changing the database\<close>

definition deactivate_name :: "string \<Rightarrow> vm_entry \<Rightarrow> vm_entry" where
  "deactivate_name name e = (if vn_name (Name e) = name then e\<lparr>Active := False\<rparr> else e)"

definition vmdb_Add ::
  "vmdb_env \<Rightarrow> vm \<Rightarrow> vm_name \<Rightarrow> bool \<Rightarrow> vmdb \<Rightarrow> vmdb \<times> vmdb_error option" where
  "vmdb_Add env vm name active st =
     (case (if active then CheckDomainsConflicts env st (cfg_Domains (Config vm)) (vn_name name) else None) of
        Some e \<Rightarrow> (st, Some e)
      | None \<Rightarrow>
      case (if active then CheckPortsConflicts st (cfg_Ports (Config vm)) (vn_name name) else None) of
        Some e \<Rightarrow> (st, Some e)
      | None \<Rightarrow>
      if gm_get (db st) (vn_ID name) \<noteq> None then (st, Some (VmExists (vn_ID name)))
      else
        let db1 = (if active then gm_map (deactivate_name (vn_name name)) (db st) else db st);
            entry = \<lparr>Name = name, VM = vm, Active = active\<rparr> in
        case vmdb_save env (st\<lparr>db := gm_put (vn_ID name) entry db1\<rparr>) of
          (st1, Some e) \<Rightarrow> (st1\<lparr>db := gm_del (vn_ID name) (db st1)\<rparr>, Some e)
        | (st1, None) \<Rightarrow> (st1, None))"

definition set_revision :: "string \<Rightarrow> int \<Rightarrow> vm_entry \<Rightarrow> vm_entry" where
  "set_revision name revision e =
     (if vn_name (Name e) = name then e\<lparr>Active := (vn_rev (Name e) = revision)\<rparr> else e)"

definition SetActiveRevision ::
  "vmdb_env \<Rightarrow> string \<Rightarrow> int \<Rightarrow> vmdb \<Rightarrow> vmdb \<times> vmdb_error option" where
  "SetActiveRevision env name revision st =
     (case (if revision = RevisionNone
            then (if GetCountForName st name = 0 then Some (NoVmNamed name) else None)
            else case GetByName st (NewVMName name revision) of
                Inl e \<Rightarrow> Some e
              | Inr vm \<Rightarrow>
                  (case CheckDomainsConflicts env st (cfg_Domains (Config vm)) name of
                     Some e \<Rightarrow> Some e
                   | None \<Rightarrow> CheckPortsConflicts st (cfg_Ports (Config vm)) name)) of
        Some e \<Rightarrow> (st, Some e)
      | None \<Rightarrow> vmdb_save env (st\<lparr>db := gm_map (set_revision name revision) (db st)\<rparr>))"

text \<open>The highest other revision \<open>Delete\<close> will promote.\<close>

definition promoted_revision :: "vmdb \<Rightarrow> vm_entry \<Rightarrow> vmdb_error + int" where
  "promoted_revision st entryToDelete =
     foldE (\<lambda>vmName maxRevision.
         case GetEntryByName st vmName of
           Inl e \<Rightarrow> Inl e
         | Inr entry \<Rightarrow>
             Inr (if vn_name (Name entry) = vn_name (Name entryToDelete)
                     \<and> vn_rev (Name entry) \<noteq> vn_rev (Name entryToDelete)
                     \<and> maxRevision < vn_rev (Name entry)
                  then vn_rev (Name entry) else maxRevision))
       (GetNames st) (-1)"

definition vmdb_Delete :: "vmdb_env \<Rightarrow> vm_name \<Rightarrow> vmdb \<Rightarrow> vmdb \<times> vmdb_error option" where
  "vmdb_Delete env name st =
     (case GetEntryByName st name of Inl e \<Rightarrow> (st, Some (VmNotInDB (vn_ID name)))
      | Inr entryToDelete \<Rightarrow>
      case (if \<not> Active entryToDelete then (st, None)
            else case promoted_revision st entryToDelete of Inl e \<Rightarrow> (st, Some e)
              | Inr maxRevision \<Rightarrow>
                  if 0 \<le> maxRevision
                  then SetActiveRevision env (vn_name (Name entryToDelete)) maxRevision st
                  else (st, None)) of
        (st1, Some e) \<Rightarrow> (st1, Some e)
      | (st1, None) \<Rightarrow> vmdb_save env (st1\<lparr>db := gm_del (vn_ID name) (db st1)\<rparr>))"

definition AddToGreenhouse :: "vmdb_env \<Rightarrow> vm \<Rightarrow> vm_name \<Rightarrow> vmdb \<Rightarrow> vmdb \<times> vmdb_error option" where
  "AddToGreenhouse env vm name st =
     (if gm_get (greenhouseDB st) (vn_ID name) \<noteq> None then (st, Some (ExistsInGreenhouse (vn_ID name)))
      else vmdb_save env (st\<lparr>greenhouseDB :=
             gm_put (vn_ID name) \<lparr>Name = name, VM = vm, Active = False\<rparr> (greenhouseDB st)\<rparr>))"

definition DeleteFromGreenhouse :: "vm_name \<Rightarrow> vmdb \<Rightarrow> vmdb \<times> vmdb_error option" where
  "DeleteFromGreenhouse name st =
     (if gm_get (greenhouseDB st) (vn_ID name) = None then (st, Some (NotInGreenhouse (vn_ID name)))
      else (st\<lparr>greenhouseDB := gm_del (vn_ID name) (greenhouseDB st)\<rparr>, None))"

subsection \<open>Migration of the first database format\<close>

definition vm_migrate :: "(string, vm) gomap \<Rightarrow> (string, vm_entry) gomap" where
  "vm_migrate dbv1 =
     fold (\<lambda>(name, vm). gm_put (vn_ID (NewVMName name 0)) \<lparr>Name = NewVMName name 0, VM = vm, Active = True\<rparr>)
       dbv1 []"

subsection \<open>Redefining a VM\<close>

text \<open>
  \<open>RedefineVM\<close> of \<open>controllers/vm.go\<close> replaces the configuration of a database entry in place
  once it is decoded; the result of the final \<open>Update\<close> is not looked at.
\<close>

datatype redefine_error =
    RdLocked | RdWorkInProgress | RdNameDiffers | RdConflict vmdb_error

definition VMTagFromScript :: bool where "VMTagFromScript = False"

definition keep_actions ::
  "(string, do_action) gomap \<Rightarrow> (string, do_action) gomap \<Rightarrow> (string, do_action) gomap" where
  "keep_actions oldActions newActions =
     fold (\<lambda>(name, action) acts.
         if da_FromConfig action \<or> gm_get acts name \<noteq> None then acts else gm_put name action acts)
       oldActions newActions"

definition keep_tags :: "(string, bool) gomap \<Rightarrow> (string, bool) gomap \<Rightarrow> (string, bool) gomap" where
  "keep_tags oldTags newTags =
     fold (\<lambda>(tag, from_what) tags. if from_what = VMTagFromScript then gm_put tag from_what tags else tags)
       oldTags newTags"

definition redefined :: "string \<Rightarrow> vm_config \<Rightarrow> vm \<Rightarrow> vm" where
  "redefined author conf vm =
     vm\<lparr>AuthorKey := author,
        Config := conf\<lparr>cfg_DoActions := keep_actions (cfg_DoActions (Config vm)) (cfg_DoActions conf),
                       cfg_Tags := keep_tags (cfg_Tags (Config vm)) (cfg_Tags conf)\<rparr>\<rparr>"

definition RedefineVM ::
  "vmdb_env \<Rightarrow> string \<Rightarrow> vm_entry \<Rightarrow> bool \<Rightarrow> string \<Rightarrow> vm_config \<Rightarrow> vmdb \<Rightarrow> vmdb \<times> redefine_error option" where
  "RedefineVM env key entry force author conf st =
     (let vm = VM entry in
      if Locked vm \<and> \<not> force then (st, Some RdLocked)
      else if WIP vm \<noteq> OpNone then (st, Some RdWorkInProgress)
      else if cfg_Name conf \<noteq> cfg_Name (Config vm) then (st, Some RdNameDiffers)
      else case (if Active entry then CheckDomainsConflicts env st (cfg_Domains conf) (cfg_Name conf) else None) of
        Some e \<Rightarrow> (st, Some (RdConflict e))
      | None \<Rightarrow>
      case (if Active entry then CheckPortsConflicts st (cfg_Ports conf) (cfg_Name conf) else None) of
        Some e \<Rightarrow> (st, Some (RdConflict e))
      | None \<Rightarrow>
          (fst (vmdb_Update env (st\<lparr>db := gm_put key (entry\<lparr>VM := redefined author conf vm\<rparr>) (db st)\<rparr>)), None))"

end
