(* ===== verification/Vm_Database_Inv.thy ===== *)
theory Vm_Database_Inv
  imports Vm_Database
begin

text \<open>
  The invariant of the VM database, that no operation breaks whatever the operating system
  and the parent proxy answer: entries are stored under their own name, a name has at most
  one active revision, and active VMs share no domain and no exported port.
\<close>

subsection \<open>The invariant\<close>

definition domain_names :: "vm_entry \<Rightarrow> string list" where
  "domain_names e = map dom_Name (cfg_Domains (Config (VM e)))"

definition entry_ports :: "vm_entry \<Rightarrow> vm_port list" where
  "entry_ports e = cfg_Ports (Config (VM e))"

definition export_ids :: "vm_entry \<Rightarrow> string list" where
  "export_ids e = map GlobalID (exported (entry_ports e))"

definition config_ok :: "vm_config \<Rightarrow> bool" where
  "config_ok c \<longleftrightarrow> distinct (map dom_Name (cfg_Domains c)) \<and> ports_ok (cfg_Ports c)"

definition entry_ok :: "string \<Rightarrow> vm_entry \<Rightarrow> bool" where
  "entry_ok k e \<longleftrightarrow> k = vn_ID (Name e) \<and> valid_vm_name (Name e) \<and>
     cfg_Name (Config (VM e)) = vn_name (Name e) \<and> config_ok (Config (VM e))"

definition compatible :: "vm_entry \<Rightarrow> vm_entry \<Rightarrow> bool" where
  "compatible e f \<longleftrightarrow>
     vn_name (Name e) \<noteq> vn_name (Name f) \<and>
     set (domain_names e) \<inter> set (domain_names f) = {} \<and>
     set (export_ids e) \<inter> set (export_ids f) = {}"

definition entries_ok :: "(string, vm_entry) gomap \<Rightarrow> bool" where
  "entries_ok m \<longleftrightarrow>
     gm_ok m \<and> (\<forall>(k, e)\<in>set m. entry_ok k e) \<and>
     (\<forall>(k, e)\<in>set m. \<forall>(k', e')\<in>set m. Active e \<longrightarrow> Active e' \<longrightarrow> k \<noteq> k' \<longrightarrow> compatible e e')"

definition vmdb_ok :: "vmdb \<Rightarrow> bool" where
  "vmdb_ok st \<longleftrightarrow> entries_ok (db st) \<and> gm_ok (greenhouseDB st) \<and>
     (\<forall>(k, e)\<in>set (greenhouseDB st). entry_ok k e \<and> \<not> Active e)"

lemma compatible_sym: "compatible e f \<longleftrightarrow> compatible f e"
  by (auto simp: compatible_def)

lemma entries_ok_iff:
  "entries_ok m \<longleftrightarrow>
     gm_ok m \<and> (\<forall>k e. gm_get m k = Some e \<longrightarrow> entry_ok k e) \<and>
     (\<forall>k e k' e'. gm_get m k = Some e \<longrightarrow> gm_get m k' = Some e' \<longrightarrow> Active e \<longrightarrow> Active e'
        \<longrightarrow> k \<noteq> k' \<longrightarrow> compatible e e')"
proof (cases "gm_ok m")
  case True
  then show ?thesis
    by (simp add: entries_ok_def Ball_def split_paired_All gm.entries_get)
qed (simp add: entries_ok_def)

lemma entries_okI:
  assumes "gm_ok m" and "\<And>k e. gm_get m k = Some e \<Longrightarrow> entry_ok k e"
    and "\<And>k e k' e'. gm_get m k = Some e \<Longrightarrow> gm_get m k' = Some e' \<Longrightarrow> Active e \<Longrightarrow> Active e'
      \<Longrightarrow> k \<noteq> k' \<Longrightarrow> compatible e e'"
  shows "entries_ok m"
  using assms unfolding entries_ok_iff by blast

lemma entries_okD:
  assumes "entries_ok m"
  shows "gm_ok m" and "gm_get m k = Some e \<Longrightarrow> entry_ok k e"
    and "gm_get m k = Some e \<Longrightarrow> gm_get m k' = Some e' \<Longrightarrow> Active e \<Longrightarrow> Active e' \<Longrightarrow> k \<noteq> k'
      \<Longrightarrow> compatible e e'"
  using assms unfolding entries_ok_iff by blast+

lemma entry_key: "entries_ok m \<Longrightarrow> gm_get m k = Some e \<Longrightarrow> k = vn_ID (Name e)"
  using entries_okD(2) [of m k e] by (simp add: entry_ok_def)

lemma entry_name_valid: "entries_ok m \<Longrightarrow> gm_get m k = Some e \<Longrightarrow> valid_vm_name (Name e)"
  using entries_okD(2) [of m k e] by (simp add: entry_ok_def)

lemma valid_name_nonempty: "valid_vm_name n \<Longrightarrow> vn_name n \<noteq> []"
  by (simp add: valid_vm_name_def)

lemma valid_name_inject: "valid_vm_name m \<Longrightarrow> valid_vm_name n \<Longrightarrow> vn_ID m = vn_ID n \<Longrightarrow> m = n"
  by (rule vn_ID_inject) (auto simp: valid_vm_name_def)

lemma vals_entry:
  "entries_ok m \<Longrightarrow> e \<in> set (gm_vals m) \<longleftrightarrow> gm_get m (vn_ID (Name e)) = Some e"
  by (auto simp: gm_vals_get entries_okD(1) dest: entry_key)

text \<open>Two active entries of one name are the same entry.\<close>

lemma active_unique:
  assumes "entries_ok m" and "gm_get m k = Some e" and "gm_get m k' = Some e'"
    and "Active e" and "Active e'" and "vn_name (Name e) = vn_name (Name e')"
  shows "k = k' \<and> e = e'"
  using entries_okD(3) [OF assms(1-5)] assms(2,3,6) by (cases "k = k'") (auto simp: compatible_def)

subsection \<open>Saving keeps what the invariant reads\<close>

definition profile :: "vm_entry \<Rightarrow> vm_name \<times> bool \<times> string list \<times> vm_port list \<times> string" where
  "profile e = (Name e, Active e, domain_names e, entry_ports e, cfg_Name (Config (VM e)))"

lemma profile_eq:
  "profile e = profile e' \<longleftrightarrow> Name e = Name e' \<and> Active e = Active e' \<and>
     domain_names e = domain_names e' \<and> entry_ports e = entry_ports e' \<and>
     cfg_Name (Config (VM e)) = cfg_Name (Config (VM e'))"
  by (simp add: profile_def)

lemma profile_ok: "profile e = profile e' \<Longrightarrow> entry_ok k e = entry_ok k e'"
  by (simp add: profile_eq entry_ok_def config_ok_def domain_names_def entry_ports_def)

lemma profile_compatible:
  "profile e = profile e' \<Longrightarrow> profile f = profile f' \<Longrightarrow> compatible e f = compatible e' f'"
  by (simp add: profile_eq compatible_def export_ids_def)

abbreviation profiles :: "(string, vm_entry) gomap \<Rightarrow> string \<Rightarrow> (vm_name \<times> bool \<times> string list \<times> vm_port list \<times> string) option" where
  "profiles m k \<equiv> map_option profile (gm_get m k)"

lemma profiles_entries_ok:
  assumes "gm_ok m'" and "\<And>k. profiles m' k = profiles m k" and "entries_ok m"
  shows "entries_ok m'"
proof (rule entries_okI)
  have find: "\<exists>f. gm_get m k = Some f \<and> profile e = profile f" if "gm_get m' k = Some e" for k e
    using assms(2) [of k] that by (auto simp: map_option_case split: option.splits)
  show "gm_ok m'" by fact
  show "entry_ok k e" if "gm_get m' k = Some e" for k e
    using find [OF that] entries_okD(2) [OF assms(3)] profile_ok by blast
  show "compatible e e'" if "gm_get m' k = Some e" "gm_get m' k' = Some e'" "Active e" "Active e'" "k \<noteq> k'"
    for k e k' e'
  proof -
    from find [OF that(1)] find [OF that(2)] obtain f f' where
      f: "gm_get m k = Some f" "profile e = profile f" "gm_get m k' = Some f'" "profile e' = profile f'"
      by blast
    with that(3,4) have "Active f" "Active f'" by (simp_all add: profile_eq)
    from entries_okD(3) [OF assms(3) f(1,3) this that(5)] f(2,4) show ?thesis
      using profile_compatible by blast
  qed
qed

lemma reg_domains_names: "map dom_Name (fst (reg_domains entry ds m)) = map dom_Name ds"
  by (induction entry ds m rule: reg_domains.induct)
     (auto simp: Let_def bind_domain_def split: option.splits prod.splits)

lemma profile_set_domains: "map dom_Name ds = domain_names e \<Longrightarrow> profile (set_domains ds e) = profile e"
  by (simp add: profile_eq set_domains_def domain_names_def entry_ports_def)

lemma gen_domains_profiles:
  "map (apsnd profile) (fst (gen_domains es m)) = map (apsnd profile) es"
proof (induction es m rule: gen_domains.induct)
  case (2 k entry es m)
  show ?case
  proof (cases "Active entry")
    case False
    with 2(1) show ?thesis by (simp add: case_prod_unfold Let_def)
  next
    case True
    obtain ds r where r: "reg_domains entry (cfg_Domains (Config (VM entry))) m = (ds, r)" by fastforce
    from reg_domains_names [of entry "cfg_Domains (Config (VM entry))" m] r
    have p: "profile (set_domains ds entry) = profile entry"
      by (intro profile_set_domains) (simp add: domain_names_def)
    show ?thesis
    proof (cases r)
      case (Inl e)
      with True r p show ?thesis by simp
    next
      case (Inr m1)
      from 2(2) [OF _ r [symmetric, unfolded Inr] refl] True
      have "map (apsnd profile) (fst (gen_domains es m1)) = map (apsnd profile) es" by simp
      with True r p Inr show ?thesis by (simp add: case_prod_unfold Let_def)
    qed
  qed
qed simp

lemma map_prod_profiles:
  assumes "map (apsnd profile) es' = map (apsnd profile) es"
  shows "gm_ok es' = gm_ok es" and "profiles es' k = profiles es k"
proof -
  have f: "fst \<circ> apsnd profile = fst" by (auto simp: fun_eq_iff)
  from arg_cong [OF assms, of "map fst"] show "gm_ok es' = gm_ok es"
    by (simp add: gm_ok_def f)
  have "profiles xs k = map_of (map (apsnd profile) xs) k" for xs :: "(string, vm_entry) gomap"
    by (induction xs) (auto simp: gm_get_def)
  with assms show "profiles es' k = profiles es k" by simp
qed

lemma save_cases:
  assumes "vmdb_save env st = (st', err)"
  shows "db st' = db st \<or> db st' = fst (gen_domains (db st) [])"
    and "greenhouseDB st' = greenhouseDB st"
    and "err = None \<Longrightarrow> db st' = fst (gen_domains (db st) [])"
  using assms
  by (auto simp: vmdb_save_def genDomainsDB_def genPortsDB_def Let_def
      split: prod.splits option.splits sum.splits if_splits)

lemma save_profiles:
  assumes "vmdb_save env st = (st', err)"
  shows "profiles (db st') k = profiles (db st) k" and "gm_ok (db st') = gm_ok (db st)"
  using save_cases(1) [OF assms] map_prod_profiles [OF gen_domains_profiles [of "db st" "[]"]] by auto

lemma save_greenhouse: "vmdb_save env st = (st', err) \<Longrightarrow> greenhouseDB st' = greenhouseDB st"
  by (rule save_cases(2))

lemma save_entries_ok: "vmdb_save env st = (st', err) \<Longrightarrow> entries_ok (db st) \<Longrightarrow> entries_ok (db st')"
  by (rule profiles_entries_ok [of _ "db st"]) (auto simp: save_profiles entries_okD(1))

lemma save_ok: "vmdb_save env st = (st', err) \<Longrightarrow> vmdb_ok st \<Longrightarrow> vmdb_ok st'"
  using save_entries_ok save_greenhouse by (auto simp: vmdb_ok_def)

subsection \<open>What the conflict checks establish\<close>

lemma get_own_entry:
  "entries_ok (db st) \<Longrightarrow> gm_get (db st) k = Some e \<Longrightarrow> GetEntryByName st (Name e) = Inr e"
  by (frule (1) entry_key) (simp add: GetEntryByName_def getEntryByID_def)

abbreviation others :: "vmdb \<Rightarrow> string \<Rightarrow> vm_entry list" where
  "others st ex \<equiv> filter (\<lambda>e. Active e \<and> \<not> excluded ex (Name e)) (gm_vals (db st))"

lemma other_active_run:
  assumes "\<forall>e\<in>set es. GetEntryByName st (Name e) = Inr e"
  shows "foldE (visit_active st ex) (map Name es) acc =
     Inr (acc @ filter (\<lambda>e. Active e \<and> \<not> excluded ex (Name e)) es)"
  using assms by (induction es arbitrary: acc) (auto simp: visit_active_def)

lemma other_active_eq:
  assumes "entries_ok (db st)"
  shows "other_active st ex = Inr (others st ex)"
proof -
  have "\<forall>e\<in>set (gm_vals (db st)). GetEntryByName st (Name e) = Inr e"
    using assms by (auto simp: gm_vals_get entries_okD(1) intro: get_own_entry)
  from other_active_run [OF this, of ex "[]"] show ?thesis
    by (simp add: other_active_def GetNames_def)
qed

lemma others_mem:
  assumes "entries_ok (db st)" and "gm_get (db st) k = Some e" and "Active e" and "vn_name (Name e) \<noteq> n"
  shows "e \<in> set (others st n)"
  using assms by (auto simp: gm_vals_get entries_okD(1) excluded_def)

lemma entry_domains_fst: "fst ` set (entry_domains e) = set (domain_names e)"
  by (simp add: entry_domains_def domain_names_def image_image)

lemma entry_exports_fst: "fst ` set (entry_exports e) = set (export_ids e)"
  by (simp add: entry_exports_def export_ids_def entry_ports_def image_image)

lemma put_all_concat:
  assumes "gm_get (put_all (concat (map f es)) []) k = None" and "e \<in> set es"
  shows "k \<notin> fst ` set (f e)"
  using assms unfolding put_all_None by fastforce

lemma domains_checked:
  assumes ok: "entries_ok (db st)" and c: "CheckDomainsConflicts env st ds n = None"
    and e: "gm_get (db st) k = Some e" "Active e" "vn_name (Name e) \<noteq> n"
  shows "set (map dom_Name ds) \<inter> set (domain_names e) = {}"
proof -
  let ?m = "put_all (concat (map entry_domains (others st n))) []"
  from c have "find (\<lambda>d. gm_get ?m (dom_Name d) \<noteq> None) ds = None"
    by (simp only: CheckDomainsConflicts_def other_active_eq [OF ok] Let_def sum.case split: option.splits)
       simp
  then have "gm_get ?m (dom_Name d) = None" if "d \<in> set ds" for d
    using that by (simp add: find_None_all)
  from put_all_concat [OF this others_mem [OF ok e]]
  have "dom_Name d \<notin> set (domain_names e)" if "d \<in> set ds" for d
    using that by (simp only: entry_domains_fst not_False_eq_True)
  then show ?thesis by auto
qed

lemma ports_checked:
  assumes ok: "entries_ok (db st)" and c: "CheckPortsConflicts st ps n = None"
    and e: "gm_get (db st) k = Some e" "Active e" "vn_name (Name e) \<noteq> n"
  shows "set (map GlobalID (exported ps)) \<inter> set (export_ids e) = {}"
proof -
  let ?m = "put_all (concat (map entry_exports (others st n))) []"
  from c have "\<forall>p\<in>set ps. check_port ?m ps p = None"
    by (simp only: CheckPortsConflicts_def other_active_eq [OF ok] Let_def sum.case find_first_error)
  then have "gm_get ?m (GlobalID p) = None" if "p \<in> set ps" "Direction p = Export" for p
    using that by (auto simp: check_port_def split: option.splits)
  from put_all_concat [OF this others_mem [OF ok e]]
  have "GlobalID p \<notin> set (export_ids e)" if "p \<in> set ps" "Direction p = Export" for p
    using that by (simp only: entry_exports_fst not_False_eq_True)
  then show ?thesis by auto
qed

subsection \<open>Every operation keeps the invariant\<close>

lemma clear_of_others:
  assumes ok: "entries_ok (db st)" and "CheckDomainsConflicts env st (cfg_Domains c) n = None"
    and "CheckPortsConflicts st (cfg_Ports c) n = None"
    and "gm_get (db st) k = Some e" "Active e" "vn_name (Name e) \<noteq> n"
    and f: "Config (VM f) = c" "vn_name (Name f) = n"
  shows "compatible f e"
  using domains_checked [OF ok assms(2) assms(4-6)] ports_checked [OF ok assms(3) assms(4-6)] f assms(6)
  by (auto simp: compatible_def domain_names_def export_ids_def entry_ports_def)

lemma entries_ok_put:
  assumes ok: "entries_ok m" and e: "entry_ok k e"
    and c: "\<And>k' e'. gm_get m k' = Some e' \<Longrightarrow> Active e \<Longrightarrow> Active e' \<Longrightarrow> k' \<noteq> k \<Longrightarrow> compatible e e'"
  shows "entries_ok (gm_put k e m)"
proof (rule entries_okI)
  show "gm_ok (gm_put k e m)" using ok by (simp add: entries_okD(1))
  show "entry_ok k' e'" if "gm_get (gm_put k e m) k' = Some e'" for k' e'
    using that e entries_okD(2) [OF ok] by (auto split: if_splits)
  show "compatible e1 e2" if "gm_get (gm_put k e m) k1 = Some e1" "gm_get (gm_put k e m) k2 = Some e2"
    "Active e1" "Active e2" "k1 \<noteq> k2" for k1 e1 k2 e2
    using that c entries_okD(3) [OF ok] compatible_sym [of e1 e2] by (auto split: if_splits)
qed

lemma entries_ok_del: "entries_ok m \<Longrightarrow> entries_ok (gm_del k m)"
  by (rule entries_okI) (auto dest: entries_okD split: if_splits)

lemma entries_ok_map:
  assumes ok: "entries_ok m" and s: "\<And>e. VM (f e) = VM e \<and> Name (f e) = Name e"
    and c: "\<And>k e k' e'. gm_get m k = Some e \<Longrightarrow> gm_get m k' = Some e' \<Longrightarrow> Active (f e) \<Longrightarrow> Active (f e')
      \<Longrightarrow> k \<noteq> k' \<Longrightarrow> compatible e e'"
  shows "entries_ok (gm_map f m)"
proof (rule entries_okI)
  have comp: "compatible (f e) (f e') = compatible e e'" for e e'
    by (simp add: compatible_def domain_names_def export_ids_def entry_ports_def s)
  show "gm_ok (gm_map f m)" using ok by (simp add: entries_okD(1))
  show "entry_ok k e" if "gm_get (gm_map f m) k = Some e" for k e
    using that entries_okD(2) [OF ok] by (auto simp: entry_ok_def s)
  show "compatible e e'" if "gm_get (gm_map f m) k = Some e" "gm_get (gm_map f m) k' = Some e'"
    "Active e" "Active e'" "k \<noteq> k'" for k e k' e'
    using that c by (auto simp: comp)
qed

lemma deactivate_map_ok: "entries_ok m \<Longrightarrow> entries_ok (gm_map (deactivate_name n) m)"
  by (rule entries_ok_map) (auto simp: deactivate_name_def dest: entries_okD(3) split: if_splits)

lemma still_active: "Active (deactivate_name n e) \<Longrightarrow> deactivate_name n e = e \<and> vn_name (Name e) \<noteq> n \<and> Active e"
  by (auto simp: deactivate_name_def split: if_splits)

lemma deactivated:
  assumes "gm_get (gm_map (deactivate_name n) m) k = Some e" and "Active e"
  shows "gm_get m k = Some e \<and> vn_name (Name e) \<noteq> n"
proof -
  from assms obtain f where f: "gm_get m k = Some f" "e = deactivate_name n f" by auto
  with still_active [of n f] assms(2) show ?thesis by simp
qed

lemma add_put_ok:
  assumes ok: "entries_ok (db st)" and n: "valid_vm_name name" and c: "config_ok (Config vm)"
    "cfg_Name (Config vm) = vn_name name"
    and chk: "active \<Longrightarrow> CheckDomainsConflicts env st (cfg_Domains (Config vm)) (vn_name name) = None"
      "active \<Longrightarrow> CheckPortsConflicts st (cfg_Ports (Config vm)) (vn_name name) = None"
  shows "entries_ok (gm_put (vn_ID name) \<lparr>Name = name, VM = vm, Active = active\<rparr>
    (if active then gm_map (deactivate_name (vn_name name)) (db st) else db st))"
proof (rule entries_ok_put)
  show "entries_ok (if active then gm_map (deactivate_name (vn_name name)) (db st) else db st)"
    using ok by (simp add: deactivate_map_ok)
  show "entry_ok (vn_ID name) \<lparr>Name = name, VM = vm, Active = active\<rparr>"
    using n c by (simp add: entry_ok_def)
  fix k' e'
  assume a: "gm_get (if active then gm_map (deactivate_name (vn_name name)) (db st) else db st) k' = Some e'"
    "Active \<lparr>Name = name, VM = vm, Active = active\<rparr>" "Active e'"
  then have act: "active" and "gm_get (db st) k' = Some e'" "vn_name (Name e') \<noteq> vn_name name"
    using deactivated [of "vn_name name" "db st" k' e'] by auto
  from clear_of_others [OF ok chk [OF act] this(2) a(3) this(3)]
  show "compatible \<lparr>Name = name, VM = vm, Active = active\<rparr> e'" by simp
qed

lemma Add_keeps:
  assumes ok: "vmdb_ok st" and n: "valid_vm_name name" and c: "config_ok (Config vm)"
    "cfg_Name (Config vm) = vn_name name"
  shows "vmdb_ok (fst (vmdb_Add env vm name active st))"
proof -
  from ok have e: "entries_ok (db st)" by (simp add: vmdb_ok_def)
  consider (unchanged) "fst (vmdb_Add env vm name active st) = st"
    | (saved) st1 err where "active \<Longrightarrow> CheckDomainsConflicts env st (cfg_Domains (Config vm)) (vn_name name) = None"
      "active \<Longrightarrow> CheckPortsConflicts st (cfg_Ports (Config vm)) (vn_name name) = None"
      "vmdb_save env (st\<lparr>db := gm_put (vn_ID name) \<lparr>Name = name, VM = vm, Active = active\<rparr>
        (if active then gm_map (deactivate_name (vn_name name)) (db st) else db st)\<rparr>) = (st1, err)"
      "fst (vmdb_Add env vm name active st) = (if err = None then st1 else st1\<lparr>db := gm_del (vn_ID name) (db st1)\<rparr>)"
    by (fastforce simp: vmdb_Add_def Let_def split: option.splits prod.splits if_splits)
  then show ?thesis
  proof cases
    case unchanged
    with ok show ?thesis by simp
  next
    case saved
    from add_put_ok [OF e n c saved(1,2)] ok
    have "vmdb_ok (st\<lparr>db := gm_put (vn_ID name) \<lparr>Name = name, VM = vm, Active = active\<rparr>
        (if active then gm_map (deactivate_name (vn_name name)) (db st) else db st)\<rparr>)"
      by (simp add: vmdb_ok_def)
    from save_ok [OF saved(3) this] have "vmdb_ok st1" .
    with saved(4) show ?thesis by (auto simp: vmdb_ok_def entries_ok_del)
  qed
qed

lemma set_revision_active:
  "Active (set_revision n r e) \<longleftrightarrow> (if vn_name (Name e) = n then vn_rev (Name e) = r else Active e)"
  by (simp add: set_revision_def)

lemma set_revision_same: "VM (set_revision n r e) = VM e \<and> Name (set_revision n r e) = Name e"
  by (simp add: set_revision_def)

lemma NewVMName_eta: "NewVMName (vn_name x) (vn_rev x) = x"
  by (cases x) (simp add: NewVMName_def)

lemma revision_entry:
  assumes "entries_ok m" and "gm_get m k = Some e" and "gm_get m k' = Some e'"
    and "vn_name (Name e) = vn_name (Name e')" and "vn_rev (Name e) = vn_rev (Name e')"
  shows "k = k' \<and> e = e'"
  using assms entry_key [OF assms(1,2)] entry_key [OF assms(1,3)]
  by (metis (full_types) option.inject vm_name.equality old.unit.exhaust)

text \<open>The check that guards a change of the active revision, as a fact about the target.\<close>

definition may_activate :: "vmdb_env \<Rightarrow> vmdb \<Rightarrow> string \<Rightarrow> int \<Rightarrow> bool" where
  "may_activate env st n r \<longleftrightarrow>
     (if r = RevisionNone then GetCountForName st n \<noteq> 0
      else \<exists>e. gm_get (db st) (vn_ID (NewVMName n r)) = Some e \<and>
        CheckDomainsConflicts env st (cfg_Domains (Config (VM e))) n = None \<and>
        CheckPortsConflicts st (cfg_Ports (Config (VM e))) n = None)"

lemma SetActive_cases:
  "(\<exists>e. SetActiveRevision env n r st = (st, Some e)) \<or>
   may_activate env st n r \<and>
     SetActiveRevision env n r st = vmdb_save env (st\<lparr>db := gm_map (set_revision n r) (db st)\<rparr>)"
  by (auto simp: SetActiveRevision_def may_activate_def GetByName_def GetEntryByName_def getEntryByID_def
      split: option.splits)

lemma set_revision_map_ok:
  assumes ok: "entries_ok (db st)" and m: "may_activate env st n r"
  shows "entries_ok (gm_map (set_revision n r) (db st))"
proof (rule entries_ok_map [OF ok set_revision_same])
  have new: "compatible e e'"
    if e: "gm_get (db st) k = Some e" "vn_name (Name e) = n" "vn_rev (Name e) = r"
      and e': "gm_get (db st) k' = Some e'" "vn_name (Name e') \<noteq> n" "Active e'" for k e k' e'
  proof -
    from entry_name_valid [OF ok e(1)] e(3) have "r \<noteq> RevisionNone"
      by (auto simp: valid_vm_name_def RevisionNone_def)
    moreover have "vn_ID (NewVMName n r) = k"
      using entry_key [OF ok e(1)] e(2,3) by (auto simp: NewVMName_eta)
    ultimately have "CheckDomainsConflicts env st (cfg_Domains (Config (VM e))) n = None"
      "CheckPortsConflicts st (cfg_Ports (Config (VM e))) n = None"
      using m e(1) by (auto simp: may_activate_def)
    from clear_of_others [OF ok this e'(1,3,2) refl e(2)] show ?thesis .
  qed
  fix k e k' e'
  assume a: "gm_get (db st) k = Some e" "gm_get (db st) k' = Some e'"
    "Active (set_revision n r e)" "Active (set_revision n r e')" "k \<noteq> k'"
  consider "vn_name (Name e) = n" "vn_name (Name e') = n" | "vn_name (Name e) = n" "vn_name (Name e') \<noteq> n"
    | "vn_name (Name e) \<noteq> n" "vn_name (Name e') = n" | "vn_name (Name e) \<noteq> n" "vn_name (Name e') \<noteq> n"
    by blast
  then show "compatible e e'"
  proof cases
    case 1
    with a revision_entry [OF ok a(1,2)] show ?thesis by (simp add: set_revision_active)
  next
    case 2
    with a new show ?thesis by (simp add: set_revision_active)
  next
    case 3
    with a new [of k' e' k e] compatible_sym show ?thesis by (simp add: set_revision_active)
  next
    case 4
    with a entries_okD(3) [OF ok a(1,2)] show ?thesis by (simp add: set_revision_active)
  qed
qed

lemma SetActive_keeps:
  assumes "vmdb_ok st"
  shows "vmdb_ok (fst (SetActiveRevision env n r st))"
proof (cases "\<exists>e. SetActiveRevision env n r st = (st, Some e)")
  case True
  with assms show ?thesis by auto
next
  case False
  with SetActive_cases have m: "may_activate env st n r"
    and s: "SetActiveRevision env n r st = vmdb_save env (st\<lparr>db := gm_map (set_revision n r) (db st)\<rparr>)"
    by blast+
  obtain st1 err where e: "vmdb_save env (st\<lparr>db := gm_map (set_revision n r) (db st)\<rparr>) = (st1, err)"
    by fastforce
  from assms set_revision_map_ok [OF _ m]
  have "vmdb_ok (st\<lparr>db := gm_map (set_revision n r) (db st)\<rparr>)" by (simp add: vmdb_ok_def)
  with save_ok [OF e] s e show ?thesis by simp
qed

lemma Delete_cases:
  obtains (refused) e where "vmdb_Delete env name st = (st, Some e)"
  | (stuck) n r e where "vmdb_Delete env name st = (fst (SetActiveRevision env n r st), Some e)"
  | (plain) "vmdb_Delete env name st = vmdb_save env (st\<lparr>db := gm_del (vn_ID name) (db st)\<rparr>)"
  | (promoted) n r st1 where "SetActiveRevision env n r st = (st1, None)"
      "vmdb_Delete env name st = vmdb_save env (st1\<lparr>db := gm_del (vn_ID name) (db st1)\<rparr>)"
proof (cases "GetEntryByName st name")
  case (Inl e)
  then show ?thesis using refused by (simp add: vmdb_Delete_def)
next
  case (Inr entry)
  show ?thesis
  proof (cases "Active entry")
    case False
    then show ?thesis using plain Inr by (simp add: vmdb_Delete_def)
  next
    case True
    show ?thesis
    proof (cases "promoted_revision st entry")
      case (Inl e)
      then show ?thesis using refused \<open>GetEntryByName st name = Inr entry\<close> True by (simp add: vmdb_Delete_def)
    next
      case (Inr r)
      show ?thesis
      proof (cases "0 \<le> r")
        case False
        then show ?thesis using plain \<open>GetEntryByName st name = Inr entry\<close> Inr True by (simp add: vmdb_Delete_def)
      next
        case pos: True
        obtain st1 err where s: "SetActiveRevision env (vn_name (Name entry)) r st = (st1, err)" by fastforce
        with pos \<open>GetEntryByName st name = Inr entry\<close> Inr True show ?thesis
          by (cases err) (auto simp: vmdb_Delete_def intro: promoted stuck [of "vn_name (Name entry)" r])
      qed
    qed
  qed
qed

lemma Delete_keeps:
  assumes "vmdb_ok st"
  shows "vmdb_ok (fst (vmdb_Delete env name st))"
proof -
  have del: "vmdb_ok (fst (vmdb_save env (st'\<lparr>db := gm_del k (db st')\<rparr>)))" if "vmdb_ok st'" for st' k
  proof -
    obtain st1 err where e: "vmdb_save env (st'\<lparr>db := gm_del k (db st')\<rparr>) = (st1, err)" by fastforce
    from that have "vmdb_ok (st'\<lparr>db := gm_del k (db st')\<rparr>)" by (simp add: vmdb_ok_def entries_ok_del)
    from save_ok [OF e this] e show ?thesis by simp
  qed
  show ?thesis
  proof (cases rule: Delete_cases [of env name st])
    case (promoted n r st1)
    with SetActive_keeps [OF assms, of env n r] del [of st1] show ?thesis by simp
  qed (use assms del SetActive_keeps in auto)
qed

end
