(* ===== verification/Vm_Database_Reach.thy ===== *)
theory Vm_Database_Reach
  imports Vm_Database_Inv
begin

text \<open>
  The VM database as a transition system: every call the server makes is a step, with the
  answers of its environment chosen freely, and every reachable database keeps the invariant.
  Then what the lookups return in a reachable database.
\<close>

subsection \<open>The remaining operations\<close>

lemma AddToGreenhouse_keeps:
  assumes ok: "vmdb_ok st" and n: "valid_vm_name name" and c: "config_ok (Config vm)"
    "cfg_Name (Config vm) = vn_name name"
  shows "vmdb_ok (fst (AddToGreenhouse env vm name st))"
proof (cases "gm_get (greenhouseDB st) (vn_ID name)")
  case None
  let ?st = "st\<lparr>greenhouseDB := gm_put (vn_ID name) \<lparr>Name = name, VM = vm, Active = False\<rparr> (greenhouseDB st)\<rparr>"
  obtain st1 err where e: "vmdb_save env ?st = (st1, err)" by fastforce
  have "vmdb_ok ?st"
    using ok n c unfolding vmdb_ok_def by (auto simp: gm.entries_put entry_ok_def)
  from save_ok [OF e this] e None show ?thesis by (simp add: AddToGreenhouse_def)
qed (use ok in \<open>simp add: AddToGreenhouse_def\<close>)

lemma DeleteFromGreenhouse_keeps:
  "vmdb_ok st \<Longrightarrow> vmdb_ok (fst (DeleteFromGreenhouse name st))"
  by (auto simp: DeleteFromGreenhouse_def vmdb_ok_def gm.entries_del)

lemma Update_keeps: "vmdb_ok st \<Longrightarrow> vmdb_ok (fst (vmdb_Update env st))"
  unfolding vmdb_Update_def using save_ok by (metis prod.collapse)

text \<open>What the code writes through the VM pointers leaves the configuration alone.\<close>

lemma touch_keeps:
  assumes ok: "vmdb_ok st" and e: "gm_get (db st) k = Some e" and c: "Config v = Config (VM e)"
  shows "vmdb_ok (st\<lparr>db := gm_put k (e\<lparr>VM := v\<rparr>) (db st)\<rparr>)"
proof -
  have p: "profile (e\<lparr>VM := v\<rparr>) = profile e"
    using c by (simp add: profile_eq domain_names_def entry_ports_def)
  have "entries_ok (gm_put k (e\<lparr>VM := v\<rparr>) (db st))"
  proof (rule profiles_entries_ok [of _ "db st"])
    show "entries_ok (db st)" using ok by (simp add: vmdb_ok_def)
    then show "gm_ok (gm_put k (e\<lparr>VM := v\<rparr>) (db st))" by (simp add: entries_okD(1))
    show "profiles (gm_put k (e\<lparr>VM := v\<rparr>) (db st)) k' = profiles (db st) k'" for k'
      using e p by simp
  qed
  with ok show ?thesis by (simp add: vmdb_ok_def)
qed

lemma Redefine_keeps:
  assumes ok: "vmdb_ok st" and e: "gm_get (db st) k = Some e" and c: "config_ok conf"
  shows "vmdb_ok (fst (RedefineVM env k e force author conf st))"
proof -
  from ok have es: "entries_ok (db st)" by (simp add: vmdb_ok_def)
  note own = entries_okD(2) [OF es e]
  let ?e = "e\<lparr>VM := redefined author conf (VM e)\<rparr>"
  have new: "domain_names ?e = map dom_Name (cfg_Domains conf)" "entry_ports ?e = cfg_Ports conf"
    by (simp_all add: domain_names_def entry_ports_def redefined_def)
  have put: "entries_ok (gm_put k ?e (db st))"
    if n: "cfg_Name conf = cfg_Name (Config (VM e))"
      and d: "Active e \<Longrightarrow> CheckDomainsConflicts env st (cfg_Domains conf) (cfg_Name conf) = None"
      and p: "Active e \<Longrightarrow> CheckPortsConflicts st (cfg_Ports conf) (cfg_Name conf) = None"
  proof (rule entries_ok_put [OF es])
    show "entry_ok k ?e" using own c n by (simp add: entry_ok_def config_ok_def redefined_def)
    fix k' e'
    assume a: "gm_get (db st) k' = Some e'" "Active ?e" "Active e'" "k' \<noteq> k"
    then have act: "Active e" by simp
    from n own have name: "cfg_Name conf = vn_name (Name e)" by (simp add: entry_ok_def)
    with active_unique [OF es e a(1) act a(3)] a(4) have "vn_name (Name e') \<noteq> cfg_Name conf" by auto
    from clear_of_others [OF es d [OF act] p [OF act] a(1,3) this, of "e\<lparr>VM := (VM e)\<lparr>Config := conf\<rparr>\<rparr>"] name
    have "compatible (e\<lparr>VM := (VM e)\<lparr>Config := conf\<rparr>\<rparr>) e'" by simp
    then show "compatible ?e e'"
      by (simp add: compatible_def domain_names_def export_ids_def entry_ports_def redefined_def)
  qed
  show ?thesis
    using ok put
    by (auto simp: RedefineVM_def Let_def vmdb_ok_def split: option.splits
        intro!: Update_keeps [unfolded vmdb_ok_def, simplified])
qed

subsection \<open>Reachable databases\<close>

definition empty_vmdb :: vmdb where
  "empty_vmdb = \<lparr>db = [], greenhouseDB = [], vmdb_file = NoFile, domain_file = NoFile,
                 port_file = NoFile, updates = 0\<rparr>"

inductive vmdb_step :: "vmdb \<Rightarrow> vmdb \<Rightarrow> bool" where
  add: "valid_vm_name n \<Longrightarrow> config_ok (Config v) \<Longrightarrow> cfg_Name (Config v) = vn_name n \<Longrightarrow>
    vmdb_step st (fst (vmdb_Add env v n active st))"
| delete: "vmdb_step st (fst (vmdb_Delete env n st))"
| activate: "vmdb_step st (fst (SetActiveRevision env name r st))"
| grow: "valid_vm_name n \<Longrightarrow> config_ok (Config v) \<Longrightarrow> cfg_Name (Config v) = vn_name n \<Longrightarrow>
    vmdb_step st (fst (AddToGreenhouse env v n st))"
| harvest: "vmdb_step st (fst (DeleteFromGreenhouse n st))"
| update: "vmdb_step st (fst (vmdb_Update env st))"
| touch: "gm_get (db st) k = Some e \<Longrightarrow> Config v = Config (VM e) \<Longrightarrow>
    vmdb_step st (st\<lparr>db := gm_put k (e\<lparr>VM := v\<rparr>) (db st)\<rparr>)"
| redefine: "gm_get (db st) k = Some e \<Longrightarrow> config_ok conf \<Longrightarrow>
    vmdb_step st (fst (RedefineVM env k e force author conf st))"

inductive vmdb_reach :: "vmdb \<Rightarrow> bool" where
  start: "vmdb_reach empty_vmdb"
| step: "vmdb_reach st \<Longrightarrow> vmdb_step st st' \<Longrightarrow> vmdb_reach st'"

inductive_cases vmdb_stepE: "vmdb_step st st'"

lemma vmdb_step_keeps: "vmdb_step st st' \<Longrightarrow> vmdb_ok st \<Longrightarrow> vmdb_ok st'"
  by (elim vmdb_stepE)
    (simp_all add: Add_keeps Delete_keeps SetActive_keeps AddToGreenhouse_keeps
      DeleteFromGreenhouse_keeps Update_keeps touch_keeps Redefine_keeps)

lemma reach_ok: "vmdb_reach st \<Longrightarrow> vmdb_ok st"
proof (induction rule: vmdb_reach.induct)
  case start
  show ?case by (simp add: empty_vmdb_def vmdb_ok_def entries_ok_def)
next
  case (step st st')
  then show ?case by (blast intro: vmdb_step_keeps)
qed

subsection \<open>The highest revision\<close>

lemma raise_ge: "m \<le> raise_revision P e m"
  by (simp add: raise_revision_def)

lemma fold_raise_ge: "m \<le> fold (raise_revision P) es m"
  by (induction es arbitrary: m) (auto intro: order_trans [OF raise_ge])

lemma fold_raise_upper: "e \<in> set es \<Longrightarrow> P e \<Longrightarrow> vn_rev (Name e) \<le> fold (raise_revision P) es m"
proof (induction es arbitrary: m)
  case (Cons f es)
  show ?case
  proof (cases "e = f")
    case True
    with Cons.prems have "vn_rev (Name e) \<le> raise_revision P f m" by (simp add: raise_revision_def)
    with fold_raise_ge [of "raise_revision P f m" P es] show ?thesis by simp
  qed (use Cons in auto)
qed simp

lemma fold_raise_attained:
  "fold (raise_revision P) es m = m \<or> (\<exists>e\<in>set es. P e \<and> vn_rev (Name e) = fold (raise_revision P) es m)"
proof (induction es arbitrary: m)
  case (Cons e es)
  show ?case using Cons [of "raise_revision P e m"] by (auto simp: raise_revision_def split: if_splits)
qed simp

lemma max_revision_upper: "e \<in> set es \<Longrightarrow> P e \<Longrightarrow> vn_rev (Name e) \<le> max_revision P es"
  unfolding max_revision_def by (rule fold_raise_upper)

lemma max_revision_ge: "-1 \<le> max_revision P es"
  unfolding max_revision_def by (rule fold_raise_ge)

lemma max_revision_attained:
  "max_revision P es = -1 \<or> (\<exists>e\<in>set es. P e \<and> vn_rev (Name e) = max_revision P es)"
  unfolding max_revision_def by (rule fold_raise_attained)

lemma max_revision_none:
  assumes "\<And>e. e \<in> set es \<Longrightarrow> P e \<Longrightarrow> 0 \<le> vn_rev (Name e)"
  shows "max_revision P es = -1 \<longleftrightarrow> (\<forall>e\<in>set es. \<not> P e)"
  using assms max_revision_upper [of _ es P] max_revision_attained [of P es] by fastforce

lemma GetActiveEntryByName_exact:
  assumes ok: "vmdb_ok st"
  shows "GetActiveEntryByName st n =
    (case find (\<lambda>e. Active e \<and> vn_name (Name e) = n) (gm_vals (db st)) of
       None \<Rightarrow> Inl (NoActiveVm n) | Some e \<Rightarrow> Inr (Some e))"
proof -
  from ok have es: "entries_ok (db st)" by (simp add: vmdb_ok_def)
  let ?P = "\<lambda>e. vn_name (Name e) = n \<and> Active e" and ?es = "gm_vals (db st)"
  have pos: "0 \<le> vn_rev (Name e)" if "e \<in> set ?es" for e
    using that entry_name_valid [OF es] by (auto simp: gm_vals_get entries_okD(1) [OF es] valid_vm_name_def)
  show ?thesis
  proof (cases "find (\<lambda>e. Active e \<and> vn_name (Name e) = n) ?es")
    case None
    then have "max_revision ?P ?es = -1"
      by (subst max_revision_none) (auto simp: find_None_all pos)
    with None show ?thesis by (simp add: GetActiveEntryByName_def)
  next
    case (Some e)
    from find_Some_hit [OF Some] have e: "e \<in> set ?es" "Active e" "vn_name (Name e) = n" by auto
    then have "max_revision ?P ?es \<noteq> -1" by (subst max_revision_none) (auto simp: pos)
    with max_revision_attained [of ?P ?es] obtain f where
      f: "f \<in> set ?es" "vn_name (Name f) = n" "Active f" "vn_rev (Name f) = max_revision ?P ?es" by auto
    from f(1) e(1) have g: "gm_get (db st) (vn_ID (Name f)) = Some f" "gm_get (db st) (vn_ID (Name e)) = Some e"
      by (simp_all add: vals_entry [OF es])
    from active_unique [OF es g f(3) e(2)] f(2) e(3) have "f = e" by simp
    with f NewVMName_eta [of "Name f"] g have "gm_get (db st) (vn_ID (NewVMName n (max_revision ?P ?es))) = Some e"
      by simp
    with \<open>max_revision ?P ?es \<noteq> -1\<close> Some show ?thesis by (simp add: GetActiveEntryByName_def)
  qed
qed

lemma next_revision_fresh:
  assumes ok: "vmdb_ok st" and n: "IsValidName n"
  shows "gm_get (db st) (vn_ID (NewVMName n (GetNextRevisionForName st n))) = None"
proof (rule ccontr)
  assume "gm_get (db st) (vn_ID (NewVMName n (GetNextRevisionForName st n))) \<noteq> None"
  then obtain e where e: "gm_get (db st) (vn_ID (NewVMName n (GetNextRevisionForName st n))) = Some e" by auto
  from ok have es: "entries_ok (db st)" by (simp add: vmdb_ok_def)
  have "Name e = NewVMName n (GetNextRevisionForName st n)"
    by (rule vn_ID_inject)
      (use entry_name_valid [OF es e] entry_key [OF es e] n in \<open>auto simp: valid_vm_name_def NewVMName_def\<close>)
  then have "vn_name (Name e) = n" and r: "vn_rev (Name e) = GetNextRevisionForName st n"
    by (simp_all add: NewVMName_def)
  moreover have "e \<in> set (gm_vals (db st))" using e by (auto simp: gm_vals_get entries_okD(1) [OF es])
  ultimately have "vn_rev (Name e) \<le> max_revision (\<lambda>e. vn_name (Name e) = n) (gm_vals (db st))"
    by (intro max_revision_upper) auto
  with r show False by (simp add: GetNextRevisionForName_def)
qed

end
