(* ===== verification/Vm_Registry.thy ===== *)
theory Vm_Registry
  imports Vm_Database_Reach
begin

text \<open>
  The abstract specification of the VM database: for each name, the set of its revisions and
  the active one. \<open>Add\<close>, \<open>Delete\<close> and \<open>SetActiveRevision\<close> implement the three
  operations of that specification.
\<close>

type_synonym registry = "string \<Rightarrow> int set \<times> int option"

definition revisions :: "vmdb \<Rightarrow> string \<Rightarrow> int set" where
  "revisions st n = set (map (\<lambda>e. vn_rev (Name e)) (filter (\<lambda>e. vn_name (Name e) = n) (gm_vals (db st))))"

definition active_rev :: "vmdb \<Rightarrow> string \<Rightarrow> int option" where
  "active_rev st n =
     map_option (\<lambda>e. vn_rev (Name e)) (find (\<lambda>e. Active e \<and> vn_name (Name e) = n) (gm_vals (db st)))"

definition registry :: "vmdb \<Rightarrow> registry" where
  "registry st n = (revisions st n, active_rev st n)"

definition spec_add :: "string \<Rightarrow> int \<Rightarrow> bool \<Rightarrow> registry \<Rightarrow> registry" where
  "spec_add n r active R = R(n := (insert r (fst (R n)), if active then Some r else snd (R n)))"

definition spec_activate :: "string \<Rightarrow> int \<Rightarrow> registry \<Rightarrow> registry" where
  "spec_activate n r R = R(n := (fst (R n), if r = RevisionNone then None else Some r))"

definition spec_delete :: "string \<Rightarrow> int \<Rightarrow> registry \<Rightarrow> registry" where
  "spec_delete n r R =
     (let remaining = fst (R n) - {r} in
      R(n := (remaining, if snd (R n) = Some r then (if remaining = {} then None else Some (Max remaining)) else snd (R n))))"

subsection \<open>The view both levels share\<close>

definition view :: "(string, vm_entry) gomap \<Rightarrow> (vm_name \<times> bool) set" where
  "view m = (\<lambda>e. (Name e, Active e)) ` set (gm_vals m)"

lemma view_entries: "(x, a) \<in> view m \<longleftrightarrow> (\<exists>k e. (k, e) \<in> set m \<and> Name e = x \<and> Active e = a)"
  by (force simp: view_def gm_vals_def)

lemma view_get: "gm_ok m \<Longrightarrow> (x, a) \<in> view m \<longleftrightarrow> (\<exists>k e. gm_get m k = Some e \<and> Name e = x \<and> Active e = a)"
  by (simp add: view_entries gm.entries_get)

lemma view_unique:
  assumes ok: "entries_ok m" and "(x, a) \<in> view m" and "(x, b) \<in> view m"
  shows "a = b"
proof -
  from assms(2,3) obtain k e k' e' where "gm_get m k = Some e" "Name e = x" "Active e = a"
    "gm_get m k' = Some e'" "Name e' = x" "Active e' = b"
    by (auto simp: view_get [OF entries_okD(1) [OF ok]])
  with entry_key [OF ok, of k e] entry_key [OF ok, of k' e'] show ?thesis by simp
qed

lemma view_profiles:
  assumes "gm_ok m" and "gm_ok m'" and "\<And>k. profiles m' k = profiles m k"
  shows "view m' = view m"
proof -
  have "(\<exists>e. gm_get m' k = Some e \<and> Name e = x \<and> Active e = a) \<longleftrightarrow>
        (\<exists>e. gm_get m k = Some e \<and> Name e = x \<and> Active e = a)" for k x a
    using assms(3) [of k] by (auto simp: map_option_case profile_eq split: option.splits)
  then show ?thesis using assms(1,2) by (auto simp: view_get)
qed

lemma save_view:
  assumes "vmdb_save env st = (st', err)" and "gm_ok (db st)"
  shows "view (db st') = view (db st)"
  by (rule view_profiles) (use assms in \<open>simp_all add: save_profiles\<close>)

lemma view_put:
  assumes "gm_ok m" and "gm_get m k = None"
  shows "view (gm_put k e m) = insert (Name e, Active e) (view m)"
proof -
  have "set (gm_put k e m) = insert (k, e) (set m)"
    using assms by (auto simp: gm.entries_put gm.entries_get)
  then show ?thesis by (auto simp: view_def gm_vals_def)
qed

lemma view_map: "view (gm_map f m) = (\<lambda>e. (Name (f e), Active (f e))) ` set (gm_vals m)"
  by (force simp: view_def gm_vals_def gm_map_def)

lemma view_deactivate:
  "(x, a) \<in> view (gm_map (deactivate_name n) m) \<longleftrightarrow> (\<exists>b. (x, b) \<in> view m \<and> a = (b \<and> vn_name x \<noteq> n))"
  unfolding view_map unfolding view_def by (auto simp: deactivate_name_def image_iff)

lemma view_set_revision:
  "(x, a) \<in> view (gm_map (set_revision n r) m) \<longleftrightarrow>
     (\<exists>b. (x, b) \<in> view m \<and> a = (if vn_name x = n then vn_rev x = r else b))"
  unfolding view_map unfolding view_def by (auto simp: set_revision_def image_iff)

lemma view_del:
  assumes ok: "entries_ok m" and n: "IsValidName (vn_name name)"
  shows "(x, a) \<in> view (gm_del (vn_ID name) m) \<longleftrightarrow> (x, a) \<in> view m \<and> x \<noteq> name"
proof -
  note gok = entries_okD(1) [OF ok]
  have "k = vn_ID name \<longleftrightarrow> Name e = name" if "(k, e) \<in> set m" for k e
  proof -
    from that have g: "gm_get m k = Some e" by (simp add: gm.entries_get [OF gok])
    show ?thesis using entry_key [OF ok g] entry_name_valid [OF ok g] n
      by (auto simp: valid_vm_name_def intro: vn_ID_inject)
  qed
  then show ?thesis unfolding view_entries gm.entries_del [OF gok] by auto
qed

lemma NewVMName_sel [simp]: "vn_name (NewVMName n r) = n" "vn_rev (NewVMName n r) = r"
  by (simp_all add: NewVMName_def)

lemma NewVMName_inject [simp]: "NewVMName n r = NewVMName n' r' \<longleftrightarrow> n = n' \<and> r = r'"
  by (simp add: NewVMName_def)

lemma NewVMName_iff: "NewVMName n r = x \<longleftrightarrow> n = vn_name x \<and> r = vn_rev x"
  by (cases x) (simp add: NewVMName_def)

lemma revisions_view: "r \<in> revisions st n \<longleftrightarrow> (\<exists>a. (NewVMName n r, a) \<in> view (db st))"
  by (auto simp: revisions_def view_def image_iff NewVMName_iff)

lemma active_view:
  assumes ok: "entries_ok (db st)"
  shows "active_rev st n = Some r \<longleftrightarrow> (NewVMName n r, True) \<in> view (db st)"
proof
  assume "active_rev st n = Some r"
  then obtain e where "find (\<lambda>e. Active e \<and> vn_name (Name e) = n) (gm_vals (db st)) = Some e" "r = vn_rev (Name e)"
    by (auto simp: active_rev_def)
  with find_Some_hit [OF this(1)] show "(NewVMName n r, True) \<in> view (db st)"
    by (auto simp: view_def image_iff NewVMName_eta intro!: bexI [of _ e])
next
  assume "(NewVMName n r, True) \<in> view (db st)"
  then obtain k e where e: "gm_get (db st) k = Some e" "Name e = NewVMName n r" "Active e"
    using ok by (auto simp: view_get entries_okD(1))
  have "find (\<lambda>e. Active e \<and> vn_name (Name e) = n) (gm_vals (db st)) = Some e"
  proof (rule find_unique)
    show "e \<in> set (gm_vals (db st))" using e(1) ok by (auto simp: gm_vals_get entries_okD(1))
    show "Active e \<and> vn_name (Name e) = n" using e by (simp add: NewVMName_def)
    show "f = e" if "f \<in> set (gm_vals (db st))" "Active f \<and> vn_name (Name f) = n" for f
    proof -
      from that(1) have "gm_get (db st) (vn_ID (Name f)) = Some f" by (simp add: vals_entry [OF ok])
      from active_unique [OF ok this e(1)] that(2) e show ?thesis by (simp add: NewVMName_def)
    qed
  qed
  with e(2) show "active_rev st n = Some r" by (simp add: active_rev_def NewVMName_def)
qed

lemma option_ext: "(\<And>r. x = Some r \<longleftrightarrow> y = Some r) \<Longrightarrow> x = y"
  by (cases x; cases y) auto

lemma registryI:
  assumes "entries_ok (db st)"
    and "\<And>n r. (\<exists>a. (NewVMName n r, a) \<in> view (db st)) \<longleftrightarrow> r \<in> fst (R n)"
    and "\<And>n r. (NewVMName n r, True) \<in> view (db st) \<longleftrightarrow> snd (R n) = Some r"
  shows "registry st = R"
proof
  fix n
  have "revisions st n = fst (R n)" by (rule set_eqI) (simp add: revisions_view assms(2))
  moreover have "active_rev st n = snd (R n)"
    by (rule option_ext) (simp add: active_view [OF assms(1)] assms(3))
  ultimately show "registry st n = R n" by (simp add: registry_def)
qed

lemma registry_fst [simp]: "r \<in> fst (registry st n) \<longleftrightarrow> (\<exists>a. (NewVMName n r, a) \<in> view (db st))"
  by (simp add: registry_def revisions_view)

lemma registry_snd: "entries_ok (db st) \<Longrightarrow> snd (registry st n) = Some r \<longleftrightarrow> (NewVMName n r, True) \<in> view (db st)"
  by (simp add: registry_def active_view)

subsection \<open>The operations\<close>

lemma Add_success:
  assumes "vmdb_Add env vm name active st = (st', None)"
  shows "gm_get (db st) (vn_ID name) = None"
    and "active \<Longrightarrow> CheckDomainsConflicts env st (cfg_Domains (Config vm)) (vn_name name) = None"
    and "active \<Longrightarrow> CheckPortsConflicts st (cfg_Ports (Config vm)) (vn_name name) = None"
    and "vmdb_save env (st\<lparr>db := gm_put (vn_ID name) \<lparr>Name = name, VM = vm, Active = active\<rparr>
        (if active then gm_map (deactivate_name (vn_name name)) (db st) else db st)\<rparr>) = (st', None)"
  using assms by (auto simp: vmdb_Add_def Let_def split: option.splits prod.splits if_splits)

lemma Add_refines:
  assumes ok: "vmdb_ok st" and n: "valid_vm_name name" and c: "config_ok (Config vm)"
    "cfg_Name (Config vm) = vn_name name"
    and s: "vmdb_Add env vm name active st = (st', None)"
  shows "registry st' = spec_add (vn_name name) (vn_rev name) active (registry st)"
proof (rule registryI)
  from ok have es: "entries_ok (db st)" by (simp add: vmdb_ok_def)
  note gok = entries_okD(1) [OF es]
  from Add_keeps [OF ok n c, of env active] s show "entries_ok (db st')" by (simp add: vmdb_ok_def)
  let ?m = "if active then gm_map (deactivate_name (vn_name name)) (db st) else db st"
  have m: "gm_ok ?m" "gm_get ?m (vn_ID name) = None" using gok Add_success(1) [OF s] by simp_all
  have v: "view (db st') = insert (name, active) (view ?m)"
    using save_view [OF Add_success(4) [OF s]] m by (simp add: view_put)
  have vm: "(x, a) \<in> view ?m \<longleftrightarrow>
      (\<exists>b. (x, b) \<in> view (db st) \<and> a = (b \<and> (active \<longrightarrow> vn_name x \<noteq> vn_name name)))" for x a
    by (simp add: view_deactivate)
  have snd: "snd (registry st n) = Some r \<longleftrightarrow> (NewVMName n r, True) \<in> view (db st)" for n r
    by (rule registry_snd [OF es])
  show "(\<exists>a. (NewVMName n r, a) \<in> view (db st')) \<longleftrightarrow>
      r \<in> fst (spec_add (vn_name name) (vn_rev name) active (registry st) n)" for n r
    by (auto simp: spec_add_def NewVMName_iff v vm)
  show "(NewVMName n r, True) \<in> view (db st') \<longleftrightarrow>
      snd (spec_add (vn_name name) (vn_rev name) active (registry st) n) = Some r" for n r
  proof -
    have "(name, True) \<notin> view (db st)"
      using Add_success(1) [OF s] entry_key [OF es] by (auto simp: view_get [OF gok])
    then show ?thesis
      by (cases active) (auto simp: spec_add_def NewVMName_iff snd v view_deactivate)
  qed
qed

lemma SetActive_success:
  assumes "SetActiveRevision env n r st = (st', None)"
  shows "may_activate env st n r"
    and "vmdb_save env (st\<lparr>db := gm_map (set_revision n r) (db st)\<rparr>) = (st', None)"
  using assms SetActive_cases [of env n r st] by auto

lemma SetActive_view:
  assumes "gm_ok (db st)" and "SetActiveRevision env n r st = (st', None)"
  shows "(x, a) \<in> view (db st') \<longleftrightarrow>
    (\<exists>b. (x, b) \<in> view (db st) \<and> a = (if vn_name x = n then vn_rev x = r else b))"
  using save_view [OF SetActive_success(2) [OF assms(2)]] assms(1) by (simp add: view_set_revision)

lemma view_valid: "entries_ok m \<Longrightarrow> (x, a) \<in> view m \<Longrightarrow> valid_vm_name x"
  by (auto simp: view_get entries_okD(1) dest: entry_name_valid)

lemma SetActive_refines:
  assumes ok: "vmdb_ok st" and n: "IsValidName n" and s: "SetActiveRevision env n r st = (st', None)"
  shows "registry st' = spec_activate n r (registry st)"
proof (rule registryI)
  from ok have es: "entries_ok (db st)" by (simp add: vmdb_ok_def)
  from SetActive_keeps [OF ok, of env n r] s show "entries_ok (db st')" by (simp add: vmdb_ok_def)
  note v = SetActive_view [OF entries_okD(1) [OF es] s]
  show "(\<exists>a. (NewVMName n' r', a) \<in> view (db st')) \<longleftrightarrow> r' \<in> fst (spec_activate n r (registry st) n')" for n' r'
    by (auto simp: spec_activate_def v)
  have "\<exists>a. (NewVMName n r, a) \<in> view (db st)" if "r \<noteq> RevisionNone"
  proof -
    from that SetActive_success(1) [OF s] obtain e where e: "gm_get (db st) (vn_ID (NewVMName n r)) = Some e"
      by (auto simp: may_activate_def)
    have "Name e = NewVMName n r"
      by (rule vn_ID_inject) (use entry_name_valid [OF es e] entry_key [OF es e] n in \<open>auto simp: valid_vm_name_def\<close>)
    with e show ?thesis using es by (auto simp: view_get entries_okD(1))
  qed
  moreover have "r' \<noteq> RevisionNone" if "(NewVMName n' r', a) \<in> view (db st)" for n' r' a
    using view_valid [OF es that] by (simp add: valid_vm_name_def RevisionNone_def)
  moreover have "snd (registry st n) = Some r \<longleftrightarrow> (NewVMName n r, True) \<in> view (db st)" for n r
    by (rule registry_snd [OF es])
  ultimately show "(NewVMName n' r', True) \<in> view (db st') \<longleftrightarrow>
      snd (spec_activate n r (registry st) n') = Some r'" for n' r'
    by (auto simp: spec_activate_def v)
qed

subsection \<open>Deletion\<close>

abbreviation siblings :: "vm_name \<Rightarrow> vm_entry \<Rightarrow> bool" where
  "siblings name \<equiv> \<lambda>e. vn_name (Name e) = vn_name name \<and> vn_rev (Name e) \<noteq> vn_rev name"

lemma promoted_run:
  assumes "\<forall>e\<in>set es. GetEntryByName st (Name e) = Inr e"
  shows "foldE (\<lambda>vmName maxRevision.
         case GetEntryByName st vmName of
           Inl e \<Rightarrow> Inl e
         | Inr entry \<Rightarrow>
             Inr (if vn_name (Name entry) = vn_name (Name d) \<and> vn_rev (Name entry) \<noteq> vn_rev (Name d)
                     \<and> maxRevision < vn_rev (Name entry)
                  then vn_rev (Name entry) else maxRevision)) (map Name es) m =
    Inr (fold (raise_revision (siblings (Name d))) es m)"
  using assms
proof (induction es arbitrary: m)
  case (Cons e es)
  then have e: "GetEntryByName st (Name e) = Inr e" by simp
  show ?case
    unfolding list.map foldE.simps e sum.case raise_revision_def [symmetric]
    using Cons.IH [of "raise_revision (siblings (Name d)) e m"] Cons.prems
    by (simp add: raise_revision_def)
qed simp

lemma promoted_eq:
  assumes "entries_ok (db st)"
  shows "promoted_revision st d = Inr (max_revision (siblings (Name d)) (gm_vals (db st)))"
proof -
  have "\<forall>e\<in>set (gm_vals (db st)). GetEntryByName st (Name e) = Inr e"
    using assms by (auto simp: gm_vals_get entries_okD(1) intro: get_own_entry)
  from promoted_run [OF this] show ?thesis
    by (simp add: promoted_revision_def GetNames_def max_revision_def)
qed

text \<open>What the promoted revision is, in terms of the registry.\<close>

lemma promoted_spec:
  fixes name :: vm_name
  assumes ok: "entries_ok (db st)"
  defines "rest \<equiv> revisions st (vn_name name) - {vn_rev name}"
    and "r \<equiv> max_revision (siblings name) (gm_vals (db st))"
  shows "r < 0 \<Longrightarrow> rest = {}" and "0 \<le> r \<Longrightarrow> rest \<noteq> {} \<and> r = Max rest"
proof -
  have rest: "q \<in> rest \<longleftrightarrow> (\<exists>e\<in>set (gm_vals (db st)). siblings name e \<and> vn_rev (Name e) = q)" for q
    by (auto simp: rest_def revisions_def image_iff)
  have pos: "0 \<le> q" if "q \<in> rest" for q
    using that entry_name_valid [OF ok] unfolding rest
    by (auto simp: gm_vals_get entries_okD(1) [OF ok] valid_vm_name_def)
  have up: "q \<le> r" if "q \<in> rest" for q
    using that max_revision_upper [of _ "gm_vals (db st)" "siblings name"] unfolding rest r_def by auto
  show "r < 0 \<Longrightarrow> rest = {}" using pos up by force
  assume "0 \<le> r"
  with max_revision_attained [of "siblings name" "gm_vals (db st)"] have "r \<in> rest"
    unfolding rest r_def by auto
  moreover have "finite rest" by (simp add: rest_def revisions_def)
  ultimately show "rest \<noteq> {} \<and> r = Max rest" using up by (auto intro!: Max_eqI [symmetric])
qed

lemma Delete_success:
  assumes ok: "entries_ok (db st)" and n: "IsValidName (vn_name name)"
    and s: "vmdb_Delete env name st = (st', None)"
  obtains st1 a where "(name, a) \<in> view (db st)"
    and "vmdb_save env (st1\<lparr>db := gm_del (vn_ID name) (db st1)\<rparr>) = (st', None)"
    and "(\<not> a \<or> revisions st (vn_name name) - {vn_rev name} = {}) \<and> st1 = st \<or>
      a \<and> revisions st (vn_name name) - {vn_rev name} \<noteq> {} \<and>
      SetActiveRevision env (vn_name name) (Max (revisions st (vn_name name) - {vn_rev name})) st = (st1, None)"
proof -
  from s obtain e where e: "gm_get (db st) (vn_ID name) = Some e"
    by (auto simp: vmdb_Delete_def GetEntryByName_def getEntryByID_def split: option.splits)
  have nm: "Name e = name"
    by (rule vn_ID_inject) (use entry_name_valid [OF ok e] entry_key [OF ok e] n in \<open>auto simp: valid_vm_name_def\<close>)
  with e have v: "(name, Active e) \<in> view (db st)" by (auto simp: view_get entries_okD(1) [OF ok])
  let ?r = "max_revision (siblings name) (gm_vals (db st))"
  have s': "(case (if \<not> Active e then (st, None)
            else if 0 \<le> ?r then SetActiveRevision env (vn_name name) ?r st else (st, None)) of
        (st1, Some e) \<Rightarrow> (st1, Some e)
      | (st1, None) \<Rightarrow> vmdb_save env (st1\<lparr>db := gm_del (vn_ID name) (db st1)\<rparr>)) = (st', None)"
    using s unfolding vmdb_Delete_def GetEntryByName_def getEntryByID_def e option.case sum.case
      promoted_eq [OF ok] nm .
  consider "\<not> Active e" | "Active e" "?r < 0" | "Active e" "0 \<le> ?r" by linarith
  then show ?thesis
  proof cases
    case 3
    with s' obtain st1 where "SetActiveRevision env (vn_name name) ?r st = (st1, None)"
      "vmdb_save env (st1\<lparr>db := gm_del (vn_ID name) (db st1)\<rparr>) = (st', None)"
      by (auto split: prod.splits option.splits)
    with that [OF v this(2)] promoted_spec(2) [OF ok 3(2)] 3 show ?thesis by auto
  qed (use s' that [OF v, of st] promoted_spec(1) [OF ok, of name] in auto)
qed

lemma Delete_refines:
  assumes ok: "vmdb_ok st" and n: "IsValidName (vn_name name)"
    and s: "vmdb_Delete env name st = (st', None)"
  shows "registry st' = spec_delete (vn_name name) (vn_rev name) (registry st)"
proof -
  from ok have es: "entries_ok (db st)" by (simp add: vmdb_ok_def)
  let ?rest = "revisions st (vn_name name) - {vn_rev name}"
  from Delete_success [OF es n s] obtain st1 a where a: "(name, a) \<in> view (db st)"
    and sv: "vmdb_save env (st1\<lparr>db := gm_del (vn_ID name) (db st1)\<rparr>) = (st', None)"
    and c: "(\<not> a \<or> ?rest = {}) \<and> st1 = st \<or>
      a \<and> ?rest \<noteq> {} \<and> SetActiveRevision env (vn_name name) (Max ?rest) st = (st1, None)" by blast
  have ok1: "vmdb_ok st1" using c ok SetActive_keeps [OF ok, of env "vn_name name" "Max ?rest"] by auto
  then have es1: "entries_ok (db st1)" by (simp add: vmdb_ok_def)
  have reg1: "registry st1 = (if a \<and> ?rest \<noteq> {} then spec_activate (vn_name name) (Max ?rest) (registry st)
      else registry st)"
    using c SetActive_refines [OF ok n] by auto
  have act: "active_rev st (vn_name name) = Some (vn_rev name) \<longleftrightarrow> a"
    unfolding active_view [OF es] NewVMName_eta using a view_unique [OF es a, of True] by (cases a) auto
  have v: "(x, b) \<in> view (db st') \<longleftrightarrow> (x, b) \<in> view (db st1) \<and> x \<noteq> name" for x b
    using save_view [OF sv] entries_okD(1) [OF es1] by (simp add: view_del [OF es1 n])
  have neg: "Max ?rest \<noteq> RevisionNone" if "?rest \<noteq> {}"
  proof -
    have "Max ?rest \<in> ?rest" using that by (intro Max_in) (simp_all add: revisions_def)
    then have "Max ?rest \<in> revisions st (vn_name name)" by blast
    then obtain b where "(NewVMName (vn_name name) (Max ?rest), b) \<in> view (db st)"
      unfolding revisions_view by blast
    from view_valid [OF es this] show ?thesis by (simp add: valid_vm_name_def RevisionNone_def)
  qed
  have max: "Max ?rest \<noteq> vn_rev name" if "?rest \<noteq> {}"
  proof -
    have "Max ?rest \<in> ?rest" using that by (intro Max_in) (simp_all add: revisions_def)
    then show ?thesis by blast
  qed
  show ?thesis
  proof (rule registryI)
    from Delete_keeps [OF ok, of env name] s show "entries_ok (db st')" by (simp add: vmdb_ok_def)
    have 1: "(\<exists>b. (NewVMName m q, b) \<in> view (db st1)) \<longleftrightarrow> q \<in> fst (registry st m)" for m q
    proof -
      have "(\<exists>b. (NewVMName m q, b) \<in> view (db st1)) \<longleftrightarrow> q \<in> fst (registry st1 m)" by simp
      then show ?thesis unfolding reg1 by (auto simp: spec_activate_def)
    qed
    have 2: "(NewVMName m q, True) \<in> view (db st1) \<longleftrightarrow> snd (registry st1 m) = Some q" for m q
      by (simp add: registry_snd [OF es1])
    show "(\<exists>b. (NewVMName m q, b) \<in> view (db st')) \<longleftrightarrow>
        q \<in> fst (spec_delete (vn_name name) (vn_rev name) (registry st) m)" for m q
      using 1 [of m q] unfolding v by (auto simp: spec_delete_def Let_def NewVMName_iff)
    show "(NewVMName m q, True) \<in> view (db st') \<longleftrightarrow>
        snd (spec_delete (vn_name name) (vn_rev name) (registry st) m) = Some q" for m q
    proof (cases "m = vn_name name")
      case False
      then show ?thesis unfolding v 2 reg1 by (simp add: spec_delete_def spec_activate_def Let_def NewVMName_iff)
    next
      case True
      then show ?thesis
        unfolding v 2 reg1 using act neg max
        by (cases "a \<and> ?rest \<noteq> {}")
           (auto simp: spec_delete_def spec_activate_def Let_def NewVMName_iff registry_def)
    qed
  qed
qed

end
