(* ===== verification/Vm_Proxy_Files.thy ===== *)
theory Vm_Proxy_Files
  imports Vm_Registry
begin

text \<open>
  What the VM database writes for the reverse proxy: the domain file is exactly the domains
  of the active VMs, and the port file forwards only what some VM exports or publishes.
\<close>

subsection \<open>Domains\<close>

definition bound_domains :: "vm_entry \<Rightarrow> domain list" where
  "bound_domains e = (if Active e then map (bind_domain e) (cfg_Domains (Config (VM e))) else [])"

definition active_domains :: "(string, vm_entry) gomap \<Rightarrow> domain list" where
  "active_domains es = concat (map bound_domains (gm_vals es))"

abbreviation by_name :: "domain list \<Rightarrow> (string \<times> domain) list" where
  "by_name ds \<equiv> map (\<lambda>d. (dom_Name d, d)) ds"

lemma bind_domain_name [simp]: "dom_Name (bind_domain e d) = dom_Name d"
  by (simp add: bind_domain_def Let_def)

lemma reg_domains_ok:
  assumes "distinct (map dom_Name ds)" and "\<forall>d\<in>set ds. gm_get m (dom_Name d) = None"
  shows "reg_domains e ds m = (map (bind_domain e) ds, Inr (put_all (by_name (map (bind_domain e) ds)) m))"
  using assms
proof (induction e ds m rule: reg_domains.induct)
  case (2 entry d ds m)
  have "\<forall>d'\<in>set ds. gm_get (gm_put (dom_Name d) (bind_domain entry d) m) (dom_Name d') = None"
  proof
    fix d'
    assume d': "d' \<in> set ds"
    with 2(2) have "dom_Name d' \<noteq> dom_Name d" by (metis distinct.simps(2) image_eqI list.set_map list.simps(9))
    with 2(3) d' show "gm_get (gm_put (dom_Name d) (bind_domain entry d) m) (dom_Name d') = None" by simp
  qed
  with 2(1) [OF refl] 2(2,3) show ?case by (simp add: put_all_Cons Let_def)
qed (simp add: put_all_def)

lemma gen_domains_ok:
  assumes "distinct (map dom_Name (active_domains es))"
    and "\<forall>d\<in>set (active_domains es). gm_get m (dom_Name d) = None"
  shows "snd (gen_domains es m) = Inr (put_all (by_name (active_domains es)) m)"
  using assms
proof (induction es m rule: gen_domains.induct)
  case (1 m)
  then show ?case by (simp add: active_domains_def gm_vals_def put_all_def)
next
  case (2 k e es m)
  have split: "active_domains ((k, e) # es) = bound_domains e @ active_domains es"
    by (simp add: active_domains_def gm_vals_def)
  show ?case
  proof (cases "Active e")
    case False
    then have "bound_domains e = []" by (simp add: bound_domains_def)
    with 2(1) False 2(3,4) split show ?thesis by (simp add: case_prod_unfold Let_def)
  next
    case True
    let ?ds = "cfg_Domains (Config (VM e))"
    have b: "bound_domains e = map (bind_domain e) ?ds" using True by (simp add: bound_domains_def)
    have d1: "distinct (map dom_Name ?ds)" using 2(3) by (simp add: split b comp_def)
    have d2: "\<forall>d\<in>set ?ds. gm_get m (dom_Name d) = None"
      using 2(4) by (auto simp: split b ball_Un)
    note r = reg_domains_ok [OF d1 d2, of e]
    let ?m = "put_all (by_name (bound_domains e)) m"
    have "\<forall>d\<in>set (active_domains es). gm_get ?m (dom_Name d) = None"
    proof
      fix d
      assume d: "d \<in> set (active_domains es)"
      with 2(3) have "dom_Name d \<notin> fst ` set (by_name (bound_domains e))"
        by (force simp: split)
      from put_all_other [OF this, of m] 2(4) d show "gm_get ?m (dom_Name d) = None" by (simp add: split)
    qed
    with 2(2) [OF _ r [symmetric] refl] True 2(3) have
      "snd (gen_domains es ?m) = Inr (put_all (by_name (active_domains es)) ?m)"
      by (simp add: split b)
    with True r show ?thesis by (simp add: case_prod_unfold Let_def split put_all_append b)
  qed
qed

lemma active_domains_distinct:
  assumes "entries_ok m"
  shows "distinct (map dom_Name (active_domains m))"
  using assms
proof (induction m)
  case Nil
  then show ?case by (simp add: active_domains_def gm_vals_def)
next
  case (Cons ke m)
  obtain k e where ke: "ke = (k, e)" by (cases ke)
  have names: "dom_Name ` set (bound_domains f) = (if Active f then set (domain_names f) else {})" for f
    by (simp add: bound_domains_def domain_names_def image_image)
  from Cons.prems have "entries_ok m" and k: "gm_ok ((k, e) # m)"
    by (auto simp: entries_ok_def gm_ok_def ke)
  from Cons.IH [OF this(1)] have 1: "distinct (map dom_Name (active_domains m))" .
  have 2: "distinct (map dom_Name (bound_domains e))"
    using Cons.prems by (auto simp: entries_ok_def ke entry_ok_def config_ok_def bound_domains_def comp_def)
  have 3: "dom_Name ` set (bound_domains e) \<inter> dom_Name ` set (bound_domains f) = {}" if "(l, f) \<in> set m" for l f
  proof -
    have "l \<noteq> k" using k that by (force simp: gm_ok_def)
    with Cons.prems that have "Active e \<Longrightarrow> Active f \<Longrightarrow> compatible e f" by (auto simp: entries_ok_def ke)
    then show ?thesis by (auto simp: names compatible_def)
  qed
  have "dom_Name ` set (active_domains m) = (\<Union>(l, f)\<in>set m. dom_Name ` set (bound_domains f))"
    by (force simp: active_domains_def gm_vals_def)
  with 3 have "dom_Name ` set (bound_domains e) \<inter> dom_Name ` set (active_domains m) = {}" by fastforce
  with 1 2 show ?case by (simp add: ke active_domains_def gm_vals_def)
qed

lemma active_domains_mem:
  assumes "gm_ok m"
  shows "x \<in> set (active_domains m) \<longleftrightarrow>
    (\<exists>k e d. gm_get m k = Some e \<and> Active e \<and> d \<in> set (cfg_Domains (Config (VM e))) \<and> x = bind_domain e d)"
proof -
  have "x \<in> set (bound_domains e) \<longleftrightarrow>
      Active e \<and> (\<exists>d\<in>set (cfg_Domains (Config (VM e))). x = bind_domain e d)" for e
    by (auto simp: bound_domains_def)
  then have "x \<in> set (active_domains m) \<longleftrightarrow>
      (\<exists>e\<in>set (gm_vals m). Active e \<and> (\<exists>d\<in>set (cfg_Domains (Config (VM e))). x = bind_domain e d))"
    by (simp add: active_domains_def)
  then show ?thesis by (simp add: Bex_def gm_vals_get [OF assms]) blast
qed

text \<open>The file a successful save writes, entry by entry.\<close>

lemma gen_domains_exact:
  assumes "entries_ok m"
  obtains domains where "snd (gen_domains m []) = Inr domains"
    and "\<And>n x. gm_get domains n = Some x \<longleftrightarrow>
      (\<exists>k e d. gm_get m k = Some e \<and> Active e \<and> d \<in> set (cfg_Domains (Config (VM e))) \<and>
        dom_Name d = n \<and> x = bind_domain e d)"
proof
  let ?domains = "put_all (by_name (active_domains m)) []"
  note d = active_domains_distinct [OF assms]
  show "snd (gen_domains m []) = Inr ?domains" by (rule gen_domains_ok [OF d]) simp
  have "distinct (map fst (by_name (active_domains m)))" using d by (simp add: comp_def)
  note lookup = put_all_distinct [OF this] and mem = active_domains_mem [OF entries_okD(1) [OF assms]]
  have found: "gm_get ?domains n = Some x \<longleftrightarrow> x \<in> set (active_domains m) \<and> dom_Name x = n" for n x
    unfolding lookup by (auto simp: image_iff)
  show "gm_get ?domains n = Some x \<longleftrightarrow>
      (\<exists>k e d. gm_get m k = Some e \<and> Active e \<and> d \<in> set (cfg_Domains (Config (VM e))) \<and>
        dom_Name d = n \<and> x = bind_domain e d)" for n x
    unfolding found mem by (rule iffI; elim exE conjE; intro exI conjI; (assumption | simp))
qed

lemma port_listeners_cong:
  "db st = db st' \<Longrightarrow> greenhouseDB st = greenhouseDB st' \<Longrightarrow> port_listeners env st = port_listeners env st'"
  by (simp add: port_listeners_def vm_entries_def)

lemma save_success:
  assumes "vmdb_save env st = (st', None)"
  obtains domains listeners where "vmdb_file st' = Holds (db st)" and "snd (gen_domains (db st) []) = Inr domains"
    and "domain_file st' = Holds domains" and "port_listeners env st' = Inr listeners"
    and "port_file st' = Holds listeners" and "updates st' = updates st + 1"
proof -
  from assms obtain f where f: "write_file (env_write_db env) (db st) (vmdb_file st) = (f, None)"
    by (auto simp: vmdb_save_def Let_def split: prod.splits option.splits)
  with assms obtain st2 st3 where 2: "genDomainsDB env (st\<lparr>vmdb_file := f\<rparr>) = (st2, None)"
    and 3: "genPortsDB env st2 = (st3, None)" and 4: "st' = st3\<lparr>updates := updates st3 + 1\<rparr>"
    by (auto simp: vmdb_save_def Let_def split: prod.splits option.splits)
  from 2 obtain es domains g where "gen_domains (db st) [] = (es, Inr domains)"
    "write_file (env_write_domains env) domains (domain_file st) = (g, None)"
    "st2 = st\<lparr>vmdb_file := f, db := es, domain_file := g\<rparr>"
    by (auto simp: genDomainsDB_def split: prod.splits sum.splits)
  moreover from 3 obtain listeners h where ls: "port_listeners env st2 = Inr listeners"
    "write_file (env_write_ports env) listeners (port_file st2) = (h, None)" "st3 = st2\<lparr>port_file := h\<rparr>"
    by (auto simp: genPortsDB_def split: prod.splits sum.splits)
  moreover have "port_listeners env st' = Inr listeners"
    using ls(1) port_listeners_cong [of st' st2 env] by (simp add: 4 ls(3))
  ultimately show ?thesis using that f 4 by (auto dest!: write_file_None)
qed

subsection \<open>Ports\<close>

text \<open>What may appear in the port file: the imports of a VM towards its exporter, and public ports.\<close>

definition import_forward :: "vm_entry list \<Rightarrow> u16 \<Rightarrow> string \<Rightarrow> tcp_forwarder \<Rightarrow> bool" where
  "import_forward entries lp src f \<longleftrightarrow>
     (\<exists>e\<in>set entries. \<exists>p\<in>set (entry_ports e). \<exists>x\<in>set entries. \<exists>q\<in>set (entry_ports x).
        Direction p = Import \<and> src = AssignedIPv4 (VM e) \<and> lp = VMPortBaseForward + word_of_int (Index p) \<and>
        Active x \<and> Direction q = Export \<and> PublicPort q = 0 \<and> Group q = Group p \<and> Port q = Port p \<and>
        f = \<lparr>Dest = \<lparr>ta_IP = AssignedIPv4 (VM x), ta_Port = Port q\<rparr>, PROXYProtoPort = 0\<rparr>)"

definition public_forward :: "vm_entry list \<Rightarrow> u16 \<Rightarrow> string \<Rightarrow> tcp_forwarder \<Rightarrow> bool" where
  "public_forward entries lp src f \<longleftrightarrow>
     src = ''*'' \<and> (\<exists>e\<in>set entries. \<exists>p\<in>set (entry_ports e).
        Active e \<and> lp = PublicPort p \<and> lp \<noteq> 0 \<and>
        f = \<lparr>Dest = \<lparr>ta_IP = AssignedIPv4 (VM e), ta_Port = Port p\<rparr>, PROXYProtoPort = ProxyPort p\<rparr>)"

definition all_forwards ::
  "(u16 \<Rightarrow> string \<Rightarrow> tcp_forwarder \<Rightarrow> bool) \<Rightarrow> (u16, tcp_listener) gomap \<Rightarrow> bool" where
  "all_forwards P ls \<longleftrightarrow>
     (\<forall>lp l src f. gm_get ls lp = Some l \<longrightarrow> gm_get (Forwards l) src = Some f \<longrightarrow> P lp src f)"

lemma all_forwards_put:
  assumes "all_forwards P ls" and "\<And>src f. gm_get (Forwards l) src = Some f \<Longrightarrow> P lp src f"
  shows "all_forwards P (gm_put lp l ls)"
  using assms by (auto simp: all_forwards_def split: if_splits)

lemma exported_found:
  assumes "gm_get (exported_port_map entries) s = Some v"
  obtains x q where "x \<in> set entries" and "q \<in> set (entry_ports x)" and "Active x" and "Direction q = Export"
    and "PublicPort q = 0" and "port_String q = s" and "v = VM x"
proof -
  have "(s, v) \<in> set kvs" if "gm_get (put_all kvs []) s = Some v" for kvs :: "(string \<times> vm) list"
    using that map_of_SomeD [of "rev kvs" s v] by (simp add: put_all_get split: option.splits)
  from this [OF assms [unfolded exported_port_map_def]] that show ?thesis
    by (auto simp: entry_ports_def)
qed

lemma exporter_of_import:
  assumes "wf_port p" and "Direction p = Import" and "wf_port q"
    and "port_String q = port_String (p\<lparr>Direction := Export\<rparr>)"
  shows "Port q = Port p \<and> Group q = Group p"
proof -
  have "wf_port (p\<lparr>Direction := Export\<rparr>)" using assms(1,2) by (auto simp: wf_port_def split: if_splits)
  from port_String_inject [OF assms(3) this assms(4)] show ?thesis by (simp add: port_key_def)
qed

lemma import_port_forwards:
  assumes wf: "\<And>e p. e \<in> set entries \<Longrightarrow> p \<in> set (entry_ports e) \<Longrightarrow> wf_port p"
    and e: "e \<in> set entries" and p: "p \<in> set (entry_ports e)"
    and inv: "all_forwards (import_forward entries) ls"
    and s: "import_port env (exported_port_map entries) e p ls = Inr ls'"
  shows "all_forwards (import_forward entries) ls'"
proof (cases "Direction p = Import \<and> gm_get (exported_port_map entries) (port_String (p\<lparr>Direction := Export\<rparr>)) \<noteq> None")
  case False
  with s inv show ?thesis by (auto simp: import_port_def split: if_splits option.splits)
next
  case True
  then obtain v where imp: "Direction p = Import"
    and v: "gm_get (exported_port_map entries) (port_String (p\<lparr>Direction := Export\<rparr>)) = Some v" by auto
  from exported_found [OF v] obtain x q where x: "x \<in> set entries" "q \<in> set (entry_ports x)" "Active x"
    "Direction q = Export" "PublicPort q = 0" "port_String q = port_String (p\<lparr>Direction := Export\<rparr>)" "v = VM x" .
  from exporter_of_import [OF wf [OF e p] imp wf [OF x(1,2)] x(6)] have q: "Port q = Port p" "Group q = Group p" by auto
  let ?lp = "VMPortBaseForward + word_of_int (Index p)"
  let ?f = "\<lparr>Dest = \<lparr>ta_IP = AssignedIPv4 v, ta_Port = Port p\<rparr>, PROXYProtoPort = 0\<rparr>"
  let ?l = "case gm_get ls ?lp of Some l \<Rightarrow> l
    | None \<Rightarrow> \<lparr>ListenAddr = \<lparr>ta_IP = env_gateway env, ta_Port = ?lp\<rparr>, Forwards = []\<rparr>"
  have l: "gm_get ls ?lp = Some ?l \<or> Forwards ?l = []" by (simp split: option.split)
  from s imp v have ls': "ls' = gm_put ?lp (?l\<lparr>Forwards := gm_put (AssignedIPv4 (VM e)) ?f (Forwards ?l)\<rparr>) ls"
    by (auto simp: import_port_def ResolveTCPAddr_def Let_def split: if_splits option.splits)
  have "import_forward entries ?lp (AssignedIPv4 (VM e)) ?f"
    unfolding import_forward_def
    by (rule bexI [OF _ e], rule bexI [OF _ p], rule bexI [OF _ x(1)], rule bexI [OF _ x(2)]) (simp add: x q imp)
  then show ?thesis
    unfolding ls' using inv l by (intro all_forwards_put) (auto simp: all_forwards_def split: if_splits)
qed

lemma public_port_forwards:
  assumes "e \<in> set entries" and "Active e" and "p \<in> set (entry_ports e)"
    and "public_port env e p ls = Inr ls'"
    and "all_forwards (\<lambda>lp src f. import_forward entries lp src f \<or> public_forward entries lp src f) ls"
  shows "all_forwards (\<lambda>lp src f. import_forward entries lp src f \<or> public_forward entries lp src f) ls'"
proof (cases "PublicPort p = 0")
  case True
  with assms show ?thesis by (simp add: public_port_def)
next
  case False
  let ?f = "\<lparr>Dest = \<lparr>ta_IP = AssignedIPv4 (VM e), ta_Port = Port p\<rparr>, PROXYProtoPort = ProxyPort p\<rparr>"
  from assms(4) False obtain a where
    "ls' = gm_put (PublicPort p) \<lparr>ListenAddr = a, Forwards = [(''*'', ?f)]\<rparr> ls"
    by (auto simp: public_port_def ResolveTCPAddr_def split: if_splits)
  moreover have "public_forward entries (PublicPort p) ''*'' ?f"
    unfolding public_forward_def using assms(1-3) False by blast
  ultimately show ?thesis using assms(5) by (auto intro!: all_forwards_put simp: gm_get_def split: if_splits)
qed

lemma listeners_sound:
  assumes wf: "\<And>e p. e \<in> set (vm_entries st) \<Longrightarrow> p \<in> set (entry_ports e) \<Longrightarrow> wf_port p"
    and s: "port_listeners env st = Inr ls"
  shows "all_forwards (\<lambda>lp src f. import_forward (vm_entries st) lp src f \<or> public_forward (vm_entries st) lp src f) ls"
proof -
  let ?es = "vm_entries st"
  from s obtain ls0 where 1: "foldE (import_ports env (exported_port_map ?es)) ?es [] = Inr ls0"
    and 2: "foldE (public_ports env) (filter Active ?es) ls0 = Inr ls"
    by (auto simp: port_listeners_def Let_def split: sum.splits)
  have "all_forwards (import_forward ?es) ls0"
  proof (rule foldE_invariant [OF 1])
    show "all_forwards (import_forward ?es) []" by (simp add: all_forwards_def)
    fix e a b
    assume e: "e \<in> set ?es" and a: "all_forwards (import_forward ?es) a"
      and i: "import_ports env (exported_port_map ?es) e a = Inr b"
    show "all_forwards (import_forward ?es) b"
      by (rule foldE_invariant [OF i [unfolded import_ports_def], where P = "all_forwards (import_forward ?es)"])
        (use a import_port_forwards [OF wf e] in \<open>auto simp: entry_ports_def\<close>)
  qed
  then have 3: "all_forwards (\<lambda>lp src f. import_forward ?es lp src f \<or> public_forward ?es lp src f) ls0"
    by (auto simp: all_forwards_def)
  show ?thesis
  proof (rule foldE_invariant [OF 2, where P = "all_forwards (\<lambda>lp src f. import_forward ?es lp src f \<or> public_forward ?es lp src f)"])
    fix e a b
    assume e: "e \<in> set (filter Active ?es)"
      and a: "all_forwards (\<lambda>lp src f. import_forward ?es lp src f \<or> public_forward ?es lp src f) a"
      and i: "public_ports env e a = Inr b"
    show "all_forwards (\<lambda>lp src f. import_forward ?es lp src f \<or> public_forward ?es lp src f) b"
      by (rule foldE_invariant [OF i [unfolded public_ports_def],
            where P = "all_forwards (\<lambda>lp src f. import_forward ?es lp src f \<or> public_forward ?es lp src f)"])
        (use a public_port_forwards e in \<open>auto simp: entry_ports_def\<close>)
  qed (rule 3)
qed

lemma vm_entries_wf:
  assumes "vmdb_ok st" and "e \<in> set (vm_entries st)" and "p \<in> set (entry_ports e)"
  shows "wf_port p"
proof -
  from assms(1,2) have "\<exists>k. entry_ok k e"
    by (force simp: vmdb_ok_def entries_ok_def vm_entries_def gm_vals_def)
  with assms(3) show ?thesis by (auto simp: entry_ok_def config_ok_def ports_ok_def entry_ports_def list_all_iff)
qed

end
