(* ===== verification/Vm_Database_Props.thy ===== *)
theory Vm_Database_Props
  imports Vm_Proxy_Files
begin

text \<open>
  The properties of the VM database, each with a concrete instance: two revisions of a VM
  \<open>web\<close> that serves a domain and exports a port, in an environment where every write succeeds.
\<close>

subsection \<open>A concrete database\<close>

definition quiet_env :: vmdb_env where
  "quiet_env =
     \<lparr>env_ProxyChainMode = ChainNone, env_ChildURL = [], env_parent = (\<lambda>_ _. AnswerConflicts []),
      env_gateway = ''10.104.0.1'', env_resolves = (\<lambda>_. True),
      env_write_db = WriteOk, env_write_domains = WriteOk, env_write_ports = WriteOk\<rparr>"

definition plain_domain :: "string \<Rightarrow> domain" where
  "plain_domain n =
     \<lparr>dom_Name = n, dom_VMName = [], RedirectTo = [], RedirectCode = 0, DestinationHost = [],
      DestinationPort = 80, RedirectToHTTPS = True, RateProfile = [], TargetURL = [], Chained = False\<rparr>"

definition export_port :: "u16 \<Rightarrow> int \<Rightarrow> vm_port" where
  "export_port p i = \<lparr>Port = p, Protocol = TCP, Direction = Export, Index = i, Group = ''@db'',
     PublicPort = 0, ProxyPort = 0\<rparr>"

definition public_to :: "u16 \<Rightarrow> int \<Rightarrow> u16 \<Rightarrow> vm_port" where
  "public_to p i out = \<lparr>Port = p, Protocol = TCP, Direction = Export, Index = i, Group = VMPortPublic,
     PublicPort = out, ProxyPort = 0\<rparr>"

definition web_config :: "vm_port list \<Rightarrow> vm_config" where
  "web_config ports = empty_config\<lparr>cfg_Name := ''web'', cfg_Domains := [plain_domain ''a.org''], cfg_Ports := ports\<rparr>"

definition web_vm :: "vm_port list \<Rightarrow> vm" where
  "web_vm ports = empty_vm\<lparr>Config := web_config ports, AssignedIPv4 := ''10.104.1.1'', LastIP := ''10.104.1.1''\<rparr>"

definition web_name :: "int \<Rightarrow> vm_name" where "web_name r = NewVMName ''web'' r"

definition web_entry :: "int \<Rightarrow> vm_port list \<Rightarrow> bool \<Rightarrow> vm_entry" where
  "web_entry r ports active = \<lparr>Name = web_name r, VM = web_vm ports, Active = active\<rparr>"

definition web_db :: vmdb where
  "web_db = empty_vmdb\<lparr>db := [(''web'', web_entry 0 [export_port 5432 0] False),
                               (''web-r1'', web_entry 1 [export_port 5432 0] True)]\<rparr>"

lemmas web_defs = quiet_env_def plain_domain_def export_port_def public_to_def web_config_def web_vm_def
  web_name_def web_entry_def web_db_def empty_vmdb_def empty_vm_def empty_config_def NewVMName_def

lemma web_ID: "vn_ID (web_name 0) = ''web''" "vn_ID (web_name 1) = ''web-r1''"
  by (simp_all add: vn_ID_def web_name_def NewVMName_def itoa_def go_eval)

lemma web_valid: "valid_vm_name (web_name 0)" "valid_vm_name (web_name 1)"
  by (simp_all add: valid_vm_name_def web_name_def NewVMName_def max_int_def IsValidName_def name_char_def
      is_lower_def)

lemma web_config_ok: "config_ok (web_config [export_port 5432 0])"
  by (simp add: config_ok_def web_config_def ports_ok_def wf_port_def export_port_def plain_domain_def
      empty_config_def IsValidGroupName_def name_char_def is_lower_def is_upper_def)

lemma web_db_ok: "vmdb_ok web_db"
  using web_valid web_config_ok
  by (simp add: vmdb_ok_def entries_ok_def web_db_def empty_vmdb_def gm_ok_def entry_ok_def web_entry_def web_ID
      web_vm_def) (simp add: web_config_def web_name_def NewVMName_def)

lemmas vmdb_eval = vmdb_Delete_def GetEntryByName_def getEntryByID_def promoted_revision_def GetNames_def
  SetActiveRevision_def GetByName_def GetCountForName_def RevisionNone_def CheckDomainsConflicts_def
  CheckPortsConflicts_def other_active_def visit_active_def excluded_def put_all_def entry_domains_def
  entry_exports_def check_port_def GlobalID_def port_String_def vmdb_save_def genDomainsDB_def
  bind_domain_def set_domains_def genPortsDB_def port_listeners_def vm_entries_def exported_port_map_def
  import_ports_def import_port_def public_ports_def public_port_def ResolveTCPAddr_def
  gm_get_def gm_put_def gm_del_def gm_map_def gm_vals_def set_revision_def deactivate_name_def

lemmas web_eval = vmdb_eval web_defs vn_ID_def itoa_def go_eval

definition web_reached :: vmdb where
  "web_reached = fst (vmdb_Add quiet_env (web_vm [export_port 5432 0]) (web_name 0) True empty_vmdb)"

lemma web_reach: "vmdb_reach web_reached"
  unfolding web_reached_def
  by (rule vmdb_reach.step [OF vmdb_reach.start vmdb_step.add])
     (use web_valid web_config_ok in \<open>simp_all add: web_vm_def web_config_def web_name_def NewVMName_def\<close>)

lemma web_delete: "snd (vmdb_Delete quiet_env (web_name 1) web_db) = None"
  by (simp add: web_eval)

lemma web_activate: "snd (SetActiveRevision quiet_env ''web'' 0 web_db) = None"
  by (simp add: web_eval)

lemma web_add: "snd (vmdb_Add quiet_env (web_vm [export_port 5432 0]) (web_name 2) True web_db) = None"
  by (simp add: web_eval vmdb_Add_def)

lemma web_save: "snd (vmdb_save quiet_env web_db) = None"
  by (simp add: web_eval)

subsection \<open>Properties\<close>



text \<open>C4. \<open>Delete\<close> implements its specification: the revision disappears and, when it was the
  active one, the highest revision left becomes active; other names do not change.\<close>

theorem vmdb_Delete_refines:
  assumes "vmdb_ok st" and "IsValidName (vn_name name)" and "vmdb_Delete env name st = (st', None)"
  shows "registry st' = spec_delete (vn_name name) (vn_rev name) (registry st)"
  using assms by (rule Delete_refines)

theorem vmdb_Delete_refines_witness:
  "registry (fst (vmdb_Delete quiet_env (web_name 1) web_db)) = spec_delete ''web'' 1 (registry web_db)"
  using vmdb_Delete_refines [OF web_db_ok, of "web_name 1" quiet_env "fst (vmdb_Delete quiet_env (web_name 1) web_db)"]
    web_delete web_valid(2)
  by (simp add: valid_vm_name_def prod_eq_iff) (simp add: web_name_def NewVMName_def)

text \<open>C5. A successful \<open>Add\<close> records the revision and, for an active VM, makes it the only active one.\<close>

theorem vmdb_Add_refines:
  assumes "vmdb_ok st" and "valid_vm_name name" and "config_ok (Config vm)"
    and "cfg_Name (Config vm) = vn_name name" and "vmdb_Add env vm name active st = (st', None)"
  shows "registry st' = spec_add (vn_name name) (vn_rev name) active (registry st)"
  using assms by (rule Add_refines)

theorem vmdb_Add_refines_witness:
  "registry (fst (vmdb_Add quiet_env (web_vm [export_port 5432 0]) (web_name 2) True web_db)) =
     spec_add ''web'' 2 True (registry web_db)"
proof -
  let ?vm = "web_vm [export_port 5432 0]"
  have "valid_vm_name (web_name 2)" using web_valid(1) by (simp add: valid_vm_name_def web_name_def NewVMName_def max_int_def)
  moreover have "config_ok (Config ?vm)" "cfg_Name (Config ?vm) = vn_name (web_name 2)"
    using web_config_ok by (simp_all add: web_vm_def) (simp add: web_config_def web_name_def NewVMName_def)
  ultimately show ?thesis
    using vmdb_Add_refines [OF web_db_ok, of "web_name 2" ?vm quiet_env True] web_add
    by (simp add: prod_eq_iff) (simp add: web_name_def NewVMName_def)
qed

text \<open>C24. A successful \<open>SetActiveRevision\<close> leaves exactly the requested revision active
  (none, for \<open>RevisionNone\<close>) and changes no other name.\<close>

theorem SetActiveRevision_refines:
  assumes "vmdb_ok st" and "IsValidName n" and "SetActiveRevision env n r st = (st', None)"
  shows "registry st' = spec_activate n r (registry st)"
  using assms by (rule SetActive_refines)

theorem SetActiveRevision_refines_witness:
  "registry (fst (SetActiveRevision quiet_env ''web'' 0 web_db)) = spec_activate ''web'' 0 (registry web_db)"
  using SetActiveRevision_refines [OF web_db_ok, of "''web''" quiet_env 0] web_activate web_valid(1)
  by (simp add: valid_vm_name_def prod_eq_iff web_name_def NewVMName_def)

text \<open>\<open>GetActiveEntryByName\<close> returns the active entry of the name when there is one and an
  error otherwise, never a nil entry, and the revision the server gives to the next VM of a name is free.\<close>

theorem vmdb_lookups_exact:
  assumes "vmdb_ok st" and "IsValidName n"
  shows "GetActiveEntryByName st n =
      (case find (\<lambda>e. Active e \<and> vn_name (Name e) = n) (gm_vals (db st)) of
         None \<Rightarrow> Inl (NoActiveVm n) | Some e \<Rightarrow> Inr (Some e)) \<and>
    gm_get (db st) (vn_ID (NewVMName n (GetNextRevisionForName st n))) = None"
  using assms by (simp add: GetActiveEntryByName_exact next_revision_fresh)

theorem vmdb_lookups_exact_witness:
  "GetActiveEntryByName web_db ''web'' = Inr (Some (web_entry 1 [export_port 5432 0] True))"
  using vmdb_lookups_exact [OF web_db_ok, of "''web''"] web_valid(1)
  by (simp add: valid_vm_name_def web_name_def NewVMName_def) (simp add: web_eval)

text \<open>C25. In a reachable database a save never finds a duplicated domain, and the domain file it writes
  maps a name to a domain exactly when an active VM has that domain, bound to that VM.\<close>

theorem domain_file_exact:
  assumes "vmdb_reach st" and "vmdb_save env st = (st', None)"
  shows "\<exists>domains. domain_file st' = Holds domains \<and>
    (\<forall>n x. gm_get domains n = Some x \<longleftrightarrow>
      (\<exists>k e d. gm_get (db st) k = Some e \<and> Active e \<and> d \<in> set (cfg_Domains (Config (VM e))) \<and>
        dom_Name d = n \<and> x = bind_domain e d))"
proof -
  from reach_ok [OF assms(1)] have "entries_ok (db st)" by (simp add: vmdb_ok_def)
  from gen_domains_exact [OF this] save_success [OF assms(2)] show ?thesis by (metis Inr_inject)
qed

theorem domain_file_exact_witness:
  "\<exists>domains. domain_file (fst (vmdb_save quiet_env web_reached)) = Holds domains"
proof -
  have "snd (vmdb_save quiet_env web_reached) = None" by (simp add: web_reached_def web_eval vmdb_Add_def)
  with domain_file_exact [OF web_reach, of quiet_env] show ?thesis by (metis prod.collapse)
qed

text \<open>C26. The port file a successful save writes forwards only from an importing VM to an active VM
  that exports that port to the same group, or from a public port to the active VM that publishes it.\<close>

theorem port_file_sound:
  assumes "vmdb_reach st" and "vmdb_save env st = (st', None)"
  shows "\<exists>listeners. port_file st' = Holds listeners \<and>
    (\<forall>lp l src f. gm_get listeners lp = Some l \<longrightarrow> gm_get (Forwards l) src = Some f \<longrightarrow>
      import_forward (vm_entries st') lp src f \<or> public_forward (vm_entries st') lp src f)"
proof -
  from save_ok [OF assms(2) reach_ok [OF assms(1)]] have ok: "vmdb_ok st'" .
  from save_success [OF assms(2)] obtain listeners where
    "port_listeners env st' = Inr listeners" "port_file st' = Holds listeners" by metis
  with listeners_sound [of st' env listeners] vm_entries_wf [OF ok] show ?thesis
    unfolding all_forwards_def by blast
qed

theorem port_file_sound_witness:
  "\<exists>listeners. port_file (fst (vmdb_save quiet_env web_reached)) = Holds listeners"
proof -
  have "snd (vmdb_save quiet_env web_reached) = None" by (simp add: web_reached_def web_eval vmdb_Add_def)
  with port_file_sound [OF web_reach, of quiet_env] show ?thesis by (metis prod.collapse)
qed





end
