(* ===== verification/Go_Effects.thy ===== *)
theory Go_Effects
  imports Go_Maps
begin

text \<open>
  Sequences of effects, as the long operations of the server have them: a function of the
  state that returns the changed state and either an error or a value. \<open>bindA\<close> is the idiom
  \<open>x, err := f(); if err != nil { return err }\<close>, \<open>attempt\<close> calls a function whose error is
  looked at later, \<open>deferA\<close> is a \<open>defer\<close> (run on every return) and \<open>defer_unless\<close> the
  \<open>defer func() { if !commit { ... } }()\<close> of a transaction that commits just before its
  successful return. \<open>keeps\<close> is the judgement that an operation keeps a property of the state,
  whatever it returns; its rules follow the constructs.
\<close>

datatype go_error = Errorf string "string list"

type_synonym ('s, 'e, 'a) act = "'s \<Rightarrow> 's \<times> ('e + 'a)"

definition ret :: "'a \<Rightarrow> ('s, 'e, 'a) act" where "ret x = (\<lambda>s. (s, Inr x))"

definition fail :: "'e \<Rightarrow> ('s, 'e, 'a) act" where "fail e = (\<lambda>s. (s, Inl e))"

definition bindA :: "('s, 'e, 'a) act \<Rightarrow> ('a \<Rightarrow> ('s, 'e, 'b) act) \<Rightarrow> ('s, 'e, 'b) act" where
  "bindA m k = (\<lambda>s. case m s of (s1, Inl e) \<Rightarrow> (s1, Inl e) | (s1, Inr x) \<Rightarrow> k x s1)"

definition attempt :: "('s, 'e, 'a) act \<Rightarrow> ('s, 'e, 'e + 'a) act" where
  "attempt m = (\<lambda>s. case m s of (s1, r) \<Rightarrow> (s1, Inr r))"

definition readA :: "('s \<Rightarrow> 'e + 'a) \<Rightarrow> ('s, 'e, 'a) act" where "readA f = (\<lambda>s. (s, f s))"

definition changeA :: "('s \<Rightarrow> 's) \<Rightarrow> ('s, 'e, unit) act" where "changeA f = (\<lambda>s. (f s, Inr ()))"

definition checkA :: "bool \<Rightarrow> 'e \<Rightarrow> ('s, 'e, unit) act" where
  "checkA b e = (if b then ret () else fail e)"

definition deferA :: "('s, 'd, 'u) act \<Rightarrow> ('s, 'e, 'a) act \<Rightarrow> ('s, 'e, 'a) act" where
  "deferA d m = (\<lambda>s. case m s of (s1, r) \<Rightarrow> (fst (d s1), r))"

definition defer_unless :: "('s, 'd, 'u) act \<Rightarrow> ('s, 'e, 'a) act \<Rightarrow> ('s, 'e, 'a) act" where
  "defer_unless d m = (\<lambda>s. case m s of (s1, Inl e) \<Rightarrow> (fst (d s1), Inl e) | (s1, Inr x) \<Rightarrow> (s1, Inr x))"

fun forA :: "('a \<Rightarrow> ('s, 'e, unit) act) \<Rightarrow> 'a list \<Rightarrow> ('s, 'e, unit) act" where
  "forA f [] = ret ()"
| "forA f (x # xs) = bindA (f x) (\<lambda>_. forA f xs)"

fun collectA :: "('a \<Rightarrow> ('s, 'e, 'b) act) \<Rightarrow> 'a list \<Rightarrow> ('s, 'e, 'b list) act" where
  "collectA f [] = ret []"
| "collectA f (x # xs) = bindA (f x) (\<lambda>y. bindA (collectA f xs) (\<lambda>ys. ret (y # ys)))"

definition pureA :: "'e + 'a \<Rightarrow> ('s, 'e, 'a) act" where "pureA r = (\<lambda>s. (s, r))"

definition noneA :: "'e option \<Rightarrow> ('s, 'e, unit) act" where
  "noneA r = (\<lambda>s. (s, case r of None \<Rightarrow> Inr () | Some e \<Rightarrow> Inl e))"

text \<open>A check written as a function that returns an optional error.\<close>

definition noerrA :: "('s \<Rightarrow> 's \<times> 'e option) \<Rightarrow> ('s, 'e, unit) act" where
  "noerrA f = (\<lambda>s. case f s of (s1, None) \<Rightarrow> (s1, Inr ()) | (s1, Some e) \<Rightarrow> (s1, Inl e))"

definition with_error :: "('e \<Rightarrow> 'f) \<Rightarrow> ('s, 'e, 'a) act \<Rightarrow> ('s, 'f, 'a) act" where
  "with_error g m = (\<lambda>s. case m s of (s1, Inl e) \<Rightarrow> (s1, Inl (g e)) | (s1, Inr x) \<Rightarrow> (s1, Inr x))"

definition runs :: "('s, 'e, 'a) act \<Rightarrow> 's \<Rightarrow> 's" where "runs m s = fst (m s)"

lemmas act_defs = ret_def fail_def bindA_def attempt_def readA_def changeA_def checkA_def deferA_def
  defer_unless_def noerrA_def with_error_def

subsection \<open>What an operation keeps\<close>

named_theorems keeps_rules "rules of the judgement that an operation keeps a property"

definition keeps :: "('s \<Rightarrow> bool) \<Rightarrow> ('s, 'e, 'a) act \<Rightarrow> bool" where
  "keeps P m \<longleftrightarrow> (\<forall>s. P s \<longrightarrow> P (fst (m s)))"

lemma keepsI: "(\<And>s. P s \<Longrightarrow> P (fst (m s))) \<Longrightarrow> keeps P m"
  by (simp add: keeps_def)

lemma keepsD: "keeps P m \<Longrightarrow> P s \<Longrightarrow> P (fst (m s))"
  by (simp add: keeps_def)

lemma keepsE: "keeps P m \<Longrightarrow> m s = (s', r) \<Longrightarrow> P s \<Longrightarrow> P s'"
  by (metis keepsD fst_conv)

lemma keeps_ret [keeps_rules]: "keeps P (ret x)"
  by (simp add: keeps_def ret_def)

lemma keeps_fail [keeps_rules]: "keeps P (fail e)"
  by (simp add: keeps_def fail_def)

lemma keeps_bind [keeps_rules]:
  assumes "keeps P m" "\<And>x. keeps P (k x)" shows "keeps P (bindA m k)"
proof (rule keepsI)
  fix s assume "P s"
  obtain s1 r where m: "m s = (s1, r)" by fastforce
  with keepsD [OF assms(1) \<open>P s\<close>] have "P s1" by simp
  then show "P (fst (bindA m k s))"
    using m keepsD [OF assms(2)] by (cases r) (simp_all add: bindA_def)
qed

lemma keeps_attempt [keeps_rules]: "keeps P m \<Longrightarrow> keeps P (attempt m)"
  by (simp add: keeps_def attempt_def split_beta)

lemma keeps_read [keeps_rules]: "keeps P (readA f)"
  by (simp add: keeps_def readA_def)

lemma keeps_check [keeps_rules]: "keeps P (checkA b e)"
  by (simp add: checkA_def keeps_ret keeps_fail)

lemma keeps_change: "(\<And>s. P s \<Longrightarrow> P (f s)) \<Longrightarrow> keeps P (changeA f)"
  by (simp add: keeps_def changeA_def)

lemma keeps_defer [keeps_rules]: "keeps P d \<Longrightarrow> keeps P m \<Longrightarrow> keeps P (deferA d m)"
  by (simp add: keeps_def deferA_def split_beta)

lemma keeps_defer_unless [keeps_rules]:
  assumes "keeps P d" "keeps P m" shows "keeps P (defer_unless d m)"
proof (rule keepsI)
  fix s assume "P s"
  obtain s1 r where m: "m s = (s1, r)" by fastforce
  with keepsD [OF assms(2) \<open>P s\<close>] have "P s1" by simp
  then show "P (fst (defer_unless d m s))"
    using m keepsD [OF assms(1)] by (cases r) (simp_all add: defer_unless_def)
qed

lemma keeps_for [keeps_rules]: "(\<And>x. keeps P (f x)) \<Longrightarrow> keeps P (forA f xs)"
  by (induction xs) (simp_all add: keeps_ret keeps_bind)

lemma keeps_collect [keeps_rules]: "(\<And>x. keeps P (f x)) \<Longrightarrow> keeps P (collectA f xs)"
  by (induction xs) (simp_all add: keeps_ret keeps_bind)

lemma keeps_noerr: "(\<And>s. P s \<Longrightarrow> P (fst (f s))) \<Longrightarrow> keeps P (noerrA f)"
  by (simp add: keeps_def noerrA_def split: prod.splits option.splits) (metis fst_conv)

lemma keeps_with_error [keeps_rules]: "keeps P m \<Longrightarrow> keeps P (with_error g m)"
  by (simp add: keeps_def with_error_def split: prod.splits sum.splits) (metis fst_conv)

lemma keeps_pure [keeps_rules]: "keeps P (pureA r)" "keeps P (noneA o1)"
  by (simp_all add: keeps_def pureA_def noneA_def)

lemma keeps_if [keeps_rules]: "keeps P m \<Longrightarrow> keeps P n \<Longrightarrow> keeps P (if b then m else n)"
  by simp

lemma keeps_sum [keeps_rules]:
  "(\<And>e. keeps P (f e)) \<Longrightarrow> (\<And>x. keeps P (g x)) \<Longrightarrow> keeps P (case r of Inl e \<Rightarrow> f e | Inr x \<Rightarrow> g x)"
  by (simp split: sum.split)

lemma keeps_option [keeps_rules]:
  "keeps P f \<Longrightarrow> (\<And>x. keeps P (g x)) \<Longrightarrow> keeps P (case r of None \<Rightarrow> f | Some x \<Rightarrow> g x)"
  by (simp split: option.split)

lemma keeps_prod [keeps_rules]: "(\<And>a b. keeps P (f a b)) \<Longrightarrow> keeps P (case p of (a, b) \<Rightarrow> f a b)"
  by (simp split: prod.split)

lemma keeps_let [keeps_rules]: "(\<And>x. keeps P (f x)) \<Longrightarrow> keeps P (let x = v in f x)"
  by simp

subsection \<open>Inversion of a successful run\<close>

lemma mapE_mem: "mapE f xs = Inr ys \<Longrightarrow> y \<in> set ys \<Longrightarrow> \<exists>x\<in>set xs. f x = Inr y"
  by (induction xs arbitrary: ys) (auto split: sum.splits)

lemma foldE_Cons_Inr:
  "foldE f (x # xs) s = Inr t \<longleftrightarrow> (\<exists>s'. f x s = Inr s' \<and> foldE f xs s' = Inr t)"
  by (auto split: sum.splits)

lemma bindA_Inr:
  "bindA m k s = (s', Inr y) \<longleftrightarrow> (\<exists>s1 x. m s = (s1, Inr x) \<and> k x s1 = (s', Inr y))"
  by (auto simp: bindA_def split: prod.splits sum.splits)

lemma bindA_Inl:
  "bindA m k s = (s', Inl e) \<longleftrightarrow>
     m s = (s', Inl e) \<or> (\<exists>s1 x. m s = (s1, Inr x) \<and> k x s1 = (s', Inl e))"
  by (auto simp: bindA_def split: prod.splits sum.splits)

lemma deferA_eq: "deferA d m s = (s', r) \<longleftrightarrow> (\<exists>s1. m s = (s1, r) \<and> s' = fst (d s1))"
  by (auto simp: deferA_def split: prod.splits)

lemma defer_unless_Inr: "defer_unless d m s = (s', Inr x) \<longleftrightarrow> m s = (s', Inr x)"
  by (auto simp: defer_unless_def split: prod.splits sum.splits)

lemma defer_unless_Inl: "defer_unless d m s = (s', Inl e) \<longleftrightarrow> (\<exists>s1. m s = (s1, Inl e) \<and> s' = fst (d s1))"
  by (auto simp: defer_unless_def split: prod.splits sum.splits)

lemma checkA_Inr [simp]: "checkA b e s = (s', Inr u) \<longleftrightarrow> b \<and> s' = s"
  by (auto simp: checkA_def ret_def fail_def)

lemma ret_eq [simp]: "ret x s = (s', r) \<longleftrightarrow> s' = s \<and> r = Inr x"
  by (auto simp: ret_def)

lemma fail_eq [simp]: "fail e s = (s', r) \<longleftrightarrow> s' = s \<and> r = Inl e"
  by (auto simp: fail_def)

lemma readA_eq [simp]: "readA f s = (s', r) \<longleftrightarrow> s' = s \<and> f s = r"
  by (auto simp: readA_def)

lemma changeA_eq [simp]: "changeA f s = (s', r) \<longleftrightarrow> s' = f s \<and> r = Inr ()"
  by (auto simp: changeA_def)

lemma pureA_eq [simp]: "pureA v s = (s', r) \<longleftrightarrow> s' = s \<and> v = r"
  by (auto simp: pureA_def)

lemma noneA_Inr [simp]: "noneA v s = (s', Inr u) \<longleftrightarrow> s' = s \<and> v = None"
  by (auto simp: noneA_def split: option.splits)

lemma attempt_eq: "attempt m s = (s', r) \<longleftrightarrow> (\<exists>q. m s = (s', q) \<and> r = Inr q)"
  by (auto simp: attempt_def split: prod.splits)

lemma with_error_Inr: "with_error g m s = (s', Inr x) \<longleftrightarrow> m s = (s', Inr x)"
  by (auto simp: with_error_def split: prod.splits sum.splits)

lemma noerrA_Inr: "noerrA f s = (s', Inr u) \<longleftrightarrow> f s = (s', None)"
  by (auto simp: noerrA_def split: prod.splits option.splits)

subsection \<open>Conditions before and after\<close>

text \<open>From a state with \<open>P\<close>, a value leads to \<open>Q\<close> of it and an error to \<open>E\<close>.\<close>

named_theorems hoare_rules "rules of the judgement with conditions before and after"

definition hoare ::
  "('s \<Rightarrow> bool) \<Rightarrow> ('s, 'e, 'a) act \<Rightarrow> ('a \<Rightarrow> 's \<Rightarrow> bool) \<Rightarrow> ('s \<Rightarrow> bool) \<Rightarrow> bool" where
  "hoare P m Q E \<longleftrightarrow>
     (\<forall>s. P s \<longrightarrow> (case m s of (s', Inl e) \<Rightarrow> E s' | (s', Inr x) \<Rightarrow> Q x s'))"

lemma hoareI:
  "(\<And>s s' x. P s \<Longrightarrow> m s = (s', Inr x) \<Longrightarrow> Q x s') \<Longrightarrow> (\<And>s s' e. P s \<Longrightarrow> m s = (s', Inl e) \<Longrightarrow> E s')
    \<Longrightarrow> hoare P m Q E"
  by (auto simp: hoare_def split: prod.split sum.split)

lemma hoareD: "hoare P m Q E \<Longrightarrow> m s = (s', Inr x) \<Longrightarrow> P s \<Longrightarrow> Q x s'"
  by (auto simp: hoare_def dest: spec [of _ s])

lemma hoareE: "hoare P m Q E \<Longrightarrow> m s = (s', Inl e) \<Longrightarrow> P s \<Longrightarrow> E s'"
  by (auto simp: hoare_def dest: spec [of _ s])

lemma hoare_conseq:
  "hoare P' m Q' E' \<Longrightarrow> (\<And>s. P s \<Longrightarrow> P' s) \<Longrightarrow> (\<And>x s. Q' x s \<Longrightarrow> Q x s) \<Longrightarrow> (\<And>s. E' s \<Longrightarrow> E s)
    \<Longrightarrow> hoare P m Q E"
  by (rule hoareI) (blast dest: hoareD hoareE)+

lemma hoare_keeps: "keeps P m \<Longrightarrow> (\<And>s. P s \<Longrightarrow> E s) \<Longrightarrow> hoare P m (\<lambda>_. P) E"
  by (rule hoareI) (blast dest: keepsE)+

lemma keeps_hoare: "hoare P m (\<lambda>_. P) P \<Longrightarrow> keeps P m"
  by (rule keepsI) (metis hoareD hoareE prod.collapse sum.exhaust)

lemma hoare_bind [hoare_rules]:
  "hoare P m R E \<Longrightarrow> (\<And>x. hoare (R x) (k x) Q E) \<Longrightarrow> hoare P (bindA m k) Q E"
  by (rule hoareI) (auto simp: bindA_Inr bindA_Inl dest: hoareD hoareE)

lemma hoare_ret: "(\<And>s. P s \<Longrightarrow> Q x s) \<Longrightarrow> hoare P (ret x) Q E"
  by (rule hoareI) auto

lemma hoare_read: "(\<And>s. P s \<Longrightarrow> E s) \<Longrightarrow> hoare P (readA f) (\<lambda>x s. P s \<and> f s = Inr x) E"
  by (rule hoareI) auto

lemma hoare_pure: "(\<And>s. P s \<Longrightarrow> E s) \<Longrightarrow> hoare P (pureA r) (\<lambda>x s. P s \<and> r = Inr x) E"
  by (rule hoareI) auto

lemma hoare_check: "(\<And>s. P s \<Longrightarrow> E s) \<Longrightarrow> hoare P (checkA b e) (\<lambda>_ s. P s \<and> b) E"
  by (rule hoareI) (auto simp: checkA_def split: if_splits)

lemma hoare_defer: "hoare P m Q E \<Longrightarrow> (\<And>x. keeps (Q x) d) \<Longrightarrow> keeps E d \<Longrightarrow> hoare P (deferA d m) Q E"
  by (rule hoareI) (auto simp: deferA_eq dest: hoareD hoareE keepsD)

lemma hoare_defer_unless: "hoare P m Q E \<Longrightarrow> keeps E d \<Longrightarrow> hoare P (defer_unless d m) Q E"
  by (rule hoareI) (auto simp: defer_unless_Inr defer_unless_Inl dest: hoareD hoareE keepsD)

lemma with_error_Inl: "with_error g m s = (s', Inl e) \<longleftrightarrow> (\<exists>e'. m s = (s', Inl e') \<and> e = g e')"
  by (auto simp: with_error_def split: prod.splits sum.splits)

lemma hoare_with_error: "hoare P m Q E \<Longrightarrow> hoare P (with_error g m) Q E"
  by (rule hoareI) (auto simp: with_error_Inr with_error_Inl dest: hoareD hoareE)

lemma hoare_case_prod: "(\<And>a b. hoare P (f a b) Q E) \<Longrightarrow> hoare P (case p of (a, b) \<Rightarrow> f a b) Q E"
  by (cases p) simp

lemma hoare_fact: "(b \<Longrightarrow> hoare P m Q E) \<Longrightarrow> hoare (\<lambda>s. P s \<and> b) m Q E"
  by (auto simp: hoare_def)

end
