(* ===== verification/Go_Paths.thy ===== *)
theory Go_Paths
  imports Go_Strings
begin

text \<open>
  \<open>Clean\<close>, \<open>Base\<close> and \<open>Dir\<close> of Go's \<open>path\<close> package, on slash-separated strings: \<open>clean_parts\<close>
  drops empty and \<open>.\<close> elements and resolves \<open>..\<close> against a stack.
\<close>

fun clean_parts :: "bool \<Rightarrow> string list \<Rightarrow> string list \<Rightarrow> string list" where
  "clean_parts rooted stack [] = rev stack"
| "clean_parts rooted stack (p # ps) =
     (if p = [] \<or> p = ''.'' then clean_parts rooted stack ps
      else if p = ''..'' then
        (if stack \<noteq> [] \<and> hd stack \<noteq> ''..'' then clean_parts rooted (tl stack) ps
         else if rooted then clean_parts rooted stack ps
         else clean_parts rooted (p # stack) ps)
      else clean_parts rooted (p # stack) ps)"

definition is_rooted :: "string \<Rightarrow> bool" where "is_rooted s \<longleftrightarrow> has_prefix ''/'' s"

definition path_clean :: "string \<Rightarrow> string" where
  "path_clean s =
     (let r = (if is_rooted s then ''/'' else []) @ go_join ''/'' (clean_parts (is_rooted s) [] (go_split ''/'' s))
      in if r = [] then ''.'' else r)"

definition path_base :: "string \<Rightarrow> string" where
  "path_base s =
     (if s = [] then ''.''
      else let t = trim_right (\<lambda>c. c = CHR ''/'') s in
        if t = [] then ''/'' else last (go_split ''/'' t))"

text \<open>A list of proper elements is already clean.\<close>

lemma clean_parts_id:
  assumes "\<forall>p\<in>set ps. p \<noteq> [] \<and> p \<noteq> ''.'' \<and> p \<noteq> ''..''"
  shows "clean_parts rooted stack ps = rev stack @ ps"
  using assms by (induction ps arbitrary: stack) auto

lemma clean_parts_proper:
  "list_all (\<lambda>q. q \<noteq> [] \<and> q \<noteq> ''.'') stack \<Longrightarrow>
     list_all (\<lambda>q. q \<noteq> [] \<and> q \<noteq> ''.'') (clean_parts rooted stack ps)"
proof (induction rooted stack ps rule: clean_parts.induct)
  case (2 rooted stack p ps)
  then show ?case by (cases stack) auto
qed simp

lemma split_no_sep:
  assumes "p \<in> set (go_split [c] s)"
  shows "c \<notin> set p"
  using assms
proof (induction s arbitrary: p)
  case (Cons d s)
  then show ?case by (cases "go_split [c] s") (auto simp: has_prefix_def split: if_splits)
qed simp

lemma split_join:
  assumes "ps \<noteq> []" and "\<forall>p\<in>set ps. c \<notin> set p"
  shows "go_split [c] (go_join [c] ps) = ps"
  using assms
proof (induction ps rule: induct_list012)
  case (2 p)
  then have "hd [c] \<notin> set p" by simp
  then show ?case using go_split_none [of "[c]" p] by simp
next
  case (3 p q ps)
  then have "go_split [c] (go_join [c] (q # ps)) = q # ps" by simp
  moreover have "go_split [c] (p @ [c] @ go_join [c] (q # ps)) = p # go_split [c] (go_join [c] (q # ps))"
    using "3.prems"(2) by (intro go_split_append) auto
  ultimately show ?case by simp
qed simp

end
