(* ===== verification/Server_Config.thy ===== *)
theory Server_Config
  imports Vm_Database Go_Effects Go_Paths
begin

text \<open>
  The configuration of the server, \<open>cmd/mulchd/server/app_config.go\<close>. The TOML decoder is a
  function from the name of the file and the defaults to the decoded settings and the names
  it did not know; whether a key file exists is an input as well.
\<close>

definition OriginTypeHTTP :: string where "OriginTypeHTTP = ''http''"
definition OriginTypeGIT :: string where "OriginTypeGIT = ''git''"
definition OriginTypeFile :: string where "OriginTypeFile = ''file''"

record config_seed =
  cs_URL :: string
  cs_Seeder :: string

record config_peer =
  cp_Name :: string
  cp_URL :: string
  cp_Key :: string
  cp_SyncSecrets :: bool

record config_origin =
  co_Name :: string
  co_Type :: string
  co_Path :: string
  co_Dir :: string
  co_Branch :: string
  co_SSHKeyFile :: string
  co_SSHAgent :: bool

record server_config =
  sc_Listen :: string
  sc_InternalServerPort :: int
  sc_ListenHTTPSDomain :: string
  sc_LibVirtURI :: string
  sc_StoragePath :: string
  sc_DataPath :: string
  sc_TempPath :: string
  sc_VMPrefix :: string
  sc_ProxyListenSSH :: string
  sc_ProxySSHExtraKeysFile :: string
  sc_ProxyChainMode :: chain_mode
  sc_ProxyChainParentURL :: string
  sc_ProxyChainChildURL :: string
  sc_ProxyChainPSK :: string
  sc_MulchSuperUser :: string
  sc_MulchSuperUserSSHKey :: string
  sc_AutoRebuildTime :: string
  sc_Seeds :: "(string, config_seed) gomap"
  sc_Peers :: "(string, config_peer) gomap"
  sc_Origins :: "(string, config_origin) gomap"
  sc_configPath :: string

subsection \<open>The file\<close>

record toml_seed =
  ts_Name :: string
  ts_URL :: string
  ts_Seeder :: string

record toml_server =
  tz_Listen :: string
  tz_InternalServerPort :: int
  tz_ListenHTTPSDomain :: string
  tz_LibVirtURI :: string
  tz_StoragePath :: string
  tz_DataPath :: string
  tz_TempPath :: string
  tz_VMPrefix :: string
  tz_ProxyListenSSH :: string
  tz_ProxySSHExtraKeysFile :: string
  tz_ProxyChainMode :: string
  tz_ProxyChainParentURL :: string
  tz_ProxyChainChildURL :: string
  tz_ProxyChainPSK :: string
  tz_MulchSuperUser :: string
  tz_MulchSuperUserSSHKey :: string
  tz_AutoRebuildTime :: string
  tz_Seed :: "toml_seed list"
  tz_Peer :: "config_peer list"
  tz_Origin :: "config_origin list"

definition server_defaults :: toml_server where
  "server_defaults =
     \<lparr>tz_Listen = '':8686'', tz_InternalServerPort = 8585, tz_ListenHTTPSDomain = [],
      tz_LibVirtURI = ''qemu:///system'', tz_StoragePath = ''./var/storage'', tz_DataPath = ''./var/data'',
      tz_TempPath = [], tz_VMPrefix = ''mulch-'', tz_ProxyListenSSH = '':8022'', tz_ProxySSHExtraKeysFile = [],
      tz_ProxyChainMode = [], tz_ProxyChainParentURL = [], tz_ProxyChainChildURL = [], tz_ProxyChainPSK = [],
      tz_MulchSuperUser = ''admin'', tz_MulchSuperUserSSHKey = ''mulch_super_user'',
      tz_AutoRebuildTime = ''23:30'', tz_Seed = [], tz_Peer = [], tz_Origin = []\<rparr>"

subsection \<open>Checks\<close>

definition server_unknown_setting :: "string list \<Rightarrow> string option" where
  "server_unknown_setting undecoded = find (\<lambda>p. \<not> has_prefix ''proxy_'' p) undecoded"

definition check_listen :: "string \<Rightarrow> int \<Rightarrow> go_error option" where
  "check_listen listen internal =
     (case go_split '':'' listen of
        [_, port] \<Rightarrow>
          (case atoi port of None \<Rightarrow> Some (Errorf ''listen: wrong port number'' [listen])
           | Some listenPort \<Rightarrow>
               if listenPort = internal then Some (Errorf ''listen address is reserved for internal_port'' [listen])
               else None)
      | _ \<Rightarrow> Some (Errorf ''listen: wrong format'' [listen]))"

definition server_chain_mode :: "string \<Rightarrow> go_error + chain_mode" where
  "server_chain_mode s =
     (if s = [] then Inr ChainNone else if s = ''child'' then Inr ChainChild
      else if s = ''parent'' then Inr ChainParent
      else Inl (Errorf ''unknown proxy_chain_mode value'' [s]))"

definition in_range :: "int \<Rightarrow> string \<Rightarrow> bool" where
  "in_range m s = (case atoi s of None \<Rightarrow> False | Some n \<Rightarrow> 0 \<le> n \<and> n \<le> m)"

definition check_rebuild_time :: "string \<Rightarrow> go_error option" where
  "check_rebuild_time s =
     (case go_split '':'' s of
        [hour, minute] \<Rightarrow>
          if \<not> in_range 23 hour then Some (Errorf ''auto_rebuild_time: invalid hour'' [s])
          else if \<not> in_range 59 minute then Some (Errorf ''auto_rebuild_time: invalid minute'' [s])
          else None
      | _ \<Rightarrow> Some (Errorf ''auto_rebuild_time: wrong format'' [s]))"

text \<open>The checks the three tables share: a name, a valid one, not used before.\<close>

definition check_entry_name :: "string \<Rightarrow> string \<Rightarrow> bool \<Rightarrow> go_error option" where
  "check_entry_name what name used =
     (if name = [] then Some (Errorf ''name not defined'' [what])
      else if \<not> IsValidName name then Some (Errorf ''not a valid name'' [what, name])
      else if used then Some (Errorf ''already defined'' [what, name]) else None)"

definition add_seed :: "toml_seed \<Rightarrow> (string, config_seed) gomap \<Rightarrow> go_error + (string, config_seed) gomap" where
  "add_seed seed m =
     (case check_entry_name ''seed'' (ts_Name seed) (gm_get m (ts_Name seed) \<noteq> None) of Some e \<Rightarrow> Inl e
      | None \<Rightarrow>
          if ts_URL seed = [] \<and> ts_Seeder seed = [] \<or> ts_URL seed \<noteq> [] \<and> ts_Seeder seed \<noteq> []
          then Inl (Errorf ''seed must have either url or seeder parameter'' [ts_Name seed])
          else Inr (gm_put (ts_Name seed) \<lparr>cs_URL = ts_URL seed, cs_Seeder = ts_Seeder seed\<rparr> m))"

definition add_peer :: "config_peer \<Rightarrow> (string, config_peer) gomap \<Rightarrow> go_error + (string, config_peer) gomap" where
  "add_peer peer m =
     (case check_entry_name ''peer'' (cp_Name peer) (gm_get m (cp_Name peer) \<noteq> None) of Some e \<Rightarrow> Inl e
      | None \<Rightarrow>
          if cp_URL peer = [] then Inl (Errorf ''peer have undefined url'' [cp_Name peer])
          else Inr (gm_put (cp_Name peer) peer m))"

definition origin_options :: "(string \<Rightarrow> bool) \<Rightarrow> config_origin \<Rightarrow> go_error option" where
  "origin_options path_exists t =
     (if co_Type t \<noteq> OriginTypeGIT then
        (if co_Dir t \<noteq> [] then Some (Errorf ''dir parameter is only valid for git type'' [co_Name t])
         else if co_Branch t \<noteq> [] then Some (Errorf ''branch parameter is only valid for git type'' [co_Name t])
         else if co_SSHKeyFile t \<noteq> [] then Some (Errorf ''ssh_key_file parameter is only valid for git type'' [co_Name t])
         else None)
      else if co_Branch t = [] then Some (Errorf ''branch parameter is required for git type'' [co_Name t])
      else if co_SSHKeyFile t = [] \<and> \<not> co_SSHAgent t
        then Some (Errorf ''ssh_key_file or ssh_agent parameter is required for git type'' [co_Name t])
      else if co_SSHKeyFile t \<noteq> [] \<and> co_SSHAgent t
        then Some (Errorf ''ssh_key_file and ssh_agent are mutually exclusive'' [co_Name t])
      else if co_SSHKeyFile t \<noteq> [] \<and> \<not> path_exists (co_SSHKeyFile t)
        then Some (Errorf ''SSH key does not exist'' [co_Name t, co_SSHKeyFile t])
      else None)"

text \<open>\<open>Dir\<close> is not copied, whatever the type.\<close>

definition origin_of_toml :: "config_origin \<Rightarrow> config_origin" where
  "origin_of_toml t =
     (if co_Type t = OriginTypeGIT
      then \<lparr>co_Name = co_Name t, co_Type = co_Type t, co_Path = co_Path t, co_Dir = [], co_Branch = co_Branch t,
            co_SSHKeyFile = co_SSHKeyFile t, co_SSHAgent = co_SSHAgent t\<rparr>
      else \<lparr>co_Name = co_Name t, co_Type = co_Type t, co_Path = co_Path t, co_Dir = [], co_Branch = [],
            co_SSHKeyFile = [], co_SSHAgent = False\<rparr>)"

definition add_origin ::
  "(string \<Rightarrow> bool) \<Rightarrow> config_origin \<Rightarrow> (string, config_origin) gomap \<Rightarrow> go_error + (string, config_origin) gomap" where
  "add_origin path_exists t m =
     (case check_entry_name ''origin'' (co_Name t) (gm_get m (co_Name t) \<noteq> None) of Some e \<Rightarrow> Inl e
      | None \<Rightarrow>
          if co_Path t = [] then Inl (Errorf ''origin path not defined'' [])
          else if co_Type t \<notin> {OriginTypeHTTP, OriginTypeGIT, OriginTypeFile}
          then Inl (Errorf ''origin: unknown type'' [co_Name t, co_Type t])
          else (case origin_options path_exists t of Some e \<Rightarrow> Inl e
            | None \<Rightarrow> Inr (gm_put (co_Name t) (origin_of_toml t) m)))"

definition server_NewAppConfigFromTomlFile ::
  "(string \<Rightarrow> toml_server \<Rightarrow> string + toml_server \<times> string list) \<Rightarrow> (string \<Rightarrow> bool) \<Rightarrow> string
    \<Rightarrow> go_error + server_config" where
  "server_NewAppConfigFromTomlFile decode path_exists configPath =
     (case decode (path_clean (configPath @ ''/mulchd.toml'')) server_defaults of
        Inl e \<Rightarrow> Inl (Errorf ''toml'' [e])
      | Inr (t, undecoded) \<Rightarrow>
      (case server_unknown_setting undecoded of Some p \<Rightarrow> Inl (Errorf ''unknown setting'' [p])
       | None \<Rightarrow>
      (case check_listen (tz_Listen t) (tz_InternalServerPort t) of Some e \<Rightarrow> Inl e
       | None \<Rightarrow>
      (case server_chain_mode (tz_ProxyChainMode t) of Inl e \<Rightarrow> Inl e
       | Inr mode \<Rightarrow>
      (case check_rebuild_time (tz_AutoRebuildTime t) of Some e \<Rightarrow> Inl e
       | None \<Rightarrow>
      (case foldE add_seed (tz_Seed t) [] of Inl e \<Rightarrow> Inl e
       | Inr seeds \<Rightarrow>
      (case foldE add_peer (tz_Peer t) [] of Inl e \<Rightarrow> Inl e
       | Inr peers \<Rightarrow>
      (case foldE (add_origin path_exists) (tz_Origin t) [] of Inl e \<Rightarrow> Inl e
       | Inr origins \<Rightarrow>
           Inr \<lparr>sc_Listen = tz_Listen t, sc_InternalServerPort = tz_InternalServerPort t,
                sc_ListenHTTPSDomain = tz_ListenHTTPSDomain t, sc_LibVirtURI = tz_LibVirtURI t,
                sc_StoragePath = tz_StoragePath t, sc_DataPath = tz_DataPath t, sc_TempPath = tz_TempPath t,
                sc_VMPrefix = tz_VMPrefix t, sc_ProxyListenSSH = tz_ProxyListenSSH t,
                sc_ProxySSHExtraKeysFile = tz_ProxySSHExtraKeysFile t, sc_ProxyChainMode = mode,
                sc_ProxyChainParentURL = tz_ProxyChainParentURL t, sc_ProxyChainChildURL = tz_ProxyChainChildURL t,
                sc_ProxyChainPSK = tz_ProxyChainPSK t, sc_MulchSuperUser = tz_MulchSuperUser t,
                sc_MulchSuperUserSSHKey = tz_MulchSuperUserSSHKey t, sc_AutoRebuildTime = tz_AutoRebuildTime t,
                sc_Seeds = seeds, sc_Peers = peers, sc_Origins = origins, sc_configPath = configPath\<rparr>))))))))"

definition GetTemplateFilepath :: "server_config \<Rightarrow> string \<Rightarrow> string" where
  "GetTemplateFilepath conf name = path_clean (sc_configPath conf @ ''/templates/'' @ name)"

end
