(* ===== verification/Secrets.thy ===== *)
theory Secrets
  imports Server_Config
begin

text \<open>
  The secret database, \<open>cmd/mulchd/server/secret_database.go\<close>: a map of secrets with deletion
  marks, saved encrypted, and merged with the databases of peers by modification time.
  The JSON encoder and the AES-GCM functions of the standard library are the parameter
  \<open>codec\<close>; a peer is the function that answers a call.
\<close>

record secret =
  sec_Key :: string
  Value :: string
  Modified :: time
  sec_AuthorKey :: string
  Deleted :: bool

type_synonym secret_entries = "(string, secret) gomap"

datatype secret_error =
    SecretNotFound string
  | EmptyKey
  | InvalidPathPart string
  | EmptyEnvName
  | EnvNotUpper string
  | SecIO string
  | BadKeySize
  | ShortInputPanic
  | AuthenticationFailed
  | BadJSON
  | SecWrongMode int
  | SecVmError vmdb_error
  | PeersFailed "(string \<times> string) list"
  | PeerFailed string

subsection \<open>Encryption\<close>

record codec =
  marshal :: "secret_entries \<Rightarrow> string"
  unmarshal :: "string \<Rightarrow> secret_entries option"
  seal :: "string \<Rightarrow> string \<Rightarrow> string \<Rightarrow> string"
  open_sealed :: "string \<Rightarrow> string \<Rightarrow> string \<Rightarrow> string option"

definition NonceSize :: nat where "NonceSize = 12"

definition aes_key :: "string \<Rightarrow> bool" where "aes_key k \<longleftrightarrow> length k \<in> {16, 24, 32}"

definition Encrypt :: "codec \<Rightarrow> string \<Rightarrow> string \<Rightarrow> string \<Rightarrow> secret_error + string" where
  "Encrypt c passphrase nonce data =
     (if \<not> aes_key passphrase then Inl BadKeySize else Inr (nonce @ seal c passphrase nonce data))"

text \<open>\<open>data[:gcm.NonceSize()]\<close> panics on a shorter slice.\<close>

definition Decrypt :: "codec \<Rightarrow> string \<Rightarrow> string \<Rightarrow> secret_error + string" where
  "Decrypt c passphrase data =
     (if \<not> aes_key passphrase then Inl BadKeySize
      else if length data < NonceSize then Inl ShortInputPanic
      else case open_sealed c passphrase (take NonceSize data) (drop NonceSize data) of
          None \<Rightarrow> Inl AuthenticationFailed | Some t \<Rightarrow> Inr t)"

subsection \<open>State\<close>

record secret_db =
  sdb :: secret_entries
  passphrase :: string
  sdb_file :: "string option"

datatype secret_write = SwOk | SwOpenFails string | SwWriteFails string nat

definition saveToWriter :: "codec \<Rightarrow> string \<Rightarrow> secret_db \<Rightarrow> secret_error + string" where
  "saveToWriter c nonce st = Encrypt c (passphrase st) nonce (marshal c (sdb st))"

definition secrets_save :: "codec \<Rightarrow> string \<Rightarrow> secret_write \<Rightarrow> secret_db \<Rightarrow> secret_db \<times> secret_error option" where
  "secrets_save c nonce w st =
     (case w of
        SwOpenFails e \<Rightarrow> (st, Some (SecIO e))
      | SwOk \<Rightarrow>
          (case saveToWriter c nonce st of
             Inl e \<Rightarrow> (st\<lparr>sdb_file := Some []\<rparr>, Some e)
           | Inr data \<Rightarrow> (st\<lparr>sdb_file := Some data\<rparr>, None))
      | SwWriteFails e n \<Rightarrow>
          (case saveToWriter c nonce st of
             Inl e' \<Rightarrow> (st\<lparr>sdb_file := Some []\<rparr>, Some e')
           | Inr data \<Rightarrow> (st\<lparr>sdb_file := Some (take n data)\<rparr>, Some (SecIO e))))"

definition secrets_load :: "codec \<Rightarrow> int \<Rightarrow> secret_db \<Rightarrow> secret_db \<times> secret_error option" where
  "secrets_load c mode st =
     (case sdb_file st of
        None \<Rightarrow> (st, Some (SecIO ''open''))
      | Some data \<Rightarrow>
          if mode \<noteq> 384 then (st, Some (SecWrongMode mode))
          else case Decrypt c (passphrase st) data of
              Inl e \<Rightarrow> (st, Some e)
            | Inr t \<Rightarrow>
                (case unmarshal c t of
                   None \<Rightarrow> (st, Some BadJSON)
                 | Some es \<Rightarrow> (st\<lparr>sdb := put_all es (sdb st)\<rparr>, None)))"

definition NewSecretDatabase ::
  "codec \<Rightarrow> string \<Rightarrow> string \<Rightarrow> secret_write \<Rightarrow> int \<Rightarrow> string option \<Rightarrow> secret_error + secret_db" where
  "NewSecretDatabase c pass nonce w mode on_disk =
     (let st = \<lparr>sdb = [], passphrase = pass, sdb_file = on_disk\<rparr> in
      case (if on_disk = None then (st, None) else secrets_load c mode st) of
        (st1, Some e) \<Rightarrow> Inl e
      | (st1, None) \<Rightarrow>
          (case secrets_save c nonce w st1 of (st2, Some e) \<Rightarrow> Inl e | (st2, None) \<Rightarrow> Inr st2))"

subsection \<open>Reading and writing one secret\<close>

definition Get :: "secret_db \<Rightarrow> string \<Rightarrow> secret_error + secret" where
  "Get st key =
     (case gm_get (sdb st) key of
        None \<Rightarrow> Inl (SecretNotFound key)
      | Some s \<Rightarrow> if Deleted s then Inl (SecretNotFound key) else Inr s)"

definition secrets_set :: "time \<Rightarrow> string \<Rightarrow> string \<Rightarrow> string \<Rightarrow> secret_db \<Rightarrow> secret_db" where
  "secrets_set now key v authorKey st =
     st\<lparr>sdb := gm_put key \<lparr>sec_Key = key, Value = v, Modified = now, sec_AuthorKey = authorKey, Deleted = False\<rparr>
        (sdb st)\<rparr>"

definition secrets_delete :: "time \<Rightarrow> string \<Rightarrow> string \<Rightarrow> secret_db \<Rightarrow> secret_db \<times> secret_error option" where
  "secrets_delete now key authorKey st =
     (case gm_get (sdb st) key of
        None \<Rightarrow> (st, Some (SecretNotFound key))
      | Some s \<Rightarrow>
          if Deleted s then (st, Some (SecretNotFound key))
          else (st\<lparr>sdb := gm_put key (s\<lparr>Value := [], Deleted := True, Modified := now, sec_AuthorKey := authorKey\<rparr>)
                  (sdb st)\<rparr>, None))"

definition GetKeys :: "secret_db \<Rightarrow> string list" where
  "GetKeys st = map fst (filter (\<lambda>(k, s). \<not> Deleted s) (sdb st))"

definition CleanKey :: "string \<Rightarrow> secret_error + string" where
  "CleanKey keyPath =
     (let resPath = trim_space keyPath in
      if resPath = [] then Inl EmptyKey else
      let cleaned = path_clean (if hd resPath = CHR ''/'' then tl resPath else resPath);
          parts = go_split ''/'' cleaned in
      case find (\<lambda>p. \<not> IsValidName p) parts of
        Some p \<Rightarrow> Inl (InvalidPathPart p)
      | None \<Rightarrow>
          if last parts = [] then Inl EmptyEnvName
          else if last parts \<noteq> to_upper (last parts) then Inl (EnvNotUpper (last parts))
          else Inr cleaned)"

subsection \<open>Merging with a peer\<close>

text \<open>
  \<open>SyncWithDatabase\<close>: an entry of the other side is taken when it is newer, and ours is
  announced back unless the other side has it at least as new.
\<close>

definition sync_entry ::
  "secret \<Rightarrow> secret_entries \<times> string list \<Rightarrow> secret_entries \<times> string list" where
  "sync_entry e st =
     (case st of (m, responseKeys) \<Rightarrow>
      let my = gm_get m (sec_Key e);
          newer = (case my of None \<Rightarrow> True | Some s \<Rightarrow> Modified s < Modified e);
          m1 = (if newer then gm_put (sec_Key e) e m else m);
          r1 = (if newer then removeAll (sec_Key e) responseKeys else responseKeys);
          r2 = (case my of None \<Rightarrow> r1
                | Some s \<Rightarrow> if \<not> Modified e < Modified s then removeAll (sec_Key e) r1 else r1)
      in (m1, r2))"

definition merge_entries :: "secret_entries \<Rightarrow> secret_entries \<Rightarrow> secret_entries \<times> secret_entries" where
  "merge_entries mine other =
     (let (m, responseKeys) = fold sync_entry (gm_vals other) (mine, gm_keys mine)
      in (m, map (\<lambda>k. (k, the (gm_get m k))) responseKeys))"

definition SyncWithDatabase ::
  "codec \<Rightarrow> string \<Rightarrow> secret_write \<Rightarrow> secret_entries \<Rightarrow> secret_db \<Rightarrow> secret_db \<times> secret_entries \<times> secret_error option" where
  "SyncWithDatabase c nonce w other st =
     (let (m, newer) = merge_entries (sdb st) other;
          (st1, e) = secrets_save c nonce w (st\<lparr>sdb := m\<rparr>)
      in (st1, newer, e))"

text \<open>The peer's side of a synchronisation, \<open>SyncSecretsController\<close>.\<close>

definition SyncSecretsController ::
  "codec \<Rightarrow> string \<Rightarrow> string \<Rightarrow> secret_write \<Rightarrow> string \<Rightarrow> secret_db \<Rightarrow> secret_db \<times> (secret_error + string)" where
  "SyncSecretsController c nonce nonce' w upload st =
     (case Decrypt c (passphrase st) upload of
        Inl e \<Rightarrow> (st, Inl e)
      | Inr t \<Rightarrow>
          (case unmarshal c t of None \<Rightarrow> (st, Inl BadJSON)
           | Some es \<Rightarrow>
               (case SyncWithDatabase c nonce w es st of
                  (st1, newer, Some e) \<Rightarrow> (st1, Inl e)
                | (st1, newer, None) \<Rightarrow> (st1, Encrypt c (passphrase st) nonce' (marshal c newer)))))"

text \<open>Our side: \<open>SyncPeer\<close>, where \<open>call\<close> is the peer's answer to the upload.\<close>

definition SyncPeer ::
  "codec \<Rightarrow> string \<Rightarrow> string \<Rightarrow> secret_write \<Rightarrow> (string \<Rightarrow> string + string) \<Rightarrow> secret_db \<Rightarrow> secret_db \<times> secret_error option" where
  "SyncPeer c nonce nonce' w call st =
     (case Encrypt c (passphrase st) nonce (marshal c (sdb st)) of
        Inl e \<Rightarrow> (st, Some e)
      | Inr data \<Rightarrow>
          (case call data of Inl e \<Rightarrow> (st, Some (PeerFailed e))
           | Inr reply \<Rightarrow>
               (case Decrypt c (passphrase st) reply of Inl e \<Rightarrow> (st, Some e)
                | Inr t \<Rightarrow>
                    (case unmarshal c t of None \<Rightarrow> (st, Some BadJSON)
                     | Some newer \<Rightarrow>
                         (case SyncWithDatabase c nonce' w newer st of (st1, _, e) \<Rightarrow> (st1, e))))))"

fun sync_peers ::
  "(config_peer \<Rightarrow> secret_db \<Rightarrow> secret_db \<times> secret_error option) \<Rightarrow> config_peer list \<Rightarrow> secret_db
    \<Rightarrow> secret_db \<times> (string \<times> secret_error) list" where
  "sync_peers one [] st = (st, [])"
| "sync_peers one (p # ps) st =
     (if \<not> cp_SyncSecrets p then sync_peers one ps st
      else let (st1, e) = one p st; (st2, es) = sync_peers one ps st1
        in (st2, (case e of None \<Rightarrow> es | Some x \<Rightarrow> (cp_Name p, x) # es)))"

text \<open>\<open>Set\<close> and \<open>Delete\<close>: a failed synchronisation is only logged.\<close>

definition Set_secret ::
  "codec \<Rightarrow> string \<Rightarrow> secret_write \<Rightarrow> (config_peer \<Rightarrow> secret_db \<Rightarrow> secret_db \<times> secret_error option)
    \<Rightarrow> config_peer list \<Rightarrow> time \<Rightarrow> string \<Rightarrow> string \<Rightarrow> string \<Rightarrow> secret_db \<Rightarrow> secret_db \<times> secret_error option" where
  "Set_secret c nonce w one peers now key v authorKey st =
     (case secrets_save c nonce w (secrets_set now key v authorKey st) of
        (st1, Some e) \<Rightarrow> (st1, Some e)
      | (st1, None) \<Rightarrow> (fst (sync_peers one peers st1), None))"

definition Delete_secret ::
  "codec \<Rightarrow> string \<Rightarrow> secret_write \<Rightarrow> (config_peer \<Rightarrow> secret_db \<Rightarrow> secret_db \<times> secret_error option)
    \<Rightarrow> config_peer list \<Rightarrow> time \<Rightarrow> string \<Rightarrow> string \<Rightarrow> secret_db \<Rightarrow> secret_db \<times> secret_error option" where
  "Delete_secret c nonce w one peers now key authorKey st =
     (case secrets_delete now key authorKey st of
        (st1, Some e) \<Rightarrow> (st1, Some e)
      | (st1, None) \<Rightarrow>
          (case secrets_save c nonce w st1 of
             (st2, Some e) \<Rightarrow> (st2, Some e)
           | (st2, None) \<Rightarrow> (fst (sync_peers one peers st2), None)))"

subsection \<open>Who uses a secret\<close>

definition GetVMsUsingSecret :: "vmdb \<Rightarrow> string \<Rightarrow> secret_error + string list" where
  "GetVMsUsingSecret vms key =
     foldE (\<lambda>vmName res.
         case GetByName vms vmName of
           Inl e \<Rightarrow> Inl (SecVmError e)
         | Inr vm \<Rightarrow> Inr (res @ map (\<lambda>_. vn_ID vmName) (filter (\<lambda>s. s = key) (cfg_Secrets (Config vm)))))
       (GetNames vms) []"

definition GetPeersVMsUsingSecret ::
  "(config_peer \<Rightarrow> string + string list) \<Rightarrow> config_peer list \<Rightarrow> secret_error + string list" where
  "GetPeersVMsUsingSecret call peers =
     foldE (\<lambda>peer res.
         if \<not> cp_SyncSecrets peer then Inr res
         else case call peer of
             Inl e \<Rightarrow> Inl (PeerFailed e)
           | Inr vms \<Rightarrow> Inr (res @ map (\<lambda>vm. vm @ ''@'' @ cp_Name peer) vms))
       peers []"

definition GetAllVMsUsingSecret ::
  "vmdb \<Rightarrow> (config_peer \<Rightarrow> string + string list) \<Rightarrow> config_peer list \<Rightarrow> string \<Rightarrow> secret_error + string list" where
  "GetAllVMsUsingSecret vms call peers key =
     (case GetVMsUsingSecret vms key of Inl e \<Rightarrow> Inl e
      | Inr res \<Rightarrow>
          (case GetPeersVMsUsingSecret call peers of Inl e \<Rightarrow> Inl e | Inr rest \<Rightarrow> Inr (res @ rest)))"

record secret_usage =
  su_Key :: string
  LocalCount :: int
  RemoteCount :: int

definition local_usage :: "secret_db \<Rightarrow> vmdb \<Rightarrow> secret_error + (string, secret_usage) gomap" where
  "local_usage st vms =
     foldE (\<lambda>key m.
         case Get st key of Inl e \<Rightarrow> Inl e
         | Inr s \<Rightarrow>
             (case GetVMsUsingSecret vms key of Inl e \<Rightarrow> Inl e
              | Inr users \<Rightarrow>
                  Inr (gm_put key \<lparr>su_Key = sec_Key s, LocalCount = int (length users), RemoteCount = 0\<rparr> m)))
       (GetKeys st) []"

definition add_remote_usage :: "secret_usage \<Rightarrow> (string, secret_usage) gomap \<Rightarrow> (string, secret_usage) gomap" where
  "add_remote_usage e m =
     (case gm_get m (su_Key e) of
        None \<Rightarrow> gm_put (su_Key e) e m
      | Some u \<Rightarrow> gm_put (su_Key e) (u\<lparr>RemoteCount := RemoteCount u + LocalCount e\<rparr>) m)"

definition GetSecretsUsage ::
  "secret_db \<Rightarrow> vmdb \<Rightarrow> bool \<Rightarrow> (config_peer \<Rightarrow> string + secret_usage list) \<Rightarrow> config_peer list
    \<Rightarrow> secret_error + secret_usage list" where
  "GetSecretsUsage st vms with_peers call peers =
     (case local_usage st vms of Inl e \<Rightarrow> Inl e
      | Inr m0 \<Rightarrow>
          (case foldE (\<lambda>peer m.
                 if \<not> cp_SyncSecrets peer then Inr m
                 else case call peer of Inl e \<Rightarrow> Inl (PeerFailed e)
                   | Inr entries \<Rightarrow> Inr (fold add_remote_usage entries m))
               (if with_peers then peers else []) m0 of
             Inl e \<Rightarrow> Inl e | Inr m \<Rightarrow> Inr (gm_vals m)))"

definition GetStats :: "secret_db \<Rightarrow> nat \<times> nat" where
  "GetStats st =
     (length (filter (\<lambda>s. \<not> Deleted s) (gm_vals (sdb st))), length (filter Deleted (gm_vals (sdb st))))"

text \<open>The secrets a VM sees, \<open>GetSecretsMap\<close> of \<open>vm.go\<close>: keyed by the last element of the path.\<close>

definition GetSecretsMap :: "secret_db \<Rightarrow> vm \<Rightarrow> (string, string) gomap \<times> string list" where
  "GetSecretsMap st vm =
     fold (\<lambda>key (res, missing).
         case Get st key of
           Inl _ \<Rightarrow> (res, missing @ [key])
         | Inr s \<Rightarrow> (gm_put (path_base key) (Value s) res, missing))
       (cfg_Secrets (Config vm)) ([], [])"

end
