(* ===== verification/Secrets_Sync.thy ===== *)
theory Secrets_Sync
  imports Secrets
begin

text \<open>
  What the merge of two secret databases computes, key by key, and why a synchronisation
  makes two servers agree; what \<open>CleanKey\<close> accepts; saving and loading.
\<close>

subsection \<open>The merge, key by key\<close>

definition secrets_ok :: "secret_entries \<Rightarrow> bool" where
  "secrets_ok m \<longleftrightarrow> gm_ok m \<and> (\<forall>(k, s)\<in>set m. sec_Key s = k)"

definition newest :: "secret option \<Rightarrow> secret option \<Rightarrow> secret option" where
  "newest mine other =
     (case mine of None \<Rightarrow> other
      | Some s \<Rightarrow> (case other of None \<Rightarrow> mine | Some e \<Rightarrow> if Modified s < Modified e then other else mine))"

definition strictly_newer :: "secret option \<Rightarrow> secret option \<Rightarrow> secret option" where
  "strictly_newer mine other =
     (case mine of None \<Rightarrow> None
      | Some s \<Rightarrow> (case other of None \<Rightarrow> mine | Some e \<Rightarrow> if Modified e < Modified s then mine else None))"

lemma secrets_ok_key: "secrets_ok m \<Longrightarrow> gm_get m k = Some s \<Longrightarrow> sec_Key s = k"
  by (auto simp: secrets_ok_def dest: gm_get_in)

lemma secrets_ok_gm: "secrets_ok m \<Longrightarrow> gm_ok m"
  by (simp add: secrets_ok_def)

lemma secrets_ok_put: "secrets_ok m \<Longrightarrow> secrets_ok (gm_put (sec_Key e) e m)"
  by (auto simp: secrets_ok_def gm.entries_put)

lemma sync_entry_get:
  "gm_get (fst (sync_entry e (m, r))) k = (if k = sec_Key e then newest (gm_get m k) (Some e) else gm_get m k)"
  by (auto simp: sync_entry_def Let_def newest_def split: option.splits)

lemma sync_entry_keys:
  "k \<in> set (snd (sync_entry e (m, r))) \<longleftrightarrow>
     k \<in> set r \<and> (k = sec_Key e \<longrightarrow> strictly_newer (gm_get m k) (Some e) \<noteq> None)"
  by (auto simp: sync_entry_def Let_def strictly_newer_def split: option.splits if_splits)

lemma sync_entry_ok: "secrets_ok m \<Longrightarrow> secrets_ok (fst (sync_entry e (m, r)))"
  by (auto simp: sync_entry_def Let_def secrets_ok_put)

lemma sync_fold:
  assumes "distinct (map sec_Key es)"
  shows "gm_get (fst (fold sync_entry es (m, r))) k =
      newest (gm_get m k) (find (\<lambda>e. sec_Key e = k) es)"
    and "k \<in> set (snd (fold sync_entry es (m, r))) \<longleftrightarrow>
      k \<in> set r \<and> (case find (\<lambda>e. sec_Key e = k) es of None \<Rightarrow> True
        | Some e \<Rightarrow> strictly_newer (gm_get m k) (Some e) \<noteq> None)"
proof -
  have "gm_get (fst (fold sync_entry es (m, r))) k = newest (gm_get m k) (find (\<lambda>e. sec_Key e = k) es) \<and>
    (k \<in> set (snd (fold sync_entry es (m, r))) \<longleftrightarrow>
      k \<in> set r \<and> (case find (\<lambda>e. sec_Key e = k) es of None \<Rightarrow> True
        | Some e \<Rightarrow> strictly_newer (gm_get m k) (Some e) \<noteq> None))"
    using assms
  proof (induction es arbitrary: m r)
    case Nil
    then show ?case by (simp add: newest_def split: option.split)
  next
    case (Cons e es)
    obtain m1 r1 where s: "sync_entry e (m, r) = (m1, r1)" by fastforce
    note get = sync_entry_get [of e m r, unfolded s fst_conv]
    note keys = sync_entry_keys [of _ e m r, unfolded s snd_conv]
    from Cons.prems have d: "distinct (map sec_Key es)" by simp
    show ?case
    proof (cases "sec_Key e = k")
      case False
      then have same: "gm_get m1 k = gm_get m k" by (simp add: get)
      from False have "k \<in> set r1 \<longleftrightarrow> k \<in> set r" by (auto simp: keys)
      with Cons.IH [OF d, of m1 r1, unfolded same] False show ?thesis by (simp add: s)
    next
      case True
      with Cons.prems have "k \<notin> sec_Key ` set es" by simp
      then have "find (\<lambda>e. sec_Key e = k) es = None" by (auto simp: find_None_all image_iff)
      with Cons.IH [OF d, of m1 r1] True show ?thesis
        by (auto simp: s get keys newest_def split: option.splits)
    qed
  qed
  then show "gm_get (fst (fold sync_entry es (m, r))) k = newest (gm_get m k) (find (\<lambda>e. sec_Key e = k) es)"
    and "k \<in> set (snd (fold sync_entry es (m, r))) \<longleftrightarrow>
      k \<in> set r \<and> (case find (\<lambda>e. sec_Key e = k) es of None \<Rightarrow> True
        | Some e \<Rightarrow> strictly_newer (gm_get m k) (Some e) \<noteq> None)" by blast+
qed

lemma vals_keys: "secrets_ok m \<Longrightarrow> map sec_Key (gm_vals m) = map fst m"
  by (auto simp: secrets_ok_def gm_vals_def)

lemma find_vals:
  assumes "secrets_ok m"
  shows "find (\<lambda>e. sec_Key e = k) (gm_vals m) = gm_get m k"
proof (cases "gm_get m k")
  case None
  then have "k \<notin> set (map sec_Key (gm_vals m))"
    unfolding vals_keys [OF assms] by (simp add: gm_get_def map_of_eq_None_iff)
  with None show ?thesis by (auto simp: find_None_all)
next
  case (Some s)
  have "find (\<lambda>e. sec_Key e = k) (gm_vals m) = Some s"
  proof (rule find_unique)
    show "s \<in> set (gm_vals m)" using Some assms by (auto simp: gm_vals_get secrets_ok_gm)
    show "sec_Key s = k" using assms Some by (rule secrets_ok_key)
    show "y = s" if "y \<in> set (gm_vals m)" "sec_Key y = k" for y
      using that Some assms by (auto simp: gm_vals_get secrets_ok_gm dest: secrets_ok_key)
  qed
  with Some show ?thesis by simp
qed

lemma fold_sync_ok: "secrets_ok m \<Longrightarrow> secrets_ok (fst (fold sync_entry es (m, r)))"
proof (induction es arbitrary: m r)
  case (Cons e es)
  obtain m1 r1 where s: "sync_entry e (m, r) = (m1, r1)" by fastforce
  with sync_entry_ok [OF Cons.prems, of e r] Cons.IH [of m1 r1] show ?case by simp
qed simp

lemma fold_sync_distinct: "distinct r \<Longrightarrow> distinct (snd (fold sync_entry es (m, r)))"
proof (induction es arbitrary: m r)
  case (Cons e es)
  obtain m1 r1 where s: "sync_entry e (m, r) = (m1, r1)" by fastforce
  then have "distinct r1" using Cons.prems
    by (auto simp: sync_entry_def Let_def distinct_removeAll split: option.splits if_splits)
  with Cons.IH [of r1 m1] s show ?case by simp
qed simp

lemma merge_get:
  assumes "secrets_ok mine" and "secrets_ok other"
  shows "gm_get (fst (merge_entries mine other)) k = newest (gm_get mine k) (gm_get other k)"
    and "gm_get (snd (merge_entries mine other)) k = strictly_newer (gm_get mine k) (gm_get other k)"
    and "secrets_ok (fst (merge_entries mine other))" and "secrets_ok (snd (merge_entries mine other))"
proof -
  obtain m r where f: "fold sync_entry (gm_vals other) (mine, gm_keys mine) = (m, r)" by fastforce
  have d: "distinct (map sec_Key (gm_vals other))"
    using assms(2) by (simp add: vals_keys) (simp add: secrets_ok_def gm_ok_def)
  note g = sync_fold(1) [OF d, of mine "gm_keys mine", unfolded f fst_conv find_vals [OF assms(2)]]
  note ks = sync_fold(2) [OF d, of _ mine "gm_keys mine", unfolded f snd_conv find_vals [OF assms(2)]]
  have mr: "merge_entries mine other = (m, map (\<lambda>k. (k, the (gm_get m k))) r)"
    by (simp add: merge_entries_def f)
  show "gm_get (fst (merge_entries mine other)) k = newest (gm_get mine k) (gm_get other k)" for k
    by (simp add: mr g)
  have in_r: "k \<in> set r \<longleftrightarrow> strictly_newer (gm_get mine k) (gm_get other k) \<noteq> None" for k
    unfolding ks gm_keys_get by (auto simp: strictly_newer_def split: option.splits)
  have same: "strictly_newer a b \<noteq> None \<Longrightarrow> newest a b = strictly_newer a b" for a b
    by (auto simp: newest_def strictly_newer_def split: option.splits if_splits)
  have "gm_get (map (\<lambda>k. (k, the (gm_get m k))) r) k = (if k \<in> set r then Some (the (gm_get m k)) else None)" for k
    by (induction r) (auto simp: gm_get_def)
  with in_r [of k] same [of "gm_get mine k" "gm_get other k"]
  show "gm_get (snd (merge_entries mine other)) k = strictly_newer (gm_get mine k) (gm_get other k)"
    by (auto simp: mr g)
  have ok: "secrets_ok m" using fold_sync_ok [OF assms(1), of "gm_vals other" "gm_keys mine"] f by simp
  then show "secrets_ok (fst (merge_entries mine other))" by (simp add: mr)
  have "distinct r"
    using fold_sync_distinct [of "gm_keys mine" "gm_vals other" mine] f assms(1)
    by (simp add: gm_keys_def secrets_ok_def gm_ok_def)
  moreover have "sec_Key (the (gm_get m k)) = k" if "k \<in> set r" for k
    using that in_r [of k] same [of "gm_get mine k" "gm_get other k"] secrets_ok_key [OF ok, of k] by (auto simp: g)
  ultimately show "secrets_ok (snd (merge_entries mine other))"
    by (auto simp: mr secrets_ok_def gm_ok_def comp_def)
qed

subsection \<open>Two servers agree\<close>

text \<open>The peer merges our database, then we merge what it announced.\<close>

definition sync_pair :: "secret_entries \<Rightarrow> secret_entries \<Rightarrow> secret_entries \<times> secret_entries" where
  "sync_pair a b = (let (b1, newer) = merge_entries b a in (fst (merge_entries a newer), b1))"

definition no_tie :: "secret option \<Rightarrow> secret option \<Rightarrow> bool" where
  "no_tie a b \<longleftrightarrow> (case a of None \<Rightarrow> True | Some s \<Rightarrow>
     (case b of None \<Rightarrow> True | Some e \<Rightarrow> Modified s = Modified e \<longrightarrow> s = e))"

lemma pair_get:
  assumes "secrets_ok a" and "secrets_ok b"
  shows "gm_get (fst (sync_pair a b)) k = newest (gm_get a k) (gm_get b k)"
    and "gm_get (snd (sync_pair a b)) k = newest (gm_get b k) (gm_get a k)"
    and "secrets_ok (fst (sync_pair a b))" and "secrets_ok (snd (sync_pair a b))"
proof -
  obtain b1 newer where m: "merge_entries b a = (b1, newer)" by fastforce
  note ba = merge_get [OF assms(2,1), unfolded m fst_conv snd_conv]
  note an = merge_get [OF assms(1) ba(4)]
  have p: "sync_pair a b = (fst (merge_entries a newer), b1)" by (simp add: sync_pair_def m)
  have "newest x (strictly_newer y x) = newest x y" for x y
    by (auto simp: newest_def strictly_newer_def split: option.splits)
  then show "gm_get (fst (sync_pair a b)) k = newest (gm_get a k) (gm_get b k)"
    by (simp add: p an(1) ba(2))
  show "gm_get (snd (sync_pair a b)) k = newest (gm_get b k) (gm_get a k)" by (simp add: p ba(1))
  show "secrets_ok (fst (sync_pair a b))" "secrets_ok (snd (sync_pair a b))"
    using an(3) ba(3) by (simp_all add: p)
qed

lemma newest_sym: "no_tie a b \<Longrightarrow> newest a b = newest b a"
  by (auto simp: newest_def no_tie_def split: option.splits)

lemma pair_agree:
  assumes "secrets_ok a" and "secrets_ok b" and "\<And>k. no_tie (gm_get a k) (gm_get b k)"
  shows "gm_get (fst (sync_pair a b)) = gm_get (snd (sync_pair a b))"
  by (rule ext) (simp add: pair_get [OF assms(1,2)] newest_sym [OF assms(3)])

text \<open>The whole exchange, encryption included.\<close>

definition codec_ok :: "codec \<Rightarrow> string \<Rightarrow> secret_entries list \<Rightarrow> bool" where
  "codec_ok c pass docs \<longleftrightarrow> aes_key pass \<and>
     list_all (\<lambda>es. unmarshal c (marshal c es) = Some es) docs \<and>
     (\<forall>nonce t. length nonce = NonceSize \<longrightarrow> open_sealed c pass nonce (seal c pass nonce t) = Some t)"

lemma decrypt_encrypt:
  assumes "codec_ok c pass docs" and "length nonce = NonceSize"
  shows "\<exists>data. Encrypt c pass nonce t = Inr data \<and> Decrypt c pass data = Inr t"
  using assms by (auto simp: codec_ok_def Encrypt_def Decrypt_def)

definition peer_answer :: "secret_db \<times> (secret_error + string) \<Rightarrow> string + string" where
  "peer_answer r = (case snd r of Inl e \<Rightarrow> Inl ''500'' | Inr reply \<Rightarrow> Inr reply)"

lemma protocol_is_sync_pair:
  assumes c: "codec_ok c (passphrase a) [sdb a, snd (merge_entries (sdb b) (sdb a))]"
    and p: "passphrase b = passphrase a"
    and n: "length n1 = NonceSize" "length n2 = NonceSize" "length n3 = NonceSize" "length n4 = NonceSize"
  defines "controller \<equiv> \<lambda>data. SyncSecretsController c n2 n3 SwOk data b"
  shows "\<exists>upload a'. Encrypt c (passphrase a) n1 (marshal c (sdb a)) = Inr upload \<and>
    SyncPeer c n1 n4 SwOk (\<lambda>data. peer_answer (controller data)) a = (a', None) \<and>
    sdb a' = fst (sync_pair (sdb a) (sdb b)) \<and> sdb (fst (controller upload)) = snd (sync_pair (sdb a) (sdb b))"
proof -
  let ?pass = "passphrase a"
  obtain b1 newer where m: "merge_entries (sdb b) (sdb a) = (b1, newer)" by fastforce
  obtain m1 r1 where m2: "merge_entries (sdb a) newer = (m1, r1)" by fastforce
  have u: "unmarshal c (marshal c (sdb a)) = Some (sdb a)" "unmarshal c (marshal c newer) = Some newer"
    using c by (simp_all add: codec_ok_def m)
  from decrypt_encrypt [OF c n(1)] obtain upload where
    up: "Encrypt c ?pass n1 (marshal c (sdb a)) = Inr upload" "Decrypt c ?pass upload = Inr (marshal c (sdb a))" by blast
  from decrypt_encrypt [OF c n(3)] obtain reply where
    re: "Encrypt c ?pass n3 (marshal c newer) = Inr reply" "Decrypt c ?pass reply = Inr (marshal c newer)" by blast
  have save: "\<exists>f. secrets_save c nn SwOk st = (st\<lparr>sdb_file := f\<rparr>, None)"
    if "passphrase st = ?pass" "length nn = NonceSize" for st nn
  proof -
    from decrypt_encrypt [OF c that(2)] obtain d where "Encrypt c ?pass nn (marshal c (sdb st)) = Inr d" by blast
    with that(1) show ?thesis by (auto simp: secrets_save_def saveToWriter_def)
  qed
  from save [of "b\<lparr>sdb := b1\<rparr>" n2] p n obtain f where
    f: "secrets_save c n2 SwOk (b\<lparr>sdb := b1\<rparr>) = (b\<lparr>sdb := b1, sdb_file := f\<rparr>, None)" by auto
  from save [of "a\<lparr>sdb := m1\<rparr>" n4] n obtain g where
    g: "secrets_save c n4 SwOk (a\<lparr>sdb := m1\<rparr>) = (a\<lparr>sdb := m1, sdb_file := g\<rparr>, None)" by auto
  have ctl: "controller upload = (b\<lparr>sdb := b1, sdb_file := f\<rparr>, Inr reply)"
    by (simp add: controller_def SyncSecretsController_def p up u SyncWithDatabase_def m f re)
  have "SyncPeer c n1 n4 SwOk (\<lambda>data. peer_answer (controller data)) a = (a\<lparr>sdb := m1, sdb_file := g\<rparr>, None)"
    by (simp add: SyncPeer_def up ctl peer_answer_def re u SyncWithDatabase_def m2 g)
  with up ctl show ?thesis by (auto simp: sync_pair_def m m2)
qed

subsection \<open>Clean keys\<close>

lemma clean_parts_subset: "set (clean_parts rooted stack ps) \<subseteq> set stack \<union> set ps"
proof (induction rooted stack ps rule: clean_parts.induct)
  case (2 rooted stack p ps)
  then show ?case by (cases stack) auto
qed simp

lemma CleanKey_parts:
  assumes "CleanKey p = Inr k"
  shows "list_all IsValidName (go_split ''/'' k)" and "last (go_split ''/'' k) \<noteq> []"
    and "last (go_split ''/'' k) = to_upper (last (go_split ''/'' k))" and "\<exists>x. k = path_clean x"
  using assms
  by (auto simp: CleanKey_def Let_def find_None_all list_all_iff split: if_splits option.splits)

lemma valid_not_dots: "IsValidName q \<Longrightarrow> q \<noteq> ''.'' \<and> q \<noteq> ''..''"
  by (auto simp: IsValidName_def name_char_def is_upper_def is_lower_def is_digit_def)

lemma valid_no_space: "IsValidName q \<Longrightarrow> c \<in> set q \<Longrightarrow> \<not> is_space c"
  by (auto simp: IsValidName_def list_all_iff is_space_def)
     (force simp: name_char_def is_upper_def is_lower_def is_digit_def)+

lemma join_chars: "c \<in> set (go_join sep ps) \<Longrightarrow> c \<in> set sep \<or> (\<exists>p\<in>set ps. c \<in> set p)"
  by (induction sep ps rule: go_join.induct) auto

lemma CleanKey_idem:
  assumes k: "CleanKey p = Inr k" and h: "hd k \<noteq> CHR ''/''"
  shows "CleanKey k = Inr k"
proof -
  note parts = CleanKey_parts [OF k]
  let ?ps = "go_split ''/'' k"
  have join: "go_join ''/'' ?ps = k" by (rule go_join_split) simp
  have ne: "k \<noteq> []"
  proof
    assume "k = []"
    with parts(2) show False by simp
  qed
  from parts(4) obtain x where x: "k = path_clean x" ..
  let ?cs = "clean_parts (is_rooted x) [] (go_split ''/'' x)"
  have nr: "\<not> is_rooted x"
  proof
    assume "is_rooted x"
    then have "k = ''/'' @ go_join ''/'' ?cs" by (simp add: x path_clean_def Let_def)
    with h show False by simp
  qed
  have dot: "k \<noteq> ''.''" using parts(1) by (auto simp: has_prefix_def dest: valid_not_dots)
  have kj: "k = go_join ''/'' ?cs" and cs: "?cs \<noteq> []"
    using nr dot by (auto simp: x path_clean_def Let_def split: if_splits)
  have "\<forall>q\<in>set ?cs. CHR ''/'' \<notin> set q"
    using clean_parts_subset [of "is_rooted x" "[]" "go_split ''/'' x"] split_no_sep [of _ "CHR ''/''" x] by auto
  from split_join [OF cs this] have ps: "?ps = ?cs" by (simp add: kj [symmetric])
  have "list_all (\<lambda>q. q \<noteq> [] \<and> q \<noteq> ''.'') ?cs" by (rule clean_parts_proper) simp
  with ps parts(1) have proper: "\<forall>q\<in>set ?ps. q \<noteq> [] \<and> q \<noteq> ''.'' \<and> q \<noteq> ''..''"
    by (auto simp: list_all_iff dest: valid_not_dots)
  from h ne have nrk: "\<not> is_rooted k" by (cases k) (auto simp: is_rooted_def has_prefix_def)
  have clean: "path_clean k = k"
    using clean_parts_id [OF proper, of False "[]"] nrk join ne by (simp add: path_clean_def Let_def)
  have "\<not> is_space c" if "c \<in> set k" for c
  proof -
    from that join have "c \<in> set (go_join ''/'' ?ps)" by simp
    from join_chars [OF this] parts(1) show ?thesis
      by (auto simp: list_all_iff dest: valid_no_space) (simp add: is_space_def)
  qed
  then have trim: "trim_space k = k" by (intro trim_space_no_spaces) blast
  from parts(1) have "find (\<lambda>q. \<not> IsValidName q) ?ps = None" by (simp add: find_None_all list_all_iff)
  with parts(2,3) h ne show ?thesis
    unfolding CleanKey_def trim Let_def by (simp add: clean)
qed

subsection \<open>Saving and loading\<close>

lemma save_load:
  assumes c: "codec_ok c (passphrase st) [sdb st]" and n: "length nonce = NonceSize"
    and s: "secrets_save c nonce SwOk st = (st1, None)"
  shows "secrets_load c 384 (st1\<lparr>sdb := []\<rparr>) = (st1\<lparr>sdb := put_all (sdb st) []\<rparr>, None)"
proof -
  from decrypt_encrypt [OF c n] obtain d where
    d: "Encrypt c (passphrase st) nonce (marshal c (sdb st)) = Inr d"
      "Decrypt c (passphrase st) d = Inr (marshal c (sdb st))" by blast
  with s have "st1 = st\<lparr>sdb_file := Some d\<rparr>" by (auto simp: secrets_save_def saveToWriter_def)
  with d c show ?thesis by (simp add: secrets_load_def codec_ok_def)
qed

end
