(* ===== verification/Secrets_Props.thy ===== *)
theory Secrets_Props
  imports Secrets_Sync
begin

text \<open>
  The properties of the secret database, with a concrete instance: two servers that hold one
  secret each and a codec whose encoder writes the keys and whose cipher is the identity.
\<close>

definition one_secret :: "string \<Rightarrow> string \<Rightarrow> time \<Rightarrow> secret" where
  "one_secret k v t = \<lparr>sec_Key = k, Value = v, Modified = t, sec_AuthorKey = ''me'', Deleted = False\<rparr>"

definition here_db :: secret_db where
  "here_db = \<lparr>sdb = [(''FOO'', one_secret ''FOO'' ''1'' 5)], passphrase = ''0123456789abcdef'', sdb_file = None\<rparr>"

definition there_db :: secret_db where
  "there_db = \<lparr>sdb = [(''BAR'', one_secret ''BAR'' ''2'' 7)], passphrase = ''0123456789abcdef'', sdb_file = None\<rparr>"

definition plain_codec :: codec where
  "plain_codec =
     \<lparr>marshal = (\<lambda>es. concat (map fst es)),
      unmarshal = (\<lambda>s. if s = ''FOO'' then Some (sdb here_db) else if s = ''BAR'' then Some (sdb there_db) else None),
      seal = (\<lambda>_ _ t. t), open_sealed = (\<lambda>_ _ t. Some t)\<rparr>"

abbreviation "nonce0 \<equiv> ''nonce0000000''"

lemma here_merge: "snd (merge_entries (sdb there_db) (sdb here_db)) = sdb there_db"
  by (simp add: merge_entries_def here_db_def there_db_def one_secret_def sync_entry_def gm_vals_def gm_keys_def
      gm_get_def gm_put_def)

lemma plain_codec_ok:
  "codec_ok plain_codec (passphrase here_db) [sdb here_db, snd (merge_entries (sdb there_db) (sdb here_db))]"
  unfolding here_merge by (simp add: codec_ok_def plain_codec_def aes_key_def here_db_def there_db_def)

text \<open>C32. A synchronisation with a peer, from the encrypted upload to the merge of the reply, makes the
  two servers hold the same secrets: for every key the one modified last, deletions included, provided no key
  has two different values with the same modification time.\<close>

theorem sync_agrees:
  assumes "secrets_ok (sdb a)" and "secrets_ok (sdb b)"
    and "\<And>k. no_tie (gm_get (sdb a) k) (gm_get (sdb b) k)"
    and "codec_ok c (passphrase a) [sdb a, snd (merge_entries (sdb b) (sdb a))]" and "passphrase b = passphrase a"
    and "length n1 = NonceSize" and "length n2 = NonceSize" and "length n3 = NonceSize" and "length n4 = NonceSize"
    and "Encrypt c (passphrase a) n1 (marshal c (sdb a)) = Inr upload"
  shows "\<exists>a' b' answer. SyncSecretsController c n2 n3 SwOk upload b = (b', answer) \<and>
    SyncPeer c n1 n4 SwOk (\<lambda>data. peer_answer (SyncSecretsController c n2 n3 SwOk data b)) a = (a', None) \<and>
    gm_get (sdb a') = gm_get (sdb b') \<and> (\<forall>k. gm_get (sdb a') k = newest (gm_get (sdb a) k) (gm_get (sdb b) k))"
proof -
  from protocol_is_sync_pair [OF assms(4-9)] assms(10) obtain a' where
    p: "SyncPeer c n1 n4 SwOk (\<lambda>data. peer_answer (SyncSecretsController c n2 n3 SwOk data b)) a = (a', None)"
      "sdb a' = fst (sync_pair (sdb a) (sdb b))"
      "sdb (fst (SyncSecretsController c n2 n3 SwOk upload b)) = snd (sync_pair (sdb a) (sdb b))" by auto
  with pair_agree [OF assms(1-3)] pair_get(1) [OF assms(1,2)]
  show ?thesis by (cases "SyncSecretsController c n2 n3 SwOk upload b") auto
qed

theorem sync_agrees_witness:
  "\<exists>a'. fst (SyncPeer plain_codec nonce0 nonce0 SwOk
      (\<lambda>data. peer_answer (SyncSecretsController plain_codec nonce0 nonce0 SwOk data there_db)) here_db) = a' \<and>
    (\<forall>k. gm_get (sdb a') k = newest (gm_get (sdb here_db) k) (gm_get (sdb there_db) k))"
proof -
  have 1: "secrets_ok (sdb here_db)" "secrets_ok (sdb there_db)"
    by (simp_all add: secrets_ok_def gm_ok_def here_db_def there_db_def one_secret_def)
  have 2: "no_tie (gm_get (sdb here_db) k) (gm_get (sdb there_db) k)" for k
    by (simp add: no_tie_def gm_get_def here_db_def there_db_def one_secret_def)
  have 3: "passphrase there_db = passphrase here_db" by (simp add: here_db_def there_db_def)
  have 4: "length nonce0 = NonceSize" by (simp add: NonceSize_def)
  have 5: "\<exists>upload. Encrypt plain_codec (passphrase here_db) nonce0 (marshal plain_codec (sdb here_db)) = Inr upload"
    by (simp add: Encrypt_def aes_key_def here_db_def)
  then obtain upload where
    "Encrypt plain_codec (passphrase here_db) nonce0 (marshal plain_codec (sdb here_db)) = Inr upload" ..
  from sync_agrees [OF 1 2 plain_codec_ok 3 4 4 4 4 this] show ?thesis by auto
qed

text \<open>Two different values with the same modification time never converge: a synchronisation leaves
  each server with its own value, as does every later one.\<close>

theorem sync_ties_never_converge:
  assumes "secrets_ok a" and "secrets_ok b" and "gm_get a k = Some s" and "gm_get b k = Some e"
    and "Modified s = Modified e"
  shows "let (a', b') = ((\<lambda>(x, y). sync_pair x y) ^^ n) (a, b) in gm_get a' k = Some s \<and> gm_get b' k = Some e"
proof -
  have "case ((\<lambda>(x, y). sync_pair x y) ^^ n) (a, b) of (a', b') \<Rightarrow>
    secrets_ok a' \<and> secrets_ok b' \<and> gm_get a' k = Some s \<and> gm_get b' k = Some e"
  proof (induction n)
    case 0
    with assms show ?case by simp
  next
    case (Suc n)
    obtain x y where xy: "((\<lambda>(x, y). sync_pair x y) ^^ n) (a, b) = (x, y)" by fastforce
    with Suc have "secrets_ok x" "secrets_ok y" "gm_get x k = Some s" "gm_get y k = Some e" by auto
    with pair_get [of x y] assms(5) xy show ?case
      by (auto simp: newest_def split: prod.splits)
  qed
  then show ?thesis by (auto split: prod.splits)
qed

theorem sync_ties_never_converge_witness:
  "gm_get (fst (sync_pair [(''K'', one_secret ''K'' ''1'' 5)] [(''K'', one_secret ''K'' ''2'' 5)])) ''K''
     = Some (one_secret ''K'' ''1'' 5)"
  using sync_ties_never_converge [of "[(''K'', one_secret ''K'' ''1'' 5)]" "[(''K'', one_secret ''K'' ''2'' 5)]"
    "''K''" "one_secret ''K'' ''1'' 5" "one_secret ''K'' ''2'' 5" 1]
  by (simp add: secrets_ok_def gm_ok_def gm_get_def one_secret_def case_prod_unfold Let_def)

text \<open>A key that \<open>CleanKey\<close> returns without a leading slash is in canonical form: cleaning it again
  changes nothing, its elements are valid names, and the last one is a non-empty upper case name.\<close>

theorem CleanKey_canonical:
  assumes "CleanKey p = Inr k" and "hd k \<noteq> CHR ''/''"
  shows "CleanKey k = Inr k \<and> list_all IsValidName (go_split ''/'' k) \<and>
    last (go_split ''/'' k) \<noteq> [] \<and> to_upper (last (go_split ''/'' k)) = last (go_split ''/'' k)"
  using CleanKey_idem [OF assms] CleanKey_parts [OF assms(1)] by simp

theorem CleanKey_canonical_witness: "CleanKey ''app/KEY'' = Inr ''app/KEY''"
proof -
  have "CleanKey '' /app/x/../KEY '' = Inr ''app/KEY''"
    by (simp add: CleanKey_def path_clean_def is_rooted_def IsValidName_def name_char_def go_eval)
  from CleanKey_canonical [OF this] show ?thesis by simp
qed

text \<open>A key written with two leading slashes keeps one of them, so it names another secret than the same
  path written with one.\<close>

lemma CleanKey_two_slashes:
  "CleanKey ''//app/KEY'' = Inr ''/app/KEY'' \<and> CleanKey ''/app/KEY'' = Inr ''app/KEY''"
  by (simp add: CleanKey_def path_clean_def is_rooted_def IsValidName_def name_char_def go_eval)

text \<open>C33. What a successful save wrote, a start with the same passphrase reads back.\<close>

theorem secrets_save_load:
  assumes "codec_ok c (passphrase st) [sdb st]" and "length nonce = NonceSize" and "secrets_ok (sdb st)"
    and "secrets_save c nonce SwOk st = (st1, None)"
  shows "\<exists>st2. NewSecretDatabase c (passphrase st) nonce SwOk 384 (sdb_file st1) = Inr st2 \<and>
    gm_get (sdb st2) = gm_get (sdb st)"
proof -
  from save_load [OF assms(1,2,4)] have l: "secrets_load c 384 (st1\<lparr>sdb := []\<rparr>) = (st1\<lparr>sdb := put_all (sdb st) []\<rparr>, None)" .
  have k: "aes_key (passphrase st)" using assms(1) by (simp add: codec_ok_def)
  with assms(4) obtain d where st1: "st1 = st\<lparr>sdb_file := Some d\<rparr>"
    by (auto simp: secrets_save_def saveToWriter_def Encrypt_def)
  then have e: "\<lparr>sdb = [], passphrase = passphrase st, sdb_file = sdb_file st1\<rparr> = st1\<lparr>sdb := []\<rparr>"
    by (cases st) simp
  have sv: "\<exists>f. secrets_save c nonce SwOk st' = (st'\<lparr>sdb_file := f\<rparr>, None)" if "passphrase st' = passphrase st" for st'
    using k that by (simp add: secrets_save_def saveToWriter_def Encrypt_def) blast
  from sv [of "st1\<lparr>sdb := put_all (sdb st) []\<rparr>"] obtain f where
    "secrets_save c nonce SwOk (st1\<lparr>sdb := put_all (sdb st) []\<rparr>) = (st1\<lparr>sdb := put_all (sdb st) [], sdb_file := f\<rparr>, None)"
    by (auto simp: st1)
  then show ?thesis
    unfolding NewSecretDatabase_def Let_def e
    using l put_all_copy [OF secrets_ok_gm [OF assms(3)]] by (simp add: st1)
qed

theorem secrets_save_load_witness:
  "\<exists>st2. NewSecretDatabase plain_codec (passphrase here_db) nonce0 SwOk 384
      (sdb_file (fst (secrets_save plain_codec nonce0 SwOk here_db))) = Inr st2 \<and>
    gm_get (sdb st2) ''FOO'' = Some (one_secret ''FOO'' ''1'' 5)"
proof -
  have 1: "codec_ok plain_codec (passphrase here_db) [sdb here_db]" using plain_codec_ok by (simp add: codec_ok_def)
  have 2: "length nonce0 = NonceSize" by (simp add: NonceSize_def)
  have 3: "secrets_ok (sdb here_db)" by (simp add: secrets_ok_def gm_ok_def here_db_def one_secret_def)
  have 4: "snd (secrets_save plain_codec nonce0 SwOk here_db) = None"
    by (simp add: secrets_save_def saveToWriter_def Encrypt_def aes_key_def here_db_def)
  have 5: "gm_get (sdb here_db) ''FOO'' = Some (one_secret ''FOO'' ''1'' 5)" by (simp add: here_db_def gm_get_def)
  from 4 obtain st1 where "secrets_save plain_codec nonce0 SwOk here_db = (st1, None)" by (metis prod.collapse)
  with secrets_save_load [OF 1 2 3 this] 5 show ?thesis by auto
qed

text \<open>When the disk fills up while the database is written, fewer bytes than a nonce may be left in the
  file; the next start then panics in \<open>Decrypt\<close> instead of reporting an error.\<close>

theorem secrets_short_file_panics:
  assumes "aes_key (passphrase st)" and "n < NonceSize"
    and "secrets_save c nonce (SwWriteFails e n) st = (st1, err)"
  shows "err = Some (SecIO e) \<and>
    NewSecretDatabase c (passphrase st) nonce' w 384 (sdb_file st1) = Inl ShortInputPanic"
  using assms
  by (auto simp: secrets_save_def saveToWriter_def Encrypt_def NewSecretDatabase_def secrets_load_def Decrypt_def Let_def)

theorem secrets_short_file_panics_witness:
  "NewSecretDatabase plain_codec (passphrase here_db) nonce0 SwOk 384
     (sdb_file (fst (secrets_save plain_codec nonce0 (SwWriteFails ''no space left on device'' 0) here_db)))
   = Inl ShortInputPanic"
proof -
  have "aes_key (passphrase here_db)" "0 < NonceSize" by (simp_all add: aes_key_def here_db_def NonceSize_def)
  from secrets_short_file_panics [OF this prod.collapse [symmetric]] show ?thesis by blast
qed

end
