(* ===== verification/Api_Keys.thy ===== *)
theory Api_Keys
  imports Go_Maps Go_Strings
begin

text \<open>
  API keys and their rights, \<open>cmd/mulchd/server/api_keys.go\<close>, and the authorisation of a
  request, \<open>routeHandleFunc\<close> of \<open>route_handler.go\<close> with \<open>IsAPIKeyAllowed\<close> of \<open>request.go\<close>.
  A key pointer is the field \<open>addr\<close>. The glob matcher and the SSH key parser (third-party
  packages) and the random generators are parameters. Go visits the headers of a right in an
  arbitrary order: \<open>ord n\<close> is the order of the \<open>n\<close>-th visit.
\<close>

record api_right =
  Method :: string
  Path :: string
  Headers :: "(string, string) gomap"

record ssh_fingerprint =
  fp_VMName :: string
  Fingerprint :: string
  AddedAt :: time

record api_key =
  addr :: nat
  Comment :: string
  Key :: string
  SSHPrivate :: string
  SSHPublic :: string
  Rights :: "api_right list"
  SSHAllowedFingerprints :: "ssh_fingerprint list"

record api_db =
  api_keys :: "api_key list"
  next_addr :: nat
  api_file :: "api_key list dbfile"

datatype api_error =
    DuplicatedComment string
  | KeyNotFound
  | AlreadyTrusted
  | FingerprintNotFound
  | NoFingerprints
  | NeedMethodAndPath
  | UnsupportedMethod string
  | InvalidPath string
  | IndexOutOfRangePanic
  | InvalidHeader string
  | InvalidHeaderName string
  | DuplicatedRight string
  | RightNotFound string
  | BadSSHKey string
  | ApiIO string
  | ApiWrongMode int
  | ApiDecode

definition apiKeyMinLength :: nat where "apiKeyMinLength = 64"

subsection \<open>The database\<close>

definition api_save :: "io_write \<Rightarrow> api_db \<Rightarrow> api_db \<times> api_error option" where
  "api_save w st =
     (let (f, e) = write_file w (api_keys st) (api_file st) in (st\<lparr>api_file := f\<rparr>, map_option ApiIO e))"

definition IsValidKey :: "api_db \<Rightarrow> string \<Rightarrow> api_key option" where
  "IsValidKey st key =
     (if length key < apiKeyMinLength then None else find (\<lambda>c. Key c = key) (api_keys st))"

definition keyExists :: "api_db \<Rightarrow> api_key \<Rightarrow> bool" where
  "keyExists st key = list_ex (\<lambda>c. addr c = addr key) (api_keys st)"

definition ListComments :: "api_db \<Rightarrow> string list" where
  "ListComments st = map Comment (api_keys st)"

definition ListEntries :: "api_db \<Rightarrow> (string \<times> nat \<times> nat) list" where
  "ListEntries st =
     map (\<lambda>k. (Comment k, length (Rights k), length (SSHAllowedFingerprints k))) (api_keys st)"

text \<open>\<open>pair\<close> is what \<open>MakeSSHKey\<close> returns, \<open>key\<close> what \<open>genKey\<close> draws.\<close>

definition AddNew ::
  "io_write \<Rightarrow> string + string \<times> string \<Rightarrow> string \<Rightarrow> string \<Rightarrow> api_db \<Rightarrow> api_db \<times> (api_error + api_key)" where
  "AddNew w pair key comment st =
     (if list_ex (\<lambda>k. Comment k = comment) (api_keys st) then (st, Inl (DuplicatedComment comment))
      else case pair of Inl e \<Rightarrow> (st, Inl (BadSSHKey e))
      | Inr (priv, pub) \<Rightarrow>
          let k = \<lparr>addr = next_addr st, Comment = comment, Key = key, SSHPrivate = priv, SSHPublic = pub,
                   Rights = [], SSHAllowedFingerprints = []\<rparr> in
          case api_save w (st\<lparr>api_keys := api_keys st @ [k], next_addr := next_addr st + 1\<rparr>) of
            (st1, Some e) \<Rightarrow> (st1, Inl e)
          | (st1, None) \<Rightarrow> (st1, Inr k))"

fun remove_first :: "('a \<Rightarrow> bool) \<Rightarrow> 'a list \<Rightarrow> 'a list option" where
  "remove_first P [] = None"
| "remove_first P (x # xs) =
     (if P x then Some xs else map_option ((#) x) (remove_first P xs))"

definition api_Delete :: "io_write \<Rightarrow> string \<Rightarrow> api_db \<Rightarrow> api_db \<times> api_error option" where
  "api_Delete w comment st =
     (case remove_first (\<lambda>k. Comment k = comment) (api_keys st) of
        None \<Rightarrow> (st, Some KeyNotFound)
      | Some ks \<Rightarrow> api_save w (st\<lparr>api_keys := ks\<rparr>))"

fun GetByPubKey :: "(string \<Rightarrow> string + string) \<Rightarrow> string \<Rightarrow> api_key list \<Rightarrow> api_error + api_key option" where
  "GetByPubKey parse pub [] = Inr None"
| "GetByPubKey parse pub (k # ks) =
     (case parse (SSHPublic k) of
        Inl e \<Rightarrow> Inl (BadSSHKey e)
      | Inr marshaled \<Rightarrow> if marshaled = pub then Inr (Some k) else GetByPubKey parse pub ks)"

definition GetByComment :: "api_db \<Rightarrow> string \<Rightarrow> api_key option" where
  "GetByComment st comment = find (\<lambda>k. Comment k = comment) (api_keys st)"

text \<open>Loading disables short keys and replaces RSA pairs; \<open>pairs\<close> are the new ones, in order.\<close>

fun migrate_keys :: "(string + string \<times> string) list \<Rightarrow> api_key list \<Rightarrow> api_error + api_key list" where
  "migrate_keys pairs [] = Inr []"
| "migrate_keys pairs (k # ks) =
     (if length (Key k) < apiKeyMinLength
      then map_sum id ((#) (k\<lparr>Key := ''INVALID''\<rparr>)) (migrate_keys pairs ks)
      else if has_prefix ''ssh-rsa'' (SSHPublic k) then
        (case pairs of
           Inr (priv, pub) # rest \<Rightarrow>
             map_sum id ((#) (k\<lparr>SSHPrivate := priv, SSHPublic := pub\<rparr>)) (migrate_keys rest ks)
         | Inl e # rest \<Rightarrow> Inl (BadSSHKey e)
         | [] \<Rightarrow> Inl (BadSSHKey []))
      else map_sum id ((#) k) (migrate_keys pairs ks))"

definition api_load ::
  "(string + string \<times> string) list \<Rightarrow> int \<Rightarrow> api_db \<Rightarrow> api_error + api_db" where
  "api_load pairs mode st =
     (case api_file st of
        NoFile \<Rightarrow> Inl (ApiIO ''open'')
      | Damaged \<Rightarrow> if mode \<noteq> 384 then Inl (ApiWrongMode mode) else Inl ApiDecode
      | Holds ks \<Rightarrow>
          if mode \<noteq> 384 then Inl (ApiWrongMode mode)
          else map_sum id (\<lambda>ks'. st\<lparr>api_keys := ks'\<rparr>) (migrate_keys pairs ks))"

definition NewAPIKeyDatabase ::
  "io_write \<Rightarrow> (string + string \<times> string) list \<Rightarrow> string \<Rightarrow> int \<Rightarrow> nat \<Rightarrow> api_key list dbfile \<Rightarrow> api_error + api_db" where
  "NewAPIKeyDatabase w pairs key mode fresh on_disk =
     (let st = \<lparr>api_keys = [], next_addr = fresh, api_file = on_disk\<rparr> in
      case (if on_disk \<noteq> NoFile then api_load pairs mode st
            else case AddNew w (case pairs of [] \<Rightarrow> Inl [] | p # _ \<Rightarrow> p) key ''default-key'' st of
                (st1, Inl e) \<Rightarrow> Inl e | (st1, Inr _) \<Rightarrow> Inr st1) of
        Inl e \<Rightarrow> Inl e
      | Inr st1 \<Rightarrow> (case api_save w st1 of (st2, Some e) \<Rightarrow> Inl e | (st2, None) \<Rightarrow> Inr st2))"

subsection \<open>Trusted fingerprints\<close>

text \<open>The object behind a key pointer, also when the key left the list meanwhile.\<close>

definition deref :: "api_db \<Rightarrow> api_key \<Rightarrow> api_key" where
  "deref st key = (case find (\<lambda>c. addr c = addr key) (api_keys st) of Some c \<Rightarrow> c | None \<Rightarrow> key)"

definition update_key :: "api_key \<Rightarrow> api_db \<Rightarrow> api_db" where
  "update_key k st = st\<lparr>api_keys := map (\<lambda>c. if addr c = addr k then k else c) (api_keys st)\<rparr>"

definition same_fp :: "ssh_fingerprint \<Rightarrow> ssh_fingerprint \<Rightarrow> bool" where
  "same_fp f g \<longleftrightarrow> fp_VMName f = fp_VMName g \<and> Fingerprint f = Fingerprint g"

definition IsTrustedFingerprint :: "api_key \<Rightarrow> ssh_fingerprint \<Rightarrow> bool" where
  "IsTrustedFingerprint key fp = list_ex (\<lambda>v. same_fp v fp) (SSHAllowedFingerprints key)"

definition IsTrustedVM :: "api_key \<Rightarrow> string \<Rightarrow> bool" where
  "IsTrustedVM key vmName = list_ex (\<lambda>fp. fp_VMName fp = vmName) (SSHAllowedFingerprints key)"

definition AllowSSHFingerprint ::
  "io_write \<Rightarrow> time \<Rightarrow> api_key \<Rightarrow> ssh_fingerprint \<Rightarrow> api_db \<Rightarrow> api_db \<times> api_error option" where
  "AllowSSHFingerprint w now key fp st =
     (if \<not> keyExists st key then (st, Some KeyNotFound)
      else let k = deref st key in
        if IsTrustedFingerprint k fp then (st, Some AlreadyTrusted)
        else api_save w (update_key
               (k\<lparr>SSHAllowedFingerprints := SSHAllowedFingerprints k @ [fp\<lparr>AddedAt := now\<rparr>]\<rparr>) st))"

definition RemoveSSHFingerprint ::
  "io_write \<Rightarrow> api_key \<Rightarrow> ssh_fingerprint \<Rightarrow> api_db \<Rightarrow> api_db \<times> api_error option" where
  "RemoveSSHFingerprint w key fp st =
     (if \<not> keyExists st key then (st, Some KeyNotFound)
      else let k = deref st key in
        case remove_first (\<lambda>f. same_fp f fp) (SSHAllowedFingerprints k) of
          None \<Rightarrow> (st, Some FingerprintNotFound)
        | Some fps \<Rightarrow> api_save w (update_key (k\<lparr>SSHAllowedFingerprints := fps\<rparr>) st))"

definition RemoveAllSSHFingerprint ::
  "io_write \<Rightarrow> api_key \<Rightarrow> string \<Rightarrow> api_db \<Rightarrow> api_db \<times> api_error option" where
  "RemoveAllSSHFingerprint w key vmName st =
     (let k = deref st key in
      if \<not> IsTrustedVM k vmName then (st, Some NoFingerprints)
      else api_save w (update_key
             (k\<lparr>SSHAllowedFingerprints := filter (\<lambda>f. fp_VMName f \<noteq> vmName) (SSHAllowedFingerprints k)\<rparr>) st))"

subsection \<open>Rights\<close>

text \<open>\<open>form\<close> is the request's form, \<open>None\<close> when no request was given.\<close>

fun headers_ok :: "(string \<Rightarrow> string \<Rightarrow> bool) \<Rightarrow> (string \<Rightarrow> string) \<Rightarrow> (string \<times> string) list \<Rightarrow> bool" where
  "headers_ok glob form [] = True"
| "headers_ok glob form ((name, expr) # hs) = (if \<not> glob expr (form name) then False else headers_ok glob form hs)"

fun some_right_allows ::
  "(string \<Rightarrow> string \<Rightarrow> bool) \<Rightarrow> string \<Rightarrow> string \<Rightarrow> (string \<Rightarrow> string) option \<Rightarrow> api_right list \<Rightarrow> bool" where
  "some_right_allows glob meth p req [] = False"
| "some_right_allows glob meth p req (r # rs) =
     (if \<not> glob (Method r) meth then some_right_allows glob meth p req rs
      else if \<not> glob (Path r) p then some_right_allows glob meth p req rs
      else case req of
          Some form \<Rightarrow> if headers_ok glob form (Headers r) then True else some_right_allows glob meth p req rs
        | None \<Rightarrow> if Headers r \<noteq> [] then some_right_allows glob meth p req rs else True)"

definition IsAllowed ::
  "(string \<Rightarrow> string \<Rightarrow> bool) \<Rightarrow> api_key \<Rightarrow> string \<Rightarrow> string \<Rightarrow> (string \<Rightarrow> string) option \<Rightarrow> bool" where
  "IsAllowed glob key meth p req =
     (if Rights key = [] then True else some_right_allows glob meth p req (Rights key))"

definition right_String :: "((string \<times> string) list \<Rightarrow> (string \<times> string) list) \<Rightarrow> api_right \<Rightarrow> string" where
  "right_String order right =
     (let headers = map (\<lambda>(h, v). h @ ''='' @ v) (order (Headers right))
      in Method right @ '' '' @ Path right @ (if headers = [] then [] else '' '' @ go_join '' '' headers))"

definition re_space :: "char \<Rightarrow> bool" where
  "re_space c \<longleftrightarrow> c \<in> {CHR '' '', CHR 0x09, CHR 0x0A, CHR 0x0C, CHR 0x0D}"

function collapse_spaces :: "string \<Rightarrow> string" where
  "collapse_spaces [] = []"
| "collapse_spaces (c # s) =
     (if re_space c then CHR '' '' # collapse_spaces (dropWhile re_space s) else c # collapse_spaces s)"
  by pat_completeness auto

termination
  by (relation "measure length") (auto simp: less_Suc_eq_le length_dropWhile_le)

definition clean_right :: "string \<Rightarrow> string" where
  "clean_right s = collapse_spaces (trim_space s)"

definition right_methods :: "string list" where
  "right_methods = [''GET'', ''POST'', ''PUT'', ''DELETE'', ''SSH'', ''CREATE'', ''*'']"

text \<open>\<open>len(path) < 1 || (path[0] != '/' && path[1] != '*')\<close>, where the second index may be out of range.\<close>

definition check_right_path :: "string \<Rightarrow> api_error option" where
  "check_right_path p =
     (if p = [] then Some (InvalidPath p)
      else if hd p = CHR ''/'' then None
      else if length p < 2 then Some IndexOutOfRangePanic
      else if p ! 1 \<noteq> CHR ''*'' then Some (InvalidPath p)
      else None)"

definition add_header :: "string \<Rightarrow> (string, string) gomap \<Rightarrow> api_error + (string, string) gomap" where
  "add_header header0 hs =
     (let header = trim_space header0; hParts = go_split ''='' header in
      if length hParts \<noteq> 2 then Inl (InvalidHeader header)
      else let name = trim_space (hParts ! 0); v = trim_space (hParts ! 1) in
        if name = [] then Inl (InvalidHeaderName header) else Inr (gm_put name v hs))"

definition ParseRight :: "string \<Rightarrow> api_error + api_right" where
  "ParseRight rightStr =
     (let parts = go_split '' '' (clean_right rightStr) in
      if length parts < 2 then Inl NeedMethodAndPath
      else let meth = to_upper (trim_space (parts ! 0)); p = trim_space (parts ! 1) in
        if meth \<notin> set right_methods then Inl (UnsupportedMethod meth)
        else case check_right_path p of Some e \<Rightarrow> Inl e
        | None \<Rightarrow>
            (case foldE add_header (drop 2 parts) [] of
               Inl e \<Rightarrow> Inl e
             | Inr hs \<Rightarrow> Inr \<lparr>Method = meth, Path = p, Headers = hs\<rparr>))"

definition AddNewRight ::
  "(nat \<Rightarrow> (string \<times> string) list \<Rightarrow> (string \<times> string) list) \<Rightarrow> string \<Rightarrow> api_key \<Rightarrow> api_key \<times> api_error option" where
  "AddNewRight ord rightStr key =
     (case ParseRight rightStr of
        Inl e \<Rightarrow> (key, Some e)
      | Inr right \<Rightarrow>
          let rs = right_String (ord 0) right in
          if list_ex (\<lambda>(n, r). right_String (ord n) r = rs) (enumerate 1 (Rights key))
          then (key, Some (DuplicatedRight rs))
          else (key\<lparr>Rights := Rights key @ [right]\<rparr>, None))"

fun remove_right ::
  "(nat \<Rightarrow> (string \<times> string) list \<Rightarrow> (string \<times> string) list) \<Rightarrow> nat \<Rightarrow> string \<Rightarrow> api_right list
    \<Rightarrow> api_right list option" where
  "remove_right ord n s [] = None"
| "remove_right ord n s (r # rs) =
     (if right_String (ord n) r = s then Some rs else map_option ((#) r) (remove_right ord (n + 1) s rs))"

definition RemoveRight ::
  "(nat \<Rightarrow> (string \<times> string) list \<Rightarrow> (string \<times> string) list) \<Rightarrow> string \<Rightarrow> api_key \<Rightarrow> api_key \<times> api_error option" where
  "RemoveRight ord rightStr key =
     (case remove_right ord 0 (clean_right rightStr) (Rights key) of
        None \<Rightarrow> (key, Some (RightNotFound (clean_right rightStr)))
      | Some rs \<Rightarrow> (key\<lparr>Rights := rs\<rparr>, None))"

subsection \<open>Authorising a request\<close>

datatype route_type = RouteCustom | RouteStream

record route =
  rt_method :: string
  rt_path :: string
  rt_type :: route_type
  Public :: bool
  NoProtoCheck :: bool

record http_request =
  rq_Method :: string
  rq_Path :: string
  rq_Header :: "string \<Rightarrow> string"
  rq_FormValue :: "string \<Rightarrow> string"

datatype route_result = RunHandler route string "api_key option" | HttpError int string

definition requestGetMulchParam :: "http_request \<Rightarrow> string \<Rightarrow> string" where
  "requestGetMulchParam r name =
     (let headerName = ''Mulch-'' @ (case name of [] \<Rightarrow> [] | c # cs \<Rightarrow> upper_char c # to_lower cs);
          val = rq_Header r headerName
      in if val = [] then rq_FormValue r name else val)"

definition IsAPIKeyAllowed :: "(string \<Rightarrow> string \<Rightarrow> bool) \<Rightarrow> api_key \<Rightarrow> http_request \<Rightarrow> bool" where
  "IsAPIKeyAllowed glob key r = IsAllowed glob key (rq_Method r) (rq_Path r) (Some (rq_FormValue r))"

definition routeHandleFunc ::
  "(string \<Rightarrow> string \<Rightarrow> bool) \<Rightarrow> int \<Rightarrow> api_db \<Rightarrow> route \<Rightarrow> http_request \<Rightarrow> route_result" where
  "routeHandleFunc glob ProtocolVersion st rt r =
     (if \<not> NoProtoCheck rt \<and>
         (case atoi (requestGetMulchParam r ''protocol'') of None \<Rightarrow> 0 | Some n \<Rightarrow> n) \<noteq> ProtocolVersion
      then HttpError 400 ''protocol mismatch''
      else let subPath = drop (length (rt_path rt)) (rq_Path r) in
        if Public rt then RunHandler rt subPath None
        else case IsValidKey st (requestGetMulchParam r ''key'') of
            None \<Rightarrow> HttpError 403 ''invalid key''
          | Some key \<Rightarrow>
              if \<not> IsAPIKeyAllowed glob key r then HttpError 403 ''permission denied (rights)''
              else RunHandler rt subPath (Some key))"

text \<open>The handler the muxer registered for a path: the last route with the request's method.\<close>

definition routesHandle ::
  "(string \<Rightarrow> string \<Rightarrow> bool) \<Rightarrow> int \<Rightarrow> api_db \<Rightarrow> route list \<Rightarrow> http_request \<Rightarrow> route_result" where
  "routesHandle glob ProtocolVersion st routes r =
     (case fold (\<lambda>rt valid. if rt_method rt = rq_Method r then Some rt else valid) routes None of
        None \<Rightarrow> HttpError 405 ''method not allowed''
      | Some rt \<Rightarrow> routeHandleFunc glob ProtocolVersion st rt r)"

datatype route_error = RouteNotSet | InvalidRoute string | UnsupportedRouteMethod string | InvalidRoutePath

definition AddRoute ::
  "string \<Rightarrow> route \<Rightarrow> (string, route list) gomap \<Rightarrow> route_error + (string, route list) gomap" where
  "AddRoute spec rt routes =
     (if spec = [] then Inl RouteNotSet
      else let parts = go_split '' '' spec in
        if length parts \<noteq> 2 then Inl (InvalidRoute spec)
        else if parts ! 0 \<notin> {''GET'', ''PUT'', ''POST'', ''DELETE'', ''OPTIONS'', ''HEAD''}
        then Inl (UnsupportedRouteMethod (parts ! 0))
        else let p = trim_right (\<lambda>c. c = CHR ''*'') (parts ! 1) in
          if p = [] then Inl InvalidRoutePath
          else Inr (gm_put p ((case gm_get routes p of None \<Rightarrow> [] | Some rs \<Rightarrow> rs)
                 @ [rt\<lparr>rt_method := parts ! 0, rt_path := p\<rparr>]) routes))"

subsection \<open>A database keyed by comment\<close>

type_synonym key_body = "string \<times> string \<times> string"

definition key_body :: "api_key \<Rightarrow> key_body" where
  "key_body k = (Key k, SSHPrivate k, SSHPublic k)"

definition look_key :: "api_db \<Rightarrow> string \<Rightarrow> key_body option" where
  "look_key st comment = map_option key_body (GetByComment st comment)"

definition add_key :: "string \<Rightarrow> key_body \<Rightarrow> api_db \<Rightarrow> api_db \<times> api_error option" where
  "add_key comment body st =
     (case body of (key, pair) \<Rightarrow>
        (case AddNew WriteOk (Inr pair) key comment st of
           (st1, Inl e) \<Rightarrow> (st1, Some e) | (st1, Inr _) \<Rightarrow> (st1, None)))"

definition api_ok :: "api_db \<Rightarrow> bool" where
  "api_ok st \<longleftrightarrow> distinct (map Comment (api_keys st))"

lemma api_save_WriteOk: "api_save WriteOk st = (st\<lparr>api_file := Holds (api_keys st)\<rparr>, None)"
  by (simp add: api_save_def)

lemma api_save_keys: "api_save w st = (st', e) \<Longrightarrow> api_keys st' = api_keys st \<and> next_addr st' = next_addr st"
  by (auto simp: api_save_def split: prod.splits)

lemma remove_first_None: "remove_first P xs = None \<longleftrightarrow> (\<forall>x\<in>set xs. \<not> P x)"
  by (induction xs) auto

lemma remove_first_comment:
  assumes "distinct (map Comment ks)" and "remove_first (\<lambda>k. Comment k = c) ks = Some ks'"
  shows "distinct (map Comment ks')" and "set (map Comment ks') \<subseteq> set (map Comment ks)"
    and "find (\<lambda>k. Comment k = d) ks' = (if d = c then None else find (\<lambda>k. Comment k = d) ks)"
proof -
  have "distinct (map Comment ks') \<and> set (map Comment ks') \<subseteq> set (map Comment ks) \<and>
    find (\<lambda>k. Comment k = d) ks' = (if d = c then None else find (\<lambda>k. Comment k = d) ks)"
    using assms
  proof (induction ks arbitrary: ks')
    case (Cons k ks)
    show ?case
    proof (cases "Comment k = c")
      case True
      with Cons.prems have "ks' = ks" "c \<notin> Comment ` set ks" by auto
      then show ?thesis using Cons.prems(1) True by (auto simp: find_None_iff image_iff)
    next
      case False
      with Cons.prems obtain ks'' where 1: "remove_first (\<lambda>k. Comment k = c) ks = Some ks''" "ks' = k # ks''" by auto
      from Cons.IH [OF _ 1(1)] Cons.prems(1) 1(2) False show ?thesis by auto
    qed
  qed simp
  then show "distinct (map Comment ks')" "set (map Comment ks') \<subseteq> set (map Comment ks)"
    "find (\<lambda>k. Comment k = d) ks' = (if d = c then None else find (\<lambda>k. Comment k = d) ks)" by auto
qed

interpretation apikeys: keyed_db look_key add_key "api_Delete WriteOk" api_ok
proof
  fix st :: api_db and c :: string and v :: key_body
  assume ok: "api_ok st"
  obtain key priv pub where v: "v = (key, priv, pub)" by (cases v)
  note defs = add_key_def AddNew_def api_save_WriteOk look_key_def GetByComment_def Let_def
  show "look_key (fst (add_key c v st)) = (look_key st)(c \<mapsto> v) \<and> snd (add_key c v st) = None"
    if "look_key st c = None"
  proof -
    from that have f: "find (\<lambda>k. Comment k = c) (api_keys st) = None" by (simp add: look_key_def GetByComment_def)
    then have "\<not> list_ex (\<lambda>k. Comment k = c) (api_keys st)" by (auto simp: find_None_iff list_ex_iff)
    with f show ?thesis
      by (simp add: defs v fun_eq_iff find_append key_body_def split: option.split)
  qed
  show "fst (add_key c v st) = st \<and> snd (add_key c v st) \<noteq> None" if "look_key st c \<noteq> None"
    using that by (auto simp: defs v find_None_iff list_ex_iff)
  show "look_key (fst (api_Delete WriteOk c st)) = (look_key st)(c := None) \<and> snd (api_Delete WriteOk c st) = None"
    if "look_key st c \<noteq> None"
  proof -
    from that have "remove_first (\<lambda>k. Comment k = c) (api_keys st) \<noteq> None"
      by (auto simp: remove_first_None look_key_def GetByComment_def find_None_iff)
    then obtain ks where "remove_first (\<lambda>k. Comment k = c) (api_keys st) = Some ks" by auto
    with remove_first_comment(3) [OF ok [unfolded api_ok_def] this] show ?thesis
      by (auto simp: api_Delete_def defs fun_eq_iff)
  qed
  show "fst (api_Delete WriteOk c st) = st \<and> snd (api_Delete WriteOk c st) \<noteq> None" if "look_key st c = None"
    using that remove_first_None [of "\<lambda>k. Comment k = c" "api_keys st"]
    by (auto simp: api_Delete_def look_key_def GetByComment_def find_None_iff split: option.splits)
  show "api_ok (fst (add_key c v st))"
    using ok by (auto simp: defs v api_ok_def list_ex_iff)
  show "api_ok (fst (api_Delete WriteOk c st))"
    using ok remove_first_comment(1) [OF ok [unfolded api_ok_def]]
    by (auto simp: api_Delete_def defs api_ok_def split: option.splits)
qed

end
