(* ===== verification/Api_Props.thy ===== *)
theory Api_Props
  imports Api_Keys "HOL-Library.Multiset"
begin

text \<open>Who gets through: the properties of the API keys and of the authorisation of requests.\<close>

subsection \<open>Rights as a condition\<close>

definition right_covers ::
  "(string \<Rightarrow> string \<Rightarrow> bool) \<Rightarrow> string \<Rightarrow> string \<Rightarrow> (string \<Rightarrow> string) \<Rightarrow> api_right \<Rightarrow> bool" where
  "right_covers glob meth p form r \<longleftrightarrow>
     glob (Method r) meth \<and> glob (Path r) p \<and> (\<forall>(n, e)\<in>set (Headers r). glob e (form n))"

lemma headers_ok_iff: "headers_ok glob form hs \<longleftrightarrow> (\<forall>(n, e)\<in>set hs. glob e (form n))"
  by (induction hs) (auto split: if_splits)

lemma some_right_allows_iff:
  "some_right_allows glob meth p (Some form) rs \<longleftrightarrow> (\<exists>r\<in>set rs. right_covers glob meth p form r)"
  by (induction rs) (auto simp: right_covers_def headers_ok_iff)

lemma IsAllowed_iff:
  "IsAllowed glob key meth p (Some form) \<longleftrightarrow>
     Rights key = [] \<or> (\<exists>r\<in>set (Rights key). right_covers glob meth p form r)"
  by (simp add: IsAllowed_def some_right_allows_iff)

lemma last_matching:
  assumes "fold (\<lambda>rt valid. if P rt then Some rt else valid) rts v = Some r" and "v \<noteq> Some r"
  shows "r \<in> set rts \<and> P r"
  using assms by (induction rts arbitrary: v) (auto split: if_splits)

subsection \<open>A concrete key\<close>

definition simple_glob :: "string \<Rightarrow> string \<Rightarrow> bool" where
  "simple_glob p s \<longleftrightarrow> p = ''*'' \<or> p = s"

definition long_key :: string where "long_key = replicate 64 (CHR ''k'')"

definition vm_right :: api_right where
  "vm_right = \<lparr>Method = ''GET'', Path = ''/vm'', Headers = []\<rparr>"

definition limited_key :: api_key where
  "limited_key = \<lparr>addr = 0, Comment = ''bob'', Key = long_key, SSHPrivate = [], SSHPublic = [],
     Rights = [vm_right], SSHAllowedFingerprints = []\<rparr>"

definition key_db :: api_db where
  "key_db = \<lparr>api_keys = [limited_key], next_addr = 1, api_file = NoFile\<rparr>"

definition vm_route :: route where
  "vm_route = \<lparr>rt_method = ''GET'', rt_path = ''/vm'', rt_type = RouteCustom, Public = False, NoProtoCheck = False\<rparr>"

definition vm_request :: http_request where
  "vm_request = \<lparr>rq_Method = ''GET'', rq_Path = ''/vm'', rq_Header = (\<lambda>_. []),
     rq_FormValue = (\<lambda>n. if n = ''protocol'' then ''1'' else if n = ''key'' then long_key else [])\<rparr>"

lemmas key_defs = long_key_def vm_right_def limited_key_def key_db_def vm_route_def vm_request_def

subsection \<open>Properties\<close>

text \<open>C6. The handler of a route that is not public only runs for a request that presents a key of the
  database of at least 64 characters, and that key either has no rights list at all or has a right whose
  method, path and every header match the request.\<close>

theorem handler_needs_key:
  assumes "routesHandle glob pv st routes r = RunHandler rt sub k"
  shows "rt \<in> set routes \<and> rt_method rt = rq_Method r \<and>
    (if Public rt then k = None
     else \<exists>key\<in>set (api_keys st). k = Some key \<and> Key key = requestGetMulchParam r ''key'' \<and>
       64 \<le> length (Key key) \<and>
       (Rights key = [] \<or>
        (\<exists>right\<in>set (Rights key). right_covers glob (rq_Method r) (rq_Path r) (rq_FormValue r) right)))"
proof -
  from assms obtain rt' where
    f: "fold (\<lambda>rt valid. if rt_method rt = rq_Method r then Some rt else valid) routes None = Some rt'"
    and h: "routeHandleFunc glob pv st rt' r = RunHandler rt sub k"
    by (auto simp: routesHandle_def split: option.splits)
  from h have "rt' = rt" by (auto simp: routeHandleFunc_def Let_def split: if_splits option.splits)
  with last_matching [OF f] have 1: "rt \<in> set routes" "rt_method rt = rq_Method r" by auto
  show ?thesis
  proof (cases "Public rt")
    case True
    with h 1 \<open>rt' = rt\<close> show ?thesis by (auto simp: routeHandleFunc_def Let_def split: if_splits)
  next
    case False
    with h \<open>rt' = rt\<close> obtain key where k: "IsValidKey st (requestGetMulchParam r ''key'') = Some key"
      "IsAPIKeyAllowed glob key r" "k = Some key"
      by (auto simp: routeHandleFunc_def Let_def split: if_splits option.splits)
    from k(1) have "key \<in> set (api_keys st)" "Key key = requestGetMulchParam r ''key''" "64 \<le> length (Key key)"
      by (auto simp: IsValidKey_def apiKeyMinLength_def split: if_splits dest: find_Some_hit)
    with False 1 k(2,3) show ?thesis by (auto simp: IsAPIKeyAllowed_def IsAllowed_iff)
  qed
qed

theorem handler_needs_key_witness:
  "\<exists>right\<in>set (Rights limited_key). right_covers simple_glob ''GET'' ''/vm'' (rq_FormValue vm_request) right"
proof -
  have "routesHandle simple_glob 1 key_db [vm_route] vm_request = RunHandler vm_route [] (Some limited_key)"
    by (simp add: routesHandle_def routeHandleFunc_def IsValidKey_def apiKeyMinLength_def requestGetMulchParam_def
        IsAPIKeyAllowed_def IsAllowed_def simple_glob_def key_defs go_eval)
  from handler_needs_key [OF this] show ?thesis
    by (simp add: key_defs)
qed

text \<open>With a disk that can be written, creating and deleting API keys behaves like a partial function
  from comments to keys: any sequence of the two operations leaves the same keys and reports the same
  successes and errors.\<close>

theorem api_keys_run_refines:
  assumes "api_ok st"
  shows "spec_run ops (look_key st) =
      (look_key (fst (db_run add_key (api_Delete WriteOk) ops st)), snd (db_run add_key (api_Delete WriteOk) ops st))
    \<and> api_ok (fst (db_run add_key (api_Delete WriteOk) ops st))"
  using assms by (rule apikeys.run_refines)

theorem api_keys_run_refines_witness:
  "snd (db_run add_key (api_Delete WriteOk) [DbAdd ''bob'' (long_key, [], []), DbRemove ''bob'', DbRemove ''bob''] key_db)
     = [False, True, False]"
proof -
  let ?ops = "[DbAdd ''bob'' (long_key, [], []), DbRemove ''bob'', DbRemove ''bob'']"
  have "api_ok key_db" by (simp add: api_ok_def key_db_def)
  note run = api_keys_run_refines [OF this, of ?ops, THEN conjunct1]
  have "look_key key_db ''bob'' \<noteq> None" by (simp add: look_key_def GetByComment_def key_db_def limited_key_def)
  then have "snd (spec_run ?ops (look_key key_db)) = [False, True, False]" by (simp del: not_None_eq)
  then show ?thesis unfolding run snd_conv .
qed

text \<open>Removing the only right of a key lifts every restriction: the key may then do anything.\<close>

theorem last_right_removed_allows_all:
  assumes "RemoveRight ord s key = (key', None)" and "length (Rights key) = 1"
  shows "IsAllowed glob key' meth p req"
  using assms by (cases "Rights key") (auto simp: RemoveRight_def IsAllowed_def split: option.splits if_splits)

theorem last_right_removed_allows_all_witness:
  "IsAllowed simple_glob (fst (RemoveRight (\<lambda>_ hs. hs) ''GET /vm'' limited_key)) ''DELETE'' ''/key'' None"
proof -
  have "snd (RemoveRight (\<lambda>_ hs. hs) ''GET /vm'' limited_key) = None"
    by (simp add: RemoveRight_def clean_right_def key_defs right_String_def re_space_def go_eval)
  then have "RemoveRight (\<lambda>_ hs. hs) ''GET /vm'' limited_key =
      (fst (RemoveRight (\<lambda>_ hs. hs) ''GET /vm'' limited_key), None)" by (metis prod.collapse)
  from last_right_removed_allows_all [OF this] show ?thesis by (simp add: limited_key_def)
qed

text \<open>What \<open>AddNewRight\<close> parses has a known method and a path that starts with a slash or whose second
  character is a star.\<close>

theorem ParseRight_checked:
  assumes "ParseRight s = Inr right"
  shows "Method right \<in> set right_methods \<and> Path right \<noteq> [] \<and>
    (hd (Path right) = CHR ''/'' \<or> Path right ! 1 = CHR ''*'')"
proof -
  have p: "p \<noteq> [] \<and> (hd p = CHR ''/'' \<or> p ! 1 = CHR ''*'')" if "check_right_path p = None" for p
    using that by (simp add: check_right_path_def split: if_splits)
  from assms have "Method right \<in> set right_methods \<and> check_right_path (Path right) = None"
    by (auto simp only: ParseRight_def Let_def sum.inject api_right.simps split: if_splits option.splits sum.splits)
  with p [of "Path right"] show ?thesis by simp
qed

theorem ParseRight_checked_witness:
  "\<exists>right. ParseRight '' get   /vm/*  action=stop'' = Inr right \<and> Method right \<in> set right_methods \<and>
     Headers right = [(''action'', ''stop'')]"
proof -
  have e: "ParseRight '' get   /vm/*  action=stop'' =
      Inr \<lparr>Method = ''GET'', Path = ''/vm/*'', Headers = [(''action'', ''stop'')]\<rparr>"
    by (simp add: ParseRight_def check_right_path_def add_header_def gm_put_def clean_right_def re_space_def
        right_methods_def go_eval)
  from ParseRight_checked [OF e] e show ?thesis by simp
qed

text \<open>For the path \<open>*\<close> alone the check of the path panics, and a path like \<open>x*\<close> is accepted.\<close>

theorem AddNewRight_star_panics:
  "AddNewRight ord ''GET *'' key = (key, Some IndexOutOfRangePanic) \<and>
   ParseRight ''GET x*'' = Inr \<lparr>Method = ''GET'', Path = ''x*'', Headers = []\<rparr>"
  by (simp add: AddNewRight_def ParseRight_def check_right_path_def clean_right_def re_space_def right_methods_def go_eval)

text \<open>A right with two headers may be listed in another order than it was written: when Go visits the
  headers the other way round, removing the right by the text it was created with fails.\<close>

theorem RemoveRight_depends_on_order:
  "\<exists>ord. (\<forall>n hs. mset (ord n hs) = mset hs) \<and>
    snd (RemoveRight ord ''GET /vm a=1 b=2''
      (fst (AddNewRight ord ''GET /vm a=1 b=2'' (limited_key\<lparr>Rights := []\<rparr>)))) \<noteq> None"
proof (intro exI conjI)
  show "\<forall>n hs. mset ((\<lambda>_. rev) n hs) = mset hs" by simp
  show "snd (RemoveRight (\<lambda>_. rev) ''GET /vm a=1 b=2''
      (fst (AddNewRight (\<lambda>_. rev) ''GET /vm a=1 b=2'' (limited_key\<lparr>Rights := []\<rparr>)))) \<noteq> None"
    by (simp add: AddNewRight_def ParseRight_def check_right_path_def add_header_def clean_right_def re_space_def
        right_methods_def RemoveRight_def right_String_def gm_put_def limited_key_def go_eval)
qed

end
