(* ===== verification/Backups.thy ===== *)
theory Backups
  imports Vm_Database
begin

text \<open>
  The other databases of the server: backups (\<open>backup_database.go\<close>, \<open>backup.go\<close>), SSH key pairs
  (\<open>sshpair_database.go\<close>), the running state of the VMs (\<open>vmstate_database.go\<close>) and the list of
  operations (\<open>operations.go\<close>).
\<close>

datatype db_error =
    DbNotFound string
  | DbExists string
  | DbFile string
  | DbWrongMode int
  | DbDecode
  | VolumeLookup string
  | VolumeDelete string
  | PairError string
  | StateUnknown string

definition read_map :: "int \<Rightarrow> (string, 'v) gomap dbfile \<Rightarrow> db_error + (string, 'v) gomap" where
  "read_map mode f =
     (case f of
        NoFile \<Rightarrow> Inl (DbFile ''open'')
      | Damaged \<Rightarrow> Inl (if mode \<noteq> 384 then DbWrongMode mode else DbDecode)
      | Holds m \<Rightarrow> if mode \<noteq> 384 then Inl (DbWrongMode mode) else Inr (put_all m []))"

subsection \<open>Backups\<close>

record backup =
  DiskName :: string
  Created :: time
  Expire :: time
  bk_AuthorKey :: string
  bk_VM :: vm

record backup_db =
  bdb :: "(string, backup) gomap"
  bdb_file :: "(string, backup) gomap dbfile"

definition bdb_save :: "io_write \<Rightarrow> backup_db \<Rightarrow> backup_db \<times> db_error option" where
  "bdb_save w st = (let (f, e) = write_file w (bdb st) (bdb_file st) in (st\<lparr>bdb_file := f\<rparr>, map_option DbFile e))"

definition bdb_load :: "int \<Rightarrow> backup_db \<Rightarrow> db_error + backup_db" where
  "bdb_load mode st = map_sum id (\<lambda>m. st\<lparr>bdb := m\<rparr>) (read_map mode (bdb_file st))"

definition NewBackupDatabase ::
  "io_write \<Rightarrow> int \<Rightarrow> (string, backup) gomap dbfile \<Rightarrow> db_error + backup_db" where
  "NewBackupDatabase w mode on_disk =
     (let st = \<lparr>bdb = [], bdb_file = on_disk\<rparr> in
      case (if on_disk = NoFile then Inr st else bdb_load mode st) of
        Inl e \<Rightarrow> Inl e
      | Inr st1 \<Rightarrow> (case bdb_save w st1 of (st2, Some e) \<Rightarrow> Inl e | (st2, None) \<Rightarrow> Inr st2))"

definition bdb_Add :: "io_write \<Rightarrow> backup \<Rightarrow> backup_db \<Rightarrow> backup_db \<times> db_error option" where
  "bdb_Add w b st =
     (if gm_get (bdb st) (DiskName b) \<noteq> None then (st, Some (DbExists (DiskName b)))
      else bdb_save w (st\<lparr>bdb := gm_put (DiskName b) b (bdb st)\<rparr>))"

definition bdb_Delete :: "io_write \<Rightarrow> string \<Rightarrow> backup_db \<Rightarrow> backup_db \<times> db_error option" where
  "bdb_Delete w name st =
     (if gm_get (bdb st) name = None then (st, Some (DbNotFound name))
      else bdb_save w (st\<lparr>bdb := gm_del name (bdb st)\<rparr>))"

definition bdb_GetNames :: "backup_db \<Rightarrow> string list" where "bdb_GetNames st = gm_keys (bdb st)"
definition bdb_GetByName :: "backup_db \<Rightarrow> string \<Rightarrow> backup option" where "bdb_GetByName st = gm_get (bdb st)"
definition bdb_Count :: "backup_db \<Rightarrow> nat" where "bdb_Count st = length (bdb st)"

definition bdb_Expire :: "string \<Rightarrow> time \<Rightarrow> backup_db \<Rightarrow> backup_db \<times> db_error option" where
  "bdb_Expire name expire st =
     (case gm_get (bdb st) name of
        None \<Rightarrow> (st, Some (DbNotFound name))
      | Some b \<Rightarrow> (st\<lparr>bdb := gm_put name (b\<lparr>Expire := expire\<rparr>) (bdb st)\<rparr>, None))"

text \<open>The storage pool of the backups: its volumes, and the volumes libvirt fails to delete.\<close>

record pool =
  volumes :: "string list"
  stuck :: "string list"

definition BackupDelete ::
  "io_write \<Rightarrow> string \<Rightarrow> pool \<times> backup_db \<Rightarrow> (pool \<times> backup_db) \<times> db_error option" where
  "BackupDelete w backupName s =
     (case s of (p, st) \<Rightarrow>
      if bdb_GetByName st backupName = None then (s, Some (DbNotFound backupName))
      else if backupName \<notin> set (volumes p) then (s, Some (VolumeLookup backupName))
      else if backupName \<in> set (stuck p) then (s, Some (VolumeDelete backupName))
      else (let (st1, e) = bdb_Delete w backupName st
            in ((p\<lparr>volumes := removeAll backupName (volumes p)\<rparr>, st1), e)))"

definition expired_names :: "time \<Rightarrow> backup_db \<Rightarrow> string list" where
  "expired_names now st =
     map DiskName (filter (\<lambda>b. Expire b \<noteq> zero_time \<and> Expire b < now) (gm_vals (bdb st)))"

definition deleteExpired :: "io_write \<Rightarrow> time \<Rightarrow> pool \<times> backup_db \<Rightarrow> pool \<times> backup_db" where
  "deleteExpired w now s = fold (\<lambda>name s. fst (BackupDelete w name s)) (expired_names now (snd s)) s"

subsection \<open>SSH key pairs\<close>

record ssh_pair =
  pair_Name :: string
  Private :: string
  pair_Public :: string

record pair_db =
  pdb :: "(string, ssh_pair) gomap"
  pdb_file :: "(string, ssh_pair) gomap dbfile"

definition pdb_Save :: "io_write \<Rightarrow> pair_db \<Rightarrow> pair_db \<times> db_error option" where
  "pdb_Save w st = (let (f, e) = write_file w (pdb st) (pdb_file st) in (st\<lparr>pdb_file := f\<rparr>, map_option DbFile e))"

definition pdb_load :: "int \<Rightarrow> pair_db \<Rightarrow> db_error + pair_db" where
  "pdb_load mode st = map_sum id (\<lambda>m. st\<lparr>pdb := m\<rparr>) (read_map mode (pdb_file st))"

definition NewSSHPairDatabase ::
  "io_write \<Rightarrow> int \<Rightarrow> (string, ssh_pair) gomap dbfile \<Rightarrow> db_error + pair_db" where
  "NewSSHPairDatabase w mode on_disk =
     (let st = \<lparr>pdb = [], pdb_file = on_disk\<rparr> in
      case (if on_disk = NoFile then Inr st else pdb_load mode st) of
        Inl e \<Rightarrow> Inl e
      | Inr st1 \<Rightarrow> (case pdb_Save w st1 of (st2, Some e) \<Rightarrow> Inl e | (st2, None) \<Rightarrow> Inr st2))"

definition pdb_AddNew :: "io_write \<Rightarrow> string + string \<times> string \<Rightarrow> string \<Rightarrow> pair_db \<Rightarrow> pair_db \<times> db_error option" where
  "pdb_AddNew w pair name st =
     (if gm_get (pdb st) name \<noteq> None then (st, Some (DbExists name))
      else case pair of
          Inl e \<Rightarrow> (st, Some (PairError e))
        | Inr (priv, pub) \<Rightarrow>
            pdb_Save w (st\<lparr>pdb := gm_put name \<lparr>pair_Name = name, Private = priv, pair_Public = pub\<rparr> (pdb st)\<rparr>))"

definition pdb_GetByName :: "pair_db \<Rightarrow> string \<Rightarrow> ssh_pair option" where "pdb_GetByName st = gm_get (pdb st)"
definition pdb_Count :: "pair_db \<Rightarrow> nat" where "pdb_Count st = length (pdb st)"

text \<open>The parser of private keys (a third-party package) is a parameter.\<close>

definition GetPublicKeyAuth :: "(string \<Rightarrow> 'k option) \<Rightarrow> string \<Rightarrow> pair_db \<Rightarrow> db_error + 'k" where
  "GetPublicKeyAuth ParsePrivateKey name st =
     (case pdb_GetByName st name of None \<Rightarrow> Inl (DbNotFound name)
      | Some p \<Rightarrow> (case ParsePrivateKey (Private p) of None \<Rightarrow> Inl (PairError name) | Some k \<Rightarrow> Inr k))"

subsection \<open>States of the VMs\<close>

definition VMStateUp :: string where "VMStateUp = ''up''"
definition VMStateDown :: string where "VMStateDown = ''down''"

record state_db =
  states :: "(string, string) gomap"
  states_file :: "(string, string) gomap dbfile"
  restored :: bool
  cycles :: nat

definition states_save :: "io_write \<Rightarrow> state_db \<Rightarrow> state_db \<times> db_error option" where
  "states_save w st =
     (let (f, e) = write_file w (states st) (states_file st) in (st\<lparr>states_file := f\<rparr>, map_option DbFile e))"

text \<open>This file has no mode to check.\<close>

definition states_load :: "state_db \<Rightarrow> db_error + state_db" where
  "states_load st =
     (case states_file st of
        NoFile \<Rightarrow> Inl (DbFile ''open'')
      | Damaged \<Rightarrow> Inl DbDecode
      | Holds m \<Rightarrow> Inr (st\<lparr>states := put_all m (states st)\<rparr>))"

definition NewVMStateDatabase :: "io_write \<Rightarrow> (string, string) gomap dbfile \<Rightarrow> db_error + state_db" where
  "NewVMStateDatabase w on_disk =
     (let st = \<lparr>states = [], states_file = on_disk, restored = False, cycles = 0\<rparr> in
      case (if on_disk = NoFile then Inr st else states_load st) of
        Inl e \<Rightarrow> Inl e
      | Inr st1 \<Rightarrow> (case states_save w st1 of (st2, Some e) \<Rightarrow> Inl e | (st2, None) \<Rightarrow> Inr st2))"

text \<open>\<open>reflect.DeepEqual\<close> on two maps.\<close>

definition same_map :: "(string, string) gomap \<Rightarrow> (string, string) gomap \<Rightarrow> bool" where
  "same_map m n \<longleftrightarrow> length m = length n \<and> list_all (\<lambda>(k, v). gm_get n k = Some v) m"

text \<open>\<open>running\<close> is the answer of \<open>VMIsRunning\<close>: whether libvirt runs the domain, or an error.\<close>

definition current_states ::
  "(vm_name \<Rightarrow> string + bool) \<Rightarrow> vm_name list \<Rightarrow> db_error + (string, string) gomap" where
  "current_states running names =
     foldE (\<lambda>vmName m.
         case running vmName of
           Inl e \<Rightarrow> Inl (StateUnknown e)
         | Inr up \<Rightarrow> Inr (gm_put (vn_ID vmName) (if up then VMStateUp else VMStateDown) m)) names []"

definition states_Update ::
  "io_write \<Rightarrow> (vm_name \<Rightarrow> string + bool) \<Rightarrow> vmdb \<Rightarrow> state_db \<Rightarrow> state_db \<times> db_error option" where
  "states_Update w running vms st0 =
     (let st = st0\<lparr>cycles := (cycles st0 + 1) mod 2 ^ 64\<rparr> in
      case current_states running (GetNames vms) of
        Inl e \<Rightarrow> (st, Some e)
      | Inr newStates \<Rightarrow>
          if same_map (states st) newStates then (st, None)
          else states_save w (st\<lparr>states := newStates\<rparr>))"

definition states_Get :: "state_db \<Rightarrow> (string, string) gomap" where "states_Get st = put_all (states st) []"

datatype vm_order = StartVM vm_name | StopVM vm_name

definition restore_state ::
  "(vm_name \<Rightarrow> string + bool) \<Rightarrow> vmdb \<Rightarrow> string \<times> string \<Rightarrow> vm_order list" where
  "restore_state running vms entry_state =
     (case entry_state of (key, coldState) \<Rightarrow>
      case getEntryByID vms key of Inl e \<Rightarrow> []
      | Inr entry \<Rightarrow>
          (case running (Name entry) of Inl e \<Rightarrow> []
           | Inr hotState \<Rightarrow>
               (if coldState = VMStateUp \<and> \<not> hotState then [StartVM (Name entry)] else [])
               @ (if coldState = VMStateDown \<and> hotState then [StopVM (Name entry)] else [])))"

definition restoreStates :: "(vm_name \<Rightarrow> string + bool) \<Rightarrow> vmdb \<Rightarrow> state_db \<Rightarrow> vm_order list" where
  "restoreStates running vms st = concat (map (restore_state running vms) (states st))"

definition states_Cycles :: "state_db \<Rightarrow> nat" where "states_Cycles st = cycles st"

text \<open>What \<open>Run\<close> does before its endless loop: the orders it gives, then a first update (its error is
  ignored).\<close>

definition states_Run ::
  "io_write \<Rightarrow> (vm_name \<Rightarrow> string + bool) \<Rightarrow> (vm_name \<Rightarrow> string + bool) \<Rightarrow> vmdb \<Rightarrow> state_db \<Rightarrow> vm_order list \<times> state_db" where
  "states_Run w running_before running_after vms st =
     (restoreStates running_before vms st, (fst (states_Update w running_after vms st))\<lparr>restored := True\<rparr>)"

subsection \<open>Operations\<close>

record operation =
  Origin :: string
  Action :: string
  Ressource :: string
  RessourceName :: string
  StartTime :: time

type_synonym operation_list = "(string, operation) gomap"

definition NewOperationList :: operation_list where "NewOperationList = []"

text \<open>\<open>n\<close> is the drawn random number; an identifier that is already there is overwritten.\<close>

definition ops_Add :: "nat \<Rightarrow> time \<Rightarrow> operation \<Rightarrow> operation_list \<Rightarrow> operation_list \<times> string" where
  "ops_Add n now oper ops =
     (let key = ''operation-'' @ itoa_nat n in (gm_put key (oper\<lparr>StartTime := now\<rparr>) ops, key))"

definition ops_Remove :: "string \<Rightarrow> operation_list \<Rightarrow> operation_list" where
  "ops_Remove key ops = gm_del key ops"

subsection \<open>The backup database as a keyed database\<close>

definition backups_ok :: "backup_db \<Rightarrow> bool" where
  "backups_ok st \<longleftrightarrow> gm_ok (bdb st) \<and> (\<forall>(k, b)\<in>set (bdb st). DiskName b = k)"

definition named_backup :: "string \<Rightarrow> backup \<Rightarrow> backup" where
  "named_backup k b = b\<lparr>DiskName := k\<rparr>"

text \<open>The body of a backup is what its name does not say.\<close>

definition backup_body :: "backup \<Rightarrow> time \<times> time \<times> string \<times> vm" where
  "backup_body b = (Created b, Expire b, bk_AuthorKey b, bk_VM b)"

definition make_backup :: "string \<Rightarrow> time \<times> time \<times> string \<times> vm \<Rightarrow> backup" where
  "make_backup k v =
     (case v of (c, e, a, m) \<Rightarrow> \<lparr>DiskName = k, Created = c, Expire = e, bk_AuthorKey = a, bk_VM = m\<rparr>)"

lemma make_backup_body [simp]: "backup_body (make_backup k v) = v" "DiskName (make_backup k v) = k"
  by (simp_all add: backup_body_def make_backup_def split: prod.splits)

lemma bdb_save_WriteOk: "bdb_save WriteOk st = (st\<lparr>bdb_file := Holds (bdb st)\<rparr>, None)"
  by (simp add: bdb_save_def)

interpretation backups: keyed_db "\<lambda>st k. map_option backup_body (gm_get (bdb st) k)"
  "\<lambda>k v. bdb_Add WriteOk (make_backup k v)" "bdb_Delete WriteOk" backups_ok
  by unfold_locales
     (auto simp: bdb_Add_def bdb_Delete_def bdb_save_WriteOk fun_eq_iff backups_ok_def gm.entries_put gm.entries_del)

end
