(* ===== verification/Backups_Props.thy ===== *)
theory Backups_Props
  imports Backups
begin

text \<open>Properties of the backup database and of the state database.\<close>

lemma bdb_save_bdb: "bdb (fst (bdb_save w st)) = bdb st"
  by (simp add: bdb_save_def split: prod.split)

lemma bdb_Delete_get:
  "gm_get (bdb (fst (bdb_Delete w name st))) k =
     (if k = name then None else gm_get (bdb st) k)"
  by (auto simp: bdb_Delete_def bdb_save_bdb)

definition deletable :: "pool \<Rightarrow> string \<Rightarrow> bool" where
  "deletable p name \<longleftrightarrow> name \<in> set (volumes p) \<and> name \<notin> set (stuck p)"

lemma BackupDelete_eq:
  "fst (BackupDelete w name s) =
     (if gm_get (bdb (snd s)) name \<noteq> None \<and> deletable (fst s) name
      then ((fst s)\<lparr>volumes := removeAll name (volumes (fst s))\<rparr>, fst (bdb_Delete w name (snd s))) else s)"
  by (cases s) (simp add: BackupDelete_def bdb_GetByName_def deletable_def del: not_None_eq split: prod.split)

lemma BackupDelete_effect:
  fixes s :: "pool \<times> backup_db" and w :: io_write and name :: string
  defines "s' \<equiv> fst (BackupDelete w name s)"
  shows "gm_get (bdb (snd s')) k = (if k = name \<and> deletable (fst s) name then None else gm_get (bdb (snd s)) k)"
    and "stuck (fst s') = stuck (fst s)"
    and "k \<in> set (volumes (fst s')) \<longleftrightarrow>
      k \<in> set (volumes (fst s)) \<and> \<not> (k = name \<and> deletable (fst s) name \<and> gm_get (bdb (snd s)) name \<noteq> None)"
  unfolding s'_def BackupDelete_eq by (cases "gm_get (bdb (snd s)) name"; simp add: bdb_Delete_get)+

lemma fold_BackupDelete:
  fixes s :: "pool \<times> backup_db" and w :: io_write
  defines "run \<equiv> \<lambda>names s. fold (\<lambda>name s. fst (BackupDelete w name s)) names s"
  shows "gm_get (bdb (snd (run names s))) k =
    (if k \<in> set names \<and> deletable (fst s) k \<and> gm_get (bdb (snd s)) k \<noteq> None then None else gm_get (bdb (snd s)) k)"
    and "k \<in> set (volumes (fst (run names s))) \<longleftrightarrow>
      k \<in> set (volumes (fst s)) \<and> \<not> (k \<in> set names \<and> deletable (fst s) k \<and> gm_get (bdb (snd s)) k \<noteq> None)"
proof -
  have "gm_get (bdb (snd (run names s))) k =
    (if k \<in> set names \<and> deletable (fst s) k \<and> gm_get (bdb (snd s)) k \<noteq> None then None else gm_get (bdb (snd s)) k) \<and>
    (k \<in> set (volumes (fst (run names s))) \<longleftrightarrow>
      k \<in> set (volumes (fst s)) \<and> \<not> (k \<in> set names \<and> deletable (fst s) k \<and> gm_get (bdb (snd s)) k \<noteq> None))"
  proof (induction names arbitrary: s)
    case Nil
    then show ?case by (simp add: run_def)
  next
    case (Cons n names)
    let ?s1 = "fst (BackupDelete w n s)"
    have r: "run (n # names) s = run names ?s1" by (simp add: run_def)
    have d: "deletable (fst ?s1) k \<longleftrightarrow> deletable (fst s) k \<and> \<not> (k = n \<and> gm_get (bdb (snd s)) n \<noteq> None)"
      using BackupDelete_effect(2) [where w = w and name = n and s = s]
        BackupDelete_effect(3) [where w = w and name = n and s = s and k = k] by (auto simp: deletable_def)
    show ?case
      unfolding r using Cons.IH [of ?s1] BackupDelete_effect(1,3) [where w = w and name = n and s = s and k = k] d by (auto split: if_splits)
  qed
  then show "gm_get (bdb (snd (run names s))) k =
    (if k \<in> set names \<and> deletable (fst s) k \<and> gm_get (bdb (snd s)) k \<noteq> None then None else gm_get (bdb (snd s)) k)"
    and "k \<in> set (volumes (fst (run names s))) \<longleftrightarrow>
      k \<in> set (volumes (fst s)) \<and> \<not> (k \<in> set names \<and> deletable (fst s) k \<and> gm_get (bdb (snd s)) k \<noteq> None)"
    by blast+
qed

lemma expired_iff:
  assumes "backups_ok st" and "gm_get (bdb st) k = Some b"
  shows "k \<in> set (expired_names now st) \<longleftrightarrow> Expire b \<noteq> zero_time \<and> Expire b < now"
proof -
  from assms have gok: "gm_ok (bdb st)" by (simp add: backups_ok_def)
  have key: "DiskName c = j" if "gm_get (bdb st) j = Some c" for j c
    using assms(1) that gm_get_in [OF that] by (auto simp: backups_ok_def)
  have "k \<in> set (expired_names now st) \<longleftrightarrow>
      (\<exists>j c. gm_get (bdb st) j = Some c \<and> Expire c \<noteq> zero_time \<and> Expire c < now \<and> DiskName c = k)"
    by (auto simp: expired_names_def image_iff gm_vals_get [OF gok])
  with key assms(2) show ?thesis by (metis option.inject)
qed

subsection \<open>A concrete pool\<close>

definition old_backup :: "string \<Rightarrow> time \<Rightarrow> backup" where
  "old_backup n e = \<lparr>DiskName = n, Created = 1, Expire = e, bk_AuthorKey = ''me'', bk_VM = empty_vm\<rparr>"

definition two_backups :: "pool \<times> backup_db" where
  "two_backups = (\<lparr>volumes = [''a'', ''b''], stuck = []\<rparr>,
     \<lparr>bdb = [(''a'', old_backup ''a'' 5), (''b'', old_backup ''b'' 0)], bdb_file = NoFile\<rparr>)"

lemma two_backups_ok: "backups_ok (snd two_backups)"
  by (simp add: two_backups_def backups_ok_def gm_ok_def old_backup_def)

subsection \<open>Properties\<close>

text \<open>C31. The cleaning loop removes a backup, from the database and from the storage pool, exactly when it
  has an expiration date, that date is past, and its volume can be deleted; every other backup stays,
  whether or not the database file could be written.\<close>

theorem deleteExpired_exact:
  assumes "backups_ok st" and "gm_get (bdb st) k = Some b"
  shows "let (p', st') = deleteExpired w now (p, st);
      gone = (Expire b \<noteq> zero_time \<and> Expire b < now \<and> deletable p k) in
    gm_get (bdb st') k = (if gone then None else Some b) \<and>
    (k \<in> set (volumes p') \<longleftrightarrow> k \<in> set (volumes p) \<and> \<not> gone)"
  using fold_BackupDelete [where w = w and names = "expired_names now st" and s = "(p, st)" and k = k]
    expired_iff [OF assms, of now] assms(2)
  by (auto simp: deleteExpired_def split: prod.splits)

theorem deleteExpired_exact_witness:
  "gm_get (bdb (snd (deleteExpired WriteOk 9 two_backups))) ''a'' = None \<and>
   gm_get (bdb (snd (deleteExpired WriteOk 9 two_backups))) ''b'' = Some (old_backup ''b'' 0)"
proof -
  have g: "gm_get (bdb (snd two_backups)) ''a'' = Some (old_backup ''a'' 5)"
    "gm_get (bdb (snd two_backups)) ''b'' = Some (old_backup ''b'' 0)"
    by (simp_all add: two_backups_def gm_get_def)
  have d: "deletable (fst two_backups) ''a''" by (simp add: deletable_def two_backups_def)
  show ?thesis
    using deleteExpired_exact [OF two_backups_ok g(1), of WriteOk 9 "fst two_backups"]
      deleteExpired_exact [OF two_backups_ok g(2), of WriteOk 9 "fst two_backups"] d
    by (simp add: old_backup_def zero_time_def split: prod.splits)
qed

text \<open>Adding and deleting backups answers as a partial function from disk names to backups would.\<close>

theorem backups_run_refines:
  assumes "backups_ok st"
  shows "spec_run ops (\<lambda>k. map_option backup_body (gm_get (bdb st) k)) =
      ((\<lambda>k. map_option backup_body
          (gm_get (bdb (fst (db_run (\<lambda>k v. bdb_Add WriteOk (make_backup k v)) (bdb_Delete WriteOk) ops st))) k)),
       snd (db_run (\<lambda>k v. bdb_Add WriteOk (make_backup k v)) (bdb_Delete WriteOk) ops st))
    \<and> backups_ok (fst (db_run (\<lambda>k v. bdb_Add WriteOk (make_backup k v)) (bdb_Delete WriteOk) ops st))"
  using assms by (rule backups.run_refines)

theorem backups_run_refines_witness:
  "snd (db_run (\<lambda>k v. bdb_Add WriteOk (make_backup k v)) (bdb_Delete WriteOk)
     [DbAdd ''a'' (1, 0, [], empty_vm), DbRemove ''a'', DbRemove ''a''] (snd two_backups)) = [False, True, False]"
proof -
  let ?ops = "[DbAdd ''a'' (1, 0, [], empty_vm), DbRemove ''a'', DbRemove ''a'']"
  note run = backups_run_refines [OF two_backups_ok, of ?ops, THEN conjunct1]
  have "(\<lambda>k. map_option backup_body (gm_get (bdb (snd two_backups)) k)) ''a'' \<noteq> None"
    by (simp add: two_backups_def gm_get_def)
  then have "snd (spec_run ?ops (\<lambda>k. map_option backup_body (gm_get (bdb (snd two_backups)) k))) = [False, True, False]"
    by (simp del: not_None_eq)
  then show ?thesis unfolding run snd_conv .
qed

text \<open>A new expiration date is never written to disk: a restart reads what it would have read without
  the change.\<close>

theorem Expire_not_saved:
  "bdb_file (fst (bdb_Expire name t st)) = bdb_file st \<and>
   (let st0 = fst (bdb_Add WriteOk (old_backup ''a'' 0) \<lparr>bdb = [], bdb_file = NoFile\<rparr>) in
    snd (bdb_Expire ''a'' 99 st0) = None \<and>
    map_sum id (\<lambda>d. map_option Expire (gm_get (bdb d) ''a''))
      (NewBackupDatabase WriteOk 384 (bdb_file (fst (bdb_Expire ''a'' 99 st0)))) = (Inr (Some 0) :: db_error + time option))"
  by (simp add: bdb_Expire_def bdb_Add_def bdb_save_def NewBackupDatabase_def bdb_load_def read_map_def put_all_def
      gm_get_def gm_put_def old_backup_def Let_def split: option.split)

text \<open>At start-up exactly the VMs that were up and are not running are started, and exactly those that
  were down and are running are stopped; a VM that is not in the database any more is left alone.\<close>

theorem restoreStates_exact:
  "(StartVM n \<in> set (restoreStates running vms st) \<longleftrightarrow>
     (\<exists>k entry. (k, VMStateUp) \<in> set (states st) \<and> gm_get (db vms) k = Some entry \<and>
        Name entry = n \<and> running n = Inr False)) \<and>
   (StopVM n \<in> set (restoreStates running vms st) \<longleftrightarrow>
     (\<exists>k entry. (k, VMStateDown) \<in> set (states st) \<and> gm_get (db vms) k = Some entry \<and>
        Name entry = n \<and> running n = Inr True))"
proof -
  have one1: "StartVM n \<in> set (restore_state running vms (k, v)) \<longleftrightarrow>
      v = VMStateUp \<and> (\<exists>entry. gm_get (db vms) k = Some entry \<and> Name entry = n \<and> running n = Inr False)"
    and one2: "StopVM n \<in> set (restore_state running vms (k, v)) \<longleftrightarrow>
      v = VMStateDown \<and> (\<exists>entry. gm_get (db vms) k = Some entry \<and> Name entry = n \<and> running n = Inr True)" for k v
    by (auto simp: restore_state_def getEntryByID_def split: option.splits sum.splits)
  have "x \<in> set (restoreStates running vms st) \<longleftrightarrow>
      (\<exists>k v. (k, v) \<in> set (states st) \<and> x \<in> set (restore_state running vms (k, v)))" for x
    by (auto simp: restoreStates_def)
  from this [of "StartVM n"] this [of "StopVM n"] show ?thesis
    unfolding one1 one2 by (intro conjI) (simp only:, blast)+
qed

end
