(* ===== verification/Messages.thy ===== *)
theory Messages
  imports Mulch_Prelude
begin

text \<open>
  Messages (\<open>common/message.go\<close>) and the history of the log (\<open>log_history.go\<close>). The history
  is a doubly linked list of heap slots: \<open>slots\<close> is the heap, an address is a \<open>nat\<close>, a nil
  pointer is \<open>None\<close>. \<open>dll\<close> says that a heap holds a list, \<open>history_repr\<close> that a history does.
\<close>

subsection \<open>Messages\<close>

definition MessageSuccess :: string where "MessageSuccess = ''SUCCESS''"
definition MessageFailure :: string where "MessageFailure = ''FAILURE''"
definition MessageError :: string where "MessageError = ''ERROR''"
definition MessageWarning :: string where "MessageWarning = ''WARNING''"
definition MessageInfo :: string where "MessageInfo = ''INFO''"
definition MessageTrace :: string where "MessageTrace = ''TRACE''"
definition MessageNoop :: string where "MessageNoop = ''NOOP''"
definition MessageNoTarget :: string where "MessageNoTarget = []"
definition MessageAllTargets :: string where "MessageAllTargets = ''*''"
definition MessageMatchDefault :: bool where "MessageMatchDefault = False"
definition MessageMatchExact :: bool where "MessageMatchExact = True"

record message =
  msg_Time :: time
  msg_Type :: string
  msg_Target :: string
  msg_Message :: string

definition NewMessage :: "time \<Rightarrow> string \<Rightarrow> string \<Rightarrow> string \<Rightarrow> message" where
  "NewMessage now mtype target text =
     \<lparr>msg_Time = now, msg_Type = mtype, msg_Target = target, msg_Message = text\<rparr>"

definition MatchTarget :: "message \<Rightarrow> string \<Rightarrow> bool \<Rightarrow> bool" where
  "MatchTarget message target exact =
     (if exact \<and> target \<noteq> msg_Target message then False
      else if target \<noteq> msg_Target message \<and> msg_Target message \<noteq> MessageNoTarget
           \<and> target \<noteq> MessageAllTargets then False
      else True)"

lemma MatchTarget_exact: "MatchTarget m t MessageMatchExact \<longleftrightarrow> msg_Target m = t"
  by (auto simp: MatchTarget_def MessageMatchExact_def)

lemma MatchTarget_default:
  "MatchTarget m t MessageMatchDefault \<longleftrightarrow>
     msg_Target m = t \<or> msg_Target m = MessageNoTarget \<or> t = MessageAllTargets"
  by (auto simp: MatchTarget_def MessageMatchDefault_def)

subsection \<open>The history of the log\<close>

record slot =
  payload :: message
  older :: "nat option"
  newer :: "nat option"

record log_history =
  maxSize :: int
  currentSize :: int
  oldest_slot :: "nat option"
  newest_slot :: "nat option"
  slots :: "nat \<Rightarrow> slot option"
  fresh :: nat

definition logHistoryMaxMessageLen :: nat where "logHistoryMaxMessageLen = 256"

definition NewLogHistory :: "int \<Rightarrow> log_history" where
  "NewLogHistory elems =
     \<lparr>maxSize = elems, currentSize = 0, oldest_slot = None, newest_slot = None, slots = \<lambda>_. None, fresh = 0\<rparr>"

text \<open>The ellipsis the code appends is one character, three bytes in UTF-8.\<close>

definition ellipsis :: string where "ellipsis = [CHR 0xE2, CHR 0x80, CHR 0xA6]"

definition truncated :: "message \<Rightarrow> message" where
  "truncated message =
     (if length (msg_Message message) > logHistoryMaxMessageLen
      then message\<lparr>msg_Message := take logHistoryMaxMessageLen (msg_Message message) @ ellipsis\<rparr>
      else message)"

text \<open>Reading a field of, or writing to, a nil pointer panics: the result is \<open>None\<close>.\<close>

definition deref_slot :: "(nat \<Rightarrow> slot option) \<Rightarrow> nat option \<Rightarrow> slot option" where
  "deref_slot h p = (case p of None \<Rightarrow> None | Some a \<Rightarrow> h a)"

definition update_slot :: "(slot \<Rightarrow> slot) \<Rightarrow> nat option \<Rightarrow> (nat \<Rightarrow> slot option) \<Rightarrow> (nat \<Rightarrow> slot option) option" where
  "update_slot f p h =
     (case p of None \<Rightarrow> None
      | Some a \<Rightarrow> (case h a of None \<Rightarrow> None | Some s \<Rightarrow> Some (h(a \<mapsto> f s))))"

definition drop_oldest :: "log_history \<Rightarrow> log_history option" where
  "drop_oldest lh =
     (if currentSize lh > maxSize lh then
        (case deref_slot (slots lh) (oldest_slot lh) of
           None \<Rightarrow> None
         | Some s \<Rightarrow>
             (case update_slot (older_update (\<lambda>_. None)) (newer s) (slots lh) of
                None \<Rightarrow> None
              | Some h \<Rightarrow> Some (lh\<lparr>oldest_slot := newer s, slots := h, currentSize := currentSize lh - 1\<rparr>)))
      else Some lh)"

definition push_front :: "nat \<Rightarrow> log_history \<Rightarrow> log_history option" where
  "push_front cur lh =
     (case update_slot (newer_update (\<lambda>_. Some cur)) (newest_slot lh) (slots lh) of
        None \<Rightarrow> None
      | Some h \<Rightarrow>
          (case update_slot (older_update (\<lambda>_. newest_slot lh)) (Some cur) h of
             None \<Rightarrow> None
           | Some h' \<Rightarrow> Some (lh\<lparr>slots := h', newest_slot := Some cur, currentSize := currentSize lh + 1\<rparr>)))"

definition Push :: "message \<Rightarrow> log_history \<Rightarrow> log_history option" where
  "Push message lh0 =
     (let cur = fresh lh0;
          lh = lh0\<lparr>slots := (slots lh0)(cur \<mapsto> \<lparr>payload = truncated message, older = None, newer = None\<rparr>),
                   fresh := cur + 1\<rparr>
      in if currentSize lh = 0
         then Some (lh\<lparr>newest_slot := Some cur, oldest_slot := Some cur, currentSize := currentSize lh + 1\<rparr>)
         else (case push_front cur lh of None \<Rightarrow> None | Some lh' \<Rightarrow> drop_oldest lh'))"

text \<open>
  \<open>Search\<close> walks from the newest slot until it has enough messages or meets the nil pointer;
  on a cyclic heap it would not return. A negative \<open>maxMessages\<close> makes the allocation panic.
\<close>

partial_function (option) search_loop ::
  "(message \<Rightarrow> bool) \<Rightarrow> (nat \<Rightarrow> slot option) \<Rightarrow> int \<Rightarrow> nat option \<Rightarrow> message list \<Rightarrow> message list option" where
  "search_loop matches h maxMessages cur reversed =
     (case cur of
        None \<Rightarrow> Some reversed
      | Some a \<Rightarrow>
          if int (length reversed) < maxMessages then
            (case h a of
               None \<Rightarrow> None
             | Some s \<Rightarrow>
                 if \<not> matches (payload s) then search_loop matches h maxMessages (older s) reversed
                 else search_loop matches h maxMessages (older s) (reversed @ [payload s]))
          else Some reversed)"

definition search_matches :: "string \<Rightarrow> message \<Rightarrow> bool" where
  "search_matches target m =
     MatchTarget m target (if target \<noteq> MessageAllTargets then MessageMatchExact else MessageMatchDefault)"

definition Search :: "int \<Rightarrow> string \<Rightarrow> log_history \<Rightarrow> message list option" where
  "Search maxMessages target lh =
     (if maxMessages < 0 then None
      else map_option rev (search_loop (search_matches target) (slots lh) maxMessages (newest_slot lh) []))"

subsection \<open>A heap that holds a list\<close>

text \<open>\<open>dll h p as n ms\<close>: the slots \<open>as\<close> of \<open>h\<close> hold \<open>ms\<close>, linked both ways; \<open>p\<close> is what the first
  slot calls older and \<open>n\<close> what the last one calls newer.\<close>

definition next_slot :: "nat option \<Rightarrow> nat list \<Rightarrow> nat option" where
  "next_slot n as = (case as of [] \<Rightarrow> n | b # _ \<Rightarrow> Some b)"

definition last_addr :: "nat option \<Rightarrow> nat list \<Rightarrow> nat option" where
  "last_addr p as = (if as = [] then p else Some (last as))"

fun dll :: "(nat \<Rightarrow> slot option) \<Rightarrow> nat option \<Rightarrow> nat list \<Rightarrow> nat option \<Rightarrow> message list \<Rightarrow> bool" where
  "dll h p [] n ms \<longleftrightarrow> ms = []"
| "dll h p (a # as) n ms \<longleftrightarrow>
     ms \<noteq> [] \<and> h a = Some \<lparr>payload = hd ms, older = p, newer = next_slot n as\<rparr> \<and> dll h (Some a) as n (tl ms)"

definition history_repr :: "log_history \<Rightarrow> nat list \<Rightarrow> message list \<Rightarrow> bool" where
  "history_repr lh as ms \<longleftrightarrow>
     dll (slots lh) None as None ms \<and> distinct as \<and> (\<forall>a\<in>set as. a < fresh lh) \<and>
     oldest_slot lh = next_slot None as \<and> newest_slot lh = last_addr None as \<and> currentSize lh = int (length as)"

lemma next_slot_simps [simp]: "next_slot n [] = n" "next_slot n (a # as) = Some a"
  "next_slot n (as @ bs) = next_slot (next_slot n bs) as"
  by (simp_all add: next_slot_def split: list.split)

lemma last_addr_simps [simp]: "last_addr p [] = p" "last_addr p (a # as) = last_addr (Some a) as"
  "last_addr p (as @ [b]) = Some b"
  by (auto simp: last_addr_def)

lemma dll_length: "dll h p as n ms \<Longrightarrow> length ms = length as"
proof (induction as arbitrary: p ms)
  case (Cons a as)
  then show ?case by (cases ms) auto
qed simp

lemma dll_frame: "dll h p as n ms \<Longrightarrow> (\<And>a. a \<in> set as \<Longrightarrow> h' a = h a) \<Longrightarrow> dll h' p as n ms"
  by (induction as arbitrary: p ms) auto

lemma dll_snoc:
  "dll h p (as @ [b]) n ms \<longleftrightarrow>
     ms \<noteq> [] \<and> dll h p as (Some b) (butlast ms) \<and> h b = Some \<lparr>payload = last ms, older = last_addr p as, newer = n\<rparr>"
proof (induction as arbitrary: p ms)
  case Nil
  show ?case by (cases ms rule: rev_cases) (auto simp: Let_def neq_Nil_conv tl_append split: list.splits)
next
  case (Cons a as)
  show ?case
  proof (cases ms)
    case (Cons m ms')
    with Cons.IH [of "Some a" ms'] show ?thesis by auto
  qed simp
qed

text \<open>The walk over a heap that holds a list ends, with the newest matches, newest first.\<close>

lemma search_loop_dll:
  assumes "dll h None as n ms" and "int (length acc) \<le> k"
  shows "search_loop P h k (last_addr None as) acc =
    Some (take (nat k) (acc @ filter P (rev ms)))"
  using assms
proof (induction as arbitrary: n ms acc rule: rev_induct)
  case Nil
  then show ?case by (subst search_loop.simps) (simp add: nat_le_iff)
next
  case (snoc a as)
  then obtain m ns where ms: "ms = ns @ [m]" by (cases ms rule: rev_cases) (auto simp: dll_snoc)
  with snoc.prems have h: "h a = Some \<lparr>payload = m, older = last_addr None as, newer = n\<rparr>"
    and d: "dll h None as (Some a) ns" by (auto simp: dll_snoc)
  show ?case
  proof (cases "int (length acc) < k")
    case True
    then have "int (length (acc @ [m])) \<le> k" by simp
    from snoc.IH [OF d this] snoc.IH [OF d snoc.prems(2)] True h ms
    show ?thesis by (subst search_loop.simps) simp
  next
    case False
    with snoc.prems(2) have "nat k = length acc" by simp
    with False show ?thesis by (subst search_loop.simps) simp
  qed
qed

definition keep :: "nat \<Rightarrow> 'a list \<Rightarrow> 'a list" where
  "keep n xs = drop (length xs - n) xs"

lemma Search_repr:
  assumes "history_repr lh as ms" and "0 \<le> k"
  shows "Search k target lh = Some (keep (nat k) (filter (search_matches target) ms))"
  using assms search_loop_dll [of "slots lh" as None ms "[]" k "search_matches target"]
  by (simp add: Search_def history_repr_def keep_def rev_take flip: rev_filter)

subsection \<open>What a push does\<close>

lemma push_front_repr:
  assumes "dll (slots lh) None as None ms" and "as \<noteq> []" and "distinct as" and "b \<notin> set as"
    and "newest_slot lh = last_addr None as" and "slots lh b = Some \<lparr>payload = m, older = None, newer = None\<rparr>"
  shows "\<exists>h'. push_front b lh = Some (lh\<lparr>slots := h', newest_slot := Some b, currentSize := currentSize lh + 1\<rparr>) \<and>
    dll h' None (as @ [b]) None (ms @ [m])"
proof -
  from assms(2) obtain cs c where as: "as = cs @ [c]" by (cases as rule: rev_cases) auto
  with assms(1) obtain k ns where ms: "ms = ns @ [k]" by (cases ms rule: rev_cases) (auto simp: dll_snoc)
  let ?h = "(slots lh)(c \<mapsto> \<lparr>payload = k, older = last_addr None cs, newer = Some b\<rparr>,
    b \<mapsto> \<lparr>payload = m, older = Some c, newer = None\<rparr>)"
  from assms as ms have c: "slots lh c = Some \<lparr>payload = k, older = last_addr None cs, newer = None\<rparr>"
    and d: "dll (slots lh) None cs (Some c) ns" and ne: "c \<noteq> b" "c \<notin> set cs" "b \<notin> set cs"
    by (auto simp: dll_snoc)
  have "push_front b lh = Some (lh\<lparr>slots := ?h, newest_slot := Some b, currentSize := currentSize lh + 1\<rparr>)"
    using c ne assms(5,6) as by (simp add: push_front_def update_slot_def)
  moreover from d have "dll ?h None cs (Some c) ns" by (rule dll_frame) (use ne in auto)
  then have "dll ?h None (as @ [b]) None (ms @ [m])"
    using ne unfolding as ms
    by (simp add: dll_snoc [where as = "cs @ [c]"] dll_snoc [where as = cs] butlast_append del: append_assoc)
  ultimately show ?thesis by blast
qed

lemma drop_oldest_repr:
  assumes "history_repr lh as ms" and "2 \<le> length as"
  shows "\<exists>lh' as'. drop_oldest lh = Some lh' \<and> maxSize lh' = maxSize lh \<and>
    history_repr lh' as' (if int (length ms) > maxSize lh then tl ms else ms)"
proof (cases "int (length ms) > maxSize lh")
  case True
  from assms(2) obtain a c cs where as: "as = a # c # cs" by (cases as; cases "tl as") auto
  let ?h = "(slots lh)(c \<mapsto> \<lparr>payload = hd (tl ms), older = None, newer = next_slot None cs\<rparr>)"
  let ?lh = "lh\<lparr>oldest_slot := Some c, slots := ?h, currentSize := currentSize lh - 1\<rparr>"
  from assms(1) as have a: "slots lh a = Some \<lparr>payload = hd ms, older = None, newer = Some c\<rparr>"
    and c: "slots lh c = Some \<lparr>payload = hd (tl ms), older = Some a, newer = next_slot None cs\<rparr>"
    and d: "dll (slots lh) (Some c) cs None (tl (tl ms))" and ne: "c \<notin> set cs" "tl ms \<noteq> []"
    and o: "oldest_slot lh = Some a" and "length ms = length as" "currentSize lh = int (length as)"
    using dll_length [of "slots lh" None as None ms] by (auto simp: history_repr_def)
  with True have "drop_oldest lh = Some ?lh"
    by (simp add: drop_oldest_def deref_slot_def update_slot_def)
  moreover from d have "dll ?h (Some c) cs None (tl (tl ms))" by (rule dll_frame) (use ne in auto)
  then have "history_repr ?lh (c # cs) (tl ms)"
    using assms(1) ne as by (auto simp: history_repr_def)
  ultimately show ?thesis using True by auto
next
  case False
  with assms(1) have "drop_oldest lh = Some lh"
    by (auto simp: drop_oldest_def history_repr_def dest!: dll_length)
  with assms(1) False show ?thesis by auto
qed

lemma Push_repr:
  assumes "history_repr lh as ms"
  shows "\<exists>lh' as'. Push m lh = Some lh' \<and> maxSize lh' = maxSize lh \<and>
    history_repr lh' as' (if ms \<noteq> [] \<and> int (length ms) \<ge> maxSize lh then tl ms @ [truncated m] else ms @ [truncated m])"
proof -
  let ?b = "fresh lh"
  let ?s = "\<lparr>payload = truncated m, older = None, newer = None\<rparr>"
  let ?l1 = "lh\<lparr>slots := (slots lh)(?b \<mapsto> ?s), fresh := ?b + 1\<rparr>"
  from assms have new: "?b \<notin> set as" by (auto simp: history_repr_def)
  show ?thesis
  proof (cases "as = []")
    case True
    with assms have "ms = []" "currentSize lh = 0" by (auto simp: history_repr_def)
    with True show ?thesis by (intro exI [of _ "?l1\<lparr>newest_slot := Some ?b, oldest_slot := Some ?b, currentSize := 1\<rparr>"] exI [of _ "[?b]"])
      (simp add: Push_def history_repr_def Let_def)
  next
    case False
    from assms have d: "dll (slots lh) None as None ms" and dist: "distinct as"
      and n: "newest_slot lh = last_addr None as" and cs: "currentSize lh = int (length as)"
      and o: "oldest_slot lh = next_slot None as" and fr: "\<forall>a\<in>set as. a < ?b"
      by (auto simp: history_repr_def)
    from d have "dll (slots ?l1) None as None ms" by (rule dll_frame) (use new in auto)
    from push_front_repr [OF this False dist new] n obtain h' where
      pf: "push_front ?b ?l1 = Some (?l1\<lparr>slots := h', newest_slot := Some ?b, currentSize := currentSize lh + 1\<rparr>)"
      and d': "dll h' None (as @ [?b]) None (ms @ [truncated m])" by auto
    let ?l2 = "?l1\<lparr>slots := h', newest_slot := Some ?b, currentSize := currentSize lh + 1\<rparr>"
    have r2: "history_repr ?l2 (as @ [?b]) (ms @ [truncated m])"
      using d' dist new cs fr o False unfolding history_repr_def by (cases as) auto
    from False have "2 \<le> length (as @ [?b])" by (cases as) auto
    from drop_oldest_repr [OF r2 this] obtain l3 as3 where
      l3: "drop_oldest ?l2 = Some l3" "maxSize l3 = maxSize lh"
      "history_repr l3 as3 (if int (length (ms @ [truncated m])) > maxSize lh then tl (ms @ [truncated m]) else ms @ [truncated m])"
      by auto
    from dll_length [OF d] False have "ms \<noteq> []" by auto
    moreover have "Push m lh = Some l3" using l3(1) pf False cs by (simp add: Push_def Let_def)
    ultimately show ?thesis using l3(2,3) by (intro exI [of _ l3] exI [of _ as3]) (auto split: if_splits)
  qed
qed

fun push_all :: "message list \<Rightarrow> log_history \<Rightarrow> log_history option" where
  "push_all [] lh = Some lh"
| "push_all (m # ms) lh = (case Push m lh of None \<Rightarrow> None | Some lh' \<Rightarrow> push_all ms lh')"

definition capacity :: "int \<Rightarrow> nat" where "capacity elems = nat (max 1 elems)"

lemma keep_snoc:
  "0 < n \<Longrightarrow> keep n (xs @ [x]) =
     (if keep n xs \<noteq> [] \<and> length (keep n xs) \<ge> n then tl (keep n xs) @ [x] else keep n xs @ [x])"
  by (auto simp: keep_def Suc_diff_le drop_Suc tl_drop not_le)

lemma push_all_repr:
  assumes "history_repr lh as (keep (capacity (maxSize lh)) xs)"
  shows "\<exists>lh' as'. push_all ms lh = Some lh' \<and> maxSize lh' = maxSize lh \<and>
    history_repr lh' as' (keep (capacity (maxSize lh)) (xs @ map truncated ms))"
  using assms
proof (induction ms arbitrary: lh as xs)
  case Nil
  then show ?case by auto
next
  case (Cons m ms)
  let ?k = "keep (capacity (maxSize lh))"
  from Push_repr [OF Cons.prems, of m] obtain l1 as1 where l1: "Push m lh = Some l1" "maxSize l1 = maxSize lh"
    and r: "history_repr l1 as1 (if ?k xs \<noteq> [] \<and> int (length (?k xs)) \<ge> maxSize lh
      then tl (?k xs) @ [truncated m] else ?k xs @ [truncated m])" by auto
  have "?k xs \<noteq> [] \<and> int (length (?k xs)) \<ge> maxSize lh \<longleftrightarrow> ?k xs \<noteq> [] \<and> length (?k xs) \<ge> capacity (maxSize lh)"
    by (cases "?k xs") (auto simp: capacity_def)
  moreover have "0 < capacity (maxSize lh)" by (simp add: capacity_def)
  ultimately have "history_repr l1 as1 (?k (xs @ [truncated m]))"
    using r by (simp only: keep_snoc)
  with Cons.IH [of l1 as1 "xs @ [truncated m]"] l1 show ?case by simp
qed

lemma NewLogHistory_repr: "history_repr (NewLogHistory n) [] []"
  by (simp add: NewLogHistory_def history_repr_def)

end
