(* ===== verification/Hubs.thy ===== *)
theory Hubs
  imports Messages Go_Strings
begin

text \<open>
  The two hubs of the server, which deliver what they receive to their registered clients:
  \<open>hub.go\<close> (messages of the log) and \<open>phone_home.go\<close> (calls of the VMs), then \<open>log.go\<close>, which feeds
  the history and the log hub, and the controller that searches the history (\<open>controllers/log.go\<close>).

  A client is a pointer, here an address. The goroutine of a hub handles one channel
  operation at a time, so a run is a sequence of \<open>hub_event\<close>s. What a client has received is
  its \<open>inbox\<close>; sending to a closed channel panics, which sets \<open>panicked\<close>.
\<close>

record 'm hub_client =
  hc_target :: string
  hc_trace :: bool
  inbox :: "'m list"
  closed :: bool

record 'm hub =
  hub_clients :: "nat list"
  client_at :: "nat \<Rightarrow> 'm hub_client"
  next_client :: nat
  panicked :: bool

definition NewHub :: "'m hub" where
  "NewHub = \<lparr>hub_clients = [],
     client_at = (\<lambda>_. \<lparr>hc_target = [], hc_trace = False, inbox = [], closed = False\<rparr>),
     next_client = 0, panicked = False\<rparr>"

definition at_client :: "nat \<Rightarrow> ('m hub_client \<Rightarrow> 'm hub_client) \<Rightarrow> 'm hub \<Rightarrow> 'm hub" where
  "at_client c f h = h\<lparr>client_at := (client_at h)(c := f (client_at h c))\<rparr>"

text \<open>\<open>client.Messages <- message\<close>\<close>

definition send :: "nat \<Rightarrow> 'm \<Rightarrow> 'm hub \<Rightarrow> 'm hub" where
  "send c m h =
     (if closed (client_at h c) then h\<lparr>panicked := True\<rparr>
      else at_client c (\<lambda>hc. hc\<lparr>inbox := inbox hc @ [m]\<rparr>) h)"

definition hub_Register :: "string \<Rightarrow> bool \<Rightarrow> 'm hub \<Rightarrow> 'm hub \<times> nat" where
  "hub_Register target trace h =
     (let c = next_client h in
      (h\<lparr>hub_clients := hub_clients h @ [c], next_client := c + 1,
         client_at := (client_at h)(c := \<lparr>hc_target = target, hc_trace = trace, inbox = [], closed = False\<rparr>)\<rparr>, c))"

definition hub_Unregister :: "nat \<Rightarrow> 'm hub \<Rightarrow> 'm hub" where
  "hub_Unregister c h =
     (if c \<in> set (hub_clients h) then
        (if closed (client_at h c) then h\<lparr>hub_clients := removeAll c (hub_clients h), panicked := True\<rparr>
         else at_client c (\<lambda>hc. hc\<lparr>closed := True\<rparr>) (h\<lparr>hub_clients := removeAll c (hub_clients h)\<rparr>))
      else h)"

definition SetTarget :: "nat \<Rightarrow> string \<Rightarrow> 'm hub \<Rightarrow> 'm hub" where
  "SetTarget c target h = at_client c (\<lambda>hc. hc\<lparr>hc_target := target\<rparr>) h"

subsection \<open>Broadcasting\<close>

definition log_wants :: "message hub_client \<Rightarrow> message \<Rightarrow> bool" where
  "log_wants hc message =
     (if \<not> MatchTarget message (hc_target hc) MessageMatchDefault then False
      else if msg_Type message = MessageTrace \<and> \<not> hc_trace hc then False
      else True)"

definition log_deliver :: "message \<Rightarrow> nat \<Rightarrow> message hub \<Rightarrow> message hub" where
  "log_deliver message c h = (if log_wants (client_at h c) message then send c message h else h)"

definition hub_Broadcast :: "message \<Rightarrow> message hub \<Rightarrow> message hub" where
  "hub_Broadcast message h = fold (log_deliver message) (hub_clients h) h"

record phone_call =
  call_SecretUUID :: string
  RemoteIP :: string
  CloutInit :: bool

text \<open>A client of the phone hub keeps the secret it waits for where a log client keeps its target.\<close>

definition phone_wants :: "phone_call hub_client \<Rightarrow> phone_call \<Rightarrow> bool" where
  "phone_wants hc call \<longleftrightarrow> hc_target hc = [] \<or> hc_target hc = call_SecretUUID call"

definition phone_deliver :: "phone_call \<Rightarrow> nat \<Rightarrow> phone_call hub \<Rightarrow> phone_call hub" where
  "phone_deliver call c h = (if phone_wants (client_at h c) call then send c call h else h)"

definition phone_Broadcast :: "phone_call \<Rightarrow> phone_call hub \<Rightarrow> phone_call hub" where
  "phone_Broadcast call h = fold (phone_deliver call) (hub_clients h) h"

definition BroadcastPhoneCall :: "string \<Rightarrow> string \<Rightarrow> bool \<Rightarrow> phone_call hub \<Rightarrow> phone_call hub" where
  "BroadcastPhoneCall secretUUID remoteIP cloudInit h =
     phone_Broadcast \<lparr>call_SecretUUID = secretUUID, RemoteIP = remoteIP, CloutInit = cloudInit\<rparr> h"

definition phone_Register :: "string \<Rightarrow> phone_call hub \<Rightarrow> phone_call hub \<times> nat" where
  "phone_Register secretUUID h = hub_Register secretUUID False h"

datatype 'm hub_event =
    EvRegister string bool
  | EvUnregister nat
  | EvSetTarget nat string
  | EvBroadcast 'm

fun hub_step :: "('m \<Rightarrow> 'm hub \<Rightarrow> 'm hub) \<Rightarrow> 'm hub_event \<Rightarrow> 'm hub \<Rightarrow> 'm hub" where
  "hub_step bcast (EvRegister target trace) h = fst (hub_Register target trace h)"
| "hub_step bcast (EvUnregister c) h = hub_Unregister c h"
| "hub_step bcast (EvSetTarget c target) h = SetTarget c target h"
| "hub_step bcast (EvBroadcast m) h = bcast m h"

definition hub_run :: "('m \<Rightarrow> 'm hub \<Rightarrow> 'm hub) \<Rightarrow> 'm hub_event list \<Rightarrow> 'm hub \<Rightarrow> 'm hub" where
  "hub_run bcast evs h = fold (hub_step bcast) evs h"

subsection \<open>The log\<close>

record logger =
  log_target :: string

type_synonym log_world = "log_history \<times> message hub"

text \<open>\<open>Log.Log\<close>: the target is set first; NOOP and TRACE messages are not kept; every message is broadcast.\<close>

definition log_Log :: "logger \<Rightarrow> message \<Rightarrow> log_world \<Rightarrow> log_world option" where
  "log_Log lg message0 world =
     (let message = message0\<lparr>msg_Target := log_target lg\<rparr>; (lh, h) = world in
      case (if msg_Type message \<noteq> MessageNoop \<and> msg_Type message \<noteq> MessageTrace then Push message lh else Some lh) of
        None \<Rightarrow> None
      | Some lh' \<Rightarrow> Some (lh', hub_Broadcast message h))"

definition log_as :: "string \<Rightarrow> time \<Rightarrow> logger \<Rightarrow> string \<Rightarrow> log_world \<Rightarrow> log_world option" where
  "log_as mtype now lg text world = log_Log lg (NewMessage now mtype (log_target lg) text) world"

definition log_Error :: "time \<Rightarrow> logger \<Rightarrow> string \<Rightarrow> log_world \<Rightarrow> log_world option" where "log_Error = log_as MessageError"
definition log_Warning :: "time \<Rightarrow> logger \<Rightarrow> string \<Rightarrow> log_world \<Rightarrow> log_world option" where "log_Warning = log_as MessageWarning"
definition log_Info :: "time \<Rightarrow> logger \<Rightarrow> string \<Rightarrow> log_world \<Rightarrow> log_world option" where "log_Info = log_as MessageInfo"
definition log_Trace :: "time \<Rightarrow> logger \<Rightarrow> string \<Rightarrow> log_world \<Rightarrow> log_world option" where "log_Trace = log_as MessageTrace"
definition log_Success :: "time \<Rightarrow> logger \<Rightarrow> string \<Rightarrow> log_world \<Rightarrow> log_world option" where "log_Success = log_as MessageSuccess"
definition log_Failure :: "time \<Rightarrow> logger \<Rightarrow> string \<Rightarrow> log_world \<Rightarrow> log_world option" where "log_Failure = log_as MessageFailure"

definition log_SetTarget :: "string \<Rightarrow> logger \<Rightarrow> logger" where
  "log_SetTarget target lg =
     lg\<lparr>log_target := (if target = MessageAllTargets then MessageNoTarget else target)\<rparr>"

subsection \<open>The controller of the history\<close>

definition logControllerHistoryMaxLines :: int where "logControllerHistoryMaxLines = 3000"

datatype history_answer = BadLines | HistoryPanic | Lines "message list"

definition GetLogHistoryController :: "string \<Rightarrow> string \<Rightarrow> log_history \<Rightarrow> history_answer" where
  "GetLogHistoryController target linesStr lh =
     (case atoi linesStr of
        None \<Rightarrow> BadLines
      | Some n \<Rightarrow>
          if n < 1 \<or> n > logControllerHistoryMaxLines then BadLines
          else (case Search n target lh of None \<Rightarrow> HistoryPanic | Some ms \<Rightarrow> Lines ms))"

subsection \<open>What every hub does\<close>

definition hub_ok :: "'m hub \<Rightarrow> bool" where
  "hub_ok h \<longleftrightarrow> distinct (hub_clients h) \<and> (\<forall>c\<in>set (hub_clients h). c < next_client h \<and> \<not> closed (client_at h c))
     \<and> \<not> panicked h"

text \<open>What a hub shows of a client: whether it is registered, and the client's record.\<close>

definition hub_view :: "nat \<Rightarrow> 'm hub \<Rightarrow> bool \<times> 'm hub_client" where
  "hub_view c h = (c \<in> set (hub_clients h), client_at h c)"

definition accept :: "('m hub_client \<Rightarrow> 'm \<Rightarrow> bool) \<Rightarrow> 'm \<Rightarrow> 'm hub_client \<Rightarrow> 'm hub_client" where
  "accept wants m hc = (if wants hc m then hc\<lparr>inbox := inbox hc @ [m]\<rparr> else hc)"

locale pubsub =
  fixes wants :: "'m hub_client \<Rightarrow> 'm \<Rightarrow> bool"
    and deliver :: "'m \<Rightarrow> nat \<Rightarrow> 'm hub \<Rightarrow> 'm hub"
    and bcast :: "'m \<Rightarrow> 'm hub \<Rightarrow> 'm hub"
  assumes deliver_eq: "deliver m c h = (if wants (client_at h c) m then send c m h else h)"
    and bcast_eq: "bcast m h = fold (deliver m) (hub_clients h) h"
    and wants_inbox: "wants (hc\<lparr>inbox := b\<rparr>) m = wants hc m"
begin

lemma deliver_open:
  "\<not> closed (client_at h c) \<Longrightarrow> deliver m c h = at_client c (accept wants m) h"
  by (simp add: deliver_eq send_def at_client_def accept_def)

lemma accept_closed [simp]: "closed (accept wants m hc) = closed hc"
  by (simp add: accept_def)

lemma fold_deliver:
  assumes "distinct cs" and "\<forall>c\<in>set cs. \<not> closed (client_at h c)"
  shows "fold (deliver m) cs h =
    h\<lparr>client_at := (\<lambda>c. if c \<in> set cs then accept wants m (client_at h c) else client_at h c)\<rparr>"
  using assms
proof (induction cs arbitrary: h)
  case Nil
  then show ?case by simp
next
  case (Cons c cs)
  then have "deliver m c h = at_client c (accept wants m) h" by (simp add: deliver_open)
  with Cons show ?case by (auto simp: at_client_def fun_eq_iff intro!: arg_cong [where f = "\<lambda>f. h\<lparr>client_at := f\<rparr>"])
qed

lemma bcast_view:
  "hub_ok h \<Longrightarrow> bcast m h =
    h\<lparr>client_at := (\<lambda>c. if c \<in> set (hub_clients h) then accept wants m (client_at h c) else client_at h c)\<rparr>"
  unfolding bcast_eq by (rule fold_deliver) (auto simp: hub_ok_def)

lemma step_ok: "hub_ok h \<Longrightarrow> hub_ok (hub_step bcast ev h)"
proof (cases ev)
  case (EvBroadcast m)
  assume "hub_ok h"
  then show ?thesis unfolding EvBroadcast hub_step.simps bcast_view [OF \<open>hub_ok h\<close>] by (simp add: hub_ok_def)
qed (auto simp: hub_ok_def hub_Register_def hub_Unregister_def SetTarget_def at_client_def Let_def distinct_removeAll)

lemma run_ok: "hub_ok h \<Longrightarrow> hub_ok (hub_run bcast evs h)"
  unfolding hub_run_def by (induction evs arbitrary: h) (auto simp: step_ok)

lemma run_Cons: "hub_run bcast (ev # evs) h = hub_run bcast evs (hub_step bcast ev h)"
  by (simp add: hub_run_def)

end

fun touches :: "nat \<Rightarrow> 'm hub_event \<Rightarrow> bool" where
  "touches c (EvUnregister d) \<longleftrightarrow> d = c"
| "touches c (EvSetTarget d t) \<longleftrightarrow> d = c"
| "touches c _ \<longleftrightarrow> False"

fun broadcasts :: "'m hub_event list \<Rightarrow> 'm list" where
  "broadcasts [] = []"
| "broadcasts (EvBroadcast m # evs) = m # broadcasts evs"
| "broadcasts (_ # evs) = broadcasts evs"

context pubsub
begin

lemma wants_accept [simp]: "wants (accept wants k hc) = wants hc" "wants (hc\<lparr>inbox := b\<rparr>) = wants hc"
  by (simp_all add: accept_def wants_inbox fun_eq_iff)

text \<open>As long as nobody touches it, a registered client receives what it wants of what is broadcast, in order.\<close>

lemma run_delivers:
  assumes "hub_ok h" and "c \<in> set (hub_clients h)" and "\<forall>ev\<in>set evs. \<not> touches c ev"
  shows "hub_view c (hub_run bcast evs h) =
    (True, (client_at h c)\<lparr>inbox := inbox (client_at h c) @ filter (wants (client_at h c)) (broadcasts evs)\<rparr>)"
  using assms
proof (induction evs arbitrary: h)
  case Nil
  then show ?case by (simp add: hub_run_def hub_view_def)
next
  case (Cons ev evs)
  let ?h = "hub_step bcast ev h"
  from Cons.prems have ok: "hub_ok ?h" by (intro step_ok) simp
  from Cons.prems have lt: "c < next_client h" by (auto simp: hub_ok_def)
  have in': "c \<in> set (hub_clients ?h)"
    using Cons.prems bcast_view [OF Cons.prems(1)]
    by (cases ev) (auto simp: hub_Register_def hub_Unregister_def SetTarget_def at_client_def Let_def)
  have at': "client_at ?h c = (case ev of EvBroadcast m \<Rightarrow> accept wants m (client_at h c) | _ \<Rightarrow> client_at h c)"
    using Cons.prems bcast_view [OF Cons.prems(1)] lt
    by (cases ev) (auto simp: hub_Register_def hub_Unregister_def SetTarget_def at_client_def Let_def)
  from Cons.IH [OF ok in'] Cons.prems(3) at' show ?case
    by (cases ev) (auto simp: run_Cons accept_def)
qed

text \<open>Once it is unregistered, a client never receives anything.\<close>

lemma run_silent:
  assumes "hub_ok h" and "c \<notin> set (hub_clients h)" and "c < next_client h"
  shows "inbox (client_at (hub_run bcast evs h) c) = inbox (client_at h c)
    \<and> (closed (client_at h c) \<longrightarrow> closed (client_at (hub_run bcast evs h) c))"
  using assms
proof (induction evs arbitrary: h)
  case Nil
  then show ?case by (simp add: hub_run_def)
next
  case (Cons ev evs)
  let ?h = "hub_step bcast ev h"
  from Cons.prems have ok: "hub_ok ?h" by (intro step_ok)
  have "c \<notin> set (hub_clients ?h)" "c < next_client ?h" "inbox (client_at ?h c) = inbox (client_at h c)"
    "closed (client_at h c) \<longrightarrow> closed (client_at ?h c)"
    using Cons.prems bcast_view [OF Cons.prems(1)]
    by (cases ev; auto simp: hub_Register_def hub_Unregister_def SetTarget_def at_client_def Let_def)+
  with Cons.IH [OF ok] show ?case by (auto simp: run_Cons)
qed

text \<open>The life of a client: registered, then unregistered.\<close>

lemma lifetime:
  fixes h :: "'m hub" and target :: string and trace :: bool and evs rest :: "'m hub_event list"
  defines "c \<equiv> snd (hub_Register target trace h)"
  defines "h2 \<equiv> hub_run bcast evs (fst (hub_Register target trace h))"
  defines "h3 \<equiv> hub_run bcast rest (hub_Unregister c h2)"
  assumes ok: "hub_ok h" and un: "\<forall>ev\<in>set evs. \<not> touches c ev"
  shows "inbox (client_at h3 c) =
      filter (wants \<lparr>hc_target = target, hc_trace = trace, inbox = [], closed = False\<rparr>) (broadcasts evs)
    \<and> closed (client_at h3 c) \<and> \<not> panicked h3"
proof -
  let ?h1 = "fst (hub_Register target trace h)"
  have ok1: "hub_ok ?h1" using step_ok [OF ok, of "EvRegister target trace"] by simp
  have in1: "c \<in> set (hub_clients ?h1)"
    and at1: "client_at ?h1 c = \<lparr>hc_target = target, hc_trace = trace, inbox = [], closed = False\<rparr>"
    by (simp_all add: c_def hub_Register_def Let_def)
  from run_delivers [OF ok1 in1 un] at1
  have v: "c \<in> set (hub_clients h2)" "client_at h2 c = \<lparr>hc_target = target, hc_trace = trace,
      inbox = filter (wants \<lparr>hc_target = target, hc_trace = trace, inbox = [], closed = False\<rparr>) (broadcasts evs),
      closed = False\<rparr>"
    by (simp_all add: h2_def hub_view_def)
  have ok2: "hub_ok h2" unfolding h2_def using ok1 by (rule run_ok)
  have ok3: "hub_ok (hub_Unregister c h2)" using step_ok [OF ok2, of "EvUnregister c"] by simp
  have "c \<notin> set (hub_clients (hub_Unregister c h2))" "c < next_client (hub_Unregister c h2)"
    using v(1) ok2 by (auto simp: hub_Unregister_def at_client_def hub_ok_def)
  from run_silent [OF ok3 this, of rest] run_ok [OF ok3, of rest] v show ?thesis
    by (auto simp: h3_def hub_Unregister_def at_client_def hub_ok_def)
qed

end

interpretation log_hub: pubsub log_wants log_deliver hub_Broadcast
  by unfold_locales (simp_all add: log_deliver_def hub_Broadcast_def log_wants_def)

interpretation phone_hub: pubsub phone_wants phone_deliver phone_Broadcast
  by unfold_locales (simp_all add: phone_deliver_def phone_Broadcast_def phone_wants_def)

lemma hub_ok_NewHub: "hub_ok NewHub"
  by (simp add: NewHub_def hub_ok_def)

end
