(* ===== verification/Log_Props.thy ===== *)
theory Log_Props
  imports Hubs
begin

text \<open>Properties of the log: its history, its hub, and the hub of the phone calls.\<close>

subsection \<open>The history after any sequence of messages\<close>

lemma push_all_NewLogHistory:
  "\<exists>lh as. push_all ms (NewLogHistory n) = Some lh \<and> maxSize lh = n \<and>
     history_repr lh as (keep (capacity n) (map truncated ms))"
  using push_all_repr [of "NewLogHistory n" "[]" "[]" ms] NewLogHistory_repr [of n]
  by (simp add: keep_def NewLogHistory_def)

lemma Search_after_pushes:
  assumes "push_all ms (NewLogHistory n) = Some lh" and "0 \<le> k"
  shows "Search k target lh =
    Some (keep (nat k) (filter (search_matches target) (keep (capacity n) (map truncated ms))))"
  using push_all_NewLogHistory [of ms n] assms Search_repr by fastforce

lemma keep_length: "length (keep n xs) \<le> n" "length (keep n xs) \<le> length xs"
  by (simp_all add: keep_def)

lemma keep_subset: "x \<in> set (keep n xs) \<Longrightarrow> x \<in> set xs"
  by (auto simp: keep_def dest: in_set_dropD)

lemma truncated_length: "length (msg_Message (truncated m)) \<le> 259"
  by (simp add: truncated_def logHistoryMaxMessageLen_def ellipsis_def)

lemma truncated_target [simp]: "msg_Target (truncated m) = msg_Target m" "msg_Type (truncated m) = msg_Type m"
  by (simp_all add: truncated_def)

lemma search_matches_target: "search_matches target m \<longleftrightarrow> target = MessageAllTargets \<or> msg_Target m = target"
  by (auto simp: search_matches_def MatchTarget_exact MatchTarget_default)

subsection \<open>Logging\<close>

fun log_all :: "(logger \<times> message) list \<Rightarrow> log_world \<Rightarrow> log_world option" where
  "log_all [] w = Some w"
| "log_all ((lg, m) # lms) w = (case log_Log lg m w of None \<Rightarrow> None | Some w' \<Rightarrow> log_all lms w')"

definition sent :: "(logger \<times> message) list \<Rightarrow> message list" where
  "sent lms = map (\<lambda>(lg, m). m\<lparr>msg_Target := log_target lg\<rparr>) lms"

definition kept :: "message \<Rightarrow> bool" where
  "kept m \<longleftrightarrow> msg_Type m \<noteq> MessageNoop \<and> msg_Type m \<noteq> MessageTrace"

lemma log_all_split:
  "log_all lms (lh, h) =
     (case push_all (filter kept (sent lms)) lh of
        None \<Rightarrow> None
      | Some lh' \<Rightarrow> Some (lh', hub_run hub_Broadcast (map EvBroadcast (sent lms)) h))"
proof (induction lms arbitrary: lh h)
  case Nil
  then show ?case by (simp add: sent_def hub_run_def)
next
  case (Cons lm lms)
  then show ?case
    by (cases lm) (auto simp: log_Log_def sent_def kept_def hub_run_def Let_def split: option.splits)
qed

lemma broadcasts_map [simp]: "broadcasts (map EvBroadcast ms) = ms"
  by (induction ms) auto

lemma touches_map [simp]: "ev \<in> set (map EvBroadcast ms) \<Longrightarrow> \<not> touches c ev"
  by auto

subsection \<open>Properties\<close>

text \<open>C22. After any messages, the linked list holds the last ones that fit its size (at least one), truncated, and a
  search walks it to the end: it returns the latest matching messages, oldest first, whatever was pushed.\<close>

theorem history_exact:
  "\<exists>lh. push_all ms (NewLogHistory n) = Some lh \<and>
     (\<forall>k target. Search (int k) target lh =
        Some (keep k (filter (search_matches target) (keep (capacity n) (map truncated ms)))))"
  using push_all_NewLogHistory [of ms n] Search_repr by fastforce

text \<open>The history controller never panics and answers at most 3000 lines, each of at most 259 bytes and each
  with the requested target unless all targets are asked for.\<close>

theorem history_answer_bounded:
  assumes "push_all ms (NewLogHistory n) = Some lh"
  shows "case GetLogHistoryController target linesStr lh of
      HistoryPanic \<Rightarrow> False
    | BadLines \<Rightarrow> True
    | Lines ls \<Rightarrow> int (length ls) \<le> logControllerHistoryMaxLines \<and>
        (\<forall>m\<in>set ls. length (msg_Message m) \<le> 259 \<and> (target = MessageAllTargets \<or> msg_Target m = target))"
proof (cases "atoi linesStr")
  case None
  then show ?thesis by (simp add: GetLogHistoryController_def)
next
  case (Some k)
  show ?thesis
  proof (cases "k < 1 \<or> k > logControllerHistoryMaxLines")
    case True
    with Some show ?thesis by (simp add: GetLogHistoryController_def)
  next
    case False
    let ?ls = "keep (nat k) (filter (search_matches target) (keep (capacity n) (map truncated ms)))"
    from Some False Search_after_pushes [OF assms, of k target]
    have "GetLogHistoryController target linesStr lh = Lines ?ls"
      by (simp add: GetLogHistoryController_def)
    moreover have "length (msg_Message m) \<le> 259 \<and> (target = MessageAllTargets \<or> msg_Target m = target)"
      if "m \<in> set ?ls" for m
      using keep_subset [OF that] by (auto simp: search_matches_target truncated_length dest!: keep_subset)
    moreover have "int (length ?ls) \<le> logControllerHistoryMaxLines"
      using keep_length(1) [of "nat k" "filter (search_matches target) (keep (capacity n) (map truncated ms))"] False
      by linarith
    ultimately show ?thesis by simp
  qed
qed

definition note_message :: "string \<Rightarrow> string \<Rightarrow> message" where
  "note_message t s = NewMessage 1 MessageInfo t s"

theorem history_answer_bounded_witness:
  "GetLogHistoryController ''vm'' ''2'' (the (push_all [note_message ''vm'' ''a''] (NewLogHistory 1))) \<noteq> HistoryPanic"
proof -
  obtain lh where "push_all [note_message ''vm'' ''a''] (NewLogHistory 1) = Some lh"
    using push_all_NewLogHistory by blast
  with history_answer_bounded [OF this, of "''vm''" "''2''"] show ?thesis by auto
qed



text \<open>A VM phoning home wakes exactly the registered waiters that wait for its secret, or for any secret.\<close>

theorem phone_client_delivery:
  assumes "hub_ok h" and "\<forall>ev\<in>set evs. \<not> touches c ev"
    and "phone_Register secretUUID h = (h1, c)"
  shows "inbox (client_at (hub_run phone_Broadcast evs h1) c) =
      filter (\<lambda>call. secretUUID = [] \<or> call_SecretUUID call = secretUUID) (broadcasts evs)"
proof -
  have "hub_ok h1" and "c \<in> set (hub_clients h1)"
    and "client_at h1 c = \<lparr>hc_target = secretUUID, hc_trace = False, inbox = [], closed = False\<rparr>"
    using assms(3) phone_hub.step_ok [OF assms(1), of "EvRegister secretUUID False"]
    by (auto simp: phone_Register_def hub_Register_def Let_def)
  with phone_hub.run_delivers [OF this(1,2) assms(2)] show ?thesis
    by (auto simp: hub_view_def phone_wants_def intro!: filter_cong)
qed

theorem phone_client_delivery_witness:
  "inbox (client_at (hub_run phone_Broadcast
      [EvBroadcast \<lparr>call_SecretUUID = ''s1'', RemoteIP = ''10.0.0.1'', CloutInit = True\<rparr>,
       EvBroadcast \<lparr>call_SecretUUID = ''s2'', RemoteIP = ''10.0.0.2'', CloutInit = True\<rparr>]
      (fst (phone_Register ''s2'' NewHub))) 0) =
     [\<lparr>call_SecretUUID = ''s2'', RemoteIP = ''10.0.0.2'', CloutInit = True\<rparr>]"
proof -
  have "phone_Register ''s2'' NewHub = (fst (phone_Register ''s2'' NewHub), 0)"
    by (simp add: phone_Register_def hub_Register_def NewHub_def)
  from phone_client_delivery [OF hub_ok_NewHub _ this] show ?thesis by simp
qed

text \<open>C39. What is logged can be searched: after any calls of the loggers, a search for a target returns the latest
  messages sent with that target, those of type NOOP and TRACE left out, and every client got its own.\<close>

theorem logged_is_searchable:
  assumes "target \<noteq> MessageAllTargets" and "hub_ok h"
  shows "\<exists>lh h'. log_all lms (NewLogHistory n, h) = Some (lh, h') \<and> hub_ok h' \<and>
    Search (int k) target lh =
      Some (keep k (filter (\<lambda>m. msg_Target m = target) (keep (capacity n) (map truncated (filter kept (sent lms))))))"
proof -
  obtain lh as where p: "push_all (filter kept (sent lms)) (NewLogHistory n) = Some lh"
    using push_all_NewLogHistory by blast
  have "search_matches target = (\<lambda>m. msg_Target m = target)"
    using assms(1) by (simp add: search_matches_target fun_eq_iff)
  with p Search_after_pushes [OF p, of "int k" target] log_hub.run_ok [OF assms(2)] show ?thesis
    by (simp add: log_all_split)
qed

theorem logged_is_searchable_witness:
  "\<exists>lh h'. log_all [(\<lparr>log_target = ''vm''\<rparr>, note_message [] ''x''), (\<lparr>log_target = []\<rparr>, note_message [] ''y'')]
     (NewLogHistory 5, NewHub) = Some (lh, h') \<and>
     Search 3 ''vm'' lh = Some [note_message ''vm'' ''x'']"
proof -
  let ?lms = "[(\<lparr>log_target = ''vm''\<rparr>, note_message [] ''x''), (\<lparr>log_target = []\<rparr>, note_message [] ''y'')]"
  have k: "keep (Suc (Suc (Suc 0))) (filter (\<lambda>m. msg_Target m = ''vm'') (keep (capacity 5) (map truncated (filter kept (sent ?lms))))) =
      [note_message ''vm'' ''x'']"
    by (simp add: sent_def kept_def note_message_def NewMessage_def truncated_def logHistoryMaxMessageLen_def
        keep_def capacity_def MessageInfo_def MessageNoop_def MessageTrace_def)
  have "''vm'' \<noteq> MessageAllTargets" by (simp add: MessageAllTargets_def)
  from logged_is_searchable [OF this hub_ok_NewHub, of ?lms 5 "Suc (Suc (Suc 0))"] show ?thesis
    unfolding k by (auto simp: numeral_3_eq_3)
qed

end
