(* ===== verification/App_State.thy ===== *)
theory App_State
  imports Server_Config Secrets Backups
begin

text \<open>
  The state of the server as its long operations share it (\<open>App\<close> of \<open>app.go\<close>) and what they ask
  of the outside: the operating system, libvirt, the remote shells, the git and HTTP clients. What
  lies outside is a value of an arbitrary type and each call is a function of it that returns the
  changed outside and the answer, so a theorem that holds for every such record of functions holds
  for every behaviour of the outside, failures at any call included. A libvirt object is denoted
  by its name. Operations run one after the other: what other requests do meanwhile is not part
  of the model.
\<close>

subsection \<open>Libvirt\<close>

datatype lv_error = LvNoDomain | LvNoStorageVol | LvOther string

datatype dom_state =
    DomNoState | DomRunning | DomBlocked | DomPaused | DomShutdown | DomCrashed | DomPMSuspended | DomShutoff | DomUnknown

datatype pool_name = PoolSeeds | PoolDisks | PoolBackups

record dhcp_host =
  dh_Name :: string
  dh_MAC :: string
  dh_IP :: string

text \<open>The parts of a domain description the code reads or writes.\<close>

record xml_disk =
  xd_Alias :: "string option"
  xd_File :: string
  xd_Dev :: string

record xml_filter =
  xf_Filter :: string
  xf_Params :: "(string \<times> string) list"

record xml_interface =
  xi_Alias :: "string option"
  xi_Bridge :: string
  xi_MAC :: string
  xi_FilterRef :: "xml_filter option"

record xml_domain =
  xm_Name :: string
  xm_Memory :: u64
  xm_VCPU :: int
  xm_SysInfo :: "(string \<times> string) list list"
  xm_Disks :: "xml_disk list"
  xm_Interfaces :: "xml_interface list"

datatype net_command = NetAdd | NetDelete

datatype boot_event = PhoneCall bool string | StateCheck "lv_error + dom_state"

record 'w lv_calls =
  lv_IsAlive :: "'w \<Rightarrow> 'w \<times> (lv_error + bool)"
  lv_NewConnect :: "'w \<Rightarrow> 'w \<times> (lv_error + unit)"
  lv_LookupPool :: "pool_name \<Rightarrow> 'w \<Rightarrow> 'w \<times> (lv_error + unit)"
  lv_LookupNetwork :: "'w \<Rightarrow> 'w \<times> (lv_error + unit)"
  lv_LookupDomain :: "string \<Rightarrow> 'w \<Rightarrow> 'w \<times> (lv_error + unit)"
  lv_DefineDomain :: "xml_domain \<Rightarrow> 'w \<Rightarrow> 'w \<times> (lv_error + unit)"
  lv_GetUUID :: "string \<Rightarrow> 'w \<Rightarrow> 'w \<times> (lv_error + string)"
  lv_Create :: "string \<Rightarrow> 'w \<Rightarrow> 'w \<times> (lv_error + unit)"
  lv_Destroy :: "string \<Rightarrow> 'w \<Rightarrow> 'w \<times> (lv_error + unit)"
  lv_Shutdown :: "string \<Rightarrow> 'w \<Rightarrow> 'w \<times> (lv_error + unit)"
  lv_Undefine :: "string \<Rightarrow> 'w \<Rightarrow> 'w \<times> (lv_error + unit)"
  lv_GetState :: "string \<Rightarrow> 'w \<Rightarrow> 'w \<times> (lv_error + dom_state)"
  lv_GetXML :: "string \<Rightarrow> 'w \<Rightarrow> 'w \<times> (lv_error + xml_domain)"
  lv_Attach :: "string \<Rightarrow> xml_disk \<Rightarrow> 'w \<Rightarrow> 'w \<times> (lv_error + unit)"
  lv_Detach :: "string \<Rightarrow> xml_disk \<Rightarrow> 'w \<Rightarrow> 'w \<times> (lv_error + unit)"
  lv_Refresh :: "pool_name \<Rightarrow> 'w \<Rightarrow> 'w \<times> (lv_error + unit)"
  lv_VolLookup :: "pool_name \<Rightarrow> string \<Rightarrow> 'w \<Rightarrow> 'w \<times> (lv_error + unit)"
  lv_VolCreate :: "pool_name \<Rightarrow> string \<Rightarrow> 'w \<Rightarrow> 'w \<times> (lv_error + unit)"
  lv_VolDelete :: "pool_name \<Rightarrow> string \<Rightarrow> 'w \<Rightarrow> 'w \<times> (lv_error + unit)"
  lv_VolResize :: "pool_name \<Rightarrow> string \<Rightarrow> u64 \<Rightarrow> 'w \<Rightarrow> 'w \<times> (lv_error + unit)"
  lv_VolGetInfo :: "pool_name \<Rightarrow> string \<Rightarrow> 'w \<Rightarrow> 'w \<times> (lv_error + u64)"
  lv_VolCopy :: "pool_name \<Rightarrow> string \<Rightarrow> pool_name \<Rightarrow> string \<Rightarrow> 'w \<Rightarrow> 'w \<times> (lv_error + unit)"
  lv_VolUpload :: "string \<Rightarrow> pool_name \<Rightarrow> string \<Rightarrow> 'w \<Rightarrow> 'w \<times> (lv_error + unit)"
  lv_VolDownload :: "pool_name \<Rightarrow> string \<Rightarrow> string \<Rightarrow> 'w \<Rightarrow> 'w \<times> (lv_error + unit)"
  lv_NetUpdate :: "net_command \<Rightarrow> dhcp_host \<Rightarrow> 'w \<Rightarrow> 'w \<times> (lv_error + unit)"
  lv_NetHosts :: "'w \<Rightarrow> 'w \<times> (lv_error + dhcp_host list)"

subsection \<open>The operating system and the remote machines\<close>

record run_task =
  rt_ScriptName :: string
  rt_Script :: string
  rt_As :: string
  rt_Arguments :: string
  rt_EnvWords :: "(string \<times> string) list"

record http_head =
  hh_Status :: int
  hh_LastModified :: "string"
  hh_Length :: "string"

text \<open>A request to a peer server and its answer; an uploaded volume is named, its content is not kept.\<close>

record peer_request =
  pq_Peer :: string
  pq_Method :: string
  pq_Path :: string
  pq_Args :: "(string \<times> string) list"
  pq_File :: "(string \<times> string) option"

record peer_answer =
  pa_UploadError :: "string option"
  pa_Status :: int
  pa_ContentType :: string
  pa_Body :: string
  pa_Messages :: "(string \<times> string) list"
  pa_Broken :: "string option"

record 'w os_calls =
  os_Now :: "'w \<Rightarrow> 'w \<times> time"
  os_VmdbEnv :: "'w \<Rightarrow> 'w \<times> vmdb_env"
  os_Write :: "'w \<Rightarrow> 'w \<times> io_write"
  os_UUID :: "'w \<Rightarrow> 'w \<times> (string + string)"
  os_Rand :: "int \<Rightarrow> 'w \<Rightarrow> 'w \<times> int"
  os_Open :: "string \<Rightarrow> 'w \<Rightarrow> 'w \<times> (string + string)"
  os_CreateTemp :: "'w \<Rightarrow> 'w \<times> (string + string)"
  os_Remove :: "string \<Rightarrow> 'w \<Rightarrow> 'w \<times> (string + unit)"
  os_QemuImg :: "string list \<Rightarrow> 'w \<Rightarrow> 'w \<times> (string + unit)"
  os_VmXml :: "string \<Rightarrow> 'w \<Rightarrow> 'w \<times> (string + xml_domain)"
  os_DiskXml :: "string \<Rightarrow> 'w \<Rightarrow> 'w \<times> (string + xml_disk)"
  os_HttpGet :: "string \<Rightarrow> 'w \<Rightarrow> 'w \<times> (string + int \<times> string)"
  os_HttpHead :: "string \<Rightarrow> 'w \<Rightarrow> 'w \<times> (string + http_head)"
  os_HttpFetch :: "string \<Rightarrow> 'w \<Rightarrow> 'w \<times> (string + http_head)"
  os_CopyBody :: "string \<Rightarrow> string \<Rightarrow> 'w \<Rightarrow> 'w \<times> (string + unit)"
  os_Peer :: "peer_request \<Rightarrow> 'w \<Rightarrow> 'w \<times> (string + peer_answer)"
  os_GitClone :: "string \<Rightarrow> string \<Rightarrow> string option \<Rightarrow> 'w \<Rightarrow> 'w \<times> (string + (string, string) gomap)"
  os_BootEvents :: "string \<Rightarrow> duration \<Rightarrow> 'w \<Rightarrow> 'w \<times> boot_event list"
  os_StateTicks :: "string \<Rightarrow> duration \<Rightarrow> 'w \<Rightarrow> 'w \<times> (lv_error + dom_state) list"
  os_DiskTicks :: "string \<Rightarrow> 'w \<Rightarrow> 'w \<times> (lv_error + bool) list"
  os_RunSsh :: "string \<Rightarrow> string \<Rightarrow> run_task list \<Rightarrow> 'w \<Rightarrow> 'w \<times> string list \<times> string option"
  os_ForceDelete :: "'w \<Rightarrow> 'w \<times> bool"

text \<open>Pure third-party functions: the TOML decoder of VM files, the parsers of \<open>env_raw\<close>, of private keys, of dates.\<close>

record toml_action =
  ta_Name :: string
  ta_Script :: string
  ta_User :: string
  ta_Description :: string

record toml_vm =
  tv_Name :: string
  tv_Hostname :: string
  tv_Timezone :: string
  tv_AppUser :: string
  tv_Seed :: string
  tv_InitUpgrade :: bool
  tv_DiskSize :: u64
  tv_RAMSize :: u64
  tv_CPUCount :: int
  tv_Domains :: "string list"
  tv_RedirectToHTTPS :: bool
  tv_RateProfile :: string
  tv_Redirects :: "string list list"
  tv_Env :: "string list list"
  tv_Secrets :: "string list"
  tv_EnvRaw :: string
  tv_Ports :: "string list"
  tv_BackupDiskSize :: u64
  tv_BackupCompress :: bool
  tv_RestoreBackup :: string
  tv_AutoRebuild :: string
  tv_BuildTimeout :: string
  tv_PreparePrefixURL :: string
  tv_Prepare :: "string list"
  tv_InstallPrefixURL :: string
  tv_Install :: "string list"
  tv_BackupPrefixURL :: string
  tv_Backup :: "string list"
  tv_RestorePrefixURL :: string
  tv_Restore :: "string list"
  tv_DoActions :: "toml_action list"
  tv_Tags :: "string list"

record parsers =
  px_TomlVm :: "string \<Rightarrow> toml_vm \<Rightarrow> string + toml_vm \<times> string list"
  px_Dotenv :: "string \<Rightarrow> string + (string, string) gomap"
  px_PrivateKey :: "string \<Rightarrow> unit option"
  px_HttpTime :: "string \<Rightarrow> time option"
  px_TimeText :: "time \<Rightarrow> string"
  px_JoinURL :: "string \<Rightarrow> string \<Rightarrow> string + string"

record 'w ext =
  x_lv :: "'w lv_calls"
  x_os :: "'w os_calls"
  x_px :: parsers

subsection \<open>The state\<close>

record git_cache =
  gc_created :: time
  gc_lastUsed :: time
  gc_fs :: "(string, string) gomap"

record script_origin =
  so_Config :: config_origin
  so_cache :: "git_cache option"

record seed =
  sd_Name :: string
  sd_URL :: string
  sd_Seeder :: string
  sd_Ready :: bool
  sd_LastModified :: time
  sd_Size :: u64
  sd_Status :: string
  sd_StatusTime :: time
  sd_PausedUntil :: time

record seed_db =
  seeds :: "(string, seed) gomap"
  seeds_file :: "(string, seed) gomap dbfile"

record libvirt =
  lvs_pools :: "pool_name \<Rightarrow> bool"
  lvs_network :: bool
  lvs_Address :: string
  lvs_Bridge :: string
  lvs_GatewayMAC :: string
  lvs_RangeStart :: string
  lvs_RangeEnd :: string
  lvs_Hosts :: "dhcp_host list"
  lvs_leases :: "dhcp_host list"
  lvs_DisksPath :: string
  lvs_BackupsPath :: string

record 'w app =
  ap_config :: server_config
  ap_vmdb :: vmdb
  ap_secrets :: secret_db
  ap_backups :: backup_db
  ap_pairs :: pair_db
  ap_seeds :: seed_db
  ap_origins :: "(string, script_origin) gomap"
  ap_libvirt :: libvirt
  ap_world :: 'w

datatype app_error =
    Failed string "string list"
  | FromLibvirt lv_error
  | FromVmdb vmdb_error
  | FromDb db_error
  | FromSecrets secret_error
  | FromPorts port_error
  | NilPointer string
  | NotReturned

text \<open>An error wrapped in another one; a panic and a call that does not return stay what they are.\<close>

definition failed_as :: "app_error \<Rightarrow> app_error \<Rightarrow> app_error" where
  "failed_as e' e = (case e of NilPointer p \<Rightarrow> e | NotReturned \<Rightarrow> e | _ \<Rightarrow> e')"

type_synonym ('w, 'a) app_act = "('w app, app_error, 'a) act"

subsection \<open>Calls\<close>

definition askA :: "('w \<Rightarrow> 'w \<times> 'a) \<Rightarrow> ('w, 'a) app_act" where
  "askA f = (\<lambda>s. case f (ap_world s) of (w, r) \<Rightarrow> (s\<lparr>ap_world := w\<rparr>, Inr r))"

definition callA :: "('e \<Rightarrow> app_error) \<Rightarrow> ('w \<Rightarrow> 'w \<times> ('e + 'a)) \<Rightarrow> ('w, 'a) app_act" where
  "callA g f = (\<lambda>s. case f (ap_world s) of
     (w, Inl e) \<Rightarrow> (s\<lparr>ap_world := w\<rparr>, Inl (g e)) | (w, Inr r) \<Rightarrow> (s\<lparr>ap_world := w\<rparr>, Inr r))"

definition lvA :: "('w \<Rightarrow> 'w \<times> (lv_error + 'a)) \<Rightarrow> ('w, 'a) app_act" where
  "lvA = callA FromLibvirt"

definition osA :: "string \<Rightarrow> ('w \<Rightarrow> 'w \<times> (string + 'a)) \<Rightarrow> ('w, 'a) app_act" where
  "osA what = callA (\<lambda>e. Failed what [e])"

definition nowA :: "'w ext \<Rightarrow> ('w, time) app_act" where "nowA x = askA (os_Now (x_os x))"

text \<open>A method of the VM database, and a save of another database.\<close>

definition vmdbA :: "'w ext \<Rightarrow> (vmdb_env \<Rightarrow> vmdb \<Rightarrow> vmdb \<times> vmdb_error option) \<Rightarrow> ('w, unit) app_act" where
  "vmdbA x f = bindA (askA (os_VmdbEnv (x_os x))) (\<lambda>env s.
     case f env (ap_vmdb s) of
       (d, None) \<Rightarrow> (s\<lparr>ap_vmdb := d\<rparr>, Inr ()) | (d, Some e) \<Rightarrow> (s\<lparr>ap_vmdb := d\<rparr>, Inl (FromVmdb e)))"

definition backupsA :: "'w ext \<Rightarrow> (io_write \<Rightarrow> backup_db \<Rightarrow> backup_db \<times> db_error option) \<Rightarrow> ('w, unit) app_act" where
  "backupsA x f = bindA (askA (os_Write (x_os x))) (\<lambda>w s.
     case f w (ap_backups s) of
       (d, None) \<Rightarrow> (s\<lparr>ap_backups := d\<rparr>, Inr ()) | (d, Some e) \<Rightarrow> (s\<lparr>ap_backups := d\<rparr>, Inl (FromDb e)))"

definition lookupA :: "('w app \<Rightarrow> vmdb_error + 'a) \<Rightarrow> ('w, 'a) app_act" where
  "lookupA f = readA (\<lambda>s. case f s of Inl e \<Rightarrow> Inl (FromVmdb e) | Inr v \<Rightarrow> Inr v)"

definition getA :: "('w app \<Rightarrow> 'a) \<Rightarrow> ('w, 'a) app_act" where "getA f = (\<lambda>s. (s, Inr (f s)))"

lemma keeps_call:
  assumes "\<And>s w. P s \<Longrightarrow> P (s\<lparr>ap_world := w\<rparr>)"
  shows "keeps P (askA f)" "keeps P (callA g h)" "keeps P (lvA h')" "keeps P (osA what h'')" "keeps P (nowA x)"
  using assms
  by (auto simp: keeps_def askA_def callA_def lvA_def osA_def nowA_def split: prod.splits sum.splits)

lemma keeps_get [keeps_rules]: "keeps P (getA f)" "keeps P (lookupA g)"
  by (auto simp: keeps_def getA_def lookupA_def readA_def)

lemma keeps_vmdbA:
  assumes "\<And>s w. P s \<Longrightarrow> P (s\<lparr>ap_world := w\<rparr>)"
    and "\<And>s env. P s \<Longrightarrow> P (s\<lparr>ap_vmdb := fst (f env (ap_vmdb s))\<rparr>)"
  shows "keeps P (vmdbA x f)"
  unfolding vmdbA_def
proof (rule keeps_bind)
  show "keeps P (askA (os_VmdbEnv (x_os x)))" using assms(1) by (rule keeps_call)
  show "keeps P (\<lambda>s. case f env (ap_vmdb s) of (d, None) \<Rightarrow> (s\<lparr>ap_vmdb := d\<rparr>, Inr ())
      | (d, Some e) \<Rightarrow> (s\<lparr>ap_vmdb := d\<rparr>, Inl (FromVmdb e)))" for env
  proof (rule keepsI)
    fix s assume "P s"
    obtain d r where f: "f env (ap_vmdb s) = (d, r)" by fastforce
    with assms(2) [OF \<open>P s\<close>, of env] have "P (s\<lparr>ap_vmdb := d\<rparr>)" by simp
    with f show "P (fst (case f env (ap_vmdb s) of (d, None) \<Rightarrow> (s\<lparr>ap_vmdb := d\<rparr>, Inr ())
      | (d, Some e) \<Rightarrow> (s\<lparr>ap_vmdb := d\<rparr>, Inl (FromVmdb e))))" by (cases r) simp_all
  qed
qed

lemma keeps_backupsA:
  assumes "\<And>s w. P s \<Longrightarrow> P (s\<lparr>ap_world := w\<rparr>)" and "\<And>s d. P s \<Longrightarrow> P (s\<lparr>ap_backups := d\<rparr>)"
  shows "keeps P (backupsA x f)"
  unfolding backupsA_def
  by (rule keeps_bind, rule keeps_call, rule assms(1))
    (auto simp: keeps_def assms(2) split: prod.splits option.splits)

end
