(* ===== verification/Libvirt.thy ===== *)
theory Libvirt
  imports App_State
begin

text \<open>
  The server's layer over libvirt: connections, volumes and domains (\<open>libvirt.go\<close>), static DHCP
  leases (\<open>libvirt_dhcp.go\<close>), random unique addresses (\<open>network.go\<close>). A pool handle that a failed
  reconnection left nil is remembered: using it is a nil dereference. The transfer of a volume is
  one call of the outside.
\<close>

text \<open>A call whose error is a value for the caller; a panic and a loop that does not end are not.\<close>

definition resultA :: "('w, 'a) app_act \<Rightarrow> ('w, app_error + 'a) app_act" where
  "resultA m =
     bindA (attempt m) (\<lambda>r.
     case r of
       Inl e \<Rightarrow> (case e of NilPointer p \<Rightarrow> fail e | NotReturned \<Rightarrow> fail e | _ \<Rightarrow> ret r)
     | Inr _ \<Rightarrow> ret r)"

lemma keeps_resultA [keeps_rules]: "keeps P m \<Longrightarrow> keeps P (resultA m)"
  unfolding resultA_def
  by (rule keeps_bind, erule keeps_attempt) (auto simp: keeps_ret keeps_fail split: sum.split app_error.split)

subsection \<open>The connection\<close>

text \<open>\<open>lv.Pools.X, err = conn.LookupStoragePoolByName(...)\<close> assigns the handle, nil on an error.\<close>

definition lookup_pool :: "'w ext \<Rightarrow> pool_name \<Rightarrow> ('w, unit) app_act" where
  "lookup_pool x p =
     bindA (attempt (lvA (lv_LookupPool (x_lv x) p))) (\<lambda>r.
     bindA (changeA (\<lambda>s. s\<lparr>ap_libvirt := (ap_libvirt s)\<lparr>lvs_pools := (lvs_pools (ap_libvirt s))(p := \<not> isl r)\<rparr>\<rparr>)) (\<lambda>_.
     pureA r))"

definition lookup_network :: "'w ext \<Rightarrow> ('w, unit) app_act" where
  "lookup_network x =
     bindA (attempt (lvA (lv_LookupNetwork (x_lv x)))) (\<lambda>r.
     bindA (changeA (\<lambda>s. s\<lparr>ap_libvirt := (ap_libvirt s)\<lparr>lvs_network := \<not> isl r\<rparr>\<rparr>)) (\<lambda>_.
     pureA r))"

definition GetConnection :: "'w ext \<Rightarrow> ('w, unit) app_act" where
  "GetConnection x =
     bindA (lvA (lv_IsAlive (x_lv x))) (\<lambda>alive.
     if alive then ret ()
     else bindA (lvA (lv_NewConnect (x_lv x))) (\<lambda>_.
          bindA (lookup_pool x PoolSeeds) (\<lambda>_.
          bindA (lookup_pool x PoolDisks) (\<lambda>_.
          bindA (lookup_pool x PoolBackups) (\<lambda>_.
          lookup_network x)))))"

text \<open>A call on a pool: a nil handle is dereferenced.\<close>

definition poolA :: "pool_name \<Rightarrow> ('w \<Rightarrow> 'w \<times> (lv_error + 'a)) \<Rightarrow> ('w, 'a) app_act" where
  "poolA p f =
     bindA (getA (\<lambda>s. lvs_pools (ap_libvirt s) p)) (\<lambda>handle.
     if handle then lvA f else fail (NilPointer ''pool''))"

definition GetDomainByName :: "'w ext \<Rightarrow> string \<Rightarrow> ('w, bool) app_act" where
  "GetDomainByName x domainName =
     bindA (GetConnection x) (\<lambda>_.
     bindA (attempt (lvA (lv_LookupDomain (x_lv x) domainName))) (\<lambda>r.
     case r of Inr _ \<Rightarrow> ret True
     | Inl e \<Rightarrow> if e = FromLibvirt LvNoDomain then ret False else fail e))"

subsection \<open>Volumes\<close>

definition DeleteVolume :: "'w ext \<Rightarrow> string \<Rightarrow> pool_name \<Rightarrow> ('w, unit) app_act" where
  "DeleteVolume x name p =
     bindA (poolA p (lv_VolLookup (x_lv x) p name)) (\<lambda>_.
     lvA (lv_VolDelete (x_lv x) p name))"

definition VolumeInfos :: "'w ext \<Rightarrow> string \<Rightarrow> pool_name \<Rightarrow> ('w, u64) app_act" where
  "VolumeInfos x name p =
     bindA (poolA p (lv_VolLookup (x_lv x) p name)) (\<lambda>_.
     lvA (lv_VolGetInfo (x_lv x) p name))"

definition ResizeDisk :: "'w ext \<Rightarrow> string \<Rightarrow> u64 \<Rightarrow> pool_name \<Rightarrow> ('w, unit) app_act" where
  "ResizeDisk x disk size_bytes p =
     bindA (poolA PoolSeeds (lv_Refresh (x_lv x) PoolSeeds)) (\<lambda>_.
     bindA (poolA p (lv_VolLookup (x_lv x) p disk)) (\<lambda>_.
     lvA (lv_VolResize (x_lv x) p disk size_bytes)))"

definition create_volume :: "'w ext \<Rightarrow> string \<Rightarrow> pool_name \<Rightarrow> string \<Rightarrow> ('w, unit) app_act" where
  "create_volume x template p name =
     bindA (osA ''template'' (os_Open (x_os x) template)) (\<lambda>_.
     poolA p (lv_VolCreate (x_lv x) p name))"

definition CloneVolume ::
  "'w ext \<Rightarrow> string \<Rightarrow> pool_name \<Rightarrow> string \<Rightarrow> pool_name \<Rightarrow> string \<Rightarrow> ('w, unit) app_act" where
  "CloneVolume x srcVolName srcPool dstVolName dstPool template =
     bindA (GetConnection x) (\<lambda>_.
     bindA (poolA PoolSeeds (lv_Refresh (x_lv x) PoolSeeds)) (\<lambda>_.
     bindA (poolA srcPool (lv_VolLookup (x_lv x) srcPool srcVolName)) (\<lambda>_.
     bindA (create_volume x template dstPool dstVolName) (\<lambda>_.
     lvA (lv_VolCopy (x_lv x) srcPool srcVolName dstPool dstVolName)))))"

definition CreateDiskFromSeed :: "'w ext \<Rightarrow> string \<Rightarrow> string \<Rightarrow> string \<Rightarrow> ('w, unit) app_act" where
  "CreateDiskFromSeed x seed_volume disk template = CloneVolume x seed_volume PoolSeeds disk PoolDisks template"

definition UploadFileToLibvirtFromReader ::
  "'w ext \<Rightarrow> pool_name \<Rightarrow> string \<Rightarrow> string \<Rightarrow> string \<Rightarrow> ('w, unit) app_act" where
  "UploadFileToLibvirtFromReader x p template source_content asName =
     bindA (GetConnection x) (\<lambda>_.
     bindA (create_volume x template p asName) (\<lambda>_.
     lvA (lv_VolUpload (x_lv x) source_content p asName)))"

definition UploadFileToLibvirt ::
  "'w ext \<Rightarrow> pool_name \<Rightarrow> string \<Rightarrow> string \<Rightarrow> string \<Rightarrow> ('w, unit) app_act" where
  "UploadFileToLibvirt x p template localSourceFile asName =
     bindA (osA ''open'' (os_Open (x_os x) localSourceFile)) (\<lambda>content.
     UploadFileToLibvirtFromReader x p template content asName)"

text \<open>
  \<open>BackupCompress\<close>: the volume is deleted before the compressed file is uploaded under its name.
  The deferred removals of the temporary files run last.
\<close>

definition BackupCompress :: "'w ext \<Rightarrow> string \<Rightarrow> string \<Rightarrow> ('w, unit) app_act" where
  "BackupCompress x volName template =
     bindA (GetConnection x) (\<lambda>_.
     bindA (VolumeInfos x volName PoolBackups) (\<lambda>_.
     bindA (resultA (osA ''qemu-img'' (os_QemuImg (x_os x) [''-V'']))) (\<lambda>available.
     if isl available then ret ()
     else
     bindA (osA ''temp'' (os_CreateTemp (x_os x))) (\<lambda>uncomp.
     deferA (osA ''remove'' (os_Remove (x_os x) uncomp)) (
     bindA (osA ''temp'' (os_CreateTemp (x_os x))) (\<lambda>comp.
     deferA (osA ''remove'' (os_Remove (x_os x) comp)) (
     bindA (resultA (poolA PoolBackups (lv_VolLookup (x_lv x) PoolBackups volName))) (\<lambda>found.
     if isl found then ret ()
     else
     bindA (lvA (lv_VolDownload (x_lv x) PoolBackups volName uncomp)) (\<lambda>_.
     bindA (resultA (osA ''qemu-img''
       (os_QemuImg (x_os x) [''convert'', ''-O'', ''qcow2'', ''-c'', uncomp, comp]))) (\<lambda>converted.
     if isl converted then ret ()
     else
     bindA (lvA (lv_VolDelete (x_lv x) PoolBackups volName)) (\<lambda>_.
     bindA (UploadFileToLibvirt x PoolBackups template comp volName) (\<lambda>_.
     bindA (VolumeInfos x volName PoolBackups) (\<lambda>_. ret ())))))))))))))"

definition LibvirtDomainStateToString :: "dom_state \<Rightarrow> string" where
  "LibvirtDomainStateToString st =
     (case st of DomNoState \<Rightarrow> ''no state'' | DomRunning \<Rightarrow> ''up'' | DomBlocked \<Rightarrow> ''blocked on resource''
      | DomPaused \<Rightarrow> ''paused by user'' | DomShutdown \<Rightarrow> ''going down'' | DomCrashed \<Rightarrow> ''crashed''
      | DomPMSuspended \<Rightarrow> ''sleeping'' | DomShutoff \<Rightarrow> ''down'' | DomUnknown \<Rightarrow> ''unknown'')"

subsection \<open>Static DHCP leases\<close>

definition findByHost :: "dhcp_host list \<Rightarrow> string \<Rightarrow> dhcp_host option" where
  "findByHost leases host = find (\<lambda>lease. dh_Name lease = host) leases"

definition known_host :: "dhcp_host list \<Rightarrow> string \<Rightarrow> bool" where
  "known_host hosts name \<longleftrightarrow> list_ex (\<lambda>host. dh_Name host = name) hosts"

definition lease_stale :: "'w app \<Rightarrow> dhcp_host \<Rightarrow> bool" where
  "lease_stale s host \<longleftrightarrow>
     has_prefix (sc_VMPrefix (ap_config s)) (dh_Name host) \<and>
     isl (GetByNameID (ap_vmdb s) (drop (length (sc_VMPrefix (ap_config s))) (dh_Name host))) \<and>
     findByHost (lvs_leases (ap_libvirt s)) (dh_Name host) = None"

definition vm_lease :: "string \<Rightarrow> vm_name \<Rightarrow> vm \<Rightarrow> dhcp_host" where
  "vm_lease vm_prefix name vm =
     \<lparr>dh_Name = LibvirtDomainName vm_prefix name, dh_MAC = AssignedMAC vm, dh_IP = AssignedIPv4 vm\<rparr>"

text \<open>The leases of the VMs and of the VMs being built that libvirt does not have.\<close>

definition leases_to_add :: "'w app \<Rightarrow> vmdb_error + dhcp_host list" where
  "leases_to_add s =
     (let hosts = lvs_Hosts (ap_libvirt s); vm_prefix = sc_VMPrefix (ap_config s) in
      case mapE (\<lambda>name. case GetByName (ap_vmdb s) name of Inl e \<Rightarrow> Inl e | Inr vm \<Rightarrow> Inr (vm_lease vm_prefix name vm))
             (filter (\<lambda>name. \<not> known_host hosts (LibvirtDomainName vm_prefix name)) (GetNames (ap_vmdb s))) of
        Inl e \<Rightarrow> Inl e
      | Inr leases \<Rightarrow>
          Inr (leases @ filter (\<lambda>lease. \<not> known_host hosts (dh_Name lease)) (lvs_leases (ap_libvirt s))))"

definition networkA :: "('w \<Rightarrow> 'w \<times> (lv_error + 'a)) \<Rightarrow> ('w, 'a) app_act" where
  "networkA f =
     bindA (getA (\<lambda>s. lvs_network (ap_libvirt s))) (\<lambda>handle.
     if handle then lvA f else fail (NilPointer ''network''))"

definition RebuildDHCPStaticLeases :: "'w ext \<Rightarrow> ('w, unit) app_act" where
  "RebuildDHCPStaticLeases x =
     bindA (GetConnection x) (\<lambda>_.
     bindA (getA (\<lambda>s. filter (lease_stale s) (lvs_Hosts (ap_libvirt s)))) (\<lambda>hostsToDelete.
     bindA (lookupA leases_to_add) (\<lambda>hostsToAdd.
     bindA (forA (\<lambda>host. networkA (lv_NetUpdate (x_lv x) NetDelete host)) hostsToDelete) (\<lambda>_.
     bindA (forA (\<lambda>host. networkA (lv_NetUpdate (x_lv x) NetAdd host)) hostsToAdd) (\<lambda>_.
     bindA (networkA (lv_NetHosts (x_lv x))) (\<lambda>hosts.
     changeA (\<lambda>s. s\<lparr>ap_libvirt := (ap_libvirt s)\<lparr>lvs_Hosts := hosts\<rparr>\<rparr>)))))))"

definition AddTransientDHCPHost :: "'w ext \<Rightarrow> dhcp_host \<Rightarrow> ('w, unit) app_act" where
  "AddTransientDHCPHost x newHost =
     bindA (changeA (\<lambda>s. s\<lparr>ap_libvirt := (ap_libvirt s)\<lparr>lvs_leases := lvs_leases (ap_libvirt s) @ [newHost]\<rparr>\<rparr>)) (\<lambda>_.
     RebuildDHCPStaticLeases x)"

definition RemoveTransientDHCPHost :: "'w ext \<Rightarrow> dhcp_host \<Rightarrow> ('w, unit) app_act" where
  "RemoveTransientDHCPHost x newHost =
     bindA (changeA (\<lambda>s. s\<lparr>ap_libvirt := (ap_libvirt s)\<lparr>lvs_leases := remove1 newHost (lvs_leases (ap_libvirt s))\<rparr>\<rparr>)) (\<lambda>_.
     RebuildDHCPStaticLeases x)"

subsection \<open>Random unique addresses\<close>

type_synonym u32 = "32 word"

definition hex_byte :: "int \<Rightarrow> string" where
  "hex_byte n = [''0123456789abcdef'' ! nat (n div 16 mod 16), ''0123456789abcdef'' ! nat (n mod 16)]"

definition mac_of :: "int \<Rightarrow> int \<Rightarrow> int \<Rightarrow> string" where
  "mac_of a b c = ''52:54:00:'' @ hex_byte a @ '':'' @ hex_byte b @ '':'' @ hex_byte c"

definition octet :: "string \<Rightarrow> nat option" where
  "octet s =
     (if s = [] \<or> \<not> list_all is_digit s \<or> (1 < length s \<and> hd s = CHR ''0'') then None
      else if 255 < digits_val s then None else Some (digits_val s))"

text \<open>\<open>net.ParseIP\<close> for IPv4 in dotted form; what does not parse reads as 0.\<close>

definition IPStringToInt :: "string \<Rightarrow> u32" where
  "IPStringToInt ip =
     (case map octet (go_split ''.'' ip) of
        [Some a, Some b, Some c, Some d] \<Rightarrow> word_of_int (((int a * 256 + int b) * 256 + int c) * 256 + int d)
      | _ \<Rightarrow> 0)"

definition IPIntToString :: "u32 \<Rightarrow> string" where
  "IPIntToString ipn =
     (let n = uint ipn in
      itoa (n div 16777216) @ ''.'' @ itoa (n div 65536 mod 256) @ ''.'' @
      itoa (n div 256 mod 256) @ ''.'' @ itoa (n mod 256))"

definition mac_used :: "vmdb \<Rightarrow> string \<Rightarrow> bool" where
  "mac_used st mac \<longleftrightarrow> list_ex (\<lambda>name. case GetByName st name of Inr vm \<Rightarrow> AssignedMAC vm = mac | Inl _ \<Rightarrow> False) (GetNames st)"

definition ip_used :: "vmdb \<Rightarrow> dhcp_host list \<Rightarrow> string \<Rightarrow> bool" where
  "ip_used st hosts ip \<longleftrightarrow>
     list_ex (\<lambda>name. case GetByName st name of Inr vm \<Rightarrow> AssignedIPv4 vm = ip | Inl _ \<Rightarrow> False) (GetNames st) \<or>
     list_ex (\<lambda>host. dh_IP host = ip) hosts"

text \<open>The loops draw until an address is free; the fuel bounds the number of draws that are looked at.\<close>

fun RandomUniqueMAC :: "nat \<Rightarrow> 'w ext \<Rightarrow> ('w, string) app_act" where
  "RandomUniqueMAC 0 x = fail NotReturned"
| "RandomUniqueMAC (Suc n) x =
     bindA (askA (os_Rand (x_os x) 255)) (\<lambda>a.
     bindA (askA (os_Rand (x_os x) 255)) (\<lambda>b.
     bindA (askA (os_Rand (x_os x) 255)) (\<lambda>c.
     bindA (getA (\<lambda>s. mac_used (ap_vmdb s) (mac_of a b c))) (\<lambda>used.
     if used then RandomUniqueMAC n x else ret (mac_of a b c)))))"

fun draw_ip :: "nat \<Rightarrow> 'w ext \<Rightarrow> u32 \<Rightarrow> u32 \<Rightarrow> ('w, string) app_act" where
  "draw_ip 0 x ipStart diff = fail NotReturned"
| "draw_ip (Suc n) x ipStart diff =
     bindA (askA (os_Rand (x_os x) (uint diff + 1))) (\<lambda>rnd.
     let ip = IPIntToString (ipStart + word_of_int rnd) in
     bindA (getA (\<lambda>s. ip_used (ap_vmdb s) (lvs_Hosts (ap_libvirt s)) ip)) (\<lambda>used.
     if used then draw_ip n x ipStart diff else ret ip))"

definition RandomUniqueIPv4 :: "nat \<Rightarrow> 'w ext \<Rightarrow> ('w, string) app_act" where
  "RandomUniqueIPv4 n x =
     bindA (getA (\<lambda>s. (IPStringToInt (lvs_RangeStart (ap_libvirt s)), IPStringToInt (lvs_RangeEnd (ap_libvirt s)))))
       (\<lambda>(ipStart, ipEnd).
     if ipStart = 0 \<or> ipEnd = 0 \<or> ipStart \<ge> ipEnd then fail (Failed ''invalid network DHCP range'' [])
     else draw_ip n x ipStart (ipEnd - ipStart))"

subsection \<open>What these operations keep\<close>

text \<open>A property of the state that does not look at the outside nor at the libvirt handles.\<close>

definition outside_free :: "('w app \<Rightarrow> bool) \<Rightarrow> bool" where
  "outside_free P \<longleftrightarrow>
     (\<forall>s w. P s \<longrightarrow> P (s\<lparr>ap_world := w\<rparr>)) \<and> (\<forall>s l. P s \<longrightarrow> P (s\<lparr>ap_libvirt := l\<rparr>)) \<and>
     (\<forall>s c. P s \<longrightarrow> P (s\<lparr>ap_origins := c\<rparr>))"

lemma outside_freeD:
  "outside_free P \<Longrightarrow> P s \<Longrightarrow> P (s\<lparr>ap_world := w\<rparr>)" "outside_free P \<Longrightarrow> P s \<Longrightarrow> P (s\<lparr>ap_libvirt := l\<rparr>)"
  "outside_free P \<Longrightarrow> P s \<Longrightarrow> P (s\<lparr>ap_origins := c\<rparr>)"
  by (auto simp: outside_free_def)

lemma keeps_outside [keeps_rules]:
  assumes "outside_free P"
  shows "keeps P (askA f)" "keeps P (lvA h')" "keeps P (osA what h'')" "keeps P (nowA x)"
    "keeps P (poolA p h')" "keeps P (networkA h')" "keeps P (changeA (\<lambda>s. s\<lparr>ap_libvirt := g s\<rparr>))"
proof -
  have w: "P s \<Longrightarrow> P (s\<lparr>ap_world := w\<rparr>)" for s w by (rule outside_freeD(1) [OF assms])
  note call = keeps_call [of P, OF w]
  show "keeps P (askA f)" "keeps P (lvA h')" "keeps P (osA what h'')" "keeps P (nowA x)"
    by (rule call, assumption)+
  show "keeps P (poolA p h')" "keeps P (networkA h')"
    unfolding poolA_def networkA_def by (rule keeps_rules call | assumption)+
  show "keeps P (changeA (\<lambda>s. s\<lparr>ap_libvirt := g s\<rparr>))"
    by (rule keeps_change) (rule outside_freeD(2) [OF assms])
qed

lemma keeps_libvirt [keeps_rules]:
  assumes P: "outside_free P"
  shows "keeps P (GetConnection x)" "keeps P (GetDomainByName x name)" "keeps P (DeleteVolume x name p)"
    "keeps P (VolumeInfos x name p)" "keeps P (ResizeDisk x name n p)" "keeps P (CloneVolume x a p b q t)"
    "keeps P (CreateDiskFromSeed x a b t)" "keeps P (UploadFileToLibvirtFromReader x p t a b)"
    "keeps P (UploadFileToLibvirt x p t a b)" "keeps P (BackupCompress x a t)"
    "keeps P (RebuildDHCPStaticLeases x)" "keeps P (AddTransientDHCPHost x h)" "keeps P (RemoveTransientDHCPHost x h)"
proof -
  show conn: "keeps P (GetConnection x)" for x
    unfolding GetConnection_def lookup_pool_def lookup_network_def by (intro keeps_rules P)
  show "keeps P (GetDomainByName x name)" for x
    unfolding GetDomainByName_def by (intro keeps_rules conn P)
  show "keeps P (DeleteVolume x name p)" unfolding DeleteVolume_def by (intro keeps_rules P)
  show infos: "keeps P (VolumeInfos x name p)" for x name p unfolding VolumeInfos_def by (intro keeps_rules P)
  show "keeps P (ResizeDisk x name n p)" unfolding ResizeDisk_def by (intro keeps_rules P)
  show clone: "keeps P (CloneVolume x a p b q t)" for a p b q t
    unfolding CloneVolume_def create_volume_def by (intro keeps_rules conn P)
  then show "keeps P (CreateDiskFromSeed x a b t)" unfolding CreateDiskFromSeed_def .
  show up: "keeps P (UploadFileToLibvirtFromReader x p t a b)" for x p t a b
    unfolding UploadFileToLibvirtFromReader_def create_volume_def by (intro keeps_rules conn P)
  show up_file: "keeps P (UploadFileToLibvirt x p t a b)" for x p t a b
    unfolding UploadFileToLibvirt_def by (intro keeps_rules up P)
  show "keeps P (BackupCompress x a t)"
    unfolding BackupCompress_def by (intro keeps_rules conn infos up_file P)
  show dhcp: "keeps P (RebuildDHCPStaticLeases x)" for x
    unfolding RebuildDHCPStaticLeases_def by (intro keeps_rules conn P)
  show "keeps P (AddTransientDHCPHost x h)" "keeps P (RemoveTransientDHCPHost x h)"
    unfolding AddTransientDHCPHost_def RemoveTransientDHCPHost_def by (intro keeps_rules dhcp P)+
qed

lemma keeps_random [keeps_rules]:
  assumes P: "outside_free P"
  shows "keeps P (RandomUniqueMAC n x)" "keeps P (RandomUniqueIPv4 n x)"
proof -
  show "keeps P (RandomUniqueMAC n x)" for n
    by (induction n) (simp, rule keeps_rules, simp, (rule keeps_rules P | assumption)+)
  have "keeps P (draw_ip n x a d)" for n a d
    by (induction n) (simp, rule keeps_rules, simp, (rule keeps_rules P | assumption)+)
  then show "keeps P (RandomUniqueIPv4 n x)"
    unfolding RandomUniqueIPv4_def by (intro keeps_rules P)
qed

end
