(* ===== verification/Go_Url.thy ===== *)
theory Go_Url
  imports Go_Strings
begin

text \<open>
  What the program uses of Go's \<open>net/url\<close> and \<open>net\<close>: \<open>url.Parse\<close> and
  \<open>url.ParseRequestURI\<close> with the scheme, host and rest of the URL they find, \<open>Hostname\<close>, \<open>Port\<close>
  and \<open>net.SplitHostPort\<close>. The user part of an authority and the fragment are dropped: no
  caller reads them.
\<close>

subsection \<open>Searching in a string\<close>

fun cut :: "char \<Rightarrow> string \<Rightarrow> (string \<times> string) option" where
  "cut c [] = None"
| "cut c (d # s) = (if d = c then Some ([], s) else map_option (apfst ((#) d)) (cut c s))"

text \<open>Cutting at the last occurrence.\<close>

definition cut_last :: "char \<Rightarrow> string \<Rightarrow> (string \<times> string) option" where
  "cut_last c s = map_option (\<lambda>(a, b). (rev b, rev a)) (cut c (rev s))"

lemma cut_Some: "cut c s = Some (a, b) \<Longrightarrow> s = a @ c # b \<and> c \<notin> set a"
  by (induction s arbitrary: a) (auto split: if_splits simp: apfst_def)

lemma cut_None: "cut c s = None \<longleftrightarrow> c \<notin> set s"
  by (induction s) auto

lemma cut_append: "c \<notin> set a \<Longrightarrow> cut c (a @ c # b) = Some (a, b)"
  by (induction a) auto

lemma cut_last_None: "cut_last c s = None \<longleftrightarrow> c \<notin> set s"
  by (simp add: cut_last_def cut_None)

lemma cut_last_append: "c \<notin> set b \<Longrightarrow> cut_last c (a @ c # b) = Some (a, b)"
  by (simp add: cut_last_def cut_append)

subsection \<open>URLs\<close>

record url =
  Scheme :: string
  Host :: string
  Rest :: string
  RawQuery :: string

definition is_letter :: "char \<Rightarrow> bool" where "is_letter c \<longleftrightarrow> is_upper c \<or> is_lower c"

definition is_ctl :: "char \<Rightarrow> bool" where "is_ctl c \<longleftrightarrow> (of_char c :: nat) < 32 \<or> (of_char c :: nat) = 127"

text \<open>The scheme is what precedes the first colon when it is made of scheme characters; a leading colon is an error.\<close>

definition get_scheme :: "string \<Rightarrow> (string \<times> string) option" where
  "get_scheme s =
     (let p = takeWhile (\<lambda>c. is_letter c \<or> is_digit c \<or> c \<in> set ''+-.'') s; r = drop (length p) s in
      if p \<noteq> [] \<and> \<not> is_letter (hd p) then Some ([], s)
      else if r = [] \<or> hd r \<noteq> CHR '':'' then Some ([], s)
      else if p = [] then None
      else Some (to_lower p, tl r))"

definition hex_digit :: "char \<Rightarrow> bool" where
  "hex_digit c \<longleftrightarrow> is_digit c \<or> c \<in> set ''abcdefABCDEF''"

fun escapes_ok :: "string \<Rightarrow> bool" where
  "escapes_ok [] = True"
| "escapes_ok (c # s) =
     (if c = CHR ''%'' then (case s of a # b # t \<Rightarrow> hex_digit a \<and> hex_digit b \<and> escapes_ok t | _ \<Rightarrow> False)
      else escapes_ok s)"

text \<open>A port is empty or a colon and digits, possibly none.\<close>

definition valid_optional_port :: "string \<Rightarrow> bool" where
  "valid_optional_port s \<longleftrightarrow> s = [] \<or> hd s = CHR '':'' \<and> list_all is_digit (tl s)"

text \<open>The ASCII characters a host may contain as they are; percent escapes in a host are refused here.\<close>

definition host_char :: "char \<Rightarrow> bool" where
  "host_char c \<longleftrightarrow> is_letter c \<or> is_digit c \<or> c \<in> set ''-_.~!$&()*+,;=:[]<>'' \<or> c = CHR 0x27 \<or> c = CHR 0x22
     \<or> (of_char c :: nat) \<ge> 128"

definition host_ok :: "string \<Rightarrow> bool" where
  "host_ok h \<longleftrightarrow> list_all host_char h \<and>
     (if has_prefix ''['' h then (case cut_last (CHR '']'') h of None \<Rightarrow> False | Some (a, b) \<Rightarrow> valid_optional_port b)
      else (case cut_last (CHR '':'') h of None \<Rightarrow> True | Some (a, b) \<Rightarrow> valid_optional_port (CHR '':'' # b)))"

definition url_parse :: "bool \<Rightarrow> string \<Rightarrow> url option" where
  "url_parse viaRequest raw =
     (if list_ex is_ctl raw \<or> (raw = [] \<and> viaRequest) then None
      else if raw = ''*'' then Some \<lparr>Scheme = [], Host = [], Rest = ''*'', RawQuery = []\<rparr>
      else case get_scheme raw of None \<Rightarrow> None
      | Some (scheme, rest0) \<Rightarrow>
          (let (rest, query) = (case cut (CHR ''?'') rest0 of None \<Rightarrow> (rest0, []) | Some (a, b) \<Rightarrow> (a, b)) in
           if \<not> has_prefix ''/'' rest \<and> scheme \<noteq> [] then Some \<lparr>Scheme = scheme, Host = [], Rest = rest, RawQuery = query\<rparr>
           else if \<not> has_prefix ''/'' rest \<and> (viaRequest \<or> CHR '':'' \<in> set (takeWhile (\<lambda>c. c \<noteq> CHR ''/'') rest)) then None
           else if (scheme \<noteq> [] \<or> \<not> viaRequest \<and> \<not> has_prefix ''///'' rest) \<and> has_prefix ''//'' rest then
             (let authority = takeWhile (\<lambda>c. c \<noteq> CHR ''/'') (drop 2 rest);
                  path = dropWhile (\<lambda>c. c \<noteq> CHR ''/'') (drop 2 rest);
                  host = (case cut_last (CHR ''@'') authority of None \<Rightarrow> authority | Some (a, b) \<Rightarrow> b)
              in if host_ok host \<and> escapes_ok path
                 then Some \<lparr>Scheme = scheme, Host = host, Rest = path, RawQuery = query\<rparr> else None)
           else if escapes_ok rest then Some \<lparr>Scheme = scheme, Host = [], Rest = rest, RawQuery = query\<rparr>
           else None))"

definition ParseRequestURI :: "string \<Rightarrow> url option" where "ParseRequestURI = url_parse True"

text \<open>\<open>url.Parse\<close> removes the fragment first.\<close>

definition Parse :: "string \<Rightarrow> url option" where
  "Parse raw = url_parse False (case cut (CHR ''#'') raw of None \<Rightarrow> raw | Some (a, b) \<Rightarrow> a)"

definition host_port :: "string \<Rightarrow> string \<times> string" where
  "host_port h =
     (let (host, port) =
        (case cut_last (CHR '':'') h of
           Some (a, b) \<Rightarrow> if valid_optional_port (CHR '':'' # b) then (a, b) else (h, [])
         | None \<Rightarrow> (h, []))
      in (if has_prefix ''['' host \<and> last host = CHR '']'' then butlast (tl host) else host, port))"

definition Hostname :: "url \<Rightarrow> string" where "Hostname u = fst (host_port (Host u))"
definition url_Port :: "url \<Rightarrow> string" where "url_Port u = snd (host_port (Host u))"

lemma host_port_plain:
  assumes "CHR '':'' \<notin> set h" and "\<not> has_prefix ''['' h"
  shows "host_port h = (h, [])"
proof -
  have "cut_last (CHR '':'') h = None" using assms(1) by (simp add: cut_last_None)
  then show ?thesis using assms(2) by (simp add: host_port_def)
qed

subsection \<open>\<open>net.SplitHostPort\<close>\<close>

text \<open>\<open>host:port\<close> or \<open>[host]:port\<close>; \<open>None\<close> is the error return.\<close>

definition SplitHostPort :: "string \<Rightarrow> (string \<times> string) option" where
  "SplitHostPort s =
     (case cut_last (CHR '':'') s of None \<Rightarrow> None
      | Some (a, port) \<Rightarrow>
          if has_prefix ''['' a then
            (case cut (CHR '']'') a of
               Some (h, []) \<Rightarrow> if CHR ''['' \<in> set (tl h) \<or> CHR ''['' \<in> set port \<or> CHR '']'' \<in> set port then None
                               else Some (tl h, port)
             | _ \<Rightarrow> None)
          else if CHR '':'' \<in> set a \<or> CHR ''['' \<in> set s \<or> CHR '']'' \<in> set s then None
          else Some (a, port))"

lemma SplitHostPort_plain:
  assumes "\<forall>c\<in>set h. c \<notin> {CHR '':'', CHR ''['', CHR '']''}" and "\<forall>c\<in>set p. c \<notin> {CHR '':'', CHR ''['', CHR '']''}"
  shows "SplitHostPort (h @ CHR '':'' # p) = Some (h, p)"
proof -
  have "\<not> has_prefix ''['' h" using assms(1) by (cases h) (auto simp: has_prefix_def)
  moreover have "cut_last (CHR '':'') (h @ CHR '':'' # p) = Some (h, p)" using assms(2) by (intro cut_last_append) auto
  ultimately show ?thesis using assms by (auto simp: SplitHostPort_def)
qed

end
