(* ===== verification/Origins.thy ===== *)
theory Origins
  imports App_State Go_Url
begin

text \<open>
  Where scripts come from, \<open>cmd/mulchd/server/origin.go\<close>: a URL, or a path in an origin of the
  configuration, written \<open>{name}/path\<close>. A git origin keeps a clone for a while. The content of
  a stream is the string that can be read from it.
\<close>

definition OriginGitCacheExpiration :: duration where "OriginGitCacheExpiration = seconds 30"
definition OriginGitCacheMaxLife :: duration where "OriginGitCacheMaxLife = seconds 600"

definition GetURLScheme :: "string \<Rightarrow> string option" where
  "GetURLScheme urlStr = map_option Scheme (Parse urlStr)"

definition NewOrigins :: "server_config \<Rightarrow> (string, script_origin) gomap" where
  "NewOrigins config = map (\<lambda>(name, origin). (name, \<lparr>so_Config = origin, so_cache = None\<rparr>)) (sc_Origins config)"

text \<open>The origin and the path in it; an empty origin is a path without one.\<close>

definition GetOriginFromPath ::
  "(string, script_origin) gomap \<Rightarrow> string \<Rightarrow> app_error + string \<times> string" where
  "GetOriginFromPath origins path =
     (if path = [] \<or> hd path \<noteq> CHR ''{'' then Inr ([], [])
      else case go_split ''/'' path of
          part0 # rest \<Rightarrow>
            if rest = [] then Inr ([], [])
            else if last part0 \<noteq> CHR ''}'' then Inr ([], [])
            else (let origin = butlast (tl part0) in
                  if gm_get origins origin = None then Inl (Failed ''origin not found'' [origin])
                  else Inr (origin, go_join ''/'' rest))
        | [] \<Rightarrow> Inr ([], []))"

definition getContentFromFileURL :: "'w ext \<Rightarrow> string \<Rightarrow> ('w, string) app_act" where
  "getContentFromFileURL x url =
     osA ''open'' (os_Open (x_os x) (if has_prefix ''file://'' url then drop 7 url else url))"

definition getContentFromHttpURL :: "'w ext \<Rightarrow> string \<Rightarrow> ('w, string) app_act" where
  "getContentFromHttpURL x url =
     bindA (osA ''get'' (os_HttpGet (x_os x) url)) (\<lambda>(status, body).
     if status \<noteq> 200 then fail (Failed ''response was'' [itoa status]) else ret body)"

definition cache_expired :: "time \<Rightarrow> git_cache \<Rightarrow> bool" where
  "cache_expired now c \<longleftrightarrow>
     gc_lastUsed c + OriginGitCacheExpiration < now \<or> gc_created c + OriginGitCacheMaxLife < now"

definition set_cache :: "string \<Rightarrow> script_origin \<Rightarrow> git_cache option \<Rightarrow> ('w, unit) app_act" where
  "set_cache name o1 c =
     changeA (\<lambda>s. s\<lparr>ap_origins := gm_put name (o1\<lparr>so_cache := c\<rparr>) (ap_origins s)\<rparr>)"

definition clone_origin :: "'w ext \<Rightarrow> config_origin \<Rightarrow> ('w, (string, string) gomap) app_act" where
  "clone_origin x conf =
     bindA (if co_SSHKeyFile conf = [] then ret None
       else bindA (osA ''open'' (os_Open (x_os x) (co_SSHKeyFile conf))) (\<lambda>key.
            case px_PrivateKey (x_px x) key of
              None \<Rightarrow> fail (Failed ''ssh key'' [co_SSHKeyFile conf]) | Some _ \<Rightarrow> ret (Some key))) (\<lambda>auth.
     osA ''clone'' (os_GitClone (x_os x) (co_Path conf) (''refs/heads/'' @ co_Branch conf) auth))"

definition fs_open :: "(string, string) gomap \<Rightarrow> string \<Rightarrow> ('w, string) app_act" where
  "fs_open files pathStr =
     (case gm_get files pathStr of None \<Rightarrow> fail (Failed ''open'' [pathStr]) | Some content \<Rightarrow> ret content)"

definition getContentFromGitOrigin :: "'w ext \<Rightarrow> string \<Rightarrow> script_origin \<Rightarrow> string \<Rightarrow> ('w, string) app_act" where
  "getContentFromGitOrigin x name o1 pathStr =
     bindA (nowA x) (\<lambda>now.
     bindA (case so_cache o1 of
         None \<Rightarrow> ret None
       | Some c \<Rightarrow> if cache_expired now c then bindA (set_cache name o1 None) (\<lambda>_. ret None) else ret (Some c)) (\<lambda>cached.
     bindA (case cached of
         Some c \<Rightarrow> ret c
       | None \<Rightarrow> bindA (clone_origin x (so_Config o1)) (\<lambda>files.
                 bindA (nowA x) (\<lambda>created. ret \<lparr>gc_created = created, gc_lastUsed = zero_time, gc_fs = files\<rparr>))) (\<lambda>c.
     bindA (nowA x) (\<lambda>used.
     bindA (set_cache name o1 (Some (c\<lparr>gc_lastUsed := used\<rparr>))) (\<lambda>_.
     fs_open (gc_fs c) pathStr)))))"

text \<open>The URL of a path in an origin (\<open>url.Parse\<close>, \<open>path.Join\<close> and \<open>String\<close>) is a parameter.\<close>

definition getContentFromOrigin :: "'w ext \<Rightarrow> string \<Rightarrow> script_origin \<Rightarrow> string \<Rightarrow> ('w, string) app_act" where
  "getContentFromOrigin x name o1 pathStr =
     (let type = co_Type (so_Config o1);
          u = (case px_JoinURL (x_px x) (co_Path (so_Config o1)) pathStr of
                 Inl e \<Rightarrow> fail (Failed ''url'' [e]) | Inr v \<Rightarrow> ret v)
      in if type = OriginTypeHTTP then bindA u (getContentFromHttpURL x)
         else if type = OriginTypeFile then bindA u (getContentFromFileURL x)
         else if type = OriginTypeGIT then getContentFromGitOrigin x name o1 pathStr
         else fail (Failed ''origin type not implemented'' [type]))"

definition GetContent :: "'w ext \<Rightarrow> string \<Rightarrow> ('w, string) app_act" where
  "GetContent x path =
     (case GetURLScheme path of None \<Rightarrow> fail (Failed ''url'' [path])
      | Some scheme \<Rightarrow>
          if scheme = [] then
            bindA (readA (\<lambda>s. GetOriginFromPath (ap_origins s) path)) (\<lambda>(origin, subpath).
              if origin \<noteq> [] then
                bindA (getA (\<lambda>s. gm_get (ap_origins s) origin)) (\<lambda>found.
                  case found of None \<Rightarrow> fail (NilPointer origin) | Some o1 \<Rightarrow> getContentFromOrigin x origin o1 subpath)
              else fail (Failed ''invalid path (no scheme, no origin)'' [path]))
          else if scheme = ''http'' \<or> scheme = ''https'' then getContentFromHttpURL x path
          else if scheme = ''file'' then getContentFromFileURL x path
          else fail (Failed ''unsupported protocol'' [scheme]))"

subsection \<open>Reading scripts changes the outside and the caches only\<close>

lemma keeps_GetContent:
  assumes "\<And>s w. P s \<Longrightarrow> P (s\<lparr>ap_world := w\<rparr>)" and "\<And>s c. P s \<Longrightarrow> P (s\<lparr>ap_origins := c\<rparr>)"
  shows "keeps P (GetContent x path)"
proof -
  note call = keeps_call [of P, OF assms(1)]
  have cache: "keeps P (set_cache name o1 c)" for name o1 c
    unfolding set_cache_def by (rule keeps_change) (rule assms(2))
  have fs: "keeps P (fs_open files q)" for files q
    unfolding fs_open_def by (intro keeps_rules)
  have git: "keeps P (getContentFromGitOrigin x name o1 q)" for name o1 q
    unfolding getContentFromGitOrigin_def clone_origin_def by (intro keeps_rules call cache fs)
  show ?thesis
    unfolding GetContent_def getContentFromOrigin_def getContentFromHttpURL_def getContentFromFileURL_def Let_def
    by (intro keeps_rules call git)
qed

end
