(* ===== verification/Vm_Disks.thy ===== *)
theory Vm_Disks
  imports Libvirt Origins
begin

text \<open>
  Operations on one VM of \<open>cmd/mulchd/server/vm.go\<close>: stopping, starting, locking and deleting it,
  its backup disk, its backup and its restoration. The loops that wait look at the finite list of
  answers they get before their timeout; detaching a disk waits without one, so a list that ends
  with the disk still there is a call that does not return.
\<close>

definition VMStorageAliasDisk :: string where "VMStorageAliasDisk = ''ua-mulch-disk''"
definition VMStorageAliasBackup :: string where "VMStorageAliasBackup = ''ua-mulch-backup''"
definition VMNetworkAliasBridge :: string where "VMNetworkAliasBridge = ''ua-mulch-bridge''"
definition BackupBlankRestore :: string where "BackupBlankRestore = ''-''"
definition VMStopDefaultTimeout :: duration where "VMStopDefaultTimeout = seconds 180"

definition vmGenDiskName :: "vm_name \<Rightarrow> string" where
  "vmGenDiskName vmName = vn_ID vmName @ ''.qcow2''"

definition domainA :: "vm_name \<Rightarrow> ('w, string) app_act" where
  "domainA name = getA (\<lambda>s. LibvirtDomainName (sc_VMPrefix (ap_config s)) name)"

text \<open>\<open>GetDomainByName\<close> with the check for a nil domain all callers have.\<close>

definition existing_domain :: "'w ext \<Rightarrow> vm_name \<Rightarrow> ('w, string) app_act" where
  "existing_domain x name =
     bindA (domainA name) (\<lambda>dn.
     bindA (GetDomainByName x dn) (\<lambda>found.
     if found then ret dn else fail (Failed ''does not exists in libvirt'' [vn_ID name])))"

subsection \<open>The VM a pointer denotes\<close>

text \<open>
  A VM is in the database, or in the greenhouse while it is built; what changes it changes it there.
  A VM is recognised by its secret UUID, which is drawn for it.
\<close>

datatype place = InDatabase | InGreenhouse

definition change_entry ::
  "string \<Rightarrow> string \<Rightarrow> (vm \<Rightarrow> vm) \<Rightarrow> (string, vm_entry) gomap \<Rightarrow> (string, vm_entry) gomap" where
  "change_entry key uuid f m =
     (case gm_get m key of None \<Rightarrow> m
      | Some entry \<Rightarrow> if SecretUUID (VM entry) = uuid then gm_put key (entry\<lparr>VM := f (VM entry)\<rparr>) m else m)"

definition change_vm :: "place \<Rightarrow> vm_name \<Rightarrow> vm \<Rightarrow> (vm \<Rightarrow> vm) \<Rightarrow> ('w, unit) app_act" where
  "change_vm where_is name vm f =
     changeA (\<lambda>s. s\<lparr>ap_vmdb :=
       (case where_is of
          InDatabase \<Rightarrow> (ap_vmdb s)\<lparr>db := change_entry (vn_ID name) (SecretUUID vm) f (db (ap_vmdb s))\<rparr>
        | InGreenhouse \<Rightarrow>
            (ap_vmdb s)\<lparr>greenhouseDB := change_entry (vn_ID name) (SecretUUID vm) f (greenhouseDB (ap_vmdb s))\<rparr>)\<rparr>)"

definition SetOperation :: "place \<Rightarrow> vm_name \<Rightarrow> vm \<Rightarrow> vm_operation \<Rightarrow> ('w, unit) app_act" where
  "SetOperation where_is name vm op = change_vm where_is name vm (\<lambda>v. v\<lparr>WIP := op\<rparr>)"

definition vmA :: "vm_name \<Rightarrow> ('w, vm) app_act" where
  "vmA name = lookupA (\<lambda>s. GetByName (ap_vmdb s) name)"

subsection \<open>Scripts\<close>

definition script_task :: "'w ext \<Rightarrow> vm_script \<Rightarrow> ('w, run_task) app_act" where
  "script_task x confTask =
     bindA (resultA (GetContent x (ScriptURL confTask))) (\<lambda>r.
     case r of
       Inl e \<Rightarrow> fail (Failed ''unable to get script'' [ScriptURL confTask])
     | Inr content \<Rightarrow>
         ret \<lparr>rt_ScriptName = path_base (ScriptURL confTask), rt_Script = content, rt_As = ScriptAs confTask,
              rt_Arguments = [], rt_EnvWords = []\<rparr>)"

definition template_task :: "'w ext \<Rightarrow> string \<Rightarrow> ('w, run_task) app_act" where
  "template_task x name =
     bindA (getA ap_config) (\<lambda>conf.
     bindA (osA ''open'' (os_Open (x_os x) (GetTemplateFilepath conf name))) (\<lambda>content.
     ret \<lparr>rt_ScriptName = name, rt_Script = content, rt_As = sc_MulchSuperUser conf,
           rt_Arguments = [], rt_EnvWords = []\<rparr>))"

text \<open>\<open>Run.Go\<close>: the lines of the standard output and the error, if any.\<close>

definition run_Go :: "'w ext \<Rightarrow> string \<Rightarrow> string \<Rightarrow> run_task list \<Rightarrow> ('w, string list \<times> app_error option) app_act" where
  "run_Go x caption host tasks =
     (if tasks = [] then ret ([], None)
      else bindA (askA (os_RunSsh (x_os x) caption host tasks)) (\<lambda>(lines, e).
           ret (lines, map_option (\<lambda>m. Failed ''run'' [m]) e)))"

definition run_all :: "'w ext \<Rightarrow> string \<Rightarrow> string \<Rightarrow> run_task list \<Rightarrow> ('w, unit) app_act" where
  "run_all x caption host tasks = bindA (run_Go x caption host tasks) (\<lambda>(lines, e). noneA e)"

definition super_user_auth :: "'w ext \<Rightarrow> vm \<Rightarrow> ('w, unit) app_act" where
  "super_user_auth x vm =
     readA (\<lambda>s. case GetPublicKeyAuth (px_PrivateKey (x_px x)) (MulchSuperUserSSHKey vm) (ap_pairs s) of
       Inl e \<Rightarrow> Inl (FromDb e) | Inr _ \<Rightarrow> Inr ())"

subsection \<open>Stopping and starting\<close>

fun wait_stop :: "(lv_error + dom_state) list \<Rightarrow> app_error + unit" where
  "wait_stop [] = Inl (Failed ''vm shutdown is too long'' [])"
| "wait_stop (Inl e # ticks) = (if e = LvNoDomain then Inr () else Inl (FromLibvirt e))"
| "wait_stop (Inr st # ticks) =
     (if st = DomCrashed then Inl (Failed ''vm crashed! (said libvirt)'' [])
      else if st = DomShutoff then Inr () else wait_stop ticks)"

definition VMStopByName :: "'w ext \<Rightarrow> vm_name \<Rightarrow> bool \<Rightarrow> duration \<Rightarrow> ('w, unit) app_act" where
  "VMStopByName x name force timeout =
     bindA (existing_domain x name) (\<lambda>dn.
     bindA (lvA (lv_GetState (x_lv x) dn)) (\<lambda>state.
     bindA (checkA (state = DomRunning) (Failed ''VM is not up'' [])) (\<lambda>_.
     bindA (lvA ((if force then lv_Destroy else lv_Shutdown) (x_lv x) dn)) (\<lambda>_.
     bindA (askA (os_StateTicks (x_os x) dn timeout)) (\<lambda>ticks.
     pureA (wait_stop ticks))))))"

fun wait_call :: "boot_event list \<Rightarrow> app_error + unit" where
  "wait_call [] = Inl (Failed ''vm is too long to start'' [])"
| "wait_call (PhoneCall cloudInit ip # events) = Inr ()"
| "wait_call (StateCheck r # events) = wait_call events"

definition VMStartByName :: "'w ext \<Rightarrow> vm_name \<Rightarrow> string \<Rightarrow> ('w, unit) app_act" where
  "VMStartByName x name secretUUID =
     bindA (existing_domain x name) (\<lambda>dn.
     bindA (lvA (lv_GetState (x_lv x) dn)) (\<lambda>state.
     bindA (checkA (state = DomShutoff) (Failed ''VM is not down'' [])) (\<lambda>_.
     bindA (lvA (lv_Create (x_lv x) dn)) (\<lambda>_.
     bindA (askA (os_BootEvents (x_os x) secretUUID (seconds 600))) (\<lambda>events.
     pureA (wait_call events))))))"

definition VMIsRunning :: "'w ext \<Rightarrow> vm_name \<Rightarrow> ('w, bool) app_act" where
  "VMIsRunning x name =
     bindA (existing_domain x name) (\<lambda>dn.
     bindA (lvA (lv_GetState (x_lv x) dn)) (\<lambda>state.
     ret (state = DomRunning)))"

text \<open>\<open>running, _ := VMIsRunning(...)\<close>\<close>

definition is_running :: "'w ext \<Rightarrow> vm_name \<Rightarrow> ('w, bool) app_act" where
  "is_running x name = bindA (resultA (VMIsRunning x name)) (\<lambda>r. ret (r = Inr True))"

definition VMLockUnlock :: "'w ext \<Rightarrow> vm_name \<Rightarrow> bool \<Rightarrow> ('w, unit) app_act" where
  "VMLockUnlock x vmName locked =
     bindA (vmA vmName) (\<lambda>vm.
     bindA (change_vm InDatabase vmName vm (\<lambda>v. v\<lparr>Locked := locked\<rparr>)) (\<lambda>_.
     bindA (attempt (vmdbA x vmdb_Update)) (\<lambda>_. ret ())))"

subsection \<open>Deleting\<close>

definition aliased_disks :: "string \<Rightarrow> xml_domain \<Rightarrow> xml_disk list" where
  "aliased_disks alias xml = filter (\<lambda>d. xd_Alias d = Some alias) (xm_Disks xml)"

definition main_disk :: "xml_domain \<Rightarrow> string" where
  "main_disk xml =
     (case rev (aliased_disks VMStorageAliasDisk xml) of [] \<Rightarrow> [] | d # _ \<Rightarrow> path_base (xd_File d))"

definition VMGetDiskName :: "'w ext \<Rightarrow> vm_name \<Rightarrow> ('w, string) app_act" where
  "VMGetDiskName x name =
     bindA (existing_domain x name) (\<lambda>dn.
     bindA (lvA (lv_GetXML (x_lv x) dn)) (\<lambda>xml.
     if main_disk xml = [] then fail (Failed ''disk alias not found'' [VMStorageAliasDisk])
     else ret (main_disk xml)))"

definition destroy_domain :: "'w ext \<Rightarrow> string \<Rightarrow> ('w, unit) app_act" where
  "destroy_domain x dn =
     bindA (lvA (lv_GetState (x_lv x) dn)) (\<lambda>state.
     if state = DomShutoff then ret ()
     else bindA (lvA (lv_Destroy (x_lv x) dn)) (\<lambda>_.
          bindA (lvA (lv_GetState (x_lv x) dn)) (\<lambda>state2.
          checkA (state2 = DomShutoff) (Failed ''unable to force stop (destroy) the VM'' []))))"

definition VMDelete :: "'w ext \<Rightarrow> vm_name \<Rightarrow> ('w, unit) app_act" where
  "VMDelete x vmName =
     bindA (vmA vmName) (\<lambda>vm.
     bindA (checkA (\<not> Locked vm) (Failed ''VM is locked'' [])) (\<lambda>_.
     bindA (existing_domain x vmName) (\<lambda>dn.
     bindA (destroy_domain x dn) (\<lambda>_.
     bindA (lvA (lv_GetXML (x_lv x) dn)) (\<lambda>xml.
     bindA (resultA (poolA PoolDisks (lv_Refresh (x_lv x) PoolDisks))) (\<lambda>_.
     bindA (if main_disk xml = [] then ret () else DeleteVolume x (main_disk xml) PoolDisks) (\<lambda>_.
     bindA (lvA (lv_Undefine (x_lv x) dn)) (\<lambda>_.
     bindA (vmdbA x (\<lambda>env. vmdb_Delete env vmName)) (\<lambda>_.
     RebuildDHCPStaticLeases x)))))))))"

subsection \<open>The backup disk\<close>

definition VMCreateBackupDisk :: "'w ext \<Rightarrow> vm_name \<Rightarrow> string \<Rightarrow> u64 \<Rightarrow> ('w, unit) app_act" where
  "VMCreateBackupDisk x vmName volName volSize =
     bindA (existing_domain x vmName) (\<lambda>_.
     bindA (getA ap_config) (\<lambda>conf.
     bindA (UploadFileToLibvirt x PoolBackups (path_clean (GetTemplateFilepath conf ''volume.xml''))
              (path_clean (GetTemplateFilepath conf ''empty.qcow2'')) volName) (\<lambda>_.
     ResizeDisk x volName volSize PoolBackups)))"

definition VMAttachBackup :: "'w ext \<Rightarrow> vm_name \<Rightarrow> string \<Rightarrow> ('w, unit) app_act" where
  "VMAttachBackup x vmName volName =
     bindA (existing_domain x vmName) (\<lambda>dn.
     bindA (getA (\<lambda>s. (GetTemplateFilepath (ap_config s) ''disk.xml'', lvs_BackupsPath (ap_libvirt s)))) (\<lambda>(template, path).
     bindA (osA ''disk.xml'' (os_DiskXml (x_os x) template)) (\<lambda>diskcfg.
     lvA (lv_Attach (x_lv x) dn
       (diskcfg\<lparr>xd_Alias := Some VMStorageAliasBackup, xd_File := path @ ''/'' @ volName, xd_Dev := ''vdb''\<rparr>)))))"

definition vmFindBackupDisk :: "'w ext \<Rightarrow> string \<Rightarrow> ('w, xml_disk option) app_act" where
  "vmFindBackupDisk x dn =
     bindA (lvA (lv_GetXML (x_lv x) dn)) (\<lambda>xml.
     ret (case rev (aliased_disks VMStorageAliasBackup xml) of [] \<Rightarrow> None | d # _ \<Rightarrow> Some d))"

fun wait_detached :: "(lv_error + bool) list \<Rightarrow> app_error + unit" where
  "wait_detached [] = Inl NotReturned"
| "wait_detached (Inl e # ticks) = Inl (FromLibvirt e)"
| "wait_detached (Inr still_there # ticks) = (if still_there then wait_detached ticks else Inr ())"

definition VMDetachBackup :: "'w ext \<Rightarrow> vm_name \<Rightarrow> ('w, unit) app_act" where
  "VMDetachBackup x vmName =
     bindA (existing_domain x vmName) (\<lambda>dn.
     bindA (vmFindBackupDisk x dn) (\<lambda>disk.
     case disk of None \<Rightarrow> fail (Failed ''can't find backup disk'' [])
     | Some diskcfg \<Rightarrow>
         bindA (lvA (lv_Detach (x_lv x) dn diskcfg)) (\<lambda>_.
         bindA (askA (os_DiskTicks (x_os x) dn)) (\<lambda>ticks.
         pureA (wait_detached ticks)))))"

subsection \<open>Backup and restore\<close>

text \<open>What is undone when the backup fails once its disk is attached and its scripts are open.\<close>

definition backup_rollback :: "'w ext \<Rightarrow> vm_name \<Rightarrow> vm \<Rightarrow> run_task \<Rightarrow> string \<Rightarrow> ('w, unit) app_act" where
  "backup_rollback x vmName vm post volName =
     bindA (resultA (run_all x [] (LastIP vm) [post])) (\<lambda>_.
     bindA (resultA (VMDetachBackup x vmName)) (\<lambda>_.
     DeleteVolume x volName PoolBackups))"

definition record_backup :: "'w ext \<Rightarrow> string \<Rightarrow> string \<Rightarrow> vm \<Rightarrow> duration \<Rightarrow> ('w, unit) app_act" where
  "record_backup x volName authorKey vm expire =
     bindA (nowA x) (\<lambda>created.
     bindA (if 0 < expire then bindA (nowA x) (\<lambda>t. ret (t + expire)) else ret zero_time) (\<lambda>expiration.
     bindA (resultA (backupsA x (\<lambda>w. bdb_Add w
       \<lparr>DiskName = volName, Created = created, Expire = expiration, bk_AuthorKey = authorKey, bk_VM = vm\<rparr>))) (\<lambda>_.
     ret ())))"

definition VMBackup ::
  "'w ext \<Rightarrow> vm_name \<Rightarrow> string \<Rightarrow> bool \<Rightarrow> duration \<Rightarrow> ('w, string) app_act" where
  "VMBackup x vmName authorKey compressAllow expire =
     bindA (vmA vmName) (\<lambda>vm.
     bindA (checkA (WIP vm = OpNone) (Failed ''VM already have a work in progress'' [])) (\<lambda>_.
     bindA (SetOperation InDatabase vmName vm OpBackup) (\<lambda>_.
     deferA (SetOperation InDatabase vmName vm OpNone) (
     bindA (is_running x vmName) (\<lambda>running.
     bindA (checkA running (Failed ''VM should be up and running to do a backup'' [])) (\<lambda>_.
     bindA (checkA (cfg_Backup (Config vm) \<noteq> []) (Failed ''no backup script defined for this VM'' [])) (\<lambda>_.
     bindA (nowA x) (\<lambda>now.
     let volName = vn_ID vmName @ ''-backup-'' @ px_TimeText (x_px x) now @ ''.qcow2'' in
     bindA (getA (\<lambda>s. bdb_GetByName (ap_backups s) volName)) (\<lambda>existing.
     bindA (checkA (existing = None) (Failed ''a backup with the same name already exists'' [volName])) (\<lambda>_.
     bindA (super_user_auth x vm) (\<lambda>_.
     bindA (VMCreateBackupDisk x vmName volName (cfg_BackupDiskSize (Config vm))) (\<lambda>_.
     bindA (VMAttachBackup x vmName volName) (\<lambda>_.
     bindA (template_task x ''pre-backup.sh'') (\<lambda>pre.
     bindA (template_task x ''post-backup.sh'') (\<lambda>post.
     defer_unless (backup_rollback x vmName vm post volName) (
     bindA (collectA (script_task x) (cfg_Backup (Config vm))) (\<lambda>tasks.
     bindA (run_all x ''backup'' (LastIP vm) ([pre] @ tasks @ [post])) (\<lambda>_.
     bindA (VMDetachBackup x vmName) (\<lambda>_.
     bindA (getA ap_config) (\<lambda>conf.
     bindA (if cfg_BackupCompress (Config vm) \<and> compressAllow
            then BackupCompress x volName (GetTemplateFilepath conf ''volume.xml'') else ret ()) (\<lambda>_.
     bindA (record_backup x volName authorKey (vm\<lparr>WIP := OpBackup\<rparr>) expire) (\<lambda>_.
     ret volName))))))))))))))))))))))"

definition VMRestoreNoChecks :: "'w ext \<Rightarrow> place \<Rightarrow> vm \<Rightarrow> vm_name \<Rightarrow> backup \<Rightarrow> ('w, unit) app_act" where
  "VMRestoreNoChecks x where_is vm vmName backup =
     bindA (SetOperation where_is vmName vm OpRestore) (\<lambda>_.
     deferA (SetOperation where_is vmName vm OpNone) (
     bindA (checkA (cfg_Restore (Config vm) \<noteq> []) (Failed ''no restore script defined for this VM'' [])) (\<lambda>_.
     bindA (VMAttachBackup x vmName (DiskName backup)) (\<lambda>_.
     deferA (VMDetachBackup x vmName) (
     bindA (template_task x ''pre-restore.sh'') (\<lambda>pre.
     bindA (template_task x ''post-restore.sh'') (\<lambda>post.
     bindA (super_user_auth x vm) (\<lambda>_.
     bindA (collectA (script_task x) (cfg_Restore (Config vm))) (\<lambda>tasks.
     run_all x ''restore'' (LastIP vm) ([pre] @ tasks @ [post]))))))))))"

end
