(* ===== verification/Common_Tools.thy ===== *)
theory Common_Tools
  imports Go_Strings Go_Maps
begin

text \<open>
  \<open>common/tools.go\<close>: the \<open>$VARIABLE\<close>s of templates (error page, cloud-init), and the \<open>NAME=value\<close>
  lines scripts print. The regular expressions are written as the scans they describe:
  leftmost match, longest name that is followed by a separator or the end. Inside the
  brackets of the separator expression, \<open>+-=\<close> is a range, which includes the digits.
\<close>

definition TrueStr :: string where "TrueStr = ''true''"
definition FalseStr :: string where "FalseStr = ''false''"

definition word_char :: "char \<Rightarrow> bool" where
  "word_char c \<longleftrightarrow> is_upper c \<or> is_lower c \<or> is_digit c \<or> c = CHR ''_''"

definition separator :: "char \<Rightarrow> bool" where
  "separator c \<longleftrightarrow> c \<in> {CHR '' '', CHR 0x09, CHR 0x0A} \<or> c \<in> set '',.;:()[]{}'' \<or> c = CHR 0x27 \<or> c = CHR 0x22
     \<or> c \<in> set ''/!?<>@#|*'' \<or> c = CHR 0x5C \<or> (0x2B \<le> (of_char c :: nat) \<and> (of_char c :: nat) \<le> 0x3D)"

definition ends_here :: "string \<Rightarrow> bool" where "ends_here s \<longleftrightarrow> s = [] \<or> separator (hd s)"

text \<open>\<open>name_length n s\<close>: the longest length, at most \<open>n\<close>, of a name at the start of \<open>s\<close> that is properly ended.\<close>

fun name_length :: "nat \<Rightarrow> string \<Rightarrow> nat option" where
  "name_length 0 s = None"
| "name_length (Suc n) s = (if ends_here (drop (Suc n) s) then Some (Suc n) else name_length n s)"

definition var_at :: "string \<Rightarrow> (string \<times> nat) option" where
  "var_at s =
     (case s of [] \<Rightarrow> None
      | c # t \<Rightarrow>
          if c \<noteq> CHR ''$'' then None
          else (case name_length (length (takeWhile word_char t)) t of None \<Rightarrow> None
              | Some n \<Rightarrow> Some (take n t, if drop n t = [] then 1 + n else 2 + n)))"

lemma name_length_pos: "name_length n s = Some k \<Longrightarrow> 0 < k \<and> k \<le> n"
  by (induction n) (auto split: if_splits)

lemma var_at_length: "var_at s = Some (v, k) \<Longrightarrow> 0 < k \<and> s \<noteq> []"
  by (auto simp: var_at_def dest: name_length_pos split: list.splits if_splits option.splits)

text \<open>All matches, none overlapping another.\<close>

function find_vars :: "string \<Rightarrow> string list" where
  "find_vars s =
     (if s = [] then []
      else case var_at s of None \<Rightarrow> find_vars (tl s)
         | Some (v, k) \<Rightarrow> v # find_vars (drop k s))"
  by pat_completeness auto
termination
  by (relation "measure length") (auto dest: var_at_length)

declare find_vars.simps [simp del]

text \<open>The distinct names, in the order in which a map gives them: \<open>order\<close> permutes them.\<close>

definition StringFindVariables :: "(string list \<Rightarrow> string list) \<Rightarrow> string \<Rightarrow> string list" where
  "StringFindVariables order str = order (gm_keys (put_all (map (\<lambda>v. (v, True)) (find_vars str)) []))"

subsection \<open>Replacing\<close>

text \<open>The template of a replacement (\<open>Regexp.Expand\<close>): \<open>$$\<close>, \<open>$name\<close> and \<open>${name}\<close>, where only the groups 0
  and 1 exist; other names stand for nothing, and a dollar that starts no name stays.\<close>

function expand_template :: "string \<Rightarrow> string \<Rightarrow> string \<Rightarrow> string" where
  "expand_template whole group1 [] = []"
| "expand_template whole group1 (c # t) =
     (if c \<noteq> CHR ''$'' then c # expand_template whole group1 t
      else if has_prefix ''$'' t then CHR ''$'' # expand_template whole group1 (tl t)
      else
        let braces = has_prefix ''{'' t;
            body = (if braces then tl t else t);
            name = takeWhile word_char body;
            after = drop (length name) body;
            value = (if name = ''0'' then whole else if name = ''1'' then group1 else [])
        in if name = [] \<or> braces \<and> \<not> has_prefix ''}'' after then CHR ''$'' # expand_template whole group1 t
           else value @ expand_template whole group1 (if braces then tl after else after))"
  by pat_completeness auto
termination
  by (relation "measure (\<lambda>(w, g, s). length s)") (auto simp: Let_def has_prefix_def)

declare expand_template.simps(2) [simp del]

definition match_var :: "string \<Rightarrow> string \<Rightarrow> string option" where
  "match_var v s =
     (if has_prefix (CHR ''$'' # v) s \<and> ends_here (drop (1 + length v) s)
      then Some (take 1 (drop (1 + length v) s)) else None)"

function replace_var :: "string \<Rightarrow> string \<Rightarrow> string \<Rightarrow> string" where
  "replace_var v template s =
     (if s = [] then []
      else case match_var v s of None \<Rightarrow> hd s # replace_var v template (tl s)
         | Some g \<Rightarrow> expand_template (CHR ''$'' # v @ g) g template @ replace_var v template (drop (1 + length v + length g) s))"
  by pat_completeness auto
termination
  by (relation "measure (\<lambda>(v, t, s). length s)") auto

declare replace_var.simps [simp del]

definition expand_var :: "(string, string) gomap \<Rightarrow> string \<Rightarrow> string \<Rightarrow> string" where
  "expand_var variables v str =
     (case gm_get variables v of None \<Rightarrow> str | Some val \<Rightarrow> replace_var v (val @ ''${1}'') str)"

definition StringExpandVariables ::
  "(string list \<Rightarrow> string list) \<Rightarrow> string \<Rightarrow> (string, string) gomap \<Rightarrow> string" where
  "StringExpandVariables order str variables = fold (expand_var variables) (StringFindVariables order str) str"

definition StringIsVariable :: "string \<Rightarrow> string \<Rightarrow> bool \<times> string" where
  "StringIsVariable s varName =
     (if \<not> has_prefix (varName @ ''='') s then (False, []) else (True, drop (length varName + 1) s))"

subsection \<open>Lemmas\<close>

lemma StringIsVariable_append: "StringIsVariable (name @ CHR ''='' # value) name = (True, value)"
  by (auto simp: StringIsVariable_def has_prefix_iff)

lemma StringIsVariable_True: "StringIsVariable s name = (True, value) \<longleftrightarrow> s = name @ CHR ''='' # value"
  by (auto simp: StringIsVariable_def has_prefix_iff)

lemma expand_plain: "CHR ''$'' \<notin> set t \<Longrightarrow> expand_template w g t = t"
  by (induction t) (auto simp: expand_template.simps)

lemma expand_plain_append: "CHR ''$'' \<notin> set t \<Longrightarrow> expand_template w g (t @ r) = t @ expand_template w g r"
  by (induction t) (auto simp: expand_template.simps)

lemma expand_group1 [simp]: "expand_template w g ''${1}'' = g"
  by (subst expand_template.simps(2)) (simp add: has_prefix_def word_char_def is_upper_def is_lower_def is_digit_def)

text \<open>A text without dollars is left as it is.\<close>

lemma find_vars_plain: "CHR ''$'' \<notin> set s \<Longrightarrow> find_vars s = []"
  by (induction s) (subst find_vars.simps, auto simp: var_at_def)+

lemma replace_plain_append:
  assumes "CHR ''$'' \<notin> set a" shows "replace_var v t (a @ s) = a @ replace_var v t s"
  using assms
proof (induction a)
  case (Cons c a)
  then have "match_var v (c # a @ s) = None" by (auto simp: match_var_def has_prefix_def)
  with Cons show ?case by (subst append_Cons, subst replace_var.simps) simp
qed simp

lemma replace_at:
  assumes "CHR ''$'' \<notin> set val" and "separator c"
  shows "replace_var v (val @ ''${1}'') (CHR ''$'' # v @ c # s) = val @ c # replace_var v (val @ ''${1}'') s"
    and "replace_var v (val @ ''${1}'') (CHR ''$'' # v) = val"
proof -
  have "match_var v (CHR ''$'' # v @ c # s) = Some [c]" "match_var v (CHR ''$'' # v) = Some []"
    using assms(2) by (simp_all add: match_var_def has_prefix_def ends_here_def)
  then show "replace_var v (val @ ''${1}'') (CHR ''$'' # v @ c # s) = val @ c # replace_var v (val @ ''${1}'') s"
    and "replace_var v (val @ ''${1}'') (CHR ''$'' # v) = val"
    using assms(1) by (subst replace_var.simps, simp add: expand_plain_append replace_var.simps [of _ _ "[]"])+
qed

end
