(* ===== verification/Vm_Build.thy ===== *)
theory Vm_Build
  imports Vm_Disks Common_Tools
begin

text \<open>
  Building a VM, \<open>NewVM\<close> of \<open>cmd/mulchd/server/vm.go\<close>, with the environment of its scripts
  (\<open>GetEnvMap\<close>). The function is cut where it registers its deferred rollbacks: the greenhouse
  entry, the transient lease, the disk, the libvirt domain.
\<close>

definition Version :: string where "Version = ''1.53.5''"

subsection \<open>The environment of a VM\<close>

definition env_base :: "parsers \<Rightarrow> server_config \<Rightarrow> string \<Rightarrow> vm \<Rightarrow> vm_name \<Rightarrow> (string \<times> string) list" where
  "env_base px conf mulchIP vm vmName =
     (let names = map dom_Name (cfg_Domains (Config vm)) in
      [(''_MULCH_SUPER_USER'', sc_MulchSuperUser conf),
       (''_BACKUP'', ''/mnt/backup''),
       (''_APP_USER'', cfg_AppUser (Config vm)),
       (''_VM_NAME'', vn_name vmName),
       (''_VM_REVISION'', itoa (vn_rev vmName)),
       (''_KEY_DESC'', AuthorKey vm),
       (''_MULCH_VERSION'', Version),
       (''_VM_INIT_DATE'', px_TimeText px (InitDate vm)),
       (''_DOMAINS'', go_join '','' names),
       (''_DOMAIN_FIRST'', (case names of [] \<Rightarrow> [] | d # _ \<Rightarrow> d)),
       (''_MULCH_PROXY_IP'', mulchIP),
       (''_PORT1'', itoa (uint (VMPortBaseForward + 0))),
       (''_PORT2'', itoa (uint (VMPortBaseForward + 1))),
       (''_PORT3'', itoa (uint (VMPortBaseForward + 2))),
       (''_PORT4'', itoa (uint (VMPortBaseForward + 3))),
       (''_PORT5'', itoa (uint (VMPortBaseForward + 4)))])"

definition env_port ::
  "vm_port \<Rightarrow> (string, string) gomap \<times> string list \<Rightarrow> (string, string) gomap \<times> string list" where
  "env_port port = (\<lambda>(res, conflict).
     if Direction port \<noteq> Import then (res, conflict)
     else let name = ''_'' @ itoa (uint (Port port)) @ ''_TCP'' in
       if gm_get res name \<noteq> None then (gm_put name ''CONFLICT'' res, conflict @ [name])
       else (gm_put name (itoa (uint (VMPortBaseForward + word_of_int (Index port)))) res, conflict))"

definition env_merge ::
  "string \<times> string \<Rightarrow> (string, string) gomap \<times> string list \<Rightarrow> (string, string) gomap \<times> string list" where
  "env_merge = (\<lambda>(key, val) (res, conflict).
     if gm_get res key \<noteq> None then (res, conflict @ [key]) else (gm_put key val res, conflict))"

definition GetEnvMap ::
  "parsers \<Rightarrow> server_config \<Rightarrow> string \<Rightarrow> secret_db \<Rightarrow> vm \<Rightarrow> vm_name \<Rightarrow> (string, string) gomap \<times> app_error option" where
  "GetEnvMap px conf mulchIP secrets vm vmName =
     (let (res, conflict) =
        fold env_merge (cfg_Env (Config vm))
          (fold env_port (cfg_Ports (Config vm)) (put_all (env_base px conf mulchIP vm vmName) [], []));
          (found, missing) = GetSecretsMap secrets vm
      in if missing \<noteq> [] then (res, Some (Failed ''missing secrets'' [go_join '', '' missing]))
         else let (res2, conflict2) = fold env_merge found (res, conflict) in
           (res2, if conflict2 \<noteq> [] then Some (Failed ''conflicting env keys'' [go_join '', '' conflict2]) else None))"

subsection \<open>The description of the domain\<close>

definition fill_sysinfo :: "string \<Rightarrow> string \<times> string \<Rightarrow> string \<times> string" where
  "fill_sysinfo serial = (\<lambda>(name, v).
     if name = ''serial'' then (name, serial) else if name = ''version'' then (name, Version) else (name, v))"

definition fill_interface ::
  "string \<Rightarrow> string \<Rightarrow> string \<Rightarrow> string \<Rightarrow> xml_interface \<Rightarrow> app_error + xml_interface" where
  "fill_interface bridge gateway mac ip intf =
     (if xi_Alias intf \<noteq> Some VMNetworkAliasBridge then Inr intf
      else case xi_FilterRef intf of
        None \<Rightarrow> Inl (Failed ''vm xml file: no filterref found for network interface'' [])
      | Some ref \<Rightarrow>
          if xf_Filter ref \<noteq> ''mulch-filter'' then Inl (Failed ''vm xml file: need filterref'' [''mulch-filter''])
          else if length (filter (\<lambda>p. fst p = ''IP'') (xf_Params ref)) \<noteq> 1
            then Inl (Failed ''vm xml file: exactly one IP parameter is needed'' [])
          else if length (filter (\<lambda>p. fst p = ''GATEWAY_MAC'') (xf_Params ref)) \<noteq> 1
            then Inl (Failed ''vm xml file: exactly one GATEWAY_MAC parameter is needed'' [])
          else Inr (intf\<lparr>xi_Bridge := bridge, xi_MAC := mac,
            xi_FilterRef := Some (ref\<lparr>xf_Params := map (\<lambda>(name, v).
              (name, if name = ''IP'' then ip else if name = ''GATEWAY_MAC'' then gateway else v)) (xf_Params ref)\<rparr>)\<rparr>))"

definition fill_domain ::
  "server_config \<Rightarrow> libvirt \<Rightarrow> vm \<Rightarrow> string \<Rightarrow> string \<Rightarrow> xml_domain \<Rightarrow> app_error + xml_domain" where
  "fill_domain conf lv vm domainName diskName template =
     (let serial = ''ds=nocloud-net;s=http://'' @ lvs_Address lv @ '':'' @ itoa (sc_InternalServerPort conf)
                     @ ''/cloud-init/'' @ SecretUUID vm @ ''/''
      in if \<not> list_ex (list_ex (\<lambda>e. fst e = ''serial'')) (xm_SysInfo template)
         then Inl (Failed ''vm xml file: serial entry not found'' [])
         else if length (aliased_disks VMStorageAliasDisk template) \<noteq> 1
         then Inl (Failed ''vm xml file: a single disk with ua-mulch-disk alias is required'' [])
         else case mapE (fill_interface (lvs_Bridge lv) (lvs_GatewayMAC lv) (AssignedMAC vm) (AssignedIPv4 vm))
                     (xm_Interfaces template) of
             Inl e \<Rightarrow> Inl e
           | Inr intfs \<Rightarrow>
               if length (filter (\<lambda>i. xi_Alias i = Some VMNetworkAliasBridge) intfs) \<noteq> 1
               then Inl (Failed ''vm xml file: exactly one interface with ua-mulch-bridge alias is needed'' [])
               else Inr (template\<lparr>xm_Name := domainName, xm_Memory := cfg_RAMSize (Config vm),
                 xm_VCPU := cfg_CPUCount (Config vm),
                 xm_SysInfo := map (map (fill_sysinfo serial)) (xm_SysInfo template),
                 xm_Disks := map (\<lambda>d. if xd_Alias d = Some VMStorageAliasDisk
                                        then d\<lparr>xd_File := lvs_DisksPath lv @ ''/'' @ diskName\<rparr> else d) (xm_Disks template),
                 xm_Interfaces := intfs\<rparr>))"

subsection \<open>The first boot\<close>

text \<open>Only the call of cloud-init counts; the state is looked at every five seconds.\<close>

fun wait_boot :: "boot_event list \<Rightarrow> app_error + string" where
  "wait_boot [] = Inl (Failed ''vm init is too long, something probably went wrong'' [])"
| "wait_boot (PhoneCall cloudInit ip # events) = (if cloudInit then Inr ip else wait_boot events)"
| "wait_boot (StateCheck (Inl e) # events) = Inl (FromLibvirt e)"
| "wait_boot (StateCheck (Inr st) # events) =
     (if st = DomCrashed then Inl (Failed ''vm crashed! (said libvirt)'' [])
      else if st = DomShutoff then Inl (Failed ''vm unexpectedly stopped'' []) else wait_boot events)"

subsection \<open>What the prepare scripts print\<close>

record prepare_state =
  ps_action :: do_action
  ps_error :: "app_error option"
  ps_config :: vm_config

definition empty_action :: do_action where
  "empty_action = \<lparr>da_Name = [], da_ScriptURL = [], da_User = [], da_Description = [], da_FromConfig = False\<rparr>"

definition tag_line :: "string \<Rightarrow> prepare_state \<Rightarrow> prepare_state" where
  "tag_line value st =
     (if \<not> IsValidWord value then st\<lparr>ps_error := Some (Failed ''invalid action name'' [value])\<rparr>
      else if gm_get (cfg_Tags (ps_config st)) value \<noteq> None
        then st\<lparr>ps_error := Some (Failed ''tag already exists for this VM'' [value])\<rparr>
      else st\<lparr>ps_config := (ps_config st)\<lparr>cfg_Tags := gm_put value VMTagFromScript (cfg_Tags (ps_config st))\<rparr>\<rparr>)"

definition commit_line :: "string \<Rightarrow> prepare_state \<Rightarrow> prepare_state" where
  "commit_line value st =
     (let a = ps_action st in
      if value \<noteq> ''commit'' then st\<lparr>ps_error := Some (Failed ''invalid verb'' [value])\<rparr>
      else if da_Name a = [] \<or> da_User a = [] \<or> da_ScriptURL a = []
        then st\<lparr>ps_error := Some (Failed ''invalid action, missing information'' [])\<rparr>
      else if \<not> IsValidWord (da_Name a) then st\<lparr>ps_error := Some (Failed ''invalid action name'' [da_Name a])\<rparr>
      else if gm_get (cfg_DoActions (ps_config st)) (da_Name a) \<noteq> None
        then st\<lparr>ps_error := Some (Failed ''action already exists for this VM'' [da_Name a])\<rparr>
      else st\<lparr>ps_config := (ps_config st)\<lparr>cfg_DoActions :=
                gm_put (da_Name a) (a\<lparr>da_FromConfig := False\<rparr>) (cfg_DoActions (ps_config st))\<rparr>,
              ps_action := empty_action\<rparr>)"

definition script_line :: "'w ext \<Rightarrow> string \<Rightarrow> prepare_state \<Rightarrow> ('w, prepare_state) app_act" where
  "script_line x value st =
     bindA (resultA (GetContent x value)) (\<lambda>r.
     ret (case r of Inl e \<Rightarrow> st\<lparr>ps_error := Some (Failed ''unable to get script'' [value])\<rparr>
          | Inr _ \<Rightarrow> st\<lparr>ps_action := (ps_action st)\<lparr>da_ScriptURL := value\<rparr>\<rparr>))"

text \<open>The tests on the line are made one after the other; an error returns from the callback.\<close>

definition if_var :: "string \<Rightarrow> string \<Rightarrow> (string \<Rightarrow> prepare_state \<Rightarrow> prepare_state) \<Rightarrow> prepare_state \<Rightarrow> prepare_state" where
  "if_var line name f st =
     (if ps_error st \<noteq> None then st
      else case StringIsVariable line name of (isVar, value) \<Rightarrow> if isVar then f value st else st)"

definition prepare_line :: "'w ext \<Rightarrow> string \<Rightarrow> prepare_state \<Rightarrow> ('w, prepare_state) app_act" where
  "prepare_line x line st0 =
     (let st1 = if_var line ''_MULCH_TAG_ADD'' tag_line st0;
          st2 = if_var line ''_MULCH_ACTION_NAME'' (\<lambda>v st. st\<lparr>ps_action := (ps_action st)\<lparr>da_Name := v\<rparr>\<rparr>) st1
      in bindA (case StringIsVariable line ''_MULCH_ACTION_SCRIPT'' of (isVar, value) \<Rightarrow>
                  if ps_error st2 = None \<and> isVar then script_line x value st2 else ret st2) (\<lambda>st3.
         let st4 = if_var line ''_MULCH_ACTION_USER'' (\<lambda>v st. st\<lparr>ps_action := (ps_action st)\<lparr>da_User := v\<rparr>\<rparr>) st3;
             st5 = if_var line ''_MULCH_ACTION_DESCRIPTION'' (\<lambda>v st. st\<lparr>ps_action := (ps_action st)\<lparr>da_Description := v\<rparr>\<rparr>) st4
         in ret (if_var line ''_MULCH_ACTION'' commit_line st5)))"

fun prepare_lines :: "'w ext \<Rightarrow> string list \<Rightarrow> prepare_state \<Rightarrow> ('w, prepare_state) app_act" where
  "prepare_lines x [] st = ret st"
| "prepare_lines x (line # lines) st = bindA (prepare_line x line st) (prepare_lines x lines)"

subsection \<open>Building\<close>

text \<open>A script failure is an error, unless it is allowed and nobody asked for the deletion of the VM meanwhile.\<close>

definition tolerate :: "'w ext \<Rightarrow> bool \<Rightarrow> app_error option \<Rightarrow> ('w, unit) app_act" where
  "tolerate x allowScriptFailure e =
     (case e of None \<Rightarrow> ret ()
      | Some err \<Rightarrow> bindA (askA (os_ForceDelete (x_os x))) (\<lambda>force.
                    if \<not> allowScriptFailure \<or> force then fail err else ret ()))"

definition run_prepare :: "'w ext \<Rightarrow> bool \<Rightarrow> vm \<Rightarrow> ('w, vm) app_act" where
  "run_prepare x allowScriptFailure vm =
     bindA (collectA (script_task x) (cfg_Prepare (Config vm))) (\<lambda>tasks.
     bindA (run_Go x ''prepare'' (LastIP vm) tasks) (\<lambda>(lines, e).
     bindA (prepare_lines x lines \<lparr>ps_action = empty_action, ps_error = None, ps_config = Config vm\<rparr>) (\<lambda>st.
     bindA (tolerate x allowScriptFailure e) (\<lambda>_.
     bindA (noneA (map_option (\<lambda>_. Failed ''can't add do action'' []) (ps_error st))) (\<lambda>_.
     ret (vm\<lparr>Config := ps_config st\<rparr>))))))"

definition run_install :: "'w ext \<Rightarrow> bool \<Rightarrow> vm \<Rightarrow> ('w, unit) app_act" where
  "run_install x allowScriptFailure vm =
     bindA (collectA (script_task x) (cfg_Install (Config vm))) (\<lambda>tasks.
     bindA (run_Go x ''install'' (LastIP vm) tasks) (\<lambda>(lines, e).
     tolerate x allowScriptFailure e))"

definition run_restore :: "'w ext \<Rightarrow> bool \<Rightarrow> vm \<Rightarrow> vm_name \<Rightarrow> backup option \<Rightarrow> ('w, unit) app_act" where
  "run_restore x allowScriptFailure vm vmName backup =
     (if cfg_RestoreBackup (Config vm) = BackupBlankRestore then ret ()
      else case backup of None \<Rightarrow> fail (NilPointer ''backup'')
        | Some b \<Rightarrow>
            bindA (resultA (VMRestoreNoChecks x InGreenhouse vm vmName b)) (\<lambda>r.
            tolerate x allowScriptFailure (case r of Inl e \<Rightarrow> Some e | Inr _ \<Rightarrow> None)))"

text \<open>From the definition of the domain to the database entry; the domain is destroyed when this fails.\<close>

definition boot_vm :: "'w ext \<Rightarrow> bool \<Rightarrow> bool \<Rightarrow> vm \<Rightarrow> vm_name \<Rightarrow> string \<Rightarrow> backup option \<Rightarrow> ('w, vm \<times> vm_name) app_act" where
  "boot_vm x active allowScriptFailure vm vmName domainName backup =
     bindA (lvA (lv_GetUUID (x_lv x) domainName)) (\<lambda>libvirtUUID.
     bindA (lvA (lv_Create (x_lv x) domainName)) (\<lambda>_.
     bindA (resultA (lvA (lv_GetXML (x_lv x) domainName))) (\<lambda>_.
     bindA (askA (os_BootEvents (x_os x) (SecretUUID vm) (cfg_BuildTimeout (Config vm)))) (\<lambda>events.
     bindA (pureA (wait_boot events)) (\<lambda>ip.
     let vm1 = vm\<lparr>LibvirtUUID := libvirtUUID, LastIP := ip\<rparr> in
     bindA (change_vm InGreenhouse vmName vm (\<lambda>_. vm1)) (\<lambda>_.
     bindA (run_prepare x allowScriptFailure vm1) (\<lambda>vm2.
     bindA (change_vm InGreenhouse vmName vm (\<lambda>_. vm2)) (\<lambda>_.
     bindA (if cfg_RestoreBackup (Config vm2) \<noteq> [] then run_restore x allowScriptFailure vm2 vmName backup
            else run_install x allowScriptFailure vm2) (\<lambda>_.
     bindA (vmdbA x (\<lambda>env. vmdb_Add env vm2 vmName active)) (\<lambda>_.
     ret (vm2, vmName)))))))))))"

definition remove_domain :: "'w ext \<Rightarrow> string \<Rightarrow> ('w, unit) app_act" where
  "remove_domain x domainName =
     bindA (resultA (lvA (lv_Destroy (x_lv x) domainName))) (\<lambda>_.
     lvA (lv_Undefine (x_lv x) domainName))"

definition define_vm :: "'w ext \<Rightarrow> bool \<Rightarrow> bool \<Rightarrow> vm \<Rightarrow> vm_name \<Rightarrow> string \<Rightarrow> backup option \<Rightarrow> ('w, vm \<times> vm_name) app_act" where
  "define_vm x active allowScriptFailure vm vmName domainName backup =
     bindA (getA ap_config) (\<lambda>conf.
     bindA (ResizeDisk x (vmGenDiskName vmName) (cfg_DiskSize (Config vm)) PoolDisks) (\<lambda>_.
     bindA (osA ''vm.xml'' (os_VmXml (x_os x) (GetTemplateFilepath conf ''vm.xml''))) (\<lambda>template.
     bindA (readA (\<lambda>s. fill_domain conf (ap_libvirt s) vm domainName (vmGenDiskName vmName) template)) (\<lambda>xml.
     bindA (lvA (lv_DefineDomain (x_lv x) xml)) (\<lambda>_.
     defer_unless (remove_domain x domainName)
       (boot_vm x active allowScriptFailure vm vmName domainName backup))))))"

text \<open>What is checked between the greenhouse entry and the first change outside.\<close>

definition check_build :: "'w ext \<Rightarrow> bool \<Rightarrow> vm \<Rightarrow> vm_name \<Rightarrow> ('w, seed \<times> backup option) app_act" where
  "check_build x active vm vmName =
     (let conf = Config vm in
     bindA (readA (\<lambda>s. case gm_get (seeds (ap_seeds s)) (cfg_Seed conf) of
         None \<Rightarrow> Inl (Failed ''seed does not exists'' [cfg_Seed conf]) | Some sd \<Rightarrow> Inr sd)) (\<lambda>sd.
     bindA (checkA (sd_Ready sd) (Failed ''seed is not ready'' [cfg_Seed conf])) (\<lambda>_.
     bindA (if \<not> active then ret ()
            else bindA (vmdbA x (\<lambda>env st. (st, CheckDomainsConflicts env st (cfg_Domains conf) (vn_name vmName)))) (\<lambda>_.
                 vmdbA x (\<lambda>env st. (st, CheckPortsConflicts st (cfg_Ports conf) (vn_name vmName))))) (\<lambda>_.
     bindA (readA (\<lambda>s. case GetSecretsMap (ap_secrets s) vm of (_, missing) \<Rightarrow>
         if missing \<noteq> [] then Inl (Failed ''missing secrets'' [go_join '', '' missing]) else Inr ())) (\<lambda>_.
     bindA (getA (\<lambda>s. bdb_GetByName (ap_backups s) (cfg_RestoreBackup conf))) (\<lambda>backup.
     bindA (checkA (cfg_RestoreBackup conf = [] \<or> backup \<noteq> None \<or> cfg_RestoreBackup conf = BackupBlankRestore)
              (Failed ''backup not found in database'' [cfg_RestoreBackup conf])) (\<lambda>_.
     bindA (checkA (cfg_RestoreBackup conf = [] \<or> cfg_Restore conf \<noteq> [])
              (Failed ''no restore script defined for this VM, can't restore'' [])) (\<lambda>_.
     bindA (super_user_auth x vm) (\<lambda>_.
     ret (sd, backup))))))))))"

definition seed_volume :: "seed \<Rightarrow> string" where "seed_volume sd = sd_Name sd @ ''.qcow2''"

definition build_vm :: "'w ext \<Rightarrow> bool \<Rightarrow> bool \<Rightarrow> vm \<Rightarrow> vm_name \<Rightarrow> string \<Rightarrow> ('w, vm \<times> vm_name) app_act" where
  "build_vm x active allowScriptFailure vm vmName domainName =
     bindA (check_build x active vm vmName) (\<lambda>(sd, backup).
     let lease = \<lparr>dh_Name = domainName, dh_MAC = AssignedMAC vm, dh_IP = AssignedIPv4 vm\<rparr> in
     bindA (resultA (AddTransientDHCPHost x lease)) (\<lambda>_.
     deferA (RemoveTransientDHCPHost x lease) (
     bindA (getA ap_config) (\<lambda>conf.
     bindA (CreateDiskFromSeed x (seed_volume sd) (vmGenDiskName vmName) (GetTemplateFilepath conf ''volume.xml'')) (\<lambda>_.
     defer_unless (DeleteVolume x (vmGenDiskName vmName) PoolDisks)
       (define_vm x active allowScriptFailure vm vmName domainName backup))))))"

definition check_no_domain :: "'w ext \<Rightarrow> string \<Rightarrow> ('w, unit) app_act" where
  "check_no_domain x domainName =
     bindA (resultA (lvA (lv_LookupDomain (x_lv x) domainName))) (\<lambda>r.
     case r of Inr _ \<Rightarrow> fail (Failed ''VM already exists in libvirt'' [domainName])
     | Inl e \<Rightarrow> if e = FromLibvirt LvNoDomain then ret () else fail (Failed ''unexpected error'' []))"

definition greenhouse_remove :: "vm_name \<Rightarrow> ('w, unit) app_act" where
  "greenhouse_remove vmName = changeA (\<lambda>s. s\<lparr>ap_vmdb := fst (DeleteFromGreenhouse vmName (ap_vmdb s))\<rparr>)"

definition NewVM ::
  "nat \<Rightarrow> 'w ext \<Rightarrow> vm_config \<Rightarrow> bool \<Rightarrow> bool \<Rightarrow> string \<Rightarrow> ('w, vm \<times> vm_name) app_act" where
  "NewVM draws x conf active allowScriptFailure authorKey =
     bindA (osA ''uuid'' (os_UUID (x_os x))) (\<lambda>secretUUID.
     bindA (nowA x) (\<lambda>now.
     bindA (GetConnection x) (\<lambda>_.
     bindA (checkA (IsValidName (cfg_Name conf)) (Failed ''name is invalid'' [cfg_Name conf])) (\<lambda>_.
     bindA (getA (\<lambda>s. NewVMName (cfg_Name conf) (GetNextRevisionForName (ap_vmdb s) (cfg_Name conf)))) (\<lambda>vmName.
     bindA (domainA vmName) (\<lambda>domainName.
     bindA (check_no_domain x domainName) (\<lambda>_.
     bindA (RandomUniqueMAC draws x) (\<lambda>mac.
     bindA (RandomUniqueIPv4 draws x) (\<lambda>ip.
     bindA (getA ap_config) (\<lambda>config.
     let vm = empty_vm\<lparr>SecretUUID := secretUUID, Config := conf, AuthorKey := authorKey,
                       MulchSuperUserSSHKey := sc_MulchSuperUserSSHKey config, InitDate := now,
                       AssignedMAC := mac, AssignedIPv4 := ip\<rparr> in
     bindA (resultA (vmdbA x (\<lambda>env. AddToGreenhouse env vm vmName))) (\<lambda>_.
     deferA (greenhouse_remove vmName) (build_vm x active allowScriptFailure vm vmName domainName))))))))))))"

end
