(* ===== verification/Go_Time.thy ===== *)
theory Go_Time
  imports Go_Strings
begin

text \<open>
  \<open>time.ParseDuration\<close>: an optional sign and one or more decimal numbers with a unit. The
  value of a fraction is exact here, where Go computes it in floating point.
\<close>

definition duration_unit :: "string \<Rightarrow> int option" where
  "duration_unit u = map_of
     [(''ns'', 1), (''us'', 1000), ([CHR 0xC2, CHR 0xB5] @ ''s'', 1000), ([CHR 0xCE, CHR 0xBC] @ ''s'', 1000),
      (''ms'', 1000000), (''s'', 1000000000), (''m'', 60000000000), (''h'', 3600000000000)] u"

definition two63 :: int where "two63 = 2 ^ 63"

text \<open>One number with its unit at the head of the string: its value and what follows.\<close>

definition unit_char :: "char \<Rightarrow> bool" where "unit_char c \<longleftrightarrow> c \<noteq> CHR ''.'' \<and> \<not> is_digit c"

text \<open>The digits of the fraction, if there is one.\<close>

definition split_fraction :: "string \<Rightarrow> string \<times> string" where
  "split_fraction s =
     (if has_prefix ''.'' s then (takeWhile is_digit (tl s), dropWhile is_digit (tl s)) else ([], s))"

definition duration_part :: "string \<Rightarrow> (int \<times> string) option" where
  "duration_part s =
     (let whole = takeWhile is_digit s;
          (fraction, s2) = split_fraction (dropWhile is_digit s);
          v = int (digits_val whole)
      in if whole = [] \<and> fraction = [] then None
         else if two63 < v then None
         else case duration_unit (takeWhile unit_char s2) of None \<Rightarrow> None
         | Some scale \<Rightarrow>
             if two63 div scale < v then None
             else let d = v * scale + int (digits_val fraction) * scale div 10 ^ length fraction
                  in if two63 < d then None else Some (d, dropWhile unit_char s2))"

lemma unit_not_empty: "duration_unit [] = None"
  by (simp add: duration_unit_def)

lemma split_fraction_length: "split_fraction s = (f, t) \<Longrightarrow> length t \<le> length s"
  using length_dropWhile_le [of is_digit "tl s"] by (auto simp: split_fraction_def split: if_splits)

lemma duration_part_shorter: "duration_part s = Some (d, s') \<Longrightarrow> length s' < length s"
proof -
  assume p: "duration_part s = Some (d, s')"
  obtain f s2 where s2: "split_fraction (dropWhile is_digit s) = (f, s2)" by fastforce
  from p have s': "s' = dropWhile unit_char s2" and "duration_unit (takeWhile unit_char s2) \<noteq> None"
    unfolding duration_part_def Let_def s2 by (auto split: if_splits option.splits)
  then have "takeWhile unit_char s2 \<noteq> []" using unit_not_empty by auto
  moreover have "length s2 = length (takeWhile unit_char s2) + length s'"
    unfolding s' by (metis length_append takeWhile_dropWhile_id)
  ultimately show ?thesis
    using split_fraction_length [OF s2] length_dropWhile_le [of is_digit s] by (cases "takeWhile unit_char s2") auto
qed

function sum_parts :: "int \<Rightarrow> string \<Rightarrow> int option" where
  "sum_parts d s =
     (if s = [] then Some d
      else case duration_part s of None \<Rightarrow> None
      | Some (v, s') \<Rightarrow> if two63 < d + v then None else sum_parts (d + v) s')"
  by pat_completeness auto

termination
proof (relation "measure (length \<circ> snd)")
  fix d s p v s'
  assume "duration_part s = Some p" and "(v, s') = p"
  then show "((d + v, s'), (d, s)) \<in> measure (length \<circ> snd)" by (auto dest: duration_part_shorter)
qed simp

declare sum_parts.simps [simp del]

definition ParseDuration :: "string \<Rightarrow> int option" where
  "ParseDuration s =
     (let neg = has_prefix ''-'' s;
          body = (if has_prefix ''-'' s \<or> has_prefix ''+'' s then tl s else s)
      in if body = ''0'' then Some 0
         else if body = [] then None
         else case sum_parts 0 body of None \<Rightarrow> None
         | Some d \<Rightarrow> if neg then Some (- d) else if max_int < d then None else Some d)"

end
