(* ===== verification/Vm_Config.thy ===== *)
theory Vm_Config
  imports Origins Go_Time
begin

text \<open>
  From the text of a VM configuration to its checked form, \<open>cmd/mulchd/server/vm_config.go\<close>. The
  decoded file is checked in the order of the code; the scripts it names are read, which may
  fill the cache of a git origin. A stream gives all its bytes at the first read.
\<close>

definition VMAutoRebuildDaily :: string where "VMAutoRebuildDaily = ''daily''"
definition VMAutoRebuildWeekly :: string where "VMAutoRebuildWeekly = ''weekly''"
definition VMAutoRebuildMonthly :: string where "VMAutoRebuildMonthly = ''monthly''"

definition VMTagFromConfig :: bool where "VMTagFromConfig = True"

definition MB :: u64 where "MB = 1048576"
definition GB :: u64 where "GB = 1073741824"

definition tv_defaults :: toml_vm where
  "tv_defaults =
     \<lparr>tv_Name = [], tv_Hostname = [], tv_Timezone = ''Europe/Paris'', tv_AppUser = ''app'', tv_Seed = [],
      tv_InitUpgrade = True, tv_DiskSize = 0, tv_RAMSize = 0, tv_CPUCount = 1, tv_Domains = [],
      tv_RedirectToHTTPS = True, tv_RateProfile = [], tv_Redirects = [], tv_Env = [], tv_Secrets = [],
      tv_EnvRaw = [], tv_Ports = [], tv_BackupDiskSize = 2 * GB, tv_BackupCompress = True,
      tv_RestoreBackup = [], tv_AutoRebuild = [], tv_BuildTimeout = ''10m'', tv_PreparePrefixURL = [],
      tv_Prepare = [], tv_InstallPrefixURL = [], tv_Install = [], tv_BackupPrefixURL = [], tv_Backup = [],
      tv_RestorePrefixURL = [], tv_Restore = [], tv_DoActions = [], tv_Tags = []\<rparr>"

subsection \<open>Scripts\<close>

definition vmCheckScriptURL :: "'w ext \<Rightarrow> string \<Rightarrow> ('w, unit) app_act" where
  "vmCheckScriptURL x scriptURL =
     bindA (attempt (GetContent x scriptURL)) (\<lambda>r.
     case r of
       Inl e \<Rightarrow> fail (Failed ''unable to get script'' [scriptURL])
     | Inr content \<Rightarrow>
         if length content < 2 then fail (Failed ''error reading script'' [scriptURL])
         else if take 2 content \<noteq> ''#!'' then fail (Failed ''no shebang found'' [scriptURL])
         else ret ())"

definition script_url :: "(string, script_origin) gomap \<Rightarrow> string \<Rightarrow> string \<Rightarrow> string" where
  "script_url origins prefixURL scriptName =
     (let scheme = (case GetURLScheme scriptName of None \<Rightarrow> [] | Some v \<Rightarrow> v);
          origin = (case GetOriginFromPath origins scriptName of Inl e \<Rightarrow> [] | Inr (v, _) \<Rightarrow> v)
      in if scheme = [] \<and> origin = [] then prefixURL @ scriptName else scriptName)"

definition vmConfigGetScript :: "'w ext \<Rightarrow> string \<Rightarrow> string \<Rightarrow> ('w, vm_script) app_act" where
  "vmConfigGetScript x prefixURL tScript =
     (case cut (CHR ''@'') tScript of
        None \<Rightarrow> fail (Failed ''line should use the user@url format'' [tScript])
      | Some (as_user, scriptName) \<Rightarrow>
          if \<not> IsValidName as_user then fail (Failed ''not a valid user name'' [as_user])
          else bindA (getA (\<lambda>s. script_url (ap_origins s) prefixURL scriptName)) (\<lambda>url.
               bindA (vmCheckScriptURL x url) (\<lambda>_. ret \<lparr>ScriptURL = url, ScriptAs = as_user\<rparr>)))"

definition vmConfigGetDoAction :: "'w ext \<Rightarrow> toml_action \<Rightarrow> ('w, do_action) app_act" where
  "vmConfigGetDoAction x t =
     (if ta_Name t = [] \<or> \<not> IsValidWord (ta_Name t) then fail (Failed ''invalid action name'' [ta_Name t])
      else bindA (vmCheckScriptURL x (ta_Script t)) (\<lambda>_.
           ret \<lparr>da_Name = ta_Name t, da_ScriptURL = ta_Script t, da_User = ta_User t,
                da_Description = ta_Description t, da_FromConfig = True\<rparr>))"

subsection \<open>Domains\<close>

definition new_domain :: "string \<Rightarrow> domain" where
  "new_domain name =
     \<lparr>dom_Name = name, dom_VMName = [], RedirectTo = [], RedirectCode = 0, DestinationHost = [],
      DestinationPort = 0, RedirectToHTTPS = False, RateProfile = [], TargetURL = [], Chained = False\<rparr>"

definition parse_domain :: "toml_vm \<Rightarrow> string \<Rightarrow> app_error + domain" where
  "parse_domain t domainName =
     (let parts = go_split ''->'' domainName; hostName = trim_space (to_lower (hd parts)) in
      if length parts \<noteq> 1 \<and> length parts \<noteq> 2 then Inl (Failed ''invalid domain string'' [domainName])
      else case (if length parts = 2 then atoi (trim_space (parts ! 1)) else Some 80) of
          None \<Rightarrow> Inl (Failed ''invalid port number'' [trim_space (parts ! 1)])
        | Some portNum \<Rightarrow>
            Inr ((new_domain hostName)\<lparr>DestinationPort := portNum, RedirectToHTTPS := tv_RedirectToHTTPS t,
                                        RateProfile := tv_RateProfile t\<rparr>))"

definition parse_status :: "string list \<Rightarrow> app_error + int" where
  "parse_status parts =
     (if length parts \<noteq> 3 then Inr 302
      else case atoi (parts ! 2) of
          None \<Rightarrow> Inl (Failed ''can't parse as an integer'' [parts ! 2])
        | Some status \<Rightarrow> if status \<in> {301, 302, 307, 308} then Inr status
                         else Inl (Failed ''unsupported HTTP redirect code'' [itoa status]))"

definition parse_redirect :: "string list \<Rightarrow> string list \<Rightarrow> app_error + domain" where
  "parse_redirect domainList parts =
     (if length parts \<noteq> 2 \<and> length parts \<noteq> 3 then Inl (Failed ''invalid redirects setting'' [])
      else (let from_name = trim_space (to_lower (parts ! 0)); dest = trim_space (to_lower (parts ! 1)) in
        case parse_status parts of Inl e \<Rightarrow> Inl e
        | Inr status \<Rightarrow>
            if \<not> list_ex (\<lambda>dom. dom = dest) domainList then Inl (Failed ''cannot redirect: not one of VM's domains'' [dest])
            else Inr ((new_domain from_name)\<lparr>RedirectTo := dest, RedirectCode := status\<rparr>)))"

definition note_domain :: "domain \<Rightarrow> (string, bool) gomap \<Rightarrow> app_error + (string, bool) gomap" where
  "note_domain d m =
     (if gm_get m (dom_Name d) \<noteq> None then Inl (Failed ''domain is duplicated in this VM'' [dom_Name d])
      else Inr (gm_put (dom_Name d) True m))"

definition vm_domains :: "toml_vm \<Rightarrow> app_error + domain list" where
  "vm_domains t =
     (case mapE (parse_domain t) (tv_Domains t) of Inl e \<Rightarrow> Inl e
      | Inr ds \<Rightarrow>
      (case mapE (parse_redirect (map dom_Name ds)) (tv_Redirects t) of Inl e \<Rightarrow> Inl e
       | Inr rs \<Rightarrow> (case foldE note_domain (ds @ rs) [] of Inl e \<Rightarrow> Inl e | Inr _ \<Rightarrow> Inr (ds @ rs))))"

definition vm_hostname :: "toml_vm \<Rightarrow> domain list \<Rightarrow> string" where
  "vm_hostname t ds =
     (if tv_Hostname t \<noteq> [] then tv_Hostname t
      else case ds of [] \<Rightarrow> ''localhost.localdomain''
        | d # _ \<Rightarrow> hd (go_split ''.'' (dom_Name d)) @ ''.localdomain'')"

subsection \<open>Environment and secrets\<close>

definition add_env :: "string list \<Rightarrow> (string, string) gomap \<Rightarrow> app_error + (string, string) gomap" where
  "add_env line env =
     (case line of
        [key, val] \<Rightarrow>
          if \<not> IsValidName key then Inl (Failed ''invalid env name'' [key])
          else if gm_get env key \<noteq> None then Inl (Failed ''duplicated env name'' [key])
          else Inr (gm_put key val env)
      | _ \<Rightarrow> Inl (Failed ''invalid env line, need two values'' [itoa (int (length line))]))"

definition vm_env :: "parsers \<Rightarrow> toml_vm \<Rightarrow> app_error + (string, string) gomap" where
  "vm_env px t =
     (case (if tv_EnvRaw t = [] then Inr [] else px_Dotenv px (tv_EnvRaw t)) of
        Inl e \<Rightarrow> Inl (Failed ''can't parse env_raw'' [e])
      | Inr raw \<Rightarrow> foldE add_env (tv_Env t) (put_all raw []))"

definition add_secret ::
  "secret_db \<Rightarrow> (string, string) gomap \<Rightarrow> string \<Rightarrow> (string, bool) gomap \<Rightarrow> app_error + (string, bool) gomap" where
  "add_secret secrets env keyPath found =
     (let key = path_base keyPath in
      if gm_get found key \<noteq> None then Inl (Failed ''duplicated secret'' [key])
      else if gm_get env key \<noteq> None then Inl (Failed ''conflict with secret and environment variable'' [key])
      else case Get secrets keyPath of Inl e \<Rightarrow> Inl (FromSecrets e) | Inr _ \<Rightarrow> Inr (gm_put key True found))"

subsection \<open>Other settings\<close>

definition check_sizes :: "toml_vm \<Rightarrow> app_error option" where
  "check_sizes t =
     (if tv_Name t = [] \<or> \<not> IsValidName (tv_Name t) then Some (Failed ''invalid VM name'' [tv_Name t])
      else if tv_AppUser t = [] then Some (Failed ''invalid app_user name'' [tv_AppUser t])
      else if tv_Seed t = [] \<or> \<not> IsValidName (tv_Seed t) then Some (Failed ''invalid seed image'' [tv_Seed t])
      else if tv_DiskSize t < MB then Some (Failed ''looks like a too small disk'' [])
      else if tv_RAMSize t < MB then Some (Failed ''looks like a too small RAM amount'' [])
      else if tv_CPUCount t < 1 then Some (Failed ''need a least one CPU'' [])
      else None)"

definition check_auto_rebuild :: "string \<Rightarrow> app_error option" where
  "check_auto_rebuild s =
     (if s \<noteq> [] \<and> s \<noteq> VMAutoRebuildDaily \<and> s \<noteq> VMAutoRebuildWeekly \<and> s \<noteq> VMAutoRebuildMonthly
      then Some (Failed ''not a correct value for auto_rebuild setting'' [s]) else None)"

definition build_timeout :: "string \<Rightarrow> app_error + duration" where
  "build_timeout s =
     (if s = [] then Inr 0
      else case ParseDuration s of None \<Rightarrow> Inl (Failed ''invalid build_timeout value'' [s])
        | Some d \<Rightarrow> if d < seconds 15 then Inl (Failed ''build_timeout value is too small'' [s]) else Inr d)"

definition add_action :: "do_action \<Rightarrow> (string, do_action) gomap \<Rightarrow> app_error + (string, do_action) gomap" where
  "add_action action m =
     (if gm_get m (da_Name action) \<noteq> None then Inl (Failed ''duplicate do-action'' [da_Name action])
      else Inr (gm_put (da_Name action) action m))"

definition add_tag :: "string \<Rightarrow> (string, bool) gomap \<Rightarrow> app_error + (string, bool) gomap" where
  "add_tag tag m =
     (if \<not> IsValidWord tag then Inl (Failed ''invalid tag name'' [tag]) else Inr (gm_put tag VMTagFromConfig m))"

definition vm_config_of ::
  "'w ext \<Rightarrow> string \<Rightarrow> toml_vm \<Rightarrow> ('w, vm_config) app_act" where
  "vm_config_of x content t =
     bindA (noneA (check_sizes t)) (\<lambda>_.
     bindA (pureA (vm_domains t)) (\<lambda>domains.
     bindA (pureA (vm_env (x_px x) t)) (\<lambda>env.
     bindA (readA (\<lambda>s. foldE (add_secret (ap_secrets s) env) (tv_Secrets t) [])) (\<lambda>_.
     bindA (pureA (case NewVMPortArray (tv_Ports t) of Inl e \<Rightarrow> Inl (FromPorts e) | Inr ps \<Rightarrow> Inr ps)) (\<lambda>ports.
     bindA (checkA (32 * MB \<le> tv_BackupDiskSize t) (Failed ''looks like a too small backup disk'' [])) (\<lambda>_.
     bindA (collectA (vmConfigGetScript x (tv_PreparePrefixURL t)) (tv_Prepare t)) (\<lambda>prepare.
     bindA (collectA (vmConfigGetScript x (tv_InstallPrefixURL t)) (tv_Install t)) (\<lambda>install.
     bindA (collectA (vmConfigGetScript x (tv_BackupPrefixURL t)) (tv_Backup t)) (\<lambda>backup_scripts.
     bindA (collectA (vmConfigGetScript x (tv_RestorePrefixURL t)) (tv_Restore t)) (\<lambda>restore_scripts.
     bindA (noneA (check_auto_rebuild (tv_AutoRebuild t))) (\<lambda>_.
     bindA (pureA (build_timeout (tv_BuildTimeout t))) (\<lambda>timeout.
     bindA (collectA (vmConfigGetDoAction x) (tv_DoActions t)) (\<lambda>actions.
     bindA (pureA (foldE add_action actions [])) (\<lambda>action_map.
     bindA (pureA (foldE add_tag (tv_Tags t) [])) (\<lambda>tags.
     ret \<lparr>cfg_FileContent = content, cfg_Name = tv_Name t, cfg_Hostname = vm_hostname t domains,
          cfg_Timezone = tv_Timezone t, cfg_AppUser = tv_AppUser t, cfg_Seed = tv_Seed t,
          cfg_InitUpgrade = tv_InitUpgrade t, cfg_DiskSize = tv_DiskSize t, cfg_RAMSize = tv_RAMSize t,
          cfg_CPUCount = tv_CPUCount t, cfg_Domains = domains, cfg_Env = env, cfg_Secrets = tv_Secrets t,
          cfg_Ports = ports, cfg_BackupDiskSize = tv_BackupDiskSize t, cfg_BackupCompress = tv_BackupCompress t,
          cfg_RestoreBackup = tv_RestoreBackup t, cfg_AutoRebuild = tv_AutoRebuild t,
          cfg_BuildTimeout = timeout, cfg_Prepare = prepare, cfg_Install = install, cfg_Backup = backup_scripts,
          cfg_Restore = restore_scripts, cfg_DoActions = action_map, cfg_Tags = tags\<rparr>)))))))))))))))"

definition NewVMConfigFromTomlReader :: "'w ext \<Rightarrow> string + string \<Rightarrow> ('w, vm_config) app_act" where
  "NewVMConfigFromTomlReader x configIn =
     (case configIn of Inl e \<Rightarrow> fail (Failed ''read'' [e])
      | Inr content \<Rightarrow>
      (case px_TomlVm (x_px x) content tv_defaults of
         Inl e \<Rightarrow> fail (Failed ''toml'' [e])
       | Inr (t, undecoded) \<Rightarrow>
           (case undecoded of param # _ \<Rightarrow> fail (Failed ''unknown setting'' [param])
            | [] \<Rightarrow> vm_config_of x content t)))"

end
