(* ===== verification/Vm_Rebuild.thy ===== *)
theory Vm_Rebuild
  imports Vm_Build Vm_Config
begin

text \<open>
  The operations that replace a VM: \<open>VMRename\<close> and \<open>VMRebuild\<close> of \<open>cmd/mulchd/server/vm.go\<close> and the
  automatic rebuilds of \<open>auto_rebuild.go\<close>.
\<close>

subsection \<open>Renaming\<close>

definition rename_disk :: "string \<Rightarrow> xml_disk \<Rightarrow> xml_disk" where
  "rename_disk newDiskName d =
     (if xd_Alias d = Some VMStorageAliasDisk
      then d\<lparr>xd_File := path_clean (go_join ''/'' (butlast (go_split ''/'' (xd_File d))) @ ''/'' @ newDiskName)\<rparr> else d)"

definition VMRename :: "'w ext \<Rightarrow> vm_name \<Rightarrow> vm_name \<Rightarrow> ('w, unit) app_act" where
  "VMRename x orgVMName newVMName =
     bindA (GetConnection x) (\<lambda>_.
     bindA (vmA orgVMName) (\<lambda>vm.
     bindA (getA (\<lambda>s. isl (GetByName (ap_vmdb s) newVMName))) (\<lambda>new_is_free.
     bindA (checkA new_is_free (Failed ''VM already exists'' [vn_ID newVMName])) (\<lambda>_.
     bindA (is_running x orgVMName) (\<lambda>running.
     bindA (checkA (\<not> running) (Failed ''can't rename a running VM'' [])) (\<lambda>_.
     bindA (checkA (WIP vm = OpNone) (Failed ''VM have a work in progress'' [])) (\<lambda>_.
     bindA (existing_domain x orgVMName) (\<lambda>dn.
     bindA (domainA newVMName) (\<lambda>newLibvirtName.
     bindA (lvA (lv_GetXML (x_lv x) dn)) (\<lambda>xml.
     bindA (getA ap_config) (\<lambda>conf.
     let newDiskName = vmGenDiskName newVMName in
     bindA (if main_disk xml = [] then ret ()
            else CloneVolume x (main_disk xml) PoolDisks newDiskName PoolDisks (GetTemplateFilepath conf ''volume.xml'')) (\<lambda>_.
     bindA (DeleteVolume x (main_disk xml) PoolDisks) (\<lambda>_.
     bindA (lvA (lv_Undefine (x_lv x) dn)) (\<lambda>_.
     bindA (lvA (lv_DefineDomain (x_lv x)
              (xml\<lparr>xm_Name := newLibvirtName, xm_Disks := map (rename_disk newDiskName) (xm_Disks xml)\<rparr>))) (\<lambda>_.
     bindA (lookupA (\<lambda>s. IsVMActive (ap_vmdb s) orgVMName)) (\<lambda>active.
     bindA (vmdbA x (\<lambda>env. vmdb_Delete env orgVMName)) (\<lambda>_.
     bindA (if active then resultA (vmdbA x (\<lambda>env. SetActiveRevision env (vn_name orgVMName) RevisionNone))
            else ret (Inr ())) (\<lambda>_.
     vmdbA x (\<lambda>env. vmdb_Add env (vm\<lparr>Config := (Config vm)\<lparr>cfg_Name := vn_name newVMName\<rparr>\<rparr>) newVMName active)))))))))))))))))))"

subsection \<open>Rebuilding\<close>

text \<open>The end of a rebuild: the new revision takes over, the old one is unlocked and deleted.\<close>

definition switch_over ::
  "'w ext \<Rightarrow> vm_name \<Rightarrow> vm_name \<Rightarrow> bool \<Rightarrow> ('w, time \<times> bool) app_act" where
  "switch_over x vmName newVMName sourceIsActive =
     bindA (if sourceIsActive
            then vmdbA x (\<lambda>env. SetActiveRevision env (vn_name newVMName) (vn_rev newVMName)) else ret ()) (\<lambda>_.
     bindA (nowA x) (\<lambda>downtimeEnd.
     bindA (getA (\<lambda>s. case GetByName (ap_vmdb s) vmName of Inr vm \<Rightarrow> Locked vm | Inl _ \<Rightarrow> False)) (\<lambda>originalLocked.
     bindA (VMLockUnlock x vmName False) (\<lambda>_.
     bindA (VMDelete x vmName) (\<lambda>_.
     ret (downtimeEnd, originalLocked))))))"

text \<open>The backup of the old revision is restored in the new one; it is deleted in any case.\<close>

definition drop_backup :: "'w ext \<Rightarrow> string \<Rightarrow> ('w, unit) app_act" where
  "drop_backup x backupName =
     bindA (resultA (backupsA x (\<lambda>w. bdb_Delete w backupName))) (\<lambda>r.
     if isl r then ret () else DeleteVolume x backupName PoolBackups)"

definition transfer_data ::
  "'w ext \<Rightarrow> vm_name \<Rightarrow> vm \<Rightarrow> vm_name \<Rightarrow> string \<Rightarrow> ('w, 'a) app_act \<Rightarrow> ('w, 'a) app_act" where
  "transfer_data x vmName newVM newVMName authorKey rest =
     bindA (VMBackup x vmName authorKey False 0) (\<lambda>backupName.
     deferA (drop_backup x backupName) (
     bindA (getA (\<lambda>s. bdb_GetByName (ap_backups s) backupName)) (\<lambda>found.
     case found of None \<Rightarrow> fail (Failed ''can't find backup in DB'' [backupName])
     | Some backup \<Rightarrow>
         bindA (VMRestoreNoChecks x InDatabase newVM newVMName backup) (\<lambda>_. rest))))"

definition replace_vm ::
  "'w ext \<Rightarrow> vm_name \<Rightarrow> vm \<Rightarrow> vm_name \<Rightarrow> string \<Rightarrow> bool \<Rightarrow> bool \<Rightarrow> ('w, 'a) app_act \<Rightarrow> ('w, 'a) app_act" where
  "replace_vm x vmName newVM newVMName authorKey backupAndRestore sourceIsActive rest =
     (let body = (if backupAndRestore then transfer_data x vmName newVM newVMName authorKey rest else rest)
      in if \<not> sourceIsActive then body
         else bindA (vmdbA x (\<lambda>env. SetActiveRevision env (vn_name vmName) RevisionNone)) (\<lambda>_.
              defer_unless (vmdbA x (\<lambda>env. SetActiveRevision env (vn_name vmName) (vn_rev vmName))) body))"

definition rebuild_checks :: "'w ext \<Rightarrow> vm_name \<Rightarrow> vm \<Rightarrow> ('w, unit) app_act" where
  "rebuild_checks x vmName vm =
     bindA (checkA (WIP vm = OpNone) (Failed ''VM already have a work in progress'' [])) (\<lambda>_.
     bindA (checkA (cfg_Restore (Config vm) = [] \<or> cfg_Backup (Config vm) \<noteq> [])
              (Failed ''restore script(s) defined but no backup script found'' [])) (\<lambda>_.
     bindA (checkA (cfg_Backup (Config vm) = [] \<or> cfg_Restore (Config vm) \<noteq> [])
              (Failed ''backup script(s) defined but no restore script found'' [])) (\<lambda>_.
     bindA (is_running x vmName) (\<lambda>running.
     checkA running (Failed ''VM should be up and running'' [])))))"

text \<open>
  After the commit, errors are only logged. Nothing in it fails, so it can stand inside the
  deferred rollbacks, which the success flag has disarmed; the deletion of the backup comes after it.
\<close>

definition finish_rebuild ::
  "'w ext \<Rightarrow> vm \<Rightarrow> vm_name \<Rightarrow> bool \<Rightarrow> duration \<Rightarrow> time \<Rightarrow> ('w, unit) app_act" where
  "finish_rebuild x newVM newVMName lock downtime rebuildStart =
     bindA (if lock then resultA (VMLockUnlock x newVMName True) else ret (Inr ())) (\<lambda>r.
     if isl r then ret ()
     else bindA (nowA x) (\<lambda>rebuildEnd.
          bindA (change_vm InDatabase newVMName newVM
            (\<lambda>v. v\<lparr>LastRebuildDowntime := downtime, LastRebuildDuration := time_sub rebuildEnd rebuildStart\<rparr>)) (\<lambda>_.
          bindA (resultA (vmdbA x vmdb_Update)) (\<lambda>_. ret ()))))"

definition VMRebuild :: "nat \<Rightarrow> 'w ext \<Rightarrow> vm_name \<Rightarrow> bool \<Rightarrow> string \<Rightarrow> ('w, unit) app_act" where
  "VMRebuild draws x vmName lock authorKey =
     bindA (nowA x) (\<lambda>rebuildStart.
     bindA (lookupA (\<lambda>s. GetEntryByName (ap_vmdb s) vmName)) (\<lambda>entry.
     let vm = VM entry;
         backupAndRestore = (cfg_Restore (Config vm) \<noteq> [] \<or> cfg_Backup (Config vm) \<noteq> []) in
     bindA (rebuild_checks x vmName vm) (\<lambda>_.
     bindA (with_error (failed_as (Failed ''decoding config'' []))
              (NewVMConfigFromTomlReader x (Inr (cfg_FileContent (Config vm))))) (\<lambda>conf0.
     let conf = conf0\<lparr>cfg_RestoreBackup := (if backupAndRestore then BackupBlankRestore else [])\<rparr> in
     bindA (with_error (failed_as (Failed ''cannot create VM'' [])) (NewVM draws x conf False False authorKey)) (\<lambda>(newVM, newVMName).
     defer_unless (VMDelete x newVMName) (
     bindA (nowA x) (\<lambda>downtimeStart.
     replace_vm x vmName newVM newVMName authorKey backupAndRestore (Active entry) (
     bindA (switch_over x vmName newVMName (Active entry)) (\<lambda>(downtimeEnd, originalLocked).
     finish_rebuild x newVM newVMName (lock \<or> originalLocked) (time_sub downtimeEnd downtimeStart) rebuildStart)))))))))"

subsection \<open>Automatic rebuilds\<close>

definition IsRebuildNeeded :: "string \<Rightarrow> duration \<Rightarrow> bool" where
  "IsRebuildNeeded rebuildSetting sinceLastRebuild \<longleftrightarrow>
     rebuildSetting = VMAutoRebuildDaily \<and> hours 24 < sinceLastRebuild \<or>
     rebuildSetting = VMAutoRebuildWeekly \<and> hours (7 * 24) < sinceLastRebuild \<or>
     rebuildSetting = VMAutoRebuildMonthly \<and> hours (30 * 24) < sinceLastRebuild"

definition autoRebuildVM :: "nat \<Rightarrow> 'w ext \<Rightarrow> vm_name \<Rightarrow> ('w, unit) app_act" where
  "autoRebuildVM draws x vmName =
     bindA (lookupA (\<lambda>s. GetEntryByName (ap_vmdb s) vmName)) (\<lambda>entry.
     if \<not> Active entry then ret ()
     else bindA (is_running x vmName) (\<lambda>running.
     if \<not> running then ret ()
     else bindA (vmA vmName) (\<lambda>vm.
     bindA (nowA x) (\<lambda>now.
     if \<not> IsRebuildNeeded (cfg_AutoRebuild (Config vm)) (time_sub now (InitDate vm - hours 12)) then ret ()
     else VMRebuild draws x vmName False (AuthorKey vm)))))"

text \<open>The loop goes through all the names it read first and only reports errors.\<close>

fun rebuild_each :: "nat \<Rightarrow> 'w ext \<Rightarrow> vm_name list \<Rightarrow> ('w, vm_name list) app_act" where
  "rebuild_each draws x [] = ret []"
| "rebuild_each draws x (vmName # vmNames) =
     bindA (resultA (autoRebuildVM draws x vmName)) (\<lambda>r.
     bindA (rebuild_each draws x vmNames) (\<lambda>failed.
     ret (if isl r then vmName # failed else failed)))"

definition autoRebuildStart :: "nat \<Rightarrow> 'w ext \<Rightarrow> ('w, vm_name list) app_act" where
  "autoRebuildStart draws x = bindA (getA (\<lambda>s. GetNames (ap_vmdb s))) (rebuild_each draws x)"

definition two_digits :: "nat \<Rightarrow> string" where "two_digits n = [digit (n div 10), digit (n mod 10)]"

text \<open>The scheduler compares the text of the setting with \<open>time.Now().Format("15:04")\<close> every minute.\<close>

definition clock_text :: "nat \<Rightarrow> nat \<Rightarrow> string" where
  "clock_text hour minute = two_digits hour @ '':'' @ two_digits minute"

definition AutoRebuildSchedule_step :: "nat \<Rightarrow> 'w ext \<Rightarrow> nat \<Rightarrow> nat \<Rightarrow> ('w, vm_name list) app_act" where
  "AutoRebuildSchedule_step draws x hour minute =
     bindA (getA (\<lambda>s. sc_AutoRebuildTime (ap_config s))) (\<lambda>rebuild_time.
     if rebuild_time = clock_text hour minute then autoRebuildStart draws x else ret [])"

end
