(* ===== verification/Seeds.thy ===== *)
theory Seeds
  imports Vm_Rebuild
begin

text \<open>
  The seeds, images new VMs start from: \<open>cmd/mulchd/server/seeds.go\<close> and the actions of
  \<open>controllers/seed.go\<close>. A seed is downloaded from its URL or built by a VM, its seeder; a hidden loop
  refreshes both kinds every hour. The fields a run changes are changed in the database by name; the
  name, URL and seeder of a seed do not change after the start. The progress texts of a download
  are left out.
\<close>

subsection \<open>The database\<close>

definition new_seed :: "string \<Rightarrow> config_seed \<Rightarrow> seed" where
  "new_seed name c =
     \<lparr>sd_Name = name, sd_URL = cs_URL c, sd_Seeder = cs_Seeder c, sd_Ready = False, sd_LastModified = zero_time,
      sd_Size = 0, sd_Status = [], sd_StatusTime = zero_time, sd_PausedUntil = zero_time\<rparr>"

definition GetVolumeName :: "seed \<Rightarrow> string" where "GetVolumeName sd = sd_Name sd @ ''.qcow2''"

definition IsPaused :: "time \<Rightarrow> seed \<Rightarrow> bool" where
  "IsPaused now sd \<longleftrightarrow> sd_PausedUntil sd \<noteq> zero_time \<and> now < sd_PausedUntil sd"

definition seeds_load :: "seed_db \<Rightarrow> app_error + seed_db" where
  "seeds_load d =
     (case seeds_file d of
        NoFile \<Rightarrow> Inl (FromDb (DbFile ''open'')) | Damaged \<Rightarrow> Inl (FromDb DbDecode)
      | Holds m \<Rightarrow> Inr (d\<lparr>seeds := put_all m (seeds d)\<rparr>))"

definition seeds_save :: "'w ext \<Rightarrow> ('w, unit) app_act" where
  "seeds_save x =
     bindA (askA (os_Write (x_os x))) (\<lambda>w s.
     case write_file w (seeds (ap_seeds s)) (seeds_file (ap_seeds s)) of (f, e) \<Rightarrow>
       (s\<lparr>ap_seeds := (ap_seeds s)\<lparr>seeds_file := f\<rparr>\<rparr>, case e of None \<Rightarrow> Inr () | Some e \<Rightarrow> Inl (FromDb (DbFile e))))"

definition seeds_GetByName :: "seed_db \<Rightarrow> string \<Rightarrow> app_error + seed" where
  "seeds_GetByName d name =
     (case gm_get (seeds d) name of None \<Rightarrow> Inl (Failed ''seed does not exists'' [name]) | Some sd \<Rightarrow> Inr sd)"

definition seeds_GetNames :: "seed_db \<Rightarrow> string list" where "seeds_GetNames d = gm_keys (seeds d)"

definition change_seed :: "string \<Rightarrow> (seed \<Rightarrow> seed) \<Rightarrow> ('w, unit) app_act" where
  "change_seed name f =
     changeA (\<lambda>s. s\<lparr>ap_seeds := (ap_seeds s)\<lparr>seeds :=
       (case gm_get (seeds (ap_seeds s)) name of None \<Rightarrow> seeds (ap_seeds s)
        | Some sd \<Rightarrow> gm_put name (f sd) (seeds (ap_seeds s)))\<rparr>\<rparr>)"

definition UpdateStatus :: "'w ext \<Rightarrow> string \<Rightarrow> string \<Rightarrow> ('w, unit) app_act" where
  "UpdateStatus x name status =
     bindA (nowA x) (\<lambda>now. change_seed name (\<lambda>sd. sd\<lparr>sd_Status := status, sd_StatusTime := now\<rparr>))"

subsection \<open>The start\<close>

text \<open>A seed that was not ready is downloaded again whatever the date of the last one.\<close>

definition restart_download :: "seed \<Rightarrow> seed" where
  "restart_download sd = (if \<not> sd_Ready sd then sd\<lparr>sd_LastModified := zero_time\<rparr> else sd)"

definition reconcile_seed :: "string \<times> config_seed \<Rightarrow> (string, seed) gomap \<Rightarrow> app_error + (string, seed) gomap" where
  "reconcile_seed = (\<lambda>(name, c) m.
     case gm_get m name of
       None \<Rightarrow> Inr (gm_put name (new_seed name c) m)
     | Some sd \<Rightarrow>
         if sd_URL sd \<noteq> [] \<and> cs_URL c = []
         then Inl (Failed ''converting URL seeds to Seeders is not supported'' [name])
         else if sd_Seeder sd \<noteq> [] \<and> cs_Seeder c = []
         then Inl (Failed ''converting Seeders to URL seeds is not supported'' [name])
         else Inr (gm_put name (sd\<lparr>sd_URL := cs_URL c, sd_Seeder := cs_Seeder c\<rparr>) m))"

definition drop_old_seed :: "'w ext \<Rightarrow> (string, config_seed) gomap \<Rightarrow> string \<times> seed \<Rightarrow> ('w, unit) app_act" where
  "drop_old_seed x wanted = (\<lambda>(name, oldSeed).
     if gm_get wanted name \<noteq> None then ret ()
     else bindA (changeA (\<lambda>s. s\<lparr>ap_seeds := (ap_seeds s)\<lparr>seeds := gm_del name (seeds (ap_seeds s))\<rparr>\<rparr>)) (\<lambda>_.
          bindA (resultA (DeleteVolume x (GetVolumeName oldSeed) PoolSeeds)) (\<lambda>_. ret ())))"

definition NewSeeder :: "'w ext \<Rightarrow> ('w, unit) app_act" where
  "NewSeeder x =
     bindA (changeA (\<lambda>s. s\<lparr>ap_seeds := (ap_seeds s)\<lparr>seeds := []\<rparr>\<rparr>)) (\<lambda>_.
     bindA (readA (\<lambda>s. if seeds_file (ap_seeds s) = NoFile then Inr (ap_seeds s) else seeds_load (ap_seeds s))) (\<lambda>d.
     bindA (getA (\<lambda>s. sc_Seeds (ap_config s))) (\<lambda>wanted.
     bindA (pureA (foldE reconcile_seed wanted (gm_map restart_download (seeds d)))) (\<lambda>m.
     bindA (changeA (\<lambda>s. s\<lparr>ap_seeds := d\<lparr>seeds := m\<rparr>\<rparr>)) (\<lambda>_.
     bindA (forA (drop_old_seed x wanted) m) (\<lambda>_.
     seeds_save x))))))"

subsection \<open>Seeds with a URL\<close>

definition seedDownload :: "'w ext \<Rightarrow> seed \<Rightarrow> ('w, string) app_act" where
  "seedDownload x sd =
     bindA (osA ''temp'' (os_CreateTemp (x_os x))) (\<lambda>tmpfile.
     bindA (osA ''get'' (os_HttpFetch (x_os x) (sd_URL sd))) (\<lambda>resp.
     bindA (checkA (hh_Status resp = 200) (Failed ''response was'' [itoa (hh_Status resp)])) (\<lambda>_.
     let total = (case atoi (hh_Length resp) of None \<Rightarrow> 0 | Some n \<Rightarrow> n) in
     bindA (checkA (total \<noteq> 0) (Failed ''image size is 0, check URL'' [])) (\<lambda>_.
     bindA (change_seed (sd_Name sd) (\<lambda>v. v\<lparr>sd_Size := word_of_int total\<rparr>)) (\<lambda>_.
     bindA (osA ''copy'' (os_CopyBody (x_os x) (sd_URL sd) tmpfile)) (\<lambda>_. ret tmpfile))))))"

definition last_modified :: "'w ext \<Rightarrow> seed \<Rightarrow> ('w, time) app_act" where
  "last_modified x sd =
     bindA (osA ''head'' (os_HttpHead (x_os x) (sd_URL sd))) (\<lambda>res.
     bindA (checkA (hh_Status res = 200) (Failed ''response was'' [itoa (hh_Status res)])) (\<lambda>_.
     bindA (checkA (hh_LastModified res \<noteq> []) (Failed ''undefined Last-Modified header'' [])) (\<lambda>_.
     case px_HttpTime (x_px x) (hh_LastModified res) of
       None \<Rightarrow> fail (Failed ''can't parse Last-Modified header'' [hh_LastModified res]) | Some t \<Rightarrow> ret t)))"

text \<open>From the downloaded file to the storage pool; the seed is not ready meanwhile.\<close>

definition store_seed :: "'w ext \<Rightarrow> seed \<Rightarrow> string \<Rightarrow> time \<Rightarrow> ('w, unit) app_act" where
  "store_seed x sd tmpFile t =
     bindA (change_seed (sd_Name sd) (\<lambda>v. v\<lparr>sd_Ready := False\<rparr>)) (\<lambda>_.
     bindA (resultA (seeds_save x)) (\<lambda>_.
     bindA (UpdateStatus x (sd_Name sd) ''moving to storage'') (\<lambda>_.
     bindA (resultA (DeleteVolume x (GetVolumeName sd) PoolSeeds)) (\<lambda>errR.
     bindA (checkA (\<not> isl errR \<or> errR = Inl (FromLibvirt LvNoStorageVol)) (Failed ''unable to delete old image'' [])) (\<lambda>_.
     bindA (getA ap_config) (\<lambda>conf.
     bindA (with_error (failed_as (Failed ''unable to move image to storage'' []))
       (UploadFileToLibvirt x PoolSeeds (GetTemplateFilepath conf ''volume.xml'') tmpFile (GetVolumeName sd))) (\<lambda>_.
     bindA (nowA x) (\<lambda>after.
     bindA (change_seed (sd_Name sd) (\<lambda>v. v\<lparr>sd_Ready := True, sd_LastModified := t\<rparr>)) (\<lambda>_.
     bindA (UpdateStatus x (sd_Name sd) ''downloaded and stored'') (\<lambda>_.
     bindA (resultA (seeds_save x)) (\<lambda>_. ret ())))))))))))"

definition RefreshSeed :: "'w ext \<Rightarrow> seed \<Rightarrow> bool \<Rightarrow> ('w, unit) app_act" where
  "RefreshSeed x sd force =
     bindA (last_modified x sd) (\<lambda>t.
     if sd_LastModified sd = t \<and> \<not> force then ret ()
     else bindA (UpdateStatus x (sd_Name sd) ''downloading'') (\<lambda>_.
          bindA (nowA x) (\<lambda>before.
          bindA (with_error (failed_as (Failed ''unable to download image'' [])) (seedDownload x sd)) (\<lambda>tmpFile.
          deferA (osA ''remove'' (os_Remove (x_os x) tmpFile)) (store_seed x sd tmpFile t)))))"

subsection \<open>Seeds built by a VM\<close>

text \<open>From the stopped seeder VM to the seed; the VM is deleted in any case.\<close>

definition clone_seeder :: "'w ext \<Rightarrow> seed \<Rightarrow> string \<Rightarrow> ('w, unit) app_act" where
  "clone_seeder x sd diskNameVM =
     bindA (change_seed (sd_Name sd) (\<lambda>v. v\<lparr>sd_Ready := False\<rparr>)) (\<lambda>_.
     bindA (resultA (DeleteVolume x (GetVolumeName sd) PoolSeeds)) (\<lambda>_.
     bindA (getA ap_config) (\<lambda>conf.
     bindA (CloneVolume x diskNameVM PoolDisks (GetVolumeName sd) PoolSeeds (GetTemplateFilepath conf ''volume.xml'')) (\<lambda>_.
     bindA (VolumeInfos x (GetVolumeName sd) PoolSeeds) (\<lambda>allocation.
     bindA (nowA x) (\<lambda>t.
     bindA (change_seed (sd_Name sd)
       (\<lambda>v. v\<lparr>sd_Ready := True, sd_LastModified := t, sd_Size := allocation\<rparr>)) (\<lambda>_.
     bindA (UpdateStatus x (sd_Name sd) ''seeder was built'') (\<lambda>_.
     bindA (resultA (seeds_save x)) (\<lambda>_. ret ())))))))))"

definition run_seeder :: "'w ext \<Rightarrow> seed \<Rightarrow> vm_name \<Rightarrow> ('w, unit) app_act" where
  "run_seeder x sd vmName =
     bindA (vmA vmName) (\<lambda>vm.
     bindA (nowA x) (\<lambda>after.
     bindA (super_user_auth x vm) (\<lambda>_.
     bindA (template_task x ''post-seeder.sh'') (\<lambda>post.
     bindA (run_all x [] (LastIP vm) [post]) (\<lambda>_.
     bindA (VMStopByName x vmName False VMStopDefaultTimeout) (\<lambda>_.
     bindA (VMGetDiskName x vmName) (clone_seeder x sd)))))))"

definition RefreshSeeder :: "nat \<Rightarrow> 'w ext \<Rightarrow> seed \<Rightarrow> bool \<Rightarrow> ('w, unit) app_act" where
  "RefreshSeeder draws x sd force =
     bindA (GetContent x (sd_Seeder sd)) (\<lambda>content.
     bindA (with_error (failed_as (Failed ''decoding config'' [])) (NewVMConfigFromTomlReader x (Inr content))) (\<lambda>conf.
     bindA (checkA (cfg_AutoRebuild conf \<noteq> []) (Failed ''seeder is missing auto_rebuild setting'' [])) (\<lambda>_.
     bindA (nowA x) (\<lambda>now.
     if \<not> IsRebuildNeeded (cfg_AutoRebuild conf) (time_sub now (sd_LastModified sd)) \<and> \<not> force then ret ()
     else bindA (UpdateStatus x (sd_Name sd) ''rebuilding'') (\<lambda>_.
          bindA (nowA x) (\<lambda>before.
          bindA (NewVM draws x conf False False ''[seeder]'') (\<lambda>(_, vmName).
          deferA (VMDelete x vmName) (run_seeder x sd vmName))))))))"

subsection \<open>The loop\<close>

definition reportError :: "'w ext \<Rightarrow> seed \<Rightarrow> ('w, unit) app_act" where
  "reportError x sd =
     bindA (UpdateStatus x (sd_Name sd) (''seeder error: '' @ sd_Name sd)) (\<lambda>_.
     bindA (resultA (seeds_save x)) (\<lambda>_. ret ()))"

definition refresh_due :: "'w ext \<Rightarrow> (seed \<Rightarrow> bool) \<Rightarrow> (seed \<Rightarrow> ('w, unit) app_act) \<Rightarrow> string \<Rightarrow> ('w, unit) app_act" where
  "refresh_due x mine refresh name =
     bindA (readA (\<lambda>s. seeds_GetByName (ap_seeds s) name)) (\<lambda>sd.
     if \<not> mine sd then ret ()
     else bindA (if sd_PausedUntil sd = zero_time then ret False
                 else bindA (nowA x) (\<lambda>now. ret (IsPaused now sd))) (\<lambda>paused.
     if paused then ret ()
     else bindA (resultA (refresh sd)) (\<lambda>r. if isl r then reportError x sd else ret ())))"

definition runStepSeeds :: "'w ext \<Rightarrow> ('w, unit) app_act" where
  "runStepSeeds x =
     bindA (getA (\<lambda>s. seeds_GetNames (ap_seeds s)))
       (forA (refresh_due x (\<lambda>sd. sd_Seeder sd = [])
         (\<lambda>sd. if sd_URL sd \<noteq> [] then RefreshSeed x sd False else ret ())))"

definition runStepSeeders :: "nat \<Rightarrow> 'w ext \<Rightarrow> ('w, unit) app_act" where
  "runStepSeeders draws x =
     bindA (getA (\<lambda>s. seeds_GetNames (ap_seeds s)))
       (forA (refresh_due x (\<lambda>sd. sd_URL sd = [])
         (\<lambda>sd. if sd_Seeder sd \<noteq> [] then RefreshSeeder draws x sd False else ret ())))"

definition PauseSeed :: "'w ext \<Rightarrow> string \<Rightarrow> time \<Rightarrow> ('w, unit) app_act" where
  "PauseSeed x name unpauseTime =
     bindA (change_seed name (\<lambda>sd. sd\<lparr>sd_PausedUntil := unpauseTime\<rparr>)) (\<lambda>_. seeds_save x)"

subsection \<open>The actions on a seed\<close>

definition seedRefresh :: "nat \<Rightarrow> 'w ext \<Rightarrow> seed \<Rightarrow> ('w, unit) app_act" where
  "seedRefresh draws x sd =
     bindA (if sd_URL sd \<noteq> [] then resultA (RefreshSeed x sd True) else ret (Inr ())) (\<lambda>err.
     bindA (if sd_Seeder sd \<noteq> [] then resultA (RefreshSeeder draws x sd True) else ret err) (\<lambda>err2.
     pureA err2))"

definition seedPause :: "'w ext \<Rightarrow> string \<Rightarrow> seed \<Rightarrow> ('w, unit) app_act" where
  "seedPause x durationStr sd =
     (case atoi durationStr of None \<Rightarrow> fail (Failed ''unable to parse duration value'' [])
      | Some n \<Rightarrow> bindA (nowA x) (\<lambda>now. PauseSeed x (sd_Name sd) (now + seconds n)))"

definition ActionSeedController ::
  "nat \<Rightarrow> 'w ext \<Rightarrow> (string \<Rightarrow> string) \<Rightarrow> string \<Rightarrow> ('w, unit) app_act" where
  "ActionSeedController draws x FormValue seedName =
     bindA (with_error (failed_as (Failed ''invalid seed'' [seedName]))
       (readA (\<lambda>s. seeds_GetByName (ap_seeds s) seedName))) (\<lambda>sd.
     if FormValue ''action'' = ''refresh'' then
       bindA (nowA x) (\<lambda>before. bindA (attempt (seedRefresh draws x sd)) (\<lambda>r. bindA (nowA x) (\<lambda>after. pureA r)))
     else if FormValue ''action'' = ''pause'' then seedPause x (FormValue ''duration'') sd
     else fail (Failed ''missing or invalid action'' [FormValue ''action'']))"

end
