(* ===== verification/Vm_Config_Props.thy ===== *)
theory Vm_Config_Props
  imports Vm_Config Vm_Database_Reach
begin

text \<open>What an accepted configuration guarantees to the rest of the server.\<close>

subsection \<open>Reading a configuration changes the outside and the caches only\<close>

lemma keeps_NewVMConfig:
  assumes "\<And>s w. P s \<Longrightarrow> P (s\<lparr>ap_world := w\<rparr>)" and "\<And>s c. P s \<Longrightarrow> P (s\<lparr>ap_origins := c\<rparr>)"
  shows "keeps P (NewVMConfigFromTomlReader x configIn)"
proof -
  note content = keeps_GetContent [of P, OF assms]
  have check: "keeps P (vmCheckScriptURL x u)" for u
    unfolding vmCheckScriptURL_def by (intro keeps_rules content)
  have script: "keeps P (vmConfigGetScript x u v)" for u v
    unfolding vmConfigGetScript_def by (intro keeps_rules check)
  have action: "keeps P (vmConfigGetDoAction x t)" for t
    unfolding vmConfigGetDoAction_def by (intro keeps_rules check)
  have "keeps P (vm_config_of x content t)" for content t
    unfolding vm_config_of_def by (intro keeps_rules script action)
  then show ?thesis
    unfolding NewVMConfigFromTomlReader_def by (auto simp: keeps_fail split: sum.splits list.splits)
qed

subsection \<open>The parts of an accepted configuration\<close>

lemma accepted_parts:
  assumes "NewVMConfigFromTomlReader x configIn s = (s', Inr c)"
  obtains t env found where "check_sizes t = None" "vm_domains t = Inr (cfg_Domains c)"
    "vm_env (x_px x) t = Inr env" "cfg_Env c = env"
    "foldE (add_secret (ap_secrets s) env) (tv_Secrets t) [] = Inr found"
    "NewVMPortArray (tv_Ports t) = Inr (cfg_Ports c)" "build_timeout (tv_BuildTimeout t) = Inr (cfg_BuildTimeout c)"
    "cfg_Name c = tv_Name t" "cfg_Seed c = tv_Seed t" "cfg_Secrets c = tv_Secrets t"
    "cfg_DiskSize c = tv_DiskSize t" "cfg_RAMSize c = tv_RAMSize t" "cfg_CPUCount c = tv_CPUCount t"
proof -
  obtain content t where t: "vm_config_of x content t s = (s', Inr c)"
    using assms unfolding NewVMConfigFromTomlReader_def
    by (auto split: sum.splits list.splits)
  from t obtain domains env found ports prepare install backups restores timeout actions action_map tags s1 s2 s3 s4 s5
    where "check_sizes t = None" "vm_domains t = Inr domains" "vm_env (x_px x) t = Inr env"
      "foldE (add_secret (ap_secrets s) env) (tv_Secrets t) [] = Inr found"
      "(case NewVMPortArray (tv_Ports t) of Inl e \<Rightarrow> Inl (FromPorts e) | Inr ps \<Rightarrow> Inr ps) = Inr ports"
      "build_timeout (tv_BuildTimeout t) = Inr timeout"
      "c = \<lparr>cfg_FileContent = content, cfg_Name = tv_Name t, cfg_Hostname = vm_hostname t domains,
          cfg_Timezone = tv_Timezone t, cfg_AppUser = tv_AppUser t, cfg_Seed = tv_Seed t,
          cfg_InitUpgrade = tv_InitUpgrade t, cfg_DiskSize = tv_DiskSize t, cfg_RAMSize = tv_RAMSize t,
          cfg_CPUCount = tv_CPUCount t, cfg_Domains = domains, cfg_Env = env, cfg_Secrets = tv_Secrets t,
          cfg_Ports = ports, cfg_BackupDiskSize = tv_BackupDiskSize t, cfg_BackupCompress = tv_BackupCompress t,
          cfg_RestoreBackup = tv_RestoreBackup t, cfg_AutoRebuild = tv_AutoRebuild t,
          cfg_BuildTimeout = timeout, cfg_Prepare = prepare, cfg_Install = install, cfg_Backup = backups,
          cfg_Restore = restores, cfg_DoActions = action_map, cfg_Tags = tags\<rparr>"
    unfolding vm_config_of_def bindA_Inr by auto
  then show thesis by (intro that [of t env found]) (auto split: sum.splits)
qed

lemma note_domains:
  assumes "foldE note_domain ds m = Inr m'"
  shows "distinct (map dom_Name ds) \<and> (\<forall>d\<in>set ds. gm_get m (dom_Name d) = None)"
  using assms
proof (induction ds arbitrary: m)
  case (Cons d ds)
  then have "gm_get m (dom_Name d) = None" and "foldE note_domain ds (gm_put (dom_Name d) True m) = Inr m'"
    unfolding foldE_Cons_Inr by (auto simp: note_domain_def split: if_splits)
  with Cons.IH show ?case by (force split: if_splits)
qed simp

lemma redirect_target:
  "parse_redirect names parts = Inr d \<Longrightarrow> RedirectTo d \<in> set names \<and> RedirectCode d \<in> {301, 302, 307, 308}"
  by (auto simp: parse_redirect_def parse_status_def Let_def list_ex_iff split: if_splits sum.splits option.splits)

lemma parsed_domain: "parse_domain t n = Inr d \<Longrightarrow> RedirectTo d = []"
  by (auto simp: parse_domain_def new_domain_def Let_def split: if_splits option.splits)

lemma accepted_domains:
  assumes "vm_domains t = Inr ds"
  shows "distinct (map dom_Name ds) \<and>
    (\<forall>d\<in>set ds. RedirectTo d = [] \<or> (\<exists>e\<in>set ds. dom_Name e = RedirectTo d \<and> RedirectTo e = []))"
proof -
  obtain own reds m where own: "mapE (parse_domain t) (tv_Domains t) = Inr own"
    and reds: "mapE (parse_redirect (map dom_Name own)) (tv_Redirects t) = Inr reds"
    and m: "foldE note_domain (own @ reds) [] = Inr m" and ds: "ds = own @ reds"
    using assms by (auto simp: vm_domains_def split: sum.splits)
  have 1: "RedirectTo d = []" if "d \<in> set own" for d
    using mapE_mem [OF own that] parsed_domain by blast
  have 2: "\<exists>e\<in>set own. dom_Name e = RedirectTo d" if "d \<in> set reds" for d
    using mapE_mem [OF reds that] redirect_target by fastforce
  have "\<exists>e\<in>set ds. dom_Name e = RedirectTo d \<and> RedirectTo e = []" if "d \<in> set reds" for d
    using 1 2 [OF that] ds by auto
  moreover have "distinct (map dom_Name ds)" using note_domains [OF m] ds by blast
  ultimately show ?thesis using 1 ds by auto
qed

lemma accepted_secrets:
  assumes "foldE (add_secret db1 env) keys m = Inr m'"
  shows "(\<forall>k\<in>set keys. (\<exists>v. Get db1 k = Inr v) \<and> gm_get env (path_base k) = None) \<and>
    distinct (map path_base keys)"
proof -
  have "(\<forall>k\<in>set keys. (\<exists>v. Get db1 k = Inr v) \<and> gm_get env (path_base k) = None \<and> gm_get m (path_base k) = None) \<and>
    distinct (map path_base keys)"
    using assms
  proof (induction keys arbitrary: m)
    case (Cons k ks)
    then obtain v where k: "gm_get m (path_base k) = None" "gm_get env (path_base k) = None" "Get db1 k = Inr v"
      and "foldE (add_secret db1 env) ks (gm_put (path_base k) True m) = Inr m'"
      unfolding foldE_Cons_Inr by (auto simp: add_secret_def Let_def split: if_splits sum.splits)
    from Cons.IH [OF this(4)] k show ?case by (force split: if_splits)
  qed simp
  then show ?thesis by blast
qed

lemma accepted_timeout: "build_timeout v = Inr d \<Longrightarrow> d = 0 \<or> seconds 15 \<le> d"
  by (auto simp: build_timeout_def split: if_splits option.splits)

lemma accepted_sizes:
  "check_sizes t = None \<Longrightarrow> tv_Name t \<noteq> [] \<and> IsValidName (tv_Name t) \<and> MB \<le> tv_DiskSize t \<and> MB \<le> tv_RAMSize t \<and> 1 \<le> tv_CPUCount t"
  by (auto simp: check_sizes_def split: if_splits)

lemma accepted_config_ok:
  assumes "NewVMConfigFromTomlReader x configIn s = (s', Inr c)"
  shows "config_ok c \<and> cfg_Name c \<noteq> [] \<and> IsValidName (cfg_Name c)"
proof -
  from assms obtain t where "check_sizes t = None" "vm_domains t = Inr (cfg_Domains c)"
    "NewVMPortArray (tv_Ports t) = Inr (cfg_Ports c)" "cfg_Name c = tv_Name t"
    by (rule accepted_parts)
  then show ?thesis
    using accepted_sizes accepted_domains array_ports_ok by (force simp: config_ok_def)
qed

text \<open>C18. An accepted configuration satisfies what the database, the proxy and the build rely on: a valid name, domains
  without duplicates whose redirections lead to a domain of the VM that is not one, ports without conflict, at least
  1 MB of disk and memory and one CPU, a build timeout that is zero or at least 15 seconds, and secrets that exist
  and do not hide each other or an environment variable.\<close>

theorem vm_config_accepted:
  assumes "NewVMConfigFromTomlReader x configIn s = (s', Inr c)"
  shows "config_ok c \<and> cfg_Name c \<noteq> [] \<and> IsValidName (cfg_Name c) \<and>
    MB \<le> cfg_DiskSize c \<and> MB \<le> cfg_RAMSize c \<and> 1 \<le> cfg_CPUCount c \<and>
    (cfg_BuildTimeout c = 0 \<or> seconds 15 \<le> cfg_BuildTimeout c) \<and>
    (\<forall>d\<in>set (cfg_Domains c). RedirectTo d = [] \<or>
       (\<exists>e\<in>set (cfg_Domains c). dom_Name e = RedirectTo d \<and> RedirectTo e = [])) \<and>
    distinct (map path_base (cfg_Secrets c)) \<and>
    (\<forall>k\<in>set (cfg_Secrets c). (\<exists>v. Get (ap_secrets s) k = Inr v) \<and> gm_get (cfg_Env c) (path_base k) = None)"
proof -
  from assms obtain t env found where p: "check_sizes t = None" "vm_domains t = Inr (cfg_Domains c)" "cfg_Env c = env"
    "foldE (add_secret (ap_secrets s) env) (tv_Secrets t) [] = Inr found"
    "build_timeout (tv_BuildTimeout t) = Inr (cfg_BuildTimeout c)" "cfg_Secrets c = tv_Secrets t"
    "cfg_DiskSize c = tv_DiskSize t" "cfg_RAMSize c = tv_RAMSize t" "cfg_CPUCount c = tv_CPUCount t"
    by (rule accepted_parts)
  show ?thesis
    using accepted_config_ok [OF assms] accepted_sizes [OF p(1)] accepted_domains [OF p(2)]
      accepted_timeout [OF p(5)] accepted_secrets [OF p(4)] by (auto simp: p(3,6-9))
qed

end
