(* ===== verification/Vm_Lifecycle.thy ===== *)
theory Vm_Lifecycle
  imports Vm_Rebuild Vm_Config_Props Vm_Registry
begin

text \<open>
  What the long operations do to the VM database, whatever the outside answers: they keep its
  invariant, they leave the other VMs alone, and the effect of a build on the revisions is that of
  one \<open>Add\<close>, or nothing.
\<close>

subsection \<open>Revisions of one name\<close>

lemma registry_at:
  assumes "entries_ok (db st)" and "entries_ok (db st')"
    and v: "\<And>r a. (NewVMName m r, a) \<in> view (db st') \<longleftrightarrow> (NewVMName m r, a) \<in> view (db st)"
  shows "registry st' m = registry st m"
proof (rule prod_eqI)
  show "fst (registry st' m) = fst (registry st m)" by (rule set_eqI) (simp add: v)
  show "snd (registry st' m) = snd (registry st m)"
    by (rule option_ext) (simp add: registry_snd assms(1,2) v)
qed

lemma registry_save:
  assumes "vmdb_save env st = (st', err)" and "entries_ok (db st)"
  shows "registry st' = registry st"
  by (rule ext, rule registry_at [OF assms(2) save_entries_ok [OF assms]])
    (simp add: save_view [OF assms(1)] entries_okD(1) [OF assms(2)])

text \<open>Whatever its result, an operation on a name leaves the others as they were.\<close>

lemma SetActive_others:
  assumes ok: "vmdb_ok st" and "m \<noteq> n"
  shows "registry (fst (SetActiveRevision env n r st)) m = registry st m"
proof (cases "\<exists>e. SetActiveRevision env n r st = (st, Some e)")
  case False
  with SetActive_cases have a: "may_activate env st n r"
    and s: "SetActiveRevision env n r st = vmdb_save env (st\<lparr>db := gm_map (set_revision n r) (db st)\<rparr>)" by blast+
  from ok have es: "entries_ok (db st)" by (simp add: vmdb_ok_def)
  note es1 = set_revision_map_ok [OF es a]
  obtain st1 err where e: "vmdb_save env (st\<lparr>db := gm_map (set_revision n r) (db st)\<rparr>) = (st1, err)" by fastforce
  have "registry st1 = registry (st\<lparr>db := gm_map (set_revision n r) (db st)\<rparr>)"
    by (rule registry_save [OF e]) (simp add: es1)
  moreover have "registry (st\<lparr>db := gm_map (set_revision n r) (db st)\<rparr>) m = registry st m"
    by (rule registry_at [OF es]) (use es1 assms(2) in \<open>auto simp: view_set_revision\<close>)
  ultimately show ?thesis using s e by simp
qed auto

lemma Delete_others:
  assumes ok: "vmdb_ok st" and n: "IsValidName (vn_name name)" and "m \<noteq> vn_name name"
  shows "registry (fst (vmdb_Delete env name st)) m = registry st m"
proof -
  have del: "registry (fst (vmdb_save env (st'\<lparr>db := gm_del (vn_ID name) (db st')\<rparr>))) m = registry st' m"
    if "vmdb_ok st'" for st'
  proof -
    from that have es: "entries_ok (db st')" by (simp add: vmdb_ok_def)
    obtain st1 err where e: "vmdb_save env (st'\<lparr>db := gm_del (vn_ID name) (db st')\<rparr>) = (st1, err)" by fastforce
    have "registry st1 = registry (st'\<lparr>db := gm_del (vn_ID name) (db st')\<rparr>)"
      by (rule registry_save [OF e]) (simp add: entries_ok_del es)
    moreover have "registry (st'\<lparr>db := gm_del (vn_ID name) (db st')\<rparr>) m = registry st' m"
      by (rule registry_at [OF es]) (use assms(3) in \<open>auto simp: entries_ok_del es view_del [OF es n] NewVMName_iff\<close>)
    ultimately show ?thesis using e by simp
  qed
  show ?thesis
  proof (cases "GetEntryByName st name")
    case (Inl e)
    then show ?thesis by (simp add: vmdb_Delete_def)
  next
    case (Inr entry)
    have nm: "Name entry = name"
    proof -
      from Inr have g: "gm_get (db st) (vn_ID name) = Some entry"
        by (auto simp: GetEntryByName_def getEntryByID_def split: option.splits)
      from ok have es: "entries_ok (db st)" by (simp add: vmdb_ok_def)
      show ?thesis
        by (rule vn_ID_inject) (use entry_name_valid [OF es g] entry_key [OF es g] n in \<open>auto simp: valid_vm_name_def\<close>)
    qed
    show ?thesis
    proof (cases "Active entry")
      case False
      with Inr del [OF ok] show ?thesis by (simp add: vmdb_Delete_def)
    next
      case True
      show ?thesis
      proof (cases "promoted_revision st entry")
        case (Inl e)
        with Inr True show ?thesis by (simp add: vmdb_Delete_def)
      next
        case (Inr r)
        show ?thesis
        proof (cases "0 \<le> r")
          case False
          with \<open>GetEntryByName st name = Inr entry\<close> True Inr del [OF ok] show ?thesis by (simp add: vmdb_Delete_def)
        next
          case pos: True
          obtain st1 err where s: "SetActiveRevision env (vn_name name) r st = (st1, err)" by fastforce
          with SetActive_others [OF ok assms(3), of env r] SetActive_keeps [OF ok, of env "vn_name name" r]
          have "registry st1 m = registry st m" "vmdb_ok st1" by simp_all
          with pos s \<open>GetEntryByName st name = Inr entry\<close> True Inr nm del [of st1] show ?thesis
            by (cases err) (simp_all add: vmdb_Delete_def)
        qed
      qed
    qed
  qed
qed

lemma Add_others:
  assumes ok: "vmdb_ok st" and n: "valid_vm_name name" and c: "config_ok (Config vm)"
    "cfg_Name (Config vm) = vn_name name" and m: "m \<noteq> vn_name name \<or> \<not> active \<and> gm_get (db st) (vn_ID name) = None"
    and r: "snd (vmdb_Add env vm name active st) \<noteq> None \<or> m \<noteq> vn_name name"
  shows "registry (fst (vmdb_Add env vm name active st)) m = registry st m"
proof -
  from ok have es: "entries_ok (db st)" by (simp add: vmdb_ok_def)
  let ?d = "if active then gm_map (deactivate_name (vn_name name)) (db st) else db st"
  let ?e = "\<lparr>Name = name, VM = vm, Active = active\<rparr>"
  let ?st = "st\<lparr>db := gm_put (vn_ID name) ?e ?d\<rparr>"
  consider (unchanged) "fst (vmdb_Add env vm name active st) = st"
    | (saved) st1 err where "active \<Longrightarrow> CheckDomainsConflicts env st (cfg_Domains (Config vm)) (vn_name name) = None"
      "active \<Longrightarrow> CheckPortsConflicts st (cfg_Ports (Config vm)) (vn_name name) = None"
      "gm_get (db st) (vn_ID name) = None" "vmdb_save env ?st = (st1, err)"
      "vmdb_Add env vm name active st = (if err = None then (st1, None) else (st1\<lparr>db := gm_del (vn_ID name) (db st1)\<rparr>, err))"
    by (fastforce simp: vmdb_Add_def Let_def split: option.splits prod.splits if_splits)
  then show ?thesis
  proof cases
    case saved
    from add_put_ok [OF es n c saved(1,2)] have es1: "entries_ok (db ?st)" by simp
    have dok: "gm_ok ?d" and dn: "gm_get ?d (vn_ID name) = None" using es saved(3) by (auto simp: entries_okD(1))
    have v1: "view (db st1) = insert (name, active) (view ?d)"
      using save_view [OF saved(4)] entries_okD(1) [OF es1] view_put [OF dok dn, of ?e] by simp
    note es2 = save_entries_ok [OF saved(4) es1]
    have vd: "(NewVMName m q, a) \<in> view ?d \<longleftrightarrow> (NewVMName m q, a) \<in> view (db st)" for q a
      using m by (auto simp: view_deactivate)
    have fresh: "(name, a) \<notin> view (db st)" for a
      using saved(3) entry_key [OF es] by (auto simp: view_get entries_okD(1) [OF es])
    show ?thesis
    proof (cases "err = None")
      case True
      with r saved(5) have "m \<noteq> vn_name name" by simp
      with True saved(5) show ?thesis
        by (simp, intro registry_at [OF es es2]) (auto simp: v1 vd NewVMName_iff)
    next
      case False
      from n have "IsValidName (vn_name name)" by (simp add: valid_vm_name_def)
      note vdel = view_del [OF es2 this]
      have eq: "fst (vmdb_Add env vm name active st) = st1\<lparr>db := gm_del (vn_ID name) (db st1)\<rparr>"
        unfolding saved(5) using False by (simp only: if_False fst_conv)
      show ?thesis
        unfolding eq by (intro registry_at [OF es]) (use fresh in \<open>auto simp: entries_ok_del es2 vdel v1 vd NewVMName_eta\<close>)
    qed
  qed simp
qed

subsection \<open>Properties of the database the outside cannot change\<close>

text \<open>A property that implies the invariant and looks at the profiles of the entries only.\<close>

definition quiet :: "(vmdb \<Rightarrow> bool) \<Rightarrow> bool" where
  "quiet D \<longleftrightarrow> (\<forall>st. D st \<longrightarrow> vmdb_ok st) \<and>
     (\<forall>st st'. D st \<longrightarrow> vmdb_ok st' \<longrightarrow> (\<forall>k. profiles (db st') k = profiles (db st) k) \<longrightarrow> D st')"

definition on_db :: "(vmdb \<Rightarrow> bool) \<Rightarrow> 'w app \<Rightarrow> bool" where "on_db D s = D (ap_vmdb s)"

lemma on_db_simps [simp]:
  "on_db D (s\<lparr>ap_world := w\<rparr>) = on_db D s" "on_db D (s\<lparr>ap_libvirt := l\<rparr>) = on_db D s"
  "on_db D (s\<lparr>ap_origins := c\<rparr>) = on_db D s" "on_db D (s\<lparr>ap_backups := b\<rparr>) = on_db D s"
  "on_db D (s\<lparr>ap_seeds := q\<rparr>) = on_db D s" "on_db D (s\<lparr>ap_vmdb := d\<rparr>) = D d"
  by (simp_all add: on_db_def)

lemma outside_on_db [keeps_rules]: "outside_free (on_db D)"
  by (simp add: outside_free_def)

lemma quietD: "quiet D \<Longrightarrow> D st \<Longrightarrow> vmdb_ok st"
  unfolding quiet_def by blast

lemma quiet_same:
  "quiet D \<Longrightarrow> D st \<Longrightarrow> vmdb_ok st' \<Longrightarrow> (\<And>k. profiles (db st') k = profiles (db st) k) \<Longrightarrow> D st'"
  unfolding quiet_def by blast

lemma quiet_save: "quiet D \<Longrightarrow> vmdb_save env st = (st', err) \<Longrightarrow> D st \<Longrightarrow> D st'"
  by (rule quiet_same [of D st]) (simp_all add: save_profiles save_ok [OF _ quietD])

lemma quiet_Update: "quiet D \<Longrightarrow> D st \<Longrightarrow> D (fst (vmdb_Update env st))"
  unfolding vmdb_Update_def using quiet_save by (metis prod.collapse)

lemma view_profile:
  assumes "gm_ok (db st)" "gm_ok (db st')" "\<And>k. profiles (db st') k = profiles (db st) k"
  shows "view (db st') = view (db st)"
  using assms by (rule view_profiles)

lemma registry_profile:
  assumes "vmdb_ok st" "vmdb_ok st'" "\<And>k. profiles (db st') k = profiles (db st) k"
  shows "registry st' = registry st"
proof (rule ext, rule registry_at)
  show es: "entries_ok (db st)" "entries_ok (db st')" using assms(1,2) by (simp_all add: vmdb_ok_def)
  show "((NewVMName m r, a) \<in> view (db st')) = ((NewVMName m r, a) \<in> view (db st))" for m r a
    using view_profile [OF entries_okD(1) [OF es(1)] entries_okD(1) [OF es(2)]] assms(3) by simp
qed

definition at_registry :: "registry \<Rightarrow> vmdb \<Rightarrow> bool" where
  "at_registry R st \<longleftrightarrow> vmdb_ok st \<and> registry st = R"

definition others_at :: "string \<Rightarrow> registry \<Rightarrow> vmdb \<Rightarrow> bool" where
  "others_at n R st \<longleftrightarrow> vmdb_ok st \<and> (\<forall>m. m \<noteq> n \<longrightarrow> registry st m = R m)"

lemma quiet_registry: "quiet (at_registry R)" "quiet (others_at n R)" "quiet vmdb_ok"
proof -
  have r: "vmdb_ok st \<Longrightarrow> vmdb_ok st' \<Longrightarrow> \<forall>k. profiles (db st') k = profiles (db st) k \<Longrightarrow> registry st' = registry st"
    for st st' by (rule registry_profile) simp_all
  show "quiet (at_registry R)" "quiet (others_at n R)" "quiet vmdb_ok"
    unfolding quiet_def at_registry_def others_at_def using r by (blast, metis, blast)
qed

lemma change_entry_keeps:
  assumes "entries_ok m" and "\<And>v. Config (f v) = Config v"
  shows "profiles (change_entry k u f m) k' = profiles m k' \<and> entries_ok (change_entry k u f m)"
proof -
  have p: "profile (e\<lparr>VM := f (VM e)\<rparr>) = profile e" for e
    by (simp add: profile_eq domain_names_def entry_ports_def assms(2))
  have pr: "profiles (change_entry k u f m) k' = profiles m k'" for k'
    by (auto simp: change_entry_def p split: option.split)
  moreover have "gm_ok (change_entry k u f m)"
    using entries_okD(1) [OF assms(1)] by (auto simp: change_entry_def split: option.split)
  ultimately show ?thesis using profiles_entries_ok [of "change_entry k u f m" m] assms(1) by simp
qed

lemma green_change_ok:
  assumes "gm_ok g" and "\<forall>(k, e)\<in>set g. entry_ok k e \<and> \<not> Active e"
    and "\<And>e. gm_get g k = Some e \<Longrightarrow> entry_ok k e \<Longrightarrow> entry_ok k (e\<lparr>VM := f (VM e)\<rparr>)"
  shows "gm_ok (change_entry k u f g) \<and> (\<forall>(k, e)\<in>set (change_entry k u f g). entry_ok k e \<and> \<not> Active e)"
proof (cases "gm_get g k")
  case (Some e)
  from gm_get_in [OF Some] assms(2) have e: "entry_ok k e" "\<not> Active e" by auto
  with assms(3) [OF Some] have "entry_ok k (e\<lparr>VM := f (VM e)\<rparr>)" by simp
  with Some e assms(1,2) show ?thesis by (auto simp: change_entry_def gm.entries_put)
qed (use assms in \<open>simp add: change_entry_def\<close>)

lemma keeps_change_vm:
  assumes D: "quiet D" and f: "\<And>v. Config (f v) = Config v"
  shows "keeps (on_db D) (change_vm where_is name vm f)"
  unfolding change_vm_def
proof (rule keeps_change, simp only: on_db_simps, rule quiet_same [OF D])
  fix s :: "'w app"
  assume "on_db D s"
  then show d: "D (ap_vmdb s)" by (simp add: on_db_def)
  from quietD [OF D d] have ok: "vmdb_ok (ap_vmdb s)" .
  then have es: "entries_ok (db (ap_vmdb s))" and g: "gm_ok (greenhouseDB (ap_vmdb s))"
    "\<forall>(k, e)\<in>set (greenhouseDB (ap_vmdb s)). entry_ok k e \<and> \<not> Active e" by (auto simp: vmdb_ok_def)
  have green: "gm_ok (change_entry (vn_ID name) (SecretUUID vm) f (greenhouseDB (ap_vmdb s))) \<and>
      (\<forall>(k, e)\<in>set (change_entry (vn_ID name) (SecretUUID vm) f (greenhouseDB (ap_vmdb s))). entry_ok k e \<and> \<not> Active e)"
    by (rule green_change_ok [OF g]) (simp add: entry_ok_def f)
  from ok green change_entry_keeps [OF es f, of "vn_ID name" "SecretUUID vm"]
  show "vmdb_ok (case where_is of
      InDatabase \<Rightarrow> (ap_vmdb s)\<lparr>db := change_entry (vn_ID name) (SecretUUID vm) f (db (ap_vmdb s))\<rparr>
    | InGreenhouse \<Rightarrow> (ap_vmdb s)\<lparr>greenhouseDB := change_entry (vn_ID name) (SecretUUID vm) f (greenhouseDB (ap_vmdb s))\<rparr>)"
    by (simp add: vmdb_ok_def split: place.split)
  show "profiles (db (case where_is of
      InDatabase \<Rightarrow> (ap_vmdb s)\<lparr>db := change_entry (vn_ID name) (SecretUUID vm) f (db (ap_vmdb s))\<rparr>
    | InGreenhouse \<Rightarrow> (ap_vmdb s)\<lparr>greenhouseDB := change_entry (vn_ID name) (SecretUUID vm) f (greenhouseDB (ap_vmdb s))\<rparr>)) k
    = profiles (db (ap_vmdb s)) k" for k
    using change_entry_keeps [OF es f, of "vn_ID name" "SecretUUID vm"] by (simp split: place.split)
qed

lemma keeps_replace_green:
  assumes D: "quiet D" and v: "config_ok (Config v)" "cfg_Name (Config v) = vn_name name" and n: "valid_vm_name name"
  shows "keeps (on_db D) (change_vm InGreenhouse name vm (\<lambda>_. v))"
  unfolding change_vm_def
proof (rule keeps_change, simp only: on_db_simps place.case, rule quiet_same [OF D])
  fix s :: "'w app"
  assume "on_db D s"
  then show d: "D (ap_vmdb s)" by (simp add: on_db_def)
  from quietD [OF D d] have ok: "vmdb_ok (ap_vmdb s)" .
  then have g: "gm_ok (greenhouseDB (ap_vmdb s))"
    "\<forall>(k, e)\<in>set (greenhouseDB (ap_vmdb s)). entry_ok k e \<and> \<not> Active e" by (auto simp: vmdb_ok_def)
  have "entry_ok (vn_ID name) (e\<lparr>VM := v\<rparr>)" if "entry_ok (vn_ID name) e" for e
  proof -
    have "Name e = name" by (rule vn_ID_inject) (use that n in \<open>auto simp: entry_ok_def valid_vm_name_def\<close>)
    with that v show ?thesis by (simp add: entry_ok_def)
  qed
  with green_change_ok [OF g, of "vn_ID name" "\<lambda>_. v" "SecretUUID vm"] ok
  show "vmdb_ok ((ap_vmdb s)\<lparr>greenhouseDB := change_entry (vn_ID name) (SecretUUID vm) (\<lambda>_. v) (greenhouseDB (ap_vmdb s))\<rparr>)"
    by (simp add: vmdb_ok_def)
qed simp

lemma keeps_vmdb_quiet:
  assumes "\<And>st env. D st \<Longrightarrow> D (fst (f env st))"
  shows "keeps (on_db D) (vmdbA x f)"
  by (rule keeps_vmdbA) (simp_all add: on_db_def assms)

lemma keeps_Update [keeps_rules]: "quiet D \<Longrightarrow> keeps (on_db D) (vmdbA x vmdb_Update)"
  by (rule keeps_vmdb_quiet) (rule quiet_Update)

lemma keeps_backups_db [keeps_rules]: "keeps (on_db D) (backupsA x f)"
  by (rule keeps_backupsA) simp_all

lemma keeps_GetContent_db [keeps_rules]: "keeps (on_db D) (GetContent x path)"
  by (rule keeps_GetContent) simp_all

lemma keeps_NewVMConfig_db [keeps_rules]: "keeps (on_db D) (NewVMConfigFromTomlReader x c)"
  by (rule keeps_NewVMConfig) simp_all

end
