(* ===== verification/Vm_Effects.thy ===== *)
theory Vm_Effects
  imports Vm_Lifecycle
begin

text \<open>
  The effect of each operation on a VM on the VM database: what does not build or delete a VM keeps
  every quiet property of it, and the builds and rebuilds have the effect of their specification.
\<close>

subsection \<open>Operations that keep the database\<close>

lemma keeps_basic [keeps_rules]:
  assumes D: "quiet D"
  shows "keeps (on_db D) (existing_domain x name)" "keeps (on_db D) (SetOperation where_is name vm op)"
    "keeps (on_db D) (script_task x t)" "keeps (on_db D) (template_task x n)"
    "keeps (on_db D) (run_Go x c h ts)" "keeps (on_db D) (run_all x c h ts)"
    "keeps (on_db D) (super_user_auth x vm)" "keeps (on_db D) (vmA name)" "keeps (on_db D) (domainA name)"
proof -
  note D [keeps_rules]
  show dom: "keeps (on_db D) (domainA name)" for name unfolding domainA_def by (rule keeps_rules)
  show "keeps (on_db D) (existing_domain x name)" for x
    unfolding existing_domain_def by (rule keeps_rules dom | assumption)+
  show "keeps (on_db D) (SetOperation where_is name vm op)"
    unfolding SetOperation_def by (rule keeps_change_vm [OF D]) simp
  show "keeps (on_db D) (script_task x t)" unfolding script_task_def by (rule keeps_rules | assumption)+
  show "keeps (on_db D) (template_task x n)" unfolding template_task_def by (rule keeps_rules | assumption)+
  show go: "keeps (on_db D) (run_Go x c h ts)" for x c h ts unfolding run_Go_def by (rule keeps_rules | assumption)+
  show "keeps (on_db D) (run_all x c h ts)" unfolding run_all_def by (rule keeps_rules go | assumption)+
  show "keeps (on_db D) (super_user_auth x vm)" unfolding super_user_auth_def by (rule keeps_rules)
  show "keeps (on_db D) (vmA name)" unfolding vmA_def by (rule keeps_rules)
qed

lemma keeps_vm_ops [keeps_rules]:
  assumes D: "quiet D"
  shows "keeps (on_db D) (VMStopByName x name force t)" "keeps (on_db D) (VMStartByName x name u)"
    "keeps (on_db D) (VMIsRunning x name)" "keeps (on_db D) (is_running x name)"
    "keeps (on_db D) (VMLockUnlock x name locked)" "keeps (on_db D) (VMGetDiskName x name)"
    "keeps (on_db D) (VMCreateBackupDisk x name v n)" "keeps (on_db D) (VMAttachBackup x name v)"
    "keeps (on_db D) (VMDetachBackup x name)" "keeps (on_db D) (destroy_domain x dn)"
proof -
  show "keeps (on_db D) (VMStopByName x name force t)"
    unfolding VMStopByName_def by (rule keeps_rules D | assumption)+
  show "keeps (on_db D) (VMStartByName x name u)" unfolding VMStartByName_def by (rule keeps_rules D | assumption)+
  show run: "keeps (on_db D) (VMIsRunning x name)" for x name
    unfolding VMIsRunning_def by (rule keeps_rules D | assumption)+
  show "keeps (on_db D) (is_running x name)" unfolding is_running_def by (rule keeps_rules run | assumption)+
  have "keeps (on_db D) (change_vm InDatabase name vm (\<lambda>v. v\<lparr>Locked := locked\<rparr>))" for vm
    by (rule keeps_change_vm [OF D]) simp
  then show "keeps (on_db D) (VMLockUnlock x name locked)"
    unfolding VMLockUnlock_def by - (rule keeps_rules D | assumption)+
  show "keeps (on_db D) (VMGetDiskName x name)" unfolding VMGetDiskName_def by (rule keeps_rules D | assumption)+
  show "keeps (on_db D) (VMCreateBackupDisk x name v n)"
    unfolding VMCreateBackupDisk_def by (rule keeps_rules D | assumption)+
  show "keeps (on_db D) (VMAttachBackup x name v)" unfolding VMAttachBackup_def by (rule keeps_rules D | assumption)+
  show "keeps (on_db D) (VMDetachBackup x name)"
    unfolding VMDetachBackup_def vmFindBackupDisk_def by (rule keeps_rules D | assumption)+
  show "keeps (on_db D) (destroy_domain x dn)" unfolding destroy_domain_def by (rule keeps_rules D | assumption)+
qed

lemma keeps_backup_ops [keeps_rules]:
  assumes D: "quiet D"
  shows "keeps (on_db D) (VMBackup x name author c e)" "keeps (on_db D) (VMRestoreNoChecks x w vm name b)"
    "keeps (on_db D) (drop_backup x v)"
proof -
  have "keeps (on_db D) (backup_rollback x name vm post v)" for vm post v
    unfolding backup_rollback_def by (rule keeps_rules D | assumption)+
  moreover have "keeps (on_db D) (record_backup x v author vm e)" for v vm
    unfolding record_backup_def by (rule keeps_rules D | assumption)+
  ultimately show "keeps (on_db D) (VMBackup x name author c e)"
    unfolding VMBackup_def by - (rule keeps_rules D | assumption)+
  show "keeps (on_db D) (VMRestoreNoChecks x w vm name b)"
    unfolding VMRestoreNoChecks_def by (rule keeps_rules D | assumption)+
  show "keeps (on_db D) (drop_backup x v)" unfolding drop_backup_def by (rule keeps_rules D | assumption)+
qed

subsection \<open>The prepare scripts keep the domains and the ports\<close>

definition same_core :: "vm_config \<Rightarrow> vm_config \<Rightarrow> bool" where
  "same_core c c' \<longleftrightarrow> cfg_Name c' = cfg_Name c \<and> cfg_Domains c' = cfg_Domains c \<and> cfg_Ports c' = cfg_Ports c"

lemma same_core_ok: "same_core c c' \<Longrightarrow> config_ok c \<Longrightarrow> config_ok c' \<and> cfg_Name c' = cfg_Name c"
  by (simp add: same_core_def config_ok_def)

lemma if_var_core:
  assumes "same_core c (ps_config st)" and "\<And>v st. same_core c (ps_config st) \<Longrightarrow> same_core c (ps_config (f v st))"
  shows "same_core c (ps_config (if_var line name f st))"
  using assms by (auto simp: if_var_def split: prod.split)

lemma line_cores:
  "same_core c (ps_config st) \<Longrightarrow> same_core c (ps_config (tag_line v st))"
  "same_core c (ps_config st) \<Longrightarrow> same_core c (ps_config (commit_line v st))"
  by (auto simp: tag_line_def commit_line_def same_core_def Let_def)

lemma prepare_line_core:
  assumes D: "quiet D" and st: "same_core c (ps_config st)"
  shows "hoare (on_db D) (prepare_line x line st) (\<lambda>st' s. on_db D s \<and> same_core c (ps_config st')) (on_db D)"
proof -
  have script: "hoare (on_db D) (script_line x v st2) (\<lambda>st' s. on_db D s \<and> same_core c (ps_config st')) (on_db D)"
    if "same_core c (ps_config st2)" for v st2
    unfolding script_line_def
    by (rule hoare_bind, rule hoare_keeps, (rule keeps_rules D | assumption)+, rule hoare_ret)
      (use that in \<open>auto split: sum.split\<close>)
  show ?thesis
    unfolding prepare_line_def Let_def
    by (rule hoare_bind [of _ _ "\<lambda>st' s. on_db D s \<and> same_core c (ps_config st')"])
      (auto intro!: script hoare_ret if_var_core line_cores st split: prod.split)
qed

lemma prepare_lines_core:
  assumes D: "quiet D"
  shows "same_core c (ps_config st) \<Longrightarrow>
    hoare (on_db D) (prepare_lines x lines st) (\<lambda>st' s. on_db D s \<and> same_core c (ps_config st')) (on_db D)"
proof (induction lines arbitrary: st)
  case Nil
  then show ?case by (auto intro: hoare_ret)
next
  case (Cons line lines)
  show ?case
    unfolding prepare_lines.simps
    by (rule hoare_bind, rule prepare_line_core [OF D Cons.prems], rule hoare_fact, rule Cons.IH)
qed

lemma run_prepare_core:
  assumes D: "quiet D"
  shows "hoare (on_db D) (run_prepare x allow vm)
    (\<lambda>vm' s. on_db D s \<and> same_core (Config vm) (Config vm')) (on_db D)"
proof -
  have k: "keeps (on_db D) (collectA (script_task x) ts)" "keeps (on_db D) (run_Go x n h tasks)"
    "keeps (on_db D) (tolerate x allow e)" for ts n h tasks e
    unfolding tolerate_def by (rule keeps_rules D | assumption)+
  have "same_core (Config vm) (Config vm)" by (simp add: same_core_def)
  then show ?thesis
    unfolding run_prepare_def
    apply -
    apply (rule hoare_bind [OF hoare_keeps [OF k(1)]], assumption)
    apply (rule hoare_bind [OF hoare_keeps [OF k(2)]], assumption)
    apply (rule hoare_case_prod)
    apply (rule hoare_bind)
     apply (rule prepare_lines_core [OF D, of "Config vm"], simp)
    apply (rule hoare_fact)
    apply (rule hoare_bind [OF hoare_keeps [OF k(3)]], assumption)
    apply (rule hoare_bind [OF hoare_keeps], rule keeps_rules, assumption)
    apply (rule hoare_ret, simp)
    done
qed

subsection \<open>Operations of the database in a sequence\<close>

lemma hoare_vmdbA:
  assumes "\<And>st env st'. P st \<Longrightarrow> f env st = (st', None) \<Longrightarrow> Q st'"
    and "\<And>st env st' e. P st \<Longrightarrow> f env st = (st', Some e) \<Longrightarrow> E st'"
  shows "hoare (on_db P) (vmdbA x f) (\<lambda>_. on_db Q) (on_db E)"
proof (rule hoareI)
  fix s s' :: "'a app" and u assume P: "on_db P s" and run: "vmdbA x f s = (s', Inr u)"
  from run obtain env where "f env (ap_vmdb s) = (ap_vmdb s', None)"
    by (auto simp: vmdbA_def bindA_def askA_def split: prod.splits option.splits)
  with P assms(1) show "on_db Q s'" by (simp add: on_db_def)
next
  fix s s' :: "'a app" and e assume P: "on_db P s" and run: "vmdbA x f s = (s', Inl e)"
  from run obtain env e1 where "f env (ap_vmdb s) = (ap_vmdb s', Some e1)"
    by (auto simp: vmdbA_def bindA_def askA_def split: prod.splits option.splits)
  with P assms(2) show "on_db E s'" by (simp add: on_db_def)
qed

lemma hoare_ignore: "keeps (on_db D) m \<Longrightarrow> (\<And>st. D st \<Longrightarrow> E st) \<Longrightarrow> hoare (on_db D) m (\<lambda>_. on_db D) (on_db E)"
  by (rule hoare_keeps) (auto simp: on_db_def)

definition next_rev :: "registry \<Rightarrow> string \<Rightarrow> int" where
  "next_rev R n = (if fst (R n) = {} then 0 else Max (fst (R n)) + 1)"

lemma finite_revisions: "finite (fst (registry st n))"
  by (simp add: registry_def revisions_def)

lemma next_rev_exact:
  assumes "vmdb_ok st"
  shows "GetNextRevisionForName st n = next_rev (registry st) n"
proof -
  let ?P = "\<lambda>e. vn_name (Name e) = n" and ?es = "gm_vals (db st)"
  from assms have es: "entries_ok (db st)" by (simp add: vmdb_ok_def)
  have pos: "0 \<le> vn_rev (Name e)" if "e \<in> set ?es" for e
    using that entry_name_valid [OF es] by (auto simp: gm_vals_get entries_okD(1) [OF es] valid_vm_name_def)
  have revs: "fst (registry st n) = (\<lambda>e. vn_rev (Name e)) ` {e \<in> set ?es. ?P e}"
    by (auto simp: registry_def revisions_def)
  show ?thesis
  proof (cases "fst (registry st n) = {}")
    case True
    then have "max_revision ?P ?es = -1" by (subst max_revision_none) (auto simp: revs pos)
    with True show ?thesis by (simp add: GetNextRevisionForName_def next_rev_def)
  next
    case False
    then have "max_revision ?P ?es \<noteq> -1" by (subst max_revision_none) (auto simp: revs pos)
    with max_revision_attained [of ?P ?es] obtain e where "e \<in> set ?es" "?P e" "vn_rev (Name e) = max_revision ?P ?es"
      by blast
    then have "max_revision ?P ?es \<in> fst (registry st n)" unfolding revs by (metis (mono_tags, lifting) image_eqI mem_Collect_eq)
    moreover have "r \<le> max_revision ?P ?es" if "r \<in> fst (registry st n)" for r
      using that max_revision_upper [of _ ?es ?P] by (auto simp: revs)
    ultimately have "Max (fst (registry st n)) = max_revision ?P ?es"
      by (intro Max_eqI finite_revisions)
    with False show ?thesis by (simp add: GetNextRevisionForName_def next_rev_def)
  qed
qed

lemma next_rev_fresh: "finite (fst (R n)) \<Longrightarrow> next_rev R n \<notin> fst (R n)"
  using Max_ge [of "fst (R n)" "Max (fst (R n)) + 1"] by (auto simp: next_rev_def)

lemma registry_fresh:
  assumes "vmdb_ok st" and "valid_vm_name name" and "vn_rev name \<notin> fst (registry st (vn_name name))"
  shows "gm_get (db st) (vn_ID name) = None"
proof (rule ccontr)
  from assms(1) have es: "entries_ok (db st)" by (simp add: vmdb_ok_def)
  assume "gm_get (db st) (vn_ID name) \<noteq> None"
  then obtain e where e: "gm_get (db st) (vn_ID name) = Some e" by auto
  have "Name e = name"
    by (rule vn_ID_inject) (use entry_name_valid [OF es e] entry_key [OF es e] assms(2) in \<open>auto simp: valid_vm_name_def\<close>)
  with e assms(3) show False by (auto simp: view_get entries_okD(1) [OF es] NewVMName_eta)
qed

text \<open>After a failure: the other names are as they were, and so is this one unless it was to become active.\<close>

definition failed_at :: "string \<Rightarrow> bool \<Rightarrow> registry \<Rightarrow> vmdb \<Rightarrow> bool" where
  "failed_at n active R st \<longleftrightarrow> others_at n R st \<and> (\<not> active \<longrightarrow> registry st = R)"

lemma quiet_failed: "quiet (failed_at n active R)"
proof -
  have "D st \<Longrightarrow> vmdb_ok st' \<Longrightarrow> \<forall>k. profiles (db st') k = profiles (db st) k \<Longrightarrow> registry st' = registry st"
    if "\<And>st. D st \<Longrightarrow> vmdb_ok st" for D st st' using that by (intro registry_profile) simp_all
  from this [of vmdb_ok] show ?thesis unfolding quiet_def failed_at_def others_at_def by metis
qed

lemmas quiet_facts = quiet_registry quiet_failed

lemma at_others: "at_registry R st \<Longrightarrow> others_at n R st"
  by (simp add: at_registry_def others_at_def)

lemma at_failed: "at_registry R st \<Longrightarrow> failed_at n active R st"
  by (simp add: at_others failed_at_def) (simp add: at_registry_def)

lemma hoare_Add:
  assumes n: "valid_vm_name name" "vn_rev name \<notin> fst (R (vn_name name))"
    and c: "config_ok (Config vm)" "cfg_Name (Config vm) = vn_name name"
  shows "hoare (on_db (at_registry R)) (vmdbA x (\<lambda>env. vmdb_Add env vm name active))
    (\<lambda>_. on_db (at_registry (spec_add (vn_name name) (vn_rev name) active R))) (on_db (failed_at (vn_name name) active R))"
proof (rule hoare_vmdbA)
  fix st env st' assume at: "at_registry R st" and s: "vmdb_Add env vm name active st = (st', None)"
  with Add_refines [OF _ n(1) c s] Add_keeps [OF _ n(1) c, of st env active]
  show "at_registry (spec_add (vn_name name) (vn_rev name) active R) st'"
    by (simp add: at_registry_def)
next
  fix st env st' e assume at: "at_registry R st" and s: "vmdb_Add env vm name active st = (st', Some e)"
  then have ok: "vmdb_ok st" and R: "registry st = R" by (simp_all add: at_registry_def)
  have fresh: "gm_get (db st) (vn_ID name) = None"
    by (rule registry_fresh [OF ok n(1)]) (simp add: R n(2) del: registry_fst)
  from Add_keeps [OF ok n(1) c, of env active] Add_others [OF ok n(1) c, of _ active env] s fresh R
  show "failed_at (vn_name name) active R st'" by (auto simp: failed_at_def others_at_def intro!: ext)
qed

lemma hoare_SetActive:
  assumes n: "IsValidName n"
  shows "hoare (on_db (at_registry R)) (vmdbA x (\<lambda>env. SetActiveRevision env n r))
    (\<lambda>_. on_db (at_registry (spec_activate n r R))) (on_db (others_at n R))"
proof (rule hoare_vmdbA)
  fix st env st' assume at: "at_registry R st" and s: "SetActiveRevision env n r st = (st', None)"
  then show "at_registry (spec_activate n r R) st'"
    using SetActive_refines [OF _ n s] SetActive_keeps [of st env n r] by (simp add: at_registry_def)
next
  fix st env st' e assume at: "at_registry R st" and s: "SetActiveRevision env n r st = (st', Some e)"
  then show "others_at n R st'"
    using SetActive_others [of st _ n env r] SetActive_keeps [of st env n r] by (auto simp: at_registry_def others_at_def)
qed

lemma keeps_others:
  assumes n: "IsValidName n"
  shows "keeps (on_db (others_at n R)) (vmdbA x (\<lambda>env. SetActiveRevision env n r))"
    and "vn_name name = n \<Longrightarrow> keeps (on_db (others_at n R)) (vmdbA x (\<lambda>env. vmdb_Delete env name))"
proof -
  show "keeps (on_db (others_at n R)) (vmdbA x (\<lambda>env. SetActiveRevision env n r))"
    by (rule keeps_vmdb_quiet) (simp add: others_at_def SetActive_keeps SetActive_others)
  show "keeps (on_db (others_at n R)) (vmdbA x (\<lambda>env. vmdb_Delete env name))" if "vn_name name = n"
    by (rule keeps_vmdb_quiet) (use that n in \<open>auto simp: others_at_def Delete_keeps Delete_others\<close>)
qed

lemma hoare_Delete:
  assumes n: "IsValidName (vn_name name)"
  shows "hoare (on_db (at_registry R)) (vmdbA x (\<lambda>env. vmdb_Delete env name))
    (\<lambda>_. on_db (at_registry (spec_delete (vn_name name) (vn_rev name) R))) (on_db (others_at (vn_name name) R))"
proof (rule hoare_vmdbA)
  fix st env st' assume at: "at_registry R st" and s: "vmdb_Delete env name st = (st', None)"
  then show "at_registry (spec_delete (vn_name name) (vn_rev name) R) st'"
    using Delete_refines [OF _ n s] Delete_keeps [of st env name] by (simp add: at_registry_def)
next
  fix st env st' e assume at: "at_registry R st" and s: "vmdb_Delete env name st = (st', Some e)"
  then show "others_at (vn_name name) R st'"
    using Delete_others [OF _ n, of st _ env] Delete_keeps [of st env name] by (auto simp: at_registry_def others_at_def)
qed

end
