(* ===== verification/Vm_Transitions.thy ===== *)
theory Vm_Transitions
  imports Vm_Effects
begin

text \<open>
  What \<open>NewVM\<close>, \<open>VMDelete\<close> and \<open>VMRebuild\<close> do to the revisions of the VMs, step by step: the parts of
  each operation are judged in the order the code runs them, with the deferred rollbacks.
\<close>

lemma hoare_skip:
  assumes "keeps (on_db A) m" and "\<And>x. hoare (on_db A) (k x) Q (on_db F)" and "\<And>st. A st \<Longrightarrow> F st"
  shows "hoare (on_db A) (bindA m k) Q (on_db F)"
  by (rule hoare_bind, rule hoare_ignore, rule assms(1), rule assms(3), assumption, rule assms(2))

lemma hoare_step:
  assumes "keeps (on_db (at_registry R)) m" and "\<And>x. hoare (on_db (at_registry R)) (k x) Q (on_db (failed_at n active R))"
  shows "hoare (on_db (at_registry R)) (bindA m k) Q (on_db (failed_at n active R))"
  by (rule hoare_skip [OF assms]) (rule at_failed)

lemma keeps_greenhouse [keeps_rules]: "quiet D \<Longrightarrow> keeps (on_db D) (greenhouse_remove name)"
  unfolding greenhouse_remove_def
proof (rule keeps_change, simp only: on_db_simps)
  fix s assume D: "quiet D" and s: "on_db D s"
  then have d: "D (ap_vmdb s)" by (simp add: on_db_def)
  show "D (fst (DeleteFromGreenhouse name (ap_vmdb s)))"
    by (rule quiet_same [OF D d]) (rule DeleteFromGreenhouse_keeps [OF quietD [OF D d]], simp add: DeleteFromGreenhouse_def)
qed

lemma keeps_AddToGreenhouse:
  assumes D: "quiet D" and n: "valid_vm_name name" and c: "config_ok (Config vm)" "cfg_Name (Config vm) = vn_name name"
  shows "keeps (on_db D) (vmdbA x (\<lambda>env. AddToGreenhouse env vm name))"
proof (rule keeps_vmdb_quiet)
  fix st env assume d: "D st"
  have "profiles (db (fst (AddToGreenhouse env vm name st))) k = profiles (db st) k" for k
  proof (cases "gm_get (greenhouseDB st) (vn_ID name)")
    case None
    obtain st1 err where s: "vmdb_save env (st\<lparr>greenhouseDB :=
        gm_put (vn_ID name) \<lparr>Name = name, VM = vm, Active = False\<rparr> (greenhouseDB st)\<rparr>) = (st1, err)" by fastforce
    from save_profiles [OF s] s None show ?thesis by (simp add: AddToGreenhouse_def)
  qed (simp add: AddToGreenhouse_def)
  then show "D (fst (AddToGreenhouse env vm name st))"
    by (rule quiet_same [OF D d AddToGreenhouse_keeps [OF quietD [OF D d] n c]])
qed

subsection \<open>Building a VM\<close>

lemma keeps_build_parts [keeps_rules]:
  assumes D: "quiet D"
  shows "keeps (on_db D) (tolerate x allow e)" "keeps (on_db D) (remove_domain x dn)"
    "keeps (on_db D) (run_install x allow vm)" "keeps (on_db D) (run_restore x allow vm name b)"
    "keeps (on_db D) (check_no_domain x dn)"
proof -
  show tol: "keeps (on_db D) (tolerate x allow e)" for x allow e unfolding tolerate_def by (rule keeps_rules D | assumption)+
  show "keeps (on_db D) (remove_domain x dn)" unfolding remove_domain_def by (rule keeps_rules D | assumption)+
  show "keeps (on_db D) (run_install x allow vm)" unfolding run_install_def by (rule keeps_rules tol D | assumption)+
  show "keeps (on_db D) (run_restore x allow vm name b)" unfolding run_restore_def by (rule keeps_rules tol D | assumption)+
  show "keeps (on_db D) (check_no_domain x dn)" unfolding check_no_domain_def by (rule keeps_rules D | assumption)+
qed

lemma keeps_check_build [keeps_rules]:
  assumes D: "quiet D"
  shows "keeps (on_db D) (check_build x active vm name)"
proof -
  have "keeps (on_db D) (vmdbA x (\<lambda>env st. (st, f env st)))" for f by (rule keeps_vmdb_quiet) simp
  then show ?thesis unfolding check_build_def Let_def by - (rule keeps_rules D | assumption)+
qed

text \<open>The VM that is built, with the revision it gets.\<close>

definition built :: "vm_config \<Rightarrow> vm_name \<Rightarrow> bool \<Rightarrow> registry \<Rightarrow> vm \<times> vm_name \<Rightarrow> 'w app \<Rightarrow> bool" where
  "built conf name active R = (\<lambda>(vm, nm) s.
     on_db (at_registry (spec_add (vn_name name) (vn_rev name) active R)) s \<and> nm = name \<and> same_core conf (Config vm))"

text \<open>A name and a configuration that fit, the revision being free.\<close>

definition free_for :: "vm_config \<Rightarrow> vm_name \<Rightarrow> registry \<Rightarrow> bool" where
  "free_for conf name R \<longleftrightarrow> valid_vm_name name \<and> vn_rev name \<notin> fst (R (vn_name name)) \<and>
     config_ok conf \<and> cfg_Name conf = vn_name name"

lemma core_replace:
  assumes "quiet D" and "same_core conf (Config v)" and "free_for conf name R"
  shows "keeps (on_db D) (change_vm InGreenhouse name vm (\<lambda>_. v))"
  by (rule keeps_replace_green [OF assms(1)]) (use same_core_ok [OF assms(2)] assms(3) in \<open>simp_all add: free_for_def\<close>)

lemma hoare_boot:
  assumes vm: "Config vm = conf" and free: "free_for conf name R"
  shows "hoare (on_db (at_registry R)) (boot_vm x active allow vm name dn backup)
    (built conf name active R) (on_db (failed_at (vn_name name) active R))"
proof -
  from free have n: "valid_vm_name name" "vn_rev name \<notin> fst (R (vn_name name))"
    and c: "config_ok conf" "cfg_Name conf = vn_name name" by (simp_all add: free_for_def)
  have vm1: "Config (vm\<lparr>LibvirtUUID := u, LastIP := ip\<rparr>) = conf" for u ip by (simp add: vm)
  have same: "same_core conf (Config (vm\<lparr>LibvirtUUID := u, LastIP := ip\<rparr>))" for u ip by (simp add: same_core_def vm)
  have add: "hoare (on_db (at_registry R))
      (bindA (vmdbA x (\<lambda>env. vmdb_Add env vm2 name active)) (\<lambda>_. ret (vm2, name)))
      (built conf name active R) (on_db (failed_at (vn_name name) active R))" if "same_core conf (Config vm2)" for vm2
    by (rule hoare_bind, rule hoare_Add) (use n same_core_ok [OF that c(1)] c(2) that in \<open>auto intro!: hoare_ret simp: built_def\<close>)
  show ?thesis
    unfolding boot_vm_def Let_def
    apply (rule hoare_step, (rule keeps_rules quiet_facts)+)
    apply (rule hoare_step, (rule keeps_rules quiet_facts)+)
    apply (rule hoare_step, (rule keeps_rules quiet_facts)+)
    apply (rule hoare_step, (rule keeps_rules quiet_facts)+)
    apply (rule hoare_step, (rule keeps_rules quiet_facts)+)
    apply (rule hoare_step, rule core_replace [OF quiet_facts(1) same free])
    apply (rule hoare_bind)
     apply (rule hoare_conseq [OF run_prepare_core [OF quiet_facts(1)]], assumption, assumption)
     apply (simp add: on_db_def at_failed)
    apply (simp only: vm1)
    apply (rule hoare_fact)
    apply (rule hoare_step, erule core_replace [OF quiet_facts(1) _ free])
    apply (rule hoare_step, (rule keeps_rules quiet_facts)+)
    apply (erule add)
    done
qed

lemma hoare_build:
  assumes vm: "Config vm = conf" and free: "free_for conf name R"
  shows "hoare (on_db (at_registry R)) (build_vm x active allow vm name dn)
    (built conf name active R) (on_db (failed_at (vn_name name) active R))"
proof -
  have def_vm: "hoare (on_db (at_registry R)) (define_vm x active allow vm name dn backup)
      (built conf name active R) (on_db (failed_at (vn_name name) active R))" for backup
    unfolding define_vm_def
    by ((rule hoare_step, (rule keeps_rules quiet_facts)+)+,
        rule hoare_defer_unless, rule hoare_boot [OF vm free], (rule keeps_rules quiet_facts)+)
  have "keeps (on_db (at_registry S)) (RemoveTransientDHCPHost x lease)" for S lease by (rule keeps_rules)+
  then have k: "keeps (built conf name active R r) (RemoveTransientDHCPHost x lease)" for r lease
    by (auto simp: keeps_def built_def)
  show ?thesis
    unfolding build_vm_def Let_def split_beta
    apply ((rule hoare_step, (rule keeps_rules quiet_facts)+)+)
    apply (rule hoare_defer [OF _ k])
     apply ((rule hoare_step, (rule keeps_rules quiet_facts)+)+)
     apply (rule hoare_defer_unless, rule def_vm, (rule keeps_rules quiet_facts)+)
    done
qed

text \<open>The revision a new VM of a configuration gets.\<close>

definition next_name :: "vm_config \<Rightarrow> registry \<Rightarrow> vm_name" where
  "next_name conf R = NewVMName (cfg_Name conf) (next_rev R (cfg_Name conf))"

lemma hoare_next_name:
  "hoare (on_db (at_registry R))
     (getA (\<lambda>s. NewVMName (cfg_Name conf) (GetNextRevisionForName (ap_vmdb s) (cfg_Name conf))))
     (\<lambda>v s. on_db (at_registry R) s \<and> v = next_name conf R) E"
  by (rule hoareI) (auto simp: getA_def on_db_def at_registry_def next_name_def next_rev_exact)

lemma hoare_NewVM:
  assumes c: "config_ok conf" and free: "finite (fst (R (cfg_Name conf)))" "cfg_Name conf \<noteq> []"
    and r: "fst (R (cfg_Name conf)) \<subseteq> {0..<max_int}"
  shows "hoare (on_db (at_registry R)) (NewVM draws x conf active allow author)
    (built conf (next_name conf R) active R) (on_db (failed_at (cfg_Name conf) active R))"
proof -
  have k: "keeps (built conf name active R r) (greenhouse_remove name')" for r name name'
  proof -
    have "keeps (on_db (at_registry S)) (greenhouse_remove name')" for S by (rule keeps_rules quiet_facts)+
    then show ?thesis by (auto simp: keeps_def built_def)
  qed
  have "next_rev R (cfg_Name conf) \<in> {0..max_int}"
  proof (cases "fst (R (cfg_Name conf)) = {}")
    case False
    with free(1) r have "Max (fst (R (cfg_Name conf))) \<in> {0..<max_int}" using Max_in by blast
    with False show ?thesis by (simp add: next_rev_def)
  qed (simp add: next_rev_def max_int_def)
  then have free_name: "free_for conf (next_name conf R) R" if "IsValidName (cfg_Name conf)"
    using that c free next_rev_fresh [of R "cfg_Name conf"] by (simp add: free_for_def next_name_def valid_vm_name_def)
  have rest: "hoare (on_db (at_registry R)) (bindA (resultA (vmdbA x (\<lambda>env. AddToGreenhouse env vm (next_name conf R)))) (\<lambda>_.
      deferA (greenhouse_remove (next_name conf R)) (build_vm x active allow vm (next_name conf R) dn)))
      (built conf (next_name conf R) active R) (on_db (failed_at (cfg_Name conf) active R))"
    if "IsValidName (cfg_Name conf)" "Config vm = conf" for vm dn
  proof -
    note free' = free_name [OF that(1)]
    have nm: "vn_name (next_name conf R) = cfg_Name conf" by (simp add: next_name_def)
    have "keeps (on_db (at_registry R)) (vmdbA x (\<lambda>env. AddToGreenhouse env vm (next_name conf R)))"
      by (rule keeps_AddToGreenhouse) (use free' that(2) in \<open>simp_all add: free_for_def quiet_facts\<close>)
    then show ?thesis
      apply -
      apply (rule hoare_step, rule keeps_rules, assumption)
      apply (rule hoare_defer [OF _ k])
       apply (rule hoare_build [OF that(2) free', unfolded nm])
      apply (rule keeps_rules quiet_facts)+
      done
  qed
  show ?thesis
    unfolding NewVM_def Let_def
    apply (rule hoare_step, (rule keeps_rules quiet_facts)+)
    apply (rule hoare_step, (rule keeps_rules quiet_facts)+)
    apply (rule hoare_step, (rule keeps_rules quiet_facts)+)
    apply (rule hoare_bind, rule hoare_check, simp add: on_db_def at_failed)
    apply (rule hoare_fact)
    apply (rule hoare_bind, rule hoare_next_name)
    apply (rule hoare_fact, hypsubst)
    apply (rule hoare_step, (rule keeps_rules quiet_facts)+)
    apply (rule hoare_step, (rule keeps_rules quiet_facts)+)
    apply (rule hoare_step, (rule keeps_rules quiet_facts)+)
    apply (rule hoare_step, (rule keeps_rules quiet_facts)+)
    apply (rule hoare_step, (rule keeps_rules quiet_facts)+)
    apply (rule rest, assumption, simp)
    done
qed

subsection \<open>Deleting a VM\<close>

lemma spec_others:
  "at_registry (spec_add n r a R) st \<Longrightarrow> others_at n R st"
  "at_registry (spec_activate n r R) st \<Longrightarrow> others_at n R st"
  "at_registry (spec_delete n r R) st \<Longrightarrow> others_at n R st"
  by (auto simp: at_registry_def others_at_def spec_add_def spec_activate_def spec_delete_def Let_def)

lemma others_trans: "others_at n R' st \<Longrightarrow> (\<And>m. m \<noteq> n \<Longrightarrow> R' m = R m) \<Longrightarrow> others_at n R st"
  by (simp add: others_at_def)

lemma hoare_step_others:
  assumes "keeps (on_db (at_registry R')) m" and "\<And>x. hoare (on_db (at_registry R')) (k x) Q (on_db (others_at n R))"
    and "\<And>m. m \<noteq> n \<Longrightarrow> R' m = R m"
  shows "hoare (on_db (at_registry R')) (bindA m k) Q (on_db (others_at n R))"
  by (rule hoare_skip [OF assms(1,2)]) (rule others_trans [OF at_others assms(3)])

lemma hoare_VMDelete:
  assumes n: "IsValidName (vn_name name)" and R: "\<And>m. m \<noteq> vn_name name \<Longrightarrow> R' m = R m"
  shows "hoare (on_db (at_registry R')) (VMDelete x name)
    (\<lambda>_. on_db (at_registry (spec_delete (vn_name name) (vn_rev name) R'))) (on_db (others_at (vn_name name) R))"
proof -
  have del: "hoare (on_db (at_registry R'))
      (bindA (vmdbA x (\<lambda>env. vmdb_Delete env name)) (\<lambda>_. RebuildDHCPStaticLeases x))
      (\<lambda>_. on_db (at_registry (spec_delete (vn_name name) (vn_rev name) R'))) (on_db (others_at (vn_name name) R))"
    apply (rule hoare_bind)
     apply (rule hoare_conseq [OF hoare_Delete [OF n, of R']], assumption, assumption)
     apply (simp add: on_db_def others_trans R)
    apply (rule hoare_keeps, (rule keeps_rules quiet_facts)+)
    apply (simp add: on_db_def others_trans [OF spec_others(3)] R)
    done
  show ?thesis
    unfolding VMDelete_def
    apply (rule hoare_step_others, (rule keeps_rules quiet_facts)+)+
    apply (rule del)
    apply (erule R)+
    done
qed

lemma keeps_VMDelete:
  assumes n: "IsValidName (vn_name name)"
  shows "keeps (on_db (others_at (vn_name name) R)) (VMDelete x name)"
  unfolding VMDelete_def by (rule keeps_rules quiet_facts keeps_others(2) [OF n refl] | assumption)+

subsection \<open>Rebuilding a VM\<close>

definition rebuilt :: "string \<Rightarrow> int \<Rightarrow> int \<Rightarrow> registry \<Rightarrow> registry" where
  "rebuilt n r r' R =
     R(n := (insert r' (fst (R n) - {r}), if snd (R n) = Some r then Some r' else snd (R n)))"

text \<open>The registry while the old revision is replaced: the new one exists, none is active if the old one was.\<close>

definition replacing :: "string \<Rightarrow> int \<Rightarrow> int \<Rightarrow> registry \<Rightarrow> registry" where
  "replacing n r r' R =
     (if snd (R n) = Some r then spec_activate n RevisionNone (spec_add n r' False R) else spec_add n r' False R)"

lemma replacing_others: "m \<noteq> n \<Longrightarrow> replacing n r r' R m = R m"
  by (simp add: replacing_def spec_activate_def spec_add_def)

lemma rebuilt_eq:
  assumes "r' \<noteq> r" and "r' \<noteq> RevisionNone"
  shows "spec_delete n r (if snd (R n) = Some r then spec_activate n r' (replacing n r r' R) else replacing n r r' R) =
    rebuilt n r r' R"
  using assms by (auto simp: replacing_def rebuilt_def spec_delete_def spec_activate_def spec_add_def Let_def intro!: ext)

lemma keeps_finish [keeps_rules]:
  assumes D: "quiet D"
  shows "keeps (on_db D) (finish_rebuild x newVM name lock d t)"
proof -
  have "keeps (on_db D) (change_vm InDatabase name newVM
      (\<lambda>v. v\<lparr>LastRebuildDowntime := d, LastRebuildDuration := time_sub e t\<rparr>))" for e
    by (rule keeps_change_vm [OF D]) simp
  then show ?thesis unfolding finish_rebuild_def by - (rule keeps_rules D | assumption)+
qed

lemma hoare_switch:
  assumes n: "IsValidName n" and names: "vn_name name = n" "vn_rev name = r" "vn_name name' = n" "vn_rev name' = r'"
    and act: "act \<longleftrightarrow> snd (R n) = Some r" and r: "r' \<noteq> r" "r' \<noteq> RevisionNone"
  shows "hoare (on_db (at_registry (replacing n r r' R)))
    (bindA (switch_over x name name' act) (\<lambda>(e, l). finish_rebuild x newVM name' (lock \<or> l) (time_sub e d) t))
    (\<lambda>_. on_db (at_registry (rebuilt n r r' R))) (on_db (others_at n R))"
proof -
  let ?R = "if act then spec_activate n r' (replacing n r r' R) else replacing n r r' R"
  have R: "?R m = R m" if "m \<noteq> n" for m using that by (simp add: replacing_others spec_activate_def)
  have old: "spec_delete n r ?R = rebuilt n r r' R" unfolding act by (rule rebuilt_eq [OF r])
  have set: "hoare (on_db (at_registry (replacing n r r' R)))
      (if act then vmdbA x (\<lambda>env. SetActiveRevision env (vn_name name') (vn_rev name')) else ret ())
      (\<lambda>_. on_db (at_registry ?R)) (on_db (others_at n R))"
  proof (cases act)
    case True
    have "hoare (on_db (at_registry (replacing n r r' R))) (vmdbA x (\<lambda>env. SetActiveRevision env n r'))
      (\<lambda>_. on_db (at_registry (spec_activate n r' (replacing n r r' R)))) (on_db (others_at n R))"
      by (rule hoare_conseq [OF hoare_SetActive [OF n, of "replacing n r r' R"]])
        (auto simp: on_db_def intro: others_trans replacing_others)
    with True names show ?thesis by simp
  qed (auto intro: hoare_ret)
  have del: "hoare (on_db (at_registry ?R)) (VMDelete x name)
      (\<lambda>_. on_db (at_registry (rebuilt n r r' R))) (on_db (others_at n R))"
    using hoare_VMDelete [of name ?R R x] n R unfolding names old by simp
  have tail: "hoare (on_db (at_registry (rebuilt n r r' R)))
      (case p of (e, l) \<Rightarrow> finish_rebuild x newVM name' (lock \<or> l) (time_sub e d) t)
      (\<lambda>_. on_db (at_registry (rebuilt n r r' R))) (on_db (others_at n R))" for p
    by (rule hoare_case_prod, rule hoare_ignore, (rule keeps_rules quiet_facts)+)
      (auto simp: at_registry_def others_at_def rebuilt_def)
  show ?thesis
    unfolding switch_over_def
    apply (rule hoare_bind [OF _ tail])
    apply (rule hoare_bind [OF set])
    apply (rule hoare_step_others, (rule keeps_rules quiet_facts)+)
    apply (rule hoare_step_others, (rule keeps_rules quiet_facts)+)
    apply (rule hoare_step_others, (rule keeps_rules quiet_facts)+)
    apply (rule hoare_bind [OF del])
    apply (rule hoare_ret, assumption)
    apply (erule R)+
    done
qed

lemma hoare_replace:
  assumes n: "IsValidName n" and names: "vn_name name = n" "vn_rev name = r"
    and act: "act \<longleftrightarrow> snd (R n) = Some r"
    and rest: "hoare (on_db (at_registry (replacing n r r' R))) rest (\<lambda>_. on_db (at_registry R1)) (on_db (others_at n R))"
  shows "hoare (on_db (at_registry (spec_add n r' False R))) (replace_vm x name newVM name' author both act rest)
    (\<lambda>_. on_db (at_registry R1)) (on_db (others_at n R))"
proof -
  let ?R = "replacing n r r' R"
  have E: "at_registry ?R st \<Longrightarrow> others_at n R st" for st by (rule others_trans [OF at_others replacing_others])
  have body: "hoare (on_db (at_registry ?R)) (if both then transfer_data x name newVM name' author rest else rest)
      (\<lambda>_. on_db (at_registry R1)) (on_db (others_at n R))"
  proof (cases both)
    case True
    have "hoare (on_db (at_registry ?R)) (transfer_data x name newVM name' author rest)
        (\<lambda>_. on_db (at_registry R1)) (on_db (others_at n R))"
      unfolding transfer_data_def
      apply (rule hoare_step_others, (rule keeps_rules quiet_facts)+)
      apply (rule hoare_defer)
         apply (rule hoare_step_others, (rule keeps_rules quiet_facts)+)
         apply (simp split: option.split)
         apply (intro conjI allI impI)
          apply (rule hoareI, simp, simp add: on_db_def E)
         apply (rule hoare_step_others, (rule keeps_rules quiet_facts)+)
         apply (rule rest)
        apply (erule replacing_others)+
       apply ((rule keeps_rules quiet_facts)+)
      apply (erule replacing_others)
      done
    with True show ?thesis by simp
  qed (simp add: rest)
  show ?thesis
  proof (cases act)
    case False
    with body act show ?thesis unfolding replace_vm_def by (simp add: Let_def replacing_def)
  next
    case True
    have "hoare (on_db (at_registry (spec_add n r' False R))) (vmdbA x (\<lambda>env. SetActiveRevision env n RevisionNone))
      (\<lambda>_. on_db (at_registry ?R)) (on_db (others_at n R))"
      by (rule hoare_conseq [OF hoare_SetActive [OF n, of "spec_add n r' False R"]])
        (use True act in \<open>auto simp: replacing_def on_db_def spec_add_def intro: others_trans\<close>)
    then have "hoare (on_db (at_registry (spec_add n r' False R)))
      (bindA (vmdbA x (\<lambda>env. SetActiveRevision env n RevisionNone)) (\<lambda>_.
        defer_unless (vmdbA x (\<lambda>env. SetActiveRevision env n r))
          (if both then transfer_data x name newVM name' author rest else rest)))
      (\<lambda>_. on_db (at_registry R1)) (on_db (others_at n R))"
      by (rule hoare_bind) (rule hoare_defer_unless [OF body keeps_others(1) [OF n]])
    with True names show ?thesis unfolding replace_vm_def by (simp add: Let_def)
  qed
qed

lemma keeps_rebuild_checks [keeps_rules]: "quiet D \<Longrightarrow> keeps (on_db D) (rebuild_checks x name vm)"
  unfolding rebuild_checks_def by (rule keeps_rules | assumption)+

text \<open>The stored file of a VM names it: what the decoder reads in it is checked by the caller who stored it.\<close>

definition file_names :: "parsers \<Rightarrow> string \<Rightarrow> string \<Rightarrow> bool" where
  "file_names px content n \<longleftrightarrow> (\<forall>t. px_TomlVm px content tv_defaults = Inr (t, []) \<longrightarrow> tv_Name t = n)"

lemma accepted_name:
  assumes "NewVMConfigFromTomlReader x (Inr content) s = (s', Inr c)" and "file_names (x_px x) content n"
  shows "cfg_Name c = n"
proof -
  from assms(1) obtain t where t: "px_TomlVm (x_px x) content tv_defaults = Inr (t, [])"
    and c: "vm_config_of x content t s = (s', Inr c)"
    unfolding NewVMConfigFromTomlReader_def by (auto split: sum.splits list.splits)
  from c have "cfg_Name c = tv_Name t" unfolding vm_config_of_def bindA_Inr by auto
  with t assms(2) show ?thesis by (simp add: file_names_def)
qed

lemma hoare_stored_config:
  assumes "file_names (x_px x) content n" and E: "\<And>st. at_registry R st \<Longrightarrow> E st"
  shows "hoare (on_db (at_registry R)) (with_error g (NewVMConfigFromTomlReader x (Inr content)))
    (\<lambda>c s. on_db (at_registry R) s \<and> (config_ok c \<and> cfg_Name c = n \<and> n \<noteq> [])) (on_db E)"
proof (rule hoare_with_error, rule hoareI)
  have k: "keeps (on_db (at_registry R)) (NewVMConfigFromTomlReader x (Inr content))" by (rule keeps_rules)
  fix s s' c assume P: "on_db (at_registry R) s" and run: "NewVMConfigFromTomlReader x (Inr content) s = (s', Inr c)"
  from keepsE [OF k run P] accepted_config_ok [OF run] accepted_name [OF run assms(1)]
  show "on_db (at_registry R) s' \<and> (config_ok c \<and> cfg_Name c = n \<and> n \<noteq> [])" by auto
next
  have k: "keeps (on_db (at_registry R)) (NewVMConfigFromTomlReader x (Inr content))" by (rule keeps_rules)
  fix s s' e assume P: "on_db (at_registry R) s" and run: "NewVMConfigFromTomlReader x (Inr content) s = (s', Inl e)"
  from keepsE [OF k run P] E show "on_db E s'" by (simp add: on_db_def)
qed

lemma active_entry:
  assumes ok: "vmdb_ok st" and n: "valid_vm_name name" and e: "GetEntryByName st name = Inr entry"
  shows "Active entry \<longleftrightarrow> snd (registry st (vn_name name)) = Some (vn_rev name)"
    and "vn_rev name \<in> fst (registry st (vn_name name))"
proof -
  from ok have es: "entries_ok (db st)" by (simp add: vmdb_ok_def)
  from e have g: "gm_get (db st) (vn_ID name) = Some entry"
    by (auto simp: GetEntryByName_def getEntryByID_def split: option.splits)
  have nm: "Name entry = name"
    by (rule vn_ID_inject) (use entry_name_valid [OF es g] entry_key [OF es g] n in \<open>auto simp: valid_vm_name_def\<close>)
  from g nm have v: "(name, Active entry) \<in> view (db st)" by (auto simp: view_get entries_okD(1) [OF es])
  show "Active entry \<longleftrightarrow> snd (registry st (vn_name name)) = Some (vn_rev name)"
    unfolding registry_snd [OF es] NewVMName_eta using v view_unique [OF es v] by (cases "Active entry") auto
  show "vn_rev name \<in> fst (registry st (vn_name name))" using v by (auto simp: NewVMName_eta)
qed

definition rebuildable :: "parsers \<Rightarrow> vm_name \<Rightarrow> registry \<Rightarrow> vmdb \<Rightarrow> bool" where
  "rebuildable px name R st \<longleftrightarrow> at_registry R st \<and>
     (\<forall>entry. GetEntryByName st name = Inr entry \<longrightarrow> file_names px (cfg_FileContent (Config (VM entry))) (vn_name name))"

lemma hoare_rebuild_entry:
  assumes n: "valid_vm_name name"
  shows "hoare (on_db (rebuildable px name R)) (lookupA (\<lambda>s. GetEntryByName (ap_vmdb s) name))
    (\<lambda>entry s. on_db (at_registry R) s \<and>
       (file_names px (cfg_FileContent (Config (VM entry))) (vn_name name) \<and>
        (Active entry \<longleftrightarrow> snd (R (vn_name name)) = Some (vn_rev name)) \<and> vn_rev name \<in> fst (R (vn_name name))))
    (on_db (others_at (vn_name name) R))"
proof (rule hoareI)
  fix s s' entry
  assume P: "on_db (rebuildable px name R) s" and "lookupA (\<lambda>s. GetEntryByName (ap_vmdb s) name) s = (s', Inr entry)"
  then have s: "s' = s" and e: "GetEntryByName (ap_vmdb s) name = Inr entry" by (auto simp: lookupA_def split: sum.splits)
  from P have at: "at_registry R (ap_vmdb s)" by (simp add: on_db_def rebuildable_def)
  then have ok: "vmdb_ok (ap_vmdb s)" and R: "registry (ap_vmdb s) = R" by (simp_all add: at_registry_def)
  from active_entry [OF ok n e] P e at
  show "on_db (at_registry R) s' \<and>
       (file_names px (cfg_FileContent (Config (VM entry))) (vn_name name) \<and>
        (Active entry \<longleftrightarrow> snd (R (vn_name name)) = Some (vn_rev name)) \<and> vn_rev name \<in> fst (R (vn_name name)))"
    unfolding R s by (simp add: on_db_def rebuildable_def)
qed (auto simp: lookupA_def on_db_def rebuildable_def at_others)

lemma hoare_VMRebuild:
  assumes n: "valid_vm_name name" and r: "fst (R (vn_name name)) \<subseteq> {0..<max_int}" "finite (fst (R (vn_name name)))"
  shows "hoare (on_db (rebuildable (x_px x) name R)) (VMRebuild draws x name lock author)
    (\<lambda>_. on_db (at_registry (rebuilt (vn_name name) (vn_rev name) (next_rev R (vn_name name)) R)))
    (on_db (others_at (vn_name name) R))"
proof -
  let ?n = "vn_name name" and ?r' = "next_rev R (vn_name name)"
  let ?Q = "\<lambda>_ :: unit. on_db (at_registry (rebuilt ?n (vn_rev name) ?r' R))"
  from n have vn: "IsValidName ?n" by (simp add: valid_vm_name_def)
  have r0: "?r' \<noteq> RevisionNone"
  proof (cases "fst (R ?n) = {}")
    case False
    with r have "0 \<le> Max (fst (R ?n))" using Max_in by fastforce
    then show ?thesis by (simp add: next_rev_def RevisionNone_def)
  qed (simp add: next_rev_def RevisionNone_def)
  have swap: "hoare (on_db (at_registry (spec_add ?n ?r' False R)))
      (defer_unless (VMDelete x name') (bindA (nowA x) (\<lambda>d. replace_vm x name newVM name' author both act
        (bindA (switch_over x name name' act) (\<lambda>(e, l). finish_rebuild x newVM name' (lock \<or> l) (time_sub e d) t)))))
      ?Q (on_db (others_at ?n R))"
    if name': "name' = NewVMName ?n ?r'" and act: "act \<longleftrightarrow> snd (R ?n) = Some (vn_rev name)"
      and used: "vn_rev name \<in> fst (R ?n)" for name' newVM both act t
  proof -
    from next_rev_fresh [of R ?n] r(2) used have ne: "?r' \<noteq> vn_rev name" by auto
    have nm: "vn_name name' = ?n" by (simp add: name')
    show ?thesis
      apply (rule hoare_defer_unless)
       apply (rule hoare_step_others, (rule keeps_rules quiet_facts)+)
       apply (rule hoare_replace [where n = ?n and r = "vn_rev name" and R = R and act = act, OF vn refl refl act])
       apply (rule hoare_switch [where n = ?n and r = "vn_rev name" and R = R and act = act, OF vn refl refl _ _ act ne r0])
        apply (simp_all add: name' spec_add_def)
      using keeps_VMDelete [of "NewVMName ?n ?r'" R x] vn by simp
  qed
  have new: "hoare (on_db (at_registry R)) (with_error g (NewVM draws x c False allow author))
      (built c (next_name c R) False R) (on_db (others_at ?n R))"
    if "config_ok c" "cfg_Name c = ?n" "?n \<noteq> []" for c g allow
    by (rule hoare_with_error, rule hoare_conseq [OF hoare_NewVM])
      (use that r in \<open>auto simp: on_db_def failed_at_def\<close>)
  have after: "hoare (built c (next_name c R) False R p) (case p of (v, nm) \<Rightarrow> F v nm) ?Q E"
    if "\<And>v. hoare (on_db (at_registry (spec_add ?n ?r' False R))) (F v (NewVMName ?n ?r')) ?Q E" "cfg_Name c = ?n"
    for F c p E
  proof (cases p)
    case (Pair v nm)
    have nx: "next_name c R = NewVMName ?n ?r'" using that(2) by (simp add: next_name_def)
    show ?thesis
      unfolding Pair prod.case
    proof (cases "nm = NewVMName ?n ?r'")
      case True
      show "hoare (built c (next_name c R) False R (v, nm)) (F v nm) ?Q E"
        unfolding True by (rule hoare_conseq [OF that(1)]) (auto simp: built_def nx)
    qed (auto simp: hoare_def built_def nx)
  qed
  show ?thesis
    unfolding VMRebuild_def Let_def
    apply (rule hoare_skip, rule keeps_call, simp)
     apply (rule hoare_bind [OF hoare_rebuild_entry [OF n]])
     apply (rule hoare_fact, elim conjE)
     apply (rule hoare_step_others, (rule keeps_rules quiet_facts)+)
      apply (rule hoare_bind, rule hoare_stored_config, assumption, erule at_others)
      apply (rule hoare_fact, elim conjE)
      apply (rule hoare_bind [OF new], simp add: config_ok_def, simp, simp)
      apply (rule after)
       apply (rule swap [OF refl], assumption, assumption)
      apply simp
     apply (rule refl)
    apply (simp add: rebuildable_def at_others)
    done
qed

end
