(* ===== verification/Toy_World.thy ===== *)
theory Toy_World
  imports Vm_Transitions
begin

text \<open>
  A concrete outside, for the examples: a libvirt that holds domains and volumes, a clock that
  advances at every reading, identifiers that count. Two switches make it fail: the deletion of a
  lease and the copy of a volume.
\<close>

record toy =
  tw_domains :: "(string, xml_domain \<times> dom_state) gomap"
  tw_volumes :: "(pool_name \<times> string) list"
  tw_clock :: int
  tw_ids :: int
  tw_hosts :: "dhcp_host list"
  tw_lease_delete :: bool
  tw_copy :: bool

definition toy_ok :: "toy \<Rightarrow> toy \<times> ('e + unit)" where "toy_ok w = (w, Inr ())"

definition toy_domain :: "(xml_domain \<times> dom_state \<Rightarrow> 'a) \<Rightarrow> string \<Rightarrow> toy \<Rightarrow> toy \<times> (lv_error + 'a)" where
  "toy_domain f n w = (w, case gm_get (tw_domains w) n of None \<Rightarrow> Inl LvNoDomain | Some d \<Rightarrow> Inr (f d))"

definition toy_change ::
  "(xml_domain \<times> dom_state \<Rightarrow> xml_domain \<times> dom_state) \<Rightarrow> string \<Rightarrow> toy \<Rightarrow> toy \<times> (lv_error + unit)" where
  "toy_change f n w =
     (case gm_get (tw_domains w) n of None \<Rightarrow> (w, Inl LvNoDomain)
      | Some d \<Rightarrow> (w\<lparr>tw_domains := gm_put n (f d) (tw_domains w)\<rparr>, Inr ()))"

definition toy_volume :: "pool_name \<Rightarrow> string \<Rightarrow> toy \<Rightarrow> toy \<times> (lv_error + unit)" where
  "toy_volume p n w = (w, if List.member (tw_volumes w) (p, n) then Inr () else Inl LvNoStorageVol)"

definition toy_lv :: "toy lv_calls" where
  "toy_lv =
     \<lparr>lv_IsAlive = (\<lambda>w. (w, Inr True)), lv_NewConnect = toy_ok, lv_LookupPool = (\<lambda>p. toy_ok),
      lv_LookupNetwork = toy_ok, lv_LookupDomain = toy_domain (\<lambda>d. ()),
      lv_DefineDomain = (\<lambda>xml w. (w\<lparr>tw_domains := gm_put (xm_Name xml) (xml, DomShutoff) (tw_domains w)\<rparr>, Inr ())),
      lv_GetUUID = toy_domain (\<lambda>d. ''uuid''), lv_Create = toy_change (\<lambda>(xml, st). (xml, DomRunning)),
      lv_Destroy = toy_change (\<lambda>(xml, st). (xml, DomShutoff)), lv_Shutdown = toy_change (\<lambda>(xml, st). (xml, DomShutoff)),
      lv_Undefine = (\<lambda>n w. (w\<lparr>tw_domains := gm_del n (tw_domains w)\<rparr>, Inr ())),
      lv_GetState = toy_domain snd, lv_GetXML = toy_domain fst,
      lv_Attach = (\<lambda>n disk. toy_change (\<lambda>(xml, st). (xml\<lparr>xm_Disks := xm_Disks xml @ [disk]\<rparr>, st)) n),
      lv_Detach = (\<lambda>n disk. toy_change (\<lambda>(xml, st). (xml\<lparr>xm_Disks := remove1 disk (xm_Disks xml)\<rparr>, st)) n),
      lv_Refresh = (\<lambda>p. toy_ok), lv_VolLookup = toy_volume,
      lv_VolCreate = (\<lambda>p n w. if List.member (tw_volumes w) (p, n) then (w, Inl (LvOther ''volume exists''))
                        else (w\<lparr>tw_volumes := (p, n) # tw_volumes w\<rparr>, Inr ())),
      lv_VolDelete = (\<lambda>p n w. (w\<lparr>tw_volumes := remove1 (p, n) (tw_volumes w)\<rparr>, Inr ())),
      lv_VolResize = (\<lambda>p n size. toy_ok), lv_VolGetInfo = (\<lambda>p n w. (w, Inr 0)),
      lv_VolCopy = (\<lambda>p n q m w. (w, if tw_copy w then Inr () else Inl (LvOther ''no space left''))),
      lv_VolUpload = (\<lambda>c p n. toy_ok), lv_VolDownload = (\<lambda>p n c. toy_ok),
      lv_NetUpdate = (\<lambda>c h w. case c of
          NetAdd \<Rightarrow> (w\<lparr>tw_hosts := tw_hosts w @ [h]\<rparr>, Inr ())
        | NetDelete \<Rightarrow> if tw_lease_delete w then (w\<lparr>tw_hosts := remove1 h (tw_hosts w)\<rparr>, Inr ())
                       else (w, Inl (LvOther ''cannot delete the lease''))),
      lv_NetHosts = (\<lambda>w. (w, Inr (tw_hosts w)))\<rparr>"

definition toy_xml :: xml_domain where
  "toy_xml =
     \<lparr>xm_Name = [], xm_Memory = 0, xm_VCPU = 0, xm_SysInfo = [[(''serial'', [])]],
      xm_Disks = [\<lparr>xd_Alias = Some VMStorageAliasDisk, xd_File = [], xd_Dev = ''vda''\<rparr>],
      xm_Interfaces = [\<lparr>xi_Alias = Some VMNetworkAliasBridge, xi_Bridge = [], xi_MAC = [],
        xi_FilterRef = Some \<lparr>xf_Filter = ''mulch-filter'', xf_Params = [(''IP'', []), (''GATEWAY_MAC'', [])]\<rparr>\<rparr>]\<rparr>"

definition toy_env :: vmdb_env where
  "toy_env =
     \<lparr>env_ProxyChainMode = ChainNone, env_ChildURL = [], env_parent = (\<lambda>ds u. AnswerConflicts []),
      env_gateway = ''10.0.0.1'', env_resolves = (\<lambda>h. True), env_write_db = WriteOk,
      env_write_domains = WriteOk, env_write_ports = WriteOk\<rparr>"

definition toy_os :: "toy os_calls" where
  "toy_os =
     \<lparr>os_Now = (\<lambda>w. (w\<lparr>tw_clock := tw_clock w + 1\<rparr>, tw_clock w)), os_VmdbEnv = (\<lambda>w. (w, toy_env)),
      os_Write = (\<lambda>w. (w, WriteOk)),
      os_UUID = (\<lambda>w. (w\<lparr>tw_ids := tw_ids w + 1\<rparr>, Inr (''id'' @ itoa (tw_ids w)))),
      os_Rand = (\<lambda>n w. (w\<lparr>tw_ids := tw_ids w + 1\<rparr>, tw_ids w mod n)),
      os_Open = (\<lambda>path w. (w, Inr ''#!/bin/sh'')), os_CreateTemp = (\<lambda>w. (w, Inr ''/tmp/x'')),
      os_Remove = (\<lambda>path. toy_ok), os_QemuImg = (\<lambda>args. toy_ok),
      os_VmXml = (\<lambda>path w. (w, Inr toy_xml)),
      os_DiskXml = (\<lambda>path w. (w, Inr \<lparr>xd_Alias = None, xd_File = [], xd_Dev = []\<rparr>)),
      os_HttpGet = (\<lambda>url w. (w, Inr (200, ''#!/bin/sh''))),
      os_HttpHead = (\<lambda>url w. (w, Inl ''no network'')),
      os_HttpFetch = (\<lambda>url w. (w, Inl ''no network'')), os_CopyBody = (\<lambda>url path. toy_ok),
      os_Peer = (\<lambda>q w. (w, Inl ''no network'')),
      os_GitClone = (\<lambda>url b k w. (w, Inl ''no network'')),
      os_BootEvents = (\<lambda>u d w. (w, [PhoneCall True ''10.0.0.2''])),
      os_StateTicks = (\<lambda>n d w. (w, [Inr DomShutoff])), os_DiskTicks = (\<lambda>n w. (w, [Inr False])),
      os_RunSsh = (\<lambda>c h ts w. (w, [], None)), os_ForceDelete = (\<lambda>w. (w, False))\<rparr>"

definition toy_toml :: toml_vm where
  "toy_toml = tv_defaults\<lparr>tv_Name := ''web'', tv_Seed := ''debian'', tv_DiskSize := MB, tv_RAMSize := MB,
     tv_Domains := [''a.net->8080''], tv_Redirects := [[''www.a.net'', ''a.net'']], tv_Ports := [''80/tcp->@PUBLIC''],
     tv_Backup := [''app@http://x/b''], tv_Restore := [''app@http://x/r'']\<rparr>"

definition small_toml :: toml_vm where
  "small_toml = tv_defaults\<lparr>tv_Name := ''web'', tv_Seed := ''debian'', tv_DiskSize := MB, tv_RAMSize := MB,
     tv_Backup := [''app@file:x''], tv_Restore := [''app@file:x''],
     tv_BackupCompress := False, tv_BuildTimeout := []\<rparr>"

definition toy_px :: parsers where
  "toy_px = \<lparr>px_TomlVm = (\<lambda>content defaults. Inr (if content = ''full'' then toy_toml else small_toml, [])), px_Dotenv = (\<lambda>raw. Inr []),
     px_PrivateKey = (\<lambda>k. Some ()), px_HttpTime = (\<lambda>s. None), px_TimeText = (\<lambda>t. itoa t),
     px_JoinURL = (\<lambda>a b. Inr (a @ ''/'' @ b))\<rparr>"

definition toy_ext :: "toy ext" where "toy_ext = \<lparr>x_lv = toy_lv, x_os = toy_os, x_px = toy_px\<rparr>"

definition toy_config :: server_config where
  "toy_config =
     \<lparr>sc_Listen = '':8686'', sc_InternalServerPort = 1, sc_ListenHTTPSDomain = [], sc_LibVirtURI = [],
      sc_StoragePath = [], sc_DataPath = [], sc_TempPath = [], sc_VMPrefix = ''m-'', sc_ProxyListenSSH = [],
      sc_ProxySSHExtraKeysFile = [], sc_ProxyChainMode = ChainNone, sc_ProxyChainParentURL = [],
      sc_ProxyChainChildURL = [], sc_ProxyChainPSK = [], sc_MulchSuperUser = ''admin'',
      sc_MulchSuperUserSSHKey = ''key'', sc_AutoRebuildTime = ''23:30'', sc_Seeds = [], sc_Peers = [],
      sc_Origins = [], sc_configPath = ''etc''\<rparr>"

definition toy_seed :: seed where
  "toy_seed = \<lparr>sd_Name = ''debian'', sd_URL = ''http://x/debian'', sd_Seeder = [], sd_Ready = True, sd_LastModified = 0,
     sd_Size = 0, sd_Status = [], sd_StatusTime = 0, sd_PausedUntil = 0\<rparr>"

definition toy_secrets :: secret_db where "toy_secrets = \<lparr>sdb = [], passphrase = [], sdb_file = None\<rparr>"

definition toy_pairs :: pair_db where
  "toy_pairs = \<lparr>pdb = [(''key'', \<lparr>pair_Name = ''key'', Private = ''k'', pair_Public = ''p''\<rparr>)], pdb_file = NoFile\<rparr>"

definition toy_seeds :: seed_db where "toy_seeds = \<lparr>seeds = [(''debian'', toy_seed)], seeds_file = NoFile\<rparr>"

text \<open>A state of the application: its databases, the leases, the clock and what libvirt holds.\<close>

definition toy_state ::
  "bool \<Rightarrow> bool \<Rightarrow> vmdb \<Rightarrow> backup_db \<Rightarrow> dhcp_host list \<Rightarrow> int \<Rightarrow> int \<Rightarrow>
   (string, xml_domain \<times> dom_state) gomap \<Rightarrow> (pool_name \<times> string) list \<Rightarrow> toy app" where
  "toy_state lease_delete copy st bk hosts clk n doms vols =
     \<lparr>ap_config = toy_config, ap_vmdb = st, ap_secrets = toy_secrets,
      ap_backups = bk, ap_pairs = toy_pairs, ap_seeds = toy_seeds, ap_origins = [],
      ap_libvirt = \<lparr>lvs_pools = (\<lambda>p. True), lvs_network = True, lvs_Address = ''h'', lvs_Bridge = ''b'',
        lvs_GatewayMAC = ''g'', lvs_RangeStart = ''10.0.0.2'', lvs_RangeEnd = ''10.0.0.9'',
        lvs_Hosts = hosts, lvs_leases = [], lvs_DisksPath = ''d'', lvs_BackupsPath = ''b''\<rparr>,
      ap_world = \<lparr>tw_domains = doms, tw_volumes = vols, tw_clock = clk, tw_ids = n, tw_hosts = hosts,
        tw_lease_delete = lease_delete, tw_copy = copy\<rparr>\<rparr>"

definition no_backups :: backup_db where "no_backups = \<lparr>bdb = [], bdb_file = NoFile\<rparr>"

definition seed_volumes :: "(pool_name \<times> string) list" where "seed_volumes = [(PoolSeeds, ''debian.qcow2'')]"

definition toy_app :: "bool \<Rightarrow> bool \<Rightarrow> toy app" where
  "toy_app lease_delete copy = toy_state lease_delete copy empty_vmdb no_backups [] 1000 1 [] seed_volumes"

text \<open>The configuration of the small file, and a state where its VM runs and is active.\<close>

definition toy_conf :: vm_config where
  "toy_conf = empty_config\<lparr>cfg_FileContent := ''small'', cfg_Name := ''web'', cfg_Hostname := ''localhost.localdomain'',
     cfg_Timezone := ''Europe/Paris'', cfg_AppUser := ''app'', cfg_Seed := ''debian'', cfg_InitUpgrade := True,
     cfg_DiskSize := MB, cfg_RAMSize := MB, cfg_CPUCount := 1, cfg_BackupDiskSize := 2 * GB,
     cfg_Backup := [\<lparr>ScriptURL = ''file:x'', ScriptAs = ''app''\<rparr>],
     cfg_Restore := [\<lparr>ScriptURL = ''file:x'', ScriptAs = ''app''\<rparr>]\<rparr>"

definition toy_vm :: vm where
  "toy_vm = empty_vm\<lparr>SecretUUID := ''id0'', Config := toy_conf, AuthorKey := ''me'', MulchSuperUserSSHKey := ''key'',
     LastIP := ''10.0.0.2'', AssignedMAC := ''n'', AssignedIPv4 := ''10.0.0.2''\<rparr>"

definition toy_lease :: dhcp_host where
  "toy_lease = \<lparr>dh_Name = ''m-web'', dh_MAC = ''n'', dh_IP = ''10.0.0.2''\<rparr>"

definition toy_domain_xml :: xml_domain where
  "toy_domain_xml = toy_xml\<lparr>xm_Name := ''m-web'',
     xm_Disks := [\<lparr>xd_Alias = Some VMStorageAliasDisk, xd_File = ''d/web.qcow2'', xd_Dev = ''vda''\<rparr>]\<rparr>"

definition toy_running :: "bool \<Rightarrow> toy app" where
  "toy_running lease_delete =
     toy_state lease_delete True (empty_vmdb\<lparr>db := [(''web'', \<lparr>Name = NewVMName ''web'' 0, VM = toy_vm, Active = True\<rparr>)]\<rparr>)
       no_backups [toy_lease] 1000 1 [(''m-web'', (toy_domain_xml, DomRunning))] ((PoolDisks, ''web.qcow2'') # seed_volumes)"

subsection \<open>Evaluation\<close>

lemma toy_ext_sel [simp]: "x_lv toy_ext = toy_lv" "x_os toy_ext = toy_os" "x_px toy_ext = toy_px"
  by (simp_all add: toy_ext_def)

lemmas toy_lv_sel [simp] =
  toy_lv_def [THEN arg_cong [of _ _ lv_IsAlive], simplified]
  toy_lv_def [THEN arg_cong [of _ _ lv_NewConnect], simplified]
  toy_lv_def [THEN arg_cong [of _ _ lv_LookupPool], simplified]
  toy_lv_def [THEN arg_cong [of _ _ lv_LookupNetwork], simplified]
  toy_lv_def [THEN arg_cong [of _ _ lv_LookupDomain], simplified]
  toy_lv_def [THEN arg_cong [of _ _ lv_DefineDomain], simplified]
  toy_lv_def [THEN arg_cong [of _ _ lv_GetUUID], simplified]
  toy_lv_def [THEN arg_cong [of _ _ lv_Create], simplified]
  toy_lv_def [THEN arg_cong [of _ _ lv_Destroy], simplified]
  toy_lv_def [THEN arg_cong [of _ _ lv_Shutdown], simplified]
  toy_lv_def [THEN arg_cong [of _ _ lv_Undefine], simplified]
  toy_lv_def [THEN arg_cong [of _ _ lv_GetState], simplified]
  toy_lv_def [THEN arg_cong [of _ _ lv_GetXML], simplified]
  toy_lv_def [THEN arg_cong [of _ _ lv_Attach], simplified]
  toy_lv_def [THEN arg_cong [of _ _ lv_Detach], simplified]
  toy_lv_def [THEN arg_cong [of _ _ lv_Refresh], simplified]
  toy_lv_def [THEN arg_cong [of _ _ lv_VolLookup], simplified]
  toy_lv_def [THEN arg_cong [of _ _ lv_VolCreate], simplified]
  toy_lv_def [THEN arg_cong [of _ _ lv_VolDelete], simplified]
  toy_lv_def [THEN arg_cong [of _ _ lv_VolResize], simplified]
  toy_lv_def [THEN arg_cong [of _ _ lv_VolGetInfo], simplified]
  toy_lv_def [THEN arg_cong [of _ _ lv_VolCopy], simplified]
  toy_lv_def [THEN arg_cong [of _ _ lv_VolUpload], simplified]
  toy_lv_def [THEN arg_cong [of _ _ lv_VolDownload], simplified]
  toy_lv_def [THEN arg_cong [of _ _ lv_NetUpdate], simplified]
  toy_lv_def [THEN arg_cong [of _ _ lv_NetHosts], simplified]

lemmas toy_os_sel [simp] =
  toy_os_def [THEN arg_cong [of _ _ os_Now], simplified]
  toy_os_def [THEN arg_cong [of _ _ os_VmdbEnv], simplified]
  toy_os_def [THEN arg_cong [of _ _ os_Write], simplified]
  toy_os_def [THEN arg_cong [of _ _ os_UUID], simplified]
  toy_os_def [THEN arg_cong [of _ _ os_Rand], simplified]
  toy_os_def [THEN arg_cong [of _ _ os_Open], simplified]
  toy_os_def [THEN arg_cong [of _ _ os_CreateTemp], simplified]
  toy_os_def [THEN arg_cong [of _ _ os_Remove], simplified]
  toy_os_def [THEN arg_cong [of _ _ os_QemuImg], simplified]
  toy_os_def [THEN arg_cong [of _ _ os_VmXml], simplified]
  toy_os_def [THEN arg_cong [of _ _ os_DiskXml], simplified]
  toy_os_def [THEN arg_cong [of _ _ os_HttpGet], simplified]
  toy_os_def [THEN arg_cong [of _ _ os_HttpHead], simplified]
  toy_os_def [THEN arg_cong [of _ _ os_HttpFetch], simplified]
  toy_os_def [THEN arg_cong [of _ _ os_CopyBody], simplified]
  toy_os_def [THEN arg_cong [of _ _ os_Peer], simplified]
  toy_os_def [THEN arg_cong [of _ _ os_GitClone], simplified]
  toy_os_def [THEN arg_cong [of _ _ os_BootEvents], simplified]
  toy_os_def [THEN arg_cong [of _ _ os_StateTicks], simplified]
  toy_os_def [THEN arg_cong [of _ _ os_DiskTicks], simplified]
  toy_os_def [THEN arg_cong [of _ _ os_RunSsh], simplified]
  toy_os_def [THEN arg_cong [of _ _ os_ForceDelete], simplified]

lemma toy_config_sel [simp]:
  "sc_VMPrefix toy_config = ''m-''" "sc_MulchSuperUser toy_config = ''admin''" "sc_MulchSuperUserSSHKey toy_config = ''key''"
  "sc_InternalServerPort toy_config = 1"
  by (simp_all add: toy_config_def)

lemma toy_db_sel [simp]:
  "GetSecretsMap toy_secrets vm = ([], [])" if "cfg_Secrets (Config vm) = []"
  using that by (simp add: GetSecretsMap_def)

lemma toy_pair [simp]: "GetPublicKeyAuth (px_PrivateKey toy_px) ''key'' toy_pairs = Inr ()"
  by (simp add: GetPublicKeyAuth_def pdb_GetByName_def toy_pairs_def toy_px_def gm_get_def)

lemma toy_seed_sel [simp]:
  "seeds toy_seeds = [(''debian'', toy_seed)]" "sd_Ready toy_seed" "sd_Name toy_seed = ''debian''"
  by (simp_all add: toy_seeds_def toy_seed_def)

lemma toy_conf_sel [simp]:
  "cfg_FileContent toy_conf = ''small''" "cfg_Name toy_conf = ''web''" "cfg_Seed toy_conf = ''debian''"
  "cfg_Backup toy_conf = [\<lparr>ScriptURL = ''file:x'', ScriptAs = ''app''\<rparr>]"
  "cfg_Restore toy_conf = [\<lparr>ScriptURL = ''file:x'', ScriptAs = ''app''\<rparr>]"
  "cfg_Prepare toy_conf = []" "cfg_Install toy_conf = []" "cfg_Domains toy_conf = []" "cfg_Ports toy_conf = []"
  "cfg_Secrets toy_conf = []" "cfg_RestoreBackup toy_conf = []" "cfg_BackupCompress toy_conf = False"
  "toy_conf\<lparr>cfg_Domains := []\<rparr> = toy_conf" "cfg_BuildTimeout toy_conf = 0" "cfg_DiskSize toy_conf = MB"
  "cfg_RAMSize toy_conf = MB" "cfg_CPUCount toy_conf = 1" "cfg_BackupDiskSize toy_conf = 2 * GB"
  by (simp_all add: toy_conf_def empty_config_def)

definition blank_conf :: vm_config where "blank_conf = toy_conf\<lparr>cfg_RestoreBackup := BackupBlankRestore\<rparr>"

lemma blank_conf_sel [simp]:
  "cfg_FileContent blank_conf = ''small''" "cfg_Name blank_conf = ''web''" "cfg_Seed blank_conf = ''debian''"
  "cfg_Backup blank_conf = [\<lparr>ScriptURL = ''file:x'', ScriptAs = ''app''\<rparr>]"
  "cfg_Restore blank_conf = [\<lparr>ScriptURL = ''file:x'', ScriptAs = ''app''\<rparr>]"
  "cfg_Prepare blank_conf = []" "cfg_Install blank_conf = []" "cfg_Domains blank_conf = []" "cfg_Ports blank_conf = []"
  "cfg_Secrets blank_conf = []" "cfg_RestoreBackup blank_conf = ''-''" "cfg_BackupCompress blank_conf = False"
  "blank_conf\<lparr>cfg_Domains := []\<rparr> = blank_conf" "cfg_BuildTimeout blank_conf = 0" "cfg_DiskSize blank_conf = MB"
  "cfg_RAMSize blank_conf = MB" "cfg_CPUCount blank_conf = 1" "cfg_BackupDiskSize blank_conf = 2 * GB"
  by (simp_all add: blank_conf_def BackupBlankRestore_def toy_conf_def empty_config_def)

lemma toy_px_sel [simp]:
  "px_TomlVm toy_px content t = Inr (if content = ''full'' then toy_toml else small_toml, [])" "px_TimeText toy_px clock = itoa clock"
  by (simp_all add: toy_px_def)

text \<open>
  Sequences are evaluated from the outside in: the steps to come are not looked at before the
  state they start from is known.
\<close>

lemmas act_congs = refl [of "bindA m k" for m k] refl [of "deferA d m" for d m] refl [of "defer_unless d m" for d m]
  refl [of "with_error g m" for g m] refl [of "attempt m" for m] refl [of "resultA m" for m]

lemma act_eval:
  "bindA m k s = (case m s of (s1, r) \<Rightarrow> (case r of Inl e \<Rightarrow> (s1, Inl e) | Inr y \<Rightarrow> k y s1))"
  "attempt m s = (case m s of (s1, r) \<Rightarrow> (s1, Inr r))"
  "deferA d m' s = (case m' s of (s1, r') \<Rightarrow> (fst (d s1), r'))"
  "defer_unless d m' s = (case m' s of (s1, r') \<Rightarrow> (case r' of Inl e \<Rightarrow> (fst (d s1), Inl e) | Inr y \<Rightarrow> (s1, Inr y)))"
  "with_error g m' s = (case m' s of (s1, r') \<Rightarrow> (case r' of Inl e \<Rightarrow> (s1, Inl (g e)) | Inr y \<Rightarrow> (s1, Inr y)))"
  "ret y s = (s, Inr y)" "fail e s = (s, Inl e)" "readA f s = (s, f s)" "changeA h s = (h s, Inr ())"
  "checkA c e s = (if c then (s, Inr ()) else (s, Inl e))" "pureA v s = (s, v)"
  "noneA v' s = (s, case v' of None \<Rightarrow> Inr () | Some e \<Rightarrow> Inl e)"
  by (simp_all add: act_defs pureA_def noneA_def split: prod.splits sum.splits)

lemma app_eval:
  "askA f s = (case f (ap_world s) of (w, r) \<Rightarrow> (s\<lparr>ap_world := w\<rparr>, Inr r))"
  "callA g h s = (case h (ap_world s) of (w, q) \<Rightarrow>
     (case q of Inl e \<Rightarrow> (s\<lparr>ap_world := w\<rparr>, Inl (g e)) | Inr v \<Rightarrow> (s\<lparr>ap_world := w\<rparr>, Inr v)))"
  "getA j s = (s, Inr (j s))"
  "lookupA l s = (s, case l s of Inl e \<Rightarrow> Inl (FromVmdb e) | Inr v \<Rightarrow> Inr v)"
  "resultA m s = bindA (attempt m) (\<lambda>r. case r of
       Inl e \<Rightarrow> (case e of NilPointer p \<Rightarrow> fail e | NotReturned \<Rightarrow> fail e | _ \<Rightarrow> ret r)
     | Inr _ \<Rightarrow> ret r) s"
  by (simp_all add: askA_def callA_def getA_def lookupA_def readA_def resultA_def split: prod.splits sum.splits)

lemmas app_calls = lvA_def osA_def nowA_def vmdbA_def backupsA_def

lemmas libvirt_eval = GetConnection_def poolA_def GetDomainByName_def DeleteVolume_def ResizeDisk_def create_volume_def
  CloneVolume_def CreateDiskFromSeed_def UploadFileToLibvirtFromReader_def UploadFileToLibvirt_def findByHost_def
  known_host_def lease_stale_def vm_lease_def leases_to_add_def networkA_def RebuildDHCPStaticLeases_def
  AddTransientDHCPHost_def RemoveTransientDHCPHost_def hex_byte_def mac_of_def octet_def IPStringToInt_def
  IPIntToString_def mac_used_def LibvirtDomainName_def GetByNameID_def getEntryByID_def ip_used_def RandomUniqueIPv4_def

lemmas vm_eval = vmGenDiskName_def domainA_def existing_domain_def change_entry_def change_vm_def SetOperation_def
  vmA_def script_task_def template_task_def run_Go_def run_all_def super_user_auth_def VMIsRunning_def is_running_def
  VMLockUnlock_def aliased_disks_def main_disk_def destroy_domain_def VMDelete_def VMCreateBackupDisk_def
  VMAttachBackup_def vmFindBackupDisk_def VMDetachBackup_def record_backup_def VMBackup_def VMRestoreNoChecks_def
  VMStorageAliasDisk_def VMStorageAliasBackup_def VMNetworkAliasBridge_def
  BackupBlankRestore_def

lemmas build_eval = fill_sysinfo_def fill_interface_def fill_domain_def Version_def tolerate_def run_prepare_def
  run_install_def run_restore_def boot_vm_def remove_domain_def define_vm_def check_build_def seed_volume_def
  check_no_domain_def greenhouse_remove_def
  AddToGreenhouse_def DeleteFromGreenhouse_def vmdb_Add_def GetNextRevisionForName_def max_revision_def raise_revision_def

lemmas toy_eval = toy_ok_def toy_domain_def toy_change_def toy_volume_def toy_xml_def toy_env_def toy_app_def toy_state_def
  seed_volumes_def toy_running_def toy_domain_xml_def toy_lease_def empty_vmdb_def no_backups_def

end
