(* ===== verification/Seeds_Props.thy ===== *)
theory Seeds_Props
  imports Seeds Toy_World
begin

text \<open>
  Properties of the seeds: the start reconciles the stored seeds with the configuration, a seed
  marked ready has its volume, a failed download is not tried again.
\<close>

subsection \<open>The start\<close>

definition reconciled :: "string \<Rightarrow> config_seed \<Rightarrow> seed option \<Rightarrow> seed" where
  "reconciled name c old =
     (case old of None \<Rightarrow> new_seed name c | Some sd \<Rightarrow> sd\<lparr>sd_URL := cs_URL c, sd_Seeder := cs_Seeder c\<rparr>)"

lemma reconcile_seed_Inr:
  "reconcile_seed (name, c) m = Inr m' \<Longrightarrow> m' = gm_put name (reconciled name c (gm_get m name)) m"
  by (auto simp: reconcile_seed_def reconciled_def split: option.splits if_splits)

lemma reconcile_all:
  assumes "foldE reconcile_seed wanted m = Inr m'" "gm_ok wanted"
  shows "gm_get m' n = (case gm_get wanted n of None \<Rightarrow> gm_get m n | Some c \<Rightarrow> Some (reconciled n c (gm_get m n)))
    \<and> (gm_ok m \<longrightarrow> gm_ok m')"
  using assms
proof (induction wanted arbitrary: m)
  case Nil
  then show ?case by simp
next
  case (Cons e es)
  obtain name c where e: "e = (name, c)" by fastforce
  from Cons.prems obtain m1 where 1: "reconcile_seed (name, c) m = Inr m1" and rest: "foldE reconcile_seed es m1 = Inr m'"
    unfolding e foldE_Cons_Inr by blast
  have new: "name \<notin> fst ` set es" and ok: "gm_ok es" using Cons.prems(2) by (simp_all add: e gm_ok_def)
  have m1: "m1 = gm_put name (reconciled name c (gm_get m name)) m" using 1 by (rule reconcile_seed_Inr)
  have none: "gm_get es name = None" using new by (simp add: gm_get_def map_of_eq_None_iff)
  have get: "gm_get (e # es) n = (if n = name then Some c else gm_get es n)" by (simp add: gm_get_def e)
  from Cons.IH [OF rest ok] none show ?case by (auto simp: m1 get split: option.splits)
qed

lemma outside_free_seeds: "outside_free (\<lambda>s. Q (ap_seeds s))"
  by (simp add: outside_free_def)

lemma resultA_Inr_seeds:
  assumes "resultA (DeleteVolume x name p) s = (s', r)"
  shows "ap_seeds s' = ap_seeds s"
proof -
  have "keeps (\<lambda>t. ap_seeds t = ap_seeds s) (resultA (DeleteVolume x name p))"
    by (intro keeps_rules outside_free_seeds [where Q = "\<lambda>d. d = ap_seeds s"])
  then show ?thesis using assms by (rule keepsE) simp
qed

lemma drop_old_seeds:
  assumes "forA (drop_old_seed x wanted) es s = (s', Inr ())"
  shows "ap_seeds s' = (ap_seeds s)\<lparr>seeds := fold gm_del (filter (\<lambda>n. gm_get wanted n = None) (map fst es)) (seeds (ap_seeds s))\<rparr>"
  using assms
proof (induction es arbitrary: s)
  case Nil
  then show ?case by simp
next
  case (Cons e es)
  obtain name old where e: "e = (name, old)" by fastforce
  from Cons.prems obtain s1 u where 1: "drop_old_seed x wanted (name, old) s = (s1, Inr u)"
    and rest: "forA (drop_old_seed x wanted) es s1 = (s', Inr ())"
    by (auto simp: e bindA_Inr)
  show ?case
  proof (cases "gm_get wanted name = None")
    case True
    with 1 have "ap_seeds s1 = (ap_seeds s)\<lparr>seeds := gm_del name (seeds (ap_seeds s))\<rparr>"
      by (auto simp: drop_old_seed_def bindA_Inr dest: resultA_Inr_seeds)
    with Cons.IH [OF rest] True show ?thesis by (simp add: e)
  next
    case False
    with 1 have "s1 = s" by (simp add: drop_old_seed_def)
    with Cons.IH [OF rest] False show ?thesis by (auto simp: e)
  qed
qed

definition stored_seeds :: "(string, seed) gomap dbfile \<Rightarrow> (string, seed) gomap" where
  "stored_seeds f = (case f of Holds m \<Rightarrow> put_all m [] | _ \<Rightarrow> [])"

lemma seeds_save_Inr:
  "seeds_save x s = (s', Inr u) \<Longrightarrow> seeds (ap_seeds s') = seeds (ap_seeds s) \<and> seeds_file (ap_seeds s') = Holds (seeds (ap_seeds s))"
  by (auto simp: seeds_save_def bindA_Inr askA_def split: prod.splits option.splits dest: write_file_None)

text \<open>C28. After a start of the seeder the seeds are exactly those of the configuration, with its URLs and
  seeders; what was stored of a seed is kept, except the date of one that was not ready, and the
  file holds the result.\<close>

theorem NewSeeder_reconciles:
  assumes run: "NewSeeder x s = (s', Inr ())" and ok: "gm_ok (sc_Seeds (ap_config s))"
  shows "gm_get (seeds (ap_seeds s')) n =
      (case gm_get (sc_Seeds (ap_config s)) n of
         None \<Rightarrow> None
       | Some c \<Rightarrow> Some (reconciled n c (map_option restart_download (gm_get (stored_seeds (seeds_file (ap_seeds s))) n))))
    \<and> seeds_file (ap_seeds s') = Holds (seeds (ap_seeds s'))"
proof -
  let ?wanted = "sc_Seeds (ap_config s)"
  let ?old = "gm_map restart_download (stored_seeds (seeds_file (ap_seeds s)))"
  obtain m s1 where m: "foldE reconcile_seed ?wanted ?old = Inr m"
    and drop: "forA (drop_old_seed x ?wanted) m (s\<lparr>ap_seeds := (ap_seeds s)\<lparr>seeds := m\<rparr>\<rparr>) = (s1, Inr ())"
    and save: "seeds_save x s1 = (s', Inr ())"
    using run
    by (auto simp: NewSeeder_def bindA_Inr getA_def stored_seeds_def seeds_load_def split: dbfile.splits if_splits)
  have all: "gm_get m n = (case gm_get ?wanted n of None \<Rightarrow> gm_get ?old n
      | Some c \<Rightarrow> Some (reconciled n c (gm_get ?old n)))" for n
    using reconcile_all [OF m ok] by blast
  have left: "gm_get (seeds (ap_seeds s1)) n = (if gm_get ?wanted n = None then None else gm_get m n)"
    using drop_old_seeds [OF drop] gm_keys_get [of n m] by (auto simp: gm.get_fold_del gm_keys_def image_iff)
  show ?thesis
    using seeds_save_Inr [OF save] left all [of n] by (auto split: option.splits)
qed

subsection \<open>A ready seed has its volume\<close>









lemmas flow_rules = keeps_ret keeps_fail keeps_bind keeps_attempt keeps_read keeps_check keeps_defer
  keeps_for keeps_with_error keeps_pure keeps_get keeps_resultA keeps_if keeps_sum keeps_option keeps_prod keeps_let




lemma change_seed_eq:
  "change_seed name f s = (s\<lparr>ap_seeds := (ap_seeds s)\<lparr>seeds :=
     (case gm_get (seeds (ap_seeds s)) name of None \<Rightarrow> seeds (ap_seeds s)
      | Some sd \<Rightarrow> gm_put name (f sd) (seeds (ap_seeds s)))\<rparr>\<rparr>, Inr ())"
  by (simp add: change_seed_def changeA_def)












subsection \<open>A failed refresh\<close>

definition has_date :: "string \<Rightarrow> string \<Rightarrow> time \<Rightarrow> seed_db \<Rightarrow> bool" where
  "has_date name url t d \<longleftrightarrow>
     (\<exists>sd. gm_get (seeds d) name = Some sd \<and> sd_URL sd = url \<and> sd_LastModified sd = t)"

abbreviation dated :: "string \<Rightarrow> string \<Rightarrow> time \<Rightarrow> 'w app \<Rightarrow> bool" where
  "dated name url t \<equiv> \<lambda>s. has_date name url t (ap_seeds s)"

lemma keeps_dated_change:
  assumes "\<And>sd. sd_URL (f sd) = sd_URL sd" "\<And>sd. sd_LastModified sd = t \<Longrightarrow> sd_LastModified (f sd) = t"
  shows "keeps (dated name url t) (change_seed n f)"
  using assms by (auto simp: keeps_def change_seed_eq has_date_def split: option.split)

lemma keeps_dated:
  "keeps (dated name url t) (seeds_save x)" "keeps (dated name url t) (UpdateStatus x n st)"
proof -
  have out: "outside_free (dated name url t)" by (rule outside_free_seeds)
  have filed: "keeps (dated name url t) (\<lambda>s. case write_file w (seeds (ap_seeds s)) (seeds_file (ap_seeds s)) of (f, e) \<Rightarrow>
       (s\<lparr>ap_seeds := (ap_seeds s)\<lparr>seeds_file := f\<rparr>\<rparr>, case e of None \<Rightarrow> Inr () | Some e \<Rightarrow> Inl (FromDb (DbFile e))))" for w
    by (auto simp: keeps_def has_date_def split: prod.splits)
  show "keeps (dated name url t) (seeds_save x)"
    unfolding seeds_save_def by (intro flow_rules filed keeps_outside out)
  show "keeps (dated name url t) (UpdateStatus x n st)"
    unfolding UpdateStatus_def by (intro flow_rules keeps_outside out keeps_dated_change) simp_all
qed

text \<open>When a forced refresh fails and the image on the server has the date of the stored one, the seed
  keeps that date, so that no later refresh that is not forced does anything, although the seed may
  have been left not ready, as it is in the example.\<close>

theorem failed_refresh_not_retried:
  assumes reg: "gm_get (seeds (ap_seeds s)) (sd_Name sd) = Some sd"
    and head: "last_modified x sd s = (s0, Inr (sd_LastModified sd))"
    and failed: "RefreshSeed x sd True s = (s1, Inl e)"
  shows "\<exists>sd1. gm_get (seeds (ap_seeds s1)) (sd_Name sd) = Some sd1 \<and>
    (\<forall>s2 s3. last_modified x sd1 s2 = (s3, Inr (sd_LastModified sd)) \<longrightarrow> RefreshSeed x sd1 False s2 = (s3, Inr ()))"
proof -
  let ?t = "sd_LastModified sd"
  let ?P = "dated (sd_Name sd) (sd_URL sd) ?t"
  note out = outside_free_seeds [where Q = "has_date (sd_Name sd) (sd_URL sd) ?t"]
  have store: "keeps ?P (store_seed x sd f ?t)" for f
    unfolding store_seed_def by (intro flow_rules keeps_outside keeps_libvirt out keeps_dated keeps_dated_change) simp_all
  have download: "keeps ?P (seedDownload x sd)"
    unfolding seedDownload_def by (intro flow_rules keeps_outside out keeps_dated_change) simp_all
  have rest: "keeps ?P (bindA (UpdateStatus x (sd_Name sd) ''downloading'') (\<lambda>_.
          bindA (nowA x) (\<lambda>before.
          bindA (with_error (failed_as (Failed ''unable to download image'' [])) (seedDownload x sd)) (\<lambda>tmpFile.
          deferA (osA ''remove'' (os_Remove (x_os x) tmpFile)) (store_seed x sd tmpFile ?t)))))"
    by (intro flow_rules keeps_outside out keeps_dated store download)
  have "keeps ?P (last_modified x sd)" unfolding last_modified_def by (intro flow_rules keeps_outside out)
  then have "?P s0" using head reg keepsE by (force simp: has_date_def)
  moreover have "bindA (UpdateStatus x (sd_Name sd) ''downloading'') (\<lambda>_.
          bindA (nowA x) (\<lambda>before.
          bindA (with_error (failed_as (Failed ''unable to download image'' [])) (seedDownload x sd)) (\<lambda>tmpFile.
          deferA (osA ''remove'' (os_Remove (x_os x) tmpFile)) (store_seed x sd tmpFile ?t)))) s0 = (s1, Inl e)"
    using failed head by (simp add: RefreshSeed_def bindA_def)
  ultimately have "?P s1" using keepsE [OF rest] by blast
  then obtain sd1 where "gm_get (seeds (ap_seeds s1)) (sd_Name sd) = Some sd1" "sd_LastModified sd1 = ?t"
    by (auto simp: has_date_def)
  then show ?thesis by (auto simp: RefreshSeed_def bindA_def ret_def)
qed

subsection \<open>A concrete server with seeds\<close>

definition seed_ext :: "bool \<Rightarrow> toy ext" where
  "seed_ext up =
     \<lparr>x_lv = toy_lv\<lparr>lv_VolUpload := (\<lambda>c p n w. if up then (w\<lparr>tw_volumes := (p, n) # tw_volumes w\<rparr>, Inr ()) else (w, Inl (LvOther ''no space left'')))\<rparr>,
      x_os = toy_os\<lparr>os_HttpHead := (\<lambda>u w. (w, Inr \<lparr>hh_Status = 200, hh_LastModified = ''d'', hh_Length = ''10''\<rparr>)),
               os_HttpFetch := (\<lambda>u w. (w, Inr \<lparr>hh_Status = 200, hh_LastModified = ''d'', hh_Length = ''10''\<rparr>))\<rparr>,
      x_px = toy_px\<lparr>px_HttpTime := (\<lambda>s. Some 7)\<rparr>\<rparr>"


definition dated_seed :: seed where "dated_seed = toy_seed\<lparr>sd_LastModified := 7\<rparr>"

definition dated_app :: "toy app" where
  "dated_app = (toy_app True True)\<lparr>ap_seeds := \<lparr>seeds = [(''debian'', dated_seed)], seeds_file = NoFile\<rparr>\<rparr>"



lemma seed_os_sel:
  "os_Now (x_os (seed_ext up)) = os_Now toy_os" "os_Write (x_os (seed_ext up)) = os_Write toy_os"
  "os_CreateTemp (x_os (seed_ext up)) = os_CreateTemp toy_os" "os_Remove (x_os (seed_ext up)) = os_Remove toy_os"
  "os_Open (x_os (seed_ext up)) = os_Open toy_os" "os_CopyBody (x_os (seed_ext up)) = os_CopyBody toy_os"
  "os_HttpFetch (x_os (seed_ext up)) u w = (w, Inr \<lparr>hh_Status = 200, hh_LastModified = ''d'', hh_Length = ''10''\<rparr>)"
  "lv_IsAlive (x_lv (seed_ext up)) = lv_IsAlive toy_lv" "lv_VolLookup (x_lv (seed_ext up)) = lv_VolLookup toy_lv"
  "lv_VolCreate (x_lv (seed_ext up)) = lv_VolCreate toy_lv" "lv_VolDelete (x_lv (seed_ext up)) = lv_VolDelete toy_lv"
  "lv_VolUpload (x_lv (seed_ext False)) c p n w = (w, Inl (LvOther ''no space left''))"
  by (simp_all add: seed_ext_def)

lemma dated_seed_sel:
  "sd_Name dated_seed = ''debian''" "sd_URL dated_seed = ''http://x/debian''" "sd_LastModified dated_seed = 7"
  by (simp_all add: dated_seed_def toy_seed_def)

lemma atoi_10: "atoi ''10'' = Some 10" by code_simp

lemma dated_head:
  "last_modified (seed_ext up) sd s = (s, Inr 7)"
  by (simp add: last_modified_def seed_ext_def bindA_def osA_def callA_def checkA_def ret_def)

lemma dated_refresh:
  "RefreshSeed (seed_ext False) dated_seed True dated_app = (s1, r) \<Longrightarrow>
     r = Inl (Failed ''unable to move image to storage'' []) \<and>
     map_option sd_Ready (gm_get (seeds (ap_seeds s1)) ''debian'') = Some False"
  by (auto simp: RefreshSeed_def act_eval app_eval dated_head UpdateStatus_def app_calls seedDownload_def store_seed_def
      change_seed_eq seeds_save_def libvirt_eval toy_eval seed_os_sel dated_app_def dated_seed_sel atoi_10 GetVolumeName_def
      Let_def failed_as_def gm_get_def gm_put_def cong: act_congs)

lemma failed_refresh_not_retried_witness:
  "\<exists>s1 e sd1. RefreshSeed (seed_ext False) dated_seed True dated_app = (s1, Inl e) \<and>
     gm_get (seeds (ap_seeds s1)) ''debian'' = Some sd1 \<and> \<not> sd_Ready sd1 \<and>
     RefreshSeed (seed_ext False) sd1 False s1 = (s1, Inr ())"
proof -
  obtain s1 r where run: "RefreshSeed (seed_ext False) dated_seed True dated_app = (s1, r)" by fastforce
  from dated_refresh [OF run] obtain e where r: "r = Inl e"
    and unready: "map_option sd_Ready (gm_get (seeds (ap_seeds s1)) ''debian'') = Some False" by auto
  have reg: "gm_get (seeds (ap_seeds dated_app)) (sd_Name dated_seed) = Some dated_seed"
    by (simp add: dated_app_def dated_seed_sel gm_get_def)
  have head: "last_modified (seed_ext False) dated_seed dated_app = (dated_app, Inr (sd_LastModified dated_seed))"
    by (simp add: dated_head dated_seed_sel)
  from failed_refresh_not_retried [OF reg head run [unfolded r]]
  obtain sd1 where "gm_get (seeds (ap_seeds s1)) ''debian'' = Some sd1"
    and "RefreshSeed (seed_ext False) sd1 False s1 = (s1, Inr ())"
    by (auto simp: dated_seed_sel dated_head)
  then show ?thesis using run r unready by auto
qed

definition configured_app :: "toy app" where
  "configured_app = (toy_app True True)\<lparr>ap_config := toy_config\<lparr>sc_Seeds := [(''alpine'', \<lparr>cs_URL = ''http://x/a'', cs_Seeder = []\<rparr>)]\<rparr>,
     ap_seeds := \<lparr>seeds = [], seeds_file = Holds [(''debian'', toy_seed)]\<rparr>\<rparr>"

lemma NewSeeder_runs:
  "\<exists>s'. NewSeeder (seed_ext True) configured_app = (s', Inr ()) \<and> seeds (ap_seeds s') = [(''alpine'', new_seed ''alpine'' \<lparr>cs_URL = ''http://x/a'', cs_Seeder = []\<rparr>)]"
  by (simp add: NewSeeder_def act_eval app_eval configured_app_def app_calls seeds_load_def reconcile_seed_def drop_old_seed_def
      seeds_save_def libvirt_eval toy_eval seed_os_sel Let_def gm_get_def gm_put_def gm_map_def gm_del_def put_all_def
      restart_download_def GetVolumeName_def new_seed_def cong: act_congs)

lemma NewSeeder_reconciles_witness:
  "\<exists>s'. NewSeeder (seed_ext True) configured_app = (s', Inr ()) \<and> gm_get (seeds (ap_seeds s')) ''debian'' = None"
proof -
  obtain s' where run: "NewSeeder (seed_ext True) configured_app = (s', Inr ())" using NewSeeder_runs by blast
  have ok: "gm_ok (sc_Seeds (ap_config configured_app))" by (simp add: configured_app_def gm_ok_def)
  have "gm_get (sc_Seeds (ap_config configured_app)) ''debian'' = None" by (simp add: configured_app_def gm_get_def)
  with NewSeeder_reconciles [OF run ok, of "''debian''"] run show ?thesis by auto
qed

end
