(* ===== verification/Peer_Call.thy ===== *)
theory Peer_Call
  imports Libvirt Messages
begin

text \<open>
  Calls from one server to another, \<open>cmd/mulchd/server/peer_call.go\<close>. The callbacks of a call change
  a value of the caller. Sending the request is a call of the outside, whose answer holds the
  error of the upload, if any; the URL is cleaned and the request is built there too.
\<close>

datatype peer_upload =
    NoUpload
  | UploadString string string string
  | UploadVolume string string pool_name

record 'a callbacks =
  cb_Text :: "(string \<Rightarrow> 'a \<Rightarrow> app_error + 'a) option"
  cb_Json :: "(string \<Rightarrow> 'a \<Rightarrow> app_error + 'a) option"
  cb_Binary :: "(string \<Rightarrow> 'a \<Rightarrow> app_error + 'a) option"
  cb_HttpError :: "(int \<Rightarrow> string \<Rightarrow> app_error \<Rightarrow> 'a \<Rightarrow> app_error + 'a) option"
  cb_Message :: "(string \<times> string \<Rightarrow> 'a \<Rightarrow> app_error + 'a) option"

definition no_callbacks :: "'a callbacks" where
  "no_callbacks = \<lparr>cb_Text = None, cb_Json = None, cb_Binary = None, cb_HttpError = None, cb_Message = None\<rparr>"

definition VolumeDownloadToWriter :: "'w ext \<Rightarrow> string \<Rightarrow> pool_name \<Rightarrow> ('w, unit) app_act" where
  "VolumeDownloadToWriter x srcVolName p =
     bindA (GetConnection x) (\<lambda>_.
     bindA (poolA PoolSeeds (lv_Refresh (x_lv x) PoolSeeds)) (\<lambda>_.
     poolA p (lv_VolLookup (x_lv x) p srcVolName)))"

text \<open>
  The goroutine that writes the body: the name of its file, and whether it lives. When
  \<open>VolumeDownloadToWriter\<close> fails, it reports the error and goes on with a nil \<open>VolumeDownload\<close>,
  whose \<open>Copy\<close> dereferences it once the request is being read: nothing recovers a panic of this
  goroutine, the process dies and the call does not return.
\<close>

definition upload_file :: "'w ext \<Rightarrow> peer_upload \<Rightarrow> ('w, (string \<times> string) option \<times> bool) app_act" where
  "upload_file x u =
     (case u of NoUpload \<Rightarrow> ret (None, True)
      | UploadString fieldName fileName content \<Rightarrow> ret (Some (fieldName, fileName), True)
      | UploadVolume name as_name p \<Rightarrow>
          bindA (attempt (VolumeDownloadToWriter x name p)) (\<lambda>r.
          ret (Some (''file'', if as_name = [] then name else as_name), \<not> isl r)))"

fun decodeJSONStream ::
  "string \<Rightarrow> (string \<times> string \<Rightarrow> 'a \<Rightarrow> app_error + 'a) option \<Rightarrow> string option \<Rightarrow> app_error option \<Rightarrow>
   (string \<times> string) list \<Rightarrow> 'a \<Rightarrow> app_error + 'a" where
  "decodeJSONStream peer cb broken retError [] a =
     (case broken of Some e \<Rightarrow> Inl (Failed ''decode'' [e])
      | None \<Rightarrow> (case retError of Some e \<Rightarrow> Inl e | None \<Rightarrow> Inr a))"
| "decodeJSONStream peer cb broken retError (m # ms) a =
     (if fst m = MessageNoop then decodeJSONStream peer cb broken retError ms a
      else case (case cb of None \<Rightarrow> Inr a | Some f \<Rightarrow> f m a) of Inl e \<Rightarrow> Inl e
        | Inr b \<Rightarrow> decodeJSONStream peer cb broken
            (if fst m = MessageFailure then Some (Failed ''peer returned an error'' [peer]) else retError) ms b)"

definition read_answer :: "string \<Rightarrow> 'a callbacks \<Rightarrow> 'a \<Rightarrow> peer_answer \<Rightarrow> app_error + 'a" where
  "read_answer peer cb a ans =
     (case pa_UploadError ans of Some e \<Rightarrow> Inl (Failed ''upload'' [e])
      | None \<Rightarrow>
      if pa_Status ans \<noteq> 200 then
        (let httpError = Failed ''http error'' [itoa (pa_Status ans), pa_Body ans]
         in case cb_HttpError cb of None \<Rightarrow> Inl httpError | Some f \<Rightarrow> f (pa_Status ans) (pa_Body ans) httpError a)
      else if pa_ContentType ans = ''application/x-ndjson'' then
        decodeJSONStream peer (cb_Message cb) (pa_Broken ans) None (pa_Messages ans) a
      else if pa_ContentType ans = ''text/plain'' \<or> pa_ContentType ans = ''text/plain; charset=utf-8'' then
        (case cb_Text cb of None \<Rightarrow> Inl (Failed ''unsupported text plain response'' []) | Some f \<Rightarrow> f (pa_Body ans) a)
      else if pa_ContentType ans = ''application/json'' then
        (case cb_Json cb of None \<Rightarrow> Inl (Failed ''unsupported JSON response'' []) | Some f \<Rightarrow> f (pa_Body ans) a)
      else if pa_ContentType ans = ''application/octet-stream'' then
        (case cb_Binary cb of None \<Rightarrow> Inl (Failed ''unsupported binary response'' []) | Some f \<Rightarrow> f (pa_Body ans) a)
      else Inl (Failed ''unsupported content type'' [pa_ContentType ans]))"

definition peer_do ::
  "'w ext \<Rightarrow> config_peer \<Rightarrow> string \<Rightarrow> string \<Rightarrow> (string \<times> string) list \<Rightarrow> peer_upload \<Rightarrow> 'a callbacks \<Rightarrow> 'a \<Rightarrow>
   ('w, 'a) app_act" where
  "peer_do x peer meth path args upload cb a =
     (if meth \<notin> {''GET'', ''DELETE'', ''POST'', ''PUT''} then fail (Failed ''apicall does not support'' [meth])
      else bindA (if meth = ''GET'' \<or> meth = ''DELETE'' then ret (None, True) else upload_file x upload) (\<lambda>(f, lives).
           bindA (osA ''peer'' (os_Peer (x_os x)
             \<lparr>pq_Peer = cp_Name peer, pq_Method = meth, pq_Path = path, pq_Args = args, pq_File = f\<rparr>)) (\<lambda>ans.
           if \<not> lives then fail NotReturned else pureA (read_answer (cp_Name peer) cb a ans))))"

definition peer_Do ::
  "'w ext \<Rightarrow> config_peer \<Rightarrow> string \<Rightarrow> string \<Rightarrow> (string \<times> string) list \<Rightarrow> peer_upload \<Rightarrow> 'a callbacks \<Rightarrow> 'a \<Rightarrow>
   ('w, 'a) app_act" where
  "peer_Do x peer meth path args upload cb a =
     with_error (failed_as (Failed ''call to peer failed'' [path, cp_Name peer]))
       (peer_do x peer (to_upper meth) path args upload cb a)"

lemma keeps_VolumeDownload [keeps_rules]:
  assumes P: "outside_free P"
  shows "keeps P (VolumeDownloadToWriter x name p)" "keeps P (upload_file x u)"
proof -
  show v: "keeps P (VolumeDownloadToWriter x name p)" for name p
    unfolding VolumeDownloadToWriter_def by (intro keeps_rules P)
  show "keeps P (upload_file x u)"
    unfolding upload_file_def by (cases u) (simp_all only: peer_upload.case, (intro keeps_rules v P)+)
qed

lemma keeps_peer_Do [keeps_rules]:
  assumes P: "outside_free P"
  shows "keeps P (peer_Do x peer meth path args upload cb a)"
  unfolding peer_Do_def peer_do_def by (intro keeps_rules P)

end
