(* ===== verification/Controllers_Vm.thy ===== *)
theory Controllers_Vm
  imports Vm_Rebuild Peer_Call Api_Keys
begin

text \<open>
  The requests on a VM, \<open>cmd/mulchd/controllers/vm.go\<close>: which VM a request means, the creation of a
  VM, the actions, the deletion and the migration to another server. A handler that fails returns
  the error it writes to the stream of its client. The operation list, the targets of the streams
  and the texts of progress are left out.
\<close>

record control_request =
  cr_SubPath :: string
  cr_Form :: "string \<Rightarrow> string"
  cr_File :: "string \<Rightarrow> (string \<times> string) option"
  cr_Key :: api_key

definition VMStopEmergencyTimeout :: duration where "VMStopEmergencyTimeout = seconds 20"
definition BackupNoExpiration :: duration where "BackupNoExpiration = 0"

definition form_true :: "control_request \<Rightarrow> string \<Rightarrow> bool" where
  "form_true req name \<longleftrightarrow> cr_Form req name = TrueStr"

text \<open>\<open>time.Duration(seconds) * time.Second\<close> wraps around at 64 bits.\<close>

definition seconds64 :: "int \<Rightarrow> duration" where
  "seconds64 n = sint (word_of_int (seconds n) :: 64 word)"

subsection \<open>The VM of a request\<close>

text \<open>The entry a request means; \<open>activate\<close> with no revision has an entry without VM.\<close>

record target =
  tg_Name :: vm_name
  tg_VM :: "vm option"
  tg_Active :: bool
  tg_place :: place

definition target_of :: "place \<Rightarrow> vm_entry \<Rightarrow> target" where
  "target_of p e = \<lparr>tg_Name = Name e, tg_VM = Some (VM e), tg_Active = Active e, tg_place = p\<rparr>"

definition getEntryFromRequest :: "string \<Rightarrow> control_request \<Rightarrow> ('w, target) app_act" where
  "getEntryFromRequest vmName req =
     (let revisionParams = cr_Form req ''revision'' in
      if cr_Form req ''action'' = ''activate'' \<and> (revisionParams = ''none'' \<or> revisionParams = ''-1'') then
        bindA (getA (\<lambda>s. GetCountForName (ap_vmdb s) vmName)) (\<lambda>count.
        if count = 0 then fail (Failed ''no VM found in database'' [vmName])
        else ret \<lparr>tg_Name = NewVMName vmName RevisionNone, tg_VM = None, tg_Active = False, tg_place = InDatabase\<rparr>)
      else if revisionParams \<noteq> [] then
        (case atoi revisionParams of None \<Rightarrow> fail (Failed ''atoi'' [revisionParams])
         | Some revision \<Rightarrow>
             let name = NewVMName vmName revision in
             readA (\<lambda>s. case GetEntryByName (ap_vmdb s) name of Inr e \<Rightarrow> Inr (target_of InDatabase e)
               | Inl _ \<Rightarrow> (case GetGreenhouseEntryByName (ap_vmdb s) name of Inr e \<Rightarrow> Inr (target_of InGreenhouse e)
                   | Inl _ \<Rightarrow> Inl (Failed ''VM not found in databases'' [vn_ID name]))))
      else bindA (lookupA (\<lambda>s. GetActiveEntryByName (ap_vmdb s) vmName)) (\<lambda>entry.
           case entry of None \<Rightarrow> fail (NilPointer ''entry'') | Some e \<Rightarrow> ret (target_of InDatabase e)))"

subsection \<open>Creating a VM\<close>

definition VMControllerConfigCheck :: "'w ext \<Rightarrow> control_request \<Rightarrow> ('w, vm_config \<times> string) app_act" where
  "VMControllerConfigCheck x req =
     (case cr_File req ''config'' of None \<Rightarrow> fail (Failed ''config file field'' [])
      | Some (filename, content) \<Rightarrow>
          bindA (with_error (failed_as (Failed ''decoding config'' [])) (NewVMConfigFromTomlReader x (Inr content))) (\<lambda>conf.
          bindA (getA (\<lambda>s. GetCountForName (ap_vmdb s) (cfg_Name conf))) (\<lambda>count.
          if 0 < count \<and> \<not> form_true req ''allow_new_revision'' then fail (Failed ''VM already exists'' [cfg_Name conf])
          else ret (conf, filename))))"

definition app_BackupDelete :: "'w ext \<Rightarrow> string \<Rightarrow> ('w, unit) app_act" where
  "app_BackupDelete x backupName =
     bindA (getA (\<lambda>s. bdb_GetByName (ap_backups s) backupName)) (\<lambda>backup.
     bindA (checkA (backup \<noteq> None) (Failed ''backup not found in database'' [backupName])) (\<lambda>_.
     bindA (poolA PoolBackups (lv_VolLookup (x_lv x) PoolBackups backupName)) (\<lambda>_.
     bindA (lvA (lv_VolDelete (x_lv x) PoolBackups backupName)) (\<lambda>_.
     backupsA x (\<lambda>w. bdb_Delete w backupName)))))"

definition create_vm :: "nat \<Rightarrow> 'w ext \<Rightarrow> control_request \<Rightarrow> vm_config \<Rightarrow> ('w, vm) app_act" where
  "create_vm draws x req conf =
     bindA (nowA x) (\<lambda>before.
     bindA (with_error (failed_as (Failed ''cannot create VM'' []))
       (NewVM draws x conf (\<not> form_true req ''inactive'') (form_true req ''keep_on_failure'') (Comment (cr_Key req)))) (\<lambda>(vm, vmName).
     bindA (if form_true req ''lock'' then bindA (resultA (VMLockUnlock x vmName True)) (\<lambda>_. ret ()) else ret ()) (\<lambda>_.
     bindA (nowA x) (\<lambda>after. ret vm))))"

definition create_restored :: "nat \<Rightarrow> 'w ext \<Rightarrow> control_request \<Rightarrow> vm_config \<Rightarrow> string \<Rightarrow> ('w, vm) app_act" where
  "create_restored draws x req conf restoreVM =
     bindA (lookupA (\<lambda>s. GetActiveEntryByName (ap_vmdb s) restoreVM)) (\<lambda>entry.
     case entry of None \<Rightarrow> fail (NilPointer ''entry'')
     | Some e \<Rightarrow>
         bindA (with_error (failed_as (Failed ''cannot backup'' [restoreVM]))
           (VMBackup x (Name e) (Comment (cr_Key req)) False BackupNoExpiration)) (\<lambda>backup.
         deferA (app_BackupDelete x backup) (create_vm draws x req (conf\<lparr>cfg_RestoreBackup := backup\<rparr>))))"

definition NewVMController ::
  "nat \<Rightarrow> 'w ext \<Rightarrow> (string \<Rightarrow> string \<Rightarrow> bool) \<Rightarrow> control_request \<Rightarrow> ('w, vm) app_act" where
  "NewVMController draws x glob req =
     bindA (VMControllerConfigCheck x req) (\<lambda>(conf, filename).
     let restore = cr_Form req ''restore''; restoreVM = cr_Form req ''restore-vm'' in
     bindA (checkA (IsAllowed glob (cr_Key req) ''CREATE'' (''/vm/'' @ cfg_Name conf) (Some (cr_Form req)))
              (Failed ''not allowed to create this VM (needs CREATE right)'' [])) (\<lambda>_.
     bindA (checkA (restore = [] \<or> restoreVM = []) (Failed ''restore and restore-vm flags are mutually exclusive'' [])) (\<lambda>_.
     let conf1 = (if restore \<noteq> [] then conf\<lparr>cfg_RestoreBackup := restore\<rparr> else conf) in
     if restoreVM \<noteq> [] then create_restored draws x req conf1 restoreVM else create_vm draws x req conf1)))"

subsection \<open>Stopping and starting\<close>

definition unlocked_or_forced :: "control_request \<Rightarrow> vm \<Rightarrow> ('w, unit) app_act" where
  "unlocked_or_forced req vm =
     checkA (\<not> (Locked vm \<and> \<not> form_true req ''force'')) (Failed ''VM is locked (see --force)'' [])"

definition StopVM :: "'w ext \<Rightarrow> control_request \<Rightarrow> vm \<Rightarrow> vm_name \<Rightarrow> ('w, unit) app_act" where
  "StopVM x req vm name =
     bindA (unlocked_or_forced req vm) (\<lambda>_.
     let emergency = form_true req ''emergency'' in
     bindA (resultA (VMStopByName x name False (if emergency then VMStopEmergencyTimeout else VMStopDefaultTimeout))) (\<lambda>r.
     if \<not> isl r then ret ()
     else if \<not> emergency then fail (Failed ''aborting operation (see --emergency)'' [])
     else with_error (failed_as (Failed ''unable to emergency stop'' [])) (VMStopByName x name True VMStopDefaultTimeout)))"

definition RestartVM :: "'w ext \<Rightarrow> control_request \<Rightarrow> vm \<Rightarrow> vm_name \<Rightarrow> ('w, unit) app_act" where
  "RestartVM x req vm name =
     bindA (StopVM x req vm name) (\<lambda>_.
     with_error (failed_as (Failed ''unable to start'' [])) (VMStartByName x name (SecretUUID vm)))"

subsection \<open>Scripts\<close>

definition run_script :: "'w ext \<Rightarrow> string \<Rightarrow> vm \<Rightarrow> run_task \<Rightarrow> ('w, unit) app_act" where
  "run_script x caption vm task =
     bindA (super_user_auth x vm) (\<lambda>_. run_all x caption (LastIP vm) [task])"

definition ExecScriptVM :: "'w ext \<Rightarrow> control_request \<Rightarrow> vm \<Rightarrow> vm_name \<Rightarrow> ('w, unit) app_act" where
  "ExecScriptVM x req vm vmName =
     (case cr_File req ''script'' of None \<Rightarrow> fail (Failed ''script field'' [])
      | Some (filename, content) \<Rightarrow>
          bindA (is_running x vmName) (\<lambda>running.
          bindA (checkA running (Failed ''VM should be up and running'' [])) (\<lambda>_.
          run_script x [] vm
            \<lparr>rt_ScriptName = filename, rt_Script = content, rt_As = cr_Form req ''as'', rt_Arguments = [],
             rt_EnvWords = [(''_CALLING_KEY'', Comment (cr_Key req))]\<rparr>)))"

definition DoActionVM :: "'w ext \<Rightarrow> control_request \<Rightarrow> vm \<Rightarrow> vm_name \<Rightarrow> ('w, unit) app_act" where
  "DoActionVM x req vm vmName =
     (case gm_get (cfg_DoActions (Config vm)) (cr_Form req ''do_action'') of
        None \<Rightarrow> fail (Failed ''unable to find action'' [cr_Form req ''do_action''])
      | Some action \<Rightarrow>
          bindA (is_running x vmName) (\<lambda>running.
          bindA (checkA running (Failed ''VM should be up and running'' [])) (\<lambda>_.
          bindA (with_error (failed_as (Failed ''unable to get script'' [da_ScriptURL action])) (GetContent x (da_ScriptURL action)))
            (\<lambda>content.
          run_script x ''do'' vm
            \<lparr>rt_ScriptName = path_base (da_ScriptURL action), rt_Script = content, rt_As = da_User action,
             rt_Arguments = cr_Form req ''arguments'', rt_EnvWords = [(''_CALLING_KEY'', Comment (cr_Key req))]\<rparr>))))"

subsection \<open>Backups, rebuilds, revisions\<close>

definition parse_expire :: "string \<Rightarrow> ('w, duration) app_act" where
  "parse_expire expireStr =
     (if expireStr = [] then ret 0
      else case atoi expireStr of None \<Rightarrow> fail (Failed ''unable to parse expire value'' []) | Some n \<Rightarrow> ret (seconds64 n))"

definition BackupVM :: "'w ext \<Rightarrow> control_request \<Rightarrow> vm_name \<Rightarrow> ('w, string) app_act" where
  "BackupVM x req vmName =
     bindA (parse_expire (cr_Form req ''expire'')) (\<lambda>expire.
     VMBackup x vmName (Comment (cr_Key req)) (cr_Form req ''allow-compress'' \<noteq> FalseStr) expire)"

definition RestoreVM :: "'w ext \<Rightarrow> control_request \<Rightarrow> target \<Rightarrow> vm \<Rightarrow> ('w, unit) app_act" where
  "RestoreVM x req t vm =
     (let backupName = cr_Form req ''backup_name'' in
      bindA (checkA (backupName \<noteq> []) (Failed ''missing backup_name'' [])) (\<lambda>_.
      bindA (is_running x (tg_Name t)) (\<lambda>running.
      bindA (checkA running (Failed ''VM should be up and running'' [])) (\<lambda>_.
      bindA (unlocked_or_forced req vm) (\<lambda>_.
      bindA (checkA (WIP vm = OpNone) (Failed ''VM have a work in progress'' [])) (\<lambda>_.
      bindA (getA (\<lambda>s. bdb_GetByName (ap_backups s) backupName)) (\<lambda>found.
      case found of None \<Rightarrow> fail (Failed ''backup not found in database'' [backupName])
      | Some backup \<Rightarrow> VMRestoreNoChecks x (tg_place t) vm (tg_Name t) backup)))))))"

definition RebuildVM :: "nat \<Rightarrow> 'w ext \<Rightarrow> control_request \<Rightarrow> vm \<Rightarrow> vm_name \<Rightarrow> ('w, unit) app_act" where
  "RebuildVM draws x req vm vmName =
     bindA (unlocked_or_forced req vm) (\<lambda>_.
     VMRebuild draws x vmName (form_true req ''lock'') (Comment (cr_Key req)))"

text \<open>The change itself is \<open>RedefineVM\<close> of the VM database; a VM still in the greenhouse is changed there.\<close>

definition redefine_vm :: "'w ext \<Rightarrow> control_request \<Rightarrow> target \<Rightarrow> vm \<Rightarrow> vm_config \<Rightarrow> ('w, unit) app_act" where
  "redefine_vm x req t vm conf =
     (let author = Comment (cr_Key req) in
      case tg_place t of
        InDatabase \<Rightarrow>
          bindA (askA (os_VmdbEnv (x_os x))) (\<lambda>env s.
          case RedefineVM env (vn_ID (tg_Name t)) \<lparr>Name = tg_Name t, VM = vm, Active = tg_Active t\<rparr> (form_true req ''force'')
                 author conf (ap_vmdb s) of
            (st, None) \<Rightarrow> (s\<lparr>ap_vmdb := st\<rparr>, Inr ())
          | (st, Some (RdConflict e)) \<Rightarrow> (s\<lparr>ap_vmdb := st\<rparr>, Inl (FromVmdb e))
          | (st, Some e) \<Rightarrow> (s\<lparr>ap_vmdb := st\<rparr>, Inl (Failed ''VM name does not match'' [])))
      | InGreenhouse \<Rightarrow>
          bindA (checkA (cfg_Name conf = cfg_Name (Config vm)) (Failed ''VM name does not match'' [])) (\<lambda>_.
          bindA (change_vm InGreenhouse (tg_Name t) vm (redefined author conf)) (\<lambda>_.
          bindA (resultA (vmdbA x vmdb_Update)) (\<lambda>_. ret ()))))"

definition app_RedefineVM :: "'w ext \<Rightarrow> control_request \<Rightarrow> target \<Rightarrow> vm \<Rightarrow> ('w, unit) app_act" where
  "app_RedefineVM x req t vm =
     bindA (unlocked_or_forced req vm) (\<lambda>_.
     bindA (checkA (WIP vm = OpNone) (Failed ''VM have a work in progress'' [])) (\<lambda>_.
     case cr_File req ''config'' of None \<Rightarrow> fail (Failed ''config file field'' [])
     | Some (filename, content) \<Rightarrow>
         bindA (with_error (failed_as (Failed ''decoding config'' [])) (NewVMConfigFromTomlReader x (Inr content)))
           (redefine_vm x req t vm)))"

definition ActivateVM :: "'w ext \<Rightarrow> control_request \<Rightarrow> vm_name \<Rightarrow> ('w, unit) app_act" where
  "ActivateVM x req name =
     bindA (if form_true req ''force'' then ret False
            else getA (\<lambda>s. case GetActiveEntryByName (ap_vmdb s) (vn_name name) of Inr (Some e) \<Rightarrow> Locked (VM e) | _ \<Rightarrow> False)) (\<lambda>locked.
     bindA (checkA (\<not> locked) (Failed ''current active VM is locked (see --force)'' [])) (\<lambda>_.
     vmdbA x (\<lambda>env. SetActiveRevision env (vn_name name) (vn_rev name))))"

subsection \<open>Migrating a VM\<close>

text \<open>Deferred calls that do not run when the process died or hangs.\<close>

definition defer_alive :: "('w, unit) app_act \<Rightarrow> ('w, 'a) app_act \<Rightarrow> ('w, 'a) app_act" where
  "defer_alive d m = (\<lambda>s. case m s of (s1, r) \<Rightarrow> if r = Inl NotReturned then (s1, r) else (fst (d s1), r))"

definition defer_alive_unless :: "('w, unit) app_act \<Rightarrow> ('w, 'a) app_act \<Rightarrow> ('w, 'a) app_act" where
  "defer_alive_unless d m =
     (\<lambda>s. case m s of
       (s1, Inl e) \<Rightarrow> (if e = NotReturned then s1 else fst (d s1), Inl e)
     | (s1, Inr v) \<Rightarrow> (s1, Inr v))"

definition call_peer :: "'w ext \<Rightarrow> config_peer \<Rightarrow> string \<Rightarrow> string \<Rightarrow> (string \<times> string) list \<Rightarrow> ('w, unit) app_act" where
  "call_peer x peer meth path args = peer_Do x peer meth path args NoUpload no_callbacks ()"

text \<open>Is there an active VM of this name on the other server? A search that finds nothing answers 404.\<close>

definition search_active :: "'w ext \<Rightarrow> config_peer \<Rightarrow> string \<Rightarrow> ('w, bool) app_act" where
  "search_active x peer name =
     peer_Do x peer ''GET'' ''/vm/search''
       [(''q'', ''name == '' @ [CHR 0x27] @ name @ [CHR 0x27] @ '' && active == true''), (''fail-on-empty'', TrueStr)] NoUpload
       (no_callbacks\<lparr>cb_HttpError := Some (\<lambda>code body httpError a. if code \<noteq> 404 then Inl httpError else Inr False),
                     cb_Text := Some (\<lambda>body a. Inr True)\<rparr>) False"

text \<open>The revision is read in the first message of the other server that announces one.\<close>

definition read_revision :: "string \<times> string \<Rightarrow> int \<times> bool \<Rightarrow> app_error + int \<times> bool" where
  "read_revision m = (\<lambda>(revision, revisionFound).
     case StringIsVariable (snd m) ''REVISION'' of (isRev, value) \<Rightarrow>
       if isRev \<and> \<not> revisionFound then
         (case atoi value of None \<Rightarrow> Inl (Failed ''cannot parse revision'' [value]) | Some n \<Rightarrow> Inr (n, True))
       else Inr (revision, revisionFound))"

definition create_remote :: "'w ext \<Rightarrow> config_peer \<Rightarrow> vm \<Rightarrow> bool \<Rightarrow> ('w, int \<times> bool) app_act" where
  "create_remote x peer vm allowNewRevision =
     peer_Do x peer ''POST'' ''/vm''
       [(''inactive'', TrueStr), (''allow_new_revision'', if allowNewRevision then TrueStr else FalseStr),
        (''restore'', BackupBlankRestore), (''lock'', if Locked vm then TrueStr else FalseStr)]
       (UploadString ''config'' ''vm.toml'' (cfg_FileContent (Config vm)))
       (no_callbacks\<lparr>cb_Message := Some read_revision\<rparr>) (0, False)"

definition drop_remote :: "'w ext \<Rightarrow> config_peer \<Rightarrow> string \<Rightarrow> int \<Rightarrow> ('w, unit) app_act" where
  "drop_remote x peer name revision =
     bindA (resultA (call_peer x peer ''POST'' (''/vm/'' @ name) [(''action'', ''unlock''), (''revision'', itoa revision)])) (\<lambda>_.
     call_peer x peer ''DELETE'' (''/vm/'' @ name) [(''revision'', itoa revision)])"

text \<open>The source is inactive during the transfer and active again when it fails.\<close>

definition source_inactive :: "'w ext \<Rightarrow> vm_name \<Rightarrow> bool \<Rightarrow> ('w, 'a) app_act \<Rightarrow> ('w, 'a) app_act" where
  "source_inactive x vmName deactivate body =
     (if \<not> deactivate then body
      else bindA (vmdbA x (\<lambda>env. SetActiveRevision env (vn_name vmName) RevisionNone)) (\<lambda>_.
           defer_alive_unless (vmdbA x (\<lambda>env. SetActiveRevision env (vn_name vmName) (vn_rev vmName))) body))"

definition activate_remote :: "'w ext \<Rightarrow> config_peer \<Rightarrow> string \<Rightarrow> int \<Rightarrow> ('w, unit) app_act" where
  "activate_remote x peer name revision =
     call_peer x peer ''POST'' (''/vm/'' @ name) [(''action'', ''activate''), (''revision'', itoa revision)]"

text \<open>
  After the commit errors are only logged; the value is what is left for the caller, an error only
  for a panic or a call that does not return, so that no rollback runs.
\<close>

definition leave_source :: "'w ext \<Rightarrow> vm_name \<Rightarrow> vm \<Rightarrow> ('w, app_error + unit) app_act" where
  "leave_source x vmName vm =
     attempt (bindA (nowA x) (\<lambda>downtimeEnd.
     bindA (if Locked vm then resultA (VMLockUnlock x vmName False) else ret (Inr ())) (\<lambda>_.
     bindA (resultA (VMDelete x vmName)) (\<lambda>_. ret ()))))"

definition hand_over :: "'w ext \<Rightarrow> config_peer \<Rightarrow> vm_name \<Rightarrow> vm \<Rightarrow> int \<Rightarrow> bool \<Rightarrow> ('w, app_error + unit) app_act" where
  "hand_over x peer vmName vm revision sourceActive =
     (if \<not> sourceActive then leave_source x vmName vm
      else bindA (activate_remote x peer (vn_name vmName) revision) (\<lambda>_.
           defer_alive_unless (activate_remote x peer (vn_name vmName) RevisionNone) (leave_source x vmName vm)))"

text \<open>The error of the backup is not looked at: its name is then empty.\<close>

definition transfer_backup :: "'w ext \<Rightarrow> config_peer \<Rightarrow> vm_name \<Rightarrow> string \<Rightarrow> int \<Rightarrow> ('w, 'a) app_act \<Rightarrow> ('w, 'a) app_act" where
  "transfer_backup x peer vmName author revision rest =
     bindA (nowA x) (\<lambda>downtimeStart.
     bindA (resultA (VMBackup x vmName author False BackupNoExpiration)) (\<lambda>r.
     let backup = (case r of Inl _ \<Rightarrow> [] | Inr b \<Rightarrow> b); remoteBackup = ''migration-'' @ backup in
     defer_alive (app_BackupDelete x backup) (
     bindA (peer_Do x peer ''POST'' ''/backup'' [] (UploadVolume backup remoteBackup PoolBackups) no_callbacks ()) (\<lambda>_.
     defer_alive (call_peer x peer ''DELETE'' (''/backup/'' @ remoteBackup) []) (
     bindA (call_peer x peer ''POST'' (''/vm/'' @ vn_name vmName)
              [(''action'', ''restore''), (''backup_name'', remoteBackup), (''revision'', itoa revision), (''force'', TrueStr)]) (\<lambda>_.
     rest))))))"

definition MigrateVM :: "'w ext \<Rightarrow> control_request \<Rightarrow> vm \<Rightarrow> vm_name \<Rightarrow> ('w, unit) app_act" where
  "MigrateVM x req vm vmName =
     bindA (is_running x vmName) (\<lambda>running.
     bindA (checkA running (Failed ''VM should be up and running'' [])) (\<lambda>_.
     bindA (checkA (WIP vm = OpNone) (Failed ''VM have a work in progress'' [])) (\<lambda>_.
     bindA (unlocked_or_forced req vm) (\<lambda>_.
     let destinationName = cr_Form req ''destination''; keepSourceActive = form_true req ''keep-source-active'' in
     bindA (getA (\<lambda>s. gm_get (sc_Peers (ap_config s)) destinationName)) (\<lambda>found.
     case found of None \<Rightarrow> fail (Failed ''destination peer does not exists'' [destinationName])
     | Some destination \<Rightarrow>
         bindA (search_active x destination (vn_name vmName)) (\<lambda>existingActiveVM.
         bindA (lookupA (\<lambda>s. GetEntryByName (ap_vmdb s) vmName)) (\<lambda>entry.
         bindA (create_remote x destination vm (form_true req ''allow_new_revision'')) (\<lambda>(revision, revisionFound).
         bindA (defer_alive_unless (drop_remote x destination (vn_name vmName) revision) (
           bindA (checkA revisionFound (Failed ''unable to retrieve revision of remote VM'' [])) (\<lambda>_.
           source_inactive x vmName (Active entry \<and> \<not> keepSourceActive) (
           transfer_backup x destination vmName (Comment (cr_Key req)) revision (
           hand_over x destination vmName vm revision (Active entry))))))
         pureA))))))))"

subsection \<open>The handlers\<close>

definition vm_action :: "nat \<Rightarrow> 'w ext \<Rightarrow> control_request \<Rightarrow> target \<Rightarrow> vm \<Rightarrow> ('w, unit) app_act" where
  "vm_action draws x req t vm =
     (let action = cr_Form req ''action''; name = tg_Name t in
      if action = ''lock'' then VMLockUnlock x name True
      else if action = ''unlock'' then VMLockUnlock x name False
      else if action = ''start'' then VMStartByName x name (SecretUUID vm)
      else if action = ''stop'' then StopVM x req vm name
      else if action = ''restart'' then RestartVM x req vm name
      else if action = ''exec'' then ExecScriptVM x req vm name
      else if action = ''do'' then DoActionVM x req vm name
      else if action = ''backup'' then bindA (BackupVM x req name) (\<lambda>volName. ret ())
      else if action = ''restore'' then RestoreVM x req t vm
      else if action = ''rebuild'' then
        bindA (nowA x) (\<lambda>before. bindA (attempt (RebuildVM draws x req vm name)) (\<lambda>r. bindA (nowA x) (\<lambda>after. pureA r)))
      else if action = ''redefine'' then app_RedefineVM x req t vm
      else if action = ''activate'' then ActivateVM x req name
      else if action = ''migrate'' then
        bindA (nowA x) (\<lambda>before. bindA (attempt (MigrateVM x req vm name)) (\<lambda>r. bindA (nowA x) (\<lambda>after. pureA r)))
      else fail (Failed ''missing or invalid action'' [action]))"

definition ActionVMController :: "nat \<Rightarrow> 'w ext \<Rightarrow> control_request \<Rightarrow> ('w, unit) app_act" where
  "ActionVMController draws x req =
     (if cr_SubPath req = [] then fail (Failed ''invalid VM name'' [])
      else bindA (getEntryFromRequest (cr_SubPath req) req) (\<lambda>t.
           case tg_VM t of Some vm \<Rightarrow> vm_action draws x req t vm
           | None \<Rightarrow> if cr_Form req ''action'' = ''activate'' then ActivateVM x req (tg_Name t) else fail (NilPointer ''vm'')))"

definition DeleteVMController :: "'w ext \<Rightarrow> control_request \<Rightarrow> ('w, unit) app_act" where
  "DeleteVMController x req =
     bindA (getEntryFromRequest (cr_SubPath req) req) (\<lambda>t.
     with_error (failed_as (Failed ''unable to delete VM'' [cr_SubPath req])) (VMDelete x (tg_Name t)))"

end
