(* ===== verification/Toy_Runs.thy ===== *)
theory Toy_Runs
  imports Toy_World Vm_Database_Props
begin

text \<open>
  Runs of \<open>NewVM\<close> and \<open>VMRebuild\<close> in the concrete outside, step by step.
\<close>

lemmas run_eval = act_eval app_eval app_calls libvirt_eval vm_eval toy_eval build_eval web_eval empty_vm_def Let_def
  name_char_def is_lower_def is_upper_def is_digit_def IsValidName_def
  bdb_GetByName_def bdb_Add_def bdb_Delete_def bdb_save_def write_file.simps backup_rollback_def vmdb_Update_def

abbreviation web0 :: vm_name where "web0 \<equiv> \<lparr>vn_name = ''web'', vn_rev = 0\<rparr>"
abbreviation web1 :: vm_name where "web1 \<equiv> \<lparr>vn_name = ''web'', vn_rev = 1\<rparr>"

subsection \<open>A new VM\<close>

definition drawn_vm :: "vm_config \<Rightarrow> time \<Rightarrow> vm" where
  "drawn_vm conf now = empty_vm\<lparr>SecretUUID := ''id1'', Config := conf, AuthorKey := ''me'', MulchSuperUserSSHKey := ''key'',
     InitDate := now, AssignedMAC := ''52:54:00:02:03:04'', AssignedIPv4 := ''10.0.0.7''\<rparr>"

definition up_vm :: "vm_config \<Rightarrow> time \<Rightarrow> vm" where
  "up_vm conf now = (drawn_vm conf now)\<lparr>LibvirtUUID := ''uuid'', LastIP := ''10.0.0.2''\<rparr>"

definition planted :: "bool \<Rightarrow> toy app" where
  "planted copy = toy_state True copy (empty_vmdb\<lparr>greenhouseDB := [(''web'', \<lparr>Name = web0, VM = drawn_vm toy_conf 1000, Active = False\<rparr>)],
     vmdb_file := Holds [], domain_file := Holds [], port_file := Holds [], updates := 1\<rparr>) no_backups [] 1001 6 [] seed_volumes"

lemma NewVM_plants:
  "NewVM (Suc n) toy_ext toy_conf True False ''me'' (toy_app True copy) =
   deferA (greenhouse_remove web0) (build_vm toy_ext True False (drawn_vm toy_conf 1000) web0 ''m-web'') (planted copy)"
  apply (simp add: NewVM_def planted_def run_eval(1,2,4-) cong: act_congs)
  apply (simp add: drawn_vm_def empty_vm_def)
  done


lemmas born_eval = planted_def up_vm_def drawn_vm_def run_eval

definition born :: vmdb where
  "born = \<lparr>db = [(''web'', \<lparr>Name = web0, VM = up_vm toy_conf 1000, Active = True\<rparr>)], greenhouseDB = [],
     vmdb_file = Holds [(''web'', \<lparr>Name = web0, VM = up_vm toy_conf 1000, Active = True\<rparr>)], domain_file = Holds [],
     port_file = Holds [], updates = 2\<rparr>"

lemma toy_new:
  "\<exists>s'. NewVM (Suc n) toy_ext toy_conf True False ''me'' (toy_app True True) = (s', Inr (up_vm toy_conf 1000, web0)) \<and>
     ap_vmdb s' = born"
  unfolding NewVM_plants
  by (simp add: born_def build_vm_def born_eval cong: act_congs)

subsection \<open>A rebuild\<close>

lemma small_parts: "check_sizes small_toml = None" "vm_domains small_toml = Inr []" "vm_env toy_px small_toml = Inr []"
  "NewVMPortArray [] = Inr []"
  by code_simp+

lemma toy_content [simp]: "GetContent toy_ext ''file:x'' s = (s, Inr ''#!/bin/sh'')"
proof -
  have "GetURLScheme ''file:x'' = Some ''file''" by code_simp
  then show ?thesis
    by (simp add: GetContent_def getContentFromFileURL_def act_eval app_eval app_calls cong: act_congs)
qed

lemma file_script:
  "vmConfigGetScript toy_ext pre ''app@file:x'' s = (s, Inr \<lparr>ScriptURL = ''file:x'', ScriptAs = ''app''\<rparr>)"
proof -
  have p: "cut (CHR ''@'') ''app@file:x'' = Some (''app'', ''file:x'')" "IsValidName ''app''"
    "GetURLScheme ''file:x'' = Some ''file''" by code_simp+
  have o: "GetOriginFromPath oo ''file:x'' = Inr ([],[])" for oo by (simp add: GetOriginFromPath_def)
  show ?thesis
    by (simp add: vmConfigGetScript_def vmCheckScriptURL_def p o script_url_def act_eval app_eval Let_def cong: act_congs)
qed

lemma bases [simp]: "path_base ''d/web.qcow2'' = ''web.qcow2''" "path_base ''d/web-r1.qcow2'' = ''web-r1.qcow2''"
  by code_simp+

lemma small_config: "NewVMConfigFromTomlReader toy_ext (Inr ''small'') s = (s, Inr toy_conf)"
  apply (simp add: NewVMConfigFromTomlReader_def vm_config_of_def small_parts act_eval app_eval cong: act_congs)
  apply (simp add: small_toml_def tv_defaults_def file_script small_parts act_eval check_auto_rebuild_def build_timeout_def
    vm_hostname_def toy_conf_def empty_config_def MB_def GB_def cong: act_congs)
  done

definition old_entry :: "bool \<Rightarrow> vm_entry" where
  "old_entry a = \<lparr>Name = web0, VM = toy_vm, Active = a\<rparr>"

definition sown :: "bool \<Rightarrow> toy app" where
  "sown b = toy_state b True \<lparr>db = [(''web'', old_entry True)],
     greenhouseDB = [(''web-r1'', \<lparr>Name = web1, VM = drawn_vm blank_conf 1001, Active = False\<rparr>)],
     vmdb_file = Holds [(''web'', old_entry True)], domain_file = Holds [], port_file = Holds [], updates = 1\<rparr>
     no_backups [toy_lease] 1002 6 [(''m-web'', (toy_domain_xml, DomRunning))] ((PoolDisks, ''web.qcow2'') # seed_volumes)"

definition reading :: "toy app \<Rightarrow> toy app" where
  "reading s = s\<lparr>ap_world := (ap_world s)\<lparr>tw_clock := tw_clock (ap_world s) + 1\<rparr>\<rparr>"

lemma NewVM_sows:
  "NewVM (Suc n) toy_ext blank_conf False False ''me'' (reading (toy_running b)) =
   deferA (greenhouse_remove web1) (build_vm toy_ext False False (drawn_vm blank_conf 1001) web1 ''m-web-r1'') (sown b)"
  apply (simp add: NewVM_def reading_def sown_def old_entry_def toy_vm_def run_eval(1,2,4-) cong: act_congs)
  apply (simp add: drawn_vm_def empty_vm_def itoa_def go_eval)
  done

definition new_entry :: "bool \<Rightarrow> vm_entry" where
  "new_entry a = \<lparr>Name = web1, VM = up_vm blank_conf 1001, Active = a\<rparr>"

definition new_lease :: dhcp_host where
  "new_lease = \<lparr>dh_Name = ''m-web-r1'', dh_MAC = ''52:54:00:02:03:04'', dh_IP = ''10.0.0.7''\<rparr>"

definition new_xml :: xml_domain where
  "new_xml = \<lparr>xm_Name = ''m-web-r1'', xm_Memory = MB, xm_VCPU = 1,
     xm_SysInfo = [[(''serial'', ''ds=nocloud-net;s=http://h:1/cloud-init/id1/'')]],
     xm_Disks = [\<lparr>xd_Alias = Some VMStorageAliasDisk, xd_File = ''d/web-r1.qcow2'', xd_Dev = ''vda''\<rparr>],
     xm_Interfaces = [\<lparr>xi_Alias = Some VMNetworkAliasBridge, xi_Bridge = ''b'', xi_MAC = ''52:54:00:02:03:04'',
       xi_FilterRef = Some \<lparr>xf_Filter = ''mulch-filter'', xf_Params = [(''IP'', ''10.0.0.7''), (''GATEWAY_MAC'', ''g'')]\<rparr>\<rparr>]\<rparr>"

lemmas rebuild_eval = toy_vm_def up_vm_def drawn_vm_def old_entry_def new_entry_def new_lease_def new_xml_def reading_def run_eval

text \<open>The state with both revisions running, the database holding them as given.\<close>

definition both :: "bool \<Rightarrow> bool \<Rightarrow> bool \<Rightarrow> nat \<Rightarrow> backup_db \<Rightarrow> int \<Rightarrow> (pool_name \<times> string) list \<Rightarrow> toy app" where
  "both b a0 a1 n bk clk vols = toy_state b True \<lparr>db = [(''web'', old_entry a0), (''web-r1'', new_entry a1)], greenhouseDB = [],
     vmdb_file = Holds [(''web'', old_entry a0), (''web-r1'', new_entry a1)], domain_file = Holds [], port_file = Holds [],
     updates = n\<rparr> bk [toy_lease, new_lease] clk 6
     [(''m-web'', (toy_domain_xml, DomRunning)), (''m-web-r1'', (new_xml, DomRunning))]
     (vols @ [(PoolDisks, ''web-r1.qcow2''), (PoolDisks, ''web.qcow2'')] @ seed_volumes)"

definition backup_name :: string where "backup_name = ''web-backup-1003.qcow2''"

definition old_backup :: backup where
  "old_backup = \<lparr>DiskName = backup_name, Created = 1004, Expire = zero_time, bk_AuthorKey = ''me'', bk_VM = toy_vm\<lparr>WIP := OpBackup\<rparr>\<rparr>"

definition one_backup :: backup_db where
  "one_backup = \<lparr>bdb = [(backup_name, old_backup)], bdb_file = Holds [(backup_name, old_backup)]\<rparr>"

lemmas swap_eval = both_def backup_name_def old_backup_def one_backup_def rebuild_eval

lemma NewVM_again:
  "NewVM (Suc n) toy_ext blank_conf False False ''me'' (reading (toy_running b)) =
    (both b True False 2 no_backups 1002 [], Inr (up_vm blank_conf 1001, web1))"
  unfolding NewVM_sows
  by (simp add: sown_def build_vm_def swap_eval cong: act_congs)

lemma retire_old: "vmdbA toy_ext (\<lambda>env. SetActiveRevision env ''web'' RevisionNone) (both b True False 2 no_backups 1003 []) =
   (both b False False 3 no_backups 1003 [], Inr ())"
  by (simp add: SetActiveRevision_def swap_eval cong: act_congs)

lemma backup_old: "VMBackup toy_ext web0 ''me'' False 0 (both b False False 3 no_backups 1003 []) =
    (both b False False 3 one_backup 1005 [(PoolBackups, backup_name)], Inr backup_name)"
  by (simp add: swap_eval cong: act_congs)

lemma restore_new: "VMRestoreNoChecks toy_ext InDatabase (up_vm blank_conf 1001) web1 old_backup
     (both b False False 3 one_backup 1005 vols) =
    (both b False False 3 one_backup 1005 vols, Inr ())"
  by (simp add: swap_eval cong: act_congs)

abbreviation (input) kept :: "(pool_name \<times> string) list" where "kept \<equiv> [(PoolBackups, backup_name)]"

definition swapped :: "bool \<Rightarrow> dhcp_host list \<Rightarrow> toy app" where
  "swapped b hosts = toy_state b True \<lparr>db = [(''web-r1'', new_entry True)], greenhouseDB = [],
     vmdb_file = Holds [(''web-r1'', new_entry True)], domain_file = Holds [], port_file = Holds [],
     updates = 6\<rparr> one_backup hosts 1006 6 [(''m-web-r1'', (new_xml, DomRunning))]
     (kept @ [(PoolDisks, ''web-r1.qcow2'')] @ seed_volumes)"

lemma commit: "switch_over toy_ext web0 web1 True (both True False False 3 one_backup 1005 kept) =
  (swapped True [new_lease], Inr (1005, False))"
  by (simp add: switch_over_def swapped_def SetActiveRevision_def swap_eval cong: act_congs)

lemma commit_fails: "switch_over toy_ext web0 web1 True (both False False False 3 one_backup 1005 kept) =
  (swapped False [toy_lease, new_lease], Inl (FromLibvirt (LvOther ''cannot delete the lease'')))"
  by (simp add: switch_over_def swapped_def SetActiveRevision_def swap_eval cong: act_congs)

text \<open>The end of the rebuild, and the rollbacks when it fails.\<close>

definition rebuilt_vm :: vm where "rebuilt_vm = (up_vm blank_conf 1001)\<lparr>LastRebuildDuration := 6, LastRebuildDowntime := 3\<rparr>"

definition finished :: "toy app" where
  "finished = toy_state True True \<lparr>db = [(''web-r1'', \<lparr>Name = web1, VM = rebuilt_vm, Active = True\<rparr>)], greenhouseDB = [],
     vmdb_file = Holds [(''web-r1'', \<lparr>Name = web1, VM = rebuilt_vm, Active = True\<rparr>)], domain_file = Holds [], port_file = Holds [],
     updates = 7\<rparr> one_backup [new_lease] 1007 6 [(''m-web-r1'', (new_xml, DomRunning))]
     (kept @ [(PoolDisks, ''web-r1.qcow2'')] @ seed_volumes)"

lemma finish: "finish_rebuild toy_ext (up_vm blank_conf 1001) web1 False 3 1000 (swapped True [new_lease]) = (finished, Inr ())"
  by (simp add: finish_rebuild_def finished_def rebuilt_vm_def swapped_def time_sub_def max_duration_def min_duration_def swap_eval cong: act_congs)

definition undone :: "toy app" where
  "undone = toy_state False True (empty_vmdb\<lparr>vmdb_file := Holds [], domain_file := Holds [], port_file := Holds [],
     updates := 7\<rparr>) \<lparr>bdb = [], bdb_file = Holds []\<rparr> [toy_lease, new_lease] 1006 6 [] seed_volumes"

lemma undo: "fst (VMDelete toy_ext web1 (fst (vmdbA toy_ext (\<lambda>env. SetActiveRevision env ''web'' 0)
     (fst (drop_backup toy_ext backup_name (swapped False [toy_lease, new_lease])))))) = 
   undone"
  by (simp add: undone_def drop_backup_def swapped_def SetActiveRevision_def swap_eval cong: act_congs)

lemma first_reading: "nowA toy_ext (toy_running b) = (reading (toy_running b), Inr 1000)"
  by (simp add: swap_eval)
lemma second_reading: "nowA toy_ext (both b True False 2 no_backups 1002 []) = (both b True False 2 no_backups 1003 [], Inr 1002)"
  by (simp add: swap_eval)
lemma found: "lookupA (\<lambda>s. GetEntryByName (ap_vmdb s) web0) (reading (toy_running b)) = (reading (toy_running b), Inr (old_entry True))"
  by (simp add: swap_eval GetEntryByName_def)
lemma checks: "rebuild_checks toy_ext web0 toy_vm (reading (toy_running b)) = (reading (toy_running b), Inr ())"
  by (simp add: rebuild_checks_def swap_eval cong: act_congs)

lemma toy_vm_sel [simp]: "Config toy_vm = toy_conf" "LastIP toy_vm = ''10.0.0.2''" by (simp_all add: toy_vm_def)

definition ended :: "toy app" where "ended = fst (drop_backup toy_ext backup_name finished)"

lemma found_backup: "bdb_GetByName (ap_backups (both b a0 a1 n one_backup clk vols)) backup_name = Some old_backup"
  by (simp add: swap_eval)

lemmas rebuild_steps = first_reading second_reading found checks NewVM_again retire_old backup_old restore_new
  found_backup commit commit_fails finish undo small_config blank_conf_def [symmetric]

lemma downtime: "time_sub 1005 1002 = 3" by (simp add: time_sub_def max_duration_def min_duration_def)

lemma toy_rebuild: "VMRebuild (Suc n) toy_ext web0 False ''me'' (toy_running b) =
  (if b then (ended, Inr ()) else (undone, Inl (FromLibvirt (LvOther ''cannot delete the lease''))))"
  by (cases b) (simp_all add: VMRebuild_def replace_vm_def transfer_data_def act_eval app_eval(3) rebuild_steps downtime
    old_entry_def ended_def Let_def cong: act_congs)

end
