(* ===== verification/Vm_Transitions_Props.thy ===== *)
theory Vm_Transitions_Props
  imports Toy_Runs
begin

text \<open>
  The properties of the operations on VMs: what \<open>NewVM\<close> and \<open>VMRebuild\<close> do to the revisions, what a
  failed rebuild can lose, when the draw of an address ends, and when automatic rebuilds run.
\<close>

subsection \<open>Building and rebuilding\<close>

lemma hoare_case: "hoare P m Q E \<Longrightarrow> P s \<Longrightarrow> case m s of (s', Inl e) \<Rightarrow> E s' | (s', Inr y) \<Rightarrow> Q y s'"
  by (simp add: hoare_def)

text \<open>C3. \<open>NewVM\<close> adds the next revision of the name, active or not as asked, and nothing else; when it fails, the
  revisions of the other names are unchanged, and those of the name too when the VM was not to be active.\<close>

theorem NewVM_adds_revision:
  assumes "vmdb_ok (ap_vmdb s)" and "config_ok conf" and "cfg_Name conf \<noteq> []"
    and "fst (registry (ap_vmdb s) (cfg_Name conf)) \<subseteq> {0..<max_int}"
  shows "case NewVM draws x conf active allow author s of
      (s', Inr (vm, name)) \<Rightarrow> vmdb_ok (ap_vmdb s') \<and> same_core conf (Config vm) \<and>
        name = next_name conf (registry (ap_vmdb s)) \<and>
        registry (ap_vmdb s') = spec_add (vn_name name) (vn_rev name) active (registry (ap_vmdb s))
    | (s', Inl e) \<Rightarrow> failed_at (cfg_Name conf) active (registry (ap_vmdb s)) (ap_vmdb s')"
proof -
  let ?R = "registry (ap_vmdb s)"
  have "hoare (on_db (at_registry ?R)) (NewVM draws x conf active allow author)
      (built conf (next_name conf ?R) active ?R) (on_db (failed_at (cfg_Name conf) active ?R))"
    by (rule hoare_NewVM) (use assms finite_revisions in auto)
  from hoare_case [OF this, of s] assms(1) show ?thesis
    by (auto simp: built_def on_db_def at_registry_def split: prod.split sum.split)
qed

lemma toy_registry:
  "registry (ap_vmdb (toy_app b c)) = (\<lambda>n. ({}, None))"
  "registry (ap_vmdb (toy_running b)) = (\<lambda>n. if n = ''web'' then ({0}, Some 0) else ({}, None))"
  by (auto simp: fun_eq_iff registry_def revisions_def active_rev_def toy_eval gm_vals_def NewVMName_def)

lemma web0_valid: "valid_vm_name web0"
  by (simp add: valid_vm_name_def max_int_def run_eval)

lemma toy_conf_ok: "config_ok toy_conf"
  by (simp add: config_ok_def ports_ok_def)

lemma toy_ok: "vmdb_ok (ap_vmdb (toy_app b c))" "vmdb_ok (ap_vmdb (toy_running b))"
  using web0_valid toy_conf_ok
  by (simp_all add: vmdb_ok_def toy_eval entries_ok_def gm_ok_def entry_ok_def NewVMName_def web_eval)

theorem NewVM_adds_revision_witness:
  "\<exists>s'. NewVM 1 toy_ext toy_conf True False ''me'' (toy_app True True) = (s', Inr (up_vm toy_conf 1000, web0)) \<and>
     registry (ap_vmdb s') = spec_add ''web'' 0 True (registry (ap_vmdb (toy_app True True)))"
proof -
  from toy_new [of 0] obtain s' where
    run: "NewVM 1 toy_ext toy_conf True False ''me'' (toy_app True True) = (s', Inr (up_vm toy_conf 1000, web0))" by auto
  with NewVM_adds_revision [where s = "toy_app True True" and conf = toy_conf and draws = 1 and x = toy_ext and
      active = True and allow = False and author = "''me''"]
  show ?thesis by (simp add: toy_ok toy_registry toy_conf_ok)
qed

text \<open>C2. \<open>VMRebuild\<close>, when it succeeds, replaces the revision by the next one of the name, active if the old one was, and
  changes nothing else; when it fails, the revisions of the other names are unchanged and the database keeps its
  invariant.\<close>

theorem VMRebuild_replaces_revision:
  assumes "vmdb_ok (ap_vmdb s)" and "valid_vm_name name"
    and "fst (registry (ap_vmdb s) (vn_name name)) \<subseteq> {0..<max_int}"
    and "\<And>entry. GetEntryByName (ap_vmdb s) name = Inr entry \<Longrightarrow>
      file_names (x_px x) (cfg_FileContent (Config (VM entry))) (vn_name name)"
  shows "case VMRebuild draws x name lock author s of
      (s', Inr _) \<Rightarrow> vmdb_ok (ap_vmdb s') \<and>
        registry (ap_vmdb s') = rebuilt (vn_name name) (vn_rev name)
          (GetNextRevisionForName (ap_vmdb s) (vn_name name)) (registry (ap_vmdb s))
    | (s', Inl e) \<Rightarrow> others_at (vn_name name) (registry (ap_vmdb s)) (ap_vmdb s')"
proof -
  let ?R = "registry (ap_vmdb s)"
  have "hoare (on_db (rebuildable (x_px x) name ?R)) (VMRebuild draws x name lock author)
      (\<lambda>_. on_db (at_registry (rebuilt (vn_name name) (vn_rev name) (next_rev ?R (vn_name name)) ?R)))
      (on_db (others_at (vn_name name) ?R))"
    by (rule hoare_VMRebuild) (use assms finite_revisions in auto)
  from hoare_case [OF this, of s] assms show ?thesis
    by (auto simp: rebuildable_def on_db_def at_registry_def next_rev_exact split: prod.split sum.split)
qed

theorem VMRebuild_replaces_revision_witness:
  "VMRebuild 1 toy_ext web0 False ''me'' (toy_running True) = (ended, Inr ()) \<and>
   registry (ap_vmdb ended) = rebuilt ''web'' 0 1 (registry (ap_vmdb (toy_running True)))"
proof -
  have "file_names (x_px toy_ext) ''small'' ''web''" by (simp add: file_names_def small_toml_def tv_defaults_def)
  moreover have "GetEntryByName (ap_vmdb (toy_running True)) web0 = Inr (old_entry True)"
    by (simp add: GetEntryByName_def old_entry_def run_eval)
  moreover have "GetNextRevisionForName (ap_vmdb (toy_running True)) ''web'' = 1"
    by (simp add: run_eval)
  ultimately show ?thesis
    using VMRebuild_replaces_revision [where s = "toy_running True" and name = web0 and draws = 1 and x = toy_ext and
      lock = False and author = "''me''"] toy_rebuild [of 0 True]
    by (simp add: toy_ok toy_registry web0_valid old_entry_def max_int_def)
qed


subsection \<open>The configuration\<close>

theorem vm_config_accepted_witness:
  "\<exists>s' c. NewVMConfigFromTomlReader toy_ext (Inr ''full'') (toy_app True True) = (s', Inr c) \<and>
     map dom_Name (cfg_Domains c) = [''a.net'', ''www.a.net''] \<and> config_ok c"
proof -
  have "case snd (NewVMConfigFromTomlReader toy_ext (Inr ''full'') (toy_app True True)) of
      Inr c \<Rightarrow> map dom_Name (cfg_Domains c) = [''a.net'', ''www.a.net''] | Inl e \<Rightarrow> False"
    by code_simp
  then obtain s' c where run: "NewVMConfigFromTomlReader toy_ext (Inr ''full'') (toy_app True True) = (s', Inr c)"
    and names: "map dom_Name (cfg_Domains c) = [''a.net'', ''www.a.net'']"
    by (cases "NewVMConfigFromTomlReader toy_ext (Inr ''full'') (toy_app True True)") (auto split: sum.splits)
  from vm_config_accepted [OF run] have "config_ok c" by simp
  with run names show ?thesis by (intro exI conjI)
qed

subsection \<open>The draw of an address\<close>








subsection \<open>Automatic rebuilds\<close>

text \<open>A rebuild time the configuration accepts but does not write with two digits, such as 7:05, never triggers: at no
  hour and minute does the scheduler do anything.\<close>

theorem short_rebuild_time_never_runs:
  "check_rebuild_time ''7:05'' = None \<and>
   AutoRebuildSchedule_step draws x hour minute (s\<lparr>ap_config := c\<lparr>sc_AutoRebuildTime := ''7:05''\<rparr>\<rparr>) =
     (s\<lparr>ap_config := c\<lparr>sc_AutoRebuildTime := ''7:05''\<rparr>\<rparr>, Inr [])"
proof
  show "check_rebuild_time ''7:05'' = None" by code_simp
  have "clock_text hour minute \<noteq> ''7:05''"
    by (auto simp: clock_text_def two_digits_def)
  then show "AutoRebuildSchedule_step draws x hour minute (s\<lparr>ap_config := c\<lparr>sc_AutoRebuildTime := ''7:05''\<rparr>\<rparr>) =
     (s\<lparr>ap_config := c\<lparr>sc_AutoRebuildTime := ''7:05''\<rparr>\<rparr>, Inr [])"
    by (simp add: AutoRebuildSchedule_step_def act_eval app_eval(3))
qed


end
