(* ===== verification/Controllers_Vm_Props.thy ===== *)
theory Controllers_Vm_Props
  imports Controllers_Vm Toy_Runs Vm_Transitions_Props
begin

text \<open>
  Properties of the requests on VMs: a locked VM is protected, the creation of a VM needs its right
  and adds one revision, a migration that fails keeps the source.
\<close>

subsection \<open>Locked VMs\<close>













subsection \<open>Migration\<close>

text \<open>The revisions of every name are there; only which one of the name is active may have changed.\<close>

definition kept :: "string \<Rightarrow> registry \<Rightarrow> vmdb \<Rightarrow> bool" where
  "kept n R st \<longleftrightarrow> others_at n R st \<and> fst (registry st n) = fst (R n)"

lemma kept_revisions: "kept n R st \<Longrightarrow> fst (registry st m) = fst (R m)"
  by (cases "m = n") (simp_all add: kept_def others_at_def)

lemma quiet_kept: "quiet (kept n R)"
proof -
  have r: "vmdb_ok st \<Longrightarrow> vmdb_ok st' \<Longrightarrow> \<forall>k. profiles (db st') k = profiles (db st) k \<Longrightarrow> registry st' = registry st" for st st'
    by (rule registry_profile) simp_all
  show ?thesis unfolding quiet_def kept_def others_at_def using r by metis
qed

lemma SetActive_revisions:
  assumes ok: "vmdb_ok st"
  shows "fst (registry (fst (SetActiveRevision env n r st)) m) = fst (registry st m)"
proof (cases "\<exists>e. SetActiveRevision env n r st = (st, Some e)")
  case False
  with SetActive_cases have a: "may_activate env st n r"
    and s: "SetActiveRevision env n r st = vmdb_save env (st\<lparr>db := gm_map (set_revision n r) (db st)\<rparr>)" by blast+
  from ok have es: "entries_ok (db st)" by (simp add: vmdb_ok_def)
  note es1 = set_revision_map_ok [OF es a]
  obtain st1 err where e: "vmdb_save env (st\<lparr>db := gm_map (set_revision n r) (db st)\<rparr>) = (st1, err)" by fastforce
  have "registry st1 = registry (st\<lparr>db := gm_map (set_revision n r) (db st)\<rparr>)"
    by (rule registry_save [OF e]) (simp add: es1)
  moreover have "fst (registry (st\<lparr>db := gm_map (set_revision n r) (db st)\<rparr>) m) = fst (registry st m)"
    by (rule set_eqI) (auto simp: view_set_revision)
  ultimately show ?thesis using s e by simp
qed auto

lemma keeps_kept_SetActive:
  assumes "IsValidName n"
  shows "keeps (on_db (kept n R)) (vmdbA x (\<lambda>env. SetActiveRevision env n r))"
proof (rule keeps_vmdb_quiet)
  fix st env assume k: "kept n R st"
  then have ok: "vmdb_ok st" by (simp add: kept_def others_at_def)
  from k show "kept n R (fst (SetActiveRevision env n r st))"
    by (simp add: kept_def others_at_def SetActive_keeps [OF ok] SetActive_others [OF ok] SetActive_revisions [OF ok])
qed

lemma keeps_alive_defer:
  assumes "keeps P d" "keeps P m"
  shows "keeps P (defer_alive d m)" "keeps P (defer_alive_unless d m)"
  using assms by (auto simp: keeps_def defer_alive_def defer_alive_unless_def split: prod.splits sum.splits)

lemma hoare_alive_defer:
  assumes "hoare P m Q E" "keeps E d"
  shows "hoare P (defer_alive_unless d m) Q E" and "(\<And>y. keeps (Q y) d) \<Longrightarrow> hoare P (defer_alive d m) Q E"
  using assms
  by (auto simp: hoare_def defer_alive_def defer_alive_unless_def keeps_def split: prod.splits sum.splits) (metis prod.inject sum.inject)+

definition ordinary :: "app_error \<Rightarrow> bool" where
  "ordinary e = (case e of NilPointer p \<Rightarrow> False | NotReturned \<Rightarrow> False | _ \<Rightarrow> True)"

text \<open>What a migration leaves once it is committed: only a panic is left to report.\<close>

definition left :: "string \<Rightarrow> registry \<Rightarrow> app_error + unit \<Rightarrow> 'w app \<Rightarrow> bool" where
  "left n R r s \<longleftrightarrow> on_db (others_at n R) s \<and> (\<forall>e. r = Inl e \<longrightarrow> \<not> ordinary e)"

lemma keeps_left: "keeps (on_db (others_at n R)) m \<Longrightarrow> keeps (left n R r) m"
  by (simp add: keeps_def left_def)

lemma hoare_leave:
  assumes n: "IsValidName (vn_name name)"
  shows "hoare (on_db (kept (vn_name name) R)) (leave_source x name vm) (left (vn_name name) R) (on_db (kept (vn_name name) R))"
proof -
  let ?O = "on_db (others_at (vn_name name) R)"
  let ?m = "bindA (nowA x) (\<lambda>downtimeEnd. bindA (if Locked vm then resultA (VMLockUnlock x name False) else ret (Inr ())) (\<lambda>_.
     bindA (resultA (VMDelete x name)) (\<lambda>_. ret ())))"
  have k: "keeps ?O ?m"
    by (rule keeps_rules quiet_facts keeps_VMDelete [OF n] | assumption)+
  have res: "resultA m s = (s', Inl e) \<Longrightarrow> \<not> ordinary e" for m :: "('a, 'b) app_act" and s s' e
    by (auto simp: resultA_def bindA_def attempt_def ret_def fail_def ordinary_def split: prod.splits sum.splits app_error.splits)
  have err: "?m s = (s', Inl e) \<Longrightarrow> \<not> ordinary e" for s s' e
    by (auto simp: bindA_Inl nowA_def askA_def dest: res split: if_splits prod.splits)
  show ?thesis
  proof (rule hoareI)
    fix s s' r assume P: "on_db (kept (vn_name name) R) s" and run: "leave_source x name vm s = (s', Inr r)"
    then have m: "?m s = (s', r)" by (auto simp: leave_source_def attempt_eq)
    have "?O s'" using keepsE [OF k m] P by (simp add: on_db_def kept_def)
    with m err show "left (vn_name name) R r s'" by (auto simp: left_def)
  next
    fix s s' e assume "leave_source x name vm s = (s', Inl e)"
    then show "on_db (kept (vn_name name) R) s'" by (simp add: leave_source_def attempt_eq)
  qed
qed

lemma keeps_migration_calls [keeps_rules]:
  assumes D: "quiet D"
  shows "keeps (on_db D) (peer_Do x peer meth path args u cb a)" "keeps (on_db D) (call_peer x peer meth path args)"
    "keeps (on_db D) (app_BackupDelete x b)"
proof -
  show p: "keeps (on_db D) (peer_Do x peer meth path args u cb a)" for u and cb :: "'c callbacks" and a args
    by (rule keeps_peer_Do) (rule outside_on_db)
  show "keeps (on_db D) (call_peer x peer meth path args)" unfolding call_peer_def by (rule p)
  show "keeps (on_db D) (app_BackupDelete x b)" unfolding app_BackupDelete_def by (rule keeps_rules D | assumption)+
qed

lemma hoare_same: "keeps (on_db D) m \<Longrightarrow> (\<And>v. hoare (on_db D) (k v) Q (on_db D)) \<Longrightarrow> hoare (on_db D) (bindA m k) Q (on_db D)"
  by (rule hoare_bind, rule hoare_keeps, assumption, assumption, assumption)

lemma hoare_migrate:
  fixes name :: vm_name
  defines "n \<equiv> vn_name name"
  assumes n: "IsValidName n"
  shows "hoare (on_db (kept n R)) (source_inactive x name off (transfer_backup x peer name author rv (hand_over x peer name vm rv act)))
     (left n R) (on_db (kept n R))"
proof -
  note K = quiet_kept [of n R] and leave = hoare_leave [of name R x vm, folded n_def, OF n]
  have call: "keeps (left n R r) (call_peer x peer meth path args)" for r meth path args
    by (rule keeps_left) (rule keeps_rules quiet_facts)+
  have del: "keeps (left n R r) (app_BackupDelete x b)" for r b
    by (rule keeps_left) (rule keeps_rules quiet_facts)+
  have over: "hoare (on_db (kept n R)) (hand_over x peer name vm rv act) (left n R) (on_db (kept n R))"
    unfolding hand_over_def activate_remote_def n_def [symmetric]
    apply (cases act, simp_all only: if_True if_False not_True_eq_False not_False_eq_True)
     apply (rule hoare_same, (rule keeps_rules K)+)
     apply (rule hoare_alive_defer(1) [OF leave], (rule keeps_rules K)+)
    apply (rule leave)
    done
  have transfer: "hoare (on_db (kept n R)) (transfer_backup x peer name author rv (hand_over x peer name vm rv act)) (left n R) (on_db (kept n R))"
    unfolding transfer_backup_def Let_def
    apply (rule hoare_same, (rule keeps_rules K)+)
    apply (rule hoare_same, (rule keeps_rules K)+)
    apply (rule hoare_alive_defer(2) [OF _ _ del])
     apply (rule hoare_same, (rule keeps_rules K)+)
     apply (rule hoare_alive_defer(2) [OF _ _ call])
      apply (rule hoare_same, (rule keeps_rules K)+)
      apply (rule over)
     apply (rule keeps_rules K)+
    done
  show ?thesis
    unfolding source_inactive_def n_def [symmetric]
    apply (cases off, simp_all only: if_True if_False not_True_eq_False not_False_eq_True)
     apply (rule hoare_same, rule keeps_kept_SetActive [OF n])
     apply (rule hoare_alive_defer(1) [OF transfer], rule keeps_kept_SetActive [OF n])
    apply (rule transfer)
    done
qed

definition migrated :: "string \<Rightarrow> registry \<Rightarrow> 'w app \<times> (app_error + 'a) \<Rightarrow> bool" where
  "migrated n R o1 \<longleftrightarrow> others_at n R (ap_vmdb (fst o1)) \<and> (\<forall>e. snd o1 = Inl e \<and> ordinary e \<longrightarrow> kept n R (ap_vmdb (fst o1)))"

lemma migrated_bind:
  assumes "keeps (on_db (kept n R)) m" "\<And>v s. on_db (kept n R) s \<Longrightarrow> migrated n R (k v s)" "on_db (kept n R) s"
  shows "migrated n R (bindA m k s)"
proof -
  obtain s1 r where m: "m s = (s1, r)" by fastforce
  with keepsE [OF assms(1) m assms(3)] have k: "on_db (kept n R) s1" by simp
  with m assms(2) [OF k] show ?thesis
    by (cases r) (simp_all add: bindA_def migrated_def on_db_def kept_def)
qed

lemma migrated_end:
  assumes "hoare (on_db (kept n R)) m (left n R) (on_db (kept n R))" "on_db (kept n R) s"
  shows "migrated n R (bindA m pureA s)"
proof -
  obtain s1 r where m: "m s = (s1, r)" by fastforce
  show ?thesis
  proof (cases r)
    case (Inl e)
    with hoareE [OF assms(1) _ assms(2)] m show ?thesis by (simp add: bindA_def migrated_def on_db_def kept_def)
  next
    case (Inr v)
    with hoareD [OF assms(1) _ assms(2)] m have "left n R v s1" by simp
    then show ?thesis using m Inr by (auto simp: bindA_def pureA_def migrated_def left_def on_db_def)
  qed
qed

text \<open>C9. A migration that fails with an error keeps every revision of every VM of the source server: at most which
  revision of the migrated name is active can differ. Whatever its result, the other VMs are untouched.\<close>

theorem MigrateVM_keeps_source:
  assumes "vmdb_ok (ap_vmdb s)" and n: "IsValidName (vn_name name)"
  shows "case MigrateVM x req vm name s of (s', r) \<Rightarrow>
    others_at (vn_name name) (registry (ap_vmdb s)) (ap_vmdb s') \<and>
    (\<forall>e. r = Inl e \<and> ordinary e \<longrightarrow> (\<forall>m. fst (registry (ap_vmdb s') m) = fst (registry (ap_vmdb s) m)))"
proof -
  let ?n = "vn_name name" and ?R = "registry (ap_vmdb s)"
  let ?K = "on_db (kept ?n ?R)"
  note K = quiet_kept [of ?n ?R]
  have start: "?K s" using assms(1) by (simp add: on_db_def kept_def others_at_def)
  have fail: "migrated ?n ?R (fail e s1)" if "?K s1" for e :: app_error and s1 :: "'a app"
    using that by (simp add: fail_def migrated_def on_db_def kept_def)
  have drop: "keeps ?K (drop_remote x peer nm rv)" for peer nm rv
    unfolding drop_remote_def by (rule keeps_rules K)+
  have calls: "keeps ?K (search_active x peer nm)" "keeps ?K (create_remote x peer vm allow)" for peer nm allow
    unfolding search_active_def create_remote_def by (rule keeps_rules K)+
  have "migrated ?n ?R (MigrateVM x req vm name s)"
    unfolding MigrateVM_def Let_def unlocked_or_forced_def
    apply (rule migrated_bind, (rule keeps_rules K)+)
    apply (rule migrated_bind, (rule keeps_rules K)+)
    apply (rule migrated_bind, (rule keeps_rules K)+)
    apply (rule migrated_bind, (rule keeps_rules K)+)
    apply (rule migrated_bind, (rule keeps_rules K)+)
    subgoal for _ _ _ _ _ _ _ _ found s1
      apply (cases found, simp add: fail)
      apply (simp only: option.case)
      apply (rule migrated_bind, rule calls)
      apply (rule migrated_bind, (rule keeps_rules K)+)
      apply (rule migrated_bind, rule calls)
      subgoal for _ _ _ _ _ p s2
        apply (cases p, simp only: prod.case)
        apply (rule migrated_end)
         apply (rule hoare_alive_defer(1) [OF _ drop])
         apply (rule hoare_same, (rule keeps_rules K)+)
         apply (rule hoare_migrate [OF n])
        apply assumption
        done
      apply assumption+
      done
    apply (assumption | rule start)+
    done
  then show ?thesis
    by (cases "MigrateVM x req vm name s") (simp add: migrated_def, blast dest: kept_revisions)
qed

subsection \<open>A migration in the concrete outside\<close>

text \<open>
  Another server that finds no active VM of the name, creates the VM as revision 3 and agrees to
  everything; \<open>up\<close> tells whether the upload of the backup works.
\<close>

definition mig_answer :: "bool \<Rightarrow> peer_request \<Rightarrow> peer_answer" where
  "mig_answer up q =
     (if pq_Path q = ''/vm/search''
      then \<lparr>pa_UploadError = None, pa_Status = 404, pa_ContentType = ''text/plain'', pa_Body = ''no matches'', pa_Messages = [], pa_Broken = None\<rparr>
      else \<lparr>pa_UploadError = (if pq_Path q = ''/backup'' \<and> \<not> up then Some ''broken pipe'' else None), pa_Status = 200,
            pa_ContentType = ''application/x-ndjson'', pa_Body = [],
            pa_Messages = (if pq_Path q = ''/vm'' then [(''INFO'', ''REVISION=3'')] else []), pa_Broken = None\<rparr>)"

definition mig_ext :: "bool \<Rightarrow> toy ext" where
  "mig_ext up = \<lparr>x_lv = toy_lv, x_os = toy_os\<lparr>os_Peer := (\<lambda>q w. (w, Inr (mig_answer up q)))\<rparr>, x_px = toy_px\<rparr>"

definition mig_key :: api_key where
  "mig_key = \<lparr>addr = 0, Comment = ''me'', Key = [], SSHPrivate = [], SSHPublic = [], Rights = [], SSHAllowedFingerprints = []\<rparr>"

definition mig_request :: control_request where
  "mig_request = \<lparr>cr_SubPath = ''web'', cr_Form = (\<lambda>f. if f = ''action'' then ''migrate'' else if f = ''destination'' then ''other'' else []),
     cr_File = (\<lambda>f. None), cr_Key = mig_key\<rparr>"

definition mig_peer :: config_peer where "mig_peer = \<lparr>cp_Name = ''other'', cp_URL = ''https://o'', cp_Key = ''k'', cp_SyncSecrets = False\<rparr>"

definition mig_vm :: "bool \<Rightarrow> vm" where
  "mig_vm scripts = (if scripts then toy_vm else toy_vm\<lparr>Config := toy_conf\<lparr>cfg_Backup := []\<rparr>\<rparr>)"

definition mig_app :: "bool \<Rightarrow> toy app" where
  "mig_app scripts = (toy_running True)\<lparr>ap_config := toy_config\<lparr>sc_Peers := [(''other'', mig_peer)]\<rparr>,
     ap_vmdb := empty_vmdb\<lparr>db := [(''web'', \<lparr>Name = web0, VM = mig_vm scripts, Active = True\<rparr>)]\<rparr>\<rparr>"

lemma mig_sel [simp]: "x_lv (mig_ext up) = toy_lv" "x_px (mig_ext up) = toy_px" "os_Now (x_os (mig_ext up)) = os_Now toy_os"
  "os_VmdbEnv (x_os (mig_ext up)) = os_VmdbEnv toy_os" "os_Peer (x_os (mig_ext up)) q w = (w, Inr (mig_answer up q))"
  "os_Write (x_os (mig_ext up)) = os_Write toy_os" "os_Open (x_os (mig_ext up)) = os_Open toy_os"
  "os_RunSsh (x_os (mig_ext up)) = os_RunSsh toy_os" "os_DiskXml (x_os (mig_ext up)) = os_DiskXml toy_os"
  "os_DiskTicks (x_os (mig_ext up)) = os_DiskTicks toy_os"
  by (simp_all add: mig_ext_def)

lemma mig_methods [simp]: "to_upper ''GET'' = ''GET''" "to_upper ''POST'' = ''POST''" "to_upper ''DELETE'' = ''DELETE''" "atoi ''3'' = Some 3"
  by code_simp+

lemma mig_ok:
  "read_answer p cb a (mig_answer up q) =
     (if pq_Path q = ''/vm/search'' then (case cb_HttpError cb of None \<Rightarrow> Inl (Failed ''http error'' [itoa 404, ''no matches''])
          | Some f \<Rightarrow> f 404 ''no matches'' (Failed ''http error'' [itoa 404, ''no matches'']) a)
      else if pq_Path q = ''/backup'' \<and> \<not> up then Inl (Failed ''upload'' [''broken pipe''])
      else decodeJSONStream p (cb_Message cb) None None (if pq_Path q = ''/vm'' then [(''INFO'', ''REVISION=3'')] else []) a)"
  by (simp add: read_answer_def mig_answer_def Let_def split: option.split)

lemmas mig_eval = peer_Do_def peer_do_def upload_file_def act_eval app_eval app_calls mig_ok no_callbacks_def mig_peer_def

lemma mig_running: "is_running (mig_ext up) web0 (mig_app b) = (mig_app b, Inr True)"
  by (simp add: mig_app_def run_eval cong: act_congs)

lemma mig_search: "search_active (mig_ext up) mig_peer ''web'' s = (s, Inr False)"
  by (simp add: search_active_def mig_eval cong: act_congs)

lemma mig_create: "create_remote (mig_ext up) mig_peer vm allow s = (s, Inr (3, True))"
  by (simp add: create_remote_def mig_eval MessageNoop_def MessageFailure_def read_revision_def StringIsVariable_def has_prefix_def cong: act_congs)

definition mig_retired :: "bool \<Rightarrow> bool \<Rightarrow> nat \<Rightarrow> toy app" where
  "mig_retired scripts act n = (let entries = [(''web'', \<lparr>Name = web0, VM = mig_vm scripts, Active = act\<rparr>)] in
     (mig_app scripts)\<lparr>ap_vmdb := empty_vmdb\<lparr>db := entries, vmdb_file := Holds entries, domain_file := Holds [],
       port_file := Holds [], updates := n\<rparr>\<rparr>)"
lemma mig_retire: "vmdbA (mig_ext up) (\<lambda>env. SetActiveRevision env ''web'' RevisionNone) (mig_app b) = (mig_retired b False 1, Inr ())"
  by (cases b) (simp_all add: mig_app_def mig_retired_def mig_vm_def toy_vm_def run_eval cong: act_congs)
lemma mig_restore: "vmdbA (mig_ext up) (\<lambda>env. SetActiveRevision env ''web'' 0) (mig_retired b False 1) = (mig_retired b True 2, Inr ())"
  by (cases b) (simp_all add: mig_app_def mig_retired_def mig_vm_def toy_vm_def run_eval cong: act_congs)

lemma mig_backup: "VMBackup (mig_ext up) web0 a c e (reading (mig_retired False False n)) =
    (reading (mig_retired False False n), Inl (Failed ''no backup script defined for this VM'' []))"
  by (simp add: reading_def mig_retired_def mig_app_def mig_vm_def toy_vm_def run_eval cong: act_congs)

lemma mig_upload: "upload_file (mig_ext up) (UploadVolume [] n PoolBackups) (reading (mig_retired False False k)) =
    (reading (mig_retired False False k), Inr (Some (''file'', if n = [] then [] else n), False))"
  by (simp add: upload_file_def VolumeDownloadToWriter_def reading_def mig_retired_def mig_app_def run_eval cong: act_congs)

lemma mig_now: "nowA (mig_ext up) s = (reading s, Inr (tw_clock (ap_world s)))"
  by (simp add: reading_def app_eval app_calls act_eval)

lemma mig_transfer: "transfer_backup (mig_ext up) mig_peer web0 a r rest (mig_retired False False n) =
    (reading (mig_retired False False n), Inl NotReturned)"
  by (simp add: transfer_backup_def mig_backup mig_upload mig_now peer_Do_def peer_do_def act_eval app_eval app_calls(2) defer_alive_def
     Let_def failed_as_def cong: act_congs)

lemma bind_checked: "bindA (checkA True e) k = k ()"
  by (rule ext) (simp add: bindA_def checkA_def ret_def)

lemma mig_start: "MigrateVM (mig_ext up) mig_request (mig_vm b) web0 (mig_app b) =
   bindA (defer_alive_unless (drop_remote (mig_ext up) mig_peer ''web'' 3) (
     source_inactive (mig_ext up) web0 True (transfer_backup (mig_ext up) mig_peer web0 ''me'' 3
        (hand_over (mig_ext up) mig_peer web0 (mig_vm b) 3 True)))) pureA (mig_app b)"
proof -
  have vm: "WIP (mig_vm b) = OpNone" "\<not> Locked (mig_vm b)" by (cases b; simp add: mig_vm_def toy_vm_def empty_vm_def)+
  have req: "cr_Form mig_request ''destination'' = ''other''" "\<not> form_true mig_request ''keep-source-active''"
    "\<not> form_true mig_request ''allow_new_revision''" "Comment (cr_Key mig_request) = ''me''"
    by (simp_all add: mig_request_def form_true_def TrueStr_def mig_key_def)
  have app: "gm_get (sc_Peers (ap_config (mig_app b))) ''other'' = Some mig_peer"
    "GetEntryByName (ap_vmdb (mig_app b)) web0 = Inr \<lparr>Name = web0, VM = mig_vm b, Active = True\<rparr>"
    by (simp_all add: mig_app_def run_eval GetEntryByName_def)
  show ?thesis
    apply (simp add: MigrateVM_def Let_def vm req app unlocked_or_forced_def mig_running mig_search mig_create act_eval app_eval cong: act_congs)
    apply (simp add: bind_checked req pureA_def split: prod.splits sum.splits)
    done
qed

lemma registry_one: "registry (empty_vmdb\<lparr>db := [(''web'', \<lparr>Name = web0, VM = v, Active = a\<rparr>)], vmdb_file := f, domain_file := g, port_file := h, updates := n\<rparr>) =
    (\<lambda>n. if n = ''web'' then ({0}, if a then Some 0 else None) else ({}, None))"
  by (auto simp: fun_eq_iff registry_def revisions_def active_rev_def gm_vals_def NewVMName_def)

text \<open>
  A VM without backup script: the error of its backup is not looked at, the upload of the volume with an empty
  name dies in its goroutine and takes the server with it; the VM is left without active revision.
\<close>

theorem migration_without_backup_kills:
  "case MigrateVM (mig_ext up) mig_request (mig_vm False) web0 (mig_app False) of (s', r) \<Rightarrow>
     r = Inl NotReturned \<and> registry (ap_vmdb s') ''web'' = ({0}, None)"
  by (simp add: mig_start bindA_def defer_alive_unless_def source_inactive_def mig_retire mig_transfer)
    (simp add: mig_retired_def reading_def registry_one Let_def)

definition mig_backup_name :: string where "mig_backup_name = ''web-backup-1001.qcow2''"

definition mig_saved :: backup where
  "mig_saved = \<lparr>DiskName = mig_backup_name, Created = 1002, Expire = zero_time, bk_AuthorKey = ''me'', bk_VM = toy_vm\<lparr>WIP := OpBackup\<rparr>\<rparr>"

definition mig_kept :: "toy app" where
  "mig_kept = (let s = mig_retired True False 1 in
     s\<lparr>ap_backups := \<lparr>bdb = [(mig_backup_name, mig_saved)], bdb_file = Holds [(mig_backup_name, mig_saved)]\<rparr>,
       ap_world := (ap_world s)\<lparr>tw_clock := 1003, tw_volumes := (PoolBackups, mig_backup_name) # tw_volumes (ap_world s)\<rparr>\<rparr>)"

lemmas mig_states = mig_kept_def mig_saved_def mig_backup_name_def mig_retired_def mig_app_def mig_vm_def toy_vm_def reading_def

lemma mig_content [simp]: "GetContent (mig_ext up) ''file:x'' s = (s, Inr ''#!/bin/sh'')"
proof -
  have "GetURLScheme ''file:x'' = Some ''file''" by code_simp
  then show ?thesis
    by (simp add: GetContent_def getContentFromFileURL_def act_eval app_eval app_calls cong: act_congs)
qed

lemma mig_backup_done: "VMBackup (mig_ext up) web0 ''me'' False BackupNoExpiration (reading (mig_retired True False 1)) = (mig_kept, Inr mig_backup_name)"
  by (simp add: mig_states BackupNoExpiration_def run_eval cong: act_congs)

lemma mig_upload_done: "upload_file (mig_ext up) (UploadVolume mig_backup_name n PoolBackups) mig_kept =
    (mig_kept, Inr (Some (''file'', if n = [] then mig_backup_name else n), True))"
  by (simp add: upload_file_def VolumeDownloadToWriter_def mig_states run_eval cong: act_congs)

lemma mig_call: "peer_Do (mig_ext up) mig_peer meth path args NoUpload no_callbacks () s = (s, Inr ())"
  if "to_upper meth \<in> {''GET'', ''POST'', ''DELETE''}" "path \<noteq> ''/vm/search''" "path \<noteq> ''/backup''" "path \<noteq> ''/vm''"
  using that by (auto simp: mig_eval cong: act_congs)

definition mig_dropped :: "bool \<Rightarrow> nat \<Rightarrow> toy app" where
  "mig_dropped act n = (let s = mig_retired True act n in
     s\<lparr>ap_backups := \<lparr>bdb = [], bdb_file = Holds []\<rparr>, ap_world := (ap_world s)\<lparr>tw_clock := 1003\<rparr>\<rparr>)"

lemma mig_delete: "app_BackupDelete (mig_ext up) mig_backup_name mig_kept = (mig_dropped False 1, Inr ())"
  by (simp add: app_BackupDelete_def mig_dropped_def mig_states run_eval cong: act_congs)

lemma mig_reactivate: "vmdbA (mig_ext up) (\<lambda>env. SetActiveRevision env ''web'' 0) (mig_dropped False n) = (mig_dropped True (Suc n), Inr ())"
  by (simp add: mig_dropped_def mig_states run_eval cong: act_congs)

lemma mig_drop: "drop_remote (mig_ext up) mig_peer ''web'' 3 s = (s, Inr ())"
  by (simp add: drop_remote_def call_peer_def mig_call act_eval app_eval cong: act_congs)

lemma mig_backup_fails: "transfer_backup (mig_ext False) mig_peer web0 ''me'' r rest (mig_retired True False 1) =
    (mig_dropped False 1, Inl (Failed ''call to peer failed'' [''/backup'', ''other'']))"
  by (simp add: transfer_backup_def mig_backup_done mig_upload_done mig_now mig_delete peer_Do_def peer_do_def act_eval app_eval app_calls(2)
     defer_alive_def mig_ok failed_as_def Let_def mig_peer_def del: One_nat_def cong: act_congs)

lemma mig_rolls_back: "MigrateVM (mig_ext False) mig_request (mig_vm True) web0 (mig_app True) =
    (mig_dropped True 2, Inl (Failed ''call to peer failed'' [''/backup'', ''other'']))"
  by (simp add: mig_start bindA_def defer_alive_unless_def source_inactive_def mig_retire mig_backup_fails mig_reactivate mig_drop
      numeral_2_eq_2 del: One_nat_def)

lemma mig_app_ok: "vmdb_ok (ap_vmdb (mig_app True))"
  using toy_ok(2) [of True] by (simp add: mig_app_def mig_vm_def toy_running_def toy_state_def NewVMName_def)

theorem MigrateVM_keeps_source_witness:
  "case MigrateVM (mig_ext False) mig_request (mig_vm True) web0 (mig_app True) of (s', r) \<Rightarrow>
     r = Inl (Failed ''call to peer failed'' [''/backup'', ''other'']) \<and>
     (\<forall>m. fst (registry (ap_vmdb s') m) = fst (registry (ap_vmdb (mig_app True)) m)) \<and> registry (ap_vmdb s') ''web'' = ({0}, Some 0)"
  using MigrateVM_keeps_source [OF mig_app_ok, of web0 "mig_ext False" mig_request "mig_vm True"]
  by (simp add: mig_rolls_back ordinary_def web0_valid [unfolded valid_vm_name_def, simplified])
    (simp add: mig_dropped_def mig_retired_def mig_vm_def registry_one Let_def)




end
