(* ===== verification/Routes.thy ===== *)
theory Routes
  imports Api_Keys
begin

text \<open>
  The routes of the server, \<open>cmd/mulchd/routes.go\<close>, and the choice of a route by the path of a
  request: \<open>registerRouteHandlers\<close> of \<open>route_handler.go\<close> gives every path of a table to a
  \<open>http.ServeMux\<close>. An entry of a table is the specification of a route, its type and the name of its
  handler; the internal routes are public and without a protocol check, the routes of the API are not.
\<close>

type_synonym route_entry = "string \<times> route_type \<times> string"

definition internal_routes :: "route_entry list" where
  "internal_routes =
     [(''POST /phone'', RouteCustom, ''PhoneController''),
      (''GET /locked'', RouteCustom, ''LockedController''),
      (''GET /cloud-init/*'', RouteCustom, ''CloudInitController''),
      (''GET /env'', RouteCustom, ''EnvController'')]"

definition api_routes :: "route_entry list" where
  "api_routes =
     [(''GET /log/history'', RouteCustom, ''GetLogHistoryController''),
      (''GET /log'', RouteStream, ''LogController''),
      (''GET /vm'', RouteCustom, ''ListVMsController''),
      (''GET /vm/search'', RouteCustom, ''SearchVMsController''),
      (''GET /vm/config/*'', RouteCustom, ''GetVMConfigController''),
      (''GET /vm/infos/*'', RouteCustom, ''GetVMInfosController''),
      (''GET /vm/load/*'', RouteCustom, ''GetVMLoadController''),
      (''GET /vm/do-actions/*'', RouteCustom, ''GetVMDoActionsController''),
      (''GET /vm/console/*'', RouteCustom, ''GetVMConsoleController''),
      (''POST /vm'', RouteStream, ''NewVMSyncController''),
      (''POST /vm-async'', RouteCustom, ''NewVMAsyncController''),
      (''POST /vm/*'', RouteStream, ''ActionVMController''),
      (''DELETE /vm/*'', RouteStream, ''DeleteVMController''),
      (''GET /version'', RouteCustom, ''VersionController''),
      (''GET /seed'', RouteCustom, ''ListSeedController''),
      (''GET /seed/*'', RouteCustom, ''GetSeedStatusController''),
      (''POST /seed/*'', RouteStream, ''ActionSeedController''),
      (''GET /backup'', RouteCustom, ''ListBackupsController''),
      (''POST /backup'', RouteStream, ''UploadBackupController''),
      (''POST /backup/expire/*'', RouteStream, ''SetBackupExpireController''),
      (''GET /backup/*'', RouteCustom, ''DownloadBackupController''),
      (''DELETE /backup/*'', RouteStream, ''DeleteBackupController''),
      (''GET /key'', RouteCustom, ''ListKeysController''),
      (''POST /key'', RouteStream, ''NewKeyController''),
      (''GET /key/me/comment'', RouteCustom, ''GetMyKeyCommentController''),
      (''DELETE /key/*'', RouteStream, ''DeleteKeyController''),
      (''GET /key/right/*'', RouteCustom, ''ListKeyRightsController''),
      (''POST /key/right/*'', RouteStream, ''NewKeyRightController''),
      (''DELETE /key/right/*'', RouteStream, ''DeleteKeyRightController''),
      (''GET /key/trust/list/*'', RouteCustom, ''ListKeyTrustedVMsController''),
      (''POST /key/trust/list/*'', RouteStream, ''AddKeyTrustedVMController''),
      (''DELETE /key/trust/list/*'', RouteStream, ''DeleteKeyTrustedVMController''),
      (''POST /key/trust/clean'', RouteStream, ''CleanKeyTrustedVMsController''),
      (''GET /sshpair'', RouteCustom, ''GetKeyPairController''),
      (''GET /status'', RouteCustom, ''GetStatusController''),
      (''GET /state/zip'', RouteCustom, ''GetStateZipController''),
      (''GET /peer'', RouteCustom, ''ListPeersController''),
      (''GET /secret'', RouteCustom, ''ListSecretsController''),
      (''GET /secret/*'', RouteCustom, ''GetSecretController''),
      (''POST /secret/*'', RouteStream, ''SetSecretController''),
      (''DELETE /secret/*'', RouteStream, ''DeleteSecretController''),
      (''POST /secret-sync'', RouteCustom, ''SyncSecretsController''),
      (''GET /secret-usage'', RouteCustom, ''ListSecretsUsageController''),
      (''GET /secret-stats'', RouteCustom, ''SecretsStatsController''),
      (''GET /vm/with-secret/*'', RouteCustom, ''GetVMsUsingSecretsController''),
      (''GET /greenhouse'', RouteCustom, ''ListGreenhouseVMsController''),
      (''DELETE /greenhouse/*'', RouteStream, ''AbordGreenhouseVMController'')]"

definition route_of :: "bool \<Rightarrow> route_entry \<Rightarrow> route" where
  "route_of internal e =
     \<lparr>rt_method = [], rt_path = [], rt_type = fst (snd e), Public = internal, NoProtoCheck = internal\<rparr>"

text \<open>The errors of \<open>AddRoute\<close> are not looked at; there is none (\<open>tables_accepted\<close>).\<close>

definition AddRoutes :: "bool \<Rightarrow> route_entry list \<Rightarrow> (string, route list) gomap" where
  "AddRoutes internal table =
     fold (\<lambda>e routes. case AddRoute (fst e) (route_of internal e) routes of Inl _ \<Rightarrow> routes | Inr routes' \<Rightarrow> routes') table []"

definition handler_of :: "route_entry list \<Rightarrow> route \<Rightarrow> string option" where
  "handler_of table rt =
     map_option (\<lambda>e. snd (snd e))
       (find (\<lambda>e. fst e = rt_method rt @ '' '' @ rt_path rt \<or> fst e = rt_method rt @ '' '' @ rt_path rt @ ''*'') table)"

subsection \<open>The choice of a path\<close>

text \<open>
  \<open>http.ServeMux\<close> on a clean path: the path itself when it is registered; else, when the path with a
  slash at its end is, a redirection to it; else the longest registered path that ends with a slash
  and is a prefix.
\<close>

datatype mux_result = MuxHandler string | MuxRedirect string | MuxNotFound

fun longest :: "string list \<Rightarrow> string option" where
  "longest [] = None"
| "longest (p # ps) =
     (case longest ps of None \<Rightarrow> Some p | Some q \<Rightarrow> Some (if length q \<le> length p then p else q))"

definition subtree :: "string \<Rightarrow> string \<Rightarrow> bool" where
  "subtree path p \<longleftrightarrow> p \<noteq> [] \<and> last p = CHR ''/'' \<and> has_prefix p path"

definition ServeMux :: "string list \<Rightarrow> string \<Rightarrow> mux_result" where
  "ServeMux paths path =
     (if path \<in> set paths then MuxHandler path
      else if path \<noteq> [] \<and> last path \<noteq> CHR ''/'' \<and> path @ ''/'' \<in> set paths then MuxRedirect (path @ ''/'')
      else case longest (filter (subtree path) paths) of None \<Rightarrow> MuxNotFound | Some p \<Rightarrow> MuxHandler p)"

datatype dispatch_result = Dispatched route_result | Redirected string | NotFound

definition dispatch ::
  "(string \<Rightarrow> string \<Rightarrow> bool) \<Rightarrow> int \<Rightarrow> api_db \<Rightarrow> (string, route list) gomap \<Rightarrow> http_request \<Rightarrow> dispatch_result" where
  "dispatch glob pv st routes r =
     (case ServeMux (gm_keys routes) (rq_Path r) of
        MuxNotFound \<Rightarrow> NotFound
      | MuxRedirect p \<Rightarrow> Redirected p
      | MuxHandler p \<Rightarrow>
          Dispatched (routesHandle glob pv st (case gm_get routes p of None \<Rightarrow> [] | Some rs \<Rightarrow> rs) r))"

end
