(* ===== verification/Routes_Props.thy ===== *)
theory Routes_Props
  imports Routes Api_Props Names
begin

text \<open>
  From the path of a request to its handler: which requests reach the handlers of a VM, and that
  everything but the internal server asks for a key.
\<close>

subsection \<open>The registered paths\<close>

abbreviation (input) registered :: "(string, route list) gomap" where "registered \<equiv> AddRoutes False api_routes"

lemma tables_accepted:
  "\<forall>e\<in>set (internal_routes @ api_routes). \<not> isl (AddRoute (fst e) (route_of True e) [])"
  by code_simp

definition vm_paths :: "string list" where
  "vm_paths = [''/vm/search'', ''/vm/config/'', ''/vm/infos/'', ''/vm/load/'', ''/vm/do-actions/'', ''/vm/console/'', ''/vm/'',
     ''/vm/with-secret/'']"

lemma registered_paths:
  "gm_keys registered = [''/log/history'', ''/log'', ''/vm''] @ butlast (butlast vm_paths) @
     [''/vm-async'', ''/vm/'', ''/version'', ''/seed'', ''/seed/'', ''/backup'', ''/backup/expire/'', ''/backup/'', ''/key'',
      ''/key/me/comment'', ''/key/'', ''/key/right/'', ''/key/trust/list/'', ''/key/trust/clean'', ''/sshpair'', ''/status'',
      ''/state/zip'', ''/peer'', ''/secret'', ''/secret/'', ''/secret-sync'', ''/secret-usage'', ''/secret-stats'',
      ''/vm/with-secret/'', ''/greenhouse'', ''/greenhouse/'']"
  by code_simp

lemma registered_public: "\<forall>rts\<in>snd ` set registered. \<forall>rt\<in>set rts. \<not> Public rt \<and> \<not> NoProtoCheck rt"
  by code_simp

definition vm_route_of :: "string \<Rightarrow> route" where
  "vm_route_of meth = \<lparr>rt_method = meth, rt_path = ''/vm/'', rt_type = RouteStream, Public = False, NoProtoCheck = False\<rparr>"

lemma vm_routes: "gm_get registered ''/vm/'' = Some [vm_route_of ''POST'', vm_route_of ''DELETE'']"
  by code_simp

lemma vm_handlers:
  "handler_of api_routes (vm_route_of ''POST'') = Some ''ActionVMController''"
  "handler_of api_routes (vm_route_of ''DELETE'') = Some ''DeleteVMController''"
  by code_simp+

text \<open>Names of VMs that are valid and are also the end of another registered path.\<close>

definition shadowed_names :: "string set" where
  "shadowed_names = {''search'', ''config'', ''infos'', ''load'', ''console''}"

lemma snoc_eq: "n @ [c] = s \<longleftrightarrow> s \<noteq> [] \<and> n = butlast s \<and> c = last s"
  by (metis append_butlast_last_id butlast_snoc last_snoc snoc_eq_iff_butlast)

lemma valid_chars:
  assumes "IsValidName n"
  shows "CHR ''/'' \<notin> set n" "CHR ''-'' \<notin> set n"
proof -
  have "\<not> name_char (CHR ''/'')" "\<not> name_char (CHR ''-'')" by code_simp+
  with assms show "CHR ''/'' \<notin> set n" "CHR ''-'' \<notin> set n" by (metis IsValidName_def list_all_iff)+
qed

lemma mux_vm:
  assumes n: "IsValidName n"
  shows "ServeMux (gm_keys registered) (''/vm/'' @ n) =
    (if n = ''search'' then MuxHandler ''/vm/search''
     else if n \<in> shadowed_names then MuxRedirect (''/vm/'' @ n @ ''/'') else MuxHandler ''/vm/'')"
proof -
  have slash: "CHR ''/'' \<notin> set n" "n \<noteq> u @ CHR ''/'' # v" for u v using valid_chars(1) [OF n] by auto
  have last: "n \<noteq> [] \<Longrightarrow> last n \<noteq> CHR ''/''" using slash(1) last_in_set by metis
  have not_name: "n \<noteq> s" if "CHR ''/'' \<in> set s \<or> CHR ''-'' \<in> set s" for s
    using valid_chars [OF n] that by auto
  have "n \<notin> {''config/'', ''infos/'', ''load/'', ''do-actions/'', ''console/'', ''with-secret/''}"
    by (simp add: not_name)
  then have exact: "''/vm/'' @ n \<in> set (gm_keys registered) \<longleftrightarrow> n = ''search'' \<or> n = []"
    unfolding registered_paths vm_paths_def by simp
  have tree: "(''/vm/'' @ n) @ ''/'' \<in> set (gm_keys registered) \<longleftrightarrow> n \<in> shadowed_names - {''search''}" if "n \<noteq> []"
    using that not_name [of "''do-actions''"] not_name [of "''with-secret''"]
    unfolding registered_paths vm_paths_def shadowed_names_def by (simp add: snoc_eq)
  have prefixes: "take k n \<noteq> s" if "CHR ''/'' \<in> set s" for k s
    using that slash(1) by (metis in_set_takeD)
  have sub: "filter (subtree (''/vm/'' @ n)) (gm_keys registered) = [''/vm/'']"
    unfolding registered_paths vm_paths_def by (simp add: subtree_def has_prefix_def prefixes)
  show ?thesis
  proof (cases "n = []")
    case True
    then show ?thesis using exact by (simp add: ServeMux_def shadowed_names_def)
  next
    case False
    then show ?thesis using exact tree [OF False] last [OF False] unfolding ServeMux_def sub by simp
  qed
qed

text \<open>The whole way of a request on a VM: the protocol, then the key, then its rights.\<close>

definition admitted ::
  "(string \<Rightarrow> string \<Rightarrow> bool) \<Rightarrow> int \<Rightarrow> api_db \<Rightarrow> http_request \<Rightarrow> api_key \<Rightarrow> bool" where
  "admitted glob pv st r key \<longleftrightarrow>
     (case atoi (requestGetMulchParam r ''protocol'') of None \<Rightarrow> 0 | Some n \<Rightarrow> n) = pv \<and>
     IsValidKey st (requestGetMulchParam r ''key'') = Some key \<and>
     (Rights key = [] \<or> (\<exists>right\<in>set (Rights key). right_covers glob (rq_Method r) (rq_Path r) (rq_FormValue r) right))"

lemma routeHandleFunc_admitted:
  "\<not> Public rt \<Longrightarrow> \<not> NoProtoCheck rt \<Longrightarrow>
   routeHandleFunc glob pv st rt r = RunHandler rt' sub k \<longleftrightarrow>
     rt' = rt \<and> sub = drop (length (rt_path rt)) (rq_Path r) \<and> (\<exists>key. k = Some key \<and> admitted glob pv st r key)"
  by (auto simp: routeHandleFunc_def admitted_def IsAPIKeyAllowed_def IsAllowed_iff Let_def split: option.splits)

text \<open>C11. A POST or DELETE on the path of a valid VM name reaches the handler of the VM, with that name, exactly
  when the protocol agrees and the key is valid and covers the request, unless the name is one of the five
  that other routes have taken: a VM named \<open>search\<close>, \<open>config\<close>, \<open>infos\<close>, \<open>load\<close> or \<open>console\<close> is accepted but can
  be neither changed nor deleted.\<close>

theorem vm_requests_dispatched:
  assumes n: "IsValidName n" and path: "rq_Path r = ''/vm/'' @ n" and meth: "rq_Method r \<in> {''POST'', ''DELETE''}"
  shows "dispatch glob pv st registered r = Dispatched (RunHandler rt sub (Some key)) \<longleftrightarrow>
    n \<notin> shadowed_names \<and> rt = vm_route_of (rq_Method r) \<and> sub = n \<and> admitted glob pv st r key"
proof -
  let ?search = "\<lparr>rt_method = ''GET'', rt_path = ''/vm/search'', rt_type = RouteCustom, Public = False, NoProtoCheck = False\<rparr>"
  have search: "gm_get registered ''/vm/search'' = Some [?search]" by code_simp
  have vm: "routesHandle glob pv st [vm_route_of ''POST'', vm_route_of ''DELETE''] r =
      routeHandleFunc glob pv st (vm_route_of (rq_Method r)) r"
    using meth by (auto simp: routesHandle_def vm_route_of_def)
  have not_get: "routesHandle glob pv st [?search] r = HttpError 405 ''method not allowed''"
    using meth by (auto simp: routesHandle_def)
  have "dispatch glob pv st registered r =
    (if n = ''search'' then Dispatched (HttpError 405 ''method not allowed'')
     else if n \<in> shadowed_names then Redirected (''/vm/'' @ n @ ''/'')
     else Dispatched (routeHandleFunc glob pv st (vm_route_of (rq_Method r)) r))"
    unfolding dispatch_def path mux_vm [OF n] by (simp add: search vm_routes vm not_get)
  then show ?thesis
    by (auto simp: shadowed_names_def routeHandleFunc_admitted vm_route_of_def path)
qed

definition web_request :: http_request where
  "web_request = \<lparr>rq_Method = ''DELETE'', rq_Path = ''/vm/web'', rq_Header = (\<lambda>h. []),
     rq_FormValue = (\<lambda>n. if n = ''protocol'' then ''1'' else if n = ''key'' then long_key else [])\<rparr>"

definition full_key :: api_key where "full_key = limited_key\<lparr>Rights := []\<rparr>"

theorem vm_requests_dispatched_witness:
  "dispatch simple_glob 1 (key_db\<lparr>api_keys := [full_key]\<rparr>) registered web_request =
     Dispatched (RunHandler (vm_route_of ''DELETE'') ''web'' (Some full_key)) \<and>
   handler_of api_routes (vm_route_of ''DELETE'') = Some ''DeleteVMController''"
proof -
  have ok: "IsValidName ''web''" "rq_Path web_request = ''/vm/'' @ ''web''" "rq_Method web_request = ''DELETE''"
    by (code_simp | simp add: web_request_def)+
  have "length long_key = 64" by (simp add: long_key_def)
  then have "admitted simple_glob 1 (key_db\<lparr>api_keys := [full_key]\<rparr>) web_request full_key"
    by (simp add: admitted_def requestGetMulchParam_def web_request_def IsValidKey_def apiKeyMinLength_def key_db_def full_key_def
        limited_key_def go_eval)
  moreover have "''web'' \<notin> shadowed_names" by (simp add: shadowed_names_def)
  ultimately show ?thesis
    using vm_requests_dispatched [of "''web''" web_request simple_glob 1 "key_db\<lparr>api_keys := [full_key]\<rparr>"
      "vm_route_of ''DELETE''" "''web''" full_key] ok vm_handlers by simp
qed
end
