(* ===== verification/Go_Sort.thy ===== *)
theory Go_Sort
  imports Main "HOL-Library.Multiset"
begin

text \<open>
  \<open>sort.Slice\<close> of the Go library, by the test of its caller, and the order of strings by their bytes.
  Go leaves the order of equal elements open; here they keep theirs.
\<close>

fun str_less :: "string \<Rightarrow> string \<Rightarrow> bool" where
  "str_less xs [] = False"
| "str_less [] (y # ys) = True"
| "str_less (x # xs) (y # ys) =
     (if x = y then str_less xs ys else (of_char x :: nat) < of_char y)"

fun insert_by :: "('a \<Rightarrow> 'a \<Rightarrow> bool) \<Rightarrow> 'a \<Rightarrow> 'a list \<Rightarrow> 'a list" where
  "insert_by lt x [] = [x]"
| "insert_by lt x (y # ys) = (if lt y x then y # insert_by lt x ys else x # y # ys)"

definition sort_slice :: "('a \<Rightarrow> 'a \<Rightarrow> bool) \<Rightarrow> 'a list \<Rightarrow> 'a list" where
  "sort_slice lt xs = foldr (insert_by lt) xs []"

lemma insert_by_mset [simp]: "mset (insert_by lt x ys) = add_mset x (mset ys)"
  by (induction ys) auto

lemma sort_slice_mset [simp]: "mset (sort_slice lt xs) = mset xs"
  by (induction xs) (auto simp: sort_slice_def)

lemma sort_slice_set [simp]: "set (sort_slice lt xs) = set xs"
  by (metis sort_slice_mset set_mset_mset)

lemma sort_slice_length [simp]: "length (sort_slice lt xs) = length xs"
  by (metis sort_slice_mset size_mset)

text \<open>What a caller of \<open>sort.Slice\<close> gives: a strict weak order.\<close>

definition weak_order :: "('a \<Rightarrow> 'a \<Rightarrow> bool) \<Rightarrow> bool" where
  "weak_order lt \<longleftrightarrow> (\<forall>x y. lt x y \<longrightarrow> \<not> lt y x) \<and> (\<forall>x y z. \<not> lt y x \<longrightarrow> \<not> lt z y \<longrightarrow> \<not> lt z x)"

lemma insert_by_sorted:
  assumes "weak_order lt" "sorted_wrt (\<lambda>a b. \<not> lt b a) ys"
  shows "sorted_wrt (\<lambda>a b. \<not> lt b a) (insert_by lt x ys)"
  using assms(2)
proof (induction ys)
  case (Cons y ys)
  have "set (insert_by lt x ys) = insert x (set ys)" by (metis insert_by_mset set_mset_add_mset_insert set_mset_mset)
  note set_eq = this
  have asym: "lt y x \<Longrightarrow> \<not> lt x y" using assms(1) unfolding weak_order_def by blast
  have tr: "\<not> lt y x \<Longrightarrow> \<not> lt z y \<Longrightarrow> \<not> lt z x" for z using assms(1) unfolding weak_order_def by blast
  show ?case
    using Cons asym tr by (cases "lt y x") (simp_all add: set_eq)
qed simp

lemma sort_slice_sorted:
  assumes "weak_order lt"
  shows "sorted_wrt (\<lambda>a b. \<not> lt b a) (sort_slice lt xs)"
  by (induction xs) (auto simp: sort_slice_def insert_by_sorted [OF assms])

lemma str_less_irrefl: "\<not> str_less xs xs"
  by (induction xs) auto

lemma str_less_asym: "str_less xs ys \<Longrightarrow> \<not> str_less ys xs"
  by (induction xs ys rule: str_less.induct) (auto split: if_splits)

lemma str_less_total: "\<not> str_less xs ys \<Longrightarrow> \<not> str_less ys xs \<Longrightarrow> xs = ys"
proof (induction xs ys rule: str_less.induct)
  case (1 xs)
  then show ?case by (cases xs) auto
qed (auto split: if_splits simp: neq_iff)

lemma str_less_trans: "str_less xs ys \<Longrightarrow> str_less ys zs \<Longrightarrow> str_less xs zs"
proof (induction xs ys arbitrary: zs rule: str_less.induct)
  case (3 x xs y ys)
  then show ?case by (cases zs) (auto split: if_splits)
next
  case (2 y ys)
  then show ?case by (cases zs) auto
qed simp

lemma str_less_weak: "weak_order str_less"
  unfolding weak_order_def by (metis str_less_asym str_less_total str_less_trans)

lemma weak_order_on: "weak_order lt \<Longrightarrow> weak_order (\<lambda>x y. lt (f x) (f y))"
  unfolding weak_order_def by blast

end
