(* ===== verification/Controllers_Keys.thy ===== *)
theory Controllers_Keys
  imports Api_Props Vm_Database Go_Sort
begin

text \<open>
  The requests on API keys, \<open>cmd/mulchd/controllers/key.go\<close>: creation and deletion, rights, trusted
  VMs, listings. The key of the caller is a pointer, an \<open>api_key\<close> looked up again by its address.
  What a request draws and meets (a new pair and a new key, the outcome of the save, the order in
  which Go visits the headers of a right) is part of it.
\<close>

datatype key_error =
    OwnKey
  | NoKeyNamed string
  | FromKeys api_error
  | FromVms vmdb_error
  | NilEntry

definition from_keys :: "api_db \<times> api_error option \<Rightarrow> api_db \<times> key_error option" where
  "from_keys o1 = (fst o1, map_option FromKeys (snd o1))"

subsection \<open>Listings\<close>

definition ListKeysController :: "api_db \<Rightarrow> (string \<times> nat \<times> nat) list" where
  "ListKeysController st = sort_slice (\<lambda>x y. str_less (fst x) (fst y)) (ListEntries st)"

definition GetMyKeyCommentController :: "api_key \<Rightarrow> api_db \<Rightarrow> string" where
  "GetMyKeyCommentController caller st = Comment (deref st caller)"

definition ListKeyRightsController ::
  "(nat \<Rightarrow> (string \<times> string) list \<Rightarrow> (string \<times> string) list) \<Rightarrow> string \<Rightarrow> api_db \<Rightarrow> key_error + string list" where
  "ListKeyRightsController ord keyName st =
     (case GetByComment st keyName of None \<Rightarrow> Inl (NoKeyNamed keyName)
      | Some key \<Rightarrow> Inr (sort_slice str_less (map (\<lambda>(n, r). right_String (ord n) r) (enumerate 0 (Rights key)))))"

definition ListKeyTrustedVMsController :: "api_key \<Rightarrow> string \<Rightarrow> api_db \<Rightarrow> ssh_fingerprint list" where
  "ListKeyTrustedVMsController caller vmName st =
     sort_slice (\<lambda>f g. if fp_VMName f = fp_VMName g then AddedAt g < AddedAt f else str_less (fp_VMName f) (fp_VMName g))
       (filter (\<lambda>fp. \<not> (vmName \<noteq> [] \<and> fp_VMName fp \<noteq> vmName)) (SSHAllowedFingerprints (deref st caller)))"

subsection \<open>Keys\<close>

definition NewKeyController ::
  "io_write \<Rightarrow> string + string \<times> string \<Rightarrow> string \<Rightarrow> string \<Rightarrow> api_db \<Rightarrow> api_db \<times> key_error option" where
  "NewKeyController w pair drawn comment st =
     (case AddNew w pair drawn (trim_space comment) st of
        (st1, Inl e) \<Rightarrow> (st1, Some (FromKeys e)) | (st1, Inr key) \<Rightarrow> (st1, None))"

definition DeleteKeyController :: "io_write \<Rightarrow> api_key \<Rightarrow> string \<Rightarrow> api_db \<Rightarrow> api_db \<times> key_error option" where
  "DeleteKeyController w caller keyComment st =
     (if Comment (deref st caller) = keyComment then (st, Some OwnKey)
      else from_keys (api_Delete w keyComment st))"

subsection \<open>Rights\<close>

text \<open>The object behind the pointer is changed before the save: it stays changed when the save fails.\<close>

definition change_rights ::
  "io_write \<Rightarrow> (api_key \<Rightarrow> api_key \<times> api_error option) \<Rightarrow> string \<Rightarrow> api_db \<Rightarrow> api_db \<times> key_error option" where
  "change_rights w change keyName st =
     (case GetByComment st keyName of None \<Rightarrow> (st, Some (NoKeyNamed keyName))
      | Some key \<Rightarrow>
          (case change key of
             (key1, Some e) \<Rightarrow> (st, Some (FromKeys e))
           | (key1, None) \<Rightarrow> from_keys (api_save w (update_key key1 st))))"

definition NewKeyRightController ::
  "io_write \<Rightarrow> (nat \<Rightarrow> (string \<times> string) list \<Rightarrow> (string \<times> string) list) \<Rightarrow> string \<Rightarrow> string \<Rightarrow> api_db
    \<Rightarrow> api_db \<times> key_error option" where
  "NewKeyRightController w ord keyName rightStr = change_rights w (AddNewRight ord rightStr) keyName"

definition DeleteKeyRightController ::
  "io_write \<Rightarrow> (nat \<Rightarrow> (string \<times> string) list \<Rightarrow> (string \<times> string) list) \<Rightarrow> string \<Rightarrow> string \<Rightarrow> api_db
    \<Rightarrow> api_db \<times> key_error option" where
  "DeleteKeyRightController w ord keyName rightStr = change_rights w (RemoveRight ord rightStr) keyName"

subsection \<open>Trusted VMs of the caller\<close>

text \<open>\<open>entry.VM\<close> of no entry would be a nil dereference.\<close>

definition GetActiveByName :: "vmdb \<Rightarrow> string \<Rightarrow> key_error + vm" where
  "GetActiveByName vms name =
     (case GetActiveEntryByName vms name of
        Inl e \<Rightarrow> Inl (FromVms e) | Inr None \<Rightarrow> Inl NilEntry | Inr (Some entry) \<Rightarrow> Inr (VM entry))"

definition AddKeyTrustedVMController ::
  "io_write \<Rightarrow> time \<Rightarrow> vmdb \<Rightarrow> api_key \<Rightarrow> string \<Rightarrow> string \<Rightarrow> api_db \<Rightarrow> api_db \<times> key_error option" where
  "AddKeyTrustedVMController w now vms caller vmName fingerprint st =
     (case GetActiveByName vms vmName of Inl e \<Rightarrow> (st, Some e)
      | Inr v \<Rightarrow> from_keys (AllowSSHFingerprint w now caller
                   \<lparr>fp_VMName = vmName, Fingerprint = fingerprint, AddedAt = zero_time\<rparr> st))"

definition DeleteKeyTrustedVMController ::
  "io_write \<Rightarrow> api_key \<Rightarrow> string \<Rightarrow> string \<Rightarrow> api_db \<Rightarrow> api_db \<times> key_error option" where
  "DeleteKeyTrustedVMController w caller vmName fingerprint st =
     (if fingerprint = [] then (fst (RemoveAllSSHFingerprint w caller vmName st), None)
      else from_keys (RemoveSSHFingerprint w caller
             \<lparr>fp_VMName = vmName, Fingerprint = fingerprint, AddedAt = zero_time\<rparr> st))"

fun still_trusted :: "vmdb \<Rightarrow> ssh_fingerprint list \<Rightarrow> key_error + ssh_fingerprint list" where
  "still_trusted vms [] = Inr []"
| "still_trusted vms (fp # fps) =
     (case GetActiveByName vms (fp_VMName fp) of
        Inl NilEntry \<Rightarrow> Inl NilEntry
      | Inl e \<Rightarrow> still_trusted vms fps
      | Inr v \<Rightarrow> map_sum id ((#) fp) (still_trusted vms fps))"

definition CleanKeyTrustedVMsController ::
  "io_write \<Rightarrow> vmdb \<Rightarrow> api_key \<Rightarrow> api_db \<Rightarrow> api_db \<times> key_error option" where
  "CleanKeyTrustedVMsController w vms caller st =
     (let k = deref st caller in
      case still_trusted vms (SSHAllowedFingerprints k) of
        Inl e \<Rightarrow> (st, Some e)
      | Inr fps \<Rightarrow> from_keys (api_save w (update_key (k\<lparr>SSHAllowedFingerprints := fps\<rparr>) st)))"

subsection \<open>Requests\<close>

datatype key_request =
    NewKey io_write "string + string \<times> string" string string
  | DeleteKey io_write string
  | NewKeyRight io_write "nat \<Rightarrow> (string \<times> string) list \<Rightarrow> (string \<times> string) list" string string
  | DeleteKeyRight io_write "nat \<Rightarrow> (string \<times> string) list \<Rightarrow> (string \<times> string) list" string string
  | AddTrusted io_write time vmdb string string
  | DeleteTrusted io_write string string
  | CleanTrusted io_write vmdb

fun handle_key_request :: "api_key \<Rightarrow> key_request \<Rightarrow> api_db \<Rightarrow> api_db \<times> key_error option" where
  "handle_key_request caller (NewKey w pair drawn comment) st = NewKeyController w pair drawn comment st"
| "handle_key_request caller (DeleteKey w comment) st = DeleteKeyController w caller comment st"
| "handle_key_request caller (NewKeyRight w ord keyName right) st = NewKeyRightController w ord keyName right st"
| "handle_key_request caller (DeleteKeyRight w ord keyName right) st = DeleteKeyRightController w ord keyName right st"
| "handle_key_request caller (AddTrusted w now vms vmName fp) st = AddKeyTrustedVMController w now vms caller vmName fp st"
| "handle_key_request caller (DeleteTrusted w vmName fp) st = DeleteKeyTrustedVMController w caller vmName fp st"
| "handle_key_request caller (CleanTrusted w vms) st = CleanKeyTrustedVMsController w vms caller st"

text \<open>
  A run of requests, one after the other: each comes with a key that is valid when it is handled.
\<close>

inductive key_steps :: "api_db \<Rightarrow> api_db \<Rightarrow> bool" for st0 where
  Start: "key_steps st0 st0"
| Request: "key_steps st0 st \<Longrightarrow> IsValidKey st presented = Some caller \<Longrightarrow>
    handle_key_request caller req st = (st', e) \<Longrightarrow> key_steps st0 st'"

subsection \<open>What every request keeps\<close>

definition keys_wf :: "api_db \<Rightarrow> bool" where
  "keys_wf st \<longleftrightarrow> api_ok st \<and> distinct (map addr (api_keys st)) \<and> (\<forall>k\<in>set (api_keys st). addr k < next_addr st)"

definition usable :: "api_db \<Rightarrow> string \<Rightarrow> bool" where
  "usable st c \<longleftrightarrow> (\<exists>k\<in>set (api_keys st). Comment k = c \<and> apiKeyMinLength \<le> length (Key k))"

text \<open>Requests that replace an object by one with the same key, comment and address.\<close>

definition same_keys :: "api_db \<Rightarrow> api_db \<Rightarrow> bool" where
  "same_keys st st' \<longleftrightarrow> next_addr st' = next_addr st \<and>
     map (\<lambda>k. (addr k, Comment k, Key k)) (api_keys st') = map (\<lambda>k. (addr k, Comment k, Key k)) (api_keys st)"

lemma same_keys_refl [simp]: "same_keys st st"
  by (simp add: same_keys_def)

lemma same_keys_save: "same_keys st (fst (api_save w st')) \<longleftrightarrow> same_keys st st'"
  by (simp add: same_keys_def api_save_def Let_def split_beta)

lemma same_keys_kept:
  assumes "same_keys st st'"
  shows "keys_wf st' \<longleftrightarrow> keys_wf st" and "usable st' c \<longleftrightarrow> usable st c"
proof -
  let ?f = "\<lambda>k. (addr k, Comment k, Key k)"
  from assms have m: "map ?f (api_keys st') = map ?f (api_keys st)" by (simp add: same_keys_def)
  have a: "map addr (api_keys st') = map addr (api_keys st)" and c: "map Comment (api_keys st') = map Comment (api_keys st)"
    using arg_cong [OF m, of "map fst"] arg_cong [OF m, of "map (fst \<circ> snd)"] by (simp_all add: comp_def)
  have s: "?f ` set (api_keys st') = ?f ` set (api_keys st)" using arg_cong [OF m, of set] by simp
  have u: "usable x c \<longleftrightarrow> (\<exists>t\<in>?f ` set (api_keys x). fst (snd t) = c \<and> apiKeyMinLength \<le> length (snd (snd t)))" for x
    by (simp add: usable_def)
  show "usable st' c \<longleftrightarrow> usable st c" unfolding u s ..
  have "addr ` set (api_keys st') = addr ` set (api_keys st)" using arg_cong [OF a, of set] by simp
  then have "(\<forall>k\<in>set (api_keys st'). addr k < next_addr st) \<longleftrightarrow> (\<forall>k\<in>set (api_keys st). addr k < next_addr st)"
    by (metis (no_types, lifting) imageE image_eqI)
  with a c assms show "keys_wf st' \<longleftrightarrow> keys_wf st" by (simp add: keys_wf_def api_ok_def same_keys_def)
qed

lemma same_keys_update:
  assumes "keys_wf st" and "k \<in> set (api_keys st) \<or> (\<forall>c\<in>set (api_keys st). addr c \<noteq> addr k)"
    and "addr k1 = addr k" "Comment k1 = Comment k" "Key k1 = Key k"
  shows "same_keys st (update_key k1 st)"
proof -
  have "addr c = addr k1 \<Longrightarrow> c \<in> set (api_keys st) \<Longrightarrow> (addr k1, Comment k1, Key k1) = (addr c, Comment c, Key c)" for c
    using assms by (auto simp: keys_wf_def distinct_map inj_on_def)
  then show ?thesis by (auto simp: same_keys_def update_key_def)
qed

lemma deref_cases: "deref st key \<in> set (api_keys st) \<or> (\<forall>c\<in>set (api_keys st). addr c \<noteq> addr (deref st key))"
  by (auto simp: deref_def find_None_iff dest: find_Some_hit split: option.split)

lemma deref_member: "keys_wf st \<Longrightarrow> k \<in> set (api_keys st) \<Longrightarrow> deref st k = k"
proof -
  assume wf: "keys_wf st" and k: "k \<in> set (api_keys st)"
  then have "find (\<lambda>c. addr c = addr k) (api_keys st) \<noteq> None" by (auto simp: find_None_iff)
  then obtain c where c: "find (\<lambda>c. addr c = addr k) (api_keys st) = Some c" by blast
  then have "c \<in> set (api_keys st)" "addr c = addr k" by (auto dest: find_Some_hit)
  with wf k have "c = k" by (auto simp: keys_wf_def distinct_map inj_on_def)
  with c show ?thesis by (simp add: deref_def)
qed

end
