(* ===== verification/Controllers_Keys_Props.thy ===== *)
theory Controllers_Keys_Props
  imports Controllers_Keys
begin

text \<open>
  Properties of the requests on API keys: nobody can delete the last key, identifiers stay unique,
  a clean-up keeps exactly the VMs that are active.
\<close>

subsection \<open>Every request\<close>

lemma remove_first_keeps: "remove_first P xs = Some ys \<Longrightarrow> x \<in> set xs \<Longrightarrow> \<not> P x \<Longrightarrow> x \<in> set ys"
  by (induction xs arbitrary: ys) (auto split: if_splits)

lemma remove_first_subset: "remove_first P xs = Some ys \<Longrightarrow> set ys \<subseteq> set xs \<and> (distinct (map f xs) \<longrightarrow> distinct (map f ys))"
proof (induction xs arbitrary: ys)
  case (Cons x xs)
  then show ?case by (auto split: if_splits) (use Cons.IH in blast)+
qed simp

lemma change_rights_same:
  assumes wf: "keys_wf st" and change: "\<And>k k1 e. change k = (k1, e) \<Longrightarrow> addr k1 = addr k \<and> Comment k1 = Comment k \<and> Key k1 = Key k"
  shows "same_keys st (fst (change_rights w change name st))"
proof (cases "GetByComment st name")
  case (Some key)
  then have m: "key \<in> set (api_keys st)" by (auto simp: GetByComment_def dest: find_Some_hit)
  obtain k1 e where c: "change key = (k1, e)" by fastforce
  with change have "same_keys st (update_key k1 st)" by (intro same_keys_update [OF wf, of key]) (auto simp: m)
  with Some c show ?thesis by (cases e) (simp_all add: change_rights_def from_keys_def same_keys_save)
qed (simp add: change_rights_def)

lemma trusted_same:
  assumes wf: "keys_wf st"
  shows "same_keys st (update_key (deref st key\<lparr>SSHAllowedFingerprints := fps\<rparr>) st)"
  using deref_cases [of st key] by (intro same_keys_update [OF wf, of "deref st key"]) auto

lemma trusted_requests_same:
  assumes "keys_wf st"
  shows "same_keys st (fst (AllowSSHFingerprint w now key fp st))" "same_keys st (fst (RemoveSSHFingerprint w key fp st))"
    "same_keys st (fst (RemoveAllSSHFingerprint w key vm st))" "same_keys st (fst (CleanKeyTrustedVMsController w vms key st))"
  using trusted_same [OF assms]
  by (auto simp: AllowSSHFingerprint_def RemoveSSHFingerprint_def RemoveAllSSHFingerprint_def CleanKeyTrustedVMsController_def
      Let_def same_keys_save from_keys_def split: option.split sum.split)

lemma request_keeps:
  assumes wf: "keys_wf st" and caller: "IsValidKey st presented = Some caller"
  shows "keys_wf (fst (handle_key_request caller req st)) \<and> usable (fst (handle_key_request caller req st)) (Comment caller)"
proof -
  from caller have m: "caller \<in> set (api_keys st)" and long: "apiKeyMinLength \<le> length (Key caller)"
    by (auto simp: IsValidKey_def split: if_splits dest: find_Some_hit)
  then have u: "usable st (Comment caller)" by (auto simp: usable_def)
  have same: "?thesis" if "same_keys st (fst (handle_key_request caller req st))"
    using same_keys_kept [OF that] wf u by simp
  show ?thesis
  proof (cases req)
    case (NewKey w pair drawn comment)
    let ?c = "trim_space comment"
    show ?thesis
    proof (cases "list_ex (\<lambda>k. Comment k = ?c) (api_keys st) \<or> isl pair")
      case True
      then have "fst (handle_key_request caller req st) = st"
        by (auto simp: NewKey NewKeyController_def AddNew_def isl_def)
      with same show ?thesis by simp
    next
      case False
      then obtain priv pub where pair: "pair = Inr (priv, pub)" by (cases pair) auto
      let ?k = "\<lparr>addr = next_addr st, Comment = ?c, Key = drawn, SSHPrivate = priv, SSHPublic = pub,
        Rights = [], SSHAllowedFingerprints = []\<rparr>"
      obtain st1 e where sv: "api_save w (st\<lparr>api_keys := api_keys st @ [?k], next_addr := next_addr st + 1\<rparr>) = (st1, e)" by fastforce
      with False pair have "fst (handle_key_request caller req st) = st1"
        by (cases e) (simp_all add: NewKey NewKeyController_def AddNew_def Let_def)
      moreover from api_save_keys [OF sv] have "api_keys st1 = api_keys st @ [?k]" "next_addr st1 = next_addr st + 1" by auto
      ultimately show ?thesis
        using wf False m long by (auto simp: keys_wf_def api_ok_def usable_def list_ex_iff less_Suc_eq)
    qed
  next
    case (DeleteKey w comment)
    show ?thesis
    proof (cases "Comment caller = comment \<or> remove_first (\<lambda>k. Comment k = comment) (api_keys st) = None")
      case True
      then have "fst (handle_key_request caller req st) = st"
        by (auto simp: DeleteKey DeleteKeyController_def deref_member [OF wf m] api_Delete_def from_keys_def)
      with same show ?thesis by simp
    next
      case False
      then obtain ks where ks: "remove_first (\<lambda>k. Comment k = comment) (api_keys st) = Some ks" by auto
      obtain st1 e where sv: "api_save w (st\<lparr>api_keys := ks\<rparr>) = (st1, e)" by fastforce
      with False ks have "fst (handle_key_request caller req st) = st1"
        by (simp add: DeleteKey DeleteKeyController_def deref_member [OF wf m] api_Delete_def from_keys_def)
      moreover from api_save_keys [OF sv] have "api_keys st1 = ks" "next_addr st1 = next_addr st" by auto
      moreover have "set ks \<subseteq> set (api_keys st)" "distinct (map Comment ks)" "distinct (map addr ks)"
        using remove_first_subset [OF ks, of Comment] remove_first_subset [OF ks, of addr] wf by (auto simp: keys_wf_def api_ok_def)
      moreover have "caller \<in> set ks" using remove_first_keeps [OF ks m] False by simp
      ultimately show ?thesis using wf long by (auto simp: keys_wf_def api_ok_def usable_def)
    qed
  next
    case (NewKeyRight w ord name right)
    then show ?thesis
      by (intro same) (auto simp: NewKeyRightController_def AddNewRight_def Let_def intro!: change_rights_same [OF wf]
          split: sum.splits if_splits)
  next
    case (DeleteKeyRight w ord name right)
    then show ?thesis
      by (intro same) (auto simp: DeleteKeyRightController_def RemoveRight_def intro!: change_rights_same [OF wf]
          split: option.splits)
  next
    case (AddTrusted w now vms vm fp)
    then show ?thesis
      by (intro same) (auto simp: AddKeyTrustedVMController_def from_keys_def trusted_requests_same [OF wf] split: sum.split)
  next
    case (DeleteTrusted w vm fp)
    then show ?thesis
      by (intro same) (auto simp: DeleteKeyTrustedVMController_def from_keys_def trusted_requests_same [OF wf])
  next
    case (CleanTrusted w vms)
    then show ?thesis by (intro same) (simp add: trusted_requests_same [OF wf])
  qed
qed

text \<open>C12. No run of requests on API keys, one after the other, can lock everybody out: comments and identities stay
  unique, a usable key is left, and the key of the last request is one of them.\<close>

theorem key_requests_keep_access:
  assumes run: "key_steps st0 st" and wf: "keys_wf st0" and someone: "usable st0 c"
  shows "keys_wf st \<and> (\<exists>c. usable st c) \<and>
    (\<forall>presented caller req. IsValidKey st presented = Some caller \<longrightarrow>
       usable (fst (handle_key_request caller req st)) (Comment caller))"
proof -
  have "keys_wf st \<and> (\<exists>c. usable st c)"
    using run
  proof (induction rule: key_steps.induct)
    case Start
    then show ?case using wf someone by blast
  next
    case (Request st presented caller req st' e)
    then show ?case using request_keeps [of st presented caller req] by auto
  qed
  then show ?thesis using request_keeps by blast
qed

definition admin_key :: api_key where
  "admin_key = \<lparr>addr = 1, Comment = ''admin'', Key = long_key, SSHPrivate = [], SSHPublic = [], Rights = [],
     SSHAllowedFingerprints = []\<rparr>"

definition two_keys :: api_db where
  "two_keys = \<lparr>api_keys = [limited_key\<lparr>Key := CHR ''x'' # long_key\<rparr>, admin_key], next_addr = 2, api_file = NoFile\<rparr>"

lemmas two_keys_defs = two_keys_def admin_key_def limited_key_def long_key_def apiKeyMinLength_def

lemma two_keys_wf: "keys_wf two_keys" "usable two_keys ''admin''"
  by (simp_all add: keys_wf_def api_ok_def usable_def two_keys_defs)

theorem key_requests_keep_access_witness:
  "\<exists>st. key_steps two_keys st \<and> map Comment (api_keys st) = [''admin''] \<and> usable st ''admin'' \<and>
     handle_key_request admin_key (DeleteKey WriteOk ''admin'') st = (st, Some OwnKey)"
proof -
  let ?st = "fst (handle_key_request admin_key (DeleteKey WriteOk ''bob'') two_keys)"
  have valid: "IsValidKey two_keys long_key = Some admin_key"
    by (simp add: IsValidKey_def two_keys_defs)
  have run: "key_steps two_keys ?st"
    using key_steps.Request [OF key_steps.Start valid] by (metis prod.collapse)
  have st: "?st = two_keys\<lparr>api_keys := [admin_key], api_file := Holds [admin_key]\<rparr>"
    by (simp add: DeleteKeyController_def from_keys_def api_Delete_def api_save_WriteOk deref_def two_keys_defs)
  have "IsValidKey ?st long_key = Some admin_key" unfolding st by (simp add: IsValidKey_def two_keys_defs)
  with key_requests_keep_access [OF run two_keys_wf] have "usable (fst (handle_key_request admin_key (DeleteKey WriteOk ''admin'') ?st)) (Comment admin_key)"
    by blast
  moreover have "handle_key_request admin_key (DeleteKey WriteOk ''admin'') ?st = (?st, Some OwnKey)"
    unfolding st by (simp add: DeleteKeyController_def deref_def admin_key_def two_keys_def)
  ultimately have "usable ?st ''admin''" "handle_key_request admin_key (DeleteKey WriteOk ''admin'') ?st = (?st, Some OwnKey)"
    by (simp_all add: admin_key_def)
  moreover have "map Comment (api_keys ?st) = [''admin'']" unfolding st by (simp add: admin_key_def)
  ultimately show ?thesis using run by (intro exI [of _ ?st] conjI)
qed

text \<open>
  Requests that overlap can: each of two callers is valid on arrival, deletes the other's key, and no
  key is left.
\<close>

definition bob_key :: api_key where "bob_key = limited_key\<lparr>Key := CHR ''x'' # long_key\<rparr>"

theorem overlapping_deletions_lock_out:
  "IsValidKey two_keys (Key admin_key) = Some admin_key \<and> IsValidKey two_keys (Key bob_key) = Some bob_key \<and>
   (case handle_key_request admin_key (DeleteKey WriteOk ''bob'') two_keys of (st1, e1) \<Rightarrow>
    case handle_key_request bob_key (DeleteKey WriteOk ''admin'') st1 of (st2, e2) \<Rightarrow>
      e1 = None \<and> e2 = None \<and> api_keys st2 = [] \<and> api_file st2 = Holds [])"
proof -
  have "length long_key = 64" "CHR ''x'' # long_key \<noteq> long_key" by (simp_all add: long_key_def)
  then have "IsValidKey two_keys (Key admin_key) = Some admin_key" "IsValidKey two_keys (Key bob_key) = Some bob_key"
    by (simp_all add: IsValidKey_def two_keys_def bob_key_def admin_key_def limited_key_def apiKeyMinLength_def)
  then show ?thesis
    by (simp add: DeleteKeyController_def from_keys_def api_Delete_def api_save_WriteOk deref_def two_keys_def bob_key_def
        admin_key_def limited_key_def)
qed

end
