(* ===== verification/Controllers_Backups.thy ===== *)
theory Controllers_Backups
  imports Controllers_Vm Go_Sort
begin

text \<open>
  The requests on backups, \<open>cmd/mulchd/controllers/backup.go\<close>. A listing shows the allocation of
  each volume, its capacity is left out; a download ends with the copy of the volume to the client,
  a call of libvirt.
\<close>

record backup_entry =
  be_DiskName :: string
  be_VMName :: string
  be_Created :: time
  be_Expire :: time
  be_AuthorKey :: string
  be_AllocSize :: u64

definition list_backup :: "'w ext \<Rightarrow> string \<Rightarrow> string \<Rightarrow> ('w, backup_entry list) app_act" where
  "list_backup x vmFilter backupName =
     bindA (getA (\<lambda>s. bdb_GetByName (ap_backups s) backupName)) (\<lambda>found.
     case found of None \<Rightarrow> fail (Failed ''backup not found'' [backupName])
     | Some b \<Rightarrow>
         if vmFilter \<noteq> [] \<and> vmFilter \<noteq> cfg_Name (Config (bk_VM b)) then ret []
         else bindA (VolumeInfos x backupName PoolBackups) (\<lambda>allocation.
              ret [\<lparr>be_DiskName = DiskName b, be_VMName = cfg_Name (Config (bk_VM b)), be_Created = Created b,
                    be_Expire = Expire b, be_AuthorKey = bk_AuthorKey b, be_AllocSize = allocation\<rparr>]))"

definition ListBackupsController :: "'w ext \<Rightarrow> control_request \<Rightarrow> ('w, backup_entry list) app_act" where
  "ListBackupsController x req =
     (let vmFilter = cr_Form req ''vm'' in
      bindA (getA (\<lambda>s. bdb_GetNames (ap_backups s))) (\<lambda>backupNames.
      bindA (getA (\<lambda>s. GetCountForName (ap_vmdb s) vmFilter)) (\<lambda>count.
      bindA (checkA (vmFilter = [] \<or> count \<noteq> 0) (Failed ''can't find any VM with name'' [vmFilter])) (\<lambda>_.
      bindA (collectA (list_backup x vmFilter) backupNames) (\<lambda>retData.
      ret (sort_slice (\<lambda>b c. be_Created b < be_Created c) (concat retData)))))))"

definition DeleteBackupController :: "'w ext \<Rightarrow> control_request \<Rightarrow> ('w, unit) app_act" where
  "DeleteBackupController x req = app_BackupDelete x (cr_SubPath req)"

definition DownloadBackupController :: "'w ext \<Rightarrow> control_request \<Rightarrow> ('w, unit) app_act" where
  "DownloadBackupController x req =
     (let backupName = cr_SubPath req in
      bindA (GetConnection x) (\<lambda>_.
      bindA (getA (\<lambda>s. bdb_GetByName (ap_backups s) backupName)) (\<lambda>backup.
      bindA (checkA (backup \<noteq> None) (Failed ''backup not found in database'' [backupName])) (\<lambda>_.
      bindA (poolA PoolBackups (lv_VolLookup (x_lv x) PoolBackups backupName)) (\<lambda>_.
      lvA (lv_VolDownload (x_lv x) PoolBackups backupName []))))))"

text \<open>An uploaded backup has a VM with an empty configuration.\<close>

definition uploaded_backup :: "'w ext \<Rightarrow> control_request \<Rightarrow> string \<Rightarrow> duration \<Rightarrow> ('w, backup) app_act" where
  "uploaded_backup x req filename expire =
     bindA (nowA x) (\<lambda>created.
     bindA (if BackupNoExpiration < expire then bindA (nowA x) (\<lambda>now. ret (now + expire)) else ret zero_time) (\<lambda>expiration.
     ret \<lparr>DiskName = filename, Created = created, Expire = expiration, bk_AuthorKey = Comment (cr_Key req), bk_VM = empty_vm\<rparr>))"

definition UploadBackupController :: "'w ext \<Rightarrow> control_request \<Rightarrow> ('w, unit) app_act" where
  "UploadBackupController x req =
     (case cr_File req ''file'' of None \<Rightarrow> fail (Failed ''error with file field'' [])
      | Some (filename, content) \<Rightarrow>
          bindA (parse_expire (cr_Form req ''expire'')) (\<lambda>expire.
          bindA (getA (\<lambda>s. bdb_GetByName (ap_backups s) filename)) (\<lambda>existing.
          bindA (checkA (existing = None) (Failed ''backup already exists in database'' [filename])) (\<lambda>_.
          bindA (getA ap_config) (\<lambda>conf.
          bindA (with_error (failed_as (Failed ''unable to upload backup'' [filename]))
            (UploadFileToLibvirtFromReader x PoolBackups (GetTemplateFilepath conf ''volume.xml'') content filename)) (\<lambda>_.
          bindA (uploaded_backup x req filename expire) (\<lambda>backup.
          backupsA x (\<lambda>w. bdb_Add w backup))))))))"

definition SetBackupExpireController :: "'w ext \<Rightarrow> control_request \<Rightarrow> ('w, unit) app_act" where
  "SetBackupExpireController x req =
     bindA (parse_expire (cr_Form req ''expire'')) (\<lambda>expire.
     bindA (if BackupNoExpiration < expire then bindA (nowA x) (\<lambda>now. ret (now + expire)) else ret zero_time) (\<lambda>expireDate.
     backupsA x (\<lambda>w. bdb_Expire (cr_SubPath req) expireDate)))"

end
