(* ===== verification/Controllers_Internal.thy ===== *)
theory Controllers_Internal
  imports Vm_Build Controllers_Vm Common_Tools Go_Sort Go_Url Hubs
begin

text \<open>
  The requests of the VMs themselves to the internal server (\<open>phone.go\<close>, \<open>env.go\<close>, \<open>locked.go\<close>,
  \<open>cloud_init.go\<close> of \<open>controllers/\<close>, with \<open>server/cloudinit.go\<close>), and of the greenhouse
  (\<open>greenhouse.go\<close>). An answer is a text or an HTTP error. Traces are left out.
\<close>

datatype http_answer = HttpText string | HttpFailure int string

definition newline :: string where "newline = [CHR 0x0A]"

subsection \<open>Phone home\<close>

text \<open>
  The VM of a phone call: its new address is recorded, unless it is still in the greenhouse; a
  database that cannot be written is only logged.
\<close>

definition phone_entry :: "'w ext \<Rightarrow> string \<Rightarrow> vm_entry \<Rightarrow> ('w, unit) app_act" where
  "phone_entry x ip entry =
     bindA (getA (\<lambda>s. GetGreenhouseEntryByName (ap_vmdb s) (Name entry))) (\<lambda>sprout.
     if \<not> isl sprout then ret ()
     else if LastIP (VM entry) \<noteq> ip then
       bindA (change_vm InDatabase (Name entry) (VM entry) (\<lambda>vm. vm\<lparr>LastIP := ip\<rparr>)) (\<lambda>_.
       bindA (resultA (vmdbA x vmdb_Update)) (\<lambda>_. ret ()))
     else ret ())"

definition PhoneController ::
  "'w ext \<Rightarrow> (string \<Rightarrow> string) \<Rightarrow> string \<Rightarrow> phone_call hub \<Rightarrow> ('w, string \<times> phone_call hub) app_act" where
  "PhoneController x form RemoteAddr hub =
     (let instanceID = form ''instance_id'';
          ip = (case SplitHostPort RemoteAddr of None \<Rightarrow> [] | Some (host, port) \<Rightarrow> host);
          cloudInit = (form ''fqdn'' \<noteq> [])
      in if instanceID = [] then ret (''FAILED'' @ newline, hub)
         else bindA (getA (\<lambda>s. GetEntryBySecretUUID (ap_vmdb s) instanceID)) (\<lambda>found.
              bindA (case found of Inl e \<Rightarrow> ret [] | Inr entry \<Rightarrow>
                       bindA (phone_entry x ip entry) (\<lambda>_.
                       ret (if form ''dump_config'' = TrueStr then cfg_FileContent (Config (VM entry)) @ newline else []))) (\<lambda>out.
              ret (out, BroadcastPhoneCall instanceID ip cloudInit hub))))"

subsection \<open>Environment and lock\<close>

text \<open>\<open>quote\<close> is \<open>shellescape.Quote\<close>, a third-party function.\<close>

definition env_text :: "(string \<Rightarrow> string) \<Rightarrow> (string, string) gomap \<Rightarrow> app_error option \<Rightarrow> string" where
  "env_text quote env err =
     ''# Created by Mulch, erased during boot (see TOML to add yours)'' @ newline @ newline @
     (case err of None \<Rightarrow> [] | Some (Failed e args) \<Rightarrow> ''# ERROR while getting env: '' @ e @ '': '' @ concat args @ newline @ newline
      | Some e \<Rightarrow> ''# ERROR while getting env: '' @ newline @ newline) @
     concat (map (\<lambda>key. ''export '' @ key @ ''='' @ quote (case gm_get env key of None \<Rightarrow> [] | Some v \<Rightarrow> v) @ newline)
       (sort_slice str_less (gm_keys env)))"

definition with_instance :: "(string \<Rightarrow> string) \<Rightarrow> 'w app \<Rightarrow> (vm_entry \<Rightarrow> http_answer) \<Rightarrow> http_answer" where
  "with_instance form s answer =
     (if form ''instance_id'' = [] then HttpFailure 400 ''missing instance_id''
      else case GetEntryBySecretUUID (ap_vmdb s) (form ''instance_id'') of
          Inl e \<Rightarrow> HttpFailure 404 ''unknown instance_id'' | Inr entry \<Rightarrow> answer entry)"

definition EnvController :: "parsers \<Rightarrow> (string \<Rightarrow> string) \<Rightarrow> (string \<Rightarrow> string) \<Rightarrow> 'w app \<Rightarrow> http_answer" where
  "EnvController px quote form s =
     with_instance form s (\<lambda>entry.
       case GetEnvMap px (ap_config s) (lvs_Address (ap_libvirt s)) (ap_secrets s) (VM entry) (Name entry) of
         (env, err) \<Rightarrow> HttpText (env_text quote env err))"

definition LockedController :: "(string \<Rightarrow> string) \<Rightarrow> 'w app \<Rightarrow> http_answer" where
  "LockedController form s =
     with_instance form s (\<lambda>entry. HttpText ((if Locked (VM entry) then TrueStr else FalseStr) @ newline))"

subsection \<open>Cloud-Init\<close>

definition cloudInitMetaData :: "string \<Rightarrow> string \<Rightarrow> string" where
  "cloudInitMetaData i hostname = ''instance-id: '' @ i @ newline @ ''local-hostname: '' @ hostname @ newline"

definition user_data_variables :: "server_config \<Rightarrow> string \<Rightarrow> ssh_pair \<Rightarrow> vm \<Rightarrow> (string, string) gomap" where
  "user_data_variables conf mulchIP pair vm =
     (let homeURL = ''http://'' @ mulchIP @ '':'' @ itoa (sc_InternalServerPort conf) in
      [(''_SSH_PUBKEY'', pair_Public pair),
       (''_PACKAGE_UPGRADE'', if cfg_InitUpgrade (Config vm) then TrueStr else FalseStr),
       (''_HOME_URL'', homeURL), (''_PHONE_HOME_URL'', homeURL @ ''/phone''),
       (''_TIMEZONE'', cfg_Timezone (Config vm)), (''_HOSTNAME'', cfg_Hostname (Config vm)),
       (''_MULCH_SUPER_USER'', sc_MulchSuperUser conf), (''_APP_USER'', cfg_AppUser (Config vm))])"

text \<open>\<open>order\<close> is the order in which Go visits the variables found in the template.\<close>

definition CloudInitDataGen :: "(string list \<Rightarrow> string list) \<Rightarrow> 'w ext \<Rightarrow> vm \<Rightarrow> ('w, string \<times> string) app_act" where
  "CloudInitDataGen order x vm =
     bindA (getA (\<lambda>s. pdb_GetByName (ap_pairs s) (MulchSuperUserSSHKey vm))) (\<lambda>found.
     case found of None \<Rightarrow> fail (Failed ''can't find SSH super user key pair'' [])
     | Some pair \<Rightarrow>
         bindA (getA (\<lambda>s. (ap_config s, lvs_Address (ap_libvirt s)))) (\<lambda>(conf, mulchIP).
         bindA (osA ''open'' (os_Open (x_os x) (GetTemplateFilepath conf ''ci-user-data.yml''))) (\<lambda>data.
         ret (cloudInitMetaData (SecretUUID vm) (cfg_Hostname (Config vm)),
              StringExpandVariables order data (user_data_variables conf mulchIP pair vm)))))"

definition CloudInitController :: "(string list \<Rightarrow> string list) \<Rightarrow> 'w ext \<Rightarrow> string \<Rightarrow> ('w, http_answer) app_act" where
  "CloudInitController order x SubPath =
     (case go_split ''/'' SubPath of
        [uuid, filename] \<Rightarrow>
          bindA (getA (\<lambda>s. GetEntryBySecretUUID (ap_vmdb s) uuid)) (\<lambda>found.
          case found of Inl e \<Rightarrow> ret (HttpFailure 500 ''UUID not found in database'')
          | Inr entry \<Rightarrow>
              bindA (resultA (CloudInitDataGen order x (VM entry))) (\<lambda>r.
              ret (case r of Inl e \<Rightarrow> HttpFailure 500 ''cannot generate''
                   | Inr (metaData, userData) \<Rightarrow>
                       if filename = ''meta-data'' then HttpText (metaData @ newline)
                       else if filename = ''user-data'' then HttpText (userData @ newline)
                       else if filename = ''vendor-data'' \<or> filename = ''network-config'' then HttpText newline
                       else HttpFailure 400 ''invalid requested filename'')))
      | _ \<Rightarrow> ret (HttpFailure 400 ''request path is invalid''))"

subsection \<open>Greenhouse\<close>

definition ListGreenhouseVMsController :: "vmdb \<Rightarrow> vm_name list" where
  "ListGreenhouseVMsController st =
     sort_slice (\<lambda>n m. if vn_name n = vn_name m then vn_rev n < vn_rev m else str_less (vn_name n) (vn_name m))
       (GetGreenhouseNames st)"

definition greenhouse_entry :: "control_request \<Rightarrow> ('w, vm_entry) app_act" where
  "greenhouse_entry req =
     (let vmName = cr_SubPath req; revisionParams = cr_Form req ''revision'' in
      if vmName = [] then fail (Failed ''invalid VM name'' [])
      else if revisionParams \<noteq> [] then
        (case atoi revisionParams of None \<Rightarrow> fail (Failed ''invalid revision'' [revisionParams])
         | Some revision \<Rightarrow> lookupA (\<lambda>s. GetGreenhouseEntryByName (ap_vmdb s) (NewVMName vmName revision)))
      else bindA (getA (\<lambda>s. SearchGreenhouseEntries (ap_vmdb s) vmName)) (\<lambda>entries.
           case entries of [] \<Rightarrow> fail (Failed ''no greenhouse VM with the name'' [vmName])
           | [entry] \<Rightarrow> ret entry
           | _ \<Rightarrow> fail (Failed ''several greenhouse VMs'' [vmName])))"

text \<open>The flag that forbids to keep a VM whose script failed is what \<open>os_ForceDelete\<close> answers to its build.\<close>

definition AbordGreenhouseVMController :: "'w ext \<Rightarrow> control_request \<Rightarrow> ('w, unit) app_act" where
  "AbordGreenhouseVMController x req =
     bindA (greenhouse_entry req) (\<lambda>entry.
     with_error (failed_as (Failed ''unable to abort'' [])) (VMStopByName x (Name entry) True (seconds 10)))"

end
