(* ===== verification/Controllers_Listings.thy ===== *)
theory Controllers_Listings
  imports Controllers_Vm Go_Sort Complex_Main
begin

text \<open>
  What the server shows of its VMs: \<open>ListVMsController\<close>, \<open>GetVMConfigController\<close>,
  \<open>GetVMInfosController\<close>, \<open>GetVMDoActionsController\<close> of \<open>controllers/vm.go\<close>, the search of
  \<open>controllers/vm_search.go\<close>, the table of \<open>controllers/state.go\<close> and \<open>App.Status\<close> of \<open>app.go\<close>.
  An answer is the value the code encodes, or an error.
\<close>

text \<open>What most of them ask of a VM: its record, the state of its domain, whether it is active.\<close>

definition vm_state :: "'w ext \<Rightarrow> vm_name \<Rightarrow> ('w, vm \<times> dom_state \<times> bool) app_act" where
  "vm_state x vmName =
     bindA (vmA vmName) (\<lambda>vm.
     bindA (existing_domain x vmName) (\<lambda>dn.
     bindA (lvA (lv_GetState (x_lv x) dn)) (\<lambda>state.
     bindA (lookupA (\<lambda>s. IsVMActive (ap_vmdb s) vmName)) (\<lambda>active.
     ret (vm, state, active)))))"

definition name_order :: "string \<times> int \<Rightarrow> string \<times> int \<Rightarrow> bool" where
  "name_order a b \<longleftrightarrow> (if fst a = fst b then snd a < snd b else str_less (fst a) (fst b))"

definition operation_string :: "vm_operation \<Rightarrow> string" where
  "operation_string op = (case op of OpNone \<Rightarrow> [] | OpBackup \<Rightarrow> ''backup'' | OpRestore \<Rightarrow> ''restore'')"

subsection \<open>The list of VMs\<close>

definition ListVMs_basic :: "vmdb \<Rightarrow> string list" where
  "ListVMs_basic st = sort_slice str_less (map vn_name (GetNames st))"

record vm_list_entry =
  vl_Name :: string
  vl_Revision :: int
  vl_Active :: bool
  vl_LastIP :: string
  vl_State :: string
  vl_Locked :: bool
  vl_WIP :: string
  vl_SuperUser :: string
  vl_AppUser :: string

definition list_vm :: "'w ext \<Rightarrow> vm_name \<Rightarrow> ('w, vm_list_entry) app_act" where
  "list_vm x vmName =
     bindA (vm_state x vmName) (\<lambda>(vm, state, active).
     bindA (getA ap_config) (\<lambda>conf.
     ret \<lparr>vl_Name = vn_name vmName, vl_Revision = vn_rev vmName, vl_Active = active, vl_LastIP = LastIP vm,
          vl_State = LibvirtDomainStateToString state, vl_Locked = Locked vm, vl_WIP = operation_string (WIP vm),
          vl_SuperUser = sc_MulchSuperUser conf, vl_AppUser = cfg_AppUser (Config vm)\<rparr>))"

definition ListVMsController :: "'w ext \<Rightarrow> control_request \<Rightarrow> ('w, string list + vm_list_entry list) app_act" where
  "ListVMsController x req =
     (if form_true req ''basic'' then getA (\<lambda>s. Inl (ListVMs_basic (ap_vmdb s)))
      else bindA (getA (\<lambda>s. GetNames (ap_vmdb s))) (\<lambda>vmNames.
           bindA (collectA (list_vm x) vmNames) (\<lambda>retData.
           ret (Inr (sort_slice (\<lambda>a b. name_order (vl_Name a, vl_Revision a) (vl_Name b, vl_Revision b)) retData)))))"

subsection \<open>One VM\<close>

text \<open>\<open>entry.VM\<close> is nil for the entry without VM of an \<open>activate\<close> request.\<close>

definition requested_vm :: "control_request \<Rightarrow> ('w, target \<times> vm) app_act" where
  "requested_vm req =
     bindA (checkA (cr_SubPath req \<noteq> []) (Failed ''no VM name given'' [])) (\<lambda>_.
     bindA (getEntryFromRequest (cr_SubPath req) req) (\<lambda>t.
     case tg_VM t of None \<Rightarrow> fail (NilPointer ''entry.VM'') | Some vm \<Rightarrow> ret (t, vm)))"

definition GetVMConfigController :: "control_request \<Rightarrow> ('w, string) app_act" where
  "GetVMConfigController req = bindA (requested_vm req) (\<lambda>(t, vm). ret (cfg_FileContent (Config vm)))"

record vm_infos =
  vi_Name :: vm_name
  vi_Active :: bool
  vi_Up :: bool
  vi_CPUCount :: int
  vi_RAMSizeMB :: u64
  vi_DiskSizeMB :: u64
  vi_AllocatedDiskSizeMB :: u64
  vi_BackupDiskSizeMB :: u64
  vi_Domains :: "string list"
  vi_VM :: vm
  vi_DoActions :: "string list"
  vi_Tags :: "string list"

text \<open>The remaining fields of an answer are fields of the VM or of its configuration, read from \<open>vi_VM\<close>.\<close>

definition GetVMInfosController :: "'w ext \<Rightarrow> control_request \<Rightarrow> ('w, vm_infos) app_act" where
  "GetVMInfosController x req =
     bindA (requested_vm req) (\<lambda>(t, vm).
     bindA (is_running x (tg_Name t)) (\<lambda>running.
     bindA (VMGetDiskName x (tg_Name t)) (\<lambda>diskName.
     bindA (VolumeInfos x diskName PoolDisks) (\<lambda>allocation.
     let conf = Config vm in
     ret \<lparr>vi_Name = tg_Name t, vi_Active = tg_Active t, vi_Up = running, vi_CPUCount = cfg_CPUCount conf,
          vi_RAMSizeMB = cfg_RAMSize conf div 1024 div 1024, vi_DiskSizeMB = cfg_DiskSize conf div 1024 div 1024,
          vi_AllocatedDiskSizeMB = allocation div 1024 div 1024, vi_BackupDiskSizeMB = cfg_BackupDiskSize conf div 1024 div 1024,
          vi_Domains = map dom_Name (cfg_Domains conf), vi_VM = vm, vi_DoActions = gm_keys (cfg_DoActions conf),
          vi_Tags = gm_keys (cfg_Tags conf)\<rparr>))))"

definition GetVMDoActionsController :: "control_request \<Rightarrow> ('w, (string \<times> string \<times> string) list) app_act" where
  "GetVMDoActionsController req =
     bindA (requested_vm req) (\<lambda>(t, vm).
     ret (sort_slice (\<lambda>a b. str_less (fst a) (fst b))
       (map (\<lambda>action. (da_Name action, da_User action, da_Description action)) (gm_vals (cfg_DoActions (Config vm))))))"

subsection \<open>Search\<close>

datatype search_value = SvString string | SvNumber rat | SvBool bool | SvOther

fun one_string :: "string \<Rightarrow> (string \<Rightarrow> string + search_value) \<Rightarrow> search_value list \<Rightarrow> string + search_value" where
  "one_string name f [SvString s] = f s"
| "one_string name f [v] = Inl (name @ ''() argument must be a string'')"
| "one_string name f args = Inl (name @ ''() need 1 argument'')"

definition scripts_of :: "vm_config \<Rightarrow> string \<Rightarrow> string + vm_script list" where
  "scripts_of conf scriptType =
     (if scriptType = ''install'' then Inr (cfg_Install conf)
      else if scriptType = ''prepare'' then Inr (cfg_Prepare conf)
      else if scriptType = ''backup'' then Inr (cfg_Backup conf)
      else if scriptType = ''restore'' then Inr (cfg_Restore conf)
      else Inl ''has_script(): invalid script type'')"

fun has_script :: "vm_config \<Rightarrow> search_value list \<Rightarrow> string + search_value" where
  "has_script conf [SvString scriptType, SvString scriptName] =
     (case scripts_of conf scriptType of Inl e \<Rightarrow> Inl e
      | Inr scripts \<Rightarrow> Inr (SvBool (list_ex (\<lambda>script. path_base (ScriptURL script) = scriptName) scripts)))"
| "has_script conf [a, b] = Inl ''has_script() argument must be a string''"
| "has_script conf args = Inl ''has_script() need 2 arguments''"

text \<open>The functions an expression can call on the current VM; \<open>glob\<close> is a third-party function.\<close>

definition searchVMsFunctions ::
  "(string \<Rightarrow> string \<Rightarrow> bool) \<Rightarrow> vm \<Rightarrow> string \<Rightarrow> (search_value list \<Rightarrow> string + search_value) option" where
  "searchVMsFunctions glob vm name =
     (let conf = Config vm in
      if name = ''strlen'' then Some (one_string name (\<lambda>s. Inr (SvNumber (of_nat (length s)))))
      else if name = ''env'' then
        Some (one_string name (\<lambda>s. Inr (SvString (case gm_get (cfg_Env conf) s of None \<Rightarrow> [] | Some v \<Rightarrow> v))))
      else if name = ''has_domain'' then
        Some (one_string name (\<lambda>s. Inr (SvBool (list_ex (\<lambda>d. dom_Name d = s) (cfg_Domains conf)))))
      else if name = ''has_script'' then Some (has_script conf)
      else if name = ''has_action'' then Some (one_string name (\<lambda>s. Inr (SvBool (gm_get (cfg_DoActions conf) s \<noteq> None))))
      else if name = ''has_tag'' then Some (one_string name (\<lambda>s. Inr (SvBool (gm_get (cfg_Tags conf) s \<noteq> None))))
      else if name = ''like'' then Some (one_string name (\<lambda>s. Inr (SvBool (glob s (cfg_Name conf)))))
      else None)"

text \<open>\<open>InitDate.Unix()\<close>: times are counted in nanoseconds from the zero time of Go.\<close>

definition unix_epoch :: int where "unix_epoch = 62135596800"

definition unix :: "time \<Rightarrow> int" where "unix t = t div 1000000000 - unix_epoch"

text \<open>Sizes are floats in the code; a size below 2^53 bytes has no rounding error.\<close>

definition gigabytes :: "u64 \<Rightarrow> rat" where "gigabytes n = of_int (uint n) / 1024 / 1024 / 1024"

definition search_params :: "vm_name \<Rightarrow> vm \<Rightarrow> dom_state \<Rightarrow> bool \<Rightarrow> (string, search_value) gomap" where
  "search_params vmName vm state active =
     [(''name'', SvString (vn_name vmName)), (''revision'', SvNumber (of_int (vn_rev vmName))),
      (''locked'', SvBool (Locked vm)), (''active'', SvBool active),
      (''state'', SvString (LibvirtDomainStateToString state)), (''author'', SvString (AuthorKey vm)),
      (''init_date'', SvNumber (of_int (unix (InitDate vm)))), (''seed'', SvString (cfg_Seed (Config vm))),
      (''cpu_count'', SvNumber (of_int (cfg_CPUCount (Config vm)))), (''ram_gb'', SvNumber (gigabytes (cfg_RAMSize (Config vm)))),
      (''disk_gb'', SvNumber (gigabytes (cfg_DiskSize (Config vm)))), (''hostname'', SvString (cfg_Hostname (Config vm)))]"

text \<open>A compiled expression of the third-party evaluator: what it answers to parameters and functions.\<close>

type_synonym search_expression =
  "(string, search_value) gomap \<Rightarrow> (string \<Rightarrow> (search_value list \<Rightarrow> string + search_value) option) \<Rightarrow> string + search_value"

definition search_vm :: "'w ext \<Rightarrow> (string \<Rightarrow> string \<Rightarrow> bool) \<Rightarrow> search_expression \<Rightarrow> vm_name \<Rightarrow> ('w, vm_name list) app_act" where
  "search_vm x glob expr vmName =
     bindA (vm_state x vmName) (\<lambda>(vm, state, active).
     case expr (search_params vmName vm state active) (searchVMsFunctions glob vm) of
       Inl e \<Rightarrow> fail (Failed ''evaluate'' [e])
     | Inr (SvBool b) \<Rightarrow> ret (if b then [vmName] else [])
     | Inr v \<Rightarrow> fail (Failed ''require a boolean expression'' []))"

definition search_line :: "bool \<Rightarrow> vm_name \<Rightarrow> string" where
  "search_line showRevision vmName =
     (if showRevision then vn_name vmName @ '';'' @ itoa (vn_rev vmName) else vn_name vmName)"

definition SearchVMsController ::
  "'w ext \<Rightarrow> (string \<Rightarrow> string \<Rightarrow> bool) \<Rightarrow> (string \<Rightarrow> string + search_expression) \<Rightarrow> control_request \<Rightarrow> ('w, string list) app_act" where
  "SearchVMsController x glob compile req =
     (let q = cr_Form req ''q'' in
      if trim_space q = [] then fail (Failed ''empty search expression'' [])
      else case compile q of Inl e \<Rightarrow> fail (Failed ''expression'' [e])
      | Inr expr \<Rightarrow>
          bindA (getA (\<lambda>s. GetNames (ap_vmdb s))) (\<lambda>vmNames.
          bindA (collectA (search_vm x glob expr) vmNames) (\<lambda>found.
          let matches = concat found in
          bindA (checkA (\<not> (form_true req ''fail-on-empty'' \<and> matches = [])) (Failed ''no matches'' [])) (\<lambda>_.
          ret (map (search_line (form_true req ''show-revision''))
            (sort_slice (\<lambda>a b. name_order (vn_name a, vn_rev a) (vn_name b, vn_rev b)) matches))))))"

subsection \<open>State and status\<close>

text \<open>The rows of \<open>_states.csv\<close> and the files \<open><ID>.toml\<close>; the archive also holds the encrypted secrets.\<close>

definition state_row :: "'w ext \<Rightarrow> vm_name \<Rightarrow> ('w, string list \<times> string \<times> string) app_act" where
  "state_row x vmName =
     bindA (vm_state x vmName) (\<lambda>(vm, state, active).
     ret ([vn_name vmName, itoa (vn_rev vmName), if active then TrueStr else FalseStr,
           if Locked vm then TrueStr else FalseStr, LibvirtDomainStateToString state, AuthorKey vm],
          vn_ID vmName @ ''.toml'', cfg_FileContent (Config vm)))"

definition GetStateZipController :: "'w ext \<Rightarrow> ('w, string list list \<times> (string \<times> string) list) app_act" where
  "GetStateZipController x =
     bindA (getA (\<lambda>s. GetNames (ap_vmdb s))) (\<lambda>vmNames.
     bindA (collectA (state_row x) vmNames) (\<lambda>rows.
     ret ([''Name'', ''Revision'', ''Active'', ''Locked'', ''State'', ''Author''] # map fst rows, map snd rows)))"

record vm_status =
  vs_CPUs :: int
  vs_ActiveCPUs :: int
  vs_ActiveVMs :: int
  vs_MemMB :: int
  vs_ActiveMemMB :: int
  vs_ProvisionedMB :: int
  vs_AllocatedMB :: int

definition mb :: "u64 \<Rightarrow> int" where "mb n = uint (n div 1024 div 1024)"

definition status_vm :: "'w ext \<Rightarrow> vm_name \<Rightarrow> ('w, vm \<times> bool \<times> u64) app_act" where
  "status_vm x vmName =
     bindA (vmA vmName) (\<lambda>vm.
     bindA (existing_domain x vmName) (\<lambda>dn.
     bindA (lvA (lv_GetState (x_lv x) dn)) (\<lambda>state.
     bindA (VMGetDiskName x vmName) (\<lambda>diskName.
     bindA (VolumeInfos x diskName PoolDisks) (\<lambda>allocation.
     ret (vm, state = DomRunning, allocation))))))"

definition add_status :: "vm_status \<Rightarrow> vm \<times> bool \<times> u64 \<Rightarrow> vm_status" where
  "add_status t = (\<lambda>(vm, running, allocation).
     let conf = Config vm in
     \<lparr>vs_CPUs = vs_CPUs t + cfg_CPUCount conf,
      vs_ActiveCPUs = (if running then vs_ActiveCPUs t + cfg_CPUCount conf else vs_ActiveCPUs t),
      vs_ActiveVMs = (if running then vs_ActiveVMs t + 1 else vs_ActiveVMs t),
      vs_MemMB = vs_MemMB t + mb (cfg_RAMSize conf),
      vs_ActiveMemMB = (if running then vs_ActiveMemMB t + mb (cfg_RAMSize conf) else vs_ActiveMemMB t),
      vs_ProvisionedMB = vs_ProvisionedMB t + mb (cfg_DiskSize conf),
      vs_AllocatedMB = vs_AllocatedMB t + mb allocation\<rparr>)"

text \<open>The part of the status that is counted; the sizes of the host and of the pools are read from libvirt.\<close>

definition app_Status :: "'w ext \<Rightarrow> ('w, int \<times> vm_status) app_act" where
  "app_Status x =
     bindA (GetConnection x) (\<lambda>_.
     bindA (poolA PoolDisks (lv_Refresh (x_lv x) PoolDisks)) (\<lambda>_.
     bindA (poolA PoolBackups (lv_Refresh (x_lv x) PoolBackups)) (\<lambda>_.
     bindA (getA (\<lambda>s. GetNames (ap_vmdb s))) (\<lambda>vmNames.
     bindA (collectA (status_vm x) vmNames) (\<lambda>vms.
     ret (int (length vmNames), foldl add_status
       \<lparr>vs_CPUs = 0, vs_ActiveCPUs = 0, vs_ActiveVMs = 0, vs_MemMB = 0, vs_ActiveMemMB = 0, vs_ProvisionedMB = 0,
        vs_AllocatedMB = 0\<rparr> vms))))))"

end
