(* ===== verification/Controllers_Secrets.thy ===== *)
theory Controllers_Secrets
  imports Secrets_Props Vm_Database_Props Go_Sort
begin

text \<open>
  The requests on secrets, \<open>cmd/mulchd/controllers/secret.go\<close> (the synchronisation with a peer is
  \<open>SyncSecretsController\<close> of the theory \<open>Secrets\<close>). What a change asks of the outside is gathered
  in \<open>secret_calls\<close>: the nonce and the outcome of the save, the synchronisation with one peer, the
  peers, the VMs a peer announces, the clock.
\<close>

record secret_calls =
  sc_codec :: codec
  sc_nonce :: string
  sc_write :: secret_write
  sc_sync :: "config_peer \<Rightarrow> secret_db \<Rightarrow> secret_db \<times> secret_error option"
  sc_peers :: "config_peer list"
  sc_users :: "config_peer \<Rightarrow> string + string list"
  sc_now :: time

datatype secret_reply = SecretFailed string secret_error | SecretInUse "string list" | SecretDone string "string list"

definition users_of :: "secret_calls \<Rightarrow> vmdb \<Rightarrow> string \<Rightarrow> secret_error + string list" where
  "users_of c vms key = GetAllVMsUsingSecret vms (sc_users c) (sc_peers c) key"

definition SetSecretController ::
  "secret_calls \<Rightarrow> vmdb \<Rightarrow> string \<Rightarrow> string \<Rightarrow> string \<Rightarrow> secret_db \<Rightarrow> secret_db \<times> secret_reply" where
  "SetSecretController c vms author orgKey v st =
     (case CleanKey orgKey of Inl e \<Rightarrow> (st, SecretFailed ''Invalid key'' e)
      | Inr key \<Rightarrow>
          (case Set_secret (sc_codec c) (sc_nonce c) (sc_write c) (sc_sync c) (sc_peers c) (sc_now c) key v author st of
             (st1, Some e) \<Rightarrow> (st1, SecretFailed ''Cannot set secret'' e)
           | (st1, None) \<Rightarrow>
               (case users_of c vms key of Inl e \<Rightarrow> (st1, SecretFailed [] e) | Inr users \<Rightarrow> (st1, SecretDone key users))))"

definition GetSecretController :: "string \<Rightarrow> secret_db \<Rightarrow> secret_error + string" where
  "GetSecretController orgKey st =
     (case CleanKey orgKey of Inl e \<Rightarrow> Inl e
      | Inr key \<Rightarrow> (case Get st key of Inl e \<Rightarrow> Inl e | Inr s \<Rightarrow> Inr (Value s)))"

definition ListSecretsController :: "string \<Rightarrow> secret_db \<Rightarrow> secret_error + (string \<times> time \<times> string) list" where
  "ListSecretsController path st =
     (case mapE (Get st) (filter (\<lambda>name. \<not> (path \<noteq> [] \<and> \<not> has_prefix path name)) (GetKeys st)) of
        Inl e \<Rightarrow> Inl e
      | Inr found \<Rightarrow> Inr (sort_slice (\<lambda>a b. str_less (fst a) (fst b))
          (map (\<lambda>s. (sec_Key s, Modified s, sec_AuthorKey s)) found)))"

definition DeleteSecretController ::
  "secret_calls \<Rightarrow> vmdb \<Rightarrow> string \<Rightarrow> string \<Rightarrow> secret_db \<Rightarrow> secret_db \<times> secret_reply" where
  "DeleteSecretController c vms author orgKey st =
     (case CleanKey orgKey of Inl e \<Rightarrow> (st, SecretFailed ''Invalid key'' e)
      | Inr key \<Rightarrow>
          (case users_of c vms key of Inl e \<Rightarrow> (st, SecretFailed [] e)
           | Inr users \<Rightarrow>
               if users \<noteq> [] then (st, SecretInUse users)
               else (case Delete_secret (sc_codec c) (sc_nonce c) (sc_write c) (sc_sync c) (sc_peers c) (sc_now c) key author st of
                       (st1, Some e) \<Rightarrow> (st1, SecretFailed ''Cannot delete secret'' e)
                     | (st1, None) \<Rightarrow> (st1, SecretDone key []))))"

definition GetVMsUsingSecretsController :: "vmdb \<Rightarrow> string \<Rightarrow> secret_error + string list" where
  "GetVMsUsingSecretsController vms orgKey =
     (case CleanKey orgKey of Inl e \<Rightarrow> Inl e | Inr key \<Rightarrow> GetVMsUsingSecret vms key)"

definition ListSecretsUsageController ::
  "(string \<Rightarrow> string) \<Rightarrow> secret_db \<Rightarrow> vmdb \<Rightarrow> (config_peer \<Rightarrow> string + secret_usage list) \<Rightarrow> config_peer list
    \<Rightarrow> secret_error + secret_usage list" where
  "ListSecretsUsageController form st vms call peers = GetSecretsUsage st vms (form ''with-peers'' = ''true'') call peers"

text \<open>\<open>stat\<close> is what \<open>os.Stat\<close> answers for the file.\<close>

definition SecretsStatsController :: "string + int \<Rightarrow> secret_db \<Rightarrow> secret_error + int \<times> nat \<times> nat" where
  "SecretsStatsController stat st = (case stat of Inl e \<Rightarrow> Inl (SecIO e) | Inr n \<Rightarrow> Inr (n, GetStats st))"

subsection \<open>A secret in use\<close>

lemma users_exact:
  assumes "\<forall>n\<in>set ns. \<exists>vm. GetByName vms n = Inr vm"
  shows "\<exists>users. foldE (\<lambda>vmName res. case GetByName vms vmName of Inl e \<Rightarrow> Inl (SecVmError e)
       | Inr vm \<Rightarrow> Inr (res @ map (\<lambda>_. vn_ID vmName) (filter (\<lambda>s. s = key) (cfg_Secrets (Config vm))))) ns res = Inr (res @ users) \<and>
     (\<forall>n\<in>set ns. \<forall>vm. GetByName vms n = Inr vm \<longrightarrow> key \<in> set (cfg_Secrets (Config vm)) \<longrightarrow> vn_ID n \<in> set users)"
  using assms
proof (induction ns arbitrary: res)
  case (Cons n ns)
  then obtain vm where vm: "GetByName vms n = Inr vm" by auto
  let ?u = "map (\<lambda>_. vn_ID n) (filter (\<lambda>s. s = key) (cfg_Secrets (Config vm)))"
  from Cons.IH [of "res @ ?u"] Cons.prems obtain users where
    u: "foldE (\<lambda>vmName res. case GetByName vms vmName of Inl e \<Rightarrow> Inl (SecVmError e)
       | Inr vm \<Rightarrow> Inr (res @ map (\<lambda>_. vn_ID vmName) (filter (\<lambda>s. s = key) (cfg_Secrets (Config vm))))) ns (res @ ?u) =
      Inr ((res @ ?u) @ users)"
    "\<forall>n\<in>set ns. \<forall>vm. GetByName vms n = Inr vm \<longrightarrow> key \<in> set (cfg_Secrets (Config vm)) \<longrightarrow> vn_ID n \<in> set users" by auto
  show ?case
    by (rule exI [of _ "?u @ users"]) (use vm u in auto)
qed simp


lemma peer_users:
  assumes "foldE (\<lambda>peer res. if \<not> cp_SyncSecrets peer then Inr res
         else case call peer of Inl e \<Rightarrow> Inl (PeerFailed e) | Inr vms \<Rightarrow> Inr (res @ map (\<lambda>vm. vm @ ''@'' @ cp_Name peer) vms))
       peers res = Inr r"
  shows "length res \<le> length r \<and> (\<forall>p\<in>set peers. cp_SyncSecrets p \<longrightarrow> (\<exists>v. call p = Inr v \<and> length v \<le> length r))"
  using assms
proof (induction peers arbitrary: res)
  case (Cons p ps)
  show ?case
  proof (cases "cp_SyncSecrets p")
    case True
    with Cons.prems obtain v where v: "call p = Inr v" by (auto split: sum.splits)
    with Cons.prems True have "length (res @ map (\<lambda>vm. vm @ ''@'' @ cp_Name p) v) \<le> length r \<and>
        (\<forall>q\<in>set ps. cp_SyncSecrets q \<longrightarrow> (\<exists>v. call q = Inr v \<and> length v \<le> length r))"
      by (intro Cons.IH) simp
    with v show ?thesis by auto
  next
    case False
    with Cons.prems have "length res \<le> length r \<and> (\<forall>q\<in>set ps. cp_SyncSecrets q \<longrightarrow> (\<exists>v. call q = Inr v \<and> length v \<le> length r))"
      by (intro Cons.IH) simp
    with False show ?thesis by auto
  qed
qed simp

definition vm_uses :: "vmdb \<Rightarrow> string \<Rightarrow> bool" where
  "vm_uses vms key \<longleftrightarrow> (\<exists>n\<in>set (GetNames vms). \<exists>vm. GetByName vms n = Inr vm \<and> key \<in> set (cfg_Secrets (Config vm)))"

lemma names_found:
  assumes "vmdb_ok vms" and "n \<in> set (GetNames vms)"
  shows "\<exists>vm. GetByName vms n = Inr vm"
proof -
  from assms obtain k e where e: "(k, e) \<in> set (db vms)" "Name e = n" by (auto simp: GetNames_def gm_vals_def)
  have "entries_ok (db vms)" using assms(1) by (simp add: vmdb_ok_def)
  with e have "gm_get (db vms) (vn_ID n) = Some e"
    by (auto simp: entries_ok_def gm_ok_def entry_ok_def gm_get_def)
  then show ?thesis by (simp add: GetByName_def GetEntryByName_def getEntryByID_def)
qed

lemma users_found:
  assumes ok: "vmdb_ok vms" and all: "GetAllVMsUsingSecret vms call peers key = Inr users" and none: "users = []"
  shows "\<not> vm_uses vms key \<and> (\<forall>p\<in>set peers. cp_SyncSecrets p \<longrightarrow> call p = Inr [])"
proof -
  from all none have own: "GetVMsUsingSecret vms key = Inr []" and peers: "GetPeersVMsUsingSecret call peers = Inr []"
    by (auto simp: GetAllVMsUsingSecret_def split: sum.splits)
  from users_exact [of "GetNames vms" vms key "[]"] names_found [OF ok] own have "\<not> vm_uses vms key"
    by (auto simp: GetVMsUsingSecret_def vm_uses_def)
  moreover from peer_users [OF peers [unfolded GetPeersVMsUsingSecret_def]] have
    "\<forall>p\<in>set peers. cp_SyncSecrets p \<longrightarrow> call p = Inr []" by auto
  ultimately show ?thesis by blast
qed

text \<open>C14. A secret that a VM of the server uses, or that a VM of a synchronised peer uses or may use because the peer
  does not answer, is not deleted: the request fails and the database is as it was.\<close>

theorem used_secret_kept:
  assumes ok: "vmdb_ok vms" and key: "CleanKey orgKey = Inr key"
    and used: "vm_uses vms key \<or> (\<exists>p\<in>set (sc_peers c). cp_SyncSecrets p \<and> sc_users c p \<noteq> Inr [])"
  shows "fst (DeleteSecretController c vms author orgKey st) = st \<and>
    (\<forall>k ws. snd (DeleteSecretController c vms author orgKey st) \<noteq> SecretDone k ws)"
proof -
  have "users_of c vms key \<noteq> Inr []"
    using users_found [OF ok, of "sc_users c" "sc_peers c" key] used unfolding users_of_def by blast
  then show ?thesis by (cases "users_of c vms key") (auto simp: DeleteSecretController_def key)
qed

definition using_vm :: vm where "using_vm = empty_vm\<lparr>Config := (web_config [])\<lparr>cfg_Secrets := [''FOO'']\<rparr>\<rparr>"

definition using_db :: vmdb where
  "using_db = empty_vmdb\<lparr>db := [(''web'', \<lparr>Name = web_name 0, VM = using_vm, Active = True\<rparr>)]\<rparr>"

definition alone :: secret_calls where
  "alone = \<lparr>sc_codec = plain_codec, sc_nonce = nonce0, sc_write = SwOk, sc_sync = (\<lambda>p st. (st, None)), sc_peers = [],
     sc_users = (\<lambda>p. Inr []), sc_now = 9\<rparr>"

theorem used_secret_kept_witness:
  "DeleteSecretController alone using_db ''me'' ''/FOO'' here_db = (here_db, SecretInUse [''web'']) \<and>
   sdb (fst (DeleteSecretController alone empty_vmdb ''me'' ''/FOO'' here_db)) \<noteq> sdb here_db"
proof -
  have ok: "vmdb_ok using_db"
    using web_valid by (simp add: vmdb_ok_def entries_ok_def using_db_def empty_vmdb_def gm_ok_def entry_ok_def web_ID using_vm_def
        web_config_def config_ok_def ports_ok_def plain_domain_def empty_config_def) (simp add: web_name_def NewVMName_def)
  have key: "CleanKey ''/FOO'' = Inr ''FOO''"
    by (simp add: CleanKey_def path_clean_def is_rooted_def IsValidName_def name_char_def go_eval)
  have found: "GetByName using_db (web_name 0) = Inr using_vm" "GetNames using_db = [web_name 0]"
    by (simp_all add: GetByName_def GetEntryByName_def getEntryByID_def using_db_def web_ID gm_get_def GetNames_def gm_vals_def)
  then have "vm_uses using_db ''FOO''" by (simp add: vm_uses_def using_vm_def)
  with used_secret_kept [OF ok key, of alone] have "fst (DeleteSecretController alone using_db ''me'' ''/FOO'' here_db) = here_db" by simp
  moreover have "snd (DeleteSecretController alone using_db ''me'' ''/FOO'' here_db) = SecretInUse [''web'']"
    by (simp add: DeleteSecretController_def key users_of_def GetAllVMsUsingSecret_def GetVMsUsingSecret_def found using_vm_def
        GetPeersVMsUsingSecret_def alone_def web_ID)
  moreover have "sdb (fst (DeleteSecretController alone empty_vmdb ''me'' ''/FOO'' here_db)) \<noteq> sdb here_db"
    by (simp add: DeleteSecretController_def key users_of_def GetAllVMsUsingSecret_def GetVMsUsingSecret_def GetNames_def gm_vals_def
        empty_vmdb_def GetPeersVMsUsingSecret_def alone_def Delete_secret_def secrets_delete_def secrets_save_def saveToWriter_def
        Encrypt_def aes_key_def here_db_def one_secret_def gm_get_def gm_put_def)
  ultimately show ?thesis by (simp add: prod_eq_iff)
qed

end
