(* ===== verification/Hub_Channels.thy ===== *)
theory Hub_Channels
  imports Hubs "HOL-Library.Multiset"
begin

text \<open>
  The goroutines around the log hub: that of the hub (\<open>Hub.Run\<close> in \<open>hub.go\<close>), one stream per request
  (\<open>routeStreamHandler\<close> in \<open>route_handler.go\<close>), and those that log. All channels are unbuffered, so
  a send is done when the other side receives, and \<open>Hubs\<close> describes the run between two selects of
  the hub as one event.

  A stream registers, waits until its handler has called \<open>StartStream\<close>, then selects between its
  messages and the end of the handler or of the connection; when it ends, it does nothing but wait
  for the hub to take its \<open>Unregister\<close>.
\<close>

datatype 'm hub_phase =
    Selecting
  | Delivering 'm "nat list"
  | Sending 'm nat "nat list"

datatype stream_phase = Unknown | Starting | Listening | Leaving | Left

record 'm channels =
  ch_hub :: "'m hub"
  ch_phase :: "'m hub_phase"
  ch_stream :: "nat \<Rightarrow> stream_phase"
  ch_waiting :: "'m list"

definition idle_channels :: "'m channels" where
  "idle_channels = \<lparr>ch_hub = NewHub, ch_phase = Selecting, ch_stream = (\<lambda>_. Unknown), ch_waiting = []\<rparr>"

definition stream_to :: "nat \<Rightarrow> stream_phase \<Rightarrow> 'm channels \<Rightarrow> 'm channels" where
  "stream_to c p st = st\<lparr>ch_stream := (ch_stream st)(c := p)\<rparr>"

definition client_of :: "'m channels \<Rightarrow> nat \<Rightarrow> 'm hub_client" where
  "client_of st c = client_at (ch_hub st) c"

text \<open>
  \<open>Delivering m cs\<close> is the loop over the clients, in the order the map gives them: \<open>cs\<close> are those still
  to come. \<open>Sending m c cs\<close> is the send itself, after the tests. The targets are changed by the
  handlers without asking the hub.
\<close>

inductive hub_goroutines :: "('m hub_client \<Rightarrow> 'm \<Rightarrow> bool) \<Rightarrow> 'm channels \<Rightarrow> 'm channels \<Rightarrow> bool"
  for wants :: "'m hub_client \<Rightarrow> 'm \<Rightarrow> bool" where
  call_Broadcast: "hub_goroutines wants st (st\<lparr>ch_waiting := ch_waiting st @ [m]\<rparr>)"
| set_target: "ch_stream st c \<noteq> Unknown
    \<Longrightarrow> hub_goroutines wants st (st\<lparr>ch_hub := SetTarget c target (ch_hub st)\<rparr>)"
| start_stream: "ch_stream st c = Starting \<Longrightarrow> hub_goroutines wants st (stream_to c Listening st)"
| end_request: "ch_stream st c = Listening \<Longrightarrow> hub_goroutines wants st (stream_to c Leaving st)"
| take_register: "ch_phase st = Selecting \<Longrightarrow> hub_Register target trace (ch_hub st) = (h, c)
    \<Longrightarrow> hub_goroutines wants st (stream_to c Starting (st\<lparr>ch_hub := h\<rparr>))"
| take_unregister: "ch_phase st = Selecting \<Longrightarrow> ch_stream st c = Leaving
    \<Longrightarrow> hub_goroutines wants st (stream_to c Left (st\<lparr>ch_hub := hub_Unregister c (ch_hub st)\<rparr>))"
| take_broadcast: "ch_phase st = Selecting \<Longrightarrow> m \<in> set (ch_waiting st) \<Longrightarrow> mset cs = mset (hub_clients (ch_hub st))
    \<Longrightarrow> hub_goroutines wants st (st\<lparr>ch_phase := Delivering m cs, ch_waiting := remove1 m (ch_waiting st)\<rparr>)"
| pass_over: "ch_phase st = Delivering m (c # cs) \<Longrightarrow> \<not> wants (client_of st c) m
    \<Longrightarrow> hub_goroutines wants st (st\<lparr>ch_phase := Delivering m cs\<rparr>)"
| begin_send: "ch_phase st = Delivering m (c # cs) \<Longrightarrow> wants (client_of st c) m
    \<Longrightarrow> hub_goroutines wants st (st\<lparr>ch_phase := Sending m c cs\<rparr>)"
| hand_over: "ch_phase st = Sending m c cs \<Longrightarrow> ch_stream st c = Listening
    \<Longrightarrow> hub_goroutines wants st (st\<lparr>ch_hub := send c m (ch_hub st), ch_phase := Delivering m cs\<rparr>)"
| end_loop: "ch_phase st = Delivering m [] \<Longrightarrow> hub_goroutines wants st (st\<lparr>ch_phase := Selecting\<rparr>)"

inductive_cases hub_goroutinesE: "hub_goroutines wants st st'"

text \<open>The hub is stuck: it sends to a stream that has stopped reading and waits for the hub.\<close>

definition hub_stuck :: "'m channels \<Rightarrow> bool" where
  "hub_stuck st \<longleftrightarrow> (\<exists>m c cs. ch_phase st = Sending m c cs \<and> ch_stream st c = Leaving)"

text \<open>The loop the hub is in has such a stream to come.\<close>

definition clients_to_come :: "'m hub_phase \<Rightarrow> nat list" where
  "clients_to_come p = (case p of Selecting \<Rightarrow> [] | Delivering m cs \<Rightarrow> cs | Sending m c cs \<Rightarrow> c # cs)"

definition leaver_to_come :: "'m channels \<Rightarrow> bool" where
  "leaver_to_come st \<longleftrightarrow> (\<exists>c\<in>set (clients_to_come (ch_phase st)). ch_stream st c = Leaving)"

subsection \<open>What always holds\<close>

definition channels_ok :: "'m channels \<Rightarrow> bool" where
  "channels_ok st \<longleftrightarrow> hub_ok (ch_hub st)
     \<and> (\<forall>c. c \<in> set (hub_clients (ch_hub st)) \<longleftrightarrow> ch_stream st c \<in> {Starting, Listening, Leaving})
     \<and> (\<forall>c. next_client (ch_hub st) \<le> c \<longrightarrow> ch_stream st c = Unknown)
     \<and> distinct (clients_to_come (ch_phase st))
     \<and> set (clients_to_come (ch_phase st)) \<subseteq> set (hub_clients (ch_hub st))"

lemma channels_ok_idle: "channels_ok idle_channels"
  by (simp add: channels_ok_def idle_channels_def hub_ok_NewHub clients_to_come_def) (simp add: NewHub_def)

lemma SetTarget_sel [simp]:
  "hub_clients (SetTarget c t h) = hub_clients h" "next_client (SetTarget c t h) = next_client h"
  "inbox (client_at (SetTarget c t h) d) = inbox (client_at h d)"
  "closed (client_at (SetTarget c t h) d) = closed (client_at h d)" "panicked (SetTarget c t h) = panicked h"
  by (simp_all add: SetTarget_def at_client_def)

lemma send_open:
  assumes "hub_ok h" "c \<in> set (hub_clients h)"
  shows "send c m h = at_client c (\<lambda>hc. hc\<lparr>inbox := inbox hc @ [m]\<rparr>) h"
  using assms by (simp add: send_def hub_ok_def)

lemma hub_ok_send: "hub_ok h \<Longrightarrow> c \<in> set (hub_clients h) \<Longrightarrow> hub_ok (send c m h)"
  by (simp add: send_open) (simp add: hub_ok_def at_client_def)

lemma hub_clients_send [simp]: "hub_clients (send c m h) = hub_clients h" "next_client (send c m h) = next_client h"
  by (simp_all add: send_def at_client_def)

lemma hub_Register_ok:
  assumes "hub_Register target trace h = (h', c)" "hub_ok h"
  shows "c = next_client h" "next_client h' = c + 1" "hub_clients h' = hub_clients h @ [c]" "hub_ok h'"
proof -
  show "c = next_client h" "next_client h' = c + 1" "hub_clients h' = hub_clients h @ [c]"
    using assms(1) by (auto simp: hub_Register_def Let_def)
  have "d < next_client h" if "d \<in> set (hub_clients h)" for d using assms(2) that by (simp add: hub_ok_def)
  then show "hub_ok h'" using assms by (fastforce simp: hub_Register_def Let_def hub_ok_def less_SucI)
qed

lemma hub_Unregister_ok:
  assumes "hub_ok h"
  shows "hub_clients (hub_Unregister c h) = removeAll c (hub_clients h)" "next_client (hub_Unregister c h) = next_client h"
    "hub_ok (hub_Unregister c h)"
  using assms by (auto simp: hub_Unregister_def hub_ok_def at_client_def distinct_removeAll)

lemma channels_step_ok:
  assumes "hub_goroutines wants st st'" "channels_ok st"
  shows "channels_ok st'"
  using assms
proof cases
  case (take_register target trace h c)
  have ok: "hub_ok (ch_hub st)" "ch_stream st (next_client (ch_hub st)) = Unknown"
    "\<And>d. next_client (ch_hub st) < d \<Longrightarrow> ch_stream st d = Unknown"
    using assms(2) by (auto simp: channels_ok_def)
  note h = hub_Register_ok [OF take_register(3) ok(1)]
  show ?thesis using take_register(1,2) assms(2) h ok(2,3)
    by (simp add: channels_ok_def stream_to_def clients_to_come_def Suc_le_eq)
next
  case (take_unregister c)
  have ok: "hub_ok (ch_hub st)" "c < next_client (ch_hub st)"
    using assms(2) take_unregister(3) by (auto simp: channels_ok_def) (metis linorder_not_less stream_phase.distinct(5))
  with take_unregister assms(2) hub_Unregister_ok [OF ok(1)] show ?thesis
    by (simp add: channels_ok_def stream_to_def clients_to_come_def)
next
  case (take_broadcast m cs)
  then have "distinct cs" "set cs = set (hub_clients (ch_hub st))"
    using assms(2) mset_eq_imp_distinct_iff [of cs] mset_eq_setD [of cs] by (auto simp: channels_ok_def hub_ok_def)
  with take_broadcast show ?thesis using assms(2) by (simp add: channels_ok_def clients_to_come_def)
next
  case (hand_over m c cs)
  then have "c \<in> set (hub_clients (ch_hub st))" using assms(2) by (simp add: channels_ok_def)
  with hand_over show ?thesis using assms(2) by (simp add: channels_ok_def clients_to_come_def hub_ok_send)
next
  case (set_target c target)
  then show ?thesis using assms(2) by (simp add: channels_ok_def hub_ok_def)
qed (auto simp: channels_ok_def stream_to_def clients_to_come_def)

lemma channels_reach_ok: "(hub_goroutines wants)\<^sup>*\<^sup>* idle_channels st \<Longrightarrow> channels_ok st"
  by (induction rule: rtranclp_induct) (auto simp: channels_ok_idle channels_step_ok)

subsection \<open>The hub that is stuck\<close>

lemma stuck_step:
  assumes "hub_goroutines wants st st'" "ch_phase st = Sending m c cs" "ch_stream st c = Leaving"
  shows "ch_phase st' = Sending m c cs \<and> ch_stream st' c = Leaving
    \<and> hub_clients (ch_hub st') = hub_clients (ch_hub st) \<and> (\<forall>d. inbox (client_of st' d) = inbox (client_of st d))
    \<and> (\<exists>ms. ch_waiting st' = ch_waiting st @ ms)"
  using assms by cases (auto simp: stream_to_def client_of_def)

lemma stuck_for_ever:
  assumes "(hub_goroutines wants)\<^sup>*\<^sup>* st st'" "ch_phase st = Sending m c cs" "ch_stream st c = Leaving"
  shows "ch_phase st' = Sending m c cs \<and> ch_stream st' c = Leaving
    \<and> hub_clients (ch_hub st') = hub_clients (ch_hub st) \<and> (\<forall>d. inbox (client_of st' d) = inbox (client_of st d))
    \<and> (\<exists>ms. ch_waiting st' = ch_waiting st @ ms)"
  using assms(1)
proof induction
  case base
  show ?case using assms(2,3) by simp
next
  case (step y z)
  with stuck_step [of wants y z m c cs] show ?case by auto
qed

subsection \<open>The hub that is not\<close>

text \<open>The inboxes have grown, and the messages that are due (\<open>P m c\<close>) have reached who wants them.\<close>

definition grown :: "('m hub_client \<Rightarrow> 'm \<Rightarrow> bool) \<Rightarrow> ('m \<Rightarrow> nat \<Rightarrow> bool) \<Rightarrow> 'm channels \<Rightarrow> 'm channels \<Rightarrow> bool" where
  "grown wants P st st' \<longleftrightarrow>
     (\<forall>c. \<exists>b. client_of st' c = (client_of st c)\<lparr>inbox := inbox (client_of st c) @ b\<rparr>
        \<and> (\<forall>m. P m c \<and> wants (client_of st c) m \<longrightarrow> m \<in> set b))"

definition loop_done :: "('m hub_client \<Rightarrow> 'm \<Rightarrow> bool) \<Rightarrow> 'm \<Rightarrow> nat list \<Rightarrow> 'm channels \<Rightarrow> 'm channels \<Rightarrow> bool" where
  "loop_done wants m cs st st' \<longleftrightarrow> ch_phase st' = Selecting \<and> ch_waiting st' = ch_waiting st
     \<and> hub_clients (ch_hub st') = hub_clients (ch_hub st)
     \<and> (\<forall>d. ch_stream st' d = Leaving \<longleftrightarrow> ch_stream st d = Leaving)
     \<and> grown wants (\<lambda>k d. k = m \<and> d \<in> set cs) st st'"

context pubsub
begin

lemma grown_same: "(\<And>m c. \<not> P m c) \<Longrightarrow> (\<And>c. client_of st' c = client_of st c) \<Longrightarrow> grown wants P st st'"
  by (auto simp: grown_def intro!: exI [of _ "[]"])

lemma grown_any: "grown wants P st st' \<Longrightarrow> grown wants (\<lambda>_ _. False) st st'"
  unfolding grown_def by blast

lemma grown_trans:
  assumes "grown wants P st s" "grown wants Q s t" "\<And>m c. R m c \<Longrightarrow> P m c \<or> Q m c"
  shows "grown wants R st t"
  unfolding grown_def
proof
  fix c
  from assms(1) obtain b where b: "client_of s c = (client_of st c)\<lparr>inbox := inbox (client_of st c) @ b\<rparr>"
    "\<And>m. P m c \<Longrightarrow> wants (client_of st c) m \<Longrightarrow> m \<in> set b" unfolding grown_def by blast
  from assms(2) obtain d where d: "client_of t c = (client_of s c)\<lparr>inbox := inbox (client_of s c) @ d\<rparr>"
    "\<And>m. Q m c \<Longrightarrow> wants (client_of s c) m \<Longrightarrow> m \<in> set d" unfolding grown_def by blast
  show "\<exists>b. client_of t c = (client_of st c)\<lparr>inbox := inbox (client_of st c) @ b\<rparr>
      \<and> (\<forall>m. R m c \<and> wants (client_of st c) m \<longrightarrow> m \<in> set b)"
    using b d assms(3) by (intro exI [of _ "b @ d"]) (auto simp: wants_inbox)
qed

lemma sends:
  assumes "ch_phase st = Sending m c cs" "ch_stream st c = Starting \<or> ch_stream st c = Listening"
  shows "(hub_goroutines wants)\<^sup>*\<^sup>* st
    ((stream_to c Listening st)\<lparr>ch_hub := send c m (ch_hub st), ch_phase := Delivering m cs\<rparr>)"
proof -
  let ?l = "stream_to c Listening st"
  have "(hub_goroutines wants)\<^sup>*\<^sup>* st ?l"
  proof (cases "ch_stream st c = Starting")
    case True
    then show ?thesis by (intro r_into_rtranclp start_stream)
  next
    case False
    with assms(2) have "?l = st" by (cases st) (auto simp: stream_to_def fun_upd_idem_iff)
    then show ?thesis by simp
  qed
  moreover have "hub_goroutines wants ?l (?l\<lparr>ch_hub := send c m (ch_hub st), ch_phase := Delivering m cs\<rparr>)"
    using hand_over [of ?l m c cs wants] assms(1) by (simp add: stream_to_def)
  ultimately show ?thesis by (rule rtranclp.rtrancl_into_rtrancl)
qed

lemma loop_ends:
  assumes "channels_ok st" "ch_phase st = Delivering m cs" "\<forall>c\<in>set cs. ch_stream st c \<noteq> Leaving"
  shows "\<exists>st'. (hub_goroutines wants)\<^sup>*\<^sup>* st st' \<and> loop_done wants m cs st st'"
  using assms
proof (induction cs arbitrary: st)
  case Nil
  have "hub_goroutines wants st (st\<lparr>ch_phase := Selecting\<rparr>)" using Nil(2) by (rule end_loop)
  moreover have "loop_done wants m [] st (st\<lparr>ch_phase := Selecting\<rparr>)"
    by (simp add: loop_done_def grown_same client_of_def)
  ultimately show ?case by blast
next
  case (Cons c cs)
  show ?case
  proof (cases "wants (client_of st c) m")
    case False
    let ?s = "st\<lparr>ch_phase := Delivering m cs\<rparr>"
    have s: "hub_goroutines wants st ?s" using Cons.prems(2) False by (rule pass_over)
    then have "channels_ok ?s" using Cons.prems(1) by (rule channels_step_ok)
    with Cons obtain st' where "(hub_goroutines wants)\<^sup>*\<^sup>* ?s st'" "loop_done wants m cs ?s st'" by fastforce
    moreover from this(2) False have "loop_done wants m (c # cs) st st'"
      by (auto simp: loop_done_def grown_def client_of_def)
    ultimately show ?thesis using s by (meson converse_rtranclp_into_rtranclp)
  next
    case True
    let ?s = "st\<lparr>ch_phase := Sending m c cs\<rparr>" let ?l = "stream_to c Listening ?s"
    let ?h = "?l\<lparr>ch_hub := send c m (ch_hub st), ch_phase := Delivering m cs\<rparr>"
    have c: "c \<in> set (hub_clients (ch_hub st))" "c \<notin> set cs" "hub_ok (ch_hub st)"
      using Cons.prems(1,2) by (auto simp: channels_ok_def clients_to_come_def)
    have live: "ch_stream st c = Starting \<or> ch_stream st c = Listening"
      using Cons.prems(1,3) c(1) by (auto simp: channels_ok_def)
    have s: "hub_goroutines wants st ?s" using Cons.prems(2) True by (rule begin_send)
    have "(hub_goroutines wants)\<^sup>*\<^sup>* ?s ?h" using sends [of ?s m c cs] live by simp
    with s have run: "(hub_goroutines wants)\<^sup>*\<^sup>* st ?h" by (rule converse_rtranclp_into_rtranclp)
    have ok: "channels_ok ?h"
      using run Cons.prems(1) by (induction rule: rtranclp_induct) (auto intro: channels_step_ok)
    have cl: "client_of ?h d = (if d = c then (client_of st c)\<lparr>inbox := inbox (client_of st c) @ [m]\<rparr> else client_of st d)" for d
      using c by (simp add: client_of_def send_open at_client_def)
    have "\<forall>d\<in>set cs. ch_stream ?h d \<noteq> Leaving" using Cons.prems(3) by (simp add: stream_to_def)
    from Cons.IH [OF ok _ this] obtain st' where st': "(hub_goroutines wants)\<^sup>*\<^sup>* ?h st'" "loop_done wants m cs ?h st'" by auto
    have "grown wants (\<lambda>k d. k = m \<and> d = c) st ?h"
      unfolding grown_def
    proof
      fix d
      show "\<exists>b. client_of ?h d = (client_of st d)\<lparr>inbox := inbox (client_of st d) @ b\<rparr>
          \<and> (\<forall>k. (k = m \<and> d = c) \<and> wants (client_of st d) k \<longrightarrow> k \<in> set b)"
        by (intro exI [of _ "if d = c then [m] else []"]) (simp add: cl)
    qed
    then have "loop_done wants m (c # cs) st st'"
      using st'(2) live by (auto simp: loop_done_def stream_to_def elim: grown_trans)
    with run st'(1) show ?thesis by (meson rtranclp_trans)
  qed
qed

lemma one_broadcast:
  assumes "channels_ok st" "ch_phase st = Selecting" "ch_waiting st = m # ms" "\<forall>c. ch_stream st c \<noteq> Leaving"
  shows "\<exists>st'. (hub_goroutines wants)\<^sup>*\<^sup>* st st' \<and> ch_phase st' = Selecting \<and> ch_waiting st' = ms
    \<and> (\<forall>c. ch_stream st' c \<noteq> Leaving) \<and> hub_clients (ch_hub st') = hub_clients (ch_hub st)
    \<and> grown wants (\<lambda>k c. k = m \<and> c \<in> set (hub_clients (ch_hub st))) st st'"
proof -
  let ?s = "st\<lparr>ch_phase := Delivering m (hub_clients (ch_hub st)), ch_waiting := remove1 m (ch_waiting st)\<rparr>"
  have s: "hub_goroutines wants st ?s" using assms(2,3) by (intro take_broadcast) simp_all
  then have "channels_ok ?s" using assms(1) by (rule channels_step_ok)
  with loop_ends [of ?s m "hub_clients (ch_hub st)"] assms(4)
  obtain st' where st': "(hub_goroutines wants)\<^sup>*\<^sup>* ?s st'" "loop_done wants m (hub_clients (ch_hub st)) ?s st'" by auto
  with s have "(hub_goroutines wants)\<^sup>*\<^sup>* st st'" by (meson converse_rtranclp_into_rtranclp)
  with st'(2) assms(3,4) show ?thesis
    by (intro exI [of _ st']) (auto simp: loop_done_def grown_def client_of_def)
qed

lemma channels_run_ok: "(hub_goroutines wants)\<^sup>*\<^sup>* st st' \<Longrightarrow> channels_ok st \<Longrightarrow> channels_ok st'"
  by (induction rule: rtranclp_induct) (auto intro: channels_step_ok)

lemma all_broadcasts:
  assumes "channels_ok st" "ch_phase st = Selecting" "\<forall>c. ch_stream st c \<noteq> Leaving"
  shows "\<exists>st'. (hub_goroutines wants)\<^sup>*\<^sup>* st st' \<and> ch_phase st' = Selecting \<and> ch_waiting st' = []
    \<and> (\<forall>c. ch_stream st' c \<noteq> Leaving)
    \<and> grown wants (\<lambda>k c. k \<in> set (ch_waiting st) \<and> c \<in> set (hub_clients (ch_hub st))) st st'"
  using assms
proof (induction "ch_waiting st" arbitrary: st)
  case Nil
  then show ?case by (intro exI [of _ st]) (auto intro: grown_same)
next
  case (Cons m ms)
  from one_broadcast [OF Cons.prems(1,2) Cons.hyps(2) [symmetric] Cons.prems(3)]
  obtain s where s: "(hub_goroutines wants)\<^sup>*\<^sup>* st s" "ch_phase s = Selecting" "ch_waiting s = ms" "\<forall>c. ch_stream s c \<noteq> Leaving"
    "hub_clients (ch_hub s) = hub_clients (ch_hub st)" "grown wants (\<lambda>k c. k = m \<and> c \<in> set (hub_clients (ch_hub st))) st s"
    by blast
  from Cons.hyps(1) [OF s(3) [symmetric] channels_run_ok [OF s(1) Cons.prems(1)] s(2,4)]
  obtain t where t: "(hub_goroutines wants)\<^sup>*\<^sup>* s t" "ch_phase t = Selecting" "ch_waiting t = []" "\<forall>c. ch_stream t c \<noteq> Leaving"
    "grown wants (\<lambda>k c. k \<in> set (ch_waiting s) \<and> c \<in> set (hub_clients (ch_hub s))) s t" by blast
  have "grown wants (\<lambda>k c. k \<in> set (ch_waiting st) \<and> c \<in> set (hub_clients (ch_hub st))) st t"
    using s(6) t(5) by (rule grown_trans) (use s(3,5) Cons.hyps(2) [symmetric] in auto)
  with s(1) t show ?case by (meson rtranclp_trans)
qed

lemma leavers_served:
  assumes "channels_ok st" "ch_phase st = Selecting"
  shows "\<exists>st'. (hub_goroutines wants)\<^sup>*\<^sup>* st st' \<and> ch_phase st' = Selecting \<and> ch_waiting st' = ch_waiting st
    \<and> (\<forall>c. ch_stream st' c = (if ch_stream st c = Leaving then Left else ch_stream st c))
    \<and> (\<forall>c. ch_stream st c \<noteq> Leaving \<longrightarrow> client_of st' c = client_of st c)"
  using assms
proof (induction "length (filter (\<lambda>c. ch_stream st c = Leaving) (hub_clients (ch_hub st)))" arbitrary: st rule: less_induct)
  case less
  show ?case
  proof (cases "\<exists>c. ch_stream st c = Leaving")
    case False
    then show ?thesis using less.prems(2) by (intro exI [of _ st]) simp
  next
    case True
    then obtain c where c: "ch_stream st c = Leaving" by blast
    have ok: "hub_ok (ch_hub st)" "c \<in> set (hub_clients (ch_hub st))" using less.prems(1) c by (auto simp: channels_ok_def)
    let ?s = "stream_to c Left (st\<lparr>ch_hub := hub_Unregister c (ch_hub st)\<rparr>)"
    have s: "hub_goroutines wants st ?s" using less.prems(2) c by (rule take_unregister)
    have same: "client_of ?s d = client_of st d" if "d \<noteq> c" for d
      using that by (simp add: client_of_def stream_to_def hub_Unregister_def at_client_def)
    have "filter (\<lambda>d. ch_stream ?s d = Leaving) (hub_clients (ch_hub ?s))
        = filter (\<lambda>d. d \<noteq> c) (filter (\<lambda>d. ch_stream st d = Leaving) (hub_clients (ch_hub st)))"
      by (simp add: stream_to_def hub_Unregister_ok [OF ok(1)] removeAll_filter_not_eq) (rule filter_cong; auto)
    moreover have "length (filter (\<lambda>d. d \<noteq> c) xs) < length xs" if "c \<in> set xs" for xs
      using that by (rule length_filter_less) simp
    moreover have "c \<in> set (filter (\<lambda>d. ch_stream st d = Leaving) (hub_clients (ch_hub st)))" using c ok(2) by simp
    ultimately have "length (filter (\<lambda>d. ch_stream ?s d = Leaving) (hub_clients (ch_hub ?s)))
        < length (filter (\<lambda>d. ch_stream st d = Leaving) (hub_clients (ch_hub st)))"
      by (simp only:)
    from less.hyps [OF this channels_step_ok [OF s less.prems(1)]] less.prems(2)
    obtain t where t: "(hub_goroutines wants)\<^sup>*\<^sup>* ?s t" "ch_phase t = Selecting" "ch_waiting t = ch_waiting st"
      "\<forall>d. ch_stream t d = (if ch_stream ?s d = Leaving then Left else ch_stream ?s d)"
      "\<forall>d. ch_stream ?s d \<noteq> Leaving \<longrightarrow> client_of t d = client_of ?s d"
      by (auto simp: stream_to_def)
    from s t(1) have "(hub_goroutines wants)\<^sup>*\<^sup>* st t" by (rule converse_rtranclp_into_rtranclp)
    moreover have "ch_stream t d = (if ch_stream st d = Leaving then Left else ch_stream st d)" for d
      using t(4) c by (simp add: stream_to_def)
    moreover have "client_of t d = client_of st d" if "ch_stream st d \<noteq> Leaving" for d
      using t(5) same [of d] that c by (auto simp: stream_to_def)
    ultimately show ?thesis using t(2,3) by blast
  qed
qed

lemma back_to_select:
  assumes "channels_ok st" "\<not> leaver_to_come st"
  shows "\<exists>st'. (hub_goroutines wants)\<^sup>*\<^sup>* st st' \<and> ch_phase st' = Selecting \<and> ch_waiting st' = ch_waiting st
    \<and> hub_clients (ch_hub st') = hub_clients (ch_hub st)
    \<and> (\<forall>d. ch_stream st' d = Leaving \<longleftrightarrow> ch_stream st d = Leaving) \<and> grown wants (\<lambda>_ _. False) st st'"
proof (cases "ch_phase st")
  case Selecting
  then show ?thesis by (intro exI [of _ st]) (simp add: grown_same)
next
  case (Delivering m cs)
  with loop_ends [OF assms(1) Delivering] assms(2) show ?thesis
    by (auto simp: leaver_to_come_def clients_to_come_def loop_done_def dest: grown_any)
next
  case (Sending m c cs)
  let ?l = "stream_to c Listening st"
  let ?h = "?l\<lparr>ch_hub := send c m (ch_hub st), ch_phase := Delivering m cs\<rparr>"
  have c: "c \<in> set (hub_clients (ch_hub st))" "hub_ok (ch_hub st)" "c \<notin> set cs"
    using assms(1) Sending by (auto simp: channels_ok_def clients_to_come_def)
  have live: "ch_stream st c = Starting \<or> ch_stream st c = Listening"
    using assms c(1) Sending by (auto simp: channels_ok_def leaver_to_come_def clients_to_come_def)
  have run: "(hub_goroutines wants)\<^sup>*\<^sup>* st ?h" by (rule sends [OF Sending live])
  have cl: "client_of ?h d = (if d = c then (client_of st c)\<lparr>inbox := inbox (client_of st c) @ [m]\<rparr> else client_of st d)" for d
    using c by (simp add: client_of_def send_open at_client_def)
  have g: "grown wants (\<lambda>_ _. False) st ?h"
    unfolding grown_def
  proof
    fix d
    show "\<exists>b. client_of ?h d = (client_of st d)\<lparr>inbox := inbox (client_of st d) @ b\<rparr>
        \<and> (\<forall>k. False \<and> wants (client_of st d) k \<longrightarrow> k \<in> set b)"
      by (intro exI [of _ "if d = c then [m] else []"]) (simp add: cl)
  qed
  have "\<forall>d\<in>set cs. ch_stream ?h d \<noteq> Leaving"
    using assms(2) Sending by (auto simp: leaver_to_come_def clients_to_come_def stream_to_def)
  from loop_ends [OF channels_run_ok [OF run assms(1)] _ this] obtain t
    where t: "(hub_goroutines wants)\<^sup>*\<^sup>* ?h t" "loop_done wants m cs ?h t" by auto
  have "grown wants (\<lambda>_ _. False) st t"
    using g t(2) by (auto simp: loop_done_def elim: grown_trans)
  with run t live show ?thesis
    by (intro exI [of _ t]) (auto simp: loop_done_def stream_to_def intro: rtranclp_trans)
qed

lemma hub_serves:
  assumes "channels_ok st" "\<not> leaver_to_come st"
  shows "\<exists>st'. (hub_goroutines wants)\<^sup>*\<^sup>* st st' \<and> ch_phase st' = Selecting \<and> ch_waiting st' = []
    \<and> (\<forall>c. ch_stream st' c \<noteq> Leaving)
    \<and> (\<forall>c m. ch_stream st c \<in> {Starting, Listening} \<and> m \<in> set (ch_waiting st) \<and> wants (client_of st c) m
          \<longrightarrow> m \<in> set (inbox (client_of st' c)))"
proof -
  obtain a where a: "(hub_goroutines wants)\<^sup>*\<^sup>* st a" "ch_phase a = Selecting" "ch_waiting a = ch_waiting st"
    "hub_clients (ch_hub a) = hub_clients (ch_hub st)" "\<forall>d. ch_stream a d = Leaving \<longleftrightarrow> ch_stream st d = Leaving"
    "grown wants (\<lambda>_ _. False) st a" using back_to_select [OF assms] by blast
  note a_ok = channels_run_ok [OF a(1) assms(1)]
  obtain b where b: "(hub_goroutines wants)\<^sup>*\<^sup>* a b" "ch_phase b = Selecting" "ch_waiting b = ch_waiting a"
    "\<forall>c. ch_stream b c = (if ch_stream a c = Leaving then Left else ch_stream a c)"
    "\<forall>c. ch_stream a c \<noteq> Leaving \<longrightarrow> client_of b c = client_of a c" using leavers_served [OF a_ok a(2)] by blast
  note b_ok = channels_run_ok [OF b(1) a_ok]
  have nl: "\<forall>c. ch_stream b c \<noteq> Leaving" using b(4) by simp
  obtain d where d: "(hub_goroutines wants)\<^sup>*\<^sup>* b d" "ch_phase d = Selecting" "ch_waiting d = []" "\<forall>c. ch_stream d c \<noteq> Leaving"
    "grown wants (\<lambda>k c. k \<in> set (ch_waiting b) \<and> c \<in> set (hub_clients (ch_hub b))) b d"
    using all_broadcasts [OF b_ok b(2) nl] by blast
  have "m \<in> set (inbox (client_of d c))"
    if c: "ch_stream st c \<in> {Starting, Listening}" "m \<in> set (ch_waiting st)" "wants (client_of st c) m" for c m
  proof -
    have "ch_stream a c \<noteq> Leaving" using a(5) c(1) by auto
    have "c \<in> set (hub_clients (ch_hub a))" using c(1) assms(1) a(4) by (auto simp: channels_ok_def)
    then have "ch_stream a c \<in> {Starting, Listening}" using a_ok \<open>ch_stream a c \<noteq> Leaving\<close> by (auto simp: channels_ok_def)
    then have "c \<in> set (hub_clients (ch_hub b))" using b(4) b_ok by (auto simp: channels_ok_def)
    moreover have "wants (client_of b c) m"
      using a(6) b(5) \<open>ch_stream a c \<noteq> Leaving\<close> c(3) by (auto simp: grown_def) (metis wants_inbox)
    ultimately show ?thesis using d(5) b(3) a(3) c(2) by (fastforce simp: grown_def)
  qed
  with a(1) b(1) d show ?thesis by (meson rtranclp_trans)
qed

end

subsection \<open>The log hub\<close>

text \<open>C16. The log hub never sends on a closed channel. As long as no stream it still has to serve is
  leaving, everything that waits can be delivered to who wants it and every leaving stream can go.
  But when it is sending to a stream that is leaving, no run ever goes further: nobody receives
  anything any more, and whoever logs waits for ever.\<close>

theorem log_hub_serves_or_blocks:
  assumes "(hub_goroutines log_wants)\<^sup>*\<^sup>* idle_channels st"
  shows "\<not> panicked (ch_hub st)
    \<and> (\<not> leaver_to_come st \<longrightarrow>
        (\<exists>st'. (hub_goroutines log_wants)\<^sup>*\<^sup>* st st' \<and> ch_phase st' = Selecting \<and> ch_waiting st' = []
          \<and> (\<forall>c. ch_stream st' c \<noteq> Leaving)
          \<and> (\<forall>c m. ch_stream st c \<in> {Starting, Listening} \<and> m \<in> set (ch_waiting st) \<and> log_wants (client_of st c) m
               \<longrightarrow> m \<in> set (inbox (client_of st' c)))))
    \<and> (hub_stuck st \<longrightarrow>
        (\<forall>st'. (hub_goroutines log_wants)\<^sup>*\<^sup>* st st' \<longrightarrow> hub_stuck st'
          \<and> (\<forall>c. inbox (client_of st' c) = inbox (client_of st c)) \<and> (\<exists>ms. ch_waiting st' = ch_waiting st @ ms)))"
proof (intro conjI impI allI)
  note ok = channels_reach_ok [OF assms]
  then show "\<not> panicked (ch_hub st)" by (simp add: channels_ok_def hub_ok_def)
  show "\<exists>st'. (hub_goroutines log_wants)\<^sup>*\<^sup>* st st' \<and> ch_phase st' = Selecting \<and> ch_waiting st' = []
      \<and> (\<forall>c. ch_stream st' c \<noteq> Leaving)
      \<and> (\<forall>c m. ch_stream st c \<in> {Starting, Listening} \<and> m \<in> set (ch_waiting st) \<and> log_wants (client_of st c) m
           \<longrightarrow> m \<in> set (inbox (client_of st' c)))" if "\<not> leaver_to_come st"
    using log_hub.hub_serves [OF ok that] .
  fix st'
  assume "hub_stuck st" and run: "(hub_goroutines log_wants)\<^sup>*\<^sup>* st st'"
  then obtain m c cs where "ch_phase st = Sending m c cs" "ch_stream st c = Leaving" unfolding hub_stuck_def by blast
  from stuck_for_ever [OF run this]
  show "hub_stuck st'" "inbox (client_of st' d) = inbox (client_of st d)" "\<exists>ms. ch_waiting st' = ch_waiting st @ ms" for d
    unfolding hub_stuck_def by blast+
qed

text \<open>A request that ends while a message of the server, which goes to everybody, is on its way to it.\<close>

definition news :: message where "news = NewMessage 1 MessageInfo MessageNoTarget ''news''"

lemma stuck_reached: "\<exists>st. (hub_goroutines log_wants)\<^sup>*\<^sup>* idle_channels st \<and> hub_stuck st"
proof -
  obtain h c where h: "hub_Register ''me'' False (ch_hub (idle_channels :: message channels)) = (h, c)" by fastforce
  let ?R = "hub_goroutines log_wants"
  let ?a = "stream_to c Starting (idle_channels\<lparr>ch_hub := h\<rparr>)" let ?b = "stream_to c Listening ?a"
  let ?c = "?b\<lparr>ch_waiting := ch_waiting ?b @ [news]\<rparr>"
  let ?d = "?c\<lparr>ch_phase := Delivering news [c], ch_waiting := remove1 news (ch_waiting ?c)\<rparr>"
  let ?e = "?d\<lparr>ch_phase := Sending news c []\<rparr>" let ?f = "stream_to c Leaving ?e"
  have hc: "hub_clients h = [c]" "client_at h c = \<lparr>hc_target = ''me'', hc_trace = False, inbox = [], closed = False\<rparr>"
    using h by (auto simp: hub_Register_def idle_channels_def NewHub_def Let_def)
  have "?R idle_channels ?a" using h by (intro take_register) (simp_all add: idle_channels_def)
  moreover have "?R ?a ?b" by (intro start_stream) (simp add: stream_to_def)
  moreover have "?R ?b ?c" by (rule call_Broadcast)
  moreover have "?R ?c ?d" using hc(1) by (intro take_broadcast) (simp_all add: stream_to_def idle_channels_def)
  moreover have "?R ?d ?e"
    using hc(2) by (intro begin_send)
      (simp_all add: stream_to_def idle_channels_def client_of_def log_wants_def news_def NewMessage_def MatchTarget_def
        MessageMatchDefault_def MessageNoTarget_def MessageInfo_def MessageTrace_def MessageAllTargets_def)
  moreover have "?R ?e ?f" by (intro end_request) (simp add: stream_to_def)
  ultimately have "?R\<^sup>*\<^sup>* idle_channels ?f" by (meson converse_rtranclp_into_rtranclp r_into_rtranclp)
  then show ?thesis by (intro exI [of _ ?f]) (simp add: hub_stuck_def stream_to_def)
qed

theorem log_hub_serves_or_blocks_witness:
  "\<exists>st. (hub_goroutines log_wants)\<^sup>*\<^sup>* idle_channels st \<and> hub_stuck st
    \<and> (\<forall>st'. (hub_goroutines log_wants)\<^sup>*\<^sup>* st st' \<longrightarrow> hub_stuck st')"
proof -
  obtain st where st: "(hub_goroutines log_wants)\<^sup>*\<^sup>* idle_channels st" "hub_stuck st" using stuck_reached by blast
  with log_hub_serves_or_blocks [OF st(1)] show ?thesis by blast
qed

end
