(* ===== verification/Ssh_Server.thy ===== *)
theory Ssh_Server
  imports Controllers_Keys Vm_Disks
begin

text \<open>
  The SSH proxy of the server: who may log in (\<open>NewSSHProxyServer\<close> of \<open>ssh_server.go\<close>,
  \<open>SearchSSHAuthorizedKey\<close> of \<open>ssh_keys.go\<close>), the VM a connection goes to and the list of
  connections (\<open>serveProxy\<close> of \<open>ssh_proxy.go\<close>), and the agent a VM sees (\<open>ssh_agent.go\<close>). A public
  key is its marshalled form. The key parsers, the glob matcher and the fingerprints are third-party
  functions. Of the channels of an open connection the model has what decides about each new one;
  the copy of bytes and requests between two channels is not modelled.
\<close>

datatype ssh_error =
    SshKeys api_error
  | WrongUserFormat string
  | SshDenied string
  | NoAuthorizedKeysFile
  | SshFile string
  | SshFileMode int
  | NoAllowedKey
  | WrongRevisionName string
  | BadRevision string
  | SshVm vmdb_error
  | SshPair db_error
  | DialFailed string
  | ChannelFailed string
  | SshPanic string

subsection \<open>Keys of other users\<close>

text \<open>
  \<open>parse\<close> is \<open>ssh.ParseAuthorizedKey\<close>: a key with its comment or an error, and what is left to read.
  It always reads something, so as many turns as there are characters are enough; the first number
  is that bound.
\<close>

fun search_authorized :: "nat \<Rightarrow> (string \<Rightarrow> (string \<times> string) option \<times> string) \<Rightarrow> string \<Rightarrow> string \<Rightarrow> (string \<times> string) option" where
  "search_authorized n parse searched [] = None"
| "search_authorized 0 parse searched (c # cs) = None"
| "search_authorized (Suc n) parse searched (c # cs) =
     (case parse (c # cs) of
        (None, rest) \<Rightarrow> search_authorized n parse searched rest
      | (Some (key, comment), rest) \<Rightarrow>
          if key = searched then Some (key, comment) else search_authorized n parse searched rest)"

text \<open>What the file is: its mode and content, or the error of reading it.\<close>

definition SearchSSHAuthorizedKey ::
  "(string \<Rightarrow> (string \<times> string) option \<times> string) \<Rightarrow> (string \<Rightarrow> string + int \<times> string) \<Rightarrow> string \<Rightarrow> string
    \<Rightarrow> ssh_error + (string \<times> string) option" where
  "SearchSSHAuthorizedKey parse read searched authorizedKeysFile =
     (if authorizedKeysFile = [] then Inl NoAuthorizedKeysFile
      else case read authorizedKeysFile of Inl e \<Rightarrow> Inl (SshFile e)
      | Inr (mode, content) \<Rightarrow>
          if mode \<noteq> 384 then Inl (SshFileMode mode)
          else Inr (search_authorized (length content) parse searched content))"

subsection \<open>Logging in\<close>

record permissions =
  pm_apiKeyComment :: string
  pm_user :: string
  pm_vmName :: string

record ssh_calls =
  sk_glob :: "string \<Rightarrow> string \<Rightarrow> bool"
  sk_pubkey :: "string \<Rightarrow> string + string"
  sk_parse :: "string \<Rightarrow> (string \<times> string) option \<times> string"
  sk_read :: "string \<Rightarrow> string + int \<times> string"
  sk_fingerprint :: "string \<Rightarrow> string"

definition user_at_vm :: "string \<Rightarrow> (string \<times> string) option" where
  "user_at_vm s = (case go_split ''@'' s of [user, vmName] \<Rightarrow> Some (user, vmName) | _ \<Rightarrow> None)"

definition api_key_login :: "ssh_calls \<Rightarrow> string \<Rightarrow> api_key \<Rightarrow> ssh_error + permissions" where
  "api_key_login c cUser apiKey =
     (case user_at_vm cUser of None \<Rightarrow> Inl (WrongUserFormat cUser)
      | Some (user, vmName) \<Rightarrow>
          if \<not> IsAllowed (sk_glob c) apiKey ''GET'' ''/sshpair'' None then Inl (SshDenied ''sshpair'')
          else if \<not> IsAllowed (sk_glob c) apiKey ''SSH'' (''/vm/'' @ vmName) None then Inl (SshDenied ''SSH'')
          else Inr \<lparr>pm_apiKeyComment = Comment apiKey, pm_user = user, pm_vmName = vmName\<rparr>)"

text \<open>A key of the extra file names its user and VM in its comment; with \<open>*\<close> the login is the VM.\<close>

definition extra_key_login :: "ssh_calls \<Rightarrow> server_config \<Rightarrow> string \<Rightarrow> string \<Rightarrow> ssh_error + permissions" where
  "extra_key_login c conf cUser pubKey =
     (case SearchSSHAuthorizedKey (sk_parse c) (sk_read c) pubKey (sc_ProxySSHExtraKeysFile conf) of
        Inl e \<Rightarrow> Inl e
      | Inr None \<Rightarrow> Inr \<lparr>pm_apiKeyComment = [], pm_user = [], pm_vmName = []\<rparr>
      | Inr (Some (key, comment)) \<Rightarrow>
          (case user_at_vm comment of None \<Rightarrow> Inl (WrongUserFormat cUser)
           | Some (user, vmName) \<Rightarrow>
               Inr \<lparr>pm_apiKeyComment = ''[pubKey] '' @ comment, pm_user = user,
                    pm_vmName = (if vmName = ''*'' then cUser else vmName)\<rparr>))"

definition PublicKeyCallback ::
  "ssh_calls \<Rightarrow> server_config \<Rightarrow> api_db \<Rightarrow> string \<Rightarrow> string \<Rightarrow> ssh_error + permissions" where
  "PublicKeyCallback c conf st cUser pubKey =
     (case GetByPubKey (sk_pubkey c) pubKey (api_keys st) of
        Inl e \<Rightarrow> Inl (SshKeys e)
      | Inr found \<Rightarrow>
          (case (case found of Some apiKey \<Rightarrow> api_key_login c cUser apiKey | None \<Rightarrow> extra_key_login c conf cUser pubKey) of
             Inl e \<Rightarrow> Inl e
           | Inr p \<Rightarrow> if pm_user p = [] \<or> pm_vmName p = [] then Inl NoAllowedKey else Inr p))"

subsection \<open>The VM of a connection\<close>

text \<open>\<open>revStr[0]\<close> of an empty string panics; nothing recovers it, the process dies.\<close>

definition find_vm :: "vmdb \<Rightarrow> string \<Rightarrow> ssh_error + vm" where
  "find_vm vms vmName =
     (if CHR ''-'' \<in> set vmName then
        (case go_split ''-'' vmName of
           [name, revStr] \<Rightarrow>
             if revStr = [] then Inl (SshPanic ''index out of range'')
             else let digits = (if hd revStr = CHR ''r'' then tl revStr else revStr) in
               (case atoi digits of None \<Rightarrow> Inl (BadRevision digits)
                | Some revision \<Rightarrow> map_sum SshVm id (GetByName vms (NewVMName name revision)))
         | _ \<Rightarrow> Inl (WrongRevisionName vmName))
      else case GetActiveByName vms vmName of
          Inl (FromVms e) \<Rightarrow> Inl (SshVm e) | Inl e \<Rightarrow> Inl (SshPanic ''entry.VM'') | Inr vm \<Rightarrow> Inr vm)"

record ssh_client =
  cl_vm :: vm
  cl_sshUser :: string
  cl_apiKeyComment :: string
  cl_apiKey :: "api_key option"
  cl_startTime :: time

text \<open>The connections that are open, by the address object of each.\<close>

type_synonym ssh_clients = "(nat, ssh_client) gomap"

definition clients_add :: "nat \<Rightarrow> ssh_client \<Rightarrow> ssh_clients \<Rightarrow> ssh_clients" where "clients_add = gm_put"
definition clients_delete :: "nat \<Rightarrow> ssh_clients \<Rightarrow> ssh_clients" where "clients_delete = gm_del"
definition getClients :: "ssh_clients \<Rightarrow> ssh_client list" where "getClients = gm_vals"

text \<open>
  A new channel: its type, whether the other side opens it too (the error otherwise) and whether
  accepting it works. \<open>runChannels\<close> joins the two sides, through the agent of the server for the
  two agent types, and ends at the first session that cannot be opened or channel not accepted.
\<close>

record new_channel =
  ch_ChannelType :: string
  ch_OpenChannel :: "string option"
  ch_Accept :: "string option"

datatype channel_fate = Rejected string | ThroughAgent | Joined

definition agent_channel :: "string \<Rightarrow> bool" where
  "agent_channel t \<longleftrightarrow> t = ''auth-agent@openssh.com'' \<or> t = ''agent-connect''"

fun runChannels :: "new_channel list \<Rightarrow> channel_fate list \<times> (ssh_error + unit)" where
  "runChannels [] = ([], Inr ())"
| "runChannels (ch # chans) =
     (case ch_OpenChannel ch of
        Some e \<Rightarrow>
          if ch_ChannelType ch = ''session'' then ([], Inl (ChannelFailed e))
          else map_prod ((#) (Rejected e)) id (runChannels chans)
      | None \<Rightarrow>
          (case ch_Accept ch of
             Some e \<Rightarrow> ([], Inl (ChannelFailed e))
           | None \<Rightarrow> map_prod ((#) (if agent_channel (ch_ChannelType ch) then ThroughAgent else Joined)) id
                      (runChannels chans)))"

text \<open>
  A connection: its address object, the time, the dial of the VM as user, the channels it opens and
  what other connections do to the list of connections meanwhile.
\<close>

record connection =
  cn_addr :: nat
  cn_now :: time
  cn_dial :: "string \<Rightarrow> string \<Rightarrow> string + unit"
  cn_chans :: "new_channel list"
  cn_meanwhile :: "ssh_clients \<Rightarrow> ssh_clients"

text \<open>
  From the permissions of a login to the end of the connection. An error of the channels returns
  before the deletion from the list. The client holds a pointer to the key: later changes of its
  fingerprints show, so the agent below takes the key as it is when it is asked.
\<close>

definition new_client :: "api_db \<Rightarrow> permissions \<Rightarrow> time \<Rightarrow> vm \<Rightarrow> ssh_client" where
  "new_client st p now vm =
     \<lparr>cl_vm = vm, cl_sshUser = pm_user p, cl_apiKeyComment = pm_apiKeyComment p,
      cl_apiKey = GetByComment st (pm_apiKeyComment p), cl_startTime = now\<rparr>"

definition serveProxy ::
  "parsers \<Rightarrow> pair_db \<Rightarrow> vmdb \<Rightarrow> api_db \<Rightarrow> permissions \<Rightarrow> connection \<Rightarrow> ssh_clients \<Rightarrow> ssh_clients \<times> (ssh_error + unit)" where
  "serveProxy px pairs vms st p cn clients =
     (case find_vm vms (pm_vmName p) of Inl e \<Rightarrow> (clients, Inl e)
      | Inr vm \<Rightarrow>
          (case GetPublicKeyAuth (px_PrivateKey px) (MulchSuperUserSSHKey vm) pairs of Inl e \<Rightarrow> (clients, Inl (SshPair e))
           | Inr auth \<Rightarrow>
               (case cn_dial cn (pm_user p) (LastIP vm) of Inl e \<Rightarrow> (clients, Inl (DialFailed e))
                | Inr _ \<Rightarrow>
                    let opened = clients_add (cn_addr cn) (new_client st p (cn_now cn) vm) clients;
                        then_open = cn_meanwhile cn opened in
                    (case snd (runChannels (cn_chans cn)) of Inl e \<Rightarrow> (then_open, Inl e)
                     | Inr _ \<Rightarrow> (clients_delete (cn_addr cn) then_open, Inr ())))))"

subsection \<open>The agent\<close>

text \<open>The agent of the user: its identities, what it signs and what it answers to an extension.\<close>

record real_agent =
  ag_List :: "string + string list"
  ag_Sign :: "string \<Rightarrow> string \<Rightarrow> string + string"
  ag_SignWithFlags :: "string \<Rightarrow> string \<Rightarrow> nat \<Rightarrow> string + string"
  ag_Extension :: "string \<Rightarrow> string \<Rightarrow> string + string"

datatype agent_request =
    AgList
  | AgSign string string
  | AgSignWithFlags string string nat
  | AgExtension string string
  | AgAdd string
  | AgRemove string
  | AgRemoveAll
  | AgLock string
  | AgUnlock string
  | AgSigners

datatype agent_answer = AgKeys "string list" | AgSignature string | AgData string | AgRefused | AgNotForwarded | AgError string

definition isKeyAllowed :: "(string \<Rightarrow> string) \<Rightarrow> api_key option \<Rightarrow> vm \<Rightarrow> string \<Rightarrow> bool" where
  "isKeyAllowed FingerprintSHA256 apiKey vm key =
     (case apiKey of None \<Rightarrow> False
      | Some k \<Rightarrow> list_ex (\<lambda>fp. fp_VMName fp = cfg_Name (Config vm) \<and> FingerprintSHA256 key = Fingerprint fp)
                    (SSHAllowedFingerprints k))"

fun agent_answer_of :: "(string \<Rightarrow> agent_answer) \<Rightarrow> string + string \<Rightarrow> agent_answer" where
  "agent_answer_of f (Inl e) = AgError e"
| "agent_answer_of f (Inr s) = f s"

fun agent_serve :: "(string \<Rightarrow> string) \<Rightarrow> api_key option \<Rightarrow> vm \<Rightarrow> real_agent \<Rightarrow> agent_request \<Rightarrow> agent_answer" where
  "agent_serve fpr apiKey vm ag AgList =
     (case ag_List ag of Inl e \<Rightarrow> AgError e | Inr keys \<Rightarrow> AgKeys (filter (isKeyAllowed fpr apiKey vm) keys))"
| "agent_serve fpr apiKey vm ag (AgSign key data) =
     (if \<not> isKeyAllowed fpr apiKey vm key then AgNotForwarded else agent_answer_of AgSignature (ag_Sign ag key data))"
| "agent_serve fpr apiKey vm ag (AgSignWithFlags key data flags) =
     (if \<not> isKeyAllowed fpr apiKey vm key then AgNotForwarded
      else agent_answer_of AgSignature (ag_SignWithFlags ag key data flags))"
| "agent_serve fpr apiKey vm ag (AgExtension extensionType contents) =
     agent_answer_of AgData (ag_Extension ag extensionType contents)"
| "agent_serve fpr apiKey vm ag (AgAdd key) = AgRefused"
| "agent_serve fpr apiKey vm ag (AgRemove key) = AgRefused"
| "agent_serve fpr apiKey vm ag AgRemoveAll = AgRefused"
| "agent_serve fpr apiKey vm ag (AgLock phrase) = AgRefused"
| "agent_serve fpr apiKey vm ag (AgUnlock phrase) = AgRefused"
| "agent_serve fpr apiKey vm ag AgSigners = AgRefused"

end
