(* ===== verification/Ssh_Server_Props.thy ===== *)
theory Ssh_Server_Props
  imports Ssh_Server Toy_World
begin

text \<open>
  Properties of the SSH proxy: whom a login is granted to, what a user can do to the server with a
  login that is granted, and what an agent in a VM can reach of the keys of the user.
\<close>

lemma GetByPubKey_found:
  "GetByPubKey parse pub ks = Inr (Some k) \<Longrightarrow> k \<in> set ks \<and> parse (SSHPublic k) = Inr pub"
  by (induction ks) (auto split: sum.splits if_splits)

lemma GetByPubKey_none:
  "GetByPubKey parse pub ks = Inr None \<Longrightarrow> \<forall>k \<in> set ks. parse (SSHPublic k) \<noteq> Inr pub"
  by (induction ks) (auto split: sum.splits if_splits)

lemma search_authorized_key: "search_authorized n parse pub s = Some (key, comment) \<Longrightarrow> key = pub"
  by (induction n parse pub s rule: search_authorized.induct) (auto split: prod.splits option.splits if_splits)

lemma user_at_vm_Some: "user_at_vm s = Some (u, v) \<Longrightarrow> s = u @ ''@'' @ v"
proof -
  assume "user_at_vm s = Some (u, v)"
  then have "go_split ''@'' s = [u, v]"
    by (auto simp: user_at_vm_def split: list.splits)
  then show ?thesis
    using go_join_split [of "''@''" s] by simp
qed

lemma api_key_login_Inr:
  assumes "api_key_login c cUser k = Inr p"
  shows "cUser = pm_user p @ ''@'' @ pm_vmName p \<and> pm_apiKeyComment p = Comment k
    \<and> IsAllowed (sk_glob c) k ''GET'' ''/sshpair'' None \<and> IsAllowed (sk_glob c) k ''SSH'' (''/vm/'' @ pm_vmName p) None"
  using assms by (auto simp: api_key_login_def dest!: user_at_vm_Some split: option.splits if_splits)

lemma SearchSSHAuthorizedKey_found:
  assumes "SearchSSHAuthorizedKey parse read pub path = Inr (Some (key, comment))"
  shows "key = pub \<and> path \<noteq> [] \<and> (\<exists>content. read path = Inr (384, content)
    \<and> search_authorized (length content) parse pub content = Some (pub, comment))"
  using assms search_authorized_key
  by (fastforce simp: SearchSSHAuthorizedKey_def split: sum.splits if_splits prod.splits)

lemma extra_key_login_Inr:
  assumes "extra_key_login c conf cUser pub = Inr p" "pm_user p \<noteq> []"
  obtains content comment vmName where
    "sk_read c (sc_ProxySSHExtraKeysFile conf) = Inr (384, content)"
    "search_authorized (length content) (sk_parse c) pub content = Some (pub, comment)"
    "comment = pm_user p @ ''@'' @ vmName" "pm_vmName p = (if vmName = ''*'' then cUser else vmName)"
proof -
  from assms obtain key comment user vmName where
    s: "SearchSSHAuthorizedKey (sk_parse c) (sk_read c) pub (sc_ProxySSHExtraKeysFile conf) = Inr (Some (key, comment))"
    and u: "user_at_vm comment = Some (user, vmName)"
    and p: "p = \<lparr>pm_apiKeyComment = ''[pubKey] '' @ comment, pm_user = user,
                  pm_vmName = (if vmName = ''*'' then cUser else vmName)\<rparr>"
    by (auto simp: extra_key_login_def split: sum.splits option.splits)
  from SearchSSHAuthorizedKey_found [OF s] user_at_vm_Some [OF u] p that show thesis
    by auto
qed

text \<open>C13. A login is granted only to an API key with this public key, whose rights allow both key
  pairs and SSH on the VM that is asked for, or, where no API key has it, to a key of a file that
  only its owner can read, for the user and VM of its comment (any VM for \<open>*\<close>).\<close>

theorem ssh_login_authorised:
  assumes "PublicKeyCallback c conf st cUser pub = Inr p"
  shows "pm_user p \<noteq> [] \<and> pm_vmName p \<noteq> [] \<and>
    ((\<exists>k \<in> set (api_keys st). sk_pubkey c (SSHPublic k) = Inr pub \<and> pm_apiKeyComment p = Comment k
        \<and> cUser = pm_user p @ ''@'' @ pm_vmName p
        \<and> IsAllowed (sk_glob c) k ''GET'' ''/sshpair'' None
        \<and> IsAllowed (sk_glob c) k ''SSH'' (''/vm/'' @ pm_vmName p) None)
     \<or> ((\<forall>k \<in> set (api_keys st). sk_pubkey c (SSHPublic k) \<noteq> Inr pub)
        \<and> (\<exists>content comment vmName. sk_read c (sc_ProxySSHExtraKeysFile conf) = Inr (384, content)
            \<and> search_authorized (length content) (sk_parse c) pub content = Some (pub, comment)
            \<and> comment = pm_user p @ ''@'' @ vmName
            \<and> pm_vmName p = (if vmName = ''*'' then cUser else vmName))))"
proof -
  from assms obtain found where
    f: "GetByPubKey (sk_pubkey c) pub (api_keys st) = Inr found"
    and l: "(case found of Some k \<Rightarrow> api_key_login c cUser k | None \<Rightarrow> extra_key_login c conf cUser pub) = Inr p"
    and ne: "pm_user p \<noteq> [] \<and> pm_vmName p \<noteq> []"
    by (auto simp: PublicKeyCallback_def split: sum.splits if_splits)
  show ?thesis
  proof (cases found)
    case None
    with l have "extra_key_login c conf cUser pub = Inr p" by simp
    with ne obtain content comment vmName where
      e: "sk_read c (sc_ProxySSHExtraKeysFile conf) = Inr (384, content)
        \<and> search_authorized (length content) (sk_parse c) pub content = Some (pub, comment)
        \<and> pm_user p @ ''@'' @ vmName = comment \<and> pm_vmName p = (if vmName = ''*'' then cUser else vmName)"
      by (metis extra_key_login_Inr)
    have "\<forall>k \<in> set (api_keys st). sk_pubkey c (SSHPublic k) \<noteq> Inr pub"
      using f None by (intro GetByPubKey_none) simp
    with e ne show ?thesis by (intro conjI disjI2 exI [of _ content] exI [of _ comment] exI [of _ vmName]) simp_all
  next
    case (Some k)
    have k: "k \<in> set (api_keys st)" "sk_pubkey c (SSHPublic k) = Inr pub"
      using GetByPubKey_found f Some by simp_all
    have "api_key_login c cUser k = Inr p" using l Some by simp
    from api_key_login_Inr [OF this] k ne show ?thesis by (intro conjI disjI1 bexI [of _ k]) simp_all
  qed
qed

text \<open>One API key that may do everything, and a file of one line.\<close>

definition ssh_world :: ssh_calls where
  "ssh_world = \<lparr>sk_glob = (=), sk_pubkey = Inr,
     sk_parse = (\<lambda>s. (Some (''EXTRA'', ''root@*''), [])),
     sk_read = (\<lambda>path. if path = ''/etc/keys'' then Inr (384, ''EXTRA root@*'') else Inl ''no file''),
     sk_fingerprint = id\<rparr>"

definition ssh_user :: api_key where
  "ssh_user = \<lparr>addr = 0, Comment = ''me'', Key = ''secret'', SSHPrivate = [], SSHPublic = ''MINE'', Rights = [],
     SSHAllowedFingerprints = []\<rparr>"

definition ssh_key_db :: api_db where
  "ssh_key_db = \<lparr>api_keys = [ssh_user], next_addr = 1, api_file = NoFile\<rparr>"

definition ssh_config :: server_config where
  "ssh_config = toy_config\<lparr>sc_ProxySSHExtraKeysFile := ''/etc/keys''\<rparr>"

lemma own_login:
  "PublicKeyCallback ssh_world ssh_config ssh_key_db ''app@web'' ''MINE''
     = Inr \<lparr>pm_apiKeyComment = ''me'', pm_user = ''app'', pm_vmName = ''web''\<rparr>"
  by code_simp

lemma extra_login:
  "PublicKeyCallback ssh_world ssh_config ssh_key_db ''web'' ''EXTRA''
     = Inr \<lparr>pm_apiKeyComment = ''[pubKey] root@*'', pm_user = ''root'', pm_vmName = ''web''\<rparr>"
  by code_simp

theorem ssh_login_authorised_witness:
  "IsAllowed (sk_glob ssh_world) ssh_user ''SSH'' ''/vm/web'' None
   \<and> (\<exists>content. sk_read ssh_world ''/etc/keys'' = Inr (384, content))"
  using ssh_login_authorised [OF own_login] ssh_login_authorised [OF extra_login]
  by (auto simp: ssh_key_db_def ssh_config_def ssh_world_def ssh_user_def)

subsection \<open>A login that ends the server\<close>

text \<open>A VM name that ends with its only dash: the revision is empty and its first byte is read.\<close>

lemma empty_revision_panics:
  assumes "CHR ''-'' \<notin> set name"
  shows "find_vm vms (name @ ''-'') = Inl (SshPanic ''index out of range'')"
  using assms go_split_append [of "''-''" name "[]"] by (simp add: find_vm_def)

text \<open>Such a login is granted like any other, and no connection of the server survives it.\<close>

lemma accepted_login_kills:
  "PublicKeyCallback ssh_world ssh_config ssh_key_db ''app@web-'' ''MINE''
     = Inr \<lparr>pm_apiKeyComment = ''me'', pm_user = ''app'', pm_vmName = ''web-''\<rparr>"
  "snd (serveProxy px pairs vms st \<lparr>pm_apiKeyComment = ''me'', pm_user = ''app'', pm_vmName = ''web-''\<rparr> cn clients)
     = Inl (SshPanic ''index out of range'')"
  using empty_revision_panics [of "''web''"] by (code_simp, simp add: serveProxy_def)

subsection \<open>The connections\<close>

text \<open>A connection that fails on a channel stays in the list of connections.\<close>

lemma failed_channel_stays_listed:
  assumes "find_vm vms (pm_vmName p) = Inr vm" "GetPublicKeyAuth (px_PrivateKey px) (MulchSuperUserSSHKey vm) pairs = Inr auth"
    "cn_dial cn (pm_user p) (LastIP vm) = Inr ()" "snd (runChannels (cn_chans cn)) = Inl e" "cn_meanwhile cn = id"
  shows "serveProxy px pairs vms st p cn clients = (clients_add (cn_addr cn) (new_client st p (cn_now cn) vm) clients, Inl e)"
  using assms by (simp add: serveProxy_def)

text \<open>Every channel of an agent goes through the agent of the server, whatever else is opened.\<close>

lemma agent_channels_filtered:
  "runChannels chans = (fates, r) \<Longrightarrow> i < length fates \<Longrightarrow>
     length fates \<le> length chans \<and>
     (fates ! i = Joined \<longrightarrow> \<not> agent_channel (ch_ChannelType (chans ! i))) \<and>
     (fates ! i = ThroughAgent \<longrightarrow> agent_channel (ch_ChannelType (chans ! i)))"
proof (induction chans arbitrary: fates i)
  case (Cons ch chans)
  obtain fates' r' where rc: "runChannels chans = (fates', r')" by fastforce
  show ?case
    using Cons rc by (cases i) (fastforce split: option.splits if_splits)+
qed simp

subsection \<open>The agent of a VM\<close>

text \<open>
  What a VM gets from the agent of a user: listed keys and signatures are of keys trusted for this
  VM, and it gets nothing when the login was with a key of the extra file.
\<close>

definition trusted_for :: "(string \<Rightarrow> string) \<Rightarrow> api_key option \<Rightarrow> vm \<Rightarrow> string set" where
  "trusted_for fpr apiKey vm = {key. \<exists>k fp. apiKey = Some k \<and> fp \<in> set (SSHAllowedFingerprints k)
     \<and> fp_VMName fp = cfg_Name (Config vm) \<and> Fingerprint fp = fpr key}"

lemma isKeyAllowed_iff: "isKeyAllowed fpr apiKey vm key \<longleftrightarrow> key \<in> trusted_for fpr apiKey vm"
  by (cases apiKey) (auto simp: isKeyAllowed_def trusted_for_def list_ex_iff)

lemma agent_confined:
  "agent_serve fpr apiKey vm ag AgList = AgKeys keys \<Longrightarrow> set keys \<subseteq> trusted_for fpr apiKey vm"
  "agent_serve fpr apiKey vm ag (AgSign key text) = AgSignature s \<Longrightarrow> key \<in> trusted_for fpr apiKey vm"
  "agent_serve fpr apiKey vm ag (AgSignWithFlags key text f) = AgSignature s \<Longrightarrow> key \<in> trusted_for fpr apiKey vm"
  by (auto simp: isKeyAllowed_iff split: sum.splits if_splits)

end
