(* ===== verification/Script_Runs.thy ===== *)
theory Script_Runs
  imports App_State Names
begin

text \<open>
  How scripts are run in a VM (\<open>run_streams.go\<close>): the bytes written to the standard input of the
  shell of the VM for each task, what is made of each line of its standard output, and the two
  loops that meet on the channel \<open>exitStatus\<close>, as a step relation and as the function it computes.
  The shell of the VM is a parameter: the lines it prints when it is given a task.
\<close>

subsection \<open>The lines of the shell\<close>

datatype shell_line =
    Output string
  | ExitStatus int
  | BadExit string
  | UnknownKeyword string

definition read_line :: "string \<Rightarrow> shell_line" where
  "read_line text =
     (if length text > 2 \<and> take 2 text = ''__'' then
        (let parts = go_split ''='' text in
         if hd parts = ''___EXIT'' then
           (case parts of
              [_, value] \<Rightarrow> (case atoi value of Some status \<Rightarrow> ExitStatus status | None \<Rightarrow> BadExit text)
            | _ \<Rightarrow> BadExit text)
         else UnknownKeyword text)
      else Output text)"

text \<open>\<open>bufio.Scanner\<close> gives up on a line that does not fit in its 64 kB buffer with its newline.\<close>

definition MaxScanTokenSize :: nat where "MaxScanTokenSize = 65536"

definition scannable :: "string \<Rightarrow> bool" where
  "scannable line \<longleftrightarrow> length line < MaxScanTokenSize"

subsection \<open>The standard input\<close>

definition child_command :: "nat \<Rightarrow> run_task \<Rightarrow> string" where
  "child_command num task =
     ''sudo -iu '' @ rt_As task @ '' cat | sudo -iu '' @ rt_As task @ '' __SCRIPT_ID='' @ itoa_nat num
       @ '' bash -s -- '' @ rt_Arguments task @ '' ; echo ___EXIT=$?''"

definition child_init :: string where
  "child_init = ''function __kill_subshell() { pkill -og0 cat ; } ; export -f __kill_subshell ; trap __kill_subshell EXIT ; cd ; ''"

text \<open>The words of a task, in the order the map gives them; one that is not valid is left out.\<close>

fun env_exports :: "(string \<times> string) list \<Rightarrow> string" where
  "env_exports [] = []"
| "env_exports ((name, word) # ws) =
     (if \<not> IsValidName name \<or> \<not> IsValidWord word then env_exports ws
      else ''export '' @ name @ ''='' @ word @ ''; '' @ env_exports ws)"

text \<open>The script is sent line by line up to one that cannot be scanned, an error after the end.\<close>

definition sent_lines :: "string list \<Rightarrow> string list" where
  "sent_lines script = takeWhile scannable script"

definition task_writes :: "nat \<Rightarrow> run_task \<Rightarrow> string list \<Rightarrow> string list" where
  "task_writes num task script =
     [child_command num task @ [CHR 0x0A], child_init, env_exports (rt_EnvWords task)]
     @ map (\<lambda>line. line @ [CHR 0x0A]) (sent_lines script)
     @ [''__kill_subshell'' @ [CHR 0x0A]]"

subsection \<open>The two loops\<close>

datatype run_result = RunDone | NonZeroStatus int | ScannerError

text \<open>
  A task with the lines of its script. \<open>ss_waiting\<close> says that the writer is at the reception of a
  status, \<open>ss_shell\<close> is what the shell has still to print for what it got, \<open>ss_pipe\<close> what it
  printed and nobody read, \<open>ss_lines\<close> what the callback got, and \<open>ss_reading\<close> is false once
  the reader has given up.
\<close>

record session =
  ss_num :: nat
  ss_tasks :: "(run_task \<times> string list) list"
  ss_waiting :: bool
  ss_shell :: "string list"
  ss_pipe :: "string list"
  ss_reading :: bool
  ss_lines :: "string list"
  ss_result :: "run_result option"

definition new_session :: "(run_task \<times> string list) list \<Rightarrow> session" where
  "new_session tasks =
     \<lparr>ss_num = 0, ss_tasks = tasks, ss_waiting = False, ss_shell = [], ss_pipe = [], ss_reading = True,
      ss_lines = [], ss_result = None\<rparr>"

text \<open>
  The writer ends with a result; until then it writes a task, then waits. The reader takes one line
  after another; a status blocks it until the writer waits for it.
\<close>

inductive session_step :: "(nat \<Rightarrow> string list \<Rightarrow> string list) \<Rightarrow> session \<Rightarrow> session \<Rightarrow> bool"
  for shell :: "nat \<Rightarrow> string list \<Rightarrow> string list" where
  write_task:
    "ss_result s = None \<Longrightarrow> \<not> ss_waiting s \<Longrightarrow> ss_tasks s = (task, script) # rest \<Longrightarrow> list_all scannable script \<Longrightarrow>
     session_step shell s (s\<lparr>ss_tasks := rest, ss_num := ss_num s + 1, ss_waiting := True,
       ss_shell := ss_shell s @ shell (ss_num s) (task_writes (ss_num s) task script)\<rparr>)"
| bad_script:
    "ss_result s = None \<Longrightarrow> \<not> ss_waiting s \<Longrightarrow> ss_tasks s = (task, script) # rest \<Longrightarrow> \<not> list_all scannable script \<Longrightarrow>
     session_step shell s (s\<lparr>ss_tasks := rest, ss_result := Some ScannerError,
       ss_shell := ss_shell s @ shell (ss_num s) (task_writes (ss_num s) task script)\<rparr>)"
| all_done:
    "ss_result s = None \<Longrightarrow> \<not> ss_waiting s \<Longrightarrow> ss_tasks s = [] \<Longrightarrow>
     session_step shell s (s\<lparr>ss_result := Some RunDone\<rparr>)"
| shell_prints:
    "ss_result s = None \<Longrightarrow> ss_shell s = l # ls \<Longrightarrow>
     session_step shell s (s\<lparr>ss_shell := ls, ss_pipe := ss_pipe s @ [l]\<rparr>)"
| read_output:
    "ss_result s = None \<Longrightarrow> ss_reading s \<Longrightarrow> ss_pipe s = l # ls \<Longrightarrow> scannable l \<Longrightarrow> read_line l = Output text \<Longrightarrow>
     session_step shell s (s\<lparr>ss_pipe := ls, ss_lines := ss_lines s @ [text]\<rparr>)"
| skip_keyword:
    "ss_result s = None \<Longrightarrow> ss_reading s \<Longrightarrow> ss_pipe s = l # ls \<Longrightarrow> scannable l \<Longrightarrow>
     read_line l \<in> {BadExit l, UnknownKeyword l} \<Longrightarrow>
     session_step shell s (s\<lparr>ss_pipe := ls\<rparr>)"
| give_up:
    "ss_result s = None \<Longrightarrow> ss_reading s \<Longrightarrow> ss_pipe s = l # ls \<Longrightarrow> \<not> scannable l \<Longrightarrow>
     session_step shell s (s\<lparr>ss_reading := False\<rparr>)"
| pass_status:
    "ss_result s = None \<Longrightarrow> ss_reading s \<Longrightarrow> ss_pipe s = l # ls \<Longrightarrow> scannable l \<Longrightarrow> read_line l = ExitStatus status \<Longrightarrow>
     ss_waiting s \<Longrightarrow>
     session_step shell s (s\<lparr>ss_pipe := ls, ss_waiting := False,
       ss_result := (if status \<noteq> 0 then Some (NonZeroStatus status) else None)\<rparr>)"

inductive_cases session_stepE: "session_step shell s s'"

subsection \<open>What they compute\<close>

text \<open>The lines up to the first status, and what comes after it; \<open>None\<close> when no status comes.\<close>

fun await_status :: "string list \<Rightarrow> string list \<times> (int \<times> string list) option" where
  "await_status [] = ([], None)"
| "await_status (l # ls) =
     (if \<not> scannable l then ([], None)
      else case read_line l of
          Output text \<Rightarrow> map_prod ((#) text) id (await_status ls)
        | ExitStatus status \<Rightarrow> ([], Some (status, ls))
        | BadExit _ \<Rightarrow> await_status ls
        | UnknownKeyword _ \<Rightarrow> await_status ls)"

text \<open>\<open>None\<close> as result: the run waits for a status that does not come.\<close>

fun run_session ::
  "(nat \<Rightarrow> string list \<Rightarrow> string list) \<Rightarrow> nat \<Rightarrow> (run_task \<times> string list) list \<Rightarrow> string list \<Rightarrow> string list \<times> run_result option" where
  "run_session shell num [] waiting_lines = ([], Some RunDone)"
| "run_session shell num ((job, script) # rest) waiting_lines =
     (if \<not> list_all scannable script then ([], Some ScannerError)
      else case await_status (waiting_lines @ shell num (task_writes num job script)) of
          (out, None) \<Rightarrow> (out, None)
        | (out, Some (status, unread)) \<Rightarrow>
            if status \<noteq> 0 then (out, Some (NonZeroStatus status))
            else map_prod ((@) out) id (run_session shell (num + 1) rest unread))"

end
