(* ===== verification/Server_Start.thy ===== *)
theory Server_Start
  imports Vm_Disks Seeds Api_Keys Origins
begin

text \<open>
  The start of the server (\<open>app.go\<close>): the storage pools, the network and the filter of libvirt,
  found or created (\<open>libvirt.go\<close>), then the databases, and the comparison of the VM database with
  the domains of libvirt. What libvirt is asked here only is a second record of calls. A
  description read from a template, and the decoders of descriptions, are parameters of the record.
\<close>

record xml_pool =
  xp_Name :: string
  xp_Path :: string
  xp_Mode :: string

record xml_network =
  xn_Name :: string
  xn_Bridge :: string
  xn_MAC :: string
  xn_IPs :: "(string \<times> (string \<times> string) option) list"
  xn_Hosts :: "dhcp_host list"

text \<open>A lookup answers whether there is such an object; \<open>Inl\<close> is any other error.\<close>

record 'w setup_calls =
  st_FindPool :: "string \<Rightarrow> 'w \<Rightarrow> 'w \<times> (lv_error + bool)"
  st_PoolTemplate :: "string \<Rightarrow> string + xml_pool"
  st_AbsPath :: "string \<Rightarrow> string + string"
  st_DefinePool :: "xml_pool \<Rightarrow> 'w \<Rightarrow> 'w \<times> (lv_error + unit)"
  st_AutostartPool :: "string \<Rightarrow> 'w \<Rightarrow> 'w \<times> (lv_error + unit)"
  st_CreatePool :: "string \<Rightarrow> 'w \<Rightarrow> 'w \<times> (lv_error + unit)"
  st_RefreshPool :: "string \<Rightarrow> 'w \<Rightarrow> 'w \<times> (lv_error + unit)"
  st_PoolActive :: "string \<Rightarrow> 'w \<Rightarrow> 'w \<times> (lv_error + bool)"
  st_PoolXml :: "string \<Rightarrow> 'w \<Rightarrow> 'w \<times> (lv_error + xml_pool)"
  st_FindNetwork :: "string \<Rightarrow> 'w \<Rightarrow> 'w \<times> (lv_error + bool)"
  st_DefineNetwork :: "string \<Rightarrow> 'w \<Rightarrow> 'w \<times> (lv_error + unit)"
  st_AutostartNetwork :: "string \<Rightarrow> 'w \<Rightarrow> 'w \<times> (lv_error + unit)"
  st_CreateNetwork :: "string \<Rightarrow> 'w \<Rightarrow> 'w \<times> (lv_error + unit)"
  st_NetworkActive :: "string \<Rightarrow> 'w \<Rightarrow> 'w \<times> (lv_error + bool)"
  st_NetworkXml :: "string \<Rightarrow> 'w \<Rightarrow> 'w \<times> (lv_error + xml_network)"
  st_FindFilter :: "string \<Rightarrow> 'w \<Rightarrow> 'w \<times> (lv_error + bool)"
  st_DefineFilter :: "string \<Rightarrow> 'w \<Rightarrow> 'w \<times> (lv_error + unit)"

definition AppStorageSeeds :: string where "AppStorageSeeds = ''mulch-seeds''"
definition AppStorageDisks :: string where "AppStorageDisks = ''mulch-disks''"
definition AppStorageBackups :: string where "AppStorageBackups = ''mulch-backups''"
definition AppNetwork :: string where "AppNetwork = ''mulch''"
definition AppNWFilter :: string where "AppNWFilter = ''mulch-filter''"

subsection \<open>Pools, network and filter\<close>

definition create_pool :: "'w ext \<Rightarrow> 'w setup_calls \<Rightarrow> string \<Rightarrow> string \<Rightarrow> string \<Rightarrow> string \<Rightarrow> ('w, unit) app_act" where
  "create_pool x c poolName poolPath templateFile mode =
     bindA (osA ''read'' (os_Open (x_os x) templateFile)) (\<lambda>xml.
     bindA (pureA (map_sum (\<lambda>e. Failed ''poolcfg.Unmarshal'' [e]) id (st_PoolTemplate c xml))) (\<lambda>poolcfg.
     bindA (pureA (map_sum (\<lambda>e. Failed ''filepath.Abs'' [e]) id (st_AbsPath c poolPath))) (\<lambda>absPoolPath.
     bindA (lvA (st_DefinePool c (poolcfg\<lparr>xp_Name := poolName, xp_Path := absPoolPath,
              xp_Mode := (if mode \<noteq> [] then mode else xp_Mode poolcfg)\<rparr>))) (\<lambda>_.
     bindA (lvA (st_AutostartPool c poolName)) (\<lambda>_.
     lvA (st_CreatePool c poolName))))))"

text \<open>Any other error of the lookup is not looked at: \<open>pool\<close> is nil and the refresh panics.\<close>

definition GetOrCreateStoragePool ::
  "'w ext \<Rightarrow> 'w setup_calls \<Rightarrow> string \<Rightarrow> string \<Rightarrow> string \<Rightarrow> string \<Rightarrow> ('w, xml_pool) app_act" where
  "GetOrCreateStoragePool x c poolName poolPath templateFile mode =
     bindA (GetConnection x) (\<lambda>_.
     bindA (attempt (lvA (st_FindPool c poolName))) (\<lambda>errP.
     bindA (case errP of Inl e \<Rightarrow> fail (NilPointer ''pool'') | Inr True \<Rightarrow> ret ()
            | Inr False \<Rightarrow> create_pool x c poolName poolPath templateFile mode) (\<lambda>_.
     bindA (lvA (st_RefreshPool c poolName)) (\<lambda>_.
     bindA (attempt (lvA (st_PoolActive c poolName))) (\<lambda>active.
     bindA (checkA (active = Inr True) (Failed ''pool is not active'' [poolName])) (\<lambda>_.
     lvA (st_PoolXml c poolName)))))))"

definition GetOrCreateNetwork :: "'w ext \<Rightarrow> 'w setup_calls \<Rightarrow> string \<Rightarrow> string \<Rightarrow> ('w, xml_network) app_act" where
  "GetOrCreateNetwork x c networkName templateFile =
     bindA (GetConnection x) (\<lambda>_.
     bindA (lvA (st_FindNetwork c networkName)) (\<lambda>found.
     bindA (if found then ret ()
            else bindA (osA ''read'' (os_Open (x_os x) templateFile)) (\<lambda>xml.
                 bindA (lvA (st_DefineNetwork c xml)) (\<lambda>_.
                 bindA (lvA (st_AutostartNetwork c networkName)) (\<lambda>_.
                 lvA (st_CreateNetwork c networkName))))) (\<lambda>_.
     bindA (attempt (lvA (st_NetworkActive c networkName))) (\<lambda>active.
     bindA (checkA (active = Inr True) (Failed ''network is not active'' [networkName])) (\<lambda>_.
     lvA (st_NetworkXml c networkName))))))"

definition GetOrCreateNWFilter :: "'w ext \<Rightarrow> 'w setup_calls \<Rightarrow> string \<Rightarrow> string \<Rightarrow> ('w, unit) app_act" where
  "GetOrCreateNWFilter x c filterName templateFile =
     bindA (GetConnection x) (\<lambda>_.
     bindA (lvA (st_FindFilter c filterName)) (\<lambda>found.
     if found then ret ()
     else bindA (osA ''read'' (os_Open (x_os x) templateFile)) (\<lambda>xml. lvA (st_DefineFilter c xml))))"

definition change_libvirt :: "(libvirt \<Rightarrow> libvirt) \<Rightarrow> ('w, unit) app_act" where
  "change_libvirt f = changeA (\<lambda>s. s\<lparr>ap_libvirt := f (ap_libvirt s)\<rparr>)"

definition set_pool :: "pool_name \<Rightarrow> bool \<Rightarrow> libvirt \<Rightarrow> libvirt" where
  "set_pool p h lv = lv\<lparr>lvs_pools := (lvs_pools lv)(p := h)\<rparr>"

definition init_pool :: "'w ext \<Rightarrow> 'w setup_calls \<Rightarrow> pool_name \<Rightarrow> string \<Rightarrow> string \<Rightarrow> string \<Rightarrow> (xml_pool \<Rightarrow> libvirt \<Rightarrow> libvirt) \<Rightarrow> ('w, unit) app_act" where
  "init_pool x c p name dir mode keep =
     bindA (getA ap_config) (\<lambda>conf.
     bindA (attempt (GetOrCreateStoragePool x c name (sc_StoragePath conf @ dir) (GetTemplateFilepath conf ''storage.xml'') mode)) (\<lambda>r.
     case r of
       Inl e \<Rightarrow> bindA (change_libvirt (set_pool p False)) (\<lambda>_. fail (failed_as (Failed ''initLibvirtStorage'' [name]) e))
     | Inr cfg \<Rightarrow> change_libvirt (\<lambda>lv. keep cfg (set_pool p True lv))))"

definition initLibvirtStorage :: "'w ext \<Rightarrow> 'w setup_calls \<Rightarrow> ('w, unit) app_act" where
  "initLibvirtStorage x c =
     bindA (init_pool x c PoolSeeds AppStorageSeeds ''/seeds'' [] (\<lambda>cfg lv. lv)) (\<lambda>_.
     bindA (init_pool x c PoolDisks AppStorageDisks ''/disks'' ''0711'' (\<lambda>cfg lv. lv\<lparr>lvs_DisksPath := xp_Path cfg\<rparr>)) (\<lambda>_.
     init_pool x c PoolBackups AppStorageBackups ''/backups'' ''0711'' (\<lambda>cfg lv. lv\<lparr>lvs_BackupsPath := xp_Path cfg\<rparr>)))"

text \<open>The log line reads the first address of the network; the range is the first one of its leases.\<close>

definition initLibvirtNetwork :: "'w ext \<Rightarrow> 'w setup_calls \<Rightarrow> ('w, unit) app_act" where
  "initLibvirtNetwork x c =
     bindA (getA ap_config) (\<lambda>conf.
     bindA (with_error (failed_as (Failed ''initLibvirtNetwork'' []))
       (GetOrCreateNetwork x c AppNetwork (GetTemplateFilepath conf ''network.xml''))) (\<lambda>netcfg.
     case xn_IPs netcfg of [] \<Rightarrow> fail (NilPointer ''netcfg.IPs[0]'')
     | (address, leases) # _ \<Rightarrow>
         change_libvirt (\<lambda>lv. lv\<lparr>lvs_network := True, lvs_Address := address, lvs_Bridge := xn_Bridge netcfg,
           lvs_GatewayMAC := xn_MAC netcfg, lvs_Hosts := xn_Hosts netcfg,
           lvs_RangeStart := (case leases of None \<Rightarrow> [] | Some (a, b) \<Rightarrow> a),
           lvs_RangeEnd := (case leases of None \<Rightarrow> [] | Some (a, b) \<Rightarrow> b)\<rparr>)))"

definition initLibvirtNWFilter :: "'w ext \<Rightarrow> 'w setup_calls \<Rightarrow> ('w, unit) app_act" where
  "initLibvirtNWFilter x c =
     bindA (getA ap_config) (\<lambda>conf.
     with_error (failed_as (Failed ''initLibvirtNWFilter'' []))
       (GetOrCreateNWFilter x c AppNWFilter (GetTemplateFilepath conf ''nwfilter.xml'')))"

subsection \<open>Key pairs and secrets\<close>

definition SSHProxyPair :: string where "SSHProxyPair = ''mulch_ssh_proxy''"

text \<open>\<open>MakeSSHKey\<close> draws the new pairs; \<open>keygen\<close> is what it returns for a name.\<close>

definition need_pair :: "io_write \<Rightarrow> (string \<Rightarrow> string + string \<times> string) \<Rightarrow> string \<Rightarrow> pair_db \<Rightarrow> db_error + pair_db" where
  "need_pair w keygen name st =
     (if pdb_GetByName st name \<noteq> None then Inr st
      else case pdb_AddNew w (keygen name) name st of (st1, Some e) \<Rightarrow> Inl e | (st1, None) \<Rightarrow> Inr st1)"

definition initSSHPairDB ::
  "'w ext \<Rightarrow> (string \<Rightarrow> string + string \<times> string) \<Rightarrow> int \<Rightarrow> (string, ssh_pair) gomap dbfile \<Rightarrow> ('w, unit) app_act" where
  "initSSHPairDB x keygen mode on_disk =
     bindA (getA ap_config) (\<lambda>conf.
     bindA (askA (os_Write (x_os x))) (\<lambda>w.
     bindA (pureA (map_sum FromDb id (NewSSHPairDatabase w mode on_disk))) (\<lambda>d0.
     bindA (pureA (map_sum FromDb id (need_pair w keygen (sc_MulchSuperUserSSHKey conf) d0))) (\<lambda>d1.
     bindA (pureA (map_sum FromDb id (need_pair w keygen SSHProxyPair d1))) (\<lambda>d2.
     changeA (\<lambda>s. s\<lparr>ap_pairs := d2\<rparr>))))))"

text \<open>A failed synchronisation with the peers is only logged.\<close>

definition initSecretDB ::
  "codec \<Rightarrow> string \<Rightarrow> string \<Rightarrow> secret_write \<Rightarrow> (config_peer \<Rightarrow> secret_db \<Rightarrow> secret_db \<times> secret_error option)
    \<Rightarrow> int \<Rightarrow> string option \<Rightarrow> ('w, unit) app_act" where
  "initSecretDB c pass nonce w one mode on_disk =
     bindA (pureA (map_sum FromSecrets id (NewSecretDatabase c pass nonce w mode on_disk))) (\<lambda>d.
     bindA (getA ap_config) (\<lambda>conf.
     changeA (\<lambda>s. s\<lparr>ap_secrets := fst (sync_peers one (gm_vals (sc_Peers conf)) d)\<rparr>)))"

subsection \<open>The VM database\<close>

text \<open>
  What the check of a VM comes to: its entry is deleted when libvirt has no such domain (the result
  of the deletion is not looked at), its links are rebuilt, or the check stops before that.
\<close>

datatype vm_check = Dropped "unit + app_error" | Relinked | NotRelinked string

definition bridge_macs :: "xml_domain \<Rightarrow> string list" where
  "bridge_macs xml = map xi_MAC (filter (\<lambda>i. xi_Alias i = Some VMNetworkAliasBridge) (xm_Interfaces xml))"

definition relink_vm :: "vm_name \<Rightarrow> vm \<Rightarrow> ('w, vm_check) app_act" where
  "relink_vm name vm =
     bindA (getA (\<lambda>s. sc_MulchSuperUserSSHKey (ap_config s))) (\<lambda>key.
     bindA (change_vm InDatabase name vm (\<lambda>v. v\<lparr>MulchSuperUserSSHKey :=
       (if MulchSuperUserSSHKey v = [] then key else MulchSuperUserSSHKey v)\<rparr>)) (\<lambda>_.
     bindA (SetOperation InDatabase name vm OpNone) (\<lambda>_. ret Relinked)))"

text \<open>The address of the one interface of the bridge, from the description of the domain.\<close>

definition note_mac :: "vm_name \<Rightarrow> vm \<Rightarrow> app_error + xml_domain \<Rightarrow> ('w, vm_check) app_act" where
  "note_mac name vm r =
     (case r of Inl e \<Rightarrow> ret (NotRelinked ''xml'')
      | Inr xml \<Rightarrow>
          bindA (change_vm InDatabase name vm (\<lambda>v. v\<lparr>AssignedMAC :=
            (if bridge_macs xml = [] then AssignedMAC v else last (bridge_macs xml))\<rparr>)) (\<lambda>_.
          if length (bridge_macs xml) \<noteq> 1 then ret (NotRelinked ''interface'') else relink_vm name vm))"

definition upgrade_vm :: "'w ext \<Rightarrow> vm_name \<Rightarrow> string \<Rightarrow> vm \<Rightarrow> ('w, vm_check) app_act" where
  "upgrade_vm x name dn vm =
     bindA (change_vm InDatabase name vm (\<lambda>v. v\<lparr>AssignedIPv4 :=
       (if AssignedIPv4 v = [] then LastIP v else AssignedIPv4 v)\<rparr>)) (\<lambda>_.
     if AssignedMAC vm \<noteq> [] then relink_vm name vm
     else bindA (attempt (lvA (lv_GetXML (x_lv x) dn))) (note_mac name vm))"

definition check_vm :: "'w ext \<Rightarrow> vm_name \<Rightarrow> ('w, vm_check) app_act" where
  "check_vm x name =
     bindA (domainA name) (\<lambda>dn.
     bindA (GetDomainByName x dn) (\<lambda>found.
     if \<not> found then
       bindA (resultA (vmdbA x (\<lambda>env. vmdb_Delete env name))) (\<lambda>r.
       ret (Dropped (case r of Inl e \<Rightarrow> Inr e | Inr u \<Rightarrow> Inl u)))
     else
       bindA (attempt (vmA name)) (\<lambda>r.
       bindA (attempt (lvA (lv_GetUUID (x_lv x) dn))) (\<lambda>uuid.
       case r of Inl e \<Rightarrow> fail (NilPointer ''vm'') | Inr vm \<Rightarrow> upgrade_vm x name dn vm))))"

text \<open>The files of the database: the first format, the present one and its mode.\<close>

record vmdb_files =
  vf_old :: "(string, vm) gomap dbfile"
  vf_db :: "(string, vm_entry) gomap dbfile"
  vf_mode :: int

definition migrate_files :: "'w ext \<Rightarrow> string \<Rightarrow> vmdb_files \<Rightarrow> ('w, vmdb_files) app_act" where
  "migrate_files x dbPathV1 files =
     (if vf_old files = NoFile \<or> vf_db files \<noteq> NoFile then ret files
      else case vf_old files of Holds dbv1 \<Rightarrow>
          bindA (askA (os_Write (x_os x))) (\<lambda>w.
          case write_file w (vm_migrate dbv1) NoFile of
            (f, Some e) \<Rightarrow> fail (Failed ''savev2'' [e])
          | (f, None) \<Rightarrow>
              bindA (osA ''remove'' (os_Remove (x_os x) dbPathV1)) (\<lambda>_.
              ret (files\<lparr>vf_old := NoFile, vf_db := f, vf_mode := 384\<rparr>)))
        | _ \<Rightarrow> fail (Failed ''loadv1'' []))"

definition open_vmdb :: "'w ext \<Rightarrow> vmdb_files \<Rightarrow> ('w, vmdb) app_act" where
  "open_vmdb x files =
     bindA (askA (os_VmdbEnv (x_os x))) (\<lambda>env.
     case NewVMDatabase env (vf_mode files) (vf_db files) of
       Inl (Inl e) \<Rightarrow> fail (Failed ''VM DB'' [])
     | Inl (Inr e) \<Rightarrow> fail (FromVmdb e)
     | Inr d \<Rightarrow> ret d)"

definition initVMDB :: "'w ext \<Rightarrow> vmdb_files \<Rightarrow> ('w, vm_check list) app_act" where
  "initVMDB x files0 =
     bindA (getA ap_config) (\<lambda>conf.
     bindA (migrate_files x (sc_DataPath conf @ ''/mulch-vm.db'') files0) (\<lambda>files.
     bindA (open_vmdb x files) (\<lambda>d.
     bindA (changeA (\<lambda>s. s\<lparr>ap_vmdb := d\<rparr>)) (\<lambda>_.
     bindA (getA (\<lambda>s. GetNames (ap_vmdb s))) (\<lambda>vmNames.
     bindA (collectA (check_vm x) vmNames) (\<lambda>checks.
     bindA (resultA (vmdbA x vmdb_Update)) (\<lambda>_. ret checks)))))))"

subsection \<open>The whole start\<close>

text \<open>
  What a start reads and is given: the files, the results of key generations, and what the alert
  directory, the listener of the SSH proxy and the secrets are. The state of \<open>ap_seeds\<close> and of the
  outside are those of the server before; the logs, the history and the hubs are left out, they
  cannot fail.
\<close>

record start_files =
  sf_data_exists :: bool
  sf_pairs :: "(string, ssh_pair) gomap dbfile"
  sf_pairs_mode :: int
  sf_keygen :: "string \<Rightarrow> string + string \<times> string"
  sf_codec :: codec
  sf_passphrase :: string
  sf_nonce :: string
  sf_secret_write :: secret_write
  sf_secrets_mode :: int
  sf_secrets :: "string option"
  sf_sync :: "config_peer \<Rightarrow> secret_db \<Rightarrow> secret_db \<times> secret_error option"
  sf_vms :: vmdb_files
  sf_states :: "(string, string) gomap dbfile"
  sf_backups :: "(string, backup) gomap dbfile"
  sf_backups_mode :: int
  sf_keys :: "api_key list dbfile"
  sf_keys_mode :: int
  sf_key_pairs :: "(string + string \<times> string) list"
  sf_new_key :: string
  sf_next_addr :: nat
  sf_alerts :: "string + string list"
  sf_listen_ssh :: "string + unit"

definition initVMStateDB :: "'w ext \<Rightarrow> start_files \<Rightarrow> ('w, state_db) app_act" where
  "initVMStateDB x f =
     bindA (askA (os_Write (x_os x))) (\<lambda>w.
     pureA (map_sum (failed_as (Failed ''VM State DB'' []) \<circ> FromDb) id (NewVMStateDatabase w (sf_states f))))"

definition initBackupDB :: "'w ext \<Rightarrow> start_files \<Rightarrow> ('w, unit) app_act" where
  "initBackupDB x f =
     bindA (askA (os_Write (x_os x))) (\<lambda>w.
     bindA (pureA (map_sum (failed_as (Failed ''Backup DB'' []) \<circ> FromDb) id
       (NewBackupDatabase w (sf_backups_mode f) (sf_backups f)))) (\<lambda>d.
     changeA (\<lambda>s. s\<lparr>ap_backups := d\<rparr>)))"

definition initAPIKeysDB :: "'w ext \<Rightarrow> start_files \<Rightarrow> ('w, api_db) app_act" where
  "initAPIKeysDB x f =
     bindA (askA (os_Write (x_os x))) (\<lambda>w.
     pureA (map_sum (\<lambda>e. Failed ''API Keys DB'' []) id
       (NewAPIKeyDatabase w (sf_key_pairs f) (sf_new_key f) (sf_keys_mode f) (sf_next_addr f) (sf_keys f))))"

text \<open>The SSH proxy server: its own key pair, then its listener.\<close>

definition NewSSHProxyServer :: "'w ext \<Rightarrow> start_files \<Rightarrow> ('w, unit) app_act" where
  "NewSSHProxyServer x f =
     bindA (readA (\<lambda>s. case GetPublicKeyAuth (px_PrivateKey (x_px x)) SSHProxyPair (ap_pairs s) of
       Inl e \<Rightarrow> Inl (FromDb e) | Inr _ \<Rightarrow> Inr ())) (\<lambda>_.
     pureA (map_sum (\<lambda>e. Failed ''listen'' [e]) id (sf_listen_ssh f)))"

definition NewApp :: "'w ext \<Rightarrow> 'w setup_calls \<Rightarrow> start_files \<Rightarrow> ('w, state_db \<times> api_db \<times> vm_check list) app_act" where
  "NewApp x c f =
     bindA (checkA (sf_data_exists f) (Failed ''data path does not exist'' [])) (\<lambda>_.
     bindA (lvA (lv_NewConnect (x_lv x))) (\<lambda>_.
     bindA (initLibvirtStorage x c) (\<lambda>_.
     bindA (initLibvirtNetwork x c) (\<lambda>_.
     bindA (initLibvirtNWFilter x c) (\<lambda>_.
     bindA (with_error (failed_as (Failed ''SSH Pair DB'' []))
       (initSSHPairDB x (sf_keygen f) (sf_pairs_mode f) (sf_pairs f))) (\<lambda>_.
     bindA (with_error (failed_as (Failed ''Secret DB'' []))
       (initSecretDB (sf_codec f) (sf_passphrase f) (sf_nonce f) (sf_secret_write f) (sf_sync f) (sf_secrets_mode f) (sf_secrets f))) (\<lambda>_.
     bindA (with_error (failed_as (Failed ''VM DB'' [])) (initVMDB x (sf_vms f))) (\<lambda>checks.
     bindA (initVMStateDB x f) (\<lambda>states.
     bindA (with_error (failed_as (Failed ''RebuildDHCPStaticHost'' [])) (RebuildDHCPStaticLeases x)) (\<lambda>_.
     bindA (initBackupDB x f) (\<lambda>_.
     bindA (initAPIKeysDB x f) (\<lambda>keys.
     bindA (pureA (map_sum (\<lambda>e. Failed ''alert scripts init'' [e]) id (sf_alerts f))) (\<lambda>_.
     bindA (with_error (failed_as (Failed ''Seeds DB'' [])) (NewSeeder x)) (\<lambda>_.
     bindA (NewSSHProxyServer x f) (\<lambda>_.
     bindA (changeA (\<lambda>s. s\<lparr>ap_origins := NewOrigins (ap_config s)\<rparr>)) (\<lambda>_.
     ret (states, keys, checks)))))))))))))))))"

end
