(* ===== verification/Server_Start_Props.thy ===== *)
theory Server_Start_Props
  imports Server_Start Vm_Effects Vm_Transitions_Props
begin

text \<open>
  What a start makes of the VM database: the VMs libvirt has stay, the others are dropped, and the
  database is well formed.
\<close>

subsection \<open>Which entries a deletion leaves\<close>

definition has_key :: "vmdb \<Rightarrow> string \<Rightarrow> bool" where
  "has_key st k \<longleftrightarrow> gm_get (db st) k \<noteq> None"

lemma has_key_profiles: "has_key st k \<longleftrightarrow> profiles (db st) k \<noteq> None"
  by (simp add: has_key_def)

lemma save_has_key: "vmdb_save env st = (st', err) \<Longrightarrow> has_key st' k = has_key st k"
  by (simp add: has_key_profiles save_profiles)

lemma SetActive_has_key: "has_key (fst (SetActiveRevision env n r st)) k = has_key st k"
  using SetActive_cases [of env n r st]
proof
  assume "may_activate env st n r \<and>
     SetActiveRevision env n r st = vmdb_save env (st\<lparr>db := gm_map (set_revision n r) (db st)\<rparr>)"
  then show ?thesis
    using save_has_key [of env "st\<lparr>db := gm_map (set_revision n r) (db st)\<rparr>"]
    by (metis has_key_def gm_get_map map_option_is_None prod.collapse vmdb.select_convs(1) vmdb.surjective vmdb.update_convs(1))
qed auto

lemma Delete_has_key:
  "has_key (fst (vmdb_Delete env n st)) k \<Longrightarrow> has_key st k"
  "k \<noteq> vn_ID n \<Longrightarrow> has_key st k \<Longrightarrow> has_key (fst (vmdb_Delete env n st)) k"
  "snd (vmdb_Delete env n st) = None \<Longrightarrow> \<not> has_key (fst (vmdb_Delete env n st)) (vn_ID n)"
proof -
  have del: "has_key (fst (vmdb_save env (st1\<lparr>db := gm_del (vn_ID n) (db st1)\<rparr>))) k' \<longleftrightarrow> k' \<noteq> vn_ID n \<and> has_key st1 k'"
    for st1 k'
  proof -
    obtain a b where v: "vmdb_save env (st1\<lparr>db := gm_del (vn_ID n) (db st1)\<rparr>) = (a, b)" by fastforce
    show ?thesis using save_has_key [OF v, of k'] v by (simp add: has_key_def)
  qed
  have all: "(has_key (fst (vmdb_Delete env n st)) k' \<longrightarrow> has_key st k')
      \<and> (k' \<noteq> vn_ID n \<longrightarrow> has_key st k' \<longrightarrow> has_key (fst (vmdb_Delete env n st)) k')
      \<and> (snd (vmdb_Delete env n st) = None \<longrightarrow> \<not> has_key (fst (vmdb_Delete env n st)) (vn_ID n))" for k'
  proof (cases rule: Delete_cases [of env n st])
    case (promoted m r st1)
    then have "has_key st1 k' = has_key st k'" for k' using SetActive_has_key [of env m r st k'] by simp
    with promoted show ?thesis by (simp add: del)
  qed (simp_all add: del SetActive_has_key)
  show "has_key (fst (vmdb_Delete env n st)) k \<Longrightarrow> has_key st k"
    "k \<noteq> vn_ID n \<Longrightarrow> has_key st k \<Longrightarrow> has_key (fst (vmdb_Delete env n st)) k"
    "snd (vmdb_Delete env n st) = None \<Longrightarrow> \<not> has_key (fst (vmdb_Delete env n st)) (vn_ID n)"
    using all by blast+
qed

subsection \<open>The check of one VM\<close>

text \<open>Between the two sets of keys: all of the first, at most the second.\<close>

definition keys_between :: "string set \<Rightarrow> string set \<Rightarrow> vmdb \<Rightarrow> bool" where
  "keys_between A B st \<longleftrightarrow> vmdb_ok st \<and> (\<forall>k \<in> A. has_key st k) \<and> (\<forall>k. has_key st k \<longrightarrow> k \<in> B)"

lemma quiet_keys_between: "quiet (keys_between A B)"
  unfolding quiet_def keys_between_def by (auto simp: has_key_profiles)

definition dropped :: "vm_check \<Rightarrow> bool" where
  "dropped c \<longleftrightarrow> (\<exists>r. c = Dropped r)"

text \<open>What libvirt answers about domains during the start.\<close>

definition knows_domains :: "'w ext \<Rightarrow> string set \<Rightarrow> bool" where
  "knows_domains x alive \<longleftrightarrow>
     (\<forall>dn s s' b. GetDomainByName x dn s = (s', Inr b) \<longrightarrow> b = (dn \<in> alive))"

definition same_config :: "server_config \<Rightarrow> 'w app \<Rightarrow> bool" where
  "same_config conf s \<longleftrightarrow> ap_config s = conf"

lemma outside_same_config [keeps_rules]: "outside_free (same_config conf)"
  by (simp add: outside_free_def same_config_def)

lemma keeps_upgrade:
  assumes D: "quiet D"
  shows "keeps (on_db D) (upgrade_vm x name dn vm)" "keeps (same_config conf) (upgrade_vm x name dn vm)"
proof -
  have r: "keeps (on_db D) (relink_vm name vm)"
    unfolding relink_vm_def by (rule keeps_rules D keeps_change_vm | simp)+
  show "keeps (on_db D) (upgrade_vm x name dn vm)"
    unfolding upgrade_vm_def note_mac_def by (rule keeps_rules D keeps_change_vm r | simp)+
  have c: "keeps (same_config conf) (change_vm p n v f)" for p n v f
    unfolding change_vm_def by (rule keeps_change) (simp add: same_config_def)
  have rc: "keeps (same_config conf) (relink_vm name vm)"
    unfolding relink_vm_def SetOperation_def by (rule keeps_rules c)+
  show "keeps (same_config conf) (upgrade_vm x name dn vm)"
    unfolding upgrade_vm_def note_mac_def by (rule keeps_rules c rc)+
qed

definition dead :: "server_config \<Rightarrow> string set \<Rightarrow> vm_name \<Rightarrow> bool" where
  "dead conf alive n \<longleftrightarrow> LibvirtDomainName (sc_VMPrefix conf) n \<notin> alive"

lemma delete_between:
  assumes "on_db (keys_between A B) s" "resultA (vmdbA x (\<lambda>env. vmdb_Delete env n)) s = (s', Inr r)"
  shows "on_db (keys_between (A - {vn_ID n}) B) s' \<and> (r = Inr () \<longrightarrow> on_db (keys_between (A - {vn_ID n}) (B - {vn_ID n})) s')
    \<and> ap_config s' = ap_config s"
proof -
  obtain w env where a: "os_VmdbEnv (x_os x) (ap_world s) = (w, env)" by fastforce
  obtain st' e where d: "vmdb_Delete env n (ap_vmdb s) = (st', e)" by fastforce
  from assms(1) have k: "vmdb_ok (ap_vmdb s)" "\<forall>k \<in> A. has_key (ap_vmdb s) k" "\<forall>k. has_key (ap_vmdb s) k \<longrightarrow> k \<in> B"
    by (simp_all add: on_db_def keys_between_def)
  have ok: "vmdb_ok st'" using Delete_keeps [OF k(1), of env n] d by simp
  have sub: "has_key st' k \<Longrightarrow> has_key (ap_vmdb s) k" for k using Delete_has_key(1) [of env n "ap_vmdb s" k] d by simp
  have keep: "k \<noteq> vn_ID n \<Longrightarrow> has_key (ap_vmdb s) k \<Longrightarrow> has_key st' k" for k
    using Delete_has_key(2) [of k n "ap_vmdb s" env] d by simp
  have gone: "e = None \<Longrightarrow> \<not> has_key st' (vn_ID n)" using Delete_has_key(3) [of env n "ap_vmdb s"] d by simp
  have s': "s' = s\<lparr>ap_world := w, ap_vmdb := st'\<rparr> \<and> (r = Inr () \<longrightarrow> e = None)"
    using assms(2) a d
    by (cases e) (auto simp: resultA_def vmdbA_def askA_def bindA_def attempt_def ret_def fail_def split: app_error.splits)
  have "keys_between (A - {vn_ID n}) B st'" using ok k sub keep by (auto simp: keys_between_def)
  moreover have "e = None \<Longrightarrow> keys_between (A - {vn_ID n}) (B - {vn_ID n}) st'"
    using ok k sub keep gone by (auto simp: keys_between_def)
  ultimately show ?thesis using s' by (auto simp: on_db_def)
qed

lemma upgrade_not_dropped:
  assumes "upgrade_vm x name dn vm s = (s', Inr c)"
  shows "\<not> dropped c"
proof -
  have r: "\<not> dropped c" if "relink_vm name vm t = (s', Inr c)" for t
    using that by (auto simp: relink_vm_def bindA_Inr ret_eq dropped_def)
  have "\<not> dropped c" if "note_mac name vm q t = (s', Inr c)" for q t
    using that r by (cases q) (auto simp: note_mac_def bindA_Inr ret_eq dropped_def split: if_splits)
  with assms r show ?thesis by (auto simp: upgrade_vm_def bindA_Inr split: if_splits)
qed

lemma check_vm_step:
  assumes "knows_domains x alive" "same_config conf s" "on_db (keys_between A B) s" "check_vm x n s = (s', Inr c)"
  shows "same_config conf s' \<and> (if dead conf alive n
    then dropped c \<and> on_db (keys_between (A - {vn_ID n}) B) s'
      \<and> (c = Dropped (Inl ()) \<longrightarrow> on_db (keys_between (A - {vn_ID n}) (B - {vn_ID n})) s')
    else \<not> dropped c \<and> on_db (keys_between A B) s')"
proof -
  let ?dn = "LibvirtDomainName (sc_VMPrefix conf) n"
  have dn: "domainA n s = (s, Inr ?dn)" using assms(2) by (simp add: domainA_def getA_def same_config_def)
  from assms(4) dn obtain s1 b where g: "GetDomainByName x ?dn s = (s1, Inr b)"
    by (auto simp: check_vm_def bindA_Inr)
  have b: "b = (?dn \<in> alive)" using assms(1) g by (auto simp: knows_domains_def)
  have s1: "same_config conf s1" "on_db (keys_between A B) s1"
    using keepsE [OF keeps_libvirt(2) [OF outside_same_config] g assms(2)]
      keepsE [OF keeps_libvirt(2) [OF outside_on_db] g assms(3)] by auto
  show ?thesis
  proof (cases b)
    case False
    with assms(4) dn g obtain r where r: "resultA (vmdbA x (\<lambda>env. vmdb_Delete env n)) s1 = (s', Inr r)"
      and c: "c = Dropped (case r of Inl e \<Rightarrow> Inr e | Inr u \<Rightarrow> Inl u)"
      by (auto simp: check_vm_def bindA_Inr ret_eq)
    from delete_between [OF s1(2) r] b False c s1(1) show ?thesis
      by (auto simp: dead_def dropped_def same_config_def split: sum.splits)
  next
    case True
    obtain r where r: "attempt (vmA n) s1 = (s1, Inr r)"
      by (simp add: attempt_def vmA_def lookupA_def readA_def)
    from assms(4) dn g True r have "bindA (attempt (lvA (lv_GetUUID (x_lv x) ?dn)))
        (\<lambda>uuid. case r of Inl e \<Rightarrow> fail (NilPointer ''vm'') | Inr vm \<Rightarrow> upgrade_vm x n ?dn vm) s1 = (s', Inr c)"
      by (simp add: check_vm_def bindA_def)
    then obtain vm where u: "bindA (attempt (lvA (lv_GetUUID (x_lv x) ?dn))) (\<lambda>uuid. upgrade_vm x n ?dn vm) s1 = (s', Inr c)"
      by (cases r) (auto simp: bindA_Inr fail_eq)
    have "keeps (on_db (keys_between A B)) (bindA (attempt (lvA (lv_GetUUID (x_lv x) ?dn))) (\<lambda>uuid. upgrade_vm x n ?dn vm))"
      "keeps (same_config conf) (bindA (attempt (lvA (lv_GetUUID (x_lv x) ?dn))) (\<lambda>uuid. upgrade_vm x n ?dn vm))"
      by (rule keeps_rules keeps_upgrade quiet_keys_between)+
    with u s1 have "on_db (keys_between A B) s' \<and> same_config conf s'" by (auto elim: keepsE)
    moreover have "\<not> dropped c"
    proof -
      obtain t where "upgrade_vm x n ?dn vm t = (s', Inr c)" using u by (auto simp: bindA_Inr)
      then show ?thesis by (rule upgrade_not_dropped)
    qed
    ultimately show ?thesis using True b by (simp add: dead_def)
  qed
qed

definition dead_keys :: "server_config \<Rightarrow> string set \<Rightarrow> vm_name list \<Rightarrow> string set" where
  "dead_keys conf alive names = vn_ID ` {n \<in> set names. dead conf alive n}"

lemma dead_keys_simps:
  "dead_keys conf alive [] = {}"
  "dead conf alive n \<Longrightarrow> A - dead_keys conf alive (n # names) = A - {vn_ID n} - dead_keys conf alive names"
  "\<not> dead conf alive n \<Longrightarrow> dead_keys conf alive (n # names) = dead_keys conf alive names"
  by (auto simp: dead_keys_def)

definition drop_ok :: "vm_check \<Rightarrow> bool" where
  "drop_ok c \<longleftrightarrow> (dropped c \<longrightarrow> c = Dropped (Inl ()))"

lemma check_all_vms:
  assumes "knows_domains x alive" "same_config conf s" "on_db (keys_between A B) s"
    "collectA (check_vm x) names s = (s', Inr checks)"
  shows "map dropped checks = map (dead conf alive) names
    \<and> on_db (keys_between (A - dead_keys conf alive names) B) s'
    \<and> (list_all drop_ok checks \<longrightarrow>
        on_db (keys_between (A - dead_keys conf alive names) (B - dead_keys conf alive names)) s')"
  using assms(2-4)
proof (induction names arbitrary: s A B checks)
  case (Cons n names)
  from Cons.prems(3) obtain s1 c cs where
    c: "check_vm x n s = (s1, Inr c)" and cs: "collectA (check_vm x) names s1 = (s', Inr cs)" and ch: "checks = c # cs"
    by (auto simp: bindA_Inr ret_eq)
  note step = check_vm_step [OF assms(1) Cons.prems(1,2) c]
  show ?case
  proof (cases "dead conf alive n")
    case True
    with step have s1: "same_config conf s1" "dropped c" "on_db (keys_between (A - {vn_ID n}) B) s1"
      "drop_ok c \<Longrightarrow> on_db (keys_between (A - {vn_ID n}) (B - {vn_ID n})) s1" by (auto simp: drop_ok_def)
    have all: "list_all drop_ok checks \<Longrightarrow> on_db (keys_between (A - {vn_ID n} - dead_keys conf alive names)
        (B - {vn_ID n} - dead_keys conf alive names)) s'"
      using Cons.IH [OF s1(1) s1(4) cs] by (simp add: ch)
    from Cons.IH [OF s1(1,3) cs] s1(2) True all show ?thesis
      by (simp only: dead_keys_simps(2) [OF True]) (simp add: ch)
  next
    case False
    with step have s1: "same_config conf s1" "\<not> dropped c" "on_db (keys_between A B) s1" by auto
    from Cons.IH [OF s1(1,3) cs] s1(2) False show ?thesis
      by (simp only: dead_keys_simps(3) [OF False]) (simp add: ch)
  qed
qed (simp add: ret_eq dead_keys_simps)

subsection \<open>The start\<close>

lemma NewVMDatabase_Inr:
  assumes "NewVMDatabase env mode (Holds es) = Inr d" "entries_ok es"
  shows "vmdb_ok d \<and> greenhouseDB d = [] \<and> (\<forall>k. has_key d k \<longleftrightarrow> k \<in> fst ` set es)"
proof -
  let ?st = "\<lparr>db = put_all es [], greenhouseDB = [], vmdb_file = Holds es, domain_file = NoFile, port_file = NoFile, updates = 0\<rparr>"
  from assms(1) have sv: "vmdb_save env ?st = (d, None)"
    by (auto simp: NewVMDatabase_def vmdb_load_def Let_def split: if_splits prod.splits option.splits)
  have g: "gm_ok es" using assms(2) by (simp add: entries_okD(1))
  have same: "gm_get (put_all es []) k = gm_get es k" for k using put_all_copy [OF g] by simp
  have "entries_ok (put_all es [])"
    by (rule profiles_entries_ok [of _ es]) (simp_all add: put_all_ok gm_ok_Nil same assms(2))
  then have "vmdb_ok ?st" by (simp add: vmdb_ok_def gm_ok_Nil)
  with save_ok [OF sv this] save_greenhouse [OF sv] save_has_key [OF sv] show ?thesis
    by (simp add: has_key_def put_all_None)
qed

lemma GetNames_mem:
  assumes "vmdb_ok d"
  shows "n \<in> set (GetNames d) \<longleftrightarrow> (\<exists>e. gm_get (db d) (vn_ID n) = Some e \<and> Name e = n)"
proof -
  have es: "entries_ok (db d)" using assms by (simp add: vmdb_ok_def)
  have "n \<in> set (GetNames d) \<longleftrightarrow> (\<exists>k e. gm_get (db d) k = Some e \<and> Name e = n)"
    unfolding GetNames_def by (force simp: gm_vals_get [OF entries_okD(1) [OF es]])
  then show ?thesis using entry_key [OF es] by blast
qed

lemma loaded_names:
  assumes d: "vmdb_ok d" "\<And>k. has_key d k \<longleftrightarrow> k \<in> fst ` set es" and es: "entries_ok es"
  shows "n \<in> set (GetNames d) \<longleftrightarrow> n \<in> (\<lambda>(k, e). Name e) ` set es" "length (GetNames d) = length es"
proof -
  have db: "entries_ok (db d)" using d(1) by (simp add: vmdb_ok_def)
  have get: "(k, e) \<in> set es \<longleftrightarrow> gm_get es k = Some e" for k e
    using gm.entries_get [OF entries_okD(1) [OF es], of k e] by simp
  have a: "\<exists>e'. gm_get (db d) k = Some e' \<and> Name e' = Name e" if "gm_get es k = Some e" for k e
  proof -
    from that get have "has_key d k" using d(2) by force
    then obtain e' where e': "gm_get (db d) k = Some e'" by (auto simp: has_key_def)
    with that have "Name e' = Name e"
      by (metis db es entry_key entry_name_valid valid_name_inject)
    with e' show ?thesis by blast
  qed
  show "n \<in> set (GetNames d) \<longleftrightarrow> n \<in> (\<lambda>(k, e). Name e) ` set es"
  proof
    assume "n \<in> set (GetNames d)"
    then obtain e' where e': "gm_get (db d) (vn_ID n) = Some e'" "Name e' = n" using GetNames_mem d(1) by blast
    then have "has_key d (vn_ID n)" by (simp add: has_key_def)
    then obtain e where e: "(vn_ID n, e) \<in> set es" using d(2) by force
    with a e' get show "n \<in> (\<lambda>(k, e). Name e) ` set es" by force
  next
    assume "n \<in> (\<lambda>(k, e). Name e) ` set es"
    then obtain k e where e: "(k, e) \<in> set es" "Name e = n" by auto
    with get entry_key [OF es] a [of k e] show "n \<in> set (GetNames d)" using GetNames_mem d(1) by auto
  qed
  have "length (GetNames d) = length (map fst (db d))" by (simp add: GetNames_def gm_vals_def)
  also have "\<dots> = card (set (map fst (db d)))"
    using entries_okD(1) [OF db] by (metis distinct_card gm_ok_def)
  also have "set (map fst (db d)) = set (map fst es)"
  proof (rule set_eqI)
    fix k
    have "k \<in> set (map fst (db d)) \<longleftrightarrow> has_key d k" using gm_keys_get [of k "db d"] by (simp add: gm_keys_def has_key_def)
    also have "\<dots> \<longleftrightarrow> k \<in> set (map fst es)" using d(2) by simp
    finally show "k \<in> set (map fst (db d)) \<longleftrightarrow> k \<in> set (map fst es)" .
  qed
  also have "card (set (map fst es)) = length (map fst es)"
    using entries_okD(1) [OF es] by (metis distinct_card gm_ok_def)
  finally show "length (GetNames d) = length es" by simp
qed

lemma dead_key_iff:
  assumes es: "entries_ok es" and names: "\<And>n. n \<in> set names \<longleftrightarrow> n \<in> (\<lambda>(k, e). Name e) ` set es" and k: "(k, e) \<in> set es"
  shows "k \<in> dead_keys conf alive names \<longleftrightarrow> dead conf alive (Name e)"
proof -
  have get: "(k, e) \<in> set es \<longleftrightarrow> gm_get es k = Some e" for k e
    using gm.entries_get [OF entries_okD(1) [OF es], of k e] by simp
  have v: "k = vn_ID (Name e)" "valid_vm_name (Name e)"
    using k get entry_key [OF es] entry_name_valid [OF es] by auto
  have "n = Name e" if "n \<in> set names" "vn_ID n = k" for n
  proof -
    from that names obtain k2 e2 where "(k2, e2) \<in> set es" "Name e2 = n" by auto
    then have "valid_vm_name n" using get entry_name_valid [OF es] by auto
    with that v show ?thesis by (metis valid_name_inject)
  qed
  moreover have "Name e \<in> set names" using names k by force
  ultimately show ?thesis using v(1) by (auto simp: dead_keys_def)
qed

text \<open>C17. A start keeps every VM of its database that libvirt has and adds none; it drops each VM
  libvirt has not, unless a deletion is reported to fail; the database that results is well formed.
  \<open>alive\<close> is the set of domains libvirt has meanwhile.\<close>

theorem start_reconciles_vms:
  assumes "initVMDB x \<lparr>vf_old = NoFile, vf_db = Holds es, vf_mode = mode\<rparr> s = (s', Inr checks)"
    and "entries_ok es" and "knows_domains x alive"
  shows "vmdb_ok (ap_vmdb s') \<and> length checks = length es
    \<and> (\<forall>(k, e) \<in> set es. LibvirtDomainName (sc_VMPrefix (ap_config s)) (Name e) \<in> alive \<longrightarrow> has_key (ap_vmdb s') k)
    \<and> (\<forall>k. has_key (ap_vmdb s') k \<longrightarrow> k \<in> fst ` set es)
    \<and> (list_all drop_ok checks \<longrightarrow>
        (\<forall>(k, e) \<in> set es. has_key (ap_vmdb s') k \<longrightarrow> LibvirtDomainName (sc_VMPrefix (ap_config s)) (Name e) \<in> alive))"
proof -
  let ?conf = "ap_config s"
  obtain w env where w: "os_VmdbEnv (x_os x) (ap_world s) = (w, env)" by fastforce
  from assms(1) w obtain d s2 where d: "NewVMDatabase env mode (Holds es) = Inr d"
    and c: "collectA (check_vm x) (GetNames d) (s\<lparr>ap_world := w, ap_vmdb := d\<rparr>) = (s2, Inr checks)"
    and u: "\<exists>r. resultA (vmdbA x vmdb_Update) s2 = (s', Inr r)"
    by (auto simp: initVMDB_def migrate_files_def open_vmdb_def askA_def getA_def changeA_def bindA_Inr ret_eq fail_eq
        split: sum.splits)
  note N = NewVMDatabase_Inr [OF d assms(2)]
  let ?K = "fst ` set es"
  have s1: "same_config ?conf (s\<lparr>ap_world := w, ap_vmdb := d\<rparr>)" "on_db (keys_between ?K ?K) (s\<lparr>ap_world := w, ap_vmdb := d\<rparr>)"
    using N by (simp_all add: same_config_def on_db_def keys_between_def)
  from check_all_vms [OF assms(3) s1 c]
  have r2: "map dropped checks = map (dead ?conf alive) (GetNames d)"
    "on_db (keys_between (?K - dead_keys ?conf alive (GetNames d)) ?K) s2"
    "list_all drop_ok checks \<Longrightarrow> on_db (keys_between (?K - dead_keys ?conf alive (GetNames d)) (?K - dead_keys ?conf alive (GetNames d))) s2"
    by auto
  have up: "on_db (keys_between A B) s2 \<Longrightarrow> on_db (keys_between A B) s'" for A B
    using u keepsE [OF keeps_resultA [OF keeps_Update [OF quiet_keys_between]]] by blast
  have names: "n \<in> set (GetNames d) \<longleftrightarrow> n \<in> (\<lambda>(k, e). Name e) ` set es" "length (GetNames d) = length es" for n
    using loaded_names [of d es] N assms(2) by auto
  have len: "length checks = length es" using r2(1) names(2) by (metis length_map)
  have dk: "k \<in> dead_keys ?conf alive (GetNames d) \<longleftrightarrow> LibvirtDomainName (sc_VMPrefix ?conf) (Name e) \<notin> alive"
    if "(k, e) \<in> set es" for k e
    using dead_key_iff [OF assms(2) names(1) that] by (simp add: dead_def)
  show ?thesis
  proof (intro conjI)
    show "vmdb_ok (ap_vmdb s')" using up [OF r2(2)] by (simp add: on_db_def keys_between_def)
    show "length checks = length es" by (rule len)
    show "\<forall>(k, e) \<in> set es. LibvirtDomainName (sc_VMPrefix ?conf) (Name e) \<in> alive \<longrightarrow> has_key (ap_vmdb s') k"
    proof clarify
      fix k e
      assume a: "(k, e) \<in> set es" "LibvirtDomainName (sc_VMPrefix ?conf) (Name e) \<in> alive"
      with dk have "k \<in> ?K - dead_keys ?conf alive (GetNames d)" by force
      with up [OF r2(2)] show "has_key (ap_vmdb s') k" unfolding on_db_def keys_between_def by blast
    qed
    show "\<forall>k. has_key (ap_vmdb s') k \<longrightarrow> k \<in> fst ` set es"
      using up [OF r2(2)] by (simp add: on_db_def keys_between_def)
    show "list_all drop_ok checks \<longrightarrow> (\<forall>(k, e) \<in> set es. has_key (ap_vmdb s') k \<longrightarrow>
        LibvirtDomainName (sc_VMPrefix ?conf) (Name e) \<in> alive)"
    proof (rule impI, clarify)
      fix k e
      assume a: "list_all drop_ok checks" "(k, e) \<in> set es" "has_key (ap_vmdb s') k"
      have "keys_between (?K - dead_keys ?conf alive (GetNames d)) (?K - dead_keys ?conf alive (GetNames d)) (ap_vmdb s')"
        using up [OF r2(3) [OF a(1)]] unfolding on_db_def .
      then have "\<forall>k. has_key (ap_vmdb s') k \<longrightarrow> k \<in> ?K - dead_keys ?conf alive (GetNames d)"
        unfolding keys_between_def by blast
      with a(3) have "k \<notin> dead_keys ?conf alive (GetNames d)" by blast
      with dk [OF a(2)] show "LibvirtDomainName (sc_VMPrefix ?conf) (Name e) \<in> alive" by simp
    qed
  qed
qed

text \<open>Two revisions of a VM in the file, of which libvirt has the first, that is active.\<close>

definition start_entries :: "(string, vm_entry) gomap" where
  "start_entries = [(''web'', \<lparr>Name = NewVMName ''web'' 0, VM = toy_vm, Active = True\<rparr>),
     (''web-r1'', \<lparr>Name = NewVMName ''web'' 1, VM = toy_vm, Active = False\<rparr>)]"

definition start_ext :: "toy ext" where
  "start_ext = toy_ext\<lparr>x_lv := toy_lv\<lparr>lv_LookupDomain :=
     (\<lambda>dn w. (w, if dn = ''m-web'' then Inr () else Inl LvNoDomain))\<rparr>\<rparr>"

lemma start_ext_knows: "knows_domains start_ext {''m-web''}"
  by (auto simp: knows_domains_def start_ext_def GetDomainByName_def GetConnection_def act_eval app_eval app_calls
      split: if_splits)

lemma start_IDs: "vn_ID (NewVMName ''web'' 0) = ''web''" "vn_ID (NewVMName ''web'' 1) = ''web-r1''"
  by (simp_all add: vn_ID_def NewVMName_def itoa_def go_eval)

lemma start_entries_ok: "entries_ok start_entries"
  using toy_conf_ok
  by (simp add: start_entries_def entries_ok_def gm_ok_def entry_ok_def valid_vm_name_def start_IDs [unfolded One_nat_def]
      NewVMName_def max_int_def IsValidName_def run_eval)

lemma start_run:
  "\<exists>s'. initVMDB start_ext \<lparr>vf_old = NoFile, vf_db = Holds start_entries, vf_mode = 384\<rparr> (toy_app True True)
     = (s', Inr [Relinked, Dropped (Inl ())])"
  by (simp add: initVMDB_def migrate_files_def open_vmdb_def NewVMDatabase_def vmdb_load_def put_all_def GetNames_def
      check_vm_def upgrade_vm_def relink_vm_def start_ext_def start_entries_def toy_vm_def
      vmdb_Delete_def GetEntryByName_def NewVMName_def toy_config_def run_eval cong: act_congs)

theorem start_reconciles_vms_witness:
  "\<exists>s'. initVMDB start_ext \<lparr>vf_old = NoFile, vf_db = Holds start_entries, vf_mode = 384\<rparr> (toy_app True True)
     = (s', Inr [Relinked, Dropped (Inl ())])
   \<and> has_key (ap_vmdb s') ''web'' \<and> \<not> has_key (ap_vmdb s') ''web-r1''"
proof -
  obtain s' where r: "initVMDB start_ext \<lparr>vf_old = NoFile, vf_db = Holds start_entries, vf_mode = 384\<rparr> (toy_app True True)
     = (s', Inr [Relinked, Dropped (Inl ())])"
    using start_run by blast
  have p: "sc_VMPrefix (ap_config (toy_app True True)) = ''m-''" by (simp add: toy_eval)
  have n: "LibvirtDomainName ''m-'' (NewVMName ''web'' 0) = ''m-web''" "LibvirtDomainName ''m-'' (NewVMName ''web'' 1) = ''m-web-r1''"
    by (simp_all add: LibvirtDomainName_def start_IDs [unfolded One_nat_def])
  note all = start_reconciles_vms [OF r start_entries_ok start_ext_knows, unfolded p]
  have "has_key (ap_vmdb s') ''web''" "\<not> has_key (ap_vmdb s') ''web-r1''"
    using all n [unfolded One_nat_def] by (simp_all add: start_entries_def drop_ok_def dropped_def)
  with r show ?thesis by blast
qed

subsection \<open>The other steps\<close>

text \<open>Both key pairs the server logs in with exist afterwards, and the others are those of the file.\<close>

lemma need_pair_Inr:
  assumes "need_pair w keygen name st = Inr st'"
  shows "pdb_GetByName st' name \<noteq> None \<and> (\<forall>n. n \<noteq> name \<longrightarrow> pdb_GetByName st' n = pdb_GetByName st n)
    \<and> (\<forall>p. pdb_GetByName st name = Some p \<longrightarrow> pdb_GetByName st' name = Some p)"
  using assms
  by (auto simp: need_pair_def pdb_AddNew_def pdb_GetByName_def pdb_Save_def Let_def
      split: if_splits prod.splits option.splits sum.splits)

lemma initSSHPairDB_pairs:
  assumes "initSSHPairDB x keygen mode on_disk s = (s', Inr ())"
  shows "pdb_GetByName (ap_pairs s') (sc_MulchSuperUserSSHKey (ap_config s)) \<noteq> None
    \<and> pdb_GetByName (ap_pairs s') SSHProxyPair \<noteq> None"
proof -
  from assms obtain w d0 d1 d2 where
    n: "need_pair w keygen (sc_MulchSuperUserSSHKey (ap_config s)) d0 = Inr d1" "need_pair w keygen SSHProxyPair d1 = Inr d2"
    and s': "ap_pairs s' = d2"
    by (auto simp: initSSHPairDB_def bindA_Inr getA_def askA_def pureA_eq changeA_def map_sum_def
        split: prod.splits sum.splits)
  from need_pair_Inr [OF n(1)] need_pair_Inr [OF n(2)] show ?thesis
    unfolding s' by (cases "sc_MulchSuperUserSSHKey (ap_config s) = SSHProxyPair") auto
qed

text \<open>A lookup of a pool that fails for another reason than a missing pool ends the server.\<close>

lemma failed_pool_lookup_panics:
  assumes "GetConnection x s = (s1, Inr ())" "st_FindPool c name (ap_world s1) = (w, Inl e)"
  shows "snd (GetOrCreateStoragePool x c name path template mode s) = Inl (NilPointer ''pool'')"
  using assms by (simp add: GetOrCreateStoragePool_def act_eval app_eval app_calls)

end
