(* ===== verification/Proxy_Rate.thy ===== *)
theory Proxy_Rate
  imports Complex_Main Go_Maps "HOL-Library.Word"
begin

text \<open>
  The rate controller of the reverse proxy (\<open>mulch-proxy/rate_controller.go\<close>). An entry is a
  pointer: requests keep the one \<open>GetEntry\<close> gave them while \<open>Clean\<close> may remove it from the map.
  \<open>currentRequestSlots\<close> is a buffered channel, of which only the number of elements matters.
  The token bucket (package \<open>rate\<close>) answers each request; its answer is an input.
\<close>

record rate_config =
  rc_Name :: string
  ConcurrentMaxRequests :: int
  ConcurrentOverflowTimeout :: duration
  RateEnable :: bool
  RateBurst :: int
  RateRequestsPerSecond :: rat
  RateMaxDelay :: duration
  VipList :: "(string, bool) gomap"

record rate_entry =
  currentRequestSlots :: nat
  lastUseTime :: time

record rate_controller =
  rc_config :: rate_config
  rc_entries :: "(string, nat) gomap"
  entry_at :: "nat \<Rightarrow> rate_entry"
  next_entry :: nat
  tooManyRequestsCounter :: "64 word"

definition NewRateController :: "rate_config \<Rightarrow> rate_controller" where
  "NewRateController config =
     \<lparr>rc_config = config, rc_entries = [], entry_at = (\<lambda>_. \<lparr>currentRequestSlots = 0, lastUseTime = zero_time\<rparr>),
      next_entry = 0, tooManyRequestsCounter = 0\<rparr>"

definition IsActive :: "rate_controller \<Rightarrow> bool" where
  "IsActive rc \<longleftrightarrow> ConcurrentMaxRequests (rc_config rc) > 0 \<or> RateEnable (rc_config rc)"

definition touch_entry :: "time \<Rightarrow> nat \<Rightarrow> rate_controller \<Rightarrow> rate_controller" where
  "touch_entry now e rc = rc\<lparr>entry_at := (entry_at rc)(e := (entry_at rc e)\<lparr>lastUseTime := now\<rparr>)\<rparr>"

definition GetEntry :: "time \<Rightarrow> string \<Rightarrow> rate_controller \<Rightarrow> rate_controller \<times> nat" where
  "GetEntry now ip rc =
     (case gm_get (rc_entries rc) ip of
        Some e \<Rightarrow> (touch_entry now e rc, e)
      | None \<Rightarrow>
          (let e = next_entry rc in
           (touch_entry now e (rc\<lparr>rc_entries := gm_put ip e (rc_entries rc), next_entry := e + 1,
              entry_at := (entry_at rc)(e := \<lparr>currentRequestSlots = 0, lastUseTime = zero_time\<rparr>)\<rparr>), e)))"

definition IsVIP :: "string \<Rightarrow> rate_controller \<Rightarrow> bool" where
  "IsVIP ip rc \<longleftrightarrow> gm_get (VipList (rc_config rc)) ip \<noteq> None"

definition rc_Clean :: "time \<Rightarrow> duration \<Rightarrow> rate_controller \<Rightarrow> rate_controller" where
  "rc_Clean now UnusedTime rc =
     rc\<lparr>rc_entries :=
       fold gm_del (map fst (filter (\<lambda>(ip, e). time_sub now (lastUseTime (entry_at rc e)) > UnusedTime) (rc_entries rc)))
         (rc_entries rc)\<rparr>"

definition set_slots :: "nat \<Rightarrow> nat \<Rightarrow> rate_controller \<Rightarrow> rate_controller" where
  "set_slots e n rc = rc\<lparr>entry_at := (entry_at rc)(e := (entry_at rc e)\<lparr>currentRequestSlots := n\<rparr>)\<rparr>"

definition count_rejection :: "rate_controller \<Rightarrow> rate_controller" where
  "count_rejection rc = rc\<lparr>tooManyRequestsCounter := tooManyRequestsCounter rc + 1\<rparr>"

text \<open>
  What happens to a request in \<open>rate_IsAllowed\<close>: the \<open>select\<close> takes a slot or the timeout (\<open>SlotTimeout\<close>);
  the limiter then lets it pass, says the delay is too long, or the client goes away.
\<close>

datatype limiter_answer = MayPass | TooLong | ClientGone

definition RateAllowed :: string where "RateAllowed = []"
definition ConcurrentTimeout :: string where "ConcurrentTimeout = ''concurrent requests limit timeout reached''"
definition MaxDelayReached :: string where "MaxDelayReached = ''rate limit maximum delay reached''"

definition rate_IsAllowed :: "bool \<Rightarrow> limiter_answer \<Rightarrow> nat \<Rightarrow> rate_controller \<Rightarrow> rate_controller \<times> bool \<times> bool \<times> string" where
  "rate_IsAllowed slotTimeout wait e rc0 =
     (if ConcurrentMaxRequests (rc_config rc0) > 0 \<and> slotTimeout
      then (count_rejection rc0, False, False, ConcurrentTimeout)
      else
        let rc = (if ConcurrentMaxRequests (rc_config rc0) > 0
                  then set_slots e (currentRequestSlots (entry_at rc0 e) + 1) rc0 else rc0) in
        if \<not> RateEnable (rc_config rc) then (rc, True, True, RateAllowed)
        else (case wait of
            MayPass \<Rightarrow> (rc, True, True, RateAllowed)
          | ClientGone \<Rightarrow> (rc, True, True, RateAllowed)
          | TooLong \<Rightarrow> (count_rejection rc, False, True, MaxDelayReached)))"

text \<open>The send on the slots channel can only happen while the channel is not full.\<close>

definition slot_free :: "nat \<Rightarrow> rate_controller \<Rightarrow> bool" where
  "slot_free e rc \<longleftrightarrow> int (currentRequestSlots (entry_at rc e)) < ConcurrentMaxRequests (rc_config rc)"

text \<open>A receive on an empty channel blocks for ever: \<open>None\<close>.\<close>

definition FinishRequest :: "nat \<Rightarrow> rate_controller \<Rightarrow> rate_controller option" where
  "FinishRequest e rc =
     (if ConcurrentMaxRequests (rc_config rc) > 0 then
        (case currentRequestSlots (entry_at rc e) of 0 \<Rightarrow> None | Suc n \<Rightarrow> Some (set_slots e n rc))
      else Some rc)"

subsection \<open>Requests\<close>

text \<open>
  The requests under way: \<open>Asking ip e\<close> has its entry and is inside \<open>rate_IsAllowed\<close>; \<open>Running ip e\<close> was
  answered that \<open>FinishRequest\<close> is needed, and calls it when it ends. \<open>rate_step\<close> is
  one atomic step of one of them, or of the cleaning goroutine.
\<close>

datatype request_phase = Asking string nat | Running string nat

record rate_world =
  ctl :: rate_controller
  reqs :: "(nat, request_phase) gomap"

inductive rate_step :: "rate_world \<Rightarrow> rate_world \<Rightarrow> bool" where
  Arrive: "\<lbrakk>gm_get (reqs w) r = None; GetEntry now ip (ctl w) = (rc, e)\<rbrakk> \<Longrightarrow>
     rate_step w \<lparr>ctl = rc, reqs = gm_put r (Asking ip e) (reqs w)\<rparr>"
| Answer: "\<lbrakk>gm_get (reqs w) r = Some (Asking ip e);
      \<not> slotTimeout \<longrightarrow> ConcurrentMaxRequests (rc_config (ctl w)) > 0 \<longrightarrow> slot_free e (ctl w);
      rate_IsAllowed slotTimeout wait e (ctl w) = (rc, allowed, needFinish, reason)\<rbrakk> \<Longrightarrow>
     rate_step w \<lparr>ctl = rc, reqs = (if needFinish then gm_put r (Running ip e) (reqs w) else gm_del r (reqs w))\<rparr>"
| Finish: "\<lbrakk>gm_get (reqs w) r = Some (Running ip e); FinishRequest e (ctl w) = Some rc\<rbrakk> \<Longrightarrow>
     rate_step w \<lparr>ctl = rc, reqs = gm_del r (reqs w)\<rparr>"
| Clean: "rate_step w (w\<lparr>ctl := rc_Clean now UnusedTime (ctl w)\<rparr>)"

inductive_cases rate_stepE: "rate_step w w'"

inductive rate_reach :: "rate_config \<Rightarrow> rate_world \<Rightarrow> bool" for config :: rate_config where
  Start: "rate_reach config \<lparr>ctl = NewRateController config, reqs = []\<rparr>"
| Step: "\<lbrakk>rate_reach config w; rate_step w w'\<rbrakk> \<Longrightarrow> rate_reach config w'"

definition holds_slot :: "nat \<Rightarrow> request_phase \<Rightarrow> bool" where
  "holds_slot e p = (case p of Running ip e' \<Rightarrow> e' = e | Asking ip e' \<Rightarrow> False)"

definition entry_of :: "request_phase \<Rightarrow> nat" where
  "entry_of p = (case p of Running ip e \<Rightarrow> e | Asking ip e \<Rightarrow> e)"

definition holders :: "nat \<Rightarrow> rate_world \<Rightarrow> nat" where
  "holders e w = length (filter (holds_slot e) (gm_vals (reqs w)))"

text \<open>
  The invariant: the number of elements of every slots channel is the number of running requests that hold
  one of its slots, and never more than its capacity.
\<close>

definition rate_ok :: "rate_config \<Rightarrow> rate_world \<Rightarrow> bool" where
  "rate_ok config w \<longleftrightarrow>
     rc_config (ctl w) = config \<and> gm_ok (reqs w) \<and> gm_ok (rc_entries (ctl w)) \<and>
     (\<forall>p\<in>set (gm_vals (reqs w)). entry_of p < next_entry (ctl w)) \<and>
     (\<forall>e\<in>set (gm_vals (rc_entries (ctl w))). e < next_entry (ctl w)) \<and>
     (ConcurrentMaxRequests config > 0 \<longrightarrow>
        (\<forall>e. currentRequestSlots (entry_at (ctl w) e) = holders e w \<and>
             int (currentRequestSlots (entry_at (ctl w) e)) \<le> ConcurrentMaxRequests config))"

subsection \<open>Counting the values of a map\<close>

definition count_vals :: "('v \<Rightarrow> bool) \<Rightarrow> ('k, 'v) gomap \<Rightarrow> nat" where
  "count_vals P m = length (filter P (gm_vals m))"

lemma count_vals_simps [simp]:
  "count_vals P [] = 0"
  "count_vals P ((k, v) # m) = (if P v then 1 else 0) + count_vals P m"
  by (simp_all add: count_vals_def gm_vals_def)

lemma count_vals_put:
  "count_vals P (gm_put k v m) + (case gm_get m k of None \<Rightarrow> 0 | Some u \<Rightarrow> if P u then 1 else 0) =
     count_vals P m + (if P v then 1 else 0)"
  by (induction m) (auto simp: gm_put_def gm_get_def)

lemma count_vals_del:
  "gm_ok m \<Longrightarrow> count_vals P (gm_del k m) + (case gm_get m k of None \<Rightarrow> 0 | Some u \<Rightarrow> if P u then 1 else 0) =
     count_vals P m"
proof (induction m)
  case Nil
  then show ?case by (simp add: gm_del_def)
next
  case (Cons kv m)
  obtain k' v where kv: "kv = (k', v)" by fastforce
  have none: "gm_get m k = None \<Longrightarrow> AList.delete k m = m"
    by (simp add: gm_get_def delete_id map_of_eq_None_iff)
  show ?case
  proof (cases "k' = k")
    case True
    with Cons.prems kv have "gm_get m k = None" by (simp add: gm_ok_Cons)
    with none True kv show ?thesis by (simp add: gm_del_def gm_get_def)
  next
    case False
    with Cons kv show ?thesis by (simp add: gm_del_def gm_get_def gm_ok_Cons)
  qed
qed

lemma count_vals_mono: "(\<And>v. v \<in> set (gm_vals m) \<Longrightarrow> P v \<Longrightarrow> Q v) \<Longrightarrow> count_vals P m \<le> count_vals Q m"
proof (induction m)
  case (Cons kv m)
  then show ?case by (cases kv) (auto simp: gm_vals_def intro: le_SucI)
qed simp

lemma count_vals_0: "(\<And>v. v \<in> set (gm_vals m) \<Longrightarrow> \<not> P v) \<Longrightarrow> count_vals P m = 0"
  by (auto simp: count_vals_def filter_empty_conv)

lemma gm_vals_put: "gm_ok m \<Longrightarrow> u \<in> set (gm_vals (gm_put k v m)) \<Longrightarrow> u = v \<or> u \<in> set (gm_vals m)"
  by (auto simp: gm_vals_get split: if_splits)

lemma gm_vals_del: "gm_ok m \<Longrightarrow> u \<in> set (gm_vals (gm_del k m)) \<Longrightarrow> u \<in> set (gm_vals m)"
  by (auto simp: gm_vals_get split: if_splits)

lemma gm_vals_fold_del: "gm_ok m \<Longrightarrow> u \<in> set (gm_vals (fold gm_del ks m)) \<Longrightarrow> u \<in> set (gm_vals m)"
  by (auto simp: gm_vals_get gm.ok_fold_del gm.get_fold_del split: if_splits)

lemma holders_count: "holders e w = count_vals (holds_slot e) (reqs w)"
  by (simp add: holders_def count_vals_def)

subsection \<open>The invariant is kept\<close>

lemma GetEntry_effect:
  assumes "GetEntry now ip rc = (rc', e)"
  shows "rc_config rc' = rc_config rc"
    and "gm_get (rc_entries rc') ip = Some e"
    and "\<And>ip'. ip' \<noteq> ip \<Longrightarrow> gm_get (rc_entries rc') ip' = gm_get (rc_entries rc) ip'"
    and "gm_get (rc_entries rc) ip = Some e \<or>
      gm_get (rc_entries rc) ip = None \<and> e = next_entry rc \<and> next_entry rc' = next_entry rc + 1 \<and>
      currentRequestSlots (entry_at rc' e) = 0"
    and "gm_get (rc_entries rc) ip = Some e \<Longrightarrow> next_entry rc' = next_entry rc \<and> rc_entries rc' = rc_entries rc \<and>
      currentRequestSlots (entry_at rc' e) = currentRequestSlots (entry_at rc e)"
    and "\<And>e'. e' \<noteq> e \<Longrightarrow> entry_at rc' e' = entry_at rc e'"
    and "gm_ok (rc_entries rc) \<Longrightarrow> gm_ok (rc_entries rc')"
  using assms by (auto simp: GetEntry_def touch_entry_def Let_def split: option.splits)

lemma rate_okD:
  assumes "rate_ok config w"
  shows "rc_config (ctl w) = config" "gm_ok (reqs w)" "gm_ok (rc_entries (ctl w))"
    "\<And>p. p \<in> set (gm_vals (reqs w)) \<Longrightarrow> entry_of p < next_entry (ctl w)"
    "\<And>e. e \<in> set (gm_vals (rc_entries (ctl w))) \<Longrightarrow> e < next_entry (ctl w)"
    "ConcurrentMaxRequests config > 0 \<Longrightarrow> currentRequestSlots (entry_at (ctl w) e) = holders e w"
    "ConcurrentMaxRequests config > 0 \<Longrightarrow> int (holders e w) \<le> ConcurrentMaxRequests config"
  using assms unfolding rate_ok_def by (simp_all, metis)

lemma rate_okI:
  assumes "rc_config (ctl w) = config" "gm_ok (reqs w)" "gm_ok (rc_entries (ctl w))"
    "\<And>p. p \<in> set (gm_vals (reqs w)) \<Longrightarrow> entry_of p < next_entry (ctl w)"
    "\<And>e. e \<in> set (gm_vals (rc_entries (ctl w))) \<Longrightarrow> e < next_entry (ctl w)"
    "\<And>e. ConcurrentMaxRequests config > 0 \<Longrightarrow> currentRequestSlots (entry_at (ctl w) e) = holders e w
       \<and> int (holders e w) \<le> ConcurrentMaxRequests config"
  shows "rate_ok config w"
  using assms by (auto simp: rate_ok_def)

lemma gm_get_vals: "gm_get m k = Some v \<Longrightarrow> v \<in> set (gm_vals m)"
  by (force simp: gm_vals_def dest: gm_get_in)

lemma Arrive_ok:
  assumes ok: "rate_ok config w" and new: "gm_get (reqs w) r = None"
    and ge: "GetEntry now ip (ctl w) = (rc, e)"
  shows "rate_ok config \<lparr>ctl = rc, reqs = gm_put r (Asking ip e) (reqs w)\<rparr>"
proof -
  note D = rate_okD [OF ok] and E = GetEntry_effect [OF ge]
  have lt: "e < next_entry rc" "next_entry (ctl w) \<le> next_entry rc"
    using E(4) E(5) D(5) by (fastforce dest: gm_get_vals)+
  have h: "holders e' \<lparr>ctl = rc, reqs = gm_put r (Asking ip e) (reqs w)\<rparr> = holders e' w" for e'
    using count_vals_put [of "holds_slot e'" r "Asking ip e" "reqs w"] new
    by (simp add: holders_count holds_slot_def)
  have h0: "holders e w = 0" if "e = next_entry (ctl w)"
    unfolding holders_count by (rule count_vals_0)
      (use D(4) that in \<open>fastforce simp: holds_slot_def entry_of_def split: request_phase.splits\<close>)
  show ?thesis
  proof (rule rate_okI)
    show "entry_of p < next_entry (ctl \<lparr>ctl = rc, reqs = gm_put r (Asking ip e) (reqs w)\<rparr>)"
      if "p \<in> set (gm_vals (reqs \<lparr>ctl = rc, reqs = gm_put r (Asking ip e) (reqs w)\<rparr>))" for p
      using gm_vals_put [OF D(2), of p r "Asking ip e"] that D(4) lt by (fastforce simp: entry_of_def)
    show "e' < next_entry (ctl \<lparr>ctl = rc, reqs = gm_put r (Asking ip e) (reqs w)\<rparr>)"
      if e': "e' \<in> set (gm_vals (rc_entries (ctl \<lparr>ctl = rc, reqs = gm_put r (Asking ip e) (reqs w)\<rparr>)))" for e'
    proof -
      from e' obtain ip' where "gm_get (rc_entries rc) ip' = Some e'"
        using gm_vals_get [OF E(7) [OF D(3)]] by auto
      then have "e' = e \<or> e' \<in> set (gm_vals (rc_entries (ctl w)))"
        using E(2) E(3) [of ip'] by (cases "ip' = ip") (auto dest: gm_get_vals)
      with D(5) lt show ?thesis by fastforce
    qed
    show "currentRequestSlots (entry_at (ctl \<lparr>ctl = rc, reqs = gm_put r (Asking ip e) (reqs w)\<rparr>) e') =
        holders e' \<lparr>ctl = rc, reqs = gm_put r (Asking ip e) (reqs w)\<rparr>
      \<and> int (holders e' \<lparr>ctl = rc, reqs = gm_put r (Asking ip e) (reqs w)\<rparr>) \<le> ConcurrentMaxRequests config"
      if "ConcurrentMaxRequests config > 0" for e'
      using D(6,7) [OF that, of e'] E(4,5,6) h0 by (cases "e' = e") (auto simp: h)
  qed (use D E in auto)
qed

lemma rate_IsAllowed_effect:
  assumes "rate_IsAllowed slotTimeout wait e rc = (rc', allowed, needFinish, reason)"
  shows "rc_config rc' = rc_config rc" "rc_entries rc' = rc_entries rc" "next_entry rc' = next_entry rc"
    and "currentRequestSlots (entry_at rc' e') =
      (if e' = e \<and> needFinish \<and> ConcurrentMaxRequests (rc_config rc) > 0
       then currentRequestSlots (entry_at rc e) + 1 else currentRequestSlots (entry_at rc e'))"
    and "needFinish \<longleftrightarrow> \<not> (ConcurrentMaxRequests (rc_config rc) > 0 \<and> slotTimeout)"
    and "allowed \<Longrightarrow> needFinish"
  using assms
  by (cases wait; auto simp: rate_IsAllowed_def Let_def count_rejection_def set_slots_def split: if_splits)+

lemma Answer_ok:
  assumes ok: "rate_ok config w" and ask: "gm_get (reqs w) r = Some (Asking ip e)"
    and free: "\<not> slotTimeout \<longrightarrow> ConcurrentMaxRequests (rc_config (ctl w)) > 0 \<longrightarrow> slot_free e (ctl w)"
    and al: "rate_IsAllowed slotTimeout wait e (ctl w) = (rc, allowed, needFinish, reason)"
  shows "rate_ok config \<lparr>ctl = rc, reqs = (if needFinish then gm_put r (Running ip e) (reqs w) else gm_del r (reqs w))\<rparr>"
    (is "rate_ok config ?w")
proof -
  note D = rate_okD [OF ok] and E = rate_IsAllowed_effect [OF al]
  have h: "holders e' ?w = (if needFinish \<and> e' = e then holders e' w + 1 else holders e' w)" for e'
    using count_vals_put [of "holds_slot e'" r "Running ip e" "reqs w"] count_vals_del [OF D(2), of "holds_slot e'" r] ask
    by (auto simp: holders_count holds_slot_def)
  show ?thesis
  proof (rule rate_okI)
    show "entry_of p < next_entry (ctl ?w)" if "p \<in> set (gm_vals (reqs ?w))" for p
    proof -
      have "p = Running ip e \<or> p \<in> set (gm_vals (reqs w))"
        using that gm_vals_put [OF D(2), of p r "Running ip e"] gm_vals_del [OF D(2), of p r] by (auto split: if_splits)
      with D(4) [of p] D(4) [OF gm_get_vals [OF ask]] E(3) show ?thesis by (auto simp: entry_of_def)
    qed
    show "currentRequestSlots (entry_at (ctl ?w) e') = holders e' ?w \<and> int (holders e' ?w) \<le> ConcurrentMaxRequests config"
      if m: "ConcurrentMaxRequests config > 0" for e'
      using D(6,7) [OF m, of e'] D(1) E(4) [of e'] E(5) m free
      unfolding h by (auto simp: slot_free_def)
  qed (use D E in auto)
qed

lemma Finish_ok:
  assumes ok: "rate_ok config w" and run: "gm_get (reqs w) r = Some (Running ip e)"
    and fin: "FinishRequest e (ctl w) = Some rc"
  shows "rate_ok config \<lparr>ctl = rc, reqs = gm_del r (reqs w)\<rparr>" (is "rate_ok config ?w")
proof -
  note D = rate_okD [OF ok]
  have h: "holders e' ?w + (if e' = e then 1 else 0) = holders e' w" for e'
    using count_vals_del [OF D(2), of "holds_slot e'" r] run by (auto simp: holders_count holds_slot_def split: if_splits)
  have E: "rc_config rc = rc_config (ctl w)" "rc_entries rc = rc_entries (ctl w)" "next_entry rc = next_entry (ctl w)"
    using fin by (auto simp: FinishRequest_def set_slots_def split: if_splits nat.splits)
  show ?thesis
  proof (rule rate_okI)
    show "entry_of p < next_entry (ctl ?w)" if "p \<in> set (gm_vals (reqs ?w))" for p
      using gm_vals_del [OF D(2), of p r] that D(4) E(3) by auto
    show "currentRequestSlots (entry_at (ctl ?w) e') = holders e' ?w \<and> int (holders e' ?w) \<le> ConcurrentMaxRequests config"
      if m: "ConcurrentMaxRequests config > 0" for e'
    proof -
      have "currentRequestSlots (entry_at rc e') + (if e' = e then 1 else 0) = currentRequestSlots (entry_at (ctl w) e')"
        using fin m D(1) by (auto simp: FinishRequest_def set_slots_def split: nat.splits)
      with h [of e'] D(6,7) [OF m, of e'] show ?thesis by (auto split: if_splits)
    qed
  qed (use D E in auto)
qed

lemma Clean_ok: "rate_ok config w \<Longrightarrow> rate_ok config (w\<lparr>ctl := rc_Clean now d (ctl w)\<rparr>)"
proof -
  assume "rate_ok config w"
  note D = rate_okD [OF this]
  show ?thesis
  proof (rule rate_okI)
    show "e < next_entry (ctl (w\<lparr>ctl := rc_Clean now d (ctl w)\<rparr>))"
      if "e \<in> set (gm_vals (rc_entries (ctl (w\<lparr>ctl := rc_Clean now d (ctl w)\<rparr>))))" for e
      using that D(3,5) by (auto simp: rc_Clean_def dest!: gm_vals_fold_del [rotated])
  qed (use D in \<open>auto simp: rc_Clean_def holders_def gm.ok_fold_del\<close>)
qed

lemma rate_step_ok: "rate_step w w' \<Longrightarrow> rate_ok config w \<Longrightarrow> rate_ok config w'"
  by (induction rule: rate_step.induct) (blast intro: Arrive_ok Answer_ok Finish_ok Clean_ok)+

lemma rate_reach_ok: "rate_reach config w \<Longrightarrow> rate_ok config w"
proof (induction rule: rate_reach.induct)
  case Start
  show ?case by (simp add: rate_ok_def NewRateController_def holders_def gm_vals_def)
next
  case (Step w w')
  then show ?case by (blast intro: rate_step_ok)
qed

end
