(* ===== verification/Proxy_Rate_Props.thy ===== *)
theory Proxy_Rate_Props
  imports Proxy_Rate
begin

text \<open>Properties of the rate controller of the proxy.\<close>

subsection \<open>Progress\<close>

definition phase_work :: "request_phase \<Rightarrow> nat" where
  "phase_work p = (case p of Asking ip e \<Rightarrow> 2 | Running ip e \<Rightarrow> 1)"

definition work :: "(nat, request_phase) gomap \<Rightarrow> nat" where
  "work m = 2 * count_vals (\<lambda>p. phase_work p = 2) m + count_vals (\<lambda>p. phase_work p = 1) m"

lemma work_put: "gm_get m r = Some (Asking ip e) \<Longrightarrow> work (gm_put r (Running ip e) m) < work m"
  using count_vals_put [of "\<lambda>p. phase_work p = 2" r "Running ip e" m]
    count_vals_put [of "\<lambda>p. phase_work p = 1" r "Running ip e" m]
  by (simp add: work_def phase_work_def)

lemma work_del: "gm_ok m \<Longrightarrow> gm_get m r = Some p \<Longrightarrow> work (gm_del r m) < work m"
  using count_vals_del [of m "\<lambda>p. phase_work p = 2" r] count_vals_del [of m "\<lambda>p. phase_work p = 1" r]
  by (cases p) (simp_all add: work_def phase_work_def)

lemma can_finish:
  assumes "rate_reach config w" and "gm_get (reqs w) r = Some (Running ip e)"
  shows "\<exists>rc. FinishRequest e (ctl w) = Some rc"
proof -
  note D = rate_okD [OF rate_reach_ok [OF assms(1)]]
  have "0 < holders e w"
    using count_vals_del [OF D(2), of "holds_slot e" r] assms(2) by (simp add: holders_count holds_slot_def)
  with D(1,6) show ?thesis by (auto simp: FinishRequest_def split: nat.splits)
qed

lemma can_work:
  assumes "rate_reach config w" and "reqs w \<noteq> []"
  shows "\<exists>w'. rate_step w w' \<and> work (reqs w') < work (reqs w)"
proof -
  note D = rate_okD [OF rate_reach_ok [OF assms(1)]]
  from assms(2) obtain r p where "(r, p) \<in> set (reqs w)" by (cases "reqs w") auto
  with D(2) have g: "gm_get (reqs w) r = Some p" by (simp add: gm.entries_get)
  show ?thesis
  proof (cases p)
    case (Running ip e)
    with g can_finish [OF assms(1)] obtain rc where "FinishRequest e (ctl w) = Some rc" by blast
    with g Running have "rate_step w \<lparr>ctl = rc, reqs = gm_del r (reqs w)\<rparr>" by (blast intro: rate_step.Finish)
    with work_del [OF D(2) g] show ?thesis by force
  next
    case (Asking ip e)
    obtain rc al nf rs where a: "rate_IsAllowed True MayPass e (ctl w) = (rc, al, nf, rs)" by (metis prod_cases4)
    from rate_step.Answer [OF g [unfolded Asking] _ a]
    have "rate_step w \<lparr>ctl = rc, reqs = (if nf then gm_put r (Running ip e) (reqs w) else gm_del r (reqs w))\<rparr>" by simp
    moreover have "work (if nf then gm_put r (Running ip e) (reqs w) else gm_del r (reqs w)) < work (reqs w)"
      using work_put [OF g [unfolded Asking]] work_del [OF D(2) g] by simp
    ultimately show ?thesis by force
  qed
qed

lemma drains:
  assumes "rate_reach config w"
  shows "\<exists>w'. rate_step\<^sup>*\<^sup>* w w' \<and> reqs w' = []"
  using assms
proof (induction "work (reqs w)" arbitrary: w rule: less_induct)
  case less
  show ?case
  proof (cases "reqs w = []")
    case False
    from can_work [OF less.prems False] obtain w1 where 1: "rate_step w w1" "work (reqs w1) < work (reqs w)" by blast
    with less.hyps [OF 1(2) rate_reach.Step [OF less.prems 1(1)]] show ?thesis
      by (blast intro: converse_rtranclp_into_rtranclp)
  qed blast
qed

subsection \<open>Runs in which no entry is removed\<close>

inductive kept_reach :: "rate_config \<Rightarrow> rate_world \<Rightarrow> bool" for config :: rate_config where
  Kept_Start: "kept_reach config \<lparr>ctl = NewRateController config, reqs = []\<rparr>"
| Kept_Step: "\<lbrakk>kept_reach config w; rate_step w w';
     \<forall>ip. gm_get (rc_entries (ctl w)) ip \<noteq> None \<longrightarrow> gm_get (rc_entries (ctl w')) ip \<noteq> None\<rbrakk> \<Longrightarrow> kept_reach config w'"

lemma kept_reach_reach: "kept_reach config w \<Longrightarrow> rate_reach config w"
  by (induction rule: kept_reach.induct) (auto intro: rate_reach.intros)

definition ip_of :: "request_phase \<Rightarrow> string" where
  "ip_of p = (case p of Asking ip e \<Rightarrow> ip | Running ip e \<Rightarrow> ip)"

definition own_entries :: "rate_world \<Rightarrow> bool" where
  "own_entries w \<longleftrightarrow> (\<forall>p\<in>set (gm_vals (reqs w)). gm_get (rc_entries (ctl w)) (ip_of p) = Some (entry_of p))"

lemma clean_get:
  assumes "gm_get (rc_entries (rc_Clean now d rc)) ip \<noteq> None"
  shows "gm_get (rc_entries (rc_Clean now d rc)) ip = gm_get (rc_entries rc) ip"
  using assms unfolding rc_Clean_def by (auto simp: gm.get_fold_del split: if_splits)

lemma own_entries_step:
  assumes ok: "rate_ok config w" and own: "own_entries w" and st: "rate_step w w'"
    and kept: "\<forall>ip. gm_get (rc_entries (ctl w)) ip \<noteq> None \<longrightarrow> gm_get (rc_entries (ctl w')) ip \<noteq> None"
  shows "own_entries w'"
  using st
proof cases
  case (Arrive r now ip rc e)
  have "gm_get (rc_entries rc) ip' = Some e'" if "gm_get (rc_entries (ctl w)) ip' = Some e'" for ip' e'
    using that GetEntry_effect(2,4) [OF Arrive(3)] GetEntry_effect(3) [OF Arrive(3), of ip'] by (cases "ip' = ip") auto
  with own GetEntry_effect(2) [OF Arrive(3)] show ?thesis
    unfolding Arrive(1) own_entries_def
    by (auto dest!: gm_vals_put [OF rate_okD(2) [OF ok]] simp: ip_of_def entry_of_def)
next
  case (Answer r ip e slotTimeout wait rc allowed needFinish reason)
  from own gm_get_vals [OF Answer(2)] have "gm_get (rc_entries (ctl w)) ip = Some e"
    by (auto simp: own_entries_def ip_of_def entry_of_def)
  with own rate_IsAllowed_effect(2) [OF Answer(4)] show ?thesis
    unfolding Answer(1) own_entries_def
    by (auto dest!: gm_vals_put [OF rate_okD(2) [OF ok]] gm_vals_del [OF rate_okD(2) [OF ok]]
        simp: ip_of_def entry_of_def)
next
  case (Finish r ip e rc)
  then have "rc_entries rc = rc_entries (ctl w)"
    by (auto simp: FinishRequest_def set_slots_def split: if_splits nat.splits)
  with own show ?thesis
    unfolding Finish(1) own_entries_def by (auto dest!: gm_vals_del [OF rate_okD(2) [OF ok]])
next
  case (Clean now d)
  with own kept show ?thesis by (auto simp: own_entries_def clean_get)
qed

lemma kept_own: "kept_reach config w \<Longrightarrow> own_entries w"
proof (induction rule: kept_reach.induct)
  case Kept_Start
  show ?case by (simp add: own_entries_def gm_vals_def)
next
  case (Kept_Step w w')
  then show ?case by (blast intro: own_entries_step rate_reach_ok kept_reach_reach)
qed

subsection \<open>A concrete run\<close>

definition one_slot :: rate_config where
  "one_slot = \<lparr>rc_Name = ''default'', ConcurrentMaxRequests = 1, ConcurrentOverflowTimeout = seconds 1,
     RateEnable = False, RateBurst = 0, RateRequestsPerSecond = 0, RateMaxDelay = 0, VipList = []\<rparr>"

definition world1 :: rate_world where
  "world1 = (let (rc, e) = GetEntry 1 ''10.0.0.9'' (NewRateController one_slot);
     (rc', _) = rate_IsAllowed False MayPass e rc in \<lparr>ctl = rc', reqs = [(0, Running ''10.0.0.9'' e)]\<rparr>)"

lemma kept_world1: "kept_reach one_slot world1"
proof -
  let ?ip = "''10.0.0.9''" and ?w0 = "\<lparr>ctl = NewRateController one_slot, reqs = []\<rparr>"
  obtain rc e where ge: "GetEntry 1 ?ip (NewRateController one_slot) = (rc, e)" by fastforce
  then have e: "e = 0" and rc: "rc_config rc = one_slot" "currentRequestSlots (entry_at rc e) = 0"
    by (auto simp: GetEntry_def NewRateController_def touch_entry_def Let_def)
  obtain rc' al nf rs where ia: "rate_IsAllowed False MayPass e rc = (rc', al, nf, rs)" by (metis prod_cases4)
  then have nf: nf using rate_IsAllowed_effect(5) [OF ia] by simp
  let ?w1 = "\<lparr>ctl = rc, reqs = [(0, Asking ?ip e)]\<rparr>"
  have s1: "rate_step ?w0 ?w1"
    using rate_step.Arrive [of ?w0 0 1 ?ip rc e] ge by (simp add: gm_put_def)
  have k1: "kept_reach one_slot ?w1"
    by (rule kept_reach.Kept_Step [OF kept_reach.Kept_Start s1]) (simp add: NewRateController_def)
  have s2: "rate_step ?w1 world1"
    using rate_step.Answer [of ?w1 0 ?ip e False MayPass rc' al nf rs] ia nf ge rc e
    by (simp add: gm_put_def gm_get_def world1_def slot_free_def one_slot_def)
  show ?thesis
    by (rule kept_reach.Kept_Step [OF k1 s2]) (use rate_IsAllowed_effect(2) [OF ia] ge ia in \<open>simp add: world1_def\<close>)
qed

subsection \<open>Properties\<close>

text \<open>C8. In every reachable state, each entry has exactly as many slots taken as requests that will give one back,
  and never more than the configured number: the channel never overflows and the invariant survives any
  interleaving with the cleaning goroutine.\<close>

theorem rate_slots_bounded:
  assumes "rate_reach config w" and "0 < ConcurrentMaxRequests config"
  shows "currentRequestSlots (entry_at (ctl w) e) = holders e w \<and>
    int (currentRequestSlots (entry_at (ctl w) e)) \<le> ConcurrentMaxRequests config"
  using rate_okD(6,7) [OF rate_reach_ok [OF assms(1)] assms(2)] by simp

theorem rate_slots_bounded_witness:
  "int (currentRequestSlots (entry_at (ctl world1) 0)) \<le> 1"
  using rate_slots_bounded [OF kept_reach_reach [OF kept_world1], of 0] by (simp add: one_slot_def)

text \<open>C29. No request is ever stuck: ending a request never blocks on the slots channel, and from every reachable
  state the requests under way can all be answered and finished.\<close>

theorem requests_drain:
  assumes "rate_reach config w"
  shows "(\<forall>r ip e. gm_get (reqs w) r = Some (Running ip e) \<longrightarrow> FinishRequest e (ctl w) \<noteq> None) \<and>
    (\<exists>w'. rate_step\<^sup>*\<^sup>* w w' \<and> reqs w' = [])"
  using can_finish [OF assms] drains [OF assms] by blast

theorem requests_drain_witness: "\<exists>w'. rate_step\<^sup>*\<^sup>* world1 w' \<and> reqs w' = []"
  using requests_drain [OF kept_reach_reach [OF kept_world1]] by blast

text \<open>C40. As long as the cleaning removes no entry, an address never has more requests running than allowed.\<close>

theorem limit_per_address:
  assumes "kept_reach config w" and "0 < ConcurrentMaxRequests config"
  shows "int (length (filter (\<lambda>p. ip_of p = ip \<and> phase_work p = 1) (gm_vals (reqs w)))) \<le> ConcurrentMaxRequests config"
proof (cases "gm_get (rc_entries (ctl w)) ip")
  case None
  with kept_own [OF assms(1)] have "count_vals (\<lambda>p. ip_of p = ip \<and> phase_work p = 1) (reqs w) = 0"
    by (intro count_vals_0) (auto simp: own_entries_def)
  with assms(2) show ?thesis by (simp add: count_vals_def)
next
  case (Some e)
  with kept_own [OF assms(1)] have "count_vals (\<lambda>p. ip_of p = ip \<and> phase_work p = 1) (reqs w) \<le> count_vals (holds_slot e) (reqs w)"
    by (intro count_vals_mono)
      (fastforce simp: own_entries_def holds_slot_def phase_work_def entry_of_def split: request_phase.splits)
  with rate_okD(7) [OF rate_reach_ok [OF kept_reach_reach [OF assms(1)]] assms(2), of e] show ?thesis
    unfolding count_vals_def [of "\<lambda>p. ip_of p = ip \<and> phase_work p = 1"] holders_count by linarith
qed

theorem limit_per_address_witness:
  "int (length (filter (\<lambda>p. ip_of p = ''10.0.0.9'' \<and> phase_work p = 1) (gm_vals (reqs world1)))) \<le> 1"
  using limit_per_address [OF kept_world1, of "''10.0.0.9''"] by (simp add: one_slot_def)

text \<open>The cleaning also removes entries in use: with one slot per address and a request that runs for longer than
  the unused time, the same address gets a second slot and has two requests running.\<close>

theorem clean_breaks_limit:
  "\<exists>w. rate_reach one_slot w \<and>
     length (filter (\<lambda>p. ip_of p = ''10.0.0.9'' \<and> phase_work p = 1) (gm_vals (reqs w))) = 2"
proof -
  let ?ip = "''10.0.0.9''"
  let ?w2 = "world1\<lparr>ctl := rc_Clean (1 + seconds 400) (seconds 300) (ctl world1)\<rparr>"
  have r2: "rate_reach one_slot ?w2"
    by (rule rate_reach.Step [OF kept_reach_reach [OF kept_world1] rate_step.Clean])
  have c2: "rc_entries (ctl ?w2) = []" "rc_config (ctl ?w2) = one_slot" "reqs ?w2 = [(0, Running ?ip 0)]"
    by (simp_all add: world1_def GetEntry_def NewRateController_def touch_entry_def rate_IsAllowed_def set_slots_def
        rc_Clean_def Let_def one_slot_def gm_put_def gm_del_def seconds_def time_sub_def max_duration_def min_duration_def)
  obtain rc e where ge: "GetEntry 2 ?ip (ctl ?w2) = (rc, e)" by fastforce
  have rc: "rc_config rc = one_slot" "currentRequestSlots (entry_at rc e) = 0"
    using GetEntry_effect(1,4) [OF ge] c2 by auto
  let ?w3 = "\<lparr>ctl = rc, reqs = [(0, Running ?ip 0), (1, Asking ?ip e)]\<rparr>"
  have "rate_step ?w2 ?w3"
    using rate_step.Arrive [of ?w2 1 2 ?ip rc e] ge c2 by (simp add: gm_put_def gm_get_def)
  then have r3: "rate_reach one_slot ?w3" by (rule rate_reach.Step [OF r2])
  obtain rc' al nf rs where ia: "rate_IsAllowed False MayPass e rc = (rc', al, nf, rs)" by (metis prod_cases4)
  then have nf: nf using rate_IsAllowed_effect(5) [OF ia] by simp
  let ?w4 = "\<lparr>ctl = rc', reqs = [(0, Running ?ip 0), (1, Running ?ip e)]\<rparr>"
  have "rate_step ?w3 ?w4"
    using rate_step.Answer [of ?w3 1 ?ip e False MayPass rc' al nf rs] ia nf rc
    by (simp add: gm_put_def gm_get_def slot_free_def one_slot_def)
  then have "rate_reach one_slot ?w4" by (rule rate_reach.Step [OF r3])
  moreover have "length (filter (\<lambda>p. ip_of p = ?ip \<and> phase_work p = 1) (gm_vals (reqs ?w4))) = 2"
    by (simp add: gm_vals_def ip_of_def phase_work_def)
  ultimately show ?thesis by blast
qed

end
