(* ===== verification/Proxy_Domains.thy ===== *)
theory Proxy_Domains
  imports Vm_Database Go_Url
begin

text \<open>
  The domain database of the reverse proxy (\<open>mulch-proxy/domain_database.go\<close>): the file the
  server writes, loaded in memory, where every domain also has its \<open>ReverseProxy\<close>, a pointer
  that is nil until \<open>RefreshReverseProxies\<close> creates it. A proxy that is given is known here by the URL it
  forwards to.
\<close>

record proxy_domain = domain +
  ReverseProxy :: "string option"

record domain_db =
  ddb :: "(string, proxy_domain) gomap"
  ddb_file :: "(string, domain) gomap dbfile"

datatype ddb_error = DdbOpen | DdbDecode | DdbWrite string | DomainNotFound string

text \<open>The reverse proxy of a domain is not stored in the file.\<close>

definition to_file :: "proxy_domain \<Rightarrow> domain" where "to_file d = domain.truncate d"
definition from_file :: "domain \<Rightarrow> proxy_domain" where
  "from_file d = domain.extend d \<lparr>ReverseProxy = None\<rparr>"

lemma to_from_file [simp]: "to_file (from_file d) = d"
  by (simp add: to_file_def from_file_def domain.defs)

lemma from_file_simps [simp]:
  "dom_Name (from_file d) = dom_Name d" "Chained (from_file d) = Chained d"
  "TargetURL (from_file d) = TargetURL d" "RateProfile (from_file d) = RateProfile d"
  "ReverseProxy (from_file d) = None"
  by (simp_all add: from_file_def domain.defs)

text \<open>Every value of a map converted to another type.\<close>

definition gm_conv :: "('a \<Rightarrow> 'b) \<Rightarrow> ('k, 'a) gomap \<Rightarrow> ('k, 'b) gomap" where
  "gm_conv f m = map (apsnd f) m"

lemma gm_get_conv [simp]: "gm_get (gm_conv f m) k = map_option f (gm_get m k)"
  by (induction m) (auto simp: gm_get_def gm_conv_def apsnd_def)

lemma gm_ok_conv [simp]: "gm_ok (gm_conv f m) = gm_ok m"
  by (simp add: gm_ok_def gm_conv_def comp_def)

lemma fst_set_conv [simp]: "fst ` set (gm_conv f m) = fst ` set m"
  by (force simp: gm_conv_def image_iff)

definition ddb_save :: "io_write \<Rightarrow> domain_db \<Rightarrow> domain_db \<times> ddb_error option" where
  "ddb_save w st =
     (let (f, e) = write_file w (gm_conv to_file (ddb st)) (ddb_file st)
      in (st\<lparr>ddb_file := f\<rparr>, map_option DdbWrite e))"

text \<open>\<open>load\<close> empties the map as soon as the file is open, before it is decoded.\<close>

definition ddb_load :: "domain_db \<Rightarrow> domain_db \<times> ddb_error option" where
  "ddb_load st =
     (case ddb_file st of
        NoFile \<Rightarrow> (st, Some DdbOpen)
      | Damaged \<Rightarrow> (st\<lparr>ddb := []\<rparr>, Some DdbDecode)
      | Holds m \<Rightarrow> (st\<lparr>ddb := put_all (gm_conv from_file m) []\<rparr>, None))"

definition NewDomainDatabase ::
  "io_write \<Rightarrow> bool \<Rightarrow> (string, domain) gomap dbfile \<Rightarrow> ddb_error + domain_db" where
  "NewDomainDatabase w autoCreate on_disk =
     (let st = \<lparr>ddb = [], ddb_file = on_disk\<rparr> in
      case (if autoCreate \<and> on_disk = NoFile then ddb_save w st else (st, None)) of
        (st1, Some e) \<Rightarrow> Inl e
      | (st1, None) \<Rightarrow> (case ddb_load st1 of (st2, Some e) \<Rightarrow> Inl e | (st2, None) \<Rightarrow> Inr st2))"

definition Reload :: "domain_db \<Rightarrow> domain_db \<times> ddb_error option" where "Reload = ddb_load"

definition GetDomainsNames :: "domain_db \<Rightarrow> string list" where "GetDomainsNames st = gm_keys (ddb st)"

record chain_domain =
  chain_Domain :: string
  chain_RateProfile :: string

definition GetProxyChainDomains :: "domain_db \<Rightarrow> chain_domain list" where
  "GetProxyChainDomains st =
     map (\<lambda>d. \<lparr>chain_Domain = dom_Name d, chain_RateProfile = RateProfile d\<rparr>) (gm_vals (ddb st))"

definition ddb_GetByName :: "domain_db \<Rightarrow> string \<Rightarrow> ddb_error + proxy_domain" where
  "ddb_GetByName st name =
     (case gm_get (ddb st) name of None \<Rightarrow> Inl (DomainNotFound name) | Some d \<Rightarrow> Inr d)"

definition ddb_Count :: "domain_db \<Rightarrow> nat" where "ddb_Count st = length (ddb st)"

definition chained_domain :: "string \<Rightarrow> chain_domain \<Rightarrow> domain" where
  "chained_domain forwardTo d =
     \<lparr>dom_Name = chain_Domain d, dom_VMName = [], RedirectTo = [], RedirectCode = 0, DestinationHost = [],
      DestinationPort = 0, RedirectToHTTPS = False, RateProfile = chain_RateProfile d,
      TargetURL = forwardTo, Chained = True\<rparr>"

definition previous_of :: "string \<Rightarrow> string \<times> proxy_domain \<Rightarrow> bool" where
  "previous_of forwardTo kd = (Chained (snd kd) \<and> TargetURL (snd kd) = forwardTo)"

definition ReplaceChainedDomains ::
  "io_write \<Rightarrow> chain_domain list \<Rightarrow> string \<Rightarrow> domain_db \<Rightarrow> domain_db \<times> ddb_error option" where
  "ReplaceChainedDomains w domains forwardTo st =
     (let db1 = fold gm_del (map fst (filter (previous_of forwardTo) (ddb st))) (ddb st);
          db2 = put_all (map (\<lambda>d. (chain_Domain d, from_file (chained_domain forwardTo d))) domains) db1
      in ddb_save w (st\<lparr>ddb := db2\<rparr>))"

definition conflict_with :: "domain_db \<Rightarrow> url \<Rightarrow> string \<Rightarrow> chain_conflict option" where
  "conflict_with st childURL reqDomain =
     (case ddb_GetByName st reqDomain of Inl e \<Rightarrow> None
      | Inr d \<Rightarrow> (case ParseRequestURI (TargetURL d) of None \<Rightarrow> None
          | Some targetURL \<Rightarrow>
              if Hostname targetURL \<noteq> Hostname childURL
              then Some \<lparr>cc_Domain = dom_Name d, cc_Owner = Hostname targetURL\<rparr> else None))"

definition GetConflictingDomains :: "domain_db \<Rightarrow> string list \<Rightarrow> string \<Rightarrow> chain_conflict list" where
  "GetConflictingDomains st reqDomains childForwardURL =
     (case ParseRequestURI childForwardURL of None \<Rightarrow> []
      | Some childURL \<Rightarrow> List.map_filter (conflict_with st childURL) reqDomains)"

definition GetChildren :: "domain_db \<Rightarrow> string list" where
  "GetChildren st =
     gm_keys (put_all (map (\<lambda>d. (TargetURL d, True)) (filter Chained (gm_vals (ddb st)))) [])"

subsection \<open>The invariant\<close>

text \<open>One entry per name, under the name the domain has.\<close>

definition ddb_ok :: "domain_db \<Rightarrow> bool" where
  "ddb_ok st \<longleftrightarrow> gm_ok (ddb st) \<and> (\<forall>k d. gm_get (ddb st) k = Some d \<longrightarrow> dom_Name d = k)"

lemma ddb_save_keeps [simp]: "ddb (fst (ddb_save w st)) = ddb st"
  by (simp add: ddb_save_def split: prod.split)

lemma replaced_get:
  assumes "gm_ok (ddb st)"
  shows "gm_get (ddb (fst (ReplaceChainedDomains w domains forwardTo st))) k =
    (case map_of (rev (map (\<lambda>d. (chain_Domain d, from_file (chained_domain forwardTo d))) domains)) k of
       Some d \<Rightarrow> Some d
     | None \<Rightarrow> (case gm_get (ddb st) k of None \<Rightarrow> None
         | Some d \<Rightarrow> if Chained d \<and> TargetURL d = forwardTo then None else Some d))"
proof -
  let ?old = "map fst (filter (previous_of forwardTo) (ddb st))"
  have "k \<in> set ?old \<longleftrightarrow> (\<exists>d. (k, d) \<in> set (ddb st) \<and> Chained d \<and> TargetURL d = forwardTo)"
    by (force simp: previous_of_def)
  also have "\<dots> \<longleftrightarrow> (\<exists>d. gm_get (ddb st) k = Some d \<and> Chained d \<and> TargetURL d = forwardTo)"
    by (simp only: gm.entries_get [OF assms])
  finally have del: "gm_get (fold gm_del ?old (ddb st)) k =
      (case gm_get (ddb st) k of None \<Rightarrow> None
       | Some d \<Rightarrow> if Chained d \<and> TargetURL d = forwardTo then None else Some d)"
    unfolding gm.get_fold_del by (cases "gm_get (ddb st) k") auto
  then show ?thesis
    unfolding ReplaceChainedDomains_def Let_def ddb_save_keeps by (simp add: put_all_get del split: option.split)
qed

lemma replaced_chain_domain:
  assumes "map_of (rev (map (\<lambda>d. (chain_Domain d, from_file (chained_domain u d))) ds)) k = Some d"
  shows "\<exists>c\<in>set ds. chain_Domain c = k \<and> d = from_file (chained_domain u c)"
  using map_of_SomeD [OF assms] by auto

lemma ReplaceChainedDomains_ok:
  assumes "ddb_ok st" shows "ddb_ok (fst (ReplaceChainedDomains w ds u st))"
proof -
  from assms have g: "gm_ok (ddb st)" by (simp add: ddb_ok_def)
  then have "gm_ok (ddb (fst (ReplaceChainedDomains w ds u st)))"
    unfolding ReplaceChainedDomains_def Let_def ddb_save_keeps by (simp add: put_all_ok gm.ok_fold_del)
  moreover have "dom_Name d = k" if "gm_get (ddb (fst (ReplaceChainedDomains w ds u st))) k = Some d" for k d
  proof (cases "map_of (rev (map (\<lambda>d. (chain_Domain d, from_file (chained_domain u d))) ds)) k")
    case None
    with that replaced_get [OF g, of w ds u k] assms show ?thesis
      by (auto simp: ddb_ok_def split: option.splits if_splits)
  next
    case (Some d')
    from replaced_chain_domain [OF Some] obtain c where "chain_Domain c = k" "d' = from_file (chained_domain u c)" by auto
    moreover have "d = d'" using that Some unfolding replaced_get [OF g] by simp
    ultimately show ?thesis by (simp add: chained_domain_def)
  qed
  ultimately show ?thesis by (simp add: ddb_ok_def)
qed

text \<open>A file that lists every domain under its name.\<close>

definition domain_file_ok :: "(string, domain) gomap dbfile \<Rightarrow> bool" where
  "domain_file_ok f \<longleftrightarrow> (\<forall>m. f = Holds m \<longrightarrow> gm_ok m \<and> (\<forall>(k, d)\<in>set m. dom_Name d = k))"

lemma ddb_load_get:
  assumes "ddb_file st = Holds m" and "gm_ok m"
  shows "gm_get (ddb (fst (ddb_load st))) k = map_option from_file (gm_get m k)"
proof -
  have "gm_ok (gm_conv from_file m)" using assms(2) by simp
  from put_all_copy [OF this] show ?thesis using assms(1) by (simp add: ddb_load_def fun_eq_iff)
qed

lemma ddb_load_ok: "ddb_ok st \<Longrightarrow> domain_file_ok (ddb_file st) \<Longrightarrow> ddb_ok (fst (ddb_load st))"
proof (cases "ddb_file st")
  case (Holds m)
  assume "domain_file_ok (ddb_file st)"
  with Holds have m: "gm_ok m" "\<forall>(k, d)\<in>set m. dom_Name d = k" by (auto simp: domain_file_ok_def)
  have "gm_ok (ddb (fst (ddb_load st)))" using Holds by (simp add: ddb_load_def put_all_ok)
  with m show ?thesis
    by (auto simp: ddb_ok_def ddb_load_get [OF Holds m(1)] dest!: gm_get_in)
qed (auto simp: ddb_load_def ddb_ok_def)

end
