(* ===== verification/Proxy_Server.thy ===== *)
theory Proxy_Server
  imports Proxy_Domains Proxy_Rate Common_Tools
begin

text \<open>
  The reverse proxy itself (\<open>mulch-proxy/proxy.go\<close>): which hosts it answers for, what it does of a
  request, how it refreshes its domains; and the list of requests (\<open>request_list.go\<close>), the API of a
  parent proxy (\<open>api_server.go\<close>) and the reload on a signal (\<open>app.go\<close>).

  A request is what the code reads of it: host, remote address, headers, whether TLS was used,
  URL. Dereferencing a nil pointer is the answer \<open>AnsPanic\<close>.
\<close>

definition ProtoHTTP :: string where "ProtoHTTP = ''http''"
definition ProtoHTTPS :: string where "ProtoHTTPS = ''https''"
definition PSKHeaderName :: string where "PSKHeaderName = ''Mulch-Psk''"
definition WatchDogHeaderName :: string where "WatchDogHeaderName = ''Mulch-Watchdog''"

type_synonym header = "(string, string) gomap"

definition header_get :: "header \<Rightarrow> string \<Rightarrow> string" where
  "header_get h name = (case gm_get h name of None \<Rightarrow> [] | Some v \<Rightarrow> v)"

record proxy_request =
  preq_Host :: string
  preq_RemoteAddr :: string
  preq_Header :: header
  preq_TLS :: bool
  preq_URL :: string

record proxy_params =
  MulchdHTTPSDomain :: string
  px_ChainMode :: chain_mode
  ChainPSK :: string
  ChainDomain :: string
  ForceXForwardedFor :: bool
  HaveTrustedProxies :: bool
  TrustedProxies :: "(string, bool) gomap"
  px_Debug :: bool
  ErrorTemplate :: "string + string"

record request_info =
  ri_Request :: proxy_request
  ri_RemoteAddr :: string
  ri_Start :: time

record request_list =
  rl_enable :: bool
  rl_requests :: "(64 word, request_info) gomap"

record proxy_server =
  px_config :: proxy_params
  DomainDB :: domain_db
  RequestList :: request_list
  RateControllers :: "(string, rate_controller) gomap"
  requestCounter :: "64 word"

datatype answer =
    AnsOK
  | AnsError nat string
  | AnsRedirect nat string
  | AnsForward url proxy_request
  | AnsPanic string

subsection \<open>The list of requests\<close>

definition NewRequestList :: "bool \<Rightarrow> request_list" where
  "NewRequestList enable = \<lparr>rl_enable = enable, rl_requests = []\<rparr>"

definition AddRequest :: "time \<Rightarrow> 64 word \<Rightarrow> proxy_request \<Rightarrow> string \<Rightarrow> request_list \<Rightarrow> request_list" where
  "AddRequest now n req remoteAddr rl =
     (if \<not> rl_enable rl then rl
      else rl\<lparr>rl_requests := gm_put n \<lparr>ri_Request = req, ri_RemoteAddr = remoteAddr, ri_Start = now\<rparr> (rl_requests rl)\<rparr>)"

definition DeleteRequest :: "64 word \<Rightarrow> request_list \<Rightarrow> request_list" where
  "DeleteRequest n rl = (if \<not> rl_enable rl then rl else rl\<lparr>rl_requests := gm_del n (rl_requests rl)\<rparr>)"

subsection \<open>Hosts and errors\<close>

definition genErrorPage :: "(string list \<Rightarrow> string list) \<Rightarrow> proxy_params \<Rightarrow> nat \<Rightarrow> string \<Rightarrow> string" where
  "genErrorPage order config code message =
     (case ErrorTemplate config of Inl err \<Rightarrow> err
      | Inr html \<Rightarrow> StringExpandVariables order html [(''ERROR_CODE'', itoa (int code)), (''ERROR_MESSAGE'', message)])"

definition hostPolicy :: "proxy_server \<Rightarrow> string \<Rightarrow> bool" where
  "hostPolicy px host =
     (if host = MulchdHTTPSDomain (px_config px) \<and> MulchdHTTPSDomain (px_config px) \<noteq> [] then True
      else if host = ChainDomain (px_config px) \<and> ChainDomain (px_config px) \<noteq> [] then True
      else case ddb_GetByName (DomainDB px) host of Inr d \<Rightarrow> True | Inl e \<Rightarrow> False)"

subsection \<open>Forwarding\<close>

definition header_set :: "string \<Rightarrow> string \<Rightarrow> header \<Rightarrow> header" where "header_set = gm_put"
definition header_del :: "string \<Rightarrow> header \<Rightarrow> header" where "header_del = gm_del"

definition forward_headers :: "proxy_params \<Rightarrow> bool \<Rightarrow> string \<Rightarrow> bool \<Rightarrow> string \<Rightarrow> header \<Rightarrow> header" where
  "forward_headers config chained proto fromParent ip h0 =
     (let h1 = header_set ''X-Forwarded-Proto'' proto h0;
          h2 = (if px_ChainMode config = ChainParent \<and> chained then header_set PSKHeaderName (ChainPSK config) h1 else h1);
          h3 = (if fromParent then header_del PSKHeaderName h2 else header_set ''X-Real-Ip'' ip h2)
      in if ForceXForwardedFor config \<and> \<not> fromParent then header_set ''X-Forwarded-For'' ip h3 else h3)"

definition serveReverseProxy :: "proxy_params \<Rightarrow> proxy_domain \<Rightarrow> string \<Rightarrow> proxy_request \<Rightarrow> bool \<Rightarrow> answer" where
  "serveReverseProxy config d proto req fromParent =
     (case Parse (TargetURL d) of None \<Rightarrow> AnsPanic ''url is nil''
      | Some url \<Rightarrow>
          (let ip = (case SplitHostPort (preq_RemoteAddr req) of Some (h, p) \<Rightarrow> h | None \<Rightarrow> ''invalid-'' @ preq_RemoteAddr req);
               req1 = req\<lparr>preq_Header := forward_headers config (Chained d) proto fromParent ip (preq_Header req)\<rparr>;
               req2 = (if ForceXForwardedFor config then req1\<lparr>preq_RemoteAddr := ''invalid''\<rparr> else req1)
           in case ReverseProxy d of None \<Rightarrow> AnsPanic ''ReverseProxy is nil''
              | Some target \<Rightarrow>
                  (case Parse target of None \<Rightarrow> AnsPanic ''target is nil'' | Some u \<Rightarrow> AnsForward u req2)))"

subsection \<open>A request\<close>

definition from_parent :: "proxy_params \<Rightarrow> string \<Rightarrow> proxy_request \<Rightarrow> bool" where
  "from_parent config ip req \<longleftrightarrow>
     px_ChainMode config = ChainChild \<and> ChainPSK config = header_get (preq_Header req) PSKHeaderName \<or>
     px_ChainMode config = ChainNone \<and> HaveTrustedProxies config \<and> gm_get (TrustedProxies config) ip \<noteq> None"

definition redirect_status :: "int \<Rightarrow> nat" where
  "redirect_status code =
     (if code = 301 then 301 else if code = 302 then 302 else if code = 307 then 307
      else if code = 308 then 308 else 302)"

text \<open>What follows the rate limiting.\<close>

definition route_request :: "proxy_params \<Rightarrow> proxy_domain \<Rightarrow> string \<Rightarrow> proxy_request \<Rightarrow> bool \<Rightarrow> answer" where
  "route_request config d proto req fromParent =
     (if RedirectTo d \<noteq> [] then AnsRedirect (redirect_status (RedirectCode d)) (proto @ ''://'' @ RedirectTo d @ preq_URL req)
      else if proto = ProtoHTTP \<and> RedirectToHTTPS d then AnsRedirect 302 (''https://'' @ preq_Host req @ preq_URL req)
      else serveReverseProxy config d proto req fromParent)"

text \<open>
  The rate limiting: the controller of the domain's profile, or the default one; \<open>None\<close> when the request is not
  limited. \<open>decide\<close> stands for the wait inside \<open>rate_IsAllowed\<close>: whether the slot came too late and the limiter's answer.
\<close>

definition rate_profile :: "proxy_server \<Rightarrow> string \<Rightarrow> string \<times> rate_controller option" where
  "rate_profile px profile =
     (case gm_get (RateControllers px) profile of Some rc \<Rightarrow> (profile, Some rc)
      | None \<Rightarrow> (''default'', gm_get (RateControllers px) ''default''))"

definition limit_request ::
  "time \<Rightarrow> (rate_controller \<Rightarrow> nat \<Rightarrow> bool \<times> limiter_answer) \<Rightarrow> string \<Rightarrow> rate_controller \<Rightarrow>
     rate_controller \<times> bool \<times> nat option" where
  "limit_request now decide ip rc =
     (if IsActive rc \<and> \<not> IsVIP ip rc then
        (let (rc1, e) = GetEntry now ip rc;
             (slotTimeout, wait) = decide rc1 e;
             (rc2, allowed, needFinish, reason) = rate_IsAllowed slotTimeout wait e rc1
         in (rc2, allowed, if needFinish then Some e else None))
      else (rc, True, None))"

definition finish_request :: "nat option \<Rightarrow> rate_controller \<Rightarrow> rate_controller option" where
  "finish_request held rc = (case held of None \<Rightarrow> Some rc | Some e \<Rightarrow> FinishRequest e rc)"

text \<open>
  \<open>handleRequest\<close> up to the end of the answer: the deferred calls (free the slot, leave the request
  list) have run; \<open>None\<close> if one of them blocks for ever.
\<close>

definition answer_domain ::
  "(string list \<Rightarrow> string list) \<Rightarrow> time \<Rightarrow> (rate_controller \<Rightarrow> nat \<Rightarrow> bool \<times> limiter_answer) \<Rightarrow> bool \<Rightarrow> string \<Rightarrow> string \<Rightarrow>
     proxy_request \<Rightarrow> proxy_domain \<Rightarrow> proxy_server \<Rightarrow> (proxy_server \<times> answer) option" where
  "answer_domain order now decide fromParent proto ip req d px =
     (if fromParent then Some (px, route_request (px_config px) d proto req fromParent)
      else case rate_profile px (RateProfile d) of
        (profile, None) \<Rightarrow> Some (px, AnsPanic ''rate controller is nil'')
      | (profile, Some rc) \<Rightarrow>
          (let (rc1, allowed, held) = limit_request now decide ip rc in
           case finish_request held rc1 of None \<Rightarrow> None
           | Some rc2 \<Rightarrow>
               Some (px\<lparr>RateControllers := gm_put profile rc2 (RateControllers px)\<rparr>,
                 if allowed then route_request (px_config px) d proto req fromParent
                 else AnsError 429 (genErrorPage order (px_config px) 429 ''Too many requests''))))"

definition request_host :: "proxy_request \<Rightarrow> string" where
  "request_host req = to_lower (hd (go_split '':'' (preq_Host req)))"

definition request_ip :: "proxy_request \<Rightarrow> string" where
  "request_ip req = (case SplitHostPort (preq_RemoteAddr req) of Some (h, p) \<Rightarrow> h | None \<Rightarrow> [])"

definition request_proto :: "bool \<Rightarrow> proxy_request \<Rightarrow> string" where
  "request_proto fromParent req =
     (if fromParent then header_get (preq_Header req) ''X-Forwarded-Proto''
      else if preq_TLS req then ProtoHTTPS else ProtoHTTP)"

definition enter_request :: "time \<Rightarrow> proxy_request \<Rightarrow> proxy_server \<Rightarrow> proxy_server" where
  "enter_request now req px =
     (let n = requestCounter px + 1 in
      px\<lparr>requestCounter := n,
         RequestList := (if px_Debug (px_config px) then AddRequest now n req (preq_RemoteAddr req) (RequestList px)
                         else RequestList px)\<rparr>)"

definition leave_request :: "64 word \<Rightarrow> proxy_server \<Rightarrow> proxy_server" where
  "leave_request n px =
     px\<lparr>RequestList := (if px_Debug (px_config px) then DeleteRequest n (RequestList px) else RequestList px)\<rparr>"

definition handleRequest ::
  "(string list \<Rightarrow> string list) \<Rightarrow> time \<Rightarrow> (rate_controller \<Rightarrow> nat \<Rightarrow> bool \<times> limiter_answer) \<Rightarrow>
     proxy_request \<Rightarrow> proxy_server \<Rightarrow> (proxy_server \<times> answer) option" where
  "handleRequest order now decide req px =
     (if header_get (preq_Header req) WatchDogHeaderName \<noteq> [] then Some (px, AnsOK)
      else
        let fromParent = from_parent (px_config px) (request_ip req) req;
            px1 = enter_request now req px
        in map_option (apfst (leave_request (requestCounter px1)))
          (case ddb_GetByName (DomainDB px1) (request_host req) of
             Inl e \<Rightarrow> Some (px1, AnsError 500 (genErrorPage order (px_config px) 500
               (''domain '' @ [CHR 0x27] @ request_host req @ [CHR 0x27] @ '' not found in database'')))
           | Inr d \<Rightarrow>
               answer_domain order now decide fromParent (request_proto fromParent req) (request_ip req) req d px1))"

subsection \<open>Refreshing\<close>

definition refresh_domain :: "proxy_domain \<Rightarrow> proxy_domain" where
  "refresh_domain d =
     (let d1 = (if Chained d then d
                else d\<lparr>TargetURL := ''http://'' @ DestinationHost d @ '':'' @ itoa (DestinationPort d)\<rparr>)
      in d1\<lparr>ReverseProxy := Some (TargetURL d1)\<rparr>)"

definition RefreshReverseProxies :: "proxy_server \<Rightarrow> proxy_server" where
  "RefreshReverseProxies px =
     px\<lparr>DomainDB := (DomainDB px)\<lparr>ddb := gm_map refresh_domain (ddb (DomainDB px))\<rparr>\<rparr>"

definition ReloadDomains :: "proxy_server \<Rightarrow> proxy_server" where
  "ReloadDomains px = RefreshReverseProxies (px\<lparr>DomainDB := fst (Reload (DomainDB px))\<rparr>)"

subsection \<open>The API of a parent proxy\<close>

record chain_domains =
  cds_Domains :: "chain_domain list"
  ForwardTo :: string

definition GetDomainNames :: "chain_domains \<Rightarrow> string list" where
  "GetDomainNames data = map chain_Domain (cds_Domains data)"

record api_request =
  ar_Method :: string
  ar_PSK :: string
  ar_Body :: "chain_domains option"

datatype api_answer = ApiForbidden | ApiMethodNotAllowed | ApiBadRequest | ApiServerError | ApiOK | ApiConflicts "chain_conflict list"

definition checkPSK :: "proxy_params \<Rightarrow> api_request \<Rightarrow> bool" where
  "checkPSK config request \<longleftrightarrow> ar_PSK request = ChainPSK config"

definition registerDomainsController :: "io_write \<Rightarrow> api_request \<Rightarrow> proxy_server \<Rightarrow> proxy_server \<times> api_answer" where
  "registerDomainsController w request px =
     (case ar_Body request of None \<Rightarrow> (px, ApiBadRequest)
      | Some data \<Rightarrow>
          (case ReplaceChainedDomains w (cds_Domains data) (ForwardTo data) (DomainDB px) of
             (st, Some e) \<Rightarrow> (px\<lparr>DomainDB := st\<rparr>, ApiServerError)
           | (st, None) \<Rightarrow> (px\<lparr>DomainDB := st\<rparr>, ApiOK)))"

definition checkDomainsController :: "api_request \<Rightarrow> proxy_server \<Rightarrow> api_answer" where
  "checkDomainsController request px =
     (case ar_Body request of None \<Rightarrow> ApiBadRequest
      | Some data \<Rightarrow> ApiConflicts (GetConflictingDomains (DomainDB px) (GetDomainNames data) (ForwardTo data)))"

definition domains_route :: "io_write \<Rightarrow> api_request \<Rightarrow> proxy_server \<Rightarrow> proxy_server \<times> api_answer" where
  "domains_route w request px =
     (if \<not> checkPSK (px_config px) request then (px, ApiForbidden)
      else if ar_Method request = ''POST'' then
        (let (px1, a) = registerDomainsController w request px
         in if a = ApiOK then (RefreshReverseProxies px1, a) else (px1, a))
      else (px, ApiMethodNotAllowed))"

definition conflicts_route :: "api_request \<Rightarrow> proxy_server \<Rightarrow> api_answer" where
  "conflicts_route request px =
     (if \<not> checkPSK (px_config px) request then ApiForbidden
      else if ar_Method request = ''POST'' then checkDomainsController request px
      else ApiMethodNotAllowed)"

end
