(* ===== verification/Proxy_Server_Lemmas.thy ===== *)
theory Proxy_Server_Lemmas
  imports Proxy_Server
begin

text \<open>Lemmas on the reverse proxy: the URLs it forwards to, the state in which no request can panic, and what
  a reload does.\<close>

subsection \<open>URLs of VMs\<close>

definition plain_char :: "char \<Rightarrow> bool" where
  "plain_char c \<longleftrightarrow> is_upper c \<or> is_lower c \<or> is_digit c \<or> c = CHR ''.'' \<or> c = CHR ''-''"

lemma plain_char_cases:
  "plain_char c \<longleftrightarrow> c \<in> set ''ABCDEFGHIJKLMNOPQRSTUVWXYZabcdefghijklmnopqrstuvwxyz0123456789.-''"
  by (auto simp: plain_char_def is_upper_def is_lower_def is_digit_def)

lemma plain_char_facts:
  assumes "plain_char c"
  shows "\<not> is_ctl c" "c \<notin> {CHR ''#'', CHR ''?'', CHR ''/'', CHR ''@'', CHR ''['', CHR '']'', CHR '':''}" "host_char c"
proof -
  have "\<not> is_ctl c \<and> c \<notin> {CHR ''#'', CHR ''?'', CHR ''/'', CHR ''@'', CHR ''['', CHR '']'', CHR '':''}"
    using assms unfolding plain_char_cases by (simp, elim disjE) (simp_all add: is_ctl_def)
  then show "\<not> is_ctl c" "c \<notin> {CHR ''#'', CHR ''?'', CHR ''/'', CHR ''@'', CHR ''['', CHR '']'', CHR '':''}" by blast+
  show "host_char c" using assms by (auto simp: plain_char_def host_char_def is_letter_def)
qed

lemma digits_plain: "list_all is_digit s \<Longrightarrow> list_all plain_char s"
  by (auto simp: list_all_iff plain_char_def)

lemma plain_no:
  assumes "list_all plain_char s"
  shows "CHR ''#'' \<notin> set s" "CHR ''?'' \<notin> set s" "CHR ''/'' \<notin> set s" "CHR ''@'' \<notin> set s" "CHR ''['' \<notin> set s"
    "CHR '']'' \<notin> set s" "CHR '':'' \<notin> set s"
  using assms plain_char_facts(2) by (force simp: list_all_iff)+

lemma scheme_http: "get_scheme (''http:'' @ r) = Some (''http'', r)"
  by (simp add: get_scheme_def is_letter_def is_upper_def is_lower_def is_digit_def to_lower_def lower_char_def)

lemma host_ok_plain:
  assumes "list_all plain_char h" and "list_all is_digit p"
  shows "host_ok (h @ CHR '':'' # p)"
proof -
  have "CHR '':'' \<notin> set p" using plain_no(7) [OF digits_plain [OF assms(2)]] .
  then have "cut_last (CHR '':'') (h @ CHR '':'' # p) = Some (h, p)" by (rule cut_last_append)
  moreover have "\<not> has_prefix ''['' (h @ CHR '':'' # p)" using plain_no(5) [OF assms(1)] by (cases h) (auto simp: has_prefix_def)
  moreover have "host_char (CHR '':'')" by (simp add: host_char_def)
  then have "list_all host_char (h @ CHR '':'' # p)"
    using assms(1) digits_plain [OF assms(2)] plain_char_facts(3) by (auto simp: list_all_iff)
  ultimately show ?thesis using assms(2) by (simp add: host_ok_def valid_optional_port_def)
qed

lemma Parse_target:
  assumes "list_all plain_char h" and "0 \<le> p"
  shows "Parse (''http://'' @ h @ '':'' @ itoa p) =
    Some \<lparr>Scheme = ''http'', Host = h @ '':'' @ itoa p, Rest = [], RawQuery = []\<rparr>"
proof -
  have d: "list_all is_digit (itoa p)" using assms(2) by (simp add: itoa_def itoa_nat_digits)
  let ?a = "h @ CHR '':'' # itoa p" and ?s = "''http:'' @ ''//'' @ h @ CHR '':'' # itoa p"
  note h = plain_no [OF assms(1)] and q = plain_no [OF digits_plain [OF d]]
  have 1: "cut (CHR ''#'') ?s = None" "\<not> list_ex is_ctl ?s"
    using h q assms(1) digits_plain [OF d] plain_char_facts(1)
    by (auto simp: cut_None list_ex_iff list_all_iff is_ctl_def)
  have 2: "cut (CHR ''?'') (''//'' @ ?a) = None" using h q by (simp add: cut_None)
  have 3: "takeWhile (\<lambda>c. c \<noteq> CHR ''/'') (itoa p) = itoa p" "dropWhile (\<lambda>c. c \<noteq> CHR ''/'') (itoa p) = []"
    "\<forall>x\<in>set h. x \<noteq> CHR ''/''"
    using h(3) q(3) by (auto simp: takeWhile_eq_all_conv dropWhile_eq_Nil_conv)
  have 4: "cut_last (CHR ''@'') ?a = None" using h q by (simp add: cut_last_None)
  have "url_parse False ?s = Some \<lparr>Scheme = ''http'', Host = ?a, Rest = [], RawQuery = []\<rparr>"
    unfolding url_parse_def scheme_http using 1(2) 2 3(3) 4 host_ok_plain [OF assms(1) d]
    by (simp add: 3(1,2) has_prefix_def Let_def)
  then show ?thesis using 1(1) by (simp add: Parse_def)
qed

subsection \<open>The state between requests\<close>

definition domain_ready :: "proxy_domain \<Rightarrow> bool" where
  "domain_ready d \<longleftrightarrow> ReverseProxy d = Some (TargetURL d) \<and> Parse (TargetURL d) \<noteq> None"

definition proxy_ready :: "proxy_server \<Rightarrow> bool" where
  "proxy_ready px \<longleftrightarrow> gm_get (RateControllers px) ''default'' \<noteq> None \<and>
     (\<forall>k d. gm_get (ddb (DomainDB px)) k = Some d \<longrightarrow> domain_ready d)"

lemma refresh_keeps:
  "Chained (refresh_domain d) = Chained d" "dom_Name (refresh_domain d) = dom_Name d"
  "ReverseProxy (refresh_domain d) = Some (TargetURL (refresh_domain d))"
  "RedirectTo (refresh_domain d) = RedirectTo d" "RedirectToHTTPS (refresh_domain d) = RedirectToHTTPS d"
  "RateProfile (refresh_domain d) = RateProfile d" "RedirectCode (refresh_domain d) = RedirectCode d"
  by (auto simp: refresh_domain_def Let_def)

lemma refresh_target:
  "TargetURL (refresh_domain d) =
     (if Chained d then TargetURL d else ''http://'' @ DestinationHost d @ '':'' @ itoa (DestinationPort d))"
  by (auto simp: refresh_domain_def Let_def)

text \<open>A domain the refresh makes ready: a VM of the server, or a child whose URL parses.\<close>

definition good_target :: "domain \<Rightarrow> bool" where
  "good_target d \<longleftrightarrow> (if Chained d then Parse (TargetURL d) \<noteq> None
     else list_all plain_char (DestinationHost d) \<and> 0 \<le> DestinationPort d)"

lemma from_file_more [simp]:
  "DestinationHost (from_file d) = DestinationHost d" "DestinationPort (from_file d) = DestinationPort d"
  "RedirectTo (from_file d) = RedirectTo d" "RedirectToHTTPS (from_file d) = RedirectToHTTPS d"
  "RedirectCode (from_file d) = RedirectCode d" "dom_VMName (from_file d) = dom_VMName d"
  by (simp_all add: from_file_def domain.defs)

lemma refresh_ready: "good_target d \<Longrightarrow> domain_ready (refresh_domain (from_file d))"
  unfolding domain_ready_def refresh_keeps(3) refresh_target
  by (cases "Chained d") (simp_all add: good_target_def Parse_target del: append.simps)

lemma reload_get:
  assumes "ddb_file (DomainDB px) = Holds m" and "gm_ok m"
  shows "gm_get (ddb (DomainDB (ReloadDomains px))) k = map_option (\<lambda>d. refresh_domain (from_file d)) (gm_get m k)"
  unfolding ReloadDomains_def RefreshReverseProxies_def Reload_def
  by (simp add: ddb_load_get [OF assms] option.map_comp comp_def)

lemma reload_ready:
  assumes "ddb_file (DomainDB px) = Holds m" and "gm_ok m" and "\<forall>(k, d)\<in>set m. good_target d"
    and "gm_get (RateControllers px) ''default'' \<noteq> None"
  shows "proxy_ready (ReloadDomains px)"
proof -
  have "domain_ready d" if "gm_get (ddb (DomainDB (ReloadDomains px))) k = Some d" for k d
    using that assms(3) refresh_ready unfolding reload_get [OF assms(1,2)] by (auto dest!: gm_get_in)
  then show ?thesis using assms(4)
    by (simp add: proxy_ready_def ReloadDomains_def RefreshReverseProxies_def)
qed

subsection \<open>Answers\<close>

definition panics :: "answer \<Rightarrow> bool" where "panics a \<longleftrightarrow> (\<exists>s. a = AnsPanic s)"

lemma serve_ready: "domain_ready d \<Longrightarrow> \<not> panics (serveReverseProxy config d proto req fp)"
  by (auto simp: domain_ready_def serveReverseProxy_def panics_def Let_def split: option.splits)

lemma route_ready: "domain_ready d \<Longrightarrow> \<not> panics (route_request config d proto req fp)"
  using serve_ready [of d config proto req fp] by (auto simp: route_request_def panics_def)

lemma limit_never_blocks:
  assumes "limit_request now decide ip rc = (rc1, allowed, held)"
  shows "\<exists>rc2. finish_request held rc1 = Some rc2"
proof (cases "IsActive rc \<and> \<not> IsVIP ip rc")
  case False
  with assms show ?thesis by (auto simp: limit_request_def finish_request_def)
next
  case True
  obtain ra e where ge: "GetEntry now ip rc = (ra, e)" by fastforce
  obtain st wt where de: "decide ra e = (st, wt)" by fastforce
  obtain rb al nf rs where ia: "rate_IsAllowed st wt e ra = (rb, al, nf, rs)" by (metis prod_cases4)
  from assms True ge de ia have r: "rc1 = rb" "held = (if nf then Some e else None)" by (auto simp: limit_request_def)
  from rate_IsAllowed_effect(1) [OF ia] rate_IsAllowed_effect(4) [OF ia, of e] show ?thesis
    unfolding r by (auto simp: finish_request_def FinishRequest_def split: nat.splits)
qed

lemma answer_domain_ready:
  fixes px :: proxy_server
  assumes "domain_ready d" and "gm_get (RateControllers px) ''default'' \<noteq> None"
  shows "\<exists>px' a. answer_domain order now decide fp proto ip req d px = Some (px', a) \<and> \<not> panics a"
proof (cases fp)
  case True
  with route_ready [OF assms(1)] show ?thesis by (simp add: answer_domain_def)
next
  case False
  from assms(2) obtain prof rc where rp: "rate_profile px (RateProfile d) = (prof, Some rc)"
    by (cases "gm_get (RateControllers px) (RateProfile d)") (auto simp: rate_profile_def)
  obtain rc1 al held where lr: "limit_request now decide ip rc = (rc1, al, held)" by (metis prod_cases3)
  from limit_never_blocks [OF this] obtain rc2 where "finish_request held rc1 = Some rc2" by blast
  with False rp lr route_ready [OF assms(1)] show ?thesis by (simp add: answer_domain_def panics_def)
qed

lemma enter_request_simps [simp]:
  "DomainDB (enter_request now req px) = DomainDB px" "RateControllers (enter_request now req px) = RateControllers px"
  "px_config (enter_request now req px) = px_config px"
  by (simp_all add: enter_request_def Let_def)

lemma handleRequest_found:
  assumes "header_get (preq_Header req) WatchDogHeaderName = []"
    and "gm_get (ddb (DomainDB px)) (request_host req) = Some d"
  shows "map_option snd (handleRequest order now decide req px) =
    (let fp = from_parent (px_config px) (request_ip req) req in
     map_option snd (answer_domain order now decide fp (request_proto fp req) (request_ip req) req d (enter_request now req px)))"
  using assms by (simp add: handleRequest_def Let_def ddb_GetByName_def option.map_comp comp_def)

lemma handleRequest_unknown:
  assumes "header_get (preq_Header req) WatchDogHeaderName = []"
    and "gm_get (ddb (DomainDB px)) (request_host req) = None"
  shows "\<exists>px' page. handleRequest order now decide req px = Some (px', AnsError 500 page)"
  using assms by (simp add: handleRequest_def Let_def ddb_GetByName_def)

lemma handleRequest_ready:
  assumes "proxy_ready px"
  shows "\<exists>px' a. handleRequest order now decide req px = Some (px', a) \<and> \<not> panics a"
proof (cases "header_get (preq_Header req) WatchDogHeaderName = []")
  case False
  then show ?thesis by (simp add: handleRequest_def Let_def panics_def)
next
  case True
  show ?thesis
  proof (cases "gm_get (ddb (DomainDB px)) (request_host req)")
    case None
    from handleRequest_unknown [OF True this, of order now decide] show ?thesis by (auto simp: panics_def)
  next
    case (Some d)
    with assms have "domain_ready d" "gm_get (RateControllers (enter_request now req px)) ''default'' \<noteq> None"
      by (auto simp: proxy_ready_def)
    from answer_domain_ready [OF this] obtain px' a where
      "answer_domain order now decide (from_parent (px_config px) (request_ip req) req)
        (request_proto (from_parent (px_config px) (request_ip req) req) req) (request_ip req) req d
        (enter_request now req px) = Some (px', a)" "\<not> panics a" by blast
    with handleRequest_found [OF True Some, of order now decide] show ?thesis by (auto simp: Let_def)
  qed
qed

end
