(* ===== verification/Proxy_Props.thy ===== *)
theory Proxy_Props
  imports Proxy_Server_Lemmas
begin

text \<open>Properties of the reverse proxy.\<close>

subsection \<open>Concrete proxies\<close>

definition plain_params :: proxy_params where
  "plain_params = \<lparr>MulchdHTTPSDomain = [], px_ChainMode = ChainParent, ChainPSK = ''0123456789abcdef'', ChainDomain = [],
     ForceXForwardedFor = False, HaveTrustedProxies = False, TrustedProxies = [], px_Debug = False,
     ErrorTemplate = Inl ''no template''\<rparr>"

definition no_limit :: rate_config where
  "no_limit = \<lparr>rc_Name = ''default'', ConcurrentMaxRequests = 0, ConcurrentOverflowTimeout = 0,
     RateEnable = False, RateBurst = 0, RateRequestsPerSecond = 0, RateMaxDelay = 0, VipList = []\<rparr>"

definition web_domain :: domain where
  "web_domain = \<lparr>dom_Name = ''www.test'', dom_VMName = ''web'', RedirectTo = [], RedirectCode = 0,
     DestinationHost = ''10.0.0.5'', DestinationPort = 80, RedirectToHTTPS = False, RateProfile = [],
     TargetURL = [], Chained = False\<rparr>"

definition web_proxy :: proxy_server where
  "web_proxy = \<lparr>px_config = plain_params, DomainDB = \<lparr>ddb = [], ddb_file = Holds [(''www.test'', web_domain)]\<rparr>,
     RequestList = NewRequestList False, RateControllers = [(''default'', NewRateController no_limit)], requestCounter = 0\<rparr>"

definition get_request :: "string \<Rightarrow> proxy_request" where
  "get_request host = \<lparr>preq_Host = host, preq_RemoteAddr = ''192.0.2.7:5000'', preq_Header = [], preq_TLS = False, preq_URL = ''/''\<rparr>"

definition any_order :: "string list \<Rightarrow> string list" where "any_order vs = vs"

definition no_wait :: "rate_controller \<Rightarrow> nat \<Rightarrow> bool \<times> limiter_answer" where
  "no_wait rc e = (False, MayPass)"

lemma web_domain_good: "good_target web_domain"
  by (simp add: good_target_def web_domain_def plain_char_def is_digit_def is_upper_def is_lower_def)


text \<open>A request without a watchdog header that is not limited: what answers is the routing of its domain.\<close>

lemma handleRequest_routed:
  assumes "header_get (preq_Header req) WatchDogHeaderName = []"
    and "gm_get (ddb (DomainDB px)) (request_host req) = Some d"
    and "rate_profile px (RateProfile d) = (prof, Some rc)" and "\<not> IsActive rc"
  defines "fp \<equiv> from_parent (px_config px) (request_ip req) req"
  shows "map_option snd (handleRequest order now decide req px) =
    Some (route_request (px_config px) d (request_proto fp req) req fp)"
proof -
  have "rate_profile (enter_request now req px) (RateProfile d) = (prof, Some rc)"
    using assms(3) by (cases "gm_get (RateControllers px) (RateProfile d)") (auto simp: rate_profile_def)
  then show ?thesis
    unfolding handleRequest_found [OF assms(1,2)] fp_def
    using assms(4) by (simp add: Let_def answer_domain_def limit_request_def finish_request_def)
qed

subsection \<open>Headers\<close>

lemma forward_headers_client:
  "header_get (forward_headers config ch proto False ip h) ''X-Real-Ip'' = ip"
  "header_get (forward_headers config ch proto False ip h) ''X-Forwarded-Proto'' = proto"
  "ForceXForwardedFor config \<Longrightarrow> header_get (forward_headers config ch proto False ip h) ''X-Forwarded-For'' = ip"
  by (simp_all add: forward_headers_def header_get_def header_set_def PSKHeaderName_def Let_def)

lemma forward_headers_parent: "gm_get (forward_headers config ch proto True ip h) PSKHeaderName = None"
  by (simp add: forward_headers_def header_del_def Let_def)

lemma route_forward:
  assumes "route_request config d proto req fp = AnsForward u req'"
  shows "\<exists>ip. (\<forall>h p. SplitHostPort (preq_RemoteAddr req) = Some (h, p) \<longrightarrow> ip = h) \<and>
    preq_Header req' = forward_headers config (Chained d) proto fp ip (preq_Header req) \<and>
    (\<exists>t. ReverseProxy d = Some t \<and> Parse t = Some u)"
  using assms
  by (auto simp: route_request_def serveReverseProxy_def Let_def split: if_splits option.splits prod.splits)

lemma handleRequest_forward:
  assumes "handleRequest order now decide req px = Some (px', AnsForward u req')"
  defines "fp \<equiv> from_parent (px_config px) (request_ip req) req"
  shows "\<exists>d. gm_get (ddb (DomainDB px)) (request_host req) = Some d \<and>
    route_request (px_config px) d (request_proto fp req) req fp = AnsForward u req'"
proof -
  have w: "header_get (preq_Header req) WatchDogHeaderName = []"
    using assms(1) by (auto simp: handleRequest_def split: if_splits)
  show ?thesis
  proof (cases "gm_get (ddb (DomainDB px)) (request_host req)")
    case None
    from handleRequest_unknown [OF w this, of order now decide] assms(1) show ?thesis by auto
  next
    case (Some d)
    have "route_request (px_config px) d (request_proto fp req) req fp = AnsForward u req'"
      using handleRequest_found [OF w Some, of order now decide] assms(1)
      unfolding fp_def
      by (auto simp: answer_domain_def Let_def split: if_splits option.splits prod.splits)
    with Some show ?thesis by blast
  qed
qed

subsection \<open>Properties\<close>



text \<open>C23. What reaches the destination cannot be forged by a client: a request that does not come from the trusted parent
  carries the real address and protocol, and the chain key never leaves with a request that came from the parent.\<close>

theorem forwarded_headers:
  assumes "handleRequest order now decide req px = Some (px', AnsForward u req')"
    and "SplitHostPort (preq_RemoteAddr req) = Some (ip, port)"
  shows "if from_parent (px_config px) ip req then gm_get (preq_Header req') PSKHeaderName = None
    else header_get (preq_Header req') ''X-Real-Ip'' = ip \<and>
      header_get (preq_Header req') ''X-Forwarded-Proto'' = (if preq_TLS req then ProtoHTTPS else ProtoHTTP) \<and>
      (ForceXForwardedFor (px_config px) \<longrightarrow> header_get (preq_Header req') ''X-Forwarded-For'' = ip)"
proof -
  from assms(2) have ip: "request_ip req = ip" by (simp add: request_ip_def)
  from handleRequest_forward [OF assms(1), unfolded ip] obtain d where
    "route_request (px_config px) d (request_proto (from_parent (px_config px) ip req) req) req
       (from_parent (px_config px) ip req) = AnsForward u req'" by blast
  from route_forward [OF this] assms(2) show ?thesis
    by (auto simp: forward_headers_client forward_headers_parent request_proto_def)
qed

lemma web_forward:
  "\<exists>px' u req'. handleRequest any_order 5 no_wait (get_request ''www.test'') (ReloadDomains web_proxy) =
     Some (px', AnsForward u req')"
proof -
  let ?d = "refresh_domain (from_file web_domain)"
  have h: "request_host (get_request ''www.test'') = ''www.test''"
    by (simp add: request_host_def get_request_def has_prefix_def to_lower_def lower_char_def)
  have g: "gm_get (ddb (DomainDB (ReloadDomains web_proxy))) (request_host (get_request ''www.test'')) = Some ?d"
    unfolding h by (subst reload_get) (auto simp: web_proxy_def gm_ok_def gm_get_def)
  have rc: "rate_profile (ReloadDomains web_proxy) (RateProfile ?d) = (''default'', Some (NewRateController no_limit))"
    by (simp add: rate_profile_def ReloadDomains_def RefreshReverseProxies_def web_proxy_def refresh_keeps
        web_domain_def gm_get_def)
  have na: "\<not> IsActive (NewRateController no_limit)" by (simp add: IsActive_def NewRateController_def no_limit_def)
  have w: "header_get (preq_Header (get_request ''www.test'')) WatchDogHeaderName = []"
    by (simp add: header_get_def get_request_def)
  from refresh_ready [OF web_domain_good] obtain u where u: "ReverseProxy ?d = Some (TargetURL ?d)" "Parse (TargetURL ?d) = Some u"
    by (auto simp: domain_ready_def)
  have r: "RedirectTo ?d = []" "\<not> RedirectToHTTPS ?d" by (simp_all add: refresh_keeps web_domain_def)
  note map = handleRequest_routed [OF w g rc na, of any_order 5 no_wait]
  have "\<exists>req'. route_request c ?d p (get_request ''www.test'') fp = AnsForward u req'" for c p fp
    using u r by (simp add: route_request_def serveReverseProxy_def Let_def)
  then obtain req' where "map_option snd (handleRequest any_order 5 no_wait (get_request ''www.test'') (ReloadDomains web_proxy)) =
      Some (AnsForward u req')" unfolding map by blast
  then show ?thesis
    by (cases "handleRequest any_order 5 no_wait (get_request ''www.test'') (ReloadDomains web_proxy)") auto
qed

theorem forwarded_headers_witness:
  "\<exists>req'. header_get (preq_Header req') ''X-Real-Ip'' = ''192.0.2.7'' \<and>
    (\<exists>px' u. handleRequest any_order 5 no_wait (get_request ''www.test'') (ReloadDomains web_proxy) = Some (px', AnsForward u req'))"
proof -
  obtain px' u req' where f: "handleRequest any_order 5 no_wait (get_request ''www.test'') (ReloadDomains web_proxy) =
     Some (px', AnsForward u req')" using web_forward by blast
  have s: "SplitHostPort (preq_RemoteAddr (get_request ''www.test'')) = Some (''192.0.2.7'', ''5000'')"
    using SplitHostPort_plain [of "''192.0.2.7''" "''5000''"] by (simp add: get_request_def)
  have "\<not> from_parent (px_config (ReloadDomains web_proxy)) ''192.0.2.7'' (get_request ''www.test'')"
    by (simp add: from_parent_def ReloadDomains_def RefreshReverseProxies_def web_proxy_def plain_params_def)
  with forwarded_headers [OF f s] f show ?thesis by auto
qed

text \<open>A domain file that cannot be decoded empties the proxy: the map is cleared before decoding, so after a reload
  every request that is not a watchdog's gets an error 500, although the old domains were known.\<close>

theorem damaged_file_drops_domains:
  assumes "ddb_file (DomainDB px) = Damaged" and "header_get (preq_Header req) WatchDogHeaderName = []"
  shows "\<exists>px' page. handleRequest order now decide req (ReloadDomains px) = Some (px', AnsError 500 page)"
proof (rule handleRequest_unknown [OF assms(2)])
  show "gm_get (ddb (DomainDB (ReloadDomains px))) (request_host req) = None"
    using assms(1) by (simp add: ReloadDomains_def RefreshReverseProxies_def Reload_def ddb_load_def)
qed

theorem damaged_file_drops_domains_witness:
  "\<exists>px' page. handleRequest any_order 5 no_wait (get_request ''www.test'')
     (ReloadDomains ((ReloadDomains web_proxy)\<lparr>DomainDB := (DomainDB (ReloadDomains web_proxy))\<lparr>ddb_file := Damaged\<rparr>\<rparr>)) =
     Some (px', AnsError 500 page)"
  by (rule damaged_file_drops_domains) (simp_all add: get_request_def header_get_def)

text \<open>C30. After a child registers its domains on its parent, the parent routes to it exactly those and keeps every other
  domain that was not one of this child's; checking the same list again for the same URL finds no conflict.\<close>

theorem registration_exact:
  assumes ok: "ddb_ok (DomainDB px)" and psk: "ar_PSK request = ChainPSK (px_config px)" and post: "ar_Method request = ''POST''"
    and body: "ar_Body request = Some data"
  shows "(\<forall>n. map_option to_file (gm_get (ddb (DomainDB (fst (domains_route WriteOk request px)))) n) =
      (if n \<in> set (GetDomainNames data)
       then map_option (\<lambda>c. chained_domain (ForwardTo data) c) (find (\<lambda>c. chain_Domain c = n) (rev (cds_Domains data)))
       else map_option (\<lambda>d. to_file (refresh_domain d)) (case gm_get (ddb (DomainDB px)) n of None \<Rightarrow> None
         | Some d \<Rightarrow> if Chained d \<and> TargetURL d = ForwardTo data then None else Some d))) \<and>
    conflicts_route request (fst (domains_route WriteOk request px)) = ApiConflicts []"
proof -
  let ?u = "ForwardTo data" and ?ds = "cds_Domains data"
  let ?reg = "\<lambda>d. (chain_Domain d, from_file (chained_domain ?u d))"
  have gok: "gm_ok (ddb (DomainDB px))" using ok by (simp add: ddb_ok_def)
  have st: "DomainDB (fst (domains_route WriteOk request px)) =
      (let s = fst (ReplaceChainedDomains WriteOk ?ds ?u (DomainDB px)) in s\<lparr>ddb := gm_map refresh_domain (ddb s)\<rparr>)"
    and conf: "px_config (fst (domains_route WriteOk request px)) = px_config px"
    using psk post body
    by (simp_all add: domains_route_def checkPSK_def registerDomainsController_def RefreshReverseProxies_def Let_def
        ReplaceChainedDomains_def ddb_save_def)
  have found: "map_of (map ?reg xs) n = map_option (\<lambda>c. from_file (chained_domain ?u c)) (find (\<lambda>c. chain_Domain c = n) xs)" for n xs
    by (induction xs) auto
  have none: "find (\<lambda>c. chain_Domain c = n) (rev ?ds) = None \<longleftrightarrow> n \<notin> set (GetDomainNames data)" for n
    by (auto simp: find_None_iff GetDomainNames_def)
  have look: "gm_get (ddb (DomainDB (fst (domains_route WriteOk request px)))) n = map_option refresh_domain
      (case find (\<lambda>c. chain_Domain c = n) (rev ?ds) of Some c \<Rightarrow> Some (from_file (chained_domain ?u c))
       | None \<Rightarrow> (case gm_get (ddb (DomainDB px)) n of None \<Rightarrow> None
           | Some d \<Rightarrow> if Chained d \<and> TargetURL d = ?u then None else Some d))" for n
    unfolding st Let_def using replaced_get [OF gok, of WriteOk ?ds ?u n]
    unfolding rev_map found
    by (cases "find (\<lambda>c. chain_Domain c = n) (rev ?ds)") simp_all
  have chained: "to_file (refresh_domain (from_file (chained_domain ?u c))) = chained_domain ?u c" for c
    by (simp add: refresh_domain_def from_file_def to_file_def chained_domain_def domain.defs Let_def)
  have "map_option to_file (gm_get (ddb (DomainDB (fst (domains_route WriteOk request px)))) n) =
      (if n \<in> set (GetDomainNames data) then map_option (\<lambda>c. chained_domain ?u c) (find (\<lambda>c. chain_Domain c = n) (rev ?ds))
       else map_option (\<lambda>d. to_file (refresh_domain d)) (case gm_get (ddb (DomainDB px)) n of None \<Rightarrow> None
         | Some d \<Rightarrow> if Chained d \<and> TargetURL d = ?u then None else Some d))" for n
    using none [of n] unfolding look
    by (cases "find (\<lambda>c. chain_Domain c = n) (rev ?ds)") (auto simp: chained option.map_comp comp_def)
  moreover have "conflict_with (DomainDB (fst (domains_route WriteOk request px))) cu n = None"
    if "ParseRequestURI ?u = Some cu" and "n \<in> set (GetDomainNames data)" for cu n
  proof -
    from none [of n] that(2) obtain c where "find (\<lambda>c. chain_Domain c = n) (rev ?ds) = Some c" by auto
    then have "gm_get (ddb (DomainDB (fst (domains_route WriteOk request px)))) n =
        Some (refresh_domain (from_file (chained_domain ?u c)))" unfolding look by simp
    moreover have "TargetURL (refresh_domain (from_file (chained_domain ?u c))) = ?u"
      by (simp add: refresh_target chained_domain_def)
    ultimately show ?thesis using that(1) by (simp add: conflict_with_def ddb_GetByName_def)
  qed
  then have "GetConflictingDomains (DomainDB (fst (domains_route WriteOk request px))) (GetDomainNames data) ?u = []"
    unfolding GetConflictingDomains_def List.map_filter_def by (auto simp: filter_empty_conv split: option.split)
  then have "conflicts_route request (fst (domains_route WriteOk request px)) = ApiConflicts []"
    using psk post body conf by (simp add: conflicts_route_def checkPSK_def checkDomainsController_def)
  ultimately show ?thesis by blast
qed

definition register_request :: "string \<Rightarrow> api_request" where
  "register_request u = \<lparr>ar_Method = ''POST'', ar_PSK = ''0123456789abcdef'',
     ar_Body = Some \<lparr>cds_Domains = [\<lparr>chain_Domain = ''a.test'', chain_RateProfile = []\<rparr>], ForwardTo = u\<rparr>\<rparr>"

theorem registration_exact_witness:
  "conflicts_route (register_request ''https://child.test'')
     (fst (domains_route WriteOk (register_request ''https://child.test'') web_proxy)) = ApiConflicts []"
proof -
  have "ddb_ok (DomainDB web_proxy)" by (simp add: web_proxy_def ddb_ok_def)
  from registration_exact [OF this, of "register_request ''https://child.test''"] show ?thesis
    by (simp add: register_request_def web_proxy_def plain_params_def)
qed

text \<open>A parent accepts a child whose URL does not parse, and keeps the domains of a registration it could not save: in
  both cases every later request for such a domain dereferences a nil pointer.\<close>

theorem registration_may_panic:
  "(\<exists>px. domains_route WriteOk (register_request ''%'') web_proxy = (px, ApiOK) \<and>
     (\<exists>s. map_option snd (handleRequest any_order 5 no_wait (get_request ''a.test'') px) = Some (AnsPanic s))) \<and>
   (\<exists>px. domains_route (OpenFails ''disk full'') (register_request ''https://child.test'') web_proxy = (px, ApiServerError) \<and>
     (\<exists>s. map_option snd (handleRequest any_order 5 no_wait (get_request ''a.test'') px) = Some (AnsPanic s)))"
proof -
  have h: "request_host (get_request ''a.test'') = ''a.test''"
    by (simp add: request_host_def get_request_def has_prefix_def to_lower_def lower_char_def)
  have w: "header_get (preq_Header (get_request ''a.test'')) WatchDogHeaderName = []"
    by (simp add: header_get_def get_request_def)
  have panic: "\<exists>s. map_option snd (handleRequest any_order 5 no_wait (get_request ''a.test'') px) = Some (AnsPanic s)"
    if "gm_get (ddb (DomainDB px)) ''a.test'' = Some d" and "RateControllers px = RateControllers web_proxy"
      and "RateProfile d = []" "RedirectTo d = []" "\<not> RedirectToHTTPS d"
      and "Parse (TargetURL d) = None \<or> ReverseProxy d = None" for px d
  proof -
    have "rate_profile px (RateProfile d) = (''default'', Some (NewRateController no_limit))"
      using that by (simp add: rate_profile_def web_proxy_def gm_get_def)
    from handleRequest_routed [OF w _ this, of any_order 5 no_wait] that h show ?thesis
      by (auto simp: IsActive_def NewRateController_def no_limit_def route_request_def serveReverseProxy_def Let_def
          split: option.split)
  qed
  let ?d = "\<lambda>u. from_file (chained_domain u \<lparr>chain_Domain = ''a.test'', chain_RateProfile = []\<rparr>)"
  have bad: "Parse ''%'' = None" by (simp add: Parse_def url_parse_def get_scheme_def is_ctl_def is_letter_def
      is_upper_def is_lower_def is_digit_def has_prefix_def)
  let ?px1 = "fst (domains_route WriteOk (register_request ''%'') web_proxy)"
  have 1: "snd (domains_route WriteOk (register_request ''%'') web_proxy) = ApiOK"
    "gm_get (ddb (DomainDB ?px1)) ''a.test'' = Some (refresh_domain (?d ''%''))" "RateControllers ?px1 = RateControllers web_proxy"
    by (simp_all add: domains_route_def register_request_def checkPSK_def web_proxy_def plain_params_def
        registerDomainsController_def ReplaceChainedDomains_def ddb_save_def RefreshReverseProxies_def put_all_def
        gm_get_def gm_put_def gm_map_def Let_def)
  have "\<exists>s. map_option snd (handleRequest any_order 5 no_wait (get_request ''a.test'') ?px1) = Some (AnsPanic s)"
    by (rule panic [OF 1(2,3)]) (simp_all add: refresh_keeps refresh_target chained_domain_def bad)
  moreover let ?px2 = "fst (domains_route (OpenFails ''disk full'') (register_request ''https://child.test'') web_proxy)"
  have 2: "snd (domains_route (OpenFails ''disk full'') (register_request ''https://child.test'') web_proxy) = ApiServerError"
    "gm_get (ddb (DomainDB ?px2)) ''a.test'' = Some (?d ''https://child.test'')" "RateControllers ?px2 = RateControllers web_proxy"
    by (simp_all add: domains_route_def register_request_def checkPSK_def web_proxy_def plain_params_def
        registerDomainsController_def ReplaceChainedDomains_def ddb_save_def RefreshReverseProxies_def put_all_def
        gm_get_def gm_put_def gm_map_def Let_def)
  have "\<exists>s. map_option snd (handleRequest any_order 5 no_wait (get_request ''a.test'') ?px2) = Some (AnsPanic s)"
    by (rule panic [OF 2(2,3)]) (simp_all add: chained_domain_def)
  ultimately show ?thesis using 1(1) 2(1) by (metis prod.collapse)
qed

end
