(* ===== verification/Proxy_Ports.thy ===== *)
theory Proxy_Ports
  imports Vm_Database
begin

text \<open>
  The TCP port forwarding of the proxy: the port database (\<open>port_database.go\<close>), a listener and what it
  does of a connection (\<open>port_listener.go\<close>), and the server that keeps the listeners in step with the
  database (\<open>port_server.go\<close>). A close channel is a number; closing it ends the connections that
  wait on it, so what matters is which channels are closed. Whether the system lets a port be opened
  or closed is an input.
\<close>

subsection \<open>The database\<close>

record port_db =
  pdb_ports :: "(u16, tcp_listener) gomap"
  pdb_ports_file :: "(u16, tcp_listener) gomap dbfile"

definition pdb_Load :: "port_db \<Rightarrow> port_db \<times> bool" where
  "pdb_Load st =
     (case pdb_ports_file st of
        NoFile \<Rightarrow> (st\<lparr>pdb_ports := []\<rparr>, True)
      | Damaged \<Rightarrow> (st\<lparr>pdb_ports := []\<rparr>, False)
      | Holds m \<Rightarrow> (st\<lparr>pdb_ports := put_all m []\<rparr>, True))"

definition NewPortDatabase :: "(u16, tcp_listener) gomap dbfile \<Rightarrow> port_db option" where
  "NewPortDatabase on_disk =
     (case pdb_Load \<lparr>pdb_ports = [], pdb_ports_file = on_disk\<rparr> of (st, ok) \<Rightarrow> if ok then Some st else None)"

subsection \<open>A listener\<close>

record channels =
  next_chan :: nat
  closed_chans :: "nat list"

record port_listener =
  pl_listenAddr :: tcp_addr
  pl_port :: u16
  public :: bool
  forwardMap :: "(string, tcp_forwarder) gomap"
  closeChannels :: "(string, nat) gomap"
  pl_version :: int
  pl_closed :: bool

definition forward_key :: "string \<Rightarrow> tcp_addr \<Rightarrow> string" where
  "forward_key srcIP dest = srcIP @ ''->'' @ ta_IP dest"

definition allowed_forwards :: "(string, tcp_forwarder) gomap \<Rightarrow> (string, bool) gomap" where
  "allowed_forwards fm = put_all (map (\<lambda>(srcIP, f). (forward_key srcIP (Dest f), True)) fm) []"

definition add_channel :: "string \<Rightarrow> (string, nat) gomap \<times> channels \<Rightarrow> (string, nat) gomap \<times> channels" where
  "add_channel key mc =
     (case mc of (m, ch) \<Rightarrow>
      if gm_get m key = None then (gm_put key (next_chan ch) m, ch\<lparr>next_chan := next_chan ch + 1\<rparr>) else (m, ch))"

definition close_channel :: "string \<times> nat \<Rightarrow> (string, nat) gomap \<times> channels \<Rightarrow> (string, nat) gomap \<times> channels" where
  "close_channel kc mc =
     (case mc of (m, ch) \<Rightarrow> (gm_del (fst kc) m, ch\<lparr>closed_chans := snd kc # closed_chans ch\<rparr>))"

definition UpdateForwardMap ::
  "(string, tcp_forwarder) gomap \<Rightarrow> port_listener \<times> channels \<Rightarrow> port_listener \<times> channels" where
  "UpdateForwardMap fm plc =
     (case plc of (pl, ch) \<Rightarrow>
      let allowed = allowed_forwards fm;
          (m1, ch1) = fold add_channel (gm_keys allowed) (closeChannels pl, ch);
          old = filter (\<lambda>(key, c). gm_get allowed key = None) m1;
          (m2, ch2) = fold close_channel old (m1, ch1)
      in (pl\<lparr>closeChannels := m2, forwardMap := fm\<rparr>, ch2))"

definition NewPortListener ::
  "(tcp_addr \<Rightarrow> bool) \<Rightarrow> tcp_addr \<Rightarrow> (string, tcp_forwarder) gomap \<Rightarrow> int \<Rightarrow> channels \<Rightarrow> (port_listener \<times> channels) option" where
  "NewPortListener listens addr fm version ch =
     (if \<not> listens addr then None
      else Some (UpdateForwardMap fm
        (\<lparr>pl_listenAddr = addr, pl_port = ta_Port addr, public = (gm_get fm ''*'' \<noteq> None), forwardMap = [],
          closeChannels = [], pl_version = version, pl_closed = False\<rparr>, ch)))"

text \<open>\<open>Close\<close>; when the system call fails, the listener only remembers that it was closed.\<close>

definition pl_Close :: "bool \<Rightarrow> port_listener \<times> channels \<Rightarrow> (port_listener \<times> channels) \<times> bool" where
  "pl_Close closes plc =
     (case plc of (pl, ch) \<Rightarrow>
      if \<not> closes then ((pl\<lparr>pl_closed := True\<rparr>, ch), False)
      else (let (m, ch1) = fold close_channel (closeChannels pl) (closeChannels pl, ch)
            in ((pl\<lparr>pl_closed := True, closeChannels := m\<rparr>, ch1), True)))"

text \<open>A connection that is accepted: where it is forwarded, the channel that ends it, and the PROXY line sent first.\<close>

record accepted =
  acc_to :: tcp_addr
  acc_chan :: nat
  acc_prelude :: "string option"

definition proxy_line :: "string \<Rightarrow> nat \<Rightarrow> tcp_forwarder \<Rightarrow> string" where
  "proxy_line sourceIP sourcePort f =
     ''PROXY TCP4 '' @ sourceIP @ '' 127.0.0.1 '' @ itoa_nat sourcePort @ '' '' @ itoa_nat (unat (ta_Port (Dest f)))
       @ [CHR 0x0D, CHR 0x0A]"

definition Listen_one :: "port_listener \<Rightarrow> string \<Rightarrow> nat \<Rightarrow> accepted option" where
  "Listen_one pl sourceIP sourcePort =
     (case gm_get (forwardMap pl) (if public pl then ''*'' else sourceIP) of
        None \<Rightarrow> None
      | Some forwarder \<Rightarrow>
          (let forwardTo = (if public pl \<and> PROXYProtoPort forwarder \<noteq> 0
                            then (Dest forwarder)\<lparr>ta_Port := PROXYProtoPort forwarder\<rparr> else Dest forwarder);
               key = forward_key (if public pl then ''*'' else sourceIP) forwardTo
           in case gm_get (closeChannels pl) key of
                None \<Rightarrow> None
              | Some c \<Rightarrow> Some \<lparr>acc_to = forwardTo, acc_chan = c,
                   acc_prelude = (if PROXYProtoPort forwarder \<noteq> 0 then Some (proxy_line sourceIP sourcePort forwarder) else None)\<rparr>))"

subsection \<open>The server\<close>

record port_server =
  PortDB :: port_db
  Listeners :: "(u16, port_listener) gomap"
  CurrentVersion :: int
  chans :: channels

definition refresh_port ::
  "(tcp_addr \<Rightarrow> bool) \<Rightarrow> int \<Rightarrow> u16 \<times> tcp_listener \<Rightarrow>
     (u16, port_listener) gomap \<times> channels \<Rightarrow> (u16, port_listener) gomap \<times> channels" where
  "refresh_port listens version pc lc =
     (case pc of (portNum, portConf) \<Rightarrow> case lc of (ls, ch) \<Rightarrow>
      case gm_get ls portNum of
        None \<Rightarrow> (case NewPortListener listens (ListenAddr portConf) (Forwards portConf) version ch of
            None \<Rightarrow> (ls, ch)
          | Some (l, ch1) \<Rightarrow> (gm_put portNum l ls, ch1))
      | Some l \<Rightarrow>
          (let (l1, ch1) = UpdateForwardMap (Forwards portConf) (l\<lparr>pl_version := version\<rparr>, ch)
           in (gm_put portNum l1 ls, ch1)))"

definition close_unused ::
  "(u16 \<Rightarrow> bool) \<Rightarrow> int \<Rightarrow> u16 \<times> port_listener \<Rightarrow>
     (u16, port_listener) gomap \<times> channels \<Rightarrow> (u16, port_listener) gomap \<times> channels" where
  "close_unused closes version pl lc =
     (case pl of (portNum, l) \<Rightarrow> case lc of (ls, ch) \<Rightarrow>
      if pl_version l \<noteq> version then
        (case pl_Close (closes portNum) (l, ch) of
           ((l1, ch1), ok) \<Rightarrow> (if ok then gm_del portNum ls else gm_put portNum l1 ls, ch1))
      else (ls, ch))"

definition refreshListeners :: "(tcp_addr \<Rightarrow> bool) \<Rightarrow> (u16 \<Rightarrow> bool) \<Rightarrow> port_server \<Rightarrow> port_server" where
  "refreshListeners listens closes server =
     (let v = CurrentVersion server + 1;
          (ls1, ch1) = fold (refresh_port listens v) (pdb_ports (PortDB server)) (Listeners server, chans server);
          (ls2, ch2) = fold (close_unused closes v) ls1 (ls1, ch1)
      in server\<lparr>CurrentVersion := v, Listeners := ls2, chans := ch2\<rparr>)"

definition NewPortServer ::
  "(tcp_addr \<Rightarrow> bool) \<Rightarrow> (u16 \<Rightarrow> bool) \<Rightarrow> (u16, tcp_listener) gomap dbfile \<Rightarrow> port_server option" where
  "NewPortServer listens closes on_disk =
     (case NewPortDatabase on_disk of None \<Rightarrow> None
      | Some portDB \<Rightarrow> Some (refreshListeners listens closes
          \<lparr>PortDB = portDB, Listeners = [], CurrentVersion = 0, chans = \<lparr>next_chan = 0, closed_chans = []\<rparr>\<rparr>))"

text \<open>An error of \<open>Load\<close> is logged and the refresh runs all the same.\<close>

definition ReloadPorts :: "(tcp_addr \<Rightarrow> bool) \<Rightarrow> (u16 \<Rightarrow> bool) \<Rightarrow> port_server \<Rightarrow> port_server" where
  "ReloadPorts listens closes server = refreshListeners listens closes (server\<lparr>PortDB := fst (pdb_Load (PortDB server))\<rparr>)"

subsection \<open>Updating a listener\<close>

definition chans_ok :: "(string, nat) gomap \<Rightarrow> channels \<Rightarrow> bool" where
  "chans_ok m ch \<longleftrightarrow> gm_ok m \<and> inj_on (gm_get m) {k. gm_get m k \<noteq> None} \<and>
     (\<forall>k c. gm_get m k = Some c \<longrightarrow> c < next_chan ch \<and> c \<notin> set (closed_chans ch))"

lemma add_channel_get:
  "gm_get (fst (add_channel key mc)) k =
     (if k = key \<and> gm_get (fst mc) key = None then Some (next_chan (snd mc)) else gm_get (fst mc) k)"
  by (auto simp: add_channel_def split: prod.split)

lemma add_channel_closed: "closed_chans (snd (add_channel key mc)) = closed_chans (snd mc)"
  by (auto simp: add_channel_def split: prod.split)

lemma add_channel_ok:
  assumes "chans_ok (fst mc) (snd mc)" and "\<forall>c\<in>set (closed_chans (snd mc)). c < next_chan (snd mc)"
  shows "chans_ok (fst (add_channel key mc)) (snd (add_channel key mc)) \<and>
    next_chan (snd mc) \<le> next_chan (snd (add_channel key mc))"
proof (cases "gm_get (fst mc) key = None")
  case False
  then have "add_channel key mc = mc" by (cases mc) (auto simp: add_channel_def)
  with assms show ?thesis by simp
next
  case True
  obtain m ch where mc: "mc = (m, ch)" by fastforce
  have "gm_get m k \<noteq> Some (next_chan ch)" for k using assms(1) mc by (auto simp: chans_ok_def)
  with assms True show ?thesis
    unfolding mc by (auto simp: add_channel_def chans_ok_def inj_on_def less_SucI)
qed

lemma fold_add_get:
  "gm_get (fst (fold add_channel keys mc)) k = None \<longleftrightarrow> gm_get (fst mc) k = None \<and> k \<notin> set keys"
  "gm_get (fst mc) k = Some c \<longrightarrow> gm_get (fst (fold add_channel keys mc)) k = Some c"
  "closed_chans (snd (fold add_channel keys mc)) = closed_chans (snd mc)"
proof -
  show "gm_get (fst (fold add_channel keys mc)) k = None \<longleftrightarrow> gm_get (fst mc) k = None \<and> k \<notin> set keys"
    by (induction keys arbitrary: mc) (auto simp: add_channel_get)
  show "gm_get (fst mc) k = Some c \<longrightarrow> gm_get (fst (fold add_channel keys mc)) k = Some c"
  proof (induction keys arbitrary: mc)
    case (Cons key keys)
    have "gm_get (fst mc) k = Some c \<longrightarrow> gm_get (fst (add_channel key mc)) k = Some c" by (auto simp: add_channel_get)
    with Cons show ?case by simp
  qed simp
  show "closed_chans (snd (fold add_channel keys mc)) = closed_chans (snd mc)"
    by (induction keys arbitrary: mc) (auto simp: add_channel_closed)
qed

lemma fold_add_ok:
  assumes "chans_ok (fst mc) (snd mc)" and "\<forall>c\<in>set (closed_chans (snd mc)). c < next_chan (snd mc)"
  shows "chans_ok (fst (fold add_channel keys mc)) (snd (fold add_channel keys mc)) \<and>
    next_chan (snd mc) \<le> next_chan (snd (fold add_channel keys mc))"
  using assms
proof (induction keys arbitrary: mc)
  case (Cons key keys)
  from add_channel_ok [OF Cons.prems, of key] Cons.prems(2)
  have "chans_ok (fst (add_channel key mc)) (snd (add_channel key mc))"
    "next_chan (snd mc) \<le> next_chan (snd (add_channel key mc))"
    "\<forall>c\<in>set (closed_chans (snd (add_channel key mc))). c < next_chan (snd (add_channel key mc))"
    by (auto simp: add_channel_closed)
  with Cons.IH [of "add_channel key mc"] show ?case by auto
qed simp

lemma fold_add_fresh:
  "gm_get (fst (fold add_channel keys mc)) k = Some c \<Longrightarrow> gm_get (fst mc) k = Some c \<or> next_chan (snd mc) \<le> c"
proof (induction keys arbitrary: mc)
  case (Cons key keys)
  have "next_chan (snd mc) \<le> next_chan (snd (add_channel key mc))" by (simp add: add_channel_def split: prod.split)
  with Cons.IH [of "add_channel key mc"] Cons.prems show ?case by (auto simp: add_channel_get split: if_splits)
qed simp

lemma fold_close:
  "fold close_channel kcs (m, ch) =
     (fold gm_del (map fst kcs) m, ch\<lparr>closed_chans := rev (map snd kcs) @ closed_chans ch\<rparr>)"
  by (induction kcs arbitrary: m ch) (auto simp: close_channel_def)

text \<open>What an update does of the channels: the allowed keys keep or get an open channel, the others' are closed.\<close>

lemma UpdateForwardMap_effect:
  assumes "UpdateForwardMap fm (pl, ch) = (pl', ch')" and "chans_ok (closeChannels pl) ch"
    and "\<forall>c\<in>set (closed_chans ch). c < next_chan ch"
  shows "forwardMap pl' = fm" "public pl' = public pl" "pl_version pl' = pl_version pl"
    and "chans_ok (closeChannels pl') ch'"
    and "gm_get (closeChannels pl') key \<noteq> None \<longleftrightarrow> (\<exists>src f. (src, f) \<in> set fm \<and> key = forward_key src (Dest f))"
    and "gm_get (closeChannels pl) key = Some c \<Longrightarrow>
      (if gm_get (closeChannels pl') key = None then c \<in> set (closed_chans ch') else gm_get (closeChannels pl') key = Some c)"
    and "gm_get (closeChannels pl') key = Some c \<Longrightarrow> gm_get (closeChannels pl) key = Some c \<or> next_chan ch \<le> c"
    and "next_chan ch \<le> next_chan ch'" and "\<forall>c\<in>set (closed_chans ch'). c < next_chan ch'"
    and "set (closed_chans ch') = set (closed_chans ch) \<union>
      {c. \<exists>k. gm_get (closeChannels pl) k = Some c \<and> gm_get (closeChannels pl') k = None}"
proof -
  let ?al = "allowed_forwards fm"
  obtain m1 ch1 where 1: "fold add_channel (gm_keys ?al) (closeChannels pl, ch) = (m1, ch1)" by fastforce
  let ?old = "filter (\<lambda>(key, c). gm_get ?al key = None) m1"
  have pl': "pl' = pl\<lparr>closeChannels := fold gm_del (map fst ?old) m1, forwardMap := fm\<rparr>"
    and ch': "ch' = ch1\<lparr>closed_chans := rev (map snd ?old) @ closed_chans ch1\<rparr>"
    using assms(1) 1 by (auto simp: UpdateForwardMap_def fold_close Let_def)
  have ok1: "chans_ok m1 ch1" and le: "next_chan ch \<le> next_chan ch1"
    using fold_add_ok [of "(closeChannels pl, ch)" "gm_keys ?al"] assms(2,3) 1 by auto
  have add: "gm_get m1 k = None \<longleftrightarrow> gm_get (closeChannels pl) k = None \<and> gm_get ?al k = None"
    and old: "gm_get (closeChannels pl) k = Some c \<Longrightarrow> gm_get m1 k = Some c" for k c
    using fold_add_get(1,2) [where keys = "gm_keys ?al" and mc = "(closeChannels pl, ch)" and k = k] 1
    by (auto simp: gm_keys_get)
  have cl: "closed_chans ch1 = closed_chans ch"
    using fold_add_get(3) [of "gm_keys ?al" "(closeChannels pl, ch)"] 1 by simp
  have gok: "gm_ok m1" using ok1 by (simp add: chans_ok_def)
  have mem: "(k, c) \<in> set ?old \<longleftrightarrow> gm_get m1 k = Some c \<and> gm_get ?al k = None" for k c
    using gm.entries_get [OF gok, of k c] by auto
  have get: "gm_get (closeChannels pl') k = (if gm_get ?al k = None then None else gm_get m1 k)" for k
  proof -
    have "k \<in> set (map fst ?old) \<longleftrightarrow> gm_get m1 k \<noteq> None \<and> gm_get ?al k = None"
    proof -
      have "k \<in> set (map fst ?old) \<longleftrightarrow> (\<exists>c. (k, c) \<in> set ?old)" unfolding set_map by (force simp del: set_filter)
      then show ?thesis unfolding mem by auto
    qed
    then show ?thesis unfolding pl' by (auto simp: gm.get_fold_del)
  qed
  have closed: "c \<in> set (closed_chans ch') \<longleftrightarrow>
      c \<in> set (closed_chans ch) \<or> (\<exists>k. gm_get m1 k = Some c \<and> gm_get ?al k = None)" for c
  proof -
    have "c \<in> set (map snd ?old) \<longleftrightarrow> (\<exists>k. (k, c) \<in> set ?old)" unfolding set_map by (force simp del: set_filter)
    then show ?thesis unfolding ch' cl mem by auto
  qed
  have from_old: "gm_get m1 k = Some c \<Longrightarrow> gm_get ?al k = None \<Longrightarrow> gm_get (closeChannels pl) k = Some c" for k c
    using add [of k] old [of k] by (cases "gm_get (closeChannels pl) k") auto
  show "forwardMap pl' = fm" "public pl' = public pl" "pl_version pl' = pl_version pl" by (simp_all add: pl')
  show "gm_get (closeChannels pl') key \<noteq> None \<longleftrightarrow> (\<exists>src f. (src, f) \<in> set fm \<and> key = forward_key src (Dest f))"
  proof -
    have "gm_get (closeChannels pl') key \<noteq> None \<longleftrightarrow> gm_get ?al key \<noteq> None" using get [of key] add [of key] by auto
    also have "\<dots> \<longleftrightarrow> key \<in> fst ` set (map (\<lambda>(srcIP, f). (forward_key srcIP (Dest f), True)) fm)"
      unfolding allowed_forwards_def using put_all_None [of "map (\<lambda>(srcIP, f). (forward_key srcIP (Dest f), True)) fm" key] by auto
    finally show ?thesis by (force simp: image_iff)
  qed
  show "chans_ok (closeChannels pl') ch'"
    unfolding chans_ok_def
  proof (intro conjI allI impI)
    show "gm_ok (closeChannels pl')" unfolding pl' using gok by (simp add: gm.ok_fold_del)
    show "inj_on (gm_get (closeChannels pl')) {k. gm_get (closeChannels pl') k \<noteq> None}"
      using ok1 by (auto simp: chans_ok_def inj_on_def get split: if_splits)
    fix k c
    assume "gm_get (closeChannels pl') k = Some c"
    then have a: "gm_get m1 k = Some c" "gm_get ?al k \<noteq> None" by (auto simp: get split: if_splits)
    then show "c < next_chan ch'" using ok1 by (auto simp: chans_ok_def ch')
    have "\<not> (gm_get m1 k' = Some c \<and> gm_get ?al k' = None)" for k'
    proof
      assume k': "gm_get m1 k' = Some c \<and> gm_get ?al k' = None"
      from ok1 have "inj_on (gm_get m1) {k. gm_get m1 k \<noteq> None}" by (simp add: chans_ok_def)
      then have "k' = k" by (rule inj_onD) (use k' a in auto)
      with k' a show False by simp
    qed
    with closed [of c] a(1) ok1 cl show "c \<notin> set (closed_chans ch')" by (auto simp: chans_ok_def)
  qed
  show "gm_get (closeChannels pl) key = Some c \<Longrightarrow>
      (if gm_get (closeChannels pl') key = None then c \<in> set (closed_chans ch') else gm_get (closeChannels pl') key = Some c)"
    using old [of key c] get [of key] closed [of c] by auto
  show "gm_get (closeChannels pl') key = Some c \<Longrightarrow> gm_get (closeChannels pl) key = Some c \<or> next_chan ch \<le> c"
    using fold_add_fresh [of "gm_keys ?al" "(closeChannels pl, ch)" key c] 1 get [of key] by (auto split: if_splits)
  show "next_chan ch \<le> next_chan ch'" using le by (simp add: ch')
  show "\<forall>c\<in>set (closed_chans ch'). c < next_chan ch'"
    using closed assms(3) le ok1 by (fastforce simp: ch' chans_ok_def)
  show "set (closed_chans ch') = set (closed_chans ch) \<union>
      {c. \<exists>k. gm_get (closeChannels pl) k = Some c \<and> gm_get (closeChannels pl') k = None}"
  proof (rule set_eqI)
    fix c
    have "gm_get m1 k = Some c \<and> gm_get ?al k = None \<longleftrightarrow>
        gm_get (closeChannels pl) k = Some c \<and> gm_get (closeChannels pl') k = None" for k
      using from_old [of k c] old [of k c] get [of k] by (auto split: if_splits)
    then show "c \<in> set (closed_chans ch') \<longleftrightarrow> c \<in> set (closed_chans ch) \<union>
        {c. \<exists>k. gm_get (closeChannels pl) k = Some c \<and> gm_get (closeChannels pl') k = None}"
      unfolding closed by simp
  qed
qed

end
