(* ===== verification/Proxy_Ports_Props.thy ===== *)
theory Proxy_Ports_Props
  imports Proxy_Ports
begin

text \<open>
  Properties of the port server: its listeners follow the database. \<open>live ls p k c\<close>: the listener of port \<open>p\<close>
  has the channel \<open>c\<close> for the forward \<open>k\<close>; in \<open>srv_ok\<close> these channels are open and distinct.
\<close>

definition live :: "(u16, port_listener) gomap \<Rightarrow> u16 \<Rightarrow> string \<Rightarrow> nat \<Rightarrow> bool" where
  "live ls p k c \<longleftrightarrow> (\<exists>l. gm_get ls p = Some l \<and> gm_get (closeChannels l) k = Some c)"

definition srv_ok :: "(u16, port_listener) gomap \<Rightarrow> channels \<Rightarrow> bool" where
  "srv_ok ls ch \<longleftrightarrow> gm_ok ls \<and> (\<forall>p l. gm_get ls p = Some l \<longrightarrow> gm_ok (closeChannels l)) \<and>
     (\<forall>p k c. live ls p k c \<longrightarrow> c < next_chan ch \<and> c \<notin> set (closed_chans ch)) \<and>
     (\<forall>p k p' k' c. live ls p k c \<longrightarrow> live ls p' k' c \<longrightarrow> p = p' \<and> k = k') \<and>
     (\<forall>c\<in>set (closed_chans ch). c < next_chan ch)"

lemma srv_okD:
  assumes "srv_ok ls ch"
  shows "gm_ok ls" "gm_get ls p = Some l \<Longrightarrow> gm_ok (closeChannels l)"
    "live ls p k c \<Longrightarrow> c < next_chan ch" "live ls p k c \<Longrightarrow> c \<notin> set (closed_chans ch)"
    "live ls p k c \<Longrightarrow> live ls p' k' c \<Longrightarrow> p = p' \<and> k = k'"
    "\<forall>c\<in>set (closed_chans ch). c < next_chan ch"
  using assms unfolding srv_ok_def by blast+

lemma srv_chans_ok:
  assumes "srv_ok ls ch" and "gm_get ls p = Some l" shows "chans_ok (closeChannels l) ch"
proof -
  have "live ls p k c \<longleftrightarrow> gm_get (closeChannels l) k = Some c" for k c using assms(2) by (simp add: live_def)
  note lv = this and D = srv_okD [OF assms(1)]
  show ?thesis
    unfolding chans_ok_def
  proof (intro conjI allI impI)
    show "gm_ok (closeChannels l)" using D(2) [OF assms(2)] .
    show "inj_on (gm_get (closeChannels l)) {k. gm_get (closeChannels l) k \<noteq> None}"
    proof (rule inj_onI)
      fix x y
      assume "x \<in> {k. gm_get (closeChannels l) k \<noteq> None}" "gm_get (closeChannels l) x = gm_get (closeChannels l) y"
      then obtain c where "live ls p x c" "live ls p y c" by (auto simp: lv)
      from D(5) [OF this] show "x = y" by simp
    qed
    fix k c
    assume "gm_get (closeChannels l) k = Some c"
    then have "live ls p k c" by (simp add: lv)
    from D(3,4) [OF this] show "c < next_chan ch" "c \<notin> set (closed_chans ch)" .
  qed
qed

text \<open>Replacing the listener of a port by an updated one, whose channels are its own or new.\<close>

lemma srv_put:
  assumes ok: "srv_ok ls ch" and c0: "chans_ok m0 ch" and m0: "\<And>k c. gm_get m0 k = Some c \<Longrightarrow> live ls p k c"
    and l1: "chans_ok (closeChannels l1) ch1" "next_chan ch \<le> next_chan ch1" "\<forall>c\<in>set (closed_chans ch1). c < next_chan ch1"
    and own: "\<And>k c. gm_get (closeChannels l1) k = Some c \<Longrightarrow> gm_get m0 k = Some c \<or> next_chan ch \<le> c"
    and cl: "\<And>c. c \<in> set (closed_chans ch1) \<Longrightarrow> c \<in> set (closed_chans ch) \<or> (\<exists>k. gm_get m0 k = Some c)"
  shows "srv_ok (gm_put p l1 ls) ch1"
proof -
  note D = srv_okD [OF ok]
  have lv: "live (gm_put p l1 ls) q k c \<longleftrightarrow> (if q = p then gm_get (closeChannels l1) k = Some c else live ls q k c)" for q k c
    by (simp add: live_def)
  have other: "\<not> live ls q k c" if "q \<noteq> p" and "gm_get (closeChannels l1) k' = Some c" for q k k' c
    using own [OF that(2)] m0 D(3,5) that(1) by (metis linorder_not_less)
  show ?thesis
    unfolding srv_ok_def lv
  proof (intro conjI allI impI)
    show "gm_ok (gm_put p l1 ls)" using D(1) by simp
    show "gm_ok (closeChannels l)" if "gm_get (gm_put p l1 ls) q = Some l" for q l
      using that D(2) l1(1) by (auto simp: chans_ok_def split: if_splits)
    fix q k c
    assume a: "if q = p then gm_get (closeChannels l1) k = Some c else live ls q k c"
    show "c < next_chan ch1" using a l1(1,2) D(3) [of q k c] by (auto simp: chans_ok_def split: if_splits)
    show "c \<notin> set (closed_chans ch1)"
    proof (cases "q = p")
      case True
      with a l1(1) show ?thesis by (auto simp: chans_ok_def)
    next
      case False
      with a have "live ls q k c" by simp
      with cl [of c] D(4) m0 D(5) False show ?thesis by blast
    qed
    fix q' k'
    assume b: "if q' = p then gm_get (closeChannels l1) k' = Some c else live ls q' k' c"
    show "q = q'" "k = k'"
      using a b other D(5) [of q k c q' k'] l1(1) by (auto simp: chans_ok_def inj_on_def split: if_splits)
  qed (use l1(3) in blast)
qed

definition follows :: "tcp_listener \<Rightarrow> port_listener \<Rightarrow> bool" where
  "follows conf l \<longleftrightarrow> forwardMap l = Forwards conf \<and>
     (\<forall>key. gm_get (closeChannels l) key \<noteq> None \<longleftrightarrow>
        (\<exists>src f. (src, f) \<in> set (Forwards conf) \<and> key = forward_key src (Dest f)))"

lemma UpdateForwardMap_srv:
  assumes ok: "srv_ok ls ch" and c0: "chans_ok (closeChannels l0) ch"
    and m0: "\<And>k c. gm_get (closeChannels l0) k = Some c \<Longrightarrow> live ls p k c"
    and up: "UpdateForwardMap (Forwards conf) (l0, ch) = (l1, ch1)"
  shows "srv_ok (gm_put p l1 ls) ch1 \<and> follows conf l1 \<and> pl_version l1 = pl_version l0 \<and> public l1 = public l0"
proof -
  note E = UpdateForwardMap_effect [OF up c0 srv_okD(6) [OF ok]]
  have cl: "c \<in> set (closed_chans ch) \<or> (\<exists>k. gm_get (closeChannels l0) k = Some c)" if "c \<in> set (closed_chans ch1)" for c
    using that unfolding E(10) by auto
  have "srv_ok (gm_put p l1 ls) ch1"
    by (rule srv_put [OF ok c0 m0 E(4) E(8) E(9) E(7) cl])
  then show ?thesis using E(1,2,3,5) by (simp add: follows_def)
qed

text \<open>The listener of a port after one step of the refresh.\<close>

lemma refresh_port_step:
  assumes ok: "srv_ok ls ch" and listens: "\<forall>addr. listens addr"
    and st: "refresh_port listens v (p, conf) (ls, ch) = (ls', ch')"
  shows "srv_ok ls' ch' \<and> (\<exists>l. gm_get ls' p = Some l \<and> follows conf l \<and> pl_version l = v \<and>
      public l = (case gm_get ls p of None \<Rightarrow> gm_get (Forwards conf) ''*'' \<noteq> None | Some l0 \<Rightarrow> public l0)) \<and>
    (\<forall>q. q \<noteq> p \<longrightarrow> gm_get ls' q = gm_get ls q)"
proof (cases "gm_get ls p")
  case None
  let ?l0 = "\<lparr>pl_listenAddr = ListenAddr conf, pl_port = ta_Port (ListenAddr conf), public = (gm_get (Forwards conf) ''*'' \<noteq> None),
      forwardMap = [], closeChannels = [], pl_version = v, pl_closed = False\<rparr>"
  obtain l1 ch1 where up: "UpdateForwardMap (Forwards conf) (?l0, ch) = (l1, ch1)" by fastforce
  then have "ls' = gm_put p l1 ls" "ch' = ch1"
    using st None listens by (auto simp: refresh_port_def NewPortListener_def split: prod.splits)
  with UpdateForwardMap_srv [OF ok _ _ up, of p] None show ?thesis by (simp add: chans_ok_def)
next
  case (Some l)
  obtain l1 ch1 where up: "UpdateForwardMap (Forwards conf) (l\<lparr>pl_version := v\<rparr>, ch) = (l1, ch1)" by fastforce
  then have "ls' = gm_put p l1 ls" "ch' = ch1" using st Some by (auto simp: refresh_port_def)
  with UpdateForwardMap_srv [OF ok _ _ up, of p] srv_chans_ok [OF ok Some] Some show ?thesis by (simp add: live_def)
qed

lemma refresh_ports:
  assumes "srv_ok ls ch" and "\<forall>addr. listens addr" and "distinct (map fst pcs)"
    and "fold (refresh_port listens v) pcs (ls, ch) = (ls', ch')"
  shows "srv_ok ls' ch' \<and>
    (\<forall>p. case map_of pcs p of
       None \<Rightarrow> gm_get ls' p = gm_get ls p
     | Some conf \<Rightarrow> \<exists>l. gm_get ls' p = Some l \<and> follows conf l \<and> pl_version l = v \<and>
         public l = (case gm_get ls p of None \<Rightarrow> gm_get (Forwards conf) ''*'' \<noteq> None | Some l0 \<Rightarrow> public l0))"
  using assms
proof (induction pcs arbitrary: ls ch)
  case Nil
  then show ?case by simp
next
  case (Cons pc pcs)
  obtain p conf where pc: "pc = (p, conf)" by fastforce
  obtain ls1 ch1 where 1: "refresh_port listens v (p, conf) (ls, ch) = (ls1, ch1)" by fastforce
  note st = refresh_port_step [OF Cons.prems(1,2) 1]
  from Cons.prems(3,4) pc 1 have d: "distinct (map fst pcs)" and r: "fold (refresh_port listens v) pcs (ls1, ch1) = (ls', ch')"
    and np: "map_of pcs p = None" by (auto simp: map_of_eq_None_iff)
  note ih = Cons.IH [OF conjunct1 [OF st] Cons.prems(2) d r]
  show ?case
  proof (intro conjI allI)
    show "srv_ok ls' ch'" using ih by blast
    fix q
    show "case map_of (pc # pcs) q of None \<Rightarrow> gm_get ls' q = gm_get ls q
     | Some conf \<Rightarrow> \<exists>l. gm_get ls' q = Some l \<and> follows conf l \<and> pl_version l = v \<and>
         public l = (case gm_get ls q of None \<Rightarrow> gm_get (Forwards conf) ''*'' \<noteq> None | Some l0 \<Rightarrow> public l0)"
    proof (cases "q = p")
      case True
      from ih np have "gm_get ls' p = gm_get ls1 p" by (auto dest!: conjunct2 spec [of _ p])
      with st True pc show ?thesis by simp
    next
      case False
      with st have "gm_get ls1 q = gm_get ls q" by simp
      with conjunct2 [OF ih, THEN spec, of q] False pc show ?thesis by (cases "map_of pcs q") simp_all
    qed
  qed
qed

text \<open>The second loop closes and removes exactly the listeners of another version.\<close>

lemma pl_Close_eq: "pl_Close True (l, ch) = ((l\<lparr>pl_closed := True, closeChannels := fold gm_del (map fst (closeChannels l)) (closeChannels l)\<rparr>,
    ch\<lparr>closed_chans := rev (map snd (closeChannels l)) @ closed_chans ch\<rparr>), True)"
  by (simp add: pl_Close_def fold_close)

lemma close_step:
  assumes ok: "srv_ok ls ch" and l: "gm_get ls p = Some l"
  shows "srv_ok (gm_del p ls) (ch\<lparr>closed_chans := rev (map snd (closeChannels l)) @ closed_chans ch\<rparr>)"
proof -
  note D = srv_okD [OF ok]
  have own: "c \<in> snd ` set (closeChannels l) \<Longrightarrow> \<exists>k. live ls p k c" for c
    using gm.entries_get [OF D(2) [OF l]] l by (auto simp: live_def)
  have lv: "live (gm_del p ls) q k c \<longleftrightarrow> q \<noteq> p \<and> live ls q k c" for q k c by (auto simp: live_def)
  show ?thesis
    unfolding srv_ok_def lv
  proof (intro conjI allI impI)
    show "gm_ok (gm_del p ls)" using D(1) by simp
    show "gm_ok (closeChannels l')" if "gm_get (gm_del p ls) q = Some l'" for q l'
      using that D(2) by (auto split: if_splits)
    fix q k c
    assume a: "q \<noteq> p \<and> live ls q k c"
    then show "c < next_chan (ch\<lparr>closed_chans := rev (map snd (closeChannels l)) @ closed_chans ch\<rparr>)" using D(3) [of q k c] by simp
    have "c \<notin> snd ` set (closeChannels l)" using own D(5) a by blast
    with D(4) a show "c \<notin> set (closed_chans (ch\<lparr>closed_chans := rev (map snd (closeChannels l)) @ closed_chans ch\<rparr>))" by auto
    fix q' k'
    assume "q' \<noteq> p \<and> live ls q' k' c"
    with a D(5) [of q k c q' k'] show "q = q'" "k = k'" by auto
  next
    show "\<forall>c\<in>set (closed_chans (ch\<lparr>closed_chans := rev (map snd (closeChannels l)) @ closed_chans ch\<rparr>)).
        c < next_chan (ch\<lparr>closed_chans := rev (map snd (closeChannels l)) @ closed_chans ch\<rparr>)"
    proof -
      have "c < next_chan ch" if "c \<in> snd ` set (closeChannels l)" for c using own [OF that] D(3) by blast
      then show ?thesis using D(6) by auto
    qed
  qed
qed

lemma close_all_unused:
  assumes "srv_ok ls ch" and "\<forall>p. closes p" and "distinct (map fst pls)"
    and "\<forall>(p, l)\<in>set pls. gm_get ls p = Some l" and "fold (close_unused closes v) pls (ls, ch) = (ls', ch')"
  shows "srv_ok ls' ch' \<and> (\<forall>p. gm_get ls' p =
    (case map_of pls p of None \<Rightarrow> gm_get ls p | Some l \<Rightarrow> if pl_version l \<noteq> v then None else gm_get ls p))"
  using assms
proof (induction pls arbitrary: ls ch)
  case Nil
  then show ?case by simp
next
  case (Cons pl pls)
  obtain p l where pl: "pl = (p, l)" by fastforce
  obtain ls1 ch1 where 1: "close_unused closes v (p, l) (ls, ch) = (ls1, ch1)" by fastforce
  from Cons.prems(4) pl have g: "gm_get ls p = Some l" by simp
  have st: "srv_ok ls1 ch1 \<and> ls1 = (if pl_version l \<noteq> v then gm_del p ls else ls)"
    using 1 Cons.prems(1,2) close_step [OF Cons.prems(1) g]
    by (auto simp: close_unused_def pl_Close_eq split: if_splits)
  from Cons.prems(3) pl have d: "distinct (map fst pls)" and np: "p \<notin> fst ` set pls" by auto
  have "\<forall>(q, l')\<in>set pls. gm_get ls1 q = Some l'"
    using st Cons.prems(4) np pl by (force simp: image_iff)
  from Cons.IH [OF conjunct1 [OF st] Cons.prems(2) d this] Cons.prems(5) 1 pl
  have ih: "srv_ok ls' ch'" "\<And>q. gm_get ls' q =
    (case map_of pls q of None \<Rightarrow> gm_get ls1 q | Some l \<Rightarrow> if pl_version l \<noteq> v then None else gm_get ls1 q)" by auto
  have none: "map_of pls p = None" using np by (simp add: map_of_eq_None_iff)
  show ?case
  proof (intro conjI allI)
    fix q
    show "gm_get ls' q = (case map_of (pl # pls) q of None \<Rightarrow> gm_get ls q
        | Some l \<Rightarrow> if pl_version l \<noteq> v then None else gm_get ls q)"
      unfolding ih(2) using st none pl by (cases "q = p") (auto split: option.split)
  qed (rule ih(1))
qed

definition server_ok :: "port_server \<Rightarrow> bool" where
  "server_ok s \<longleftrightarrow> srv_ok (Listeners s) (chans s) \<and> (\<forall>p l. gm_get (Listeners s) p = Some l \<longrightarrow> pl_version l \<le> CurrentVersion s)"

lemma refresh_all:
  assumes ok: "server_ok s" and db: "gm_ok (pdb_ports (PortDB s))" and sys: "\<forall>a. listens a" "\<forall>p. closes p"
  defines "s' \<equiv> refreshListeners listens closes s"
  shows "server_ok s' \<and> (\<forall>p. case gm_get (pdb_ports (PortDB s)) p of
      None \<Rightarrow> gm_get (Listeners s') p = None
    | Some conf \<Rightarrow> \<exists>l. gm_get (Listeners s') p = Some l \<and> follows conf l \<and>
        public l = (case gm_get (Listeners s) p of None \<Rightarrow> gm_get (Forwards conf) ''*'' \<noteq> None | Some l0 \<Rightarrow> public l0))"
proof -
  let ?v = "CurrentVersion s + 1"
  obtain ls1 ch1 where 1: "fold (refresh_port listens ?v) (pdb_ports (PortDB s)) (Listeners s, chans s) = (ls1, ch1)" by fastforce
  obtain ls2 ch2 where 2: "fold (close_unused closes ?v) ls1 (ls1, ch1) = (ls2, ch2)" by fastforce
  have s': "Listeners s' = ls2" "chans s' = ch2" "CurrentVersion s' = ?v"
    using 1 2 by (simp_all add: s'_def refreshListeners_def)
  have old: "srv_ok (Listeners s) (chans s)" "\<And>p l. gm_get (Listeners s) p = Some l \<Longrightarrow> pl_version l < ?v"
    using ok by (auto simp: server_ok_def)
  from db have dist: "distinct (map fst (pdb_ports (PortDB s)))" by (simp add: gm_ok_def)
  note r1 = refresh_ports [OF old(1) sys(1) dist 1]
  have gok: "gm_ok ls1" using r1 srv_okD(1) by blast
  then have ent: "\<forall>(p, l)\<in>set ls1. gm_get ls1 p = Some l" using gm.entries_get [OF gok] by auto
  have dist1: "distinct (map fst ls1)" using gok by (simp add: gm_ok_def)
  from close_all_unused [OF conjunct1 [OF r1] sys(2) dist1 ent 2]
  have r2: "srv_ok ls2 ch2" "\<And>p. gm_get ls2 p =
      (case gm_get ls1 p of None \<Rightarrow> None | Some l \<Rightarrow> if pl_version l \<noteq> ?v then None else Some l)"
    by (auto simp: gm_get_def split: option.split)
  have each: "case gm_get (pdb_ports (PortDB s)) p of
      None \<Rightarrow> gm_get ls2 p = None
    | Some conf \<Rightarrow> \<exists>l. gm_get ls2 p = Some l \<and> follows conf l \<and>
        public l = (case gm_get (Listeners s) p of None \<Rightarrow> gm_get (Forwards conf) ''*'' \<noteq> None | Some l0 \<Rightarrow> public l0)" for p
  proof (cases "map_of (pdb_ports (PortDB s)) p")
    case None
    with conjunct2 [OF r1, THEN spec, of p] have "gm_get ls1 p = gm_get (Listeners s) p" by simp
    with old(2) [of p] None r2(2) [of p] show ?thesis by (auto simp: gm_get_def split: option.splits)
  next
    case (Some conf)
    with conjunct2 [OF r1, THEN spec, of p] obtain l where "gm_get ls1 p = Some l" "follows conf l" "pl_version l = ?v"
      "public l = (case gm_get (Listeners s) p of None \<Rightarrow> gm_get (Forwards conf) ''*'' \<noteq> None | Some l0 \<Rightarrow> public l0)" by auto
    with Some r2(2) [of p] show ?thesis by (auto simp: gm_get_def)
  qed
  have "pl_version l \<le> ?v" if "gm_get ls2 p = Some l" for p l
    using that r2(2) [of p] by (auto split: option.splits if_splits)
  with r2(1) have "server_ok s'" by (auto simp: server_ok_def s')
  moreover have "gm_get (Listeners s') p = gm_get ls2 p" for p by (simp add: s')
  ultimately show ?thesis unfolding s'(1) using each by blast
qed

text \<open>What a listener that follows its configuration does of a connection.\<close>

definition forward_for :: "bool \<Rightarrow> tcp_listener \<Rightarrow> string \<Rightarrow> tcp_forwarder option" where
  "forward_for pub conf sourceIP = gm_get (Forwards conf) (if pub then ''*'' else sourceIP)"

definition forward_address :: "bool \<Rightarrow> tcp_forwarder \<Rightarrow> tcp_addr" where
  "forward_address pub f =
     (if pub \<and> PROXYProtoPort f \<noteq> 0 then (Dest f)\<lparr>ta_Port := PROXYProtoPort f\<rparr> else Dest f)"

lemma Listen_one_follows:
  assumes "follows conf l"
  shows "map_option acc_to (Listen_one l sourceIP sourcePort) =
      map_option (forward_address (public l)) (forward_for (public l) conf sourceIP)"
    and "Listen_one l sourceIP sourcePort = Some a \<Longrightarrow> \<exists>k. gm_get (closeChannels l) k = Some (acc_chan a)"
proof -
  let ?src = "if public l then ''*'' else sourceIP"
  have key: "forward_key src (forward_address pub f) = forward_key src (Dest f)" for src pub f
    by (simp add: forward_key_def forward_address_def)
  have ex: "\<exists>c. gm_get (closeChannels l) (forward_key ?src (Dest f)) = Some c" if "gm_get (Forwards conf) ?src = Some f" for f
  proof -
    have "\<exists>src g. (src, g) \<in> set (Forwards conf) \<and> forward_key ?src (Dest f) = forward_key src (Dest g)"
      using gm_get_in [OF that] by blast
    with assms have "gm_get (closeChannels l) (forward_key ?src (Dest f)) \<noteq> None" unfolding follows_def by blast
    then show ?thesis by blast
  qed
  show "map_option acc_to (Listen_one l sourceIP sourcePort) =
      map_option (forward_address (public l)) (forward_for (public l) conf sourceIP)"
  proof (cases "gm_get (Forwards conf) ?src")
    case None
    with assms show ?thesis by (simp add: Listen_one_def forward_for_def follows_def)
  next
    case (Some f)
    from ex [OF Some] obtain c where "gm_get (closeChannels l) (forward_key ?src (Dest f)) = Some c" by blast
    with Some assms key [of ?src "public l" f] show ?thesis
      by (auto simp: Listen_one_def forward_for_def follows_def forward_address_def Let_def forward_key_def)
  qed
  show "Listen_one l sourceIP sourcePort = Some a \<Longrightarrow> \<exists>k. gm_get (closeChannels l) k = Some (acc_chan a)"
    by (auto simp: Listen_one_def Let_def split: option.splits)
qed

subsection \<open>A concrete server\<close>

definition ssh_forward :: "string \<Rightarrow> tcp_listener" where
  "ssh_forward src = \<lparr>ListenAddr = \<lparr>ta_IP = [], ta_Port = 9001\<rparr>,
     Forwards = [(src, \<lparr>Dest = \<lparr>ta_IP = ''10.0.0.2'', ta_Port = 22\<rparr>, PROXYProtoPort = 0\<rparr>)]\<rparr>"

definition idle_server :: port_server where
  "idle_server = \<lparr>PortDB = \<lparr>pdb_ports = [(9001, ssh_forward ''10.0.0.1'')], pdb_ports_file = Damaged\<rparr>,
     Listeners = [], CurrentVersion = 0, chans = \<lparr>next_chan = 0, closed_chans = []\<rparr>\<rparr>"

lemma idle_server_ok: "server_ok idle_server"
  by (simp add: server_ok_def srv_ok_def live_def idle_server_def)

lemma idle_db_ok: "gm_ok (pdb_ports (PortDB idle_server))"
  by (simp add: idle_server_def gm_ok_def)

subsection \<open>Properties\<close>



text \<open>A port file that cannot be read closes every port: the database is emptied before it is decoded, the error is
  only logged, and the refresh that follows removes all the listeners with their connections.\<close>

theorem damaged_file_closes_ports:
  assumes "server_ok s" and "pdb_ports_file (PortDB s) = Damaged" and "\<forall>p. closes p"
  shows "gm_get (Listeners (ReloadPorts listens closes s)) p = None \<and>
    (\<forall>l k c. gm_get (Listeners s) p = Some l \<longrightarrow> gm_get (closeChannels l) k = Some c \<longrightarrow>
       c \<in> set (closed_chans (chans (ReloadPorts listens closes s))))"
proof -
  let ?v = "CurrentVersion s + 1"
  obtain ls2 ch2 where 2: "fold (close_unused closes ?v) (Listeners s) (Listeners s, chans s) = (ls2, ch2)" by fastforce
  have s': "Listeners (ReloadPorts listens closes s) = ls2" "chans (ReloadPorts listens closes s) = ch2"
    using 2 assms(2) by (simp_all add: ReloadPorts_def refreshListeners_def pdb_Load_def)
  have ok: "srv_ok (Listeners s) (chans s)" and old: "\<And>p l. gm_get (Listeners s) p = Some l \<Longrightarrow> pl_version l < ?v"
    using assms(1) by (auto simp: server_ok_def)
  have gok: "gm_ok (Listeners s)" using srv_okD(1) [OF ok] .
  have ent: "\<forall>(p, l)\<in>set (Listeners s). gm_get (Listeners s) p = Some l" using gm.entries_get [OF gok] by auto
  have dist: "distinct (map fst (Listeners s))" using gok by (simp add: gm_ok_def)
  from conjunct2 [OF close_all_unused [OF ok assms(3) dist ent 2]] old
  have none: "gm_get ls2 p = None" for p
    by (fastforce simp: gm_get_def split: option.splits if_splits)
  have closing: "set (map snd (closeChannels l)) \<subseteq> set (closed_chans (snd (fold (close_unused closes ?v) pls (ls, ch))))"
    if "(p, l) \<in> set pls" and "pl_version l \<noteq> ?v" for p l pls ls ch
    using that
  proof (induction pls arbitrary: ls ch)
    case (Cons pl pls)
    have mono: "set (closed_chans ch) \<subseteq> set (closed_chans (snd (fold (close_unused closes ?v) xs (ls, ch))))" for xs ls ch
    proof (induction xs arbitrary: ls ch)
      case (Cons x xs)
      have "set (closed_chans ch) \<subseteq> set (closed_chans (snd (close_unused closes ?v x (ls, ch))))"
        using assms(3) by (auto simp: close_unused_def pl_Close_eq split: prod.splits)
      with Cons [where ls = "fst (close_unused closes ?v x (ls, ch))" and ch = "snd (close_unused closes ?v x (ls, ch))"] show ?case by auto
    qed simp
    show ?case
    proof (cases "pl = (p, l)")
      case True
      have "set (map snd (closeChannels l)) \<subseteq> set (closed_chans (snd (close_unused closes ?v (p, l) (ls, ch))))"
        using assms(3) Cons.prems(2) by (auto simp: close_unused_def pl_Close_eq)
      with mono [where ch = "snd (close_unused closes ?v (p, l) (ls, ch))" and xs = pls and ls = "fst (close_unused closes ?v (p, l) (ls, ch))"] True
      show ?thesis by auto
    next
      case False
      with Cons.prems Cons.IH [where ls = "fst (close_unused closes ?v pl (ls, ch))" and ch = "snd (close_unused closes ?v pl (ls, ch))"]
      show ?thesis by auto
    qed
  qed simp
  have "c \<in> set (closed_chans ch2)" if "gm_get (Listeners s) p = Some l" "gm_get (closeChannels l) k = Some c" for p l k c
    using closing [OF gm_get_in [OF that(1)], of "Listeners s" "chans s"] old [OF that(1)] gm_get_in [OF that(2)] 2
    by force
  with none s' show ?thesis by simp
qed

theorem damaged_file_closes_ports_witness:
  "gm_get (Listeners (ReloadPorts (\<lambda>_. True) (\<lambda>_. True) (refreshListeners (\<lambda>_. True) (\<lambda>_. True) idle_server))) 9001 = None"
proof -
  have "server_ok (refreshListeners (\<lambda>_. True) (\<lambda>_. True) idle_server)"
    using refresh_all [OF idle_server_ok idle_db_ok, of "\<lambda>_. True" "\<lambda>_. True"] by simp
  moreover have "pdb_ports_file (PortDB (refreshListeners (\<lambda>_. True) (\<lambda>_. True) idle_server)) = Damaged"
    by (simp add: refreshListeners_def idle_server_def Let_def split: prod.splits)
  ultimately show ?thesis by (rule conjunct1 [OF damaged_file_closes_ports]) simp
qed

text \<open>Whether a port is public is decided when its listener is created and never again: a port of which the
  forward becomes public keeps refusing every client.\<close>

theorem public_port_refused:
  "\<exists>s s' l. s = refreshListeners (\<lambda>_. True) (\<lambda>_. True) idle_server \<and>
     s' = refreshListeners (\<lambda>_. True) (\<lambda>_. True) (s\<lparr>PortDB := (PortDB s)\<lparr>pdb_ports := [(9001, ssh_forward ''*'')]\<rparr>\<rparr>) \<and>
     gm_get (Listeners s') 9001 = Some l \<and>
     (\<forall>sourceIP sourcePort. sourceIP \<noteq> ''*'' \<longrightarrow> Listen_one l sourceIP sourcePort = None)"
proof -
  let ?y = "\<lambda>_. True"
  let ?s = "refreshListeners ?y ?y idle_server"
  let ?s1 = "?s\<lparr>PortDB := (PortDB ?s)\<lparr>pdb_ports := [(9001, ssh_forward ''*'')]\<rparr>\<rparr>"
  note R1 = refresh_all [OF idle_server_ok idle_db_ok, of ?y ?y]
  have db: "gm_get (pdb_ports (PortDB idle_server)) 9001 = Some (ssh_forward ''10.0.0.1'')"
    by (simp add: idle_server_def gm_get_def)
  have new: "gm_get (Listeners idle_server) 9001 = None" and star: "gm_get (Forwards (ssh_forward ''10.0.0.1'')) ''*'' = None"
    by (simp_all add: idle_server_def ssh_forward_def gm_get_def)
  from conjunct2 [OF R1, THEN spec, of 9001] have "\<exists>l. gm_get (Listeners ?s) 9001 = Some l \<and> \<not> public l"
    unfolding db new option.case star by auto
  then obtain l0 where l0: "gm_get (Listeners ?s) 9001 = Some l0" "\<not> public l0" by blast
  have ok1: "server_ok ?s1" using R1 by (simp add: server_ok_def)
  have gok1: "gm_ok (pdb_ports (PortDB ?s1))" by (simp add: gm_ok_def)
  have db1: "gm_get (pdb_ports (PortDB ?s1)) 9001 = Some (ssh_forward ''*'')" by (simp add: gm_get_def)
  from refresh_all [OF ok1 gok1, of ?y ?y, simplified, THEN conjunct2, THEN spec, of 9001] db1 l0
  obtain l where l: "gm_get (Listeners (refreshListeners ?y ?y ?s1)) 9001 = Some l" "follows (ssh_forward ''*'') l" "\<not> public l"
    by auto
  have "Listen_one l sourceIP sourcePort = None" if "sourceIP \<noteq> ''*''" for sourceIP sourcePort
    using Listen_one_follows(1) [OF l(2), of sourceIP sourcePort] l(3) that
    by (simp add: forward_for_def ssh_forward_def gm_get_def)
  with l(1) show ?thesis by blast
qed

theorem public_port_refused_witness:
  "\<exists>s s' l. s = refreshListeners (\<lambda>_. True) (\<lambda>_. True) idle_server \<and>
     s' = refreshListeners (\<lambda>_. True) (\<lambda>_. True) (s\<lparr>PortDB := (PortDB s)\<lparr>pdb_ports := [(9001, ssh_forward ''*'')]\<rparr>\<rparr>) \<and>
     gm_get (Listeners s') 9001 = Some l \<and> Listen_one l ''10.0.0.9'' 5 = None"
  using public_port_refused by fastforce

end
