(* ===== verification/Proxy_Config.thy ===== *)
theory Proxy_Config
  imports Proxy_Server Go_Effects Go_Paths
begin

text \<open>
  The configuration of the proxy, \<open>cmd/mulch-proxy/app_config.go\<close>, and the start of the proxy
  from it, \<open>NewApp\<close> of \<open>app.go\<close>. The TOML decoder is third-party code: a function from the
  name of the file and the defaults to the decoded settings and the names it did not know.
  Floating point settings are rational numbers, exact here.
\<close>

definition ChainPSKMinLength :: nat where "ChainPSKMinLength = 16"
definition LEProductionString :: string where "LEProductionString = ''LETS_ENCRYPT_PRODUCTION''"

subsection \<open>The file\<close>

record toml_rate =
  tr_Name :: string
  tr_ConcurrentMaxRequests :: int
  tr_ConcurrentOverflowTimeout :: rat
  tr_LimitBurstRequests :: int
  tr_LimitRequestsPerSecond :: rat
  tr_LimitMaxDelaySeconds :: rat
  tr_VipList :: "string list"

record toml_proxy =
  tp_DataPath :: string
  tp_AcmeURL :: string
  tp_AcmeEmail :: string
  tp_HTTPAddress :: string
  tp_HTTPSAddress :: string
  tp_ListenHTTPSDomain :: string
  tp_ChainMode :: string
  tp_ChainParentURL :: string
  tp_ChainChildURL :: string
  tp_ChainPSK :: string
  tp_ForceXForwardedFor :: bool
  tp_TrustedProxies :: "string list"
  tp_RateControllers :: "toml_rate list"

definition proxy_defaults :: toml_proxy where
  "proxy_defaults =
     \<lparr>tp_DataPath = ''./var/data'', tp_AcmeURL = ''https://acme-staging-v02.api.letsencrypt.org/directory'',
      tp_AcmeEmail = ''root@localhost.localdomain'', tp_HTTPAddress = '':80'', tp_HTTPSAddress = '':443'',
      tp_ListenHTTPSDomain = [], tp_ChainMode = [], tp_ChainParentURL = [], tp_ChainChildURL = [],
      tp_ChainPSK = [], tp_ForceXForwardedFor = False, tp_TrustedProxies = [], tp_RateControllers = []\<rparr>"

subsection \<open>The configuration\<close>

record proxy_config =
  pc_DataPath :: string
  pc_AcmeURL :: string
  pc_AcmeEmail :: string
  pc_HTTPAddress :: string
  pc_HTTPSAddress :: string
  pc_ListenHTTPSDomain :: string
  pc_ChainMode :: chain_mode
  pc_ChainParentURL :: "url option"
  pc_ChainChildURL :: "url option"
  pc_ChainPSK :: string
  pc_ForceXForwardedFor :: bool
  pc_TrustedProxies :: "(string, bool) gomap"
  pc_HaveTrustedProxies :: bool
  pc_RateControllerConfigs :: "(string, rate_config) gomap"
  pc_configPath :: string

definition unknown_setting :: "string list \<Rightarrow> string option" where
  "unknown_setting undecoded =
     find (\<lambda>p. has_prefix ''proxy_'' p \<and> p \<noteq> ''proxy_listen_ssh'' \<and> p \<noteq> ''proxy_ssh_extra_keys_file'') undecoded"

definition parse_chain_mode :: "string \<Rightarrow> go_error + chain_mode" where
  "parse_chain_mode s =
     (if s = [] then Inr ChainNone else if s = ''child'' then Inr ChainChild
      else if s = ''parent'' then Inr ChainParent
      else Inl (Errorf ''unknown proxy_chain_mode value'' [s]))"

text \<open>The parent URL and the key are needed in both chain modes, the child URL in the child only.\<close>

definition parse_parent :: "toml_proxy \<Rightarrow> chain_mode \<Rightarrow> go_error + url option" where
  "parse_parent t mode =
     (if mode = ChainNone then Inr None
      else if tp_ChainParentURL t = [] then Inl (Errorf ''proxy_chain_parent_url is required'' [])
      else case ParseRequestURI (tp_ChainParentURL t) of
          None \<Rightarrow> Inl (Errorf ''proxy_chain_parent_url is invalid'' [])
        | Some u \<Rightarrow>
            if tp_ChainPSK t = [] then Inl (Errorf ''proxy_chain_psk is required'' [])
            else if length (tp_ChainPSK t) < ChainPSKMinLength then Inl (Errorf ''proxy_chain_psk is too short'' [])
            else Inr (Some u))"

definition parse_child :: "toml_proxy \<Rightarrow> chain_mode \<Rightarrow> go_error + url option" where
  "parse_child t mode =
     (case mode of
        ChainNone \<Rightarrow> Inr None
      | ChainChild \<Rightarrow>
          if tp_ChainChildURL t = [] then Inl (Errorf ''proxy_chain_child_url is required'' [])
          else (case ParseRequestURI (tp_ChainChildURL t) of
              None \<Rightarrow> Inl (Errorf ''proxy_chain_child_url is invalid'' []) | Some u \<Rightarrow> Inr (Some u))
      | ChainParent \<Rightarrow>
          if tp_ChainChildURL t \<noteq> [] then Inl (Errorf ''proxy_chain_child_url is reserved'' []) else Inr None)"

text \<open>A list of addresses without duplicates, as a set.\<close>

definition add_ip :: "string \<Rightarrow> string \<Rightarrow> (string, bool) gomap \<Rightarrow> go_error + (string, bool) gomap" where
  "add_ip what ip m = (if gm_get m ip \<noteq> None then Inl (Errorf what [ip]) else Inr (gm_put ip True m))"

text \<open>\<open>time.Duration(x * float64(time.Second))\<close>: truncation towards zero.\<close>

definition seconds_duration :: "rat \<Rightarrow> duration" where
  "seconds_duration x = (if 0 \<le> x then floor (x * 1000000000) else ceiling (x * 1000000000))"

definition limited :: "toml_rate \<Rightarrow> bool" where
  "limited rc \<longleftrightarrow> 0 < tr_LimitBurstRequests rc \<or> 0 < tr_LimitRequestsPerSecond rc \<or> 0 < tr_LimitMaxDelaySeconds rc"

definition rate_settings :: "toml_rate \<Rightarrow> go_error + rate_config" where
  "rate_settings rc =
     (let appRc = \<lparr>rc_Name = tr_Name rc, ConcurrentMaxRequests = tr_ConcurrentMaxRequests rc,
                   ConcurrentOverflowTimeout = seconds_duration (tr_ConcurrentOverflowTimeout rc),
                   RateEnable = False, RateBurst = 0, RateRequestsPerSecond = 0, RateMaxDelay = 0, VipList = []\<rparr>
      in if \<not> limited rc then Inr appRc
         else if tr_LimitBurstRequests rc \<le> 0 then Inl (Errorf ''limit_burst_requests must be > 0'' [tr_Name rc])
         else if tr_LimitRequestsPerSecond rc \<le> 1 then Inl (Errorf ''limit_requests_per_second must be > 1'' [tr_Name rc])
         else if tr_LimitMaxDelaySeconds rc \<le> 0 then Inl (Errorf ''limit_max_delay_seconds must be > 0'' [tr_Name rc])
         else Inr (appRc\<lparr>RateEnable := True, RateBurst := tr_LimitBurstRequests rc,
                         RateRequestsPerSecond := tr_LimitRequestsPerSecond rc,
                         RateMaxDelay := seconds_duration (tr_LimitMaxDelaySeconds rc)\<rparr>))"

definition add_rate ::
  "toml_rate \<Rightarrow> (string, rate_config) gomap \<Rightarrow> go_error + (string, rate_config) gomap" where
  "add_rate rc m =
     (if tr_Name rc = [] then Inl (Errorf ''a proxy_rate entry is missing the name'' [])
      else if gm_get m (tr_Name rc) \<noteq> None then Inl (Errorf ''duplicate proxy_rate name'' [tr_Name rc])
      else case rate_settings rc of Inl e \<Rightarrow> Inl e
      | Inr appRc \<Rightarrow>
          (case foldE (add_ip ''duplicate IP in vip_list'') (tr_VipList rc) [] of Inl e \<Rightarrow> Inl e
           | Inr vips \<Rightarrow> Inr (gm_put (tr_Name rc) (appRc\<lparr>VipList := vips\<rparr>) m)))"

definition no_rate :: "string \<Rightarrow> rate_config" where
  "no_rate name =
     \<lparr>rc_Name = name, ConcurrentMaxRequests = 0, ConcurrentOverflowTimeout = 0, RateEnable = False,
      RateBurst = 0, RateRequestsPerSecond = 0, RateMaxDelay = 0, VipList = []\<rparr>"

definition with_default :: "(string, rate_config) gomap \<Rightarrow> (string, rate_config) gomap" where
  "with_default m = (if gm_get m ''default'' = None then gm_put ''default'' (no_rate ''default'') m else m)"

definition proxy_NewAppConfigFromTomlFile ::
  "(string \<Rightarrow> toml_proxy \<Rightarrow> string + toml_proxy \<times> string list) \<Rightarrow> string
    \<Rightarrow> go_error + proxy_config" where
  "proxy_NewAppConfigFromTomlFile decode configPath =
     (case decode (path_clean (configPath @ ''/mulchd.toml'')) proxy_defaults of
        Inl e \<Rightarrow> Inl (Errorf ''toml'' [e])
      | Inr (t, undecoded) \<Rightarrow>
      (case unknown_setting undecoded of Some p \<Rightarrow> Inl (Errorf ''unknown setting'' [p])
       | None \<Rightarrow>
      (case parse_chain_mode (tp_ChainMode t) of Inl e \<Rightarrow> Inl e
       | Inr mode \<Rightarrow>
      (case parse_parent t mode of Inl e \<Rightarrow> Inl e
       | Inr parent \<Rightarrow>
      (case parse_child t mode of Inl e \<Rightarrow> Inl e
       | Inr child \<Rightarrow>
      (case foldE (add_ip ''duplicate IP in proxy_trusted_proxies'') (tp_TrustedProxies t) [] of Inl e \<Rightarrow> Inl e
       | Inr trusted \<Rightarrow>
      (case foldE add_rate (tp_RateControllers t) [] of Inl e \<Rightarrow> Inl e
       | Inr rates \<Rightarrow>
           Inr \<lparr>pc_DataPath = tp_DataPath t,
                pc_AcmeURL = (if tp_AcmeURL t = LEProductionString then [] else tp_AcmeURL t),
                pc_AcmeEmail = tp_AcmeEmail t, pc_HTTPAddress = tp_HTTPAddress t,
                pc_HTTPSAddress = tp_HTTPSAddress t, pc_ListenHTTPSDomain = tp_ListenHTTPSDomain t,
                pc_ChainMode = mode, pc_ChainParentURL = parent, pc_ChainChildURL = child,
                pc_ChainPSK = tp_ChainPSK t, pc_ForceXForwardedFor = tp_ForceXForwardedFor t,
                pc_TrustedProxies = trusted, pc_HaveTrustedProxies = (tp_TrustedProxies t \<noteq> []),
                pc_RateControllerConfigs = with_default rates, pc_configPath = configPath\<rparr>)))))))"

subsection \<open>Starting the proxy\<close>

definition chain_domain_of :: "proxy_config \<Rightarrow> string" where
  "chain_domain_of config =
     (case pc_ChainMode config of
        ChainNone \<Rightarrow> []
      | ChainParent \<Rightarrow> (case pc_ChainParentURL config of None \<Rightarrow> [] | Some u \<Rightarrow> Hostname u)
      | ChainChild \<Rightarrow> (case pc_ChainChildURL config of None \<Rightarrow> [] | Some u \<Rightarrow> Hostname u))"

text \<open>
  The part of \<open>NewApp\<close> that builds the proxy server: whether the data path exists, what writing
  the domain file answers, the domain file itself and the error template are inputs.
\<close>

definition start_proxy ::
  "bool \<Rightarrow> io_write \<Rightarrow> (string, domain) gomap dbfile \<Rightarrow> string + string \<Rightarrow> bool \<Rightarrow> proxy_config
    \<Rightarrow> go_error + proxy_server" where
  "start_proxy data_path_exists w on_disk template debug config =
     (if \<not> data_path_exists then Inl (Errorf ''data path does not exist'' [pc_DataPath config])
      else case NewDomainDatabase w (pc_ChainMode config = ChainParent) on_disk of
          Inl e \<Rightarrow> Inl (Errorf ''domain database'' [])
        | Inr st \<Rightarrow>
            Inr (RefreshReverseProxies
              \<lparr>px_config =
                 \<lparr>MulchdHTTPSDomain = pc_ListenHTTPSDomain config, px_ChainMode = pc_ChainMode config,
                  ChainPSK = pc_ChainPSK config, ChainDomain = chain_domain_of config,
                  ForceXForwardedFor = pc_ForceXForwardedFor config,
                  HaveTrustedProxies = pc_HaveTrustedProxies config, TrustedProxies = pc_TrustedProxies config,
                  px_Debug = debug, ErrorTemplate = template\<rparr>,
               DomainDB = st, RequestList = NewRequestList debug,
               RateControllers = gm_conv NewRateController (pc_RateControllerConfigs config),
               requestCounter = 0\<rparr>))"

end
