(* ===== verification/Proxy_Start_Props.thy ===== *)
theory Proxy_Start_Props
  imports Proxy_Config Proxy_Server_Lemmas
begin













end
