(* ===== verification/Proxy_Upkeep.thy ===== *)
theory Proxy_Upkeep
  imports Proxy_Config Proxy_Ports
begin

text \<open>
  What the proxy does besides answering: the certificates of \<open>extra_certs.toml\<close> and their reload
  (\<open>extra_certs.go\<close>), the watchdog (\<open>watchdog.go\<close>), and in \<open>app.go\<close> the registration of its domains
  on its parent and the reload on a signal.
\<close>

subsection \<open>Extra certificates\<close>

text \<open>The files the database looks at; the TOML decoder and the parser of key pairs are parameters.\<close>

record toml_extra_cert =
  tc_Domains :: "string list"
  tc_Certfile :: string
  tc_Keyfile :: string

record cert_files =
  cf_ModTime :: "string \<Rightarrow> time option"
  cf_Decode :: "string + toml_extra_cert list \<times> string list"
  cf_KeyPair :: "string \<Rightarrow> string \<Rightarrow> string + string"

record extra_cert =
  ec_Cert :: string
  ec_Certfile :: string
  ec_CertfileLastModified :: time
  ec_Keyfile :: string
  ec_KeyfileLastModified :: time

record extra_certs_db =
  xc_configFile :: string
  xc_db :: "(string, extra_cert) gomap"
  xc_fileLastModified :: time

datatype certs_error =
    CertsDecode string
  | CertsUnknownSetting string
  | CertsNoDomain
  | CertsStat string
  | CertsKeyPair string

definition load_cert :: "cert_files \<Rightarrow> toml_extra_cert \<Rightarrow> (string, extra_cert) gomap \<Rightarrow> certs_error + (string, extra_cert) gomap" where
  "load_cert fs cert newMap =
     (if tc_Domains cert = [] then Inl CertsNoDomain
      else case cf_ModTime fs (tc_Certfile cert) of None \<Rightarrow> Inl (CertsStat (tc_Certfile cert))
      | Some certTime \<Rightarrow>
      case cf_ModTime fs (tc_Keyfile cert) of None \<Rightarrow> Inl (CertsStat (tc_Keyfile cert))
      | Some keyTime \<Rightarrow>
      case cf_KeyPair fs (tc_Certfile cert) (tc_Keyfile cert) of Inl e \<Rightarrow> Inl (CertsKeyPair e)
      | Inr cer \<Rightarrow>
          Inr (put_all (map (\<lambda>domain. (domain,
              \<lparr>ec_Cert = cer, ec_Certfile = tc_Certfile cert, ec_CertfileLastModified = certTime,
               ec_Keyfile = tc_Keyfile cert, ec_KeyfileLastModified = keyTime\<rparr>)) (tc_Domains cert)) newMap))"

text \<open>The date of the file is kept before the file is read; the map changes only at the end.\<close>

definition xc_Load :: "cert_files \<Rightarrow> extra_certs_db \<Rightarrow> extra_certs_db \<times> certs_error option" where
  "xc_Load fs st =
     (case cf_ModTime fs (xc_configFile st) of
        None \<Rightarrow> (st\<lparr>xc_db := [], xc_fileLastModified := zero_time\<rparr>, None)
      | Some t \<Rightarrow>
          let st1 = st\<lparr>xc_fileLastModified := t\<rparr> in
          (case cf_Decode fs of
             Inl e \<Rightarrow> (st1, Some (CertsDecode e))
           | Inr (certs, param # _) \<Rightarrow> (st1, Some (CertsUnknownSetting param))
           | Inr (certs, []) \<Rightarrow>
               (case foldE (load_cert fs) certs [] of
                  Inl e \<Rightarrow> (st1, Some e)
                | Inr newMap \<Rightarrow> (st1\<lparr>xc_db := newMap\<rparr>, None))))"

definition xc_Get :: "extra_certs_db \<Rightarrow> string \<Rightarrow> extra_cert option" where "xc_Get st = gm_get (xc_db st)"

text \<open>The certificates in the order the map gives them; a file that is missing ends the search.\<close>

fun some_cert_changed :: "cert_files \<Rightarrow> extra_cert list \<Rightarrow> bool" where
  "some_cert_changed fs [] = False"
| "some_cert_changed fs (cert # certs) =
     (case cf_ModTime fs (ec_Certfile cert) of None \<Rightarrow> False
      | Some certTime \<Rightarrow>
      case cf_ModTime fs (ec_Keyfile cert) of None \<Rightarrow> False
      | Some keyTime \<Rightarrow>
          if certTime \<noteq> ec_CertfileLastModified cert \<or> keyTime \<noteq> ec_KeyfileLastModified cert then True
          else some_cert_changed fs certs)"

definition IsReloadNeeded :: "cert_files \<Rightarrow> extra_certs_db \<Rightarrow> bool" where
  "IsReloadNeeded fs st =
     (case cf_ModTime fs (xc_configFile st) of
        None \<Rightarrow> xc_db st \<noteq> []
      | Some t \<Rightarrow> t \<noteq> xc_fileLastModified st \<or> some_cert_changed fs (gm_vals (xc_db st)))"

definition NewExtraCertsDB :: "string \<Rightarrow> cert_files \<Rightarrow> certs_error + extra_certs_db" where
  "NewExtraCertsDB configFile fs =
     (case xc_Load fs \<lparr>xc_configFile = configFile, xc_db = [], xc_fileLastModified = zero_time\<rparr> of
        (st, Some e) \<Rightarrow> Inl e | (st, None) \<Rightarrow> Inr st)"

text \<open>One turn of \<open>ScheduleReload\<close>; an error is only logged.\<close>

definition reload_turn :: "cert_files \<Rightarrow> extra_certs_db \<Rightarrow> extra_certs_db" where
  "reload_turn fs st = (if IsReloadNeeded fs st then fst (xc_Load fs st) else st)"

subsection \<open>The watchdog\<close>

text \<open>What the network answers: a connection to a host and port, and a request with the watchdog header.\<close>

datatype watch_answer = WatchTimeout string | WatchError string | WatchResponse "string option"

record watch_net =
  wn_dial :: "string \<Rightarrow> string \<Rightarrow> string option"
  wn_get :: "string \<Rightarrow> watch_answer"
  wn_url_String :: "url \<Rightarrow> string"

definition dialTest :: "watch_net \<Rightarrow> string \<Rightarrow> string option" where
  "dialTest net urlIn =
     (case Parse urlIn of None \<Rightarrow> Some ''parse''
      | Some urlObj \<Rightarrow>
          if url_Port urlObj \<noteq> [] then
            (case SplitHostPort (Host urlObj) of None \<Rightarrow> Some ''split''
             | Some (host, port) \<Rightarrow> wn_dial net host port)
          else wn_dial net (Host urlObj) (if Scheme urlObj = ProtoHTTPS then ''443'' else ''80''))"

text \<open>An error is a proxy that accepts connections and does not answer in time.\<close>

definition watchProxy :: "watch_net \<Rightarrow> string \<Rightarrow> string option" where
  "watchProxy net u =
     (case dialTest net u of Some e \<Rightarrow> None
      | None \<Rightarrow>
          (case wn_get net u of
             WatchTimeout e \<Rightarrow> Some e
           | WatchError e \<Rightarrow> None
           | WatchResponse drain \<Rightarrow> drain))"

datatype watch_end = WatchOk | WatchExit nat | WatchPanic string

fun watch_children :: "watch_net \<Rightarrow> string list \<Rightarrow> watch_end" where
  "watch_children net [] = WatchOk"
| "watch_children net (childURL # children) =
     (case Parse childURL of None \<Rightarrow> WatchPanic ''urlObj is nil''
      | Some urlObj \<Rightarrow>
          if Scheme urlObj = ProtoHTTPS \<and> watchProxy net childURL \<noteq> None then WatchExit 200
          else watch_children net children)"

definition watchProxies :: "watch_net \<Rightarrow> domain_db \<Rightarrow> url \<Rightarrow> watch_end" where
  "watchProxies net st selfUrl =
     (case watch_children net (GetChildren st) of
        WatchOk \<Rightarrow>
          if Scheme selfUrl = ProtoHTTPS \<and> watchProxy net (wn_url_String net (selfUrl\<lparr>Host := Hostname selfUrl\<rparr>)) \<noteq> None
          then WatchExit 200 else WatchOk
      | r \<Rightarrow> r)"

subsection \<open>A child and its parent\<close>

definition chain_request :: "proxy_server \<Rightarrow> string \<Rightarrow> api_request" where
  "chain_request px childURL =
     \<lparr>ar_Method = ''POST'', ar_PSK = ChainPSK (px_config px),
      ar_Body = Some \<lparr>cds_Domains = GetProxyChainDomains (DomainDB px), ForwardTo = childURL\<rparr>\<rparr>"

text \<open>
  \<open>send\<close> is the request to the parent: an error of the connection or the status of its answer.
  Any status is taken for a success, it is only logged.
\<close>

definition refreshParentDomains :: "(api_request \<Rightarrow> string + int) \<Rightarrow> string \<Rightarrow> proxy_server \<Rightarrow> string option" where
  "refreshParentDomains send childURL px =
     (case send (chain_request px childURL) of Inl e \<Rightarrow> Some e | Inr status \<Rightarrow> None)"

definition refreshDomains :: "(api_request \<Rightarrow> string + int) \<Rightarrow> string \<Rightarrow> proxy_server \<Rightarrow> string option" where
  "refreshDomains send childURL px =
     (if px_ChainMode (px_config px) = ChainChild then refreshParentDomains send childURL px else None)"

text \<open>The signal: domains, then the parent, then ports; an error of the parent is only logged.\<close>

definition handle_SIGHUP ::
  "(tcp_addr \<Rightarrow> bool) \<Rightarrow> (u16 \<Rightarrow> bool) \<Rightarrow> (api_request \<Rightarrow> string + int) \<Rightarrow> string \<Rightarrow> proxy_server \<times> port_server
    \<Rightarrow> (proxy_server \<times> port_server) \<times> string option" where
  "handle_SIGHUP listens closes send childURL s =
     (let px = ReloadDomains (fst s); e = refreshDomains send childURL px
      in ((px, ReloadPorts listens closes (snd s)), e))"

text \<open>
  \<open>NewApp\<close> as a whole: certificates, ports, and the parent last. The directory of the automatic
  certificates and the API server of a parent, which only listens, are left out.
\<close>

definition proxy_NewApp ::
  "bool \<Rightarrow> io_write \<Rightarrow> (string, domain) gomap dbfile \<Rightarrow> string + string \<Rightarrow> bool \<Rightarrow> cert_files \<Rightarrow>
    (tcp_addr \<Rightarrow> bool) \<Rightarrow> (u16 \<Rightarrow> bool) \<Rightarrow> (u16, tcp_listener) gomap dbfile \<Rightarrow> (api_request \<Rightarrow> string + int) \<Rightarrow> string \<Rightarrow> proxy_config
    \<Rightarrow> go_error + proxy_server \<times> port_server \<times> extra_certs_db" where
  "proxy_NewApp data_path_exists w on_disk template debug certs listens closes ports_file send childURL config =
     (case start_proxy data_path_exists w on_disk template debug config of Inl e \<Rightarrow> Inl e
      | Inr px \<Rightarrow>
      case NewExtraCertsDB (path_clean (pc_configPath config @ ''/extra_certs.toml'')) certs of
        Inl e \<Rightarrow> Inl (Errorf ''extra certificates'' [])
      | Inr xc \<Rightarrow>
      case NewPortServer listens closes ports_file of None \<Rightarrow> Inl (Errorf ''port database'' [])
      | Some ports \<Rightarrow>
          (case (if pc_ChainMode config = ChainChild then refreshParentDomains send childURL px else None) of
             Some e \<Rightarrow> Inl (Errorf ''parent'' [e])
           | None \<Rightarrow> Inr (px, ports, xc)))"

end
