(* ===== verification/Proxy_Upkeep_Props.thy ===== *)
theory Proxy_Upkeep_Props
  imports Proxy_Upkeep Proxy_Props
begin

text \<open>
  Extra certificates follow their files, as long as no load fails; what a failed load, a refused
  registration and a child with a bad URL lead to.
\<close>

subsection \<open>A load\<close>

definition loaded :: "cert_files \<Rightarrow> toml_extra_cert \<Rightarrow> extra_cert \<Rightarrow> bool" where
  "loaded fs tc ec \<longleftrightarrow>
     ec_Certfile ec = tc_Certfile tc \<and> cf_ModTime fs (tc_Certfile tc) = Some (ec_CertfileLastModified ec) \<and>
     ec_Keyfile ec = tc_Keyfile tc \<and> cf_ModTime fs (tc_Keyfile tc) = Some (ec_KeyfileLastModified ec) \<and>
     cf_KeyPair fs (tc_Certfile tc) (tc_Keyfile tc) = Inr (ec_Cert ec)"

text \<open>The certificate of a domain is the last one of the file that names it.\<close>

definition cert_of :: "toml_extra_cert list \<Rightarrow> string \<Rightarrow> toml_extra_cert option" where
  "cert_of certs d = find (\<lambda>tc. d \<in> set (tc_Domains tc)) (rev certs)"

lemma load_cert_Inr:
  assumes "load_cert fs tc m = Inr m'"
  shows "\<exists>ec. loaded fs tc ec \<and> (\<forall>d. gm_get m' d = (if d \<in> set (tc_Domains tc) then Some ec else gm_get m d))"
proof -
  have put: "gm_get (put_all (map (\<lambda>d. (d, v)) ds) m) d = (if d \<in> set ds then Some v else gm_get m d)" for ds v d
    by (induction ds arbitrary: m) (auto simp: put_all_def)
  from assms obtain a b c where t: "cf_ModTime fs (tc_Certfile tc) = Some a" "cf_ModTime fs (tc_Keyfile tc) = Some b"
      "cf_KeyPair fs (tc_Certfile tc) (tc_Keyfile tc) = Inr c"
    and m': "m' = put_all (map (\<lambda>domain. (domain,
              \<lparr>ec_Cert = c, ec_Certfile = tc_Certfile tc, ec_CertfileLastModified = a,
               ec_Keyfile = tc_Keyfile tc, ec_KeyfileLastModified = b\<rparr>)) (tc_Domains tc)) m"
    by (auto simp: load_cert_def split: if_splits option.splits sum.splits)
  show ?thesis
    unfolding m' put
    by (rule exI [of _ "\<lparr>ec_Cert = c, ec_Certfile = tc_Certfile tc, ec_CertfileLastModified = a,
               ec_Keyfile = tc_Keyfile tc, ec_KeyfileLastModified = b\<rparr>"]) (simp add: loaded_def t)
qed

lemma load_certs_Inr:
  assumes "foldE (load_cert fs) certs m = Inr m'"
  shows "case cert_of certs d of
      None \<Rightarrow> gm_get m' d = gm_get m d
    | Some tc \<Rightarrow> (\<exists>ec. gm_get m' d = Some ec \<and> loaded fs tc ec)"
  using assms
proof (induction certs arbitrary: m)
  case (Cons tc certs)
  then obtain m1 where m1: "load_cert fs tc m = Inr m1" "foldE (load_cert fs) certs m1 = Inr m'"
    by (auto split: sum.splits)
  from load_cert_Inr [OF m1(1)] obtain ec where
    ec: "loaded fs tc ec" "\<And>d. gm_get m1 d = (if d \<in> set (tc_Domains tc) then Some ec else gm_get m d)" by blast
  have c: "cert_of (tc # certs) d = (case cert_of certs d of Some t \<Rightarrow> Some t
      | None \<Rightarrow> if d \<in> set (tc_Domains tc) then Some tc else None)"
    by (auto simp: cert_of_def find_append split: option.splits)
  from Cons.IH [OF m1(2)] ec show ?case by (auto simp: c split: option.splits)
qed (simp add: cert_of_def)

lemma load_certs_ok: "foldE (load_cert fs) certs m = Inr m' \<Longrightarrow> gm_ok m \<Longrightarrow> gm_ok m'"
  by (induction certs arbitrary: m)
    (auto simp: load_cert_def put_all_ok split: if_splits option.splits sum.splits)

lemma unchanged_certs:
  "(\<And>ec. ec \<in> set ecs \<Longrightarrow> \<exists>tc. loaded fs tc ec) \<Longrightarrow> \<not> some_cert_changed fs ecs"
proof (induction ecs)
  case (Cons ec ecs)
  from Cons.prems [of ec] obtain tc where "loaded fs tc ec" by auto
  with Cons show ?case by (auto simp: loaded_def)
qed simp

lemma Load_Load: "fst (xc_Load fs (fst (xc_Load fs st))) = fst (xc_Load fs st)"
  by (auto simp: xc_Load_def Let_def split: option.splits sum.splits list.splits prod.splits)

text \<open>C35. A load of the extra certificates that succeeds gives every domain the certificate of the
  last entry that names it, from files of the present dates, and asks for no other load; whatever
  the files, a turn of the reload changes nothing when the files did not change since the last one,
  and a load that fails keeps the certificates.\<close>

theorem extra_certs_follow:
  "(\<forall>st' t certs. xc_Load fs st = (st', None) \<and> cf_ModTime fs (xc_configFile st) = Some t \<and> cf_Decode fs = Inr (certs, []) \<longrightarrow>
      \<not> IsReloadNeeded fs st' \<and>
      (\<forall>d. case cert_of certs d of None \<Rightarrow> xc_Get st' d = None
         | Some tc \<Rightarrow> \<exists>ec. xc_Get st' d = Some ec \<and> loaded fs tc ec))
   \<and> reload_turn fs (reload_turn fs st) = reload_turn fs st
   \<and> (\<forall>st' e. xc_Load fs st = (st', Some e) \<longrightarrow> xc_db st' = xc_db st)"
proof (intro conjI allI impI)
  fix st' t certs
  assume a: "xc_Load fs st = (st', None) \<and> cf_ModTime fs (xc_configFile st) = Some t \<and> cf_Decode fs = Inr (certs, [])"
  then obtain m where m: "foldE (load_cert fs) certs [] = Inr m"
    and st': "st' = st\<lparr>xc_fileLastModified := t, xc_db := m\<rparr>"
    by (auto simp: xc_Load_def Let_def split: sum.splits)
  note L = load_certs_Inr [OF m]
  have "\<exists>tc. loaded fs tc ec" if "ec \<in> set (gm_vals m)" for ec
  proof -
    have "gm_ok m" using load_certs_ok [OF m] gm_ok_Nil by simp
    with that obtain d where "gm_get m d = Some ec" by (auto simp: gm_vals_get)
    with L [of d] show ?thesis by (auto split: option.splits)
  qed
  then have "\<not> some_cert_changed fs (gm_vals m)" by (rule unchanged_certs)
  with a st' show "\<not> IsReloadNeeded fs st'" by (simp add: IsReloadNeeded_def)
  show "case cert_of certs d of None \<Rightarrow> xc_Get st' d = None
         | Some tc \<Rightarrow> \<exists>ec. xc_Get st' d = Some ec \<and> loaded fs tc ec" for d
    using L [of d] by (simp add: st' xc_Get_def split: option.splits)
next
  show "reload_turn fs (reload_turn fs st) = reload_turn fs st"
    using Load_Load [of fs st] by (simp add: reload_turn_def)
next
  show "xc_Load fs st = (st', Some e) \<Longrightarrow> xc_db st' = xc_db st" for st' e
    by (auto simp: xc_Load_def Let_def split: option.splits sum.splits list.splits)
qed

text \<open>Two entries name the same domain; the second one counts.\<close>

definition two_certs :: cert_files where
  "two_certs = \<lparr>cf_ModTime = (\<lambda>f. Some 7),
     cf_Decode = Inr ([\<lparr>tc_Domains = [''a.test''], tc_Certfile = ''a.crt'', tc_Keyfile = ''a.key''\<rparr>,
                       \<lparr>tc_Domains = [''a.test''], tc_Certfile = ''b.crt'', tc_Keyfile = ''b.key''\<rparr>], []),
     cf_KeyPair = (\<lambda>c k. Inr c)\<rparr>"

definition no_certs :: extra_certs_db where
  "no_certs = \<lparr>xc_configFile = ''extra_certs.toml'', xc_db = [], xc_fileLastModified = zero_time\<rparr>"

theorem extra_certs_follow_witness:
  "\<exists>st' ec. xc_Load two_certs no_certs = (st', None) \<and> xc_Get st' ''a.test'' = Some ec \<and> ec_Certfile ec = ''b.crt''
     \<and> \<not> IsReloadNeeded two_certs st'"
proof -
  obtain st' where l: "xc_Load two_certs no_certs = (st', None)"
    by (simp add: xc_Load_def two_certs_def no_certs_def load_cert_def Let_def)
  have t: "cf_ModTime two_certs (xc_configFile no_certs) = Some 7" by (simp add: two_certs_def)
  have d: "cf_Decode two_certs = Inr (fst (projr (cf_Decode two_certs)), [])" by (simp add: two_certs_def)
  have c: "cert_of (fst (projr (cf_Decode two_certs))) ''a.test''
      = Some \<lparr>tc_Domains = [''a.test''], tc_Certfile = ''b.crt'', tc_Keyfile = ''b.key''\<rparr>"
    by (simp add: cert_of_def two_certs_def)
  from extra_certs_follow [of two_certs no_certs] l t d
  have n: "\<not> IsReloadNeeded two_certs st'" and
    "case cert_of (fst (projr (cf_Decode two_certs))) ''a.test'' of None \<Rightarrow> xc_Get st' ''a.test'' = None
         | Some tc \<Rightarrow> \<exists>ec. xc_Get st' ''a.test'' = Some ec \<and> loaded two_certs tc ec" by blast+
  with c obtain ec where "xc_Get st' ''a.test'' = Some ec" "ec_Certfile ec = ''b.crt''" by (auto simp: loaded_def)
  with l n show ?thesis by blast
qed

text \<open>
  After a load that failed, only a change of the file itself or of a certificate loaded before starts
  another: a certificate file that was missing and appears later is never read.
\<close>

lemma failed_load_not_repeated:
  assumes "xc_Load fs st = (st', Some e)" "cf_ModTime fs' (xc_configFile st) = cf_ModTime fs (xc_configFile st)"
    and "\<not> some_cert_changed fs' (gm_vals (xc_db st))"
  shows "reload_turn fs' st' = st'"
  using assms by (auto simp: xc_Load_def reload_turn_def IsReloadNeeded_def Let_def split: option.splits sum.splits list.splits)

subsection \<open>The watchdog\<close>

lemma watch_children_Exit:
  "(\<forall>u \<in> set children. Parse u \<noteq> None) \<Longrightarrow>
     watch_children net children = (if \<exists>u \<in> set children. Scheme (the (Parse u)) = ProtoHTTPS \<and> watchProxy net u \<noteq> None
       then WatchExit 200 else WatchOk)"
  by (induction children) auto

text \<open>A registered URL that does not parse ends the proxy at the next turn of the watchdog.\<close>

lemma watch_bad_child:
  assumes "u \<in> set (GetChildren st)" "Parse u = None" "\<forall>v \<in> set (GetChildren st). watchProxy net v = None"
  shows "watchProxies net st self = WatchPanic ''urlObj is nil''"
proof -
  have "watch_children net us = WatchPanic ''urlObj is nil''"
    if "u \<in> set us" "\<forall>v \<in> set us. watchProxy net v = None" for us
    using that assms(2) by (induction us) (auto split: option.splits)
  with assms show ?thesis by (simp add: watchProxies_def)
qed

lemma bad_child_ends_parent:
  assumes "\<And>v. watchProxy net v = None"
  shows "watchProxies net (DomainDB (fst (domains_route WriteOk (register_request ''%'') web_proxy))) self = WatchPanic ''urlObj is nil''"
proof (rule watch_bad_child [where u = "''%''"])
  show "''%'' \<in> set (GetChildren (DomainDB (fst (domains_route WriteOk (register_request ''%'') web_proxy))))"
    by code_simp
  show "Parse ''%'' = None" by code_simp
qed (simp add: assms)

subsection \<open>A parent that refuses\<close>

text \<open>The first registration is called a safety check; it passes when the parent refuses it.\<close>

lemma refused_child_starts:
  assumes "\<And>q. send q = Inr 403" "start_proxy True w on_disk template debug config = Inr px"
    "NewExtraCertsDB (path_clean (pc_configPath config @ ''/extra_certs.toml'')) certs = Inr xc"
    "NewPortServer listens closes ports_file = Some ports"
  shows "proxy_NewApp True w on_disk template debug certs listens closes ports_file send childURL config = Inr (px, ports, xc)"
  using assms by (simp add: proxy_NewApp_def refreshParentDomains_def)

end
