(* ===== verification/Server_Upkeep.thy ===== *)
theory Server_Upkeep
  imports Mulch_Prelude Go_Strings Go_Maps Go_Paths
begin

text \<open>
  What the server does in the background for others: the signal that makes the proxy read its files
  again (\<open>proxy_reload.go\<close>), the certificate of the API (\<open>cert_manager.go\<close>), the alert scripts
  (\<open>alert.go\<close>).
\<close>

subsection \<open>Reload requests\<close>

text \<open>
  \<open>rl_version\<close> counts the saves of the files of the proxy, \<open>rl_seen\<close> is the version the proxy read at
  the last signal. A request takes the token of the channel and works through the phases; without
  a token it does nothing. \<open>rl_late\<close> is history: the last signal failed, or a request came between it
  and the return of the token.
\<close>

datatype reload_phase = Idle | Sleeping | Signalled

record reloader =
  rl_version :: nat
  rl_seen :: nat
  rl_token :: bool
  rl_phase :: reload_phase
  rl_late :: bool

definition NewProxyReloader :: reloader where
  "NewProxyReloader = \<lparr>rl_version = 0, rl_seen = 0, rl_token = True, rl_phase = Idle, rl_late = False\<rparr>"

definition reload_Request :: "reloader \<Rightarrow> reloader" where
  "reload_Request r =
     (if rl_token r then r\<lparr>rl_token := False, rl_phase := Sleeping\<rparr>
      else r\<lparr>rl_late := (rl_late r \<or> rl_phase r = Signalled)\<rparr>)"

text \<open>\<open>sendProxyReloadSignal\<close>: the file of the process number, the number, the signal.\<close>

datatype reload_error = PidFile string | PidNumber string | NoProcess string | SignalFailed string

definition sendProxyReloadSignal :: "string + string \<Rightarrow> (int \<Rightarrow> string option) \<Rightarrow> (int \<Rightarrow> string option) \<Rightarrow> reload_error + int" where
  "sendProxyReloadSignal pidfile find_process hup =
     (case pidfile of Inl e \<Rightarrow> Inl (PidFile e)
      | Inr content \<Rightarrow>
      case atoi content of None \<Rightarrow> Inl (PidNumber content)
      | Some pid \<Rightarrow>
      case find_process pid of Some e \<Rightarrow> Inl (NoProcess e)
      | None \<Rightarrow>
      case hup pid of Some e \<Rightarrow> Inl (SignalFailed e) | None \<Rightarrow> Inr pid)"

definition after_signal :: "reload_error + int \<Rightarrow> reloader \<Rightarrow> reloader" where
  "after_signal sent r =
     (case sent of Inl _ \<Rightarrow> r\<lparr>rl_phase := Signalled, rl_late := True\<rparr>
      | Inr _ \<Rightarrow> r\<lparr>rl_phase := Signalled, rl_seen := rl_version r, rl_late := False\<rparr>)"

text \<open>A save is followed by a request; the proxy reads the files when the signal comes.\<close>

inductive reload_step :: "reloader \<Rightarrow> reloader \<Rightarrow> bool" where
  save_and_request: "reload_step r (reload_Request (r\<lparr>rl_version := rl_version r + 1\<rparr>))"
| signal: "rl_phase r = Sleeping \<Longrightarrow> reload_step r (after_signal (sendProxyReloadSignal pidfile find_process hup) r)"
| give_back: "rl_phase r = Signalled \<Longrightarrow> reload_step r (r\<lparr>rl_phase := Idle, rl_token := True\<rparr>)"

inductive_cases reload_stepE: "reload_step r r'"

subsection \<open>The certificate of the API\<close>

text \<open>
  A file is its date and content. \<open>decode\<close> is \<open>pem.Decode\<close>: the type and bytes of the first block, if
  any, and what is left; the key parsers are third-party functions too.
\<close>

record cert_tools =
  ct_pem :: "string \<Rightarrow> (string \<times> string) option \<times> string"
  ct_pkcs1 :: "string \<Rightarrow> string option"
  ct_pkcs8 :: "string \<Rightarrow> (bool \<times> string) option"
  ct_ec :: "string \<Rightarrow> string option"

datatype cert_error = UnknownHost string | NoCertFile | NoPrivateKey | BadKeyType | BadPrivateKey | CorruptedPublicKey

definition parsePrivateKey :: "cert_tools \<Rightarrow> string \<Rightarrow> cert_error + string" where
  "parsePrivateKey t der =
     (case ct_pkcs1 t der of Some key \<Rightarrow> Inr key
      | None \<Rightarrow>
      case ct_pkcs8 t der of Some (known, key) \<Rightarrow> if known then Inr key else Inl BadKeyType
      | None \<Rightarrow>
      case ct_ec t der of Some key \<Rightarrow> Inr key | None \<Rightarrow> Inl BadPrivateKey)"

text \<open>The blocks after the key; as many turns as there are characters are enough, a block takes some.\<close>

fun public_blocks :: "nat \<Rightarrow> (string \<Rightarrow> (string \<times> string) option \<times> string) \<Rightarrow> string \<Rightarrow> string list \<times> string" where
  "public_blocks n pem [] = ([], [])"
| "public_blocks 0 pem (c # cs) = ([], c # cs)"
| "public_blocks (Suc n) pem (c # cs) =
     (case pem (c # cs) of (None, rest) \<Rightarrow> ([], rest)
      | (Some (_, der), rest) \<Rightarrow> apfst ((#) der) (public_blocks n pem rest))"

definition read_cert :: "cert_tools \<Rightarrow> string \<Rightarrow> cert_error + string list \<times> string" where
  "read_cert t content =
     (case ct_pem t content of (None, pub) \<Rightarrow> Inl NoPrivateKey
      | (Some (ty, der), pub) \<Rightarrow>
      if \<not> go_contains ''PRIVATE'' ty then Inl NoPrivateKey
      else case parsePrivateKey t der of Inl e \<Rightarrow> Inl e
      | Inr privKey \<Rightarrow>
      case public_blocks (length pub) (ct_pem t) pub of (pubDER, left) \<Rightarrow>
        if left \<noteq> [] then Inl CorruptedPublicKey else Inr (pubDER, privKey))"

record cert_manager =
  cm_Domain :: string
  cm_ModTime :: time
  cm_Cached :: "(string list \<times> string) option"

text \<open>\<open>stat_after\<close> is the file after the call of our own URL, that is made when it is missing.\<close>

definition GetAPICertificate ::
  "cert_tools \<Rightarrow> (time \<times> string) option \<Rightarrow> (time \<times> string) option \<Rightarrow> string \<Rightarrow> cert_manager
    \<Rightarrow> cert_manager \<times> (cert_error + (string list \<times> string) option)" where
  "GetAPICertificate t stat stat_after name cm =
     (if name \<noteq> cm_Domain cm then (cm, Inl (UnknownHost name))
      else case (case stat of None \<Rightarrow> stat_after | Some f \<Rightarrow> Some f) of
        None \<Rightarrow> (cm, Inl NoCertFile)
      | Some (modTime, content) \<Rightarrow>
          if modTime = cm_ModTime cm then (cm, Inr (cm_Cached cm))
          else case read_cert t content of
              Inl e \<Rightarrow> (cm, Inl e)
            | Inr cert \<Rightarrow> (cm\<lparr>cm_ModTime := modTime, cm_Cached := Some cert\<rparr>, Inr (Some cert)))"

definition new_cert_manager :: "string \<Rightarrow> cert_manager" where
  "new_cert_manager domain_name = \<lparr>cm_Domain = domain_name, cm_ModTime = zero_time, cm_Cached = None\<rparr>"

subsection \<open>Alerts\<close>

record alert =
  al_Type :: string
  al_Subject :: string
  al_Content :: string

text \<open>What the alert directory is: missing, no directory, or its \<open>*.sh\<close> files in order.\<close>

datatype alert_dir = DirMissing string | NotADirectory | Scripts "string + string list"

datatype alert_error = AlertDir string | AlertScripts "string list"

definition listScripts :: "alert_dir \<Rightarrow> alert_error + string list" where
  "listScripts d =
     (case d of DirMissing e \<Rightarrow> Inl (AlertDir e) | NotADirectory \<Rightarrow> Inl (AlertDir ''is not a directory'')
      | Scripts (Inl e) \<Rightarrow> Inl (AlertDir e) | Scripts (Inr l) \<Rightarrow> Inr l)"

definition NewAlertSender :: "string \<Rightarrow> alert_dir \<Rightarrow> alert_error + string" where
  "NewAlertSender configPath d = map_sum id (\<lambda>l. path_clean (configPath @ ''/alerts'')) (listScripts d)"

definition alert_env :: "string \<Rightarrow> alert \<Rightarrow> (string \<times> string) list" where
  "alert_env datetime a =
     [(''TYPE'', al_Type a), (''SUBJECT'', al_Subject a), (''CONTENT'', al_Content a), (''DATETIME'', datetime)]"

text \<open>Every script runs, in order; \<open>exec\<close> is the run of one: the outside changed and whether it failed.\<close>

fun run_alerts :: "(string \<Rightarrow> (string \<times> string) list \<Rightarrow> 'w \<Rightarrow> 'w \<times> bool) \<Rightarrow> (string \<times> string) list \<Rightarrow> string list \<Rightarrow> 'w \<Rightarrow> 'w \<times> string list" where
  "run_alerts exec env [] w = (w, [])"
| "run_alerts exec env (script # scripts) w =
     (case exec script env w of (w1, ok) \<Rightarrow>
      case run_alerts exec env scripts w1 of (w2, failed) \<Rightarrow> (w2, if ok then failed else script # failed))"

definition alert_Send ::
  "(string \<Rightarrow> (string \<times> string) list \<Rightarrow> 'w \<Rightarrow> 'w \<times> bool) \<Rightarrow> string \<Rightarrow> alert_dir \<Rightarrow> alert \<Rightarrow> 'w \<Rightarrow> 'w \<times> alert_error option" where
  "alert_Send exec datetime d a w =
     (case listScripts d of Inl e \<Rightarrow> (w, Some e)
      | Inr scripts \<Rightarrow>
          (case run_alerts exec (alert_env datetime a) scripts w of (w1, failed) \<Rightarrow>
             (w1, if failed = [] then None else Some (AlertScripts failed))))"

end
