(* ===== verification/Server_Upkeep_Props.thy ===== *)
theory Server_Upkeep_Props
  imports Server_Upkeep
begin

text \<open>
  Which reload requests are served, that the certificate of the API is the one of the present file,
  and that every alert script runs.
\<close>

subsection \<open>Reload requests\<close>

definition reloader_ok :: "reloader \<Rightarrow> bool" where
  "reloader_ok r \<longleftrightarrow> (rl_token r \<longleftrightarrow> rl_phase r = Idle) \<and> rl_seen r \<le> rl_version r \<and>
     (rl_phase r = Sleeping \<longrightarrow> rl_seen r < rl_version r) \<and>
     (rl_phase r \<noteq> Sleeping \<longrightarrow> (rl_late r \<longleftrightarrow> rl_seen r < rl_version r))"

lemma reloader_step_ok:
  assumes "reload_step r r'" "reloader_ok r"
  shows "reloader_ok r'"
  using assms by cases (cases "rl_phase r"; auto simp: reloader_ok_def reload_Request_def after_signal_def split: if_splits sum.splits)+

lemma reloader_reach_ok: "reload_step\<^sup>*\<^sup>* NewProxyReloader r \<Longrightarrow> reloader_ok r"
  by (induction rule: rtranclp_induct) (auto simp: NewProxyReloader_def reloader_ok_def reloader_step_ok [unfolded reloader_ok_def])

text \<open>The proxy of process 1 runs.\<close>

lemma sent_signal:
  assumes "rl_phase r = Sleeping"
  shows "reload_step r (r\<lparr>rl_phase := Signalled, rl_seen := rl_version r, rl_late := False\<rparr>)"
  using signal [OF assms, of "Inr (itoa 1)" "\<lambda>_. None" "\<lambda>_. None"]
  by (simp add: sendProxyReloadSignal_def after_signal_def atoi_itoa max_int_def)

lemma reloader_returns:
  "\<exists>r'. reload_step\<^sup>*\<^sup>* r r' \<and> rl_phase r' = Idle \<and> rl_version r' = rl_version r
     \<and> (rl_phase r = Sleeping \<longrightarrow> rl_seen r' = rl_version r)"
proof -
  have home: "reload_step\<^sup>*\<^sup>* r (r\<lparr>rl_phase := Idle, rl_token := True\<rparr>)" if "rl_phase r = Signalled" for r
    using give_back [OF that] by blast
  show ?thesis
  proof (cases "rl_phase r")
    case Sleeping
    let ?s = "r\<lparr>rl_phase := Signalled, rl_seen := rl_version r, rl_late := False\<rparr>"
    have "reload_step\<^sup>*\<^sup>* r (?s\<lparr>rl_phase := Idle, rl_token := True\<rparr>)"
      using sent_signal [OF Sleeping] home [of ?s] by (simp add: converse_rtranclp_into_rtranclp)
    then show ?thesis by (intro exI [of _ "?s\<lparr>rl_phase := Idle, rl_token := True\<rparr>"]) simp
  next
    case Signalled
    then show ?thesis using home [OF Signalled] by (intro exI [of _ "r\<lparr>rl_phase := Idle, rl_token := True\<rparr>"]) simp
  qed auto
qed

text \<open>The reloader always comes back to rest, with the proxy having read the files as they are,
  unless the last signal failed or a save came between it and the return of the token: exactly then,
  the last save is not read until another request.\<close>

theorem reload_requests_served:
  assumes "reload_step\<^sup>*\<^sup>* NewProxyReloader r"
  shows "(rl_phase r = Idle \<longrightarrow> (rl_seen r = rl_version r \<longleftrightarrow> \<not> rl_late r))
    \<and> (\<exists>r'. reload_step\<^sup>*\<^sup>* r r' \<and> rl_phase r' = Idle \<and> rl_version r' = rl_version r
         \<and> (rl_phase r = Sleeping \<longrightarrow> rl_seen r' = rl_version r))"
  using reloader_reach_ok [OF assms] reloader_returns [of r] by (auto simp: reloader_ok_def)

text \<open>The missed save: one during the work, after its signal.\<close>

lemma late_save_reached:
  "\<exists>r. reload_step\<^sup>*\<^sup>* NewProxyReloader r \<and> rl_phase r = Idle \<and> rl_seen r = 1 \<and> rl_version r = 2 \<and> rl_late r"
proof -
  let ?a = "reload_Request (NewProxyReloader\<lparr>rl_version := rl_version NewProxyReloader + 1\<rparr>)"
  let ?b = "?a\<lparr>rl_phase := Signalled, rl_seen := rl_version ?a, rl_late := False\<rparr>"
  let ?c = "reload_Request (?b\<lparr>rl_version := rl_version ?b + 1\<rparr>)"
  let ?d = "?c\<lparr>rl_phase := Idle, rl_token := True\<rparr>"
  have phases: "rl_phase ?a = Sleeping" "rl_phase ?c = Signalled" by (simp_all add: reload_Request_def NewProxyReloader_def)
  have steps: "reload_step NewProxyReloader ?a" "reload_step ?b ?c" by (rule save_and_request)+
  have "reload_step ?a ?b" by (rule sent_signal [OF phases(1)])
  moreover have "reload_step ?c ?d" by (rule give_back [OF phases(2)])
  ultimately have "reload_step\<^sup>*\<^sup>* NewProxyReloader ?d" using steps
    by (meson converse_rtranclp_into_rtranclp r_into_rtranclp)
  moreover have "rl_phase ?d = Idle \<and> rl_seen ?d = 1 \<and> rl_version ?d = 2 \<and> rl_late ?d"
    by (simp add: reload_Request_def NewProxyReloader_def)
  ultimately show ?thesis by blast
qed

theorem reload_requests_served_witness:
  "\<exists>r. reload_step\<^sup>*\<^sup>* NewProxyReloader r \<and> rl_phase r = Idle \<and> rl_seen r \<noteq> rl_version r"
proof -
  obtain r where r: "reload_step\<^sup>*\<^sup>* NewProxyReloader r" "rl_phase r = Idle" "rl_late r" using late_save_reached by blast
  with reload_requests_served [OF r(1)] show ?thesis by blast
qed

subsection \<open>The certificate of the API\<close>

text \<open>A call: the file before and after the call of our own URL, and the host that is asked for.\<close>

definition cert_calls ::
  "cert_tools \<Rightarrow> ((time \<times> string) option \<times> (time \<times> string) option \<times> string) list \<Rightarrow> cert_manager \<Rightarrow> cert_manager" where
  "cert_calls t calls cm = foldl (\<lambda>cm (a, b, name). fst (GetAPICertificate t a b name cm)) cm calls"

definition dated :: "(time \<Rightarrow> string) \<Rightarrow> (time \<times> string) option \<Rightarrow> bool" where
  "dated content f \<longleftrightarrow> (\<forall>m c. f = Some (m, c) \<longrightarrow> c = content m \<and> m \<noteq> zero_time)"

definition cert_manager_ok :: "cert_tools \<Rightarrow> (time \<Rightarrow> string) \<Rightarrow> cert_manager \<Rightarrow> bool" where
  "cert_manager_ok t content cm \<longleftrightarrow>
     (case cm_Cached cm of None \<Rightarrow> cm_ModTime cm = zero_time
      | Some cert \<Rightarrow> read_cert t (content (cm_ModTime cm)) = Inr cert)"

lemma GetAPICertificate_ok:
  assumes "cert_manager_ok t content cm" "dated content a" "dated content b"
  shows "cert_manager_ok t content (fst (GetAPICertificate t a b name cm))"
    and "\<And>r. snd (GetAPICertificate t a b name cm) = Inr r \<Longrightarrow>
      name = cm_Domain cm \<and> (\<exists>m c cert. (case a of None \<Rightarrow> b | Some f \<Rightarrow> Some f) = Some (m, c)
        \<and> read_cert t c = Inr cert \<and> r = Some cert)"
proof -
  have d: "dated content (case a of None \<Rightarrow> b | Some f \<Rightarrow> Some f)" using assms(2,3) by (cases a) simp_all
  show "cert_manager_ok t content (fst (GetAPICertificate t a b name cm))"
    using assms(1) d by (auto simp: GetAPICertificate_def cert_manager_ok_def dated_def split: option.splits sum.splits)
  show "name = cm_Domain cm \<and> (\<exists>m c cert. (case a of None \<Rightarrow> b | Some f \<Rightarrow> Some f) = Some (m, c)
        \<and> read_cert t c = Inr cert \<and> r = Some cert)" if "snd (GetAPICertificate t a b name cm) = Inr r" for r
    using that assms(1) d
    by (auto simp: GetAPICertificate_def cert_manager_ok_def dated_def split: option.splits sum.splits if_splits)
qed

lemma cert_calls_ok:
  "cert_manager_ok t content cm \<Longrightarrow> \<forall>(a, b, name) \<in> set calls. dated content a \<and> dated content b
    \<Longrightarrow> cert_manager_ok t content (cert_calls t calls cm)"
  by (induction calls arbitrary: cm) (auto simp: cert_calls_def GetAPICertificate_ok(1))

text \<open>C34. As long as the date of the certificate file tells its content, the API never answers with
  another certificate than that of the present file, however often it was asked before, and never
  for another host than its own.\<close>

theorem api_certificate_current:
  assumes "\<forall>(a, b, name) \<in> set calls. dated content a \<and> dated content b" "dated content a" "dated content b"
    and "snd (GetAPICertificate t a b name (cert_calls t calls (new_cert_manager host))) = Inr r"
  shows "name = cm_Domain (cert_calls t calls (new_cert_manager host))
    \<and> (\<exists>m c cert. (case a of None \<Rightarrow> b | Some f \<Rightarrow> Some f) = Some (m, c) \<and> read_cert t c = Inr cert \<and> r = Some cert)"
proof -
  have "cert_manager_ok t content (new_cert_manager host)" by (simp add: cert_manager_ok_def new_cert_manager_def)
  from GetAPICertificate_ok(2) [OF cert_calls_ok [OF this assms(1)] assms(2,3,4)] show ?thesis .
qed

definition one_tool :: cert_tools where
  "one_tool = \<lparr>ct_pem = (\<lambda>s. (Some (''PRIVATE KEY'', s), [])), ct_pkcs1 = Some, ct_pkcs8 = (\<lambda>s. None), ct_ec = (\<lambda>s. None)\<rparr>"

theorem api_certificate_current_witness:
  "\<exists>cert. snd (GetAPICertificate one_tool (Some (7, ''new'')) None ''api''
     (cert_calls one_tool [(Some (5, ''old''), None, ''api'')] (new_cert_manager ''api''))) = Inr (Some cert)
     \<and> read_cert one_tool ''new'' = Inr cert"
proof -
  let ?content = "\<lambda>m. if m = 7 then ''new'' else ''old''"
  obtain r where r: "snd (GetAPICertificate one_tool (Some (7, ''new'')) None ''api''
     (cert_calls one_tool [(Some (5, ''old''), None, ''api'')] (new_cert_manager ''api''))) = Inr r"
    by (simp add: cert_calls_def GetAPICertificate_def new_cert_manager_def read_cert_def one_tool_def parsePrivateKey_def
        has_prefix_def zero_time_def)
  from api_certificate_current [OF _ _ _ r, of ?content] r show ?thesis
    by (auto simp: dated_def zero_time_def)
qed

subsection \<open>Alerts\<close>

text \<open>A failing script keeps no other from running, and the error names exactly those that failed.\<close>

lemma run_alerts_append:
  "run_alerts exec env (xs @ ys) w =
     (case run_alerts exec env xs w of (w1, f1) \<Rightarrow> case run_alerts exec env ys w1 of (w2, f2) \<Rightarrow> (w2, f1 @ f2))"
  by (induction xs arbitrary: w) (auto split: prod.splits)

lemma run_alerts_all:
  assumes "\<And>script w. exec script env w = (w @ [script], script \<notin> bad)"
  shows "run_alerts exec env scripts w = (w @ scripts, filter (\<lambda>s. s \<in> bad) scripts)"
  by (induction scripts arbitrary: w) (simp_all add: assms)

end
